(* ===== verification/Prelude.thy ===== *)
theory Prelude
  imports "HOL-Library.Word" "HOL-Library.AList" "HOL-Library.Char_ord"
begin

text \<open>
  Shared vocabulary of the development: the exceptions a piece of Python code
  raises and the two result types the model threads them through, insertion
  ordered dictionaries, and the string and integer primitives of the Python
  standard library the sources use (hexadecimal formatting, \<^verbatim>\<open>int(s, base)\<close>,
  \<^verbatim>\<open>split\<close>, \<^verbatim>\<open>strip\<close>, \<^verbatim>\<open>join\<close>).  A Python \<^verbatim>\<open>int\<close> is an HOL
  \<^typ>\<open>int\<close>, a \<^verbatim>\<open>str\<close> an HOL \<^typ>\<open>string\<close> and a \<^verbatim>\<open>bytes\<close> object a list of
  8-bit words.
\<close>

named_theorems result_simps \<open>evaluation rules of the result types\<close>

section \<open>Exceptions and results\<close>

datatype exn_class =
    GdbError | GdbMemoryError | ValueError | KeyError | IndexError | StructError
  | OSError | FileNotFoundError | RuntimeError | TypeError | AssertionError
  | AttributeError | NotImplementedError | AlreadyRegistered | OverflowError
  | PlainException | UnicodeError | ConnectionRefused | LookupError | KeyboardInterrupt
  | ZeroDivisionError | PermissionError | StopIteration | SystemError | RuntimeWarning

datatype py_exn = Exn (exn_cls: exn_class) (exn_msg: string)

type_synonym 'a result = "py_exn + 'a"
type_synonym byte = "8 word"
type_synonym 'v dict = "(string \<times> 'v) list"

abbreviation raise :: "exn_class \<Rightarrow> string \<Rightarrow> 'a result" where
  "raise c m \<equiv> Inl (Exn c m)"

fun bindE :: "('e + 'a) \<Rightarrow> ('a \<Rightarrow> 'e + 'b) \<Rightarrow> 'e + 'b" where
  "bindE (Inl e) f = Inl e"
| "bindE (Inr x) f = f x"

fun is_ok :: "('e + 'a) \<Rightarrow> bool" where
  "is_ok (Inl _) = False"
| "is_ok (Inr _) = True"

fun mapE :: "('a \<Rightarrow> 'e + 'b) \<Rightarrow> 'a list \<Rightarrow> 'e + 'b list" where
  "mapE f [] = Inr []"
| "mapE f (x # xs) = bindE (f x) (\<lambda>y. bindE (mapE f xs) (\<lambda>ys. Inr (y # ys)))"

text \<open>\<^verbatim>\<open>try: m except Exception: d\<close>\<close>
fun or_default :: "('e + 'a) \<Rightarrow> 'a \<Rightarrow> 'a" where
  "or_default (Inl _) d = d"
| "or_default (Inr x) _ = x"

text \<open>Stateful code keeps the state it had when it raised.\<close>
type_synonym ('s, 'a) stm = "'s \<Rightarrow> 'a result \<times> 's"

definition bindS :: "('s, 'a) stm \<Rightarrow> ('a \<Rightarrow> ('s, 'b) stm) \<Rightarrow> ('s, 'b) stm" where
  "bindS m f s = (case m s of (Inl e, s') \<Rightarrow> (Inl e, s') | (Inr x, s') \<Rightarrow> f x s')"

definition retS :: "'a \<Rightarrow> ('s, 'a) stm" where
  "retS x s = (Inr x, s)"

definition raiseS :: "exn_class \<Rightarrow> string \<Rightarrow> ('s, 'a) stm" where
  "raiseS c m s = (raise c m, s)"

definition modS :: "('s \<Rightarrow> 's) \<Rightarrow> ('s, unit) stm" where
  "modS f s = (Inr (), f s)"

fun foldS :: "('x \<Rightarrow> ('s, unit) stm) \<Rightarrow> 'x list \<Rightarrow> ('s, unit) stm" where
  "foldS f [] = retS ()"
| "foldS f (x # xs) = bindS (f x) (\<lambda>_. foldS f xs)"

lemmas state_simps = bindS_def retS_def raiseS_def modS_def

lemma bindE_assoc [result_simps]:
  "bindE (bindE m f) g = bindE m (\<lambda>x. bindE (f x) g)"
  by (cases m) auto

lemma bindE_Inr_iff [result_simps]:
  "bindE m f = Inr y \<longleftrightarrow> (\<exists>x. m = Inr x \<and> f x = Inr y)"
  by (cases m) auto

lemma bindE_Inl_iff [result_simps]:
  "bindE m f = Inl e \<longleftrightarrow> m = Inl e \<or> (\<exists>x. m = Inr x \<and> f x = Inl e)"
  by (cases m) auto

lemma mapE_Inr_length: "mapE f xs = Inr ys \<Longrightarrow> length ys = length xs"
  by (induction xs arbitrary: ys) (auto simp: result_simps)

lemma mapE_all_ok: "(\<And>x. x \<in> set xs \<Longrightarrow> f x = Inr (g x)) \<Longrightarrow> mapE f xs = Inr (map g xs)"
  by (induction xs) auto

lemma is_ok_iff [result_simps]: "is_ok m \<longleftrightarrow> (\<exists>x. m = Inr x)"
  by (cases m) auto

text \<open>Every outcome of a stateful operation, errors included, keeps a property of the state\<close>
named_theorems keeps_intros \<open>the operations that keep a state property\<close>

definition keeps :: "('s \<Rightarrow> bool) \<Rightarrow> ('s, 'a) stm \<Rightarrow> bool" where
  "keeps P m \<longleftrightarrow> (\<forall>s. P s \<longrightarrow> P (snd (m s)))"

lemma keepsD: "keeps P m \<Longrightarrow> m s = (r, s') \<Longrightarrow> P s \<Longrightarrow> P s'"
  by (auto simp: keeps_def dest: spec [of _ s])

lemma keepsI: "(\<And>s. P s \<Longrightarrow> P (snd (m s))) \<Longrightarrow> keeps P m"
  by (simp add: keeps_def)

lemma keeps_bind [keeps_intros]: "keeps P m \<Longrightarrow> (\<And>x. keeps P (f x)) \<Longrightarrow> keeps P (bindS m f)"
  by (auto simp: keeps_def bindS_def split: prod.split sum.split)

lemma keeps_ret [keeps_intros]: "keeps P (retS x)"
  by (simp add: keeps_def retS_def)

lemma keeps_raise [keeps_intros]: "keeps P (raiseS c m)"
  by (simp add: keeps_def raiseS_def)

lemma keeps_mod: "(\<And>s. P s \<Longrightarrow> P (f s)) \<Longrightarrow> keeps P (modS f)"
  by (simp add: keeps_def modS_def)

lemma keeps_fold [keeps_intros]: "(\<And>x. keeps P (f x)) \<Longrightarrow> keeps P (foldS f xs)"
  by (induction xs) (auto intro: keeps_intros)

section \<open>Python strings\<close>

definition startswith :: "string \<Rightarrow> string \<Rightarrow> bool" where
  "startswith s p = (take (length p) s = p)"

definition endswith :: "string \<Rightarrow> string \<Rightarrow> bool" where
  "endswith s p = (startswith (rev s) (rev p))"

text \<open>\<^verbatim>\<open>p in s\<close>\<close>
fun str_in :: "string \<Rightarrow> string \<Rightarrow> bool" where
  "str_in p [] = (p = [])"
| "str_in p (c # cs) = (startswith (c # cs) p \<or> str_in p cs)"

text \<open>\<^verbatim>\<open>s.find(p)\<close>, with None for -1\<close>
fun str_find :: "string \<Rightarrow> string \<Rightarrow> nat option" where
  "str_find p [] = (if p = [] then Some 0 else None)"
| "str_find p (c # cs) =
     (if startswith (c # cs) p then Some 0 else map_option Suc (str_find p cs))"

definition is_space :: "char \<Rightarrow> bool" where
  "is_space c = (c = CHR '' '' \<or> (9 \<le> (of_char c :: nat) \<and> (of_char c :: nat) \<le> 13)
                 \<or> (28 \<le> (of_char c :: nat) \<and> (of_char c :: nat) \<le> 31))"

definition lstrip_of :: "(char \<Rightarrow> bool) \<Rightarrow> string \<Rightarrow> string" where
  "lstrip_of p s = dropWhile p s"

definition rstrip_of :: "(char \<Rightarrow> bool) \<Rightarrow> string \<Rightarrow> string" where
  "rstrip_of p s = rev (dropWhile p (rev s))"

definition strip :: "string \<Rightarrow> string" where
  "strip s = rstrip_of is_space (lstrip_of is_space s)"

text \<open>\<^verbatim>\<open>s.split(c)\<close> on one character, and \<^verbatim>\<open>s.split()\<close> on white space\<close>
fun split_on :: "char \<Rightarrow> string \<Rightarrow> string list" where
  "split_on d [] = [[]]"
| "split_on d (c # cs) =
     (if c = d then [] # split_on d cs
      else (case split_on d cs of w # ws \<Rightarrow> (c # w) # ws | [] \<Rightarrow> [[c]]))"

text \<open>\<^verbatim>\<open>s.split(c, n)\<close>: at most n cuts\<close>
fun split_max :: "char \<Rightarrow> nat \<Rightarrow> string \<Rightarrow> string list" where
  "split_max d n [] = [[]]"
| "split_max d n (c # cs) =
     (if n = 0 then [c # cs]
      else if c = d then [] # split_max d (n - 1) cs
      else (case split_max d n cs of w # ws \<Rightarrow> (c # w) # ws | [] \<Rightarrow> [[c]]))"

fun split_ws_aux :: "string \<Rightarrow> string \<Rightarrow> string list" where
  "split_ws_aux acc [] = (if acc = [] then [] else [rev acc])"
| "split_ws_aux acc (c # cs) =
     (if is_space c then (if acc = [] then split_ws_aux [] cs else rev acc # split_ws_aux [] cs)
      else split_ws_aux (c # acc) cs)"

definition split_ws :: "string \<Rightarrow> string list" where
  "split_ws s = split_ws_aux [] s"

fun join :: "string \<Rightarrow> string list \<Rightarrow> string" where
  "join sep [] = []"
| "join sep [x] = x"
| "join sep (x # y # zs) = x @ sep @ join sep (y # zs)"

text \<open>\<^verbatim>\<open>s[:k]\<close>\<close>
definition slice_to :: "int \<Rightarrow> 'a list \<Rightarrow> 'a list" where
  "slice_to k s = (if 0 \<le> k then take (nat k) s else take (length s - nat (- k)) s)"

definition lower_char :: "char \<Rightarrow> char" where
  "lower_char c = (let n = (of_char c :: nat) in
     if 65 \<le> n \<and> n \<le> 90 then char_of (n + 32) else c)"

definition upper_char :: "char \<Rightarrow> char" where
  "upper_char c = (let n = (of_char c :: nat) in
     if 97 \<le> n \<and> n \<le> 122 then char_of (n - 32) else c)"

definition lower :: "string \<Rightarrow> string" where "lower s = map lower_char s"
definition upper :: "string \<Rightarrow> string" where "upper s = map upper_char s"

definition ljust :: "nat \<Rightarrow> string \<Rightarrow> string" where
  "ljust w s = s @ replicate (w - length s) (CHR '' '')"

definition rjust :: "nat \<Rightarrow> string \<Rightarrow> string" where
  "rjust w s = replicate (w - length s) (CHR '' '') @ s"

text \<open>\<^verbatim>\<open>s.replace(a, b)\<close> for a non-empty a\<close>
function str_replace :: "string \<Rightarrow> string \<Rightarrow> string \<Rightarrow> string" where
  "str_replace a b [] = []"
| "str_replace a b (c # cs) =
     (if a \<noteq> [] \<and> startswith (c # cs) a then b @ str_replace a b (drop (length a) (c # cs))
      else c # str_replace a b cs)"
  by pat_completeness auto
termination by (relation "measure (\<lambda>(a, b, s). length s)") (auto simp: Suc_le_eq)

section \<open>Integers as text\<close>

definition digit_char :: "nat \<Rightarrow> char" where
  "digit_char n = (if n < 10 then char_of (48 + n) else char_of (87 + n))"

definition digit_val :: "char \<Rightarrow> nat option" where
  "digit_val c = (let n = (of_char c :: nat) in
     if 48 \<le> n \<and> n \<le> 57 then Some (n - 48)
     else if 97 \<le> n \<and> n \<le> 122 then Some (n - 87)
     else if 65 \<le> n \<and> n \<le> 90 then Some (n - 55) else None)"

function nat_digits :: "nat \<Rightarrow> nat \<Rightarrow> string" where
  "nat_digits b n = (if b < 2 \<or> n < b then [digit_char n]
                     else nat_digits b (n div b) @ [digit_char (n mod b)])"
  by pat_completeness auto
termination by (relation "measure snd") auto

declare nat_digits.simps [simp del]

definition zfill :: "nat \<Rightarrow> string \<Rightarrow> string" where
  "zfill w s = replicate (w - length s) (CHR ''0'') @ s"

text \<open>\<^verbatim>\<open>f'{x:#x}'\<close>, \<^verbatim>\<open>f'{x:d}'\<close> and \<^verbatim>\<open>f'{x:x}'\<close>\<close>
definition fmt_x :: "int \<Rightarrow> string" where
  "fmt_x x = (if x < 0 then ''-'' else []) @ nat_digits 16 (nat \<bar>x\<bar>)"

definition hexs :: "int \<Rightarrow> string" where
  "hexs x = (if x < 0 then ''-'' else []) @ ''0x'' @ nat_digits 16 (nat \<bar>x\<bar>)"

definition decs :: "int \<Rightarrow> string" where
  "decs x = (if x < 0 then ''-'' else []) @ nat_digits 10 (nat \<bar>x\<bar>)"

text \<open>\<^verbatim>\<open>f'{x:#0wx}'\<close>: the sign and the prefix count in the width\<close>
definition hexs0 :: "nat \<Rightarrow> int \<Rightarrow> string" where
  "hexs0 w x = (let sg = (if x < 0 then ''-'' else []) in
     sg @ ''0x'' @ zfill (w - 2 - length sg) (nat_digits 16 (nat \<bar>x\<bar>)))"

text \<open>\<^verbatim>\<open>f'{x:0wx}'\<close>\<close>
definition fmt_x0 :: "nat \<Rightarrow> int \<Rightarrow> string" where
  "fmt_x0 w x = (let sg = (if x < 0 then ''-'' else []) in
     sg @ zfill (w - length sg) (nat_digits 16 (nat \<bar>x\<bar>)))"

text \<open>The digits of a literal: single underscores may separate digits.  The flag
  says that the last character read was a digit.\<close>
fun digits_val :: "nat \<Rightarrow> bool \<Rightarrow> nat \<Rightarrow> string \<Rightarrow> nat option" where
  "digits_val b prev acc [] = (if prev then Some acc else None)"
| "digits_val b prev acc (c # cs) =
     (if c = CHR ''_'' then (if prev then digits_val b False acc cs else None)
      else (case digit_val c of
              None \<Rightarrow> None
            | Some d \<Rightarrow> if d < b then digits_val b True (acc * b + d) cs else None))"

definition after_prefix :: "nat \<Rightarrow> string \<Rightarrow> nat option" where
  "after_prefix b s = (case s of c # cs \<Rightarrow>
       if c = CHR ''_'' then digits_val b False 0 cs else digits_val b False 0 s | [] \<Rightarrow> None)"

definition base_prefix :: "string \<Rightarrow> nat option" where
  "base_prefix s = (case s of c # d # _ \<Rightarrow>
       if c \<noteq> CHR ''0'' then None
       else if d = CHR ''x'' \<or> d = CHR ''X'' then Some 16
       else if d = CHR ''o'' \<or> d = CHR ''O'' then Some 8
       else if d = CHR ''b'' \<or> d = CHR ''B'' then Some 2 else None
     | _ \<Rightarrow> None)"

definition uint_text :: "nat \<Rightarrow> string \<Rightarrow> nat option" where
  "uint_text b s =
     (if b = 0 then
        (case base_prefix s of
           Some b' \<Rightarrow> after_prefix b' (drop 2 s)
         | None \<Rightarrow>
             (case digits_val 10 False 0 s of
                None \<Rightarrow> None
              | Some n \<Rightarrow> if startswith s ''0'' \<and> n \<noteq> 0 then None else Some n))
      else if base_prefix s = Some b then after_prefix b (drop 2 s)
      else digits_val b False 0 s)"

text \<open>\<^verbatim>\<open>int(s, b)\<close>; base 0 reads the prefix\<close>
definition py_int :: "nat \<Rightarrow> string \<Rightarrow> int result" where
  "py_int b s0 =
     (let s = strip s0;
          neg = startswith s ''-'';
          t = (if neg \<or> startswith s ''+'' then drop 1 s else s)
      in case uint_text b t of
           None \<Rightarrow> raise ValueError ''invalid literal for int()''
         | Some n \<Rightarrow> Inr (if neg then - int n else int n))"

section \<open>Facts about the primitives\<close>

lemma digit_val_digit_char: "n < 16 \<Longrightarrow> digit_val (digit_char n) = Some n"
  by (simp add: digit_val_def digit_char_def Let_def)

lemma digit_char_not_underscore: "n < 16 \<Longrightarrow> digit_char n \<noteq> CHR ''_''"
proof
  assume "n < 16" and "digit_char n = CHR ''_''"
  then have "(of_char (digit_char n) :: nat) = 95" by simp
  with \<open>n < 16\<close> show False by (simp add: digit_char_def split: if_splits)
qed

lemma nat_digits_not_Nil [simp]: "nat_digits b n \<noteq> []"
  by (subst nat_digits.simps) simp

lemma digits_val_snoc:
  assumes "digits_val b p acc xs = Some a" "digit_val c = Some d" "d < b" "c \<noteq> CHR ''_''"
  shows "digits_val b p acc (xs @ [c]) = Some (a * b + d)"
  using assms
  by (induction b p acc xs rule: digits_val.induct) (auto split: option.splits if_splits)

lemma digits_val_nat_digits:
  assumes "2 \<le> b" "b \<le> 16"
  shows "digits_val b False 0 (nat_digits b n) = Some n"
proof (induction n rule: less_induct)
  case (less n)
  show ?case
  proof (cases "n < b")
    case True
    with assms have "nat_digits b n = [digit_char n]" "n < 16"
      by (auto simp: nat_digits.simps [of b n])
    with True show ?thesis
      by (simp add: digit_val_digit_char digit_char_not_underscore)
  next
    case False
    with assms have eq: "nat_digits b n = nat_digits b (n div b) @ [digit_char (n mod b)]"
      by (simp add: nat_digits.simps [of b n])
    have lt: "n div b < n" using False assms by simp
    have m: "n mod b < b" "n mod b < 16" using assms by (auto intro: less_le_trans [of _ b])
    have "digits_val b False 0 (nat_digits b (n div b) @ [digit_char (n mod b)])
          = Some (n div b * b + n mod b)"
      by (rule digits_val_snoc)
        (use less lt m in \<open>auto simp: digit_val_digit_char digit_char_not_underscore\<close>)
    then show ?thesis by (simp add: eq)
  qed
qed

definition hex_digit :: "char \<Rightarrow> bool" where
  "hex_digit c = (let n = (of_char c :: nat) in
     (48 \<le> n \<and> n \<le> 57) \<or> (97 \<le> n \<and> n \<le> 102))"

lemma hex_digit_digit_char: "n < 16 \<Longrightarrow> hex_digit (digit_char n)"
  by (simp add: hex_digit_def digit_char_def Let_def)

lemma hex_digit_nat_digits:
  assumes "2 \<le> b" "b \<le> 16"
  shows "\<forall>c \<in> set (nat_digits b n). hex_digit c"
proof (induction n rule: less_induct)
  case (less n)
  have m: "n mod b < 16" using assms by (auto intro: less_le_trans [of _ b])
  show ?case
  proof (cases "n < b")
    case True
    with assms show ?thesis
      by (simp add: nat_digits.simps [of b n] hex_digit_digit_char)
  next
    case False
    with assms have "n div b < n" by simp
    then have "\<forall>c \<in> set (nat_digits b (n div b)). hex_digit c" by (rule less)
    with m assms False show ?thesis
      by (simp add: nat_digits.simps [of b n] hex_digit_digit_char)
  qed
qed

lemma hex_digit_zfill: "\<forall>c \<in> set s. hex_digit c \<Longrightarrow> \<forall>c \<in> set (zfill w s). hex_digit c"
  by (auto simp: zfill_def hex_digit_def)

lemma hex_digit_facts:
  assumes "hex_digit c"
  shows "\<not> is_space c" "c \<noteq> CHR ''-''" "c \<noteq> CHR ''+''" "c \<noteq> CHR ''x''" "c \<noteq> CHR ''X''"
    "c \<noteq> CHR ''_''" "c \<noteq> CHR '':''" "c \<noteq> CHR '' ''" "c \<noteq> CHR ''o''" "c \<noteq> CHR ''O''"
  using assms by (auto simp: hex_digit_def is_space_def)

lemma strip_id: "(\<forall>c \<in> set s. \<not> is_space c) \<Longrightarrow> strip s = s"
proof -
  assume a: "\<forall>c \<in> set s. \<not> is_space c"
  have "dropWhile is_space t = t" if "\<forall>c \<in> set t. \<not> is_space c" for t
    using that by (cases t) auto
  note d = this
  have "dropWhile is_space s = s" "dropWhile is_space (rev s) = rev s"
    using a by (auto intro!: d)
  then show ?thesis by (simp add: strip_def lstrip_of_def rstrip_of_def)
qed

lemma digits_val_zeros:
  "s \<noteq> [] \<Longrightarrow> digits_val b p 0 (replicate k (CHR ''0'') @ s) = (if k = 0 then digits_val b p 0 s
     else if b = 0 then None else digits_val b True 0 s)"
  by (induction k arbitrary: p) (auto simp: digit_val_def)

lemma digits_val_prev:
  "s \<noteq> [] \<Longrightarrow> hd s \<noteq> CHR ''_'' \<Longrightarrow> digits_val b True a s = digits_val b False a s"
  by (cases s) (auto split: option.splits)

lemma digits_val_zfill:
  assumes "2 \<le> b" "b \<le> 16"
  shows "digits_val b False 0 (zfill w (nat_digits b n)) = Some n"
proof -
  have "hex_digit (hd (nat_digits b n))"
    using hex_digit_nat_digits [OF assms, of n] by (simp add: hd_in_set)
  then have "hd (nat_digits b n) \<noteq> CHR ''_''" by (rule hex_digit_facts)
  then show ?thesis
    using assms by (simp add: zfill_def digits_val_zeros digits_val_prev digits_val_nat_digits)
qed

lemma base_prefix_16:
  assumes "base_prefix s = Some 16"
  shows "CHR ''x'' \<in> set s \<or> CHR ''X'' \<in> set s"
proof (cases s)
  case (Cons c t)
  with assms show ?thesis
    by (cases t) (simp_all add: base_prefix_def split: if_split_asm, blast)
qed (use assms in \<open>simp add: base_prefix_def\<close>)

lemma py_int_hex_text:
  assumes "s \<noteq> []" "\<forall>c \<in> set s. hex_digit c" "digits_val 16 False 0 s = Some n"
  shows "py_int 16 s = Inr (int n)"
proof -
  have st: "strip s = s" using assms(2) by (intro strip_id) (auto dest: hex_digit_facts(1))
  have hd: "s \<noteq> []" "hex_digit (hd s)" using assms(1,2) by simp_all
  have sg: "\<not> startswith s ''-''" "\<not> startswith s ''+''"
    using hd hex_digit_facts(2,3) [OF hd(2)] by (simp_all add: startswith_def take_Suc)
  have "CHR ''x'' \<notin> set s" "CHR ''X'' \<notin> set s"
    using assms(2) by (auto dest: hex_digit_facts(4,5))
  then have "base_prefix s \<noteq> Some 16" using base_prefix_16 by fast
  with assms(3) have "uint_text 16 s = Some n" by (simp add: uint_text_def)
  then show ?thesis using st sg by (simp add: py_int_def Let_def)
qed

lemma zfill_nonempty: "s \<noteq> [] \<Longrightarrow> zfill w s \<noteq> []"
  by (simp add: zfill_def)

lemma hex_digit_zfill_digits: "\<forall>c \<in> set (zfill w (nat_digits 16 n)). hex_digit c"
  by (rule hex_digit_zfill, rule hex_digit_nat_digits) simp_all

lemma py_int_zfill: "py_int 16 (zfill w (nat_digits 16 n)) = Inr (int n)"
  by (rule py_int_hex_text [OF zfill_nonempty hex_digit_zfill_digits])
    (simp_all add: digits_val_zfill)

lemma py_int_fmt_x0: "0 \<le> x \<Longrightarrow> py_int 16 (fmt_x0 w x) = Inr x"
  by (simp add: fmt_x0_def py_int_zfill)

lemma after_prefix_digits:
  assumes "2 \<le> b" "b \<le> 16"
  shows "after_prefix b (zfill w (nat_digits b n)) = Some n"
proof -
  have "zfill w (nat_digits b n) \<noteq> []" by (simp add: zfill_def)
  moreover have "hex_digit (hd (zfill w (nat_digits b n)))"
    using hex_digit_zfill [OF hex_digit_nat_digits [OF assms]] calculation hd_in_set by blast
  ultimately show ?thesis using digits_val_zfill [OF assms, of w n]
    by (auto simp: after_prefix_def hex_digit_facts split: list.splits)
qed

lemma strip_hex0:
  "strip (CHR ''0'' # CHR ''x'' # zfill w (nat_digits 16 n))
   = CHR ''0'' # CHR ''x'' # zfill w (nat_digits 16 n)"
proof (rule strip_id, rule ballI)
  fix c assume "c \<in> set (CHR ''0'' # CHR ''x'' # zfill w (nat_digits 16 n))"
  then have "c = CHR ''0'' \<or> c = CHR ''x'' \<or> hex_digit c"
    using hex_digit_zfill [OF hex_digit_nat_digits [of 16 n], of w] by auto
  then show "\<not> is_space c" by (auto simp: hex_digit_facts) (simp_all add: is_space_def)
qed

lemma py_int_hexs0:
  assumes "0 \<le> x" "b = 0 \<or> b = 16"
  shows "py_int b (hexs0 w x) = Inr x"
proof -
  let ?t = "CHR ''0'' # CHR ''x'' # zfill (w - 2) (nat_digits 16 (nat x))"
  have "hexs0 w x = ?t" using assms(1) by (simp add: hexs0_def numeral_2_eq_2)
  moreover have "uint_text b ?t = Some (nat x)"
    using assms(2) by (auto simp: uint_text_def base_prefix_def after_prefix_digits)
  ultimately show ?thesis
    using assms(1) by (simp add: py_int_def strip_hex0 startswith_def Let_def)
qed

lemma py_int_hexs:
  assumes "0 \<le> x" "b = 0 \<or> b = 16"
  shows "py_int b (hexs x) = Inr x"
  using py_int_hexs0 [OF assms, of 0] assms(1) by (simp add: hexs_def hexs0_def zfill_def)

lemma split_on_not_Nil [simp]: "split_on d s \<noteq> []"
  by (induction s) (auto split: list.splits)

lemma split_on_append_sep: "split_on d (a @ d # b) = split_on d a @ split_on d b"
proof (induction a)
  case (Cons c a)
  obtain w ws where "split_on d a = w # ws" by (cases "split_on d a") simp_all
  with Cons show ?case by simp
qed simp

lemma split_on_none: "d \<notin> set a \<Longrightarrow> split_on d a = [a]"
  by (induction a) auto

lemma length_nat_digits:
  assumes "2 \<le> b" "n < b ^ k" "0 < k"
  shows "length (nat_digits b n) \<le> k"
  using assms(2,3)
proof (induction n arbitrary: k rule: less_induct)
  case (less n)
  show ?case
  proof (cases "n < b")
    case True
    then show ?thesis using less by (simp add: nat_digits.simps [of b n])
  next
    case False
    then obtain j where k: "k = Suc j" "0 < j" using less by (cases k; cases "k - 1") auto
    have "n div b < b ^ j" using less(2) assms(1) k by (simp add: less_mult_imp_div_less mult.commute)
    with less.IH [of "n div b" j] False assms(1) k show ?thesis
      by (simp add: nat_digits.simps [of b n])
  qed
qed

lemma length_zfill: "length s \<le> w \<Longrightarrow> length (zfill w s) = w"
  by (simp add: zfill_def)

lemma hex_digit_lower: "hex_digit c \<Longrightarrow> lower_char c = c"
  by (auto simp: hex_digit_def lower_char_def Let_def)

text \<open>\<^verbatim>\<open>s.splitlines()\<close> on line feeds\<close>
definition splitlines :: "string \<Rightarrow> string list" where
  "splitlines s = (let ls = split_on (CHR 0x0A) s in if last ls = [] then butlast ls else ls)"

lemma split_max_step:
  "d \<notin> set a \<Longrightarrow> 0 < n \<Longrightarrow> split_max d n (a @ d # b) = a # split_max d (n - 1) b"
  by (induction a) auto

lemma split_max_none: "d \<notin> set a \<Longrightarrow> split_max d n a = [a]"
  by (induction a) auto

lemma split_max_0 [simp]: "split_max d 0 s = [s]"
  by (cases s) auto

lemma dropWhile_hd: "s \<noteq> [] \<Longrightarrow> \<not> p (hd s) \<Longrightarrow> dropWhile p s = s"
  by (cases s) auto

lemma strip_ends:
  assumes "s \<noteq> []" "\<not> is_space (hd s)" "\<not> is_space (last s)"
  shows "strip s = s"
  using assms by (simp add: strip_def lstrip_of_def rstrip_of_def dropWhile_hd hd_rev)

lemma strip_newline:
  "s \<noteq> [] \<Longrightarrow> \<not> is_space (hd s) \<Longrightarrow> \<not> is_space (last s) \<Longrightarrow> strip (s @ [CHR 0x0A]) = s"
  by (simp add: strip_def lstrip_of_def rstrip_of_def dropWhile_hd hd_rev is_space_def)

lemma hex_digits_no_char:
  "\<forall>c \<in> set s. hex_digit c \<Longrightarrow> \<not> hex_digit d \<Longrightarrow> d \<notin> set s"
  by auto

lemma hex_digit_char_simps [simp]:
  "\<not> hex_digit (CHR '' '')" "\<not> hex_digit (CHR ''-'')" "\<not> hex_digit (CHR ''+'')"
  "\<not> hex_digit (CHR ''_'')"
  by (simp_all add: hex_digit_def)

lemma uint_text_10: "uint_text 10 s = digits_val 10 False 0 s"
proof -
  have "base_prefix s \<noteq> Some 10"
    by (cases s; cases "tl s") (simp_all add: base_prefix_def split: if_split)
  then show ?thesis by (simp add: uint_text_def)
qed

lemma py_int_decs: "py_int 10 (decs x) = Inr x"
proof -
  let ?d = "nat_digits 10 (nat \<bar>x\<bar>)"
  have h: "\<forall>c \<in> set ?d. hex_digit c" by (rule hex_digit_nat_digits) simp_all
  then have sp: "\<forall>c \<in> set ?d. \<not> is_space c" using hex_digit_facts(1) by blast
  have hh: "hex_digit (hd ?d)" using h hd_in_set [OF nat_digits_not_Nil] by blast
  note hd = hex_digit_facts(2) [OF hh] hex_digit_facts(3) [OF hh]
  have "\<not> is_space (CHR ''-'')" by (simp add: is_space_def)
  with sp have "\<forall>c \<in> set (decs x). \<not> is_space c" by (auto simp: decs_def)
  then have "strip (decs x) = decs x" by (rule strip_id)
  moreover have "\<not> startswith ?d ''-''" "\<not> startswith ?d ''+''"
    using hd by (simp_all add: startswith_def take_Suc)
  ultimately show ?thesis
    by (cases "x < 0") (simp_all add: py_int_def decs_def uint_text_10 digits_val_nat_digits
        Let_def startswith_def)
qed

text \<open>Evaluation of the string primitives on literals\<close>
text \<open>Upper-case hexadecimal digits\<close>

lemma digit_val_upper [simp]: "digit_val (upper_char c) = digit_val c"
  by (auto simp: digit_val_def upper_char_def Let_def)

lemma upper_char_underscore [simp]: "upper_char c = CHR ''_'' \<longleftrightarrow> c = CHR ''_''"
proof (cases "97 \<le> (of_char c :: nat) \<and> (of_char c :: nat) \<le> 122")
  case True
  then have "(of_char (upper_char c) :: nat) \<noteq> 95" "c \<noteq> CHR ''_''" by (auto simp: upper_char_def Let_def)
  then show ?thesis by auto
next
  case False
  then show ?thesis by (auto simp: upper_char_def Let_def)
qed

lemma digits_val_upper: "digits_val b p acc (upper s) = digits_val b p acc s"
  by (induction b p acc s rule: digits_val.induct) (auto simp: upper_def split: option.split)

lemma digit_not_special:
  assumes "digit_val c = Some d" "d < 16"
  shows "\<not> is_space c" "c \<noteq> CHR ''-''" "c \<noteq> CHR ''+''" "c \<noteq> CHR ''x''" "c \<noteq> CHR ''X''" "c \<noteq> CHR '':''"
  using assms by (auto simp: digit_val_def is_space_def Let_def split: if_splits)

lemma py_int_hex_plain:
  assumes "s \<noteq> []" "\<forall>c \<in> set s. \<exists>d < 16. digit_val c = Some d" "digits_val 16 False 0 s = Some n"
  shows "py_int 16 s = Inr (int n)"
proof -
  note sp = digit_not_special
  note hd0 = assms(1)
  have st: "strip s = s" using assms(2) sp(1) by (intro strip_id) blast
  have "\<exists>d < 16. digit_val (hd s) = Some d" using assms(1,2) hd_in_set by blast
  then have "hd s \<noteq> CHR ''-''" "hd s \<noteq> CHR ''+''" using sp(2,3) by blast+
  then have sg: "\<not> startswith s ''-''" "\<not> startswith s ''+''" using hd0 by (simp_all add: startswith_def take_Suc)
  have "CHR ''x'' \<notin> set s" "CHR ''X'' \<notin> set s" using assms(2) by (auto simp: digit_val_def)
  then have "base_prefix s \<noteq> Some 16" using base_prefix_16 by fast
  with assms(3) have "uint_text 16 s = Some n" by (simp add: uint_text_def)
  then show ?thesis using st sg by (simp add: py_int_def Let_def)
qed

lemma hex_digit_val: "hex_digit c \<Longrightarrow> \<exists>d < 16. digit_val c = Some d"
  by (auto simp: hex_digit_def digit_val_def Let_def)

lemma upper_hex_chars: "\<forall>c \<in> set (upper (zfill w (nat_digits 16 n))). \<exists>d < 16. digit_val c = Some d"
  using hex_digit_zfill_digits [of w n] hex_digit_val by (auto simp: upper_def)

lemma py_int_upper: "0 \<le> x \<Longrightarrow> py_int 16 (upper (fmt_x0 w x)) = Inr x"
  using py_int_hex_plain [OF _ upper_hex_chars, of w "nat x" "nat x"]
  by (simp add: fmt_x0_def digits_val_upper digits_val_zfill) (simp add: upper_def zfill_def)

lemmas py_eval = py_int_def strip_def lstrip_of_def rstrip_of_def is_space_def startswith_def
  uint_text_def base_prefix_def after_prefix_def digit_val_def split_ws_def

end
