(* ===== verification/Packing.thy ===== *)
theory Packing
  imports Prelude
begin

text \<open>
  \<^verbatim>\<open>Endianness\<close> and the packing helpers \<^verbatim>\<open>p8\<close> to \<^verbatim>\<open>u64\<close> of
  \<^verbatim>\<open>scripts/gef.py\<close>.  \<^verbatim>\<open>struct.pack\<close> and \<^verbatim>\<open>struct.unpack\<close> with a
  standard-size format of one integer are modelled by \<^verbatim>\<open>struct_pack\<close> and
  \<^verbatim>\<open>struct_unpack\<close>: the code's format is the byte order, the width in bytes and
  whether the conversion is signed.
\<close>

datatype endianness = LITTLE_ENDIAN | BIG_ENDIAN

definition endianness_str :: "endianness \<Rightarrow> string" where
  "endianness_str e = (if e = LITTLE_ENDIAN then ''<'' else ''>'')"

definition endianness_int :: "endianness \<Rightarrow> int" where
  "endianness_int e = (case e of LITTLE_ENDIAN \<Rightarrow> 1 | BIG_ENDIAN \<Rightarrow> 2)"

definition endianness_repr :: "endianness \<Rightarrow> string" where
  "endianness_repr e = (case e of LITTLE_ENDIAN \<Rightarrow> ''LITTLE_ENDIAN'' | BIG_ENDIAN \<Rightarrow> ''BIG_ENDIAN'')"

primrec le_bytes :: "nat \<Rightarrow> int \<Rightarrow> byte list" where
  "le_bytes 0 x = []"
| "le_bytes (Suc n) x = word_of_int x # le_bytes n (x div 256)"

primrec le_val :: "byte list \<Rightarrow> int" where
  "le_val [] = 0"
| "le_val (b # bs) = uint b + 256 * le_val bs"

definition signed_of :: "nat \<Rightarrow> int \<Rightarrow> int" where
  "signed_of n x = (if x < 2 ^ (8 * n - 1) then x else x - 2 ^ (8 * n))"

definition in_range :: "bool \<Rightarrow> nat \<Rightarrow> int \<Rightarrow> bool" where
  "in_range s n x = (if s then - (2 ^ (8 * n - 1)) \<le> x \<and> x < 2 ^ (8 * n - 1)
                     else 0 \<le> x \<and> x < 2 ^ (8 * n))"

definition order :: "endianness \<Rightarrow> byte list \<Rightarrow> byte list" where
  "order e bs = (if endianness_str e = ''<'' then bs else rev bs)"

definition struct_pack :: "endianness \<Rightarrow> bool \<Rightarrow> nat \<Rightarrow> int \<Rightarrow> byte list result" where
  "struct_pack e s n x =
     (if in_range s n x then Inr (order e (le_bytes n x)) else raise StructError ''argument out of range'')"

definition struct_unpack :: "endianness \<Rightarrow> bool \<Rightarrow> nat \<Rightarrow> byte list \<Rightarrow> int result" where
  "struct_unpack e s n bs =
     (if length bs = n then
        Inr (let x = le_val (order e bs) in if s then signed_of n x else x)
      else raise StructError ''unpack requires a buffer of the right size'')"

text \<open>\<^verbatim>\<open>endian = e or gef.arch.endianness\<close>; \<^verbatim>\<open>arch\<close> is the architecture's byte order\<close>
definition endian_or :: "endianness \<Rightarrow> endianness option \<Rightarrow> endianness" where
  "endian_or arch e = (case e of Some e' \<Rightarrow> e' | None \<Rightarrow> arch)"

definition p8 :: "endianness \<Rightarrow> bool \<Rightarrow> endianness option \<Rightarrow> int \<Rightarrow> byte list result" where
  "p8 arch s e x = struct_pack (endian_or arch e) s 1 x"
definition p16 :: "endianness \<Rightarrow> bool \<Rightarrow> endianness option \<Rightarrow> int \<Rightarrow> byte list result" where
  "p16 arch s e x = struct_pack (endian_or arch e) s 2 x"
definition p32 :: "endianness \<Rightarrow> bool \<Rightarrow> endianness option \<Rightarrow> int \<Rightarrow> byte list result" where
  "p32 arch s e x = struct_pack (endian_or arch e) s 4 x"
definition p64 :: "endianness \<Rightarrow> bool \<Rightarrow> endianness option \<Rightarrow> int \<Rightarrow> byte list result" where
  "p64 arch s e x = struct_pack (endian_or arch e) s 8 x"

definition u8 :: "endianness \<Rightarrow> bool \<Rightarrow> endianness option \<Rightarrow> byte list \<Rightarrow> int result" where
  "u8 arch s e bs = struct_unpack (endian_or arch e) s 1 bs"
definition u16 :: "endianness \<Rightarrow> bool \<Rightarrow> endianness option \<Rightarrow> byte list \<Rightarrow> int result" where
  "u16 arch s e bs = struct_unpack (endian_or arch e) s 2 bs"
definition u32 :: "endianness \<Rightarrow> bool \<Rightarrow> endianness option \<Rightarrow> byte list \<Rightarrow> int result" where
  "u32 arch s e bs = struct_unpack (endian_or arch e) s 4 bs"
definition u64 :: "endianness \<Rightarrow> bool \<Rightarrow> endianness option \<Rightarrow> byte list \<Rightarrow> int result" where
  "u64 arch s e bs = struct_unpack (endian_or arch e) s 8 bs"

section \<open>Facts about byte lists\<close>

lemma length_le_bytes [simp]: "length (le_bytes n x) = n"
  by (induction n arbitrary: x) auto

lemma length_order [simp]: "length (order e bs) = length bs"
  by (simp add: order_def)

lemma order_order [simp]: "order e (order e bs) = bs"
  by (simp add: order_def)

lemma le_val_le_bytes: "le_val (le_bytes n x) = x mod 256 ^ n"
proof (induction n arbitrary: x)
  case (Suc n)
  have "le_val (le_bytes (Suc n) x) = x mod 256 + 256 * ((x div 256) mod 256 ^ n)"
    by (simp add: Suc take_bit_eq_mod unsigned_of_int)
  also have "\<dots> = x mod (256 * 256 ^ n)"
    by (simp add: zmod_zmult2_eq)
  finally show ?case by simp
qed simp

lemma le_val_bounds: "0 \<le> le_val bs \<and> le_val bs < 256 ^ length bs"
proof (induction bs)
  case (Cons b bs)
  have "uint b < 256" "0 \<le> uint b" using uint_lt2p [of b] by simp_all
  with Cons show ?case by (auto simp: )
qed simp

lemma byte_cong: "x mod 256 = y mod 256 \<Longrightarrow> (word_of_int x :: byte) = word_of_int y"
  by (simp add: word_of_int_eq_iff take_bit_eq_mod)

lemma le_bytes_le_val: "le_bytes (length bs) (le_val bs) = bs"
proof (induction bs)
  case (Cons b bs)
  have b: "uint b < 256" "0 \<le> uint b" using uint_lt2p [of b] by simp_all
  have "(uint b + 256 * le_val bs) div 256 = le_val bs" using b by simp
  moreover have "(word_of_int (uint b + 256 * le_val bs) :: byte) = b"
    using byte_cong [of "uint b + 256 * le_val bs" "uint b"] by simp
  ultimately show ?case using Cons by simp
qed simp


section \<open>The codec interface\<close>

text \<open>
  What the callers of the packing helpers rely on.  \<^verbatim>\<open>pack\<close> and \<^verbatim>\<open>unpack\<close> are one
  width's helpers, still taking the signedness and the optional byte order.
\<close>
locale codec =
  fixes width :: nat
    and pack :: "endianness \<Rightarrow> bool \<Rightarrow> endianness option \<Rightarrow> int \<Rightarrow> byte list result"
    and unpack :: "endianness \<Rightarrow> bool \<Rightarrow> endianness option \<Rightarrow> byte list \<Rightarrow> int result"
  assumes pack_ok_iff: "is_ok (pack a s e x) \<longleftrightarrow> in_range s width x"
    and pack_length: "pack a s e x = Inr bs \<Longrightarrow> length bs = width"
    and unpack_pack: "pack a s e x = Inr bs \<Longrightarrow> unpack a s e bs = Inr x"
    and pack_unpack: "unpack a s e bs = Inr x \<Longrightarrow> pack a s e x = Inr bs"
    and explicit_order: "pack a s (Some o1) x = pack o1 s None x"
begin

lemma pack_inj: "pack a s e x = Inr bs \<Longrightarrow> pack a s e y = Inr bs \<Longrightarrow> x = y"
  by (metis unpack_pack Inr_inject)

lemma unpack_inj: "unpack a s e bs = Inr x \<Longrightarrow> unpack a s e cs = Inr x \<Longrightarrow> bs = cs"
  by (metis pack_unpack Inr_inject)

lemma roundtrip_iff: "unpack a s e bs = Inr x \<longleftrightarrow> pack a s e x = Inr bs"
  using unpack_pack pack_unpack by blast

lemma unpack_range: "unpack a s e bs = Inr x \<Longrightarrow> in_range s width x"
  by (metis pack_unpack pack_ok_iff is_ok.simps(2))

lemma pack_error: "\<not> in_range s width x \<Longrightarrow> \<exists>err. pack a s e x = Inl err"
  by (metis pack_ok_iff is_ok.simps(2) obj_sumE)

lemma order_irrelevant_for_range: "is_ok (pack a s e x) = is_ok (pack b s f x)"
  by (simp add: pack_ok_iff)

end

lemma pow256: "(256 :: int) ^ n = 2 ^ (8 * n)"
  by (simp add: power_mult)

lemma struct_unpack_pack:
  assumes "0 < n" "struct_pack e s n x = Inr bs"
  shows "struct_unpack e s n bs = Inr x"
proof -
  from assms(2) have r: "in_range s n x" and bs: "bs = order e (le_bytes n x)"
    by (auto simp: struct_pack_def split: if_splits)
  obtain m where m: "8 * n = Suc m" using assms(1) by (cases "8 * n") auto
  have v: "le_val (order e bs) = x mod 2 ^ (8 * n)" by (simp add: bs le_val_le_bytes pow256)
  show ?thesis
  proof (cases s)
    case False
    with r v show ?thesis by (simp add: struct_unpack_def bs in_range_def)
  next
    case True
    have "signed_of n (x mod 2 ^ Suc m) = x"
    proof (cases "0 \<le> x")
      case True
      with r \<open>s\<close> m show ?thesis by (simp add: signed_of_def in_range_def)
    next
      case False
      have "x mod 2 ^ Suc m = x + 2 ^ Suc m"
      proof -
        have "x mod 2 ^ Suc m = (x + 2 ^ Suc m) mod 2 ^ Suc m" by simp
        also have "\<dots> = x + 2 ^ Suc m"
          by (rule mod_pos_pos_trivial) (use r \<open>s\<close> m False in \<open>auto simp: in_range_def\<close>)
        finally show ?thesis .
      qed
      with r \<open>s\<close> m show ?thesis by (simp add: signed_of_def in_range_def)
    qed
    with True v m show ?thesis by (simp add: struct_unpack_def bs)
  qed
qed

lemma le_bytes_mod: "le_bytes n (x mod 256 ^ n) = le_bytes n x"
proof (induction n arbitrary: x)
  case (Suc n)
  have "(x mod (256 * 256 ^ n)) div 256 = (x div 256) mod 256 ^ n"
    by (simp add: zmod_zmult2_eq)
  moreover have "(word_of_int (x mod (256 * 256 ^ n)) :: byte) = word_of_int x"
    by (rule byte_cong) (simp add: zmod_zmult2_eq)
  ultimately show ?case using Suc [of "x div 256"] by simp
qed simp

lemma struct_pack_unpack:
  assumes "0 < n" "struct_unpack e s n bs = Inr x"
  shows "struct_pack e s n x = Inr bs"
proof -
  from assms(2) have l: "length bs = n"
    and x: "x = (if s then signed_of n (le_val (order e bs)) else le_val (order e bs))"
    by (auto simp: struct_unpack_def Let_def split: if_splits)
  let ?v = "le_val (order e bs)"
  obtain m where m: "8 * n = Suc m" using assms(1) by (cases "8 * n") auto
  have v: "0 \<le> ?v" "?v < 2 ^ Suc m"
    using le_val_bounds [of "order e bs"] l m by (simp_all add: pow256)
  have mod: "x mod 2 ^ Suc m = ?v"
  proof -
    have "(?v - 2 ^ Suc m) mod 2 ^ Suc m = ?v mod 2 ^ Suc m" by simp
    then show ?thesis using v m by (simp add: x signed_of_def)
  qed
  have "le_bytes n x = le_bytes n ?v"
    using mod m le_bytes_mod [of n x] by (simp add: pow256)
  moreover have "in_range s n x" using v m by (auto simp: in_range_def x signed_of_def)
  ultimately show ?thesis
    using le_bytes_le_val [of "order e bs"] l by (simp add: struct_pack_def)
qed

lemma struct_pack_ok [simp]: "is_ok (struct_pack e s n x) = in_range s n x"
  by (simp add: struct_pack_def)

lemma struct_pack_length: "struct_pack e s n x = Inr bs \<Longrightarrow> length bs = n"
  by (auto simp: struct_pack_def split: if_splits)

lemma endian_or_Some: "endian_or a (Some o1) = endian_or o1 None"
  by (simp add: endian_or_def)

lemmas codec_laws = struct_pack_length struct_unpack_pack struct_pack_unpack

interpretation byte_codec: codec 1 p8 u8
  by unfold_locales (auto simp: p8_def u8_def endian_or_Some intro: codec_laws)

interpretation half_codec: codec 2 p16 u16
  by unfold_locales (auto simp: p16_def u16_def endian_or_Some intro: codec_laws)

interpretation word_codec: codec 4 p32 u32
  by unfold_locales (auto simp: p32_def u32_def endian_or_Some intro: codec_laws)

interpretation dword_codec: codec 8 p64 u64
  by unfold_locales (auto simp: p64_def u64_def endian_or_Some intro: codec_laws)

section \<open>Properties\<close>

text \<open>Fact: the 64-bit helpers are inverse to each other for either byte order and
  signedness: unpacking some bytes gives x exactly when packing x gives those bytes, and
  packing succeeds exactly on the integers in range.\<close>
theorem u64_p64_inverse:
  "(u64 a s e bs = Inr x \<longleftrightarrow> p64 a s e x = Inr bs) \<and> (is_ok (p64 a s e x) \<longleftrightarrow> in_range s 8 x)"
  by (simp only: dword_codec.roundtrip_iff dword_codec.pack_ok_iff simp_thms)

text \<open>Fact: the same for the 32-bit helpers, and the two byte orders
  give reversed byte strings.\<close>
theorem u32_p32_inverse:
  "(u32 a s e bs = Inr x \<longleftrightarrow> p32 a s e x = Inr bs) \<and>
   (p32 a s (Some LITTLE_ENDIAN) x = Inr bs \<longleftrightarrow> p32 a s (Some BIG_ENDIAN) x = Inr (rev bs))"
proof -
  have "p32 a s (Some LITTLE_ENDIAN) x = Inr bs \<longleftrightarrow> p32 a s (Some BIG_ENDIAN) x = Inr (rev bs)"
    by (auto simp: p32_def struct_pack_def endian_or_def order_def endianness_str_def)
  then show ?thesis by (simp add: word_codec.roundtrip_iff)
qed

end
