(* ===== verification/Sv39.thy ===== *)
theory Sv39
  imports Prelude
begin

unbundle bit_operations_syntax

text \<open>
  \<^verbatim>\<open>scripts/sv39.py\<close>: the checker of RISC-V Sv39 virtual addresses and the
  decoder of page table entries.  Python integers are unbounded, so addresses are HOL
  integers; the script's main program is a function from the user's two answers to the
  lines it prints.
\<close>

definition sv39_bit38 :: "int \<Rightarrow> int" where
  "sv39_bit38 va = drop_bit 38 va AND 1"

definition validate_sv39_address :: "int \<Rightarrow> unit result" where
  "validate_sv39_address va =
     (let bit38 = sv39_bit38 va;
          mask = 0xffffff8000000000;
          higher_all_zero = (va AND mask = 0);
          higher_all_one = (va AND mask = mask)
      in if \<not> (higher_all_zero \<or> higher_all_one)
         then raise ValueError ''Invalid Sv39 address: higher bits are not all 1''
         else if \<not> (bit38 \<noteq> 0 \<and> higher_all_one)
         then raise ValueError ''Invalid Sv39 address: higher bits do not match the 38th bit.''
         else Inr ())"

definition calculate_vpn_and_offset :: "int \<Rightarrow> (int \<times> int \<times> int \<times> int) result" where
  "calculate_vpn_and_offset va =
     bindE (validate_sv39_address va) (\<lambda>_.
       let page_offset = va AND 0xFFF;
           vpn0 = drop_bit 12 va AND 0x1FF;
           vpn1 = drop_bit 21 va AND 0x1FF;
           vpn2 = drop_bit 30 va AND 0x1FF
       in Inr (vpn2, vpn1, vpn0, page_offset))"

definition decode_sv39_pte :: "int \<Rightarrow> string" where
  "decode_sv39_pte pte =
     (let ppn = push_bit 12 (drop_bit 10 pte AND (2 ^ 44 - 1));
          flag = (\<lambda>i c. if pte AND push_bit i 1 \<noteq> 0 then [c] else ''-'')
      in ''Phys Addr: 0x'' @ upper (fmt_x ppn) @ '', '' @
         flag 7 (CHR ''D'') @ flag 6 (CHR ''A'') @ flag 5 (CHR ''G'') @ flag 4 (CHR ''U'') @
         flag 3 (CHR ''X'') @ flag 2 (CHR ''W'') @ flag 1 (CHR ''R'') @ flag 0 (CHR ''V''))"

definition fmt_b :: "nat \<Rightarrow> int \<Rightarrow> string" where
  "fmt_b w x = zfill w (nat_digits 2 (nat x))"

definition vpn_line :: "string \<Rightarrow> nat \<Rightarrow> int \<Rightarrow> string" where
  "vpn_line name w x = name @ '': '' @ decs x @ '' (0b'' @ fmt_b w x @ '')''"

text \<open>The main program: the answer to the menu, the answer to the second prompt, and
  the printed lines.  A ValueError of the address branch is printed, one of the entry
  branch is not caught.\<close>
definition sv39_main :: "string \<Rightarrow> string \<Rightarrow> string list result" where
  "sv39_main cmd0 line =
     (if strip cmd0 = ''2'' then
        bindE (py_int 16 line) (\<lambda>pte.
          if pte \<ge> push_bit 64 1 then raise ValueError ''PTE exceeds 64-bit range.''
          else Inr [decode_sv39_pte pte])
      else
        (let body = bindE (py_int 16 line) (\<lambda>va.
           if va \<ge> push_bit 64 1 then raise ValueError ''Address exceeds 64-bit range.''
           else bindE (calculate_vpn_and_offset va) (\<lambda>(vpn2, vpn1, vpn0, page_offset).
             Inr [''Virtual Address: 0x'' @ upper (fmt_x va),
                  vpn_line ''VPN[2]'' 9 vpn2, vpn_line ''VPN[1]'' 9 vpn1,
                  vpn_line ''VPN[0]'' 9 vpn0, vpn_line ''Page Offset'' 12 page_offset]))
         in case body of
              Inr ls \<Rightarrow> Inr ls
            | Inl e \<Rightarrow> if exn_cls e = ValueError then Inr [''Invalid input: '' @ exn_msg e]
                       else Inl e))"

section \<open>Bit arithmetic\<close>

lemma and_mask_int: "x AND (2 ^ n - 1) = x mod (2 ^ n :: int)"
  by (simp add: take_bit_eq_mask flip: take_bit_eq_mod mask_eq_exp_minus_1)

lemma drop_div: "drop_bit n (x :: int) = x div 2 ^ n"
  by (simp add: drop_bit_eq_div)

lemma and_fff: "x AND 0xFFF = x mod (4096 :: int)"
  and and_1ff: "x AND 0x1FF = x mod (512 :: int)"
  and and_01: "x AND 1 = x mod (2 :: int)"
  using and_mask_int [of x 12] and_mask_int [of x 9] and_mask_int [of x 1] by simp_all

lemma and_push: "x AND push_bit n m = push_bit n (drop_bit n x AND (m :: int))"
  by (rule bit_eqI) (auto simp: bit_simps)

lemma and_high_mask:
  assumes "0 \<le> x" "x < 2 ^ 64"
  shows "x AND 0xffffff8000000000 = (x div 2 ^ 39) * (2 ^ 39 :: int)"
proof -
  have "(0xffffff8000000000 :: int) = push_bit 39 (2 ^ 25 - 1)" by (simp add: push_bit_eq_mult)
  then have "x AND 0xffffff8000000000 = push_bit 39 (drop_bit 39 x AND (2 ^ 25 - 1))"
    by (simp only: and_push)
  also have "\<dots> = ((x div 2 ^ 39) mod 2 ^ 25) * 2 ^ 39"
    by (simp add: and_mask_int [of _ 25, simplified] drop_div push_bit_eq_mult)
  also have "(x div 2 ^ 39) mod 2 ^ 25 = x div 2 ^ 39"
    using assms by (intro mod_pos_pos_trivial) auto
  finally show ?thesis .
qed

lemma high_ones:
  assumes "0 \<le> va" "va < 2 ^ 64"
  shows "va AND 0xffffff8000000000 = 0xffffff8000000000 \<longleftrightarrow> 2 ^ 64 - 2 ^ 39 \<le> (va :: int)"
  using assms by (simp add: and_high_mask) linarith

lemma high_zeros:
  assumes "0 \<le> va" "va < 2 ^ 64"
  shows "va AND 0xffffff8000000000 = 0 \<longleftrightarrow> va < (2 ^ 39 :: int)"
  using assms by (simp add: and_high_mask) linarith

lemma bit38_high:
  assumes "2 ^ 64 - 2 ^ 39 \<le> va" "va < 2 ^ 64"
  shows "sv39_bit38 va \<noteq> 0 \<longleftrightarrow> 2 ^ 64 - 2 ^ 38 \<le> va"
proof -
  have "va div 2 ^ 38 = (if va < 2 ^ 64 - 2 ^ 38 then 2 ^ 26 - 2 else 2 ^ 26 - 1)"
    using assms by auto
  then show ?thesis using assms by (simp add: sv39_bit38_def and_01 drop_div)
qed

lemma vpn_ok: "calculate_vpn_and_offset va = Inr t \<longleftrightarrow>
  validate_sv39_address va = Inr () \<and>
  t = ((va div 2 ^ 30) mod 512, (va div 2 ^ 21) mod 512, (va div 2 ^ 12) mod 512, va mod 4096)"
  by (auto simp: calculate_vpn_and_offset_def result_simps and_fff and_1ff drop_div Let_def
      simp del: power_numeral)

section \<open>Properties\<close>

text \<open>Fact: a 64-bit address is accepted exactly when its bits 63 to 38 are all ones: the
  upper half of the canonical Sv39 addresses.\<close>
theorem sv39_accepts_iff:
  assumes "0 \<le> va" "va < 2 ^ 64"
  shows "is_ok (calculate_vpn_and_offset va) \<longleftrightarrow> 2 ^ 64 - 2 ^ 38 \<le> va"
proof -
  have "validate_sv39_address va = Inr () \<longleftrightarrow>
        2 ^ 64 - 2 ^ 39 \<le> va \<and> sv39_bit38 va \<noteq> 0"
    using high_ones [OF assms] high_zeros [OF assms]
    by (auto simp: validate_sv39_address_def Let_def)
  also have "\<dots> \<longleftrightarrow> 2 ^ 64 - 2 ^ 38 \<le> va"
    using bit38_high [OF _ assms(2)] by auto
  finally show ?thesis by (simp add: is_ok_iff vpn_ok)
qed

theorem sv39_accepts_iff_witness:
  "is_ok (calculate_vpn_and_offset 0xffffffd000000000) \<longleftrightarrow>
     2 ^ 64 - 2 ^ 38 \<le> (0xffffffd000000000 :: int)"
  using sv39_accepts_iff [of "0xffffffd000000000"] by simp

text \<open>Fact: every canonical address of the lower half is rejected, whatever the docstring of
  the validator (bit 38 clear and the higher bits clear) and the prompt's example say.\<close>
theorem sv39_rejects_lower_half:
  assumes "0 \<le> va" "va < 2 ^ 38"
  shows "calculate_vpn_and_offset va =
     raise ValueError ''Invalid Sv39 address: higher bits do not match the 38th bit.''"
proof -
  have "va AND 0xffffff8000000000 = 0" using assms high_zeros [of va] by simp
  then show ?thesis by (simp add: calculate_vpn_and_offset_def validate_sv39_address_def)
qed

theorem sv39_rejects_lower_half_witness:
  "calculate_vpn_and_offset 0x123456789 =
     raise ValueError ''Invalid Sv39 address: higher bits do not match the 38th bit.''"
  using sv39_rejects_lower_half [of "0x123456789"] by simp

text \<open>Fact: the three page numbers and the offset of an accepted address are within their
  field widths and put together give back its low 39 bits.\<close>
theorem sv39_reassemble:
  assumes "calculate_vpn_and_offset va = Inr (v2, v1, v0, off)"
  shows "v2 * 2 ^ 30 + v1 * 2 ^ 21 + v0 * 2 ^ 12 + off = va mod 2 ^ 39
    \<and> 0 \<le> v2 \<and> v2 < 512 \<and> 0 \<le> v1 \<and> v1 < 512 \<and> 0 \<le> v0 \<and> v0 < 512
    \<and> 0 \<le> off \<and> off < 4096"
proof -
  from assms have t: "v2 = (va div 2 ^ 30) mod 512" "v1 = (va div 2 ^ 21) mod 512"
    "v0 = (va div 2 ^ 12) mod 512" "off = va mod 4096"
    unfolding vpn_ok by auto
  have m: "va mod l = (va div k) mod 512 * k + va mod k" if "0 < k" "l = k * 512" for k l :: int
    using that zmod_zmult2_eq [of 512 va k] by (simp add: mult.commute)
  have e: "va mod 2 ^ 39 = v2 * 2 ^ 30 + va mod 2 ^ 30"
    "va mod 2 ^ 30 = v1 * 2 ^ 21 + va mod 2 ^ 21"
    "va mod 2 ^ 21 = v0 * 2 ^ 12 + va mod 2 ^ 12"
    "va mod 2 ^ 12 = off"
    unfolding t by (rule m; simp)+ simp
  have "v2 * 2 ^ 30 + v1 * 2 ^ 21 + v0 * 2 ^ 12 + off = va mod 2 ^ 39"
    by (simp only: e add.assoc)
  moreover have "0 \<le> v2 \<and> v2 < 512 \<and> 0 \<le> v1 \<and> v1 < 512 \<and> 0 \<le> v0 \<and> v0 < 512
    \<and> 0 \<le> off \<and> off < 4096" by (simp add: t)
  ultimately show ?thesis by (simp only: simp_thms)
qed

theorem sv39_reassemble_witness:
  "let r = calculate_vpn_and_offset 0xffffffd000001abc
   in r = Inr (320, 0, 1, 0xabc) \<and> (320 :: int) * 2 ^ 30 + 0 * 2 ^ 21 + 1 * 2 ^ 12 + 0xabc
        = 0xffffffd000001abc mod 2 ^ 39"
proof -
  have e: "calculate_vpn_and_offset 0xffffffd000001abc = Inr (320, 0, 1, 0xabc)"
    by (simp add: calculate_vpn_and_offset_def validate_sv39_address_def sv39_bit38_def)
  show ?thesis using sv39_reassemble [OF e] e by simp
qed

end
