(* ===== verification/LinkScripts.thy ===== *)
theory LinkScripts
  imports Prelude "HOL-Library.List_Lexorder" "HOL-Library.Multiset"
begin

text \<open>
  The two generators of the kernel's build, \<^verbatim>\<open>scripts/pack.py\<close> and
  \<^verbatim>\<open>scripts/kernelld.py\<close>.  The directory listing is the argument of the model: the
  file names with their sizes, in the order the operating system lists them.  The result is the text
  written to \<^verbatim>\<open>os/link_app.S\<close> and \<^verbatim>\<open>os/kernel_app.ld\<close>.
\<close>

abbreviation nl :: char where "nl \<equiv> CHR 0x0A"

text \<open>Text written as lines that each end with a newline\<close>
definition lines_after :: "string list \<Rightarrow> string" where
  "lines_after ls = concat (map (\<lambda>l. l @ [nl]) ls)"

definition target_dir :: string where
  "target_dir = ''./user/build/stripped/''"

text \<open>One \<^verbatim>\<open>f.write\<close> of the table: the name, the image and the size of an application\<close>
definition app_entry :: "string \<times> int \<Rightarrow> string list" where
  "app_entry a = [[], ''    .quad .str_'' @ fst a, ''    .quad .elf_'' @ fst a,
                  ''    .quad '' @ decs (snd a)]"

definition null_entry :: "string list" where
  "null_entry = [[], ''    .quad 0'', ''    .quad 0'', ''    .quad 0'']"

definition app_image :: "string \<times> int \<Rightarrow> string list" where
  "app_image a = [[], ''.str_'' @ fst a @ '':'', ''    .string '' @ [CHR 0x22] @ fst a @ [CHR 0x22],
                  ''.align 3'', ''.elf_'' @ fst a @ '':'',
                  ''    .incbin '' @ [CHR 0x22] @ target_dir @ fst a @ [CHR 0x22]]"

definition pack_lines :: "(string \<times> int) list \<Rightarrow> string list" where
  "pack_lines listing =
     (let apps = sort_key fst listing in
        [[], ''    .align 3'', ''    .section .rodata'', ''    .global user_apps'', ''user_apps:'']
        @ concat (map app_entry apps) @ null_entry
        @ [[], ''    .section .rodata.apps''] @ concat (map app_image apps))"

definition pack_main :: "(string \<times> int) list \<Rightarrow> string" where
  "pack_main listing = lines_after (pack_lines listing)"

definition kernelld_head :: "string list" where
  "kernelld_head =
    [''OUTPUT_ARCH(riscv)'',
     ''ENTRY(_entry)'',
     ''BASE_ADDRESS = 0x80200000;'',
     '''',
     ''SECTIONS'',
     ''{'',
     ''    . = BASE_ADDRESS;'',
     ''    skernel = .;'',
     '''',
     ''    s_text = .;'',
     ''    .text : {'',
     ''        *(.text.entry)'',
     ''        *(.text .text.*)'',
     ''        . = ALIGN(0x1000);'',
     ''        *(trampsec)'',
     ''        . = ALIGN(0x1000);'',
     ''    }'',
     '''',
     ''    . = ALIGN(4K);'',
     ''    e_text = .;'',
     ''    s_rodata = .;'',
     ''    .rodata : {'',
     ''        *(.rodata .rodata.*)'',
     ''    }'',
     '''',
     ''    . = ALIGN(4K);'',
     ''    e_rodata = .;'',
     ''    s_data = .;'',
     ''    .data : {'',
     ''        *(.data)'']"

definition kernelld_app :: "nat \<Rightarrow> string list" where
  "kernelld_app idx = [''        . = ALIGN(0x1000);'', ''        *(.data.app'' @ decs (int idx) @ '')'']"

definition kernelld_tail :: "string list" where
  "kernelld_tail =
    ['''',
     ''        . = ALIGN(0x1000);'',
     ''        *(.data.*)'',
     ''        *(.sdata .sdata.*)'',
     ''    }'',
     ''    '',
     ''    . = ALIGN(4K);'',
     ''    e_data = .;'',
     ''    .bss : {'',
     ''        *(.bss.stack)'',
     ''        s_bss = .;'',
     ''        *(.bss .bss.*)'',
     ''        *(.sbss .sbss.*)'',
     ''    }'',
     '''',
     ''    . = ALIGN(4K);'',
     ''    e_bss = .;'',
     ''    ekernel = .;'',
     '''',
     ''    /DISCARD/ : {'',
     ''        *(.eh_frame)'',
     ''    }'',
     ''}'']"

definition kernelld_main :: "string list \<Rightarrow> string" where
  "kernelld_main apps =
     lines_after (kernelld_head @ concat (map (\<lambda>(idx, _). kernelld_app idx) (enumerate 0 apps))
                  @ kernelld_tail)"

section \<open>Reading the generated text back\<close>

text \<open>What the assembler reads: the operands of the quad directives, in order; what the
  linker reads: the per-application input sections.\<close>
definition operands :: "string \<Rightarrow> string list \<Rightarrow> string list" where
  "operands p ls = map (drop (length p)) (filter (\<lambda>l. startswith l p) ls)"

lemma operands_append: "operands p (xs @ ys) = operands p xs @ operands p ys"
  by (simp add: operands_def)

lemma operands_concat: "operands p (concat xss) = concat (map (operands p) xss)"
  by (induction xss) (simp_all add: operands_append, simp add: operands_def)

lemma split_lines_after:
  assumes "\<forall>l \<in> set ls. nl \<notin> set l"
  shows "split_on nl (lines_after ls) = ls @ [[]]"
  using assms by (induction ls) (simp_all add: lines_after_def split_on_none split_on_append_sep)

lemma nl_decs: "nl \<notin> set (decs x)"
proof -
  have "\<not> hex_digit nl" by (simp add: hex_digit_def)
  then have "nl \<notin> set (nat_digits 10 (nat \<bar>x\<bar>))"
    using hex_digit_nat_digits [of 10 "nat \<bar>x\<bar>"] by auto
  then show ?thesis by (simp add: decs_def)
qed

lemma operands_entry:
  "operands ''    .quad '' (app_entry a) = [''.str_'' @ fst a, ''.elf_'' @ fst a, decs (snd a)]"
  by (simp add: operands_def app_entry_def startswith_def)

lemma operands_image: "operands ''    .quad '' (app_image a) = []"
  by (simp add: operands_def app_image_def startswith_def)

lemma operands_pack_lines:
  "operands ''    .quad '' (pack_lines apps) =
     concat (map (\<lambda>a. [''.str_'' @ fst a, ''.elf_'' @ fst a, decs (snd a)]) (sort_key fst apps))
     @ [''0'', ''0'', ''0'']"
proof -
  let ?q = "operands ''    .quad ''"
  have "?q [[], ''    .align 3'', ''    .section .rodata'', ''    .global user_apps'', ''user_apps:''] = []"
    "?q [[], ''    .section .rodata.apps''] = []" "?q null_entry = [''0'', ''0'', ''0'']"
    by (simp_all add: operands_def startswith_def null_entry_def)
  then show ?thesis
    by (simp add: pack_lines_def Let_def operands_append [of _ "_ # _ # _ # _ # [_]"]
        operands_append operands_concat comp_def operands_entry operands_image
        map_replicate_const del: append_Cons)
qed

lemma pack_lines_no_nl:
  assumes "\<forall>a \<in> set apps. nl \<notin> set (fst a)"
  shows "\<forall>l \<in> set (pack_lines apps). nl \<notin> set l"
  using assms nl_decs
  by (auto simp: pack_lines_def Let_def app_entry_def null_entry_def app_image_def target_dir_def)

lemma kernelld_lines_no_nl:
  "\<forall>l \<in> set (kernelld_head @ concat (map (\<lambda>(idx, _). kernelld_app idx) (enumerate 0 apps))
                  @ kernelld_tail). nl \<notin> set l"
  using nl_decs by (auto simp: kernelld_head_def kernelld_app_def kernelld_tail_def)

lemma operands_kernelld:
  "operands ''        *(.data.app'' kernelld_head = []"
  "operands ''        *(.data.app'' (kernelld_app i) = [decs (int i) @ '')'']"
  "operands ''        *(.data.app'' kernelld_tail = []" "operands ''        *(.data.app'' [[]] = []"
  by (simp_all add: operands_def startswith_def kernelld_head_def kernelld_app_def kernelld_tail_def)

section \<open>Properties\<close>

text \<open>Fact: the generated assembly holds one name, image, size triple per application,
  sorted by name, followed by exactly one all-zero triple (no file name contains a newline).\<close>
theorem link_table_shape:
  assumes "\<forall>a \<in> set apps. nl \<notin> set (fst a)"
  shows "operands ''    .quad '' (split_on nl (pack_main apps)) =
     concat (map (\<lambda>a. [''.str_'' @ fst a, ''.elf_'' @ fst a, decs (snd a)]) (sort_key fst apps))
     @ [''0'', ''0'', ''0'']
   \<and> sorted (map fst (sort_key fst apps)) \<and> mset (sort_key fst apps) = mset apps"
proof -
  have "split_on nl (pack_main apps) = pack_lines apps @ [[]]"
    unfolding pack_main_def by (rule split_lines_after) (rule pack_lines_no_nl [OF assms])
  moreover have "operands ''    .quad '' (pack_lines apps @ [[]]) = operands ''    .quad '' (pack_lines apps)"
    by (simp add: operands_def startswith_def)
  ultimately show ?thesis by (simp add: operands_pack_lines)
qed

theorem link_table_shape_witness:
  "operands ''    .quad '' (split_on nl (pack_main [(''sh'', 9), (''init'', 70)])) =
     [''.str_init'', ''.elf_init'', ''70'', ''.str_sh'', ''.elf_sh'', ''9'', ''0'', ''0'', ''0'']"
proof -
  have s: "sort_key fst [(''sh'', 9 :: int), (''init'', 70)] = [(''init'', 70), (''sh'', 9)]"
    by code_simp
  have d: "decs 70 = ''70''" "decs 9 = ''9''" by code_simp+
  show ?thesis
    using link_table_shape [of "[(''sh'', 9), (''init'', 70)]"] by (simp add: s d)
qed

text \<open>Fact: the linker script places the input sections of the applications with the
  indices 0, 1, ... in order, one per directory entry.\<close>
theorem linker_script_sections:
  "operands ''        *(.data.app'' (split_on nl (kernelld_main apps)) =
     map (\<lambda>i. decs (int i) @ '')'') [0..<length apps]"
proof -
  let ?q = "operands ''        *(.data.app''"
  have "split_on nl (kernelld_main apps) =
     (kernelld_head @ concat (map (\<lambda>(idx, _). kernelld_app idx) (enumerate 0 apps)))
       @ (kernelld_tail @ [[]])"
    unfolding kernelld_main_def by (subst split_lines_after [OF kernelld_lines_no_nl]) simp
  moreover have "?q (concat (map (\<lambda>(idx, _). kernelld_app idx) (enumerate k apps))) =
      map (\<lambda>i. decs (int i) @ '')'') [k..<k + length apps]" for k
  proof (induction apps arbitrary: k)
    case (Cons a apps)
    have "[k..<k + length (a # apps)] = k # [Suc k..<Suc k + length apps]"
      using upt_conv_Cons [of k "k + length (a # apps)"] by simp
    with Cons show ?case by (simp add: operands_append operands_kernelld)
  qed (simp add: operands_def)
  ultimately show ?thesis
    by (simp only: operands_append operands_kernelld append_Nil append_Nil2 add_0_left)
qed

end
