(* ===== verification/Target.thy ===== *)
theory Target
  imports Packing
begin

unbundle bit_operations_syntax

text \<open>
  The inferior as the helpers of \<^verbatim>\<open>scripts/gef.py\<close> see it through GDB, and the address
  helpers that depend only on it.  GDB itself is not part of the repository: a
  \<^verbatim>\<open>target\<close> records what the code asks of it (whether a process is alive, the pointer
  size and byte order of the current architecture, the readable memory, and the answers of
  \<^verbatim>\<open>gdb.parse_and_eval\<close> and of \<^verbatim>\<open>gdb.execute\<close> with \<^verbatim>\<open>to_string\<close>).
\<close>

record target =
  t_alive :: bool
  t_ptrsize :: nat
  t_endian :: endianness
  t_x86 :: bool
  t_mem :: "int \<Rightarrow> byte option"
  t_eval :: "string \<Rightarrow> int result"
  t_exec :: "string \<Rightarrow> string result"
  t_filepath :: "string option"

section \<open>Address helpers\<close>

definition align_address :: "target \<Rightarrow> int \<Rightarrow> int" where
  "align_address t address =
     (if t_ptrsize t = 8 then address AND 0xFFFFFFFFFFFFFFFF else address AND 0xFFFFFFFF)"

definition format_address :: "target \<Rightarrow> int \<Rightarrow> string" where
  "format_address t addr0 =
     (let addr = align_address t addr0
      in if t_ptrsize t = 8 then ''0x'' @ fmt_x0 16 addr else ''0x'' @ fmt_x0 8 addr)"

definition format_address_spaces :: "target \<Rightarrow> bool \<Rightarrow> int \<Rightarrow> string" where
  "format_address_spaces t left addr0 =
     (let width = t_ptrsize t * 2 + 2;
          addr = align_address t addr0
      in if \<not> left then rjust width (hexs addr) else ljust width (hexs addr))"

definition align_address_to_size :: "int \<Rightarrow> int \<Rightarrow> int" where
  "align_address_to_size address align = address + ((align - (address mod align)) mod align)"

definition align_address_to_page :: "target \<Rightarrow> int \<Rightarrow> int" where
  "align_address_to_page t address = push_bit 12 (drop_bit 12 (align_address t address))"

definition is_hex :: "string \<Rightarrow> bool" where
  "is_hex pattern =
     (if \<not> startswith (lower pattern) ''0x'' then False
      else length pattern mod 2 = 0 \<and> list_all (\<lambda>c. hex_digit (lower_char c)) (drop 2 pattern))"

definition parse_address :: "target \<Rightarrow> string \<Rightarrow> int result" where
  "parse_address t address = (if is_hex address then py_int 16 address else t_eval t address)"

definition is_in_x86_kernel :: "target \<Rightarrow> int \<Rightarrow> bool" where
  "is_in_x86_kernel t address0 =
     (let address = align_address t address0;
          memalign = t_ptrsize t * 8 - 1
      in drop_bit memalign address = 0xF)"

definition parse_string_range :: "string \<Rightarrow> int list result" where
  "parse_string_range s = mapE (py_int 16) (split_on (CHR ''-'') s)"

definition flags_to_human :: "(string \<Rightarrow> string) \<Rightarrow> int \<Rightarrow> (nat \<times> string) list \<Rightarrow> string" where
  "flags_to_human boldify reg_value table =
     ''['' @ join '' '' (map (\<lambda>(bit_index, name).
        if reg_value AND push_bit bit_index 1 \<noteq> 0 then boldify (upper name) else lower name) table)
     @ '']''"

section \<open>Memory accesses\<close>

primrec read_bytes :: "(int \<Rightarrow> byte option) \<Rightarrow> int \<Rightarrow> nat \<Rightarrow> byte list option" where
  "read_bytes m a 0 = Some []"
| "read_bytes m a (Suc n) =
     (case m a of None \<Rightarrow> None
      | Some b \<Rightarrow> (case read_bytes m (a + 1) n of None \<Rightarrow> None | Some bs \<Rightarrow> Some (b # bs)))"

text \<open>\<^verbatim>\<open>GefMemoryManager.read\<close>: GDB refuses a range it cannot read in full\<close>
definition mem_read :: "target \<Rightarrow> int \<Rightarrow> int \<Rightarrow> byte list result" where
  "mem_read t addr len =
     (if len < 0 then raise OverflowError ''length''
      else case read_bytes (t_mem t) addr (nat len) of
        None \<Rightarrow> raise GdbMemoryError (''Cannot access memory at address '' @ hexs addr)
      | Some bs \<Rightarrow> Inr bs)"

fun write_bytes :: "(int \<Rightarrow> byte option) \<Rightarrow> int \<Rightarrow> byte list \<Rightarrow> (int \<Rightarrow> byte option)" where
  "write_bytes m a [] = m"
| "write_bytes m a (b # bs) = write_bytes (m(a \<mapsto> b)) (a + 1) bs"

text \<open>\<^verbatim>\<open>GefMemoryManager.write\<close>: a missing or zero length means the whole buffer;
  every byte of the range must be mapped\<close>
definition mem_write :: "target \<Rightarrow> int \<Rightarrow> byte list \<Rightarrow> nat option \<Rightarrow> target result" where
  "mem_write t address buffer len0 =
     (let len = (case len0 of Some l \<Rightarrow> if l = 0 then length buffer else l | None \<Rightarrow> length buffer)
      in if length buffer < len then raise ValueError ''The length exceeds the size of the buffer''
         else if read_bytes (t_mem t) address len = None
         then raise GdbMemoryError (''Cannot access memory at address '' @ hexs address)
         else Inr (t\<lparr>t_mem := write_bytes (t_mem t) address (take len buffer)\<rparr>))"

definition read_integer :: "target \<Rightarrow> int \<Rightarrow> int result" where
  "read_integer t addr =
     bindE (mem_read t addr (int (t_ptrsize t))) (\<lambda>mem.
       if t_ptrsize t = 4 then u32 (t_endian t) False None mem
       else u64 (t_endian t) False None mem)"

definition latin1 :: "byte list \<Rightarrow> string" where
  "latin1 bs = map (\<lambda>b. char_of (unat b)) bs"

text \<open>The length \<^verbatim>\<open>read_cstring\<close> asks for\<close>
definition cstring_length :: "int \<Rightarrow> int \<Rightarrow> int" where
  "cstring_length address max_length = min (address OR (4096 - 1)) (max_length + 1)"

definition escape_ctl :: "string \<Rightarrow> string" where
  "escape_ctl s = concat (map (\<lambda>c.
     if c = CHR 0x0A then [CHR 0x5C, CHR ''n''] else if c = CHR 0x0D then [CHR 0x5C, CHR ''r'']
     else if c = CHR 0x09 then [CHR 0x5C, CHR ''t''] else [c]) s)"

text \<open>\<^verbatim>\<open>read_cstring\<close>: the codec's decoder is an argument (None when it fails, then
  latin-1 is used); the pair holds the errors printed and the string\<close>
definition read_cstring ::
  "(byte list \<Rightarrow> string option) \<Rightarrow> target \<Rightarrow> int \<Rightarrow> int \<Rightarrow> (string list \<times> string) result" where
  "read_cstring decode t address max_length =
     (case mem_read t address (cstring_length address max_length) of
        Inl e \<Rightarrow> if exn_cls e = GdbError \<or> exn_cls e = GdbMemoryError
                 then Inr ([''Can't read memory at '' @ [CHR 0x27] @ decs address @ [CHR 0x27]], [])
                 else Inl e
      | Inr res_bytes \<Rightarrow>
         (let res0 = (case decode res_bytes of Some r \<Rightarrow> r | None \<Rightarrow> latin1 res_bytes);
              res = takeWhile (\<lambda>c. c \<noteq> CHR 0x00) res0;
              ustr = escape_ctl res
          in Inr ([], if max_length \<noteq> 0 \<and> int (length res) > max_length
                      then slice_to max_length ustr @ ''[...]'' else ustr)))"

definition printable :: "char \<Rightarrow> bool" where
  "printable c = (let n = (of_char c :: nat) in (32 \<le> n \<and> n \<le> 126) \<or> (9 \<le> n \<and> n \<le> 13))"

definition read_ascii_string ::
  "(byte list \<Rightarrow> string option) \<Rightarrow> target \<Rightarrow> int \<Rightarrow> string option result" where
  "read_ascii_string decode t address =
     bindE (read_cstring decode t address 50) (\<lambda>(_, cstr).
       Inr (if cstr \<noteq> [] \<and> list_all printable cstr then Some cstr else None))"

definition is_ascii_string :: "(byte list \<Rightarrow> string option) \<Rightarrow> target \<Rightarrow> int \<Rightarrow> bool" where
  "is_ascii_string decode t address =
     (case read_ascii_string decode t address of Inr r \<Rightarrow> r \<noteq> None | Inl _ \<Rightarrow> False)"

section \<open>Facts about the address helpers\<close>

lemma and_mask_mod: "x AND (2 ^ n - 1) = x mod (2 ^ n :: int)"
  by (simp add: take_bit_eq_mask flip: take_bit_eq_mod mask_eq_exp_minus_1)

lemma align_address_mod: "align_address t a = a mod (if t_ptrsize t = 8 then 2 ^ 64 else 2 ^ 32)"
  using and_mask_mod [of a 64] and_mask_mod [of a 32] by (simp add: align_address_def)

lemma align_address_range: "0 \<le> align_address t a" "align_address t a < 2 ^ 64"
proof -
  have "a mod 2 ^ 32 < (2 ^ 32 :: int)" by simp
  also have "(2 ^ 32 :: int) < 2 ^ 64" by simp
  finally show "align_address t a < 2 ^ 64" by (simp add: align_address_mod)
qed (simp add: align_address_mod)

lemma align_address_idem: "align_address t (align_address t a) = align_address t a"
  by (simp add: align_address_mod)

lemma is_hex_zfill:
  assumes "length (nat_digits 16 n) \<le> w" "w mod 2 = 0"
  shows "is_hex (''0x'' @ zfill w (nat_digits 16 n))"
proof -
  have "list_all (\<lambda>c. hex_digit (lower_char c)) (zfill w (nat_digits 16 n))"
    using hex_digit_zfill_digits by (auto simp: list_all_iff hex_digit_lower)
  moreover have "lower_char (CHR ''0'') = CHR ''0''" "lower_char (CHR ''x'') = CHR ''x''"
    by (simp_all add: lower_char_def)
  ultimately show ?thesis using assms
    by (simp add: is_hex_def startswith_def lower_def length_zfill)
qed

lemma align_up_props:
  assumes "0 < n"
  shows "align_address_to_size a n mod n = 0" "a \<le> align_address_to_size a n"
    "align_address_to_size a n < a + n"
proof -
  have "(a + (n - a mod n) mod n) mod n = (a + (n - a mod n)) mod n" by (simp only: mod_add_right_eq)
  also have "\<dots> = (a - a mod n + n) mod n" by (simp add: algebra_simps)
  also have "\<dots> = 0" by simp
  finally show "align_address_to_size a n mod n = 0" by (simp add: align_address_to_size_def)
qed (use assms in \<open>simp_all add: align_address_to_size_def\<close>)

section \<open>Facts about memory\<close>

lemma write_bytes_other:
  "x < a \<or> a + int (length bs) \<le> x \<Longrightarrow> write_bytes m a bs x = m x"
  by (induction bs arbitrary: m a) auto

lemma read_write_bytes: "read_bytes (write_bytes m a bs) a (length bs) = Some bs"
proof (induction bs arbitrary: m a)
  case (Cons b bs)
  have "write_bytes (m(a \<mapsto> b)) (a + 1) bs a = Some b" by (simp add: write_bytes_other)
  with Cons show ?case by simp
qed simp

lemma read_bytes_cong:
  "(\<And>x. a \<le> x \<Longrightarrow> x < a + int n \<Longrightarrow> m x = m' x) \<Longrightarrow> read_bytes m a n = read_bytes m' a n"
proof (induction n arbitrary: a)
  case (Suc n)
  have "m a = m' a" by (rule Suc) auto
  moreover have "read_bytes m (a + 1) n = read_bytes m' (a + 1) n" by (rule Suc) (rule Suc, auto)
  ultimately show ?case by (simp split: option.split)
qed simp

lemma read_write_disjoint:
  assumes "a + int n \<le> b \<or> b + int (length bs) \<le> a"
  shows "read_bytes (write_bytes m b bs) a n = read_bytes m a n"
  by (rule read_bytes_cong, rule write_bytes_other) (use assms in auto)

lemma read_bytes_length: "read_bytes m a n = Some bs \<Longrightarrow> length bs = n"
  by (induction n arbitrary: a bs) (auto split: option.splits)

lemma mem_read_length: "mem_read t a n = Inr bs \<Longrightarrow> length bs = nat n"
  by (auto simp: mem_read_def dest: read_bytes_length split: if_splits option.splits)

lemma mem_write_other_fields:
  "mem_write t a bs l = Inr t' \<Longrightarrow> t' = t\<lparr>t_mem := t_mem t'\<rparr>"
  by (auto simp: mem_write_def Let_def split: if_splits)

lemma mem_write_None:
  "mem_write t a bs None =
     (if read_bytes (t_mem t) a (length bs) = None
      then raise GdbMemoryError (''Cannot access memory at address '' @ hexs a)
      else Inr (t\<lparr>t_mem := write_bytes (t_mem t) a bs\<rparr>))"
  by (simp add: mem_write_def Let_def)

text \<open>The contract of the inferior's memory for the commands that read, patch and restore it\<close>
locale byte_store =
  fixes rd :: "'s \<Rightarrow> int \<Rightarrow> int \<Rightarrow> byte list result"
    and wr :: "'s \<Rightarrow> int \<Rightarrow> byte list \<Rightarrow> 's result"
  assumes rd_after_wr: "wr s a bs = Inr s' \<Longrightarrow> rd s' a (int (length bs)) = Inr bs"
    and rd_elsewhere: "wr s a bs = Inr s' \<Longrightarrow> b + n \<le> a \<or> a + int (length bs) \<le> b \<Longrightarrow>
      rd s' b n = rd s b n"
    and wr_ok: "is_ok (wr s a bs) \<longleftrightarrow> is_ok (rd s a (int (length bs)))"
    and rd_length: "rd s a n = Inr bs \<Longrightarrow> int (length bs) = n"
begin

lemma wr_again: "wr s a bs = Inr s' \<Longrightarrow> length cs = length bs \<Longrightarrow> is_ok (wr s' a cs)"
  by (metis wr_ok rd_after_wr is_ok.simps(2))

lemma restore:
  assumes "rd s a n = Inr old" "wr s a bs = Inr s1" "int (length bs) = n" "wr s1 a old = Inr s2"
    and "b + m \<le> a \<or> a + n \<le> b \<or> b = a \<and> m = n"
  shows "rd s2 b m = rd s b m"
proof -
  have l: "int (length old) = n" using assms(1) by (rule rd_length)
  consider "b + m \<le> a \<or> a + n \<le> b" | "b = a" "m = n" using assms(5) by blast
  then show ?thesis
  proof cases
    case 1
    then have "rd s2 b m = rd s1 b m" using assms(4) l by (intro rd_elsewhere) auto
    also have "\<dots> = rd s b m" using 1 assms(2,3) by (intro rd_elsewhere) auto
    finally show ?thesis .
  next
    case 2
    then show ?thesis using rd_after_wr [OF assms(4)] assms(1) l by simp
  qed
qed

end

interpretation inferior: byte_store mem_read "\<lambda>t a bs. mem_write t a bs None"
proof
  fix t t' :: target and a b n bs
  assume w: "mem_write t a bs None = Inr t'"
  then have t': "t' = t\<lparr>t_mem := write_bytes (t_mem t) a bs\<rparr>"
    by (simp add: mem_write_None split: if_splits)
  show "mem_read t' a (int (length bs)) = Inr bs"
    by (simp add: mem_read_def t' read_write_bytes)
  show "mem_read t' b n = mem_read t b n" if "b + n \<le> a \<or> a + int (length bs) \<le> b"
    using that by (simp add: mem_read_def t' read_write_disjoint)
next
  fix t :: target and a bs
  show "is_ok (mem_write t a bs None) \<longleftrightarrow> is_ok (mem_read t a (int (length bs)))"
    by (simp add: mem_write_None mem_read_def split: option.split)
next
  fix t :: target and a n bs
  assume "mem_read t a n = Inr bs"
  then show "int (length bs) = n" 
    using mem_read_length by (auto simp: mem_read_def split: if_splits)
qed

lemma kernel_test_false:
  assumes "t_ptrsize t = 8 \<or> t_ptrsize t = 4"
  shows "\<not> is_in_x86_kernel t a"
proof -
  have "align_address t a < 2 ^ (t_ptrsize t * 8)" using assms by (auto simp: align_address_mod)
  then have "align_address t a div 2 ^ (t_ptrsize t * 8 - 1) < 2"
    using assms by (auto simp: div_less_iff_less_mult)
  then show ?thesis by (simp add: is_in_x86_kernel_def drop_bit_eq_div Let_def)
qed

section \<open>Properties\<close>

text \<open>Fact: the text \<^verbatim>\<open>format_address\<close> prints is read back by \<^verbatim>\<open>parse_address\<close> as the
  address reduced to the pointer width, without asking GDB.\<close>
theorem parse_format_address:
  "parse_address t (format_address t a) = Inr (align_address t a)"
proof -
  let ?w = "if t_ptrsize t = 8 then 16 else 8 :: nat"
  let ?n = "nat (align_address t a)"
  have pos: "0 \<le> align_address t a" by (rule align_address_range)
  have "align_address t a < 16 ^ ?w" by (simp add: align_address_mod)
  then have "?n < 16 ^ ?w" using pos by (simp add: nat_less_iff)
  then have l: "length (nat_digits 16 ?n) \<le> ?w" by (rule length_nat_digits [rotated]) auto
  have f: "format_address t a = ''0x'' @ zfill ?w (nat_digits 16 ?n)"
    using pos by (simp add: format_address_def fmt_x0_def)
  also have "\<dots> = hexs0 (?w + 2) (align_address t a)" using pos by (simp add: hexs0_def)
  finally have "py_int 16 (format_address t a) = Inr (align_address t a)"
    using pos by (simp add: py_int_hexs0)
  moreover have "is_hex (format_address t a)" unfolding f by (rule is_hex_zfill [OF l]) simp
  ultimately show ?thesis by (simp add: parse_address_def)
qed

text \<open>Fact: an integer packed with the target's byte order and pointer width and written to
  memory is what \<^verbatim>\<open>read_integer\<close> reads back there.\<close>
theorem read_integer_after_write:
  assumes "t_ptrsize t = 8" "p64 (t_endian t) False None x = Inr bs"
    and "mem_write t a bs None = Inr t'"
  shows "read_integer t' a = Inr x"
proof -
  have l: "length bs = 8" using assms(2) by (rule dword_codec.pack_length)
  have "mem_read t' a 8 = Inr bs" using inferior.rd_after_wr [OF assms(3)] l by simp
  moreover have "t_ptrsize t' = 8" "t_endian t' = t_endian t"
    using mem_write_other_fields [OF assms(3)] assms(1) by (metis target.ext_inject target.surjective target.update_convs(5))+
  ultimately show ?thesis
    using dword_codec.unpack_pack [OF assms(2)] by (simp add: read_integer_def)
qed

definition demo_target :: target where
  "demo_target = \<lparr>t_alive = True, t_ptrsize = 8, t_endian = LITTLE_ENDIAN, t_x86 = True,
     t_mem = (\<lambda>a. if 0x1000 \<le> a \<and> a < 0x2000 then Some 0 else None),
     t_eval = (\<lambda>_. raise GdbError ''No symbol''), t_exec = (\<lambda>_. Inr []), t_filepath = None\<rparr>"

theorem read_integer_after_write_witness:
  "\<exists>t'. mem_write demo_target 0x1000 [0xef, 0xbe, 0xad, 0xde, 0, 0, 0, 0] None = Inr t' \<and>
    read_integer t' 0x1000 = Inr 0xdeadbeef"
proof -
  have p: "p64 (t_endian demo_target) False None 0xdeadbeef = Inr [0xef, 0xbe, 0xad, 0xde, 0, 0, 0, 0]"
    by code_simp
  obtain t' where w: "mem_write demo_target 0x1000 [0xef, 0xbe, 0xad, 0xde, 0, 0, 0, 0] None = Inr t'"
    by (simp add: mem_write_None demo_target_def numeral_eq_Suc)
  with read_integer_after_write [OF _ p w] show ?thesis by (simp add: demo_target_def)
qed

text \<open>Fact: the x86 kernel test never succeeds: an address reduced to the pointer width and
  shifted by all but one of its bits is 0 or 1, never 0xF.\<close>
theorem x86_kernel_test_never_true:
  assumes "t_ptrsize t = 8 \<or> t_ptrsize t = 4"
  shows "\<not> is_in_x86_kernel t a"
  using assms by (rule kernel_test_false)

theorem x86_kernel_test_never_true_witness: "\<not> is_in_x86_kernel demo_target 0xffffffff81000000"
  by (rule x86_kernel_test_never_true) (simp add: demo_target_def)

text \<open>Fact: at a non-negative address the number of bytes read for a C string does not depend
  on the distance to the end of the page: with the default limit it is always 51.\<close>
theorem cstring_length_ignores_page:
  assumes "0 \<le> address" "max_length < 4096 - 1"
  shows "cstring_length address max_length = max_length + 1"
proof -
  have "4095 \<le> address OR 4095" using or_greater_eq [of address 4095] assms(1) by (simp add: or.commute)
  then show ?thesis using assms(2) by (simp add: cstring_length_def)
qed

theorem cstring_length_ignores_page_witness: "cstring_length 0x1fff 50 = 51"
  using cstring_length_ignores_page [of "0x1fff" 50] by simp

end
