(* ===== verification/Sections.thy ===== *)
theory Sections
  imports Target
begin

unbundle bit_operations_syntax

text \<open>
  Memory sections and addresses of \<^verbatim>\<open>scripts/gef.py\<close>: \<^verbatim>\<open>Permission\<close>,
  \<^verbatim>\<open>Section\<close>, \<^verbatim>\<open>Zone\<close>, \<^verbatim>\<open>Address\<close>, and the lookups over them.  A permission is a
  Python \<^verbatim>\<open>enum.Flag\<close>: it has bits, a truth value, and no equality with integers.
\<close>

section \<open>Terminal colours\<close>

abbreviation ESC :: char where "ESC \<equiv> CHR 0x1B"

definition color_table :: "(string \<times> string) list" where
  "color_table =
    [(''normal'', ESC # ''[0m''), (''gray'', ESC # ''[1;38;5;240m''),
     (''light_gray'', ESC # ''[0;37m''), (''red'', ESC # ''[31m''), (''green'', ESC # ''[32m''),
     (''yellow'', ESC # ''[33m''), (''blue'', ESC # ''[34m''), (''pink'', ESC # ''[35m''),
     (''cyan'', ESC # ''[36m''), (''bold'', ESC # ''[1m''), (''underline'', ESC # ''[4m''),
     (''underline_off'', ESC # ''[24m''), (''highlight'', ESC # ''[3m''),
     (''highlight_off'', ESC # ''[23m''), (''blink'', ESC # ''[5m''), (''blink_off'', ESC # ''[25m'')]"

definition color_of :: "string \<Rightarrow> string" where
  "color_of n = the (map_of color_table n)"

text \<open>\<^verbatim>\<open>Color.colorify\<close>; the flag is the setting \<^verbatim>\<open>gef.disable_color\<close>\<close>
definition colorify :: "bool \<Rightarrow> string \<Rightarrow> string \<Rightarrow> string" where
  "colorify disabled text attrs =
     (if disabled then text
      else
        let msg0 = map color_of (filter (\<lambda>a. a \<in> set (map fst color_table)) (split_ws attrs)) @ [text];
            msg1 = (if color_of ''highlight'' \<in> set msg0 then msg0 @ [color_of ''highlight_off''] else msg0);
            msg2 = (if color_of ''underline'' \<in> set msg1 then msg1 @ [color_of ''underline_off''] else msg1);
            msg3 = (if color_of ''blink'' \<in> set msg2 then msg2 @ [color_of ''blink_off''] else msg2)
        in concat (msg3 @ [color_of ''normal'']))"

definition boldify :: "bool \<Rightarrow> string \<Rightarrow> string" where
  "boldify disabled msg = colorify disabled msg ''bold''"

definition redify :: "bool \<Rightarrow> string \<Rightarrow> string" where
  "redify disabled msg = colorify disabled msg ''red''"

definition greenify :: "bool \<Rightarrow> string \<Rightarrow> string" where
  "greenify disabled msg = colorify disabled msg ''green''"

section \<open>Permissions\<close>

datatype permission = Perm (pbits: int)

definition PNONE :: permission where "PNONE = Perm 0"
definition PEXEC :: permission where "PEXEC = Perm 1"
definition PWRITE :: permission where "PWRITE = Perm 2"
definition PREAD :: permission where "PREAD = Perm 4"
definition PALL :: permission where "PALL = Perm 7"

definition perm_or :: "permission \<Rightarrow> permission \<Rightarrow> permission" where
  "perm_or p q = Perm (pbits p OR pbits q)"
definition perm_and :: "permission \<Rightarrow> permission \<Rightarrow> permission" where
  "perm_and p q = Perm (pbits p AND pbits q)"

text \<open>The truth value of a flag, and its comparison with an integer: \<^verbatim>\<open>enum.Flag\<close> (unlike
  \<^verbatim>\<open>enum.IntFlag\<close>) inherits \<^verbatim>\<open>object.__ne__\<close>, so a flag differs from every integer.\<close>
definition perm_truthy :: "permission \<Rightarrow> bool" where
  "perm_truthy p = (pbits p \<noteq> 0)"
definition perm_ne_int :: "permission \<Rightarrow> int \<Rightarrow> bool" where
  "perm_ne_int p n = True"

definition perm_str :: "permission \<Rightarrow> string" where
  "perm_str p = (if perm_truthy (perm_and p PREAD) then ''r'' else ''-'')
              @ (if perm_truthy (perm_and p PWRITE) then ''w'' else ''-'')
              @ (if perm_truthy (perm_and p PEXEC) then ''x'' else ''-'')"

definition add_if :: "bool \<Rightarrow> permission \<Rightarrow> permission \<Rightarrow> permission" where
  "add_if b q p = (if b then perm_or p q else p)"

definition from_info_sections :: "string list \<Rightarrow> permission" where
  "from_info_sections args =
     foldl (\<lambda>p arg. add_if (str_in ''CODE'' arg) PEXEC
        (add_if (str_in ''DATA'' arg) PWRITE (add_if (str_in ''READONLY'' arg) PREAD p))) PNONE args"

definition char_at :: "string \<Rightarrow> nat \<Rightarrow> char result" where
  "char_at s i = (if i < length s then Inr (s ! i) else raise IndexError ''string index out of range'')"

definition from_process_maps :: "string \<Rightarrow> permission result" where
  "from_process_maps s =
     bindE (char_at s 0) (\<lambda>c0. let p0 = add_if (c0 = CHR ''r'') PREAD PNONE in
     bindE (char_at s 1) (\<lambda>c1. let p1 = add_if (c1 = CHR ''w'') PWRITE p0 in
     bindE (char_at s 2) (\<lambda>c2. Inr (add_if (c2 = CHR ''x'') PEXEC p1))))"

definition from_monitor_info_mem :: "string \<Rightarrow> permission result" where
  "from_monitor_info_mem s =
     bindE (char_at s 1) (\<lambda>c1. let p1 = add_if (c1 = CHR ''r'') PREAD PNONE in
     bindE (char_at s 2) (\<lambda>c2. Inr (add_if (c2 = CHR ''w'') PWRITE p1)))"

definition from_info_mem :: "string \<Rightarrow> permission" where
  "from_info_mem s = add_if (str_in ''x'' s) PEXEC
     (add_if (str_in ''w'' s) PWRITE (add_if (str_in ''r'' s) PREAD PNONE))"

section \<open>Sections, zones and addresses\<close>

record sect =
  page_start :: int
  page_end :: int
  offset :: int
  permission :: permission
  inode :: int
  path :: string

text \<open>The keyword arguments' defaults\<close>
definition new_sect :: sect where
  "new_sect = \<lparr>page_start = 0, page_end = 0, offset = 0, permission = PNONE, inode = 0, path = []\<rparr>"

definition is_readable :: "sect \<Rightarrow> bool" where
  "is_readable s = perm_ne_int (perm_and (permission s) PREAD) 0"
definition is_writable :: "sect \<Rightarrow> bool" where
  "is_writable s = perm_ne_int (perm_and (permission s) PWRITE) 0"
definition is_executable :: "sect \<Rightarrow> bool" where
  "is_executable s = perm_ne_int (perm_and (permission s) PEXEC) 0"

definition sect_size :: "sect \<Rightarrow> int" where
  "sect_size s = page_end s - page_start s"

text \<open>The remote session is an object without a format method: formatting it with
  \<^verbatim>\<open>:d\<close> raises\<close>
definition realpath :: "bool \<Rightarrow> sect \<Rightarrow> string result" where
  "realpath remote s = (if \<not> remote then Inr (path s)
     else raise TypeError ''unsupported format string passed to GefRemoteSessionManager.__format__'')"

definition sect_str :: "sect \<Rightarrow> string" where
  "sect_str s = ''Section(start='' @ hexs (page_start s) @ '', end='' @ hexs (page_end s)
     @ '', perm='' @ perm_str (permission s) @ '', file='' @ path s @ '')''"

definition sect_eq :: "sect \<Rightarrow> sect option \<Rightarrow> bool" where
  "sect_eq s other = (case other of None \<Rightarrow> False | Some r \<Rightarrow>
     page_start s = page_start r \<and> sect_size s = sect_size r
     \<and> permission s = permission r \<and> path s = path r)"

definition overlaps :: "sect \<Rightarrow> sect \<Rightarrow> bool" where
  "overlaps s r = (max (page_start s) (page_start r) \<le> min (page_end s) (page_end r))"

definition sect_contains :: "sect \<Rightarrow> int \<Rightarrow> bool" where
  "sect_contains s addr = (page_start s \<le> addr \<and> addr < page_end s)"

record zone =
  z_name :: string
  zone_start :: int
  zone_end :: int
  z_filename :: string

record address =
  value_of :: int
  a_section :: "sect option"
  a_info :: "zone option"

definition is_in_text_segment :: "target \<Rightarrow> address \<Rightarrow> bool" where
  "is_in_text_segment t a =
     ((case a_info a of Some z \<Rightarrow> str_in ''.text'' (z_name z) | None \<Rightarrow> False) \<or>
      (case a_section a of Some s \<Rightarrow> t_filepath t = Some (path s) \<and> is_executable s | None \<Rightarrow> False))"

definition is_in_stack_segment :: "address \<Rightarrow> bool" where
  "is_in_stack_segment a = (case a_section a of Some s \<Rightarrow> path s = ''[stack]'' | None \<Rightarrow> False)"

definition is_in_heap_segment :: "address \<Rightarrow> bool" where
  "is_in_heap_segment a = (case a_section a of Some s \<Rightarrow> path s = ''[heap]'' | None \<Rightarrow> False)"

text \<open>\<^verbatim>\<open>Address.valid\<close> ignores the section: it searches the memory map for the value\<close>
definition addr_valid :: "sect list \<Rightarrow> int \<Rightarrow> bool" where
  "addr_valid maps v = list_ex (\<lambda>x. page_start x \<le> v \<and> v < page_end x) maps"

definition address_str :: "bool \<Rightarrow> (string \<Rightarrow> string) \<Rightarrow> target \<Rightarrow> address \<Rightarrow> string" where
  "address_str disabled theme t a =
     (let v = format_address t (value_of a) in
      if is_in_text_segment t a then colorify disabled v (theme ''theme.address_code'')
      else if is_in_heap_segment a then colorify disabled v (theme ''theme.address_heap'')
      else if is_in_stack_segment a then colorify disabled v (theme ''theme.address_stack'')
      else v)"

section \<open>Lookups\<close>

fun find_sect :: "(sect \<Rightarrow> bool) \<Rightarrow> sect list \<Rightarrow> sect option" where
  "find_sect p [] = None"
| "find_sect p (s # ss) = (if p s then Some s else find_sect p ss)"

definition process_lookup_address :: "target \<Rightarrow> sect list \<Rightarrow> int \<Rightarrow> sect option" where
  "process_lookup_address t maps address =
     (if \<not> t_alive t then None
      else if t_x86 t \<and> is_in_x86_kernel t address then None
      else find_sect (\<lambda>s. page_start s \<le> address \<and> address < page_end s) maps)"

definition process_lookup_path :: "target \<Rightarrow> sect list \<Rightarrow> string \<Rightarrow> permission \<Rightarrow> sect option" where
  "process_lookup_path t maps name perm =
     (if \<not> t_alive t then None
      else find_sect (\<lambda>s. str_in name (path s) \<and> perm_truthy (perm_and (permission s) perm)) maps)"

fun find_zone :: "(zone \<Rightarrow> bool) \<Rightarrow> zone list \<Rightarrow> zone option" where
  "find_zone p [] = None"
| "find_zone p (z # zs) = (if p z then Some z else find_zone p zs)"

definition file_lookup_name_path :: "zone list \<Rightarrow> string \<Rightarrow> string \<Rightarrow> zone option" where
  "file_lookup_name_path infos name p = find_zone (\<lambda>z. p = z_filename z \<and> name = z_name z) infos"

definition file_lookup_address :: "zone list \<Rightarrow> int \<Rightarrow> zone option" where
  "file_lookup_address infos a = find_zone (\<lambda>z. zone_start z \<le> a \<and> a < zone_end z) infos"

definition lookup_address :: "target \<Rightarrow> sect list \<Rightarrow> zone list \<Rightarrow> int \<Rightarrow> address" where
  "lookup_address t maps infos a =
     \<lparr>value_of = a, a_section = process_lookup_address t maps a,
      a_info = file_lookup_address infos a\<rparr>"

definition get_section_base_address :: "target \<Rightarrow> sect list \<Rightarrow> string \<Rightarrow> int option" where
  "get_section_base_address t maps name = map_option page_start (process_lookup_path t maps name PALL)"

definition get_zone_base_address :: "zone list \<Rightarrow> string \<Rightarrow> string \<Rightarrow> int option" where
  "get_zone_base_address infos filepath name =
     map_option zone_start (file_lookup_name_path infos name filepath)"

text \<open>\<^verbatim>\<open>get_info_files\<close>: the zones listed by the debugger, up to the first blank line\<close>
fun parse_info_files :: "string \<Rightarrow> string list \<Rightarrow> zone list result" where
  "parse_info_files filepath [] = Inr []"
| "parse_info_files filepath (l # ls) =
     (let line = strip l in
      if line = [] then Inr []
      else if \<not> startswith line ''0x'' then parse_info_files filepath ls
      else
        (let blobs = map strip (split_on (CHR '' '') line) in
         bindE (py_int 16 (hd blobs)) (\<lambda>s.
         if length blobs < 3 then raise IndexError ''list index out of range'' else
         bindE (py_int 16 (blobs ! 2)) (\<lambda>e.
         if length blobs < 5 then raise IndexError ''list index out of range'' else
         bindE (parse_info_files filepath ls) (\<lambda>zs.
           Inr (\<lparr>z_name = blobs ! 4, zone_start = s, zone_end = e,
                 z_filename = (if length blobs = 7 then blobs ! 6 else filepath)\<rparr> # zs))))))"

section \<open>Facts about permissions and lookups\<close>

lemmas perm_consts = PNONE_def PEXEC_def PWRITE_def PREAD_def PALL_def
lemmas perm_ops = perm_or_def perm_and_def perm_truthy_def add_if_def

lemma small_perm_cases:
  assumes "0 \<le> pbits p" "pbits p \<le> 7"
  obtains "p = Perm 0" | "p = Perm 1" | "p = Perm 2" | "p = Perm 3" | "p = Perm 4" | "p = Perm 5"
    | "p = Perm 6" | "p = Perm 7"
proof -
  have "pbits p \<in> {0, 1, 2, 3, 4, 5, 6, 7}" using assms by auto
  then show ?thesis using that by (cases p) auto
qed

lemma find_sect_Some: "find_sect p ss = Some s \<Longrightarrow> s \<in> set ss \<and> p s"
  by (induction ss) (auto split: if_splits)

lemma find_sect_None: "find_sect p ss = None \<longleftrightarrow> (\<forall>s \<in> set ss. \<not> p s)"
  by (induction ss) auto

lemma addr_valid_iff: "addr_valid maps a \<longleftrightarrow> (\<exists>s \<in> set maps. sect_contains s a)"
  by (auto simp: addr_valid_def sect_contains_def list_ex_iff)

lemma overlaps_sym: "overlaps s r = overlaps r s"
  by (auto simp: overlaps_def)

lemma overlaps_complete: "sect_contains s a \<Longrightarrow> sect_contains r a \<Longrightarrow> overlaps s r"
  by (auto simp: overlaps_def sect_contains_def)

section \<open>Properties\<close>

text \<open>Fact: the three letters \<^verbatim>\<open>Permission.__str__\<close> prints, followed by anything (the
  sharing flag of procfs), are parsed back by \<^verbatim>\<open>from_process_maps\<close> to the same permission.\<close>
theorem permission_roundtrip:
  assumes "0 \<le> pbits p" "pbits p \<le> 7"
  shows "from_process_maps (perm_str p @ rest) = Inr p"
  using assms
  by (cases rule: small_perm_cases)
    (simp_all add: perm_str_def from_process_maps_def char_at_def perm_ops perm_consts)

theorem permission_roundtrip_witness: "from_process_maps (perm_str (Perm 5) @ ''p'') = Inr (Perm 5)"
  by (rule permission_roundtrip) simp_all

text \<open>Fact: \<^verbatim>\<open>is_readable\<close>, \<^verbatim>\<open>is_writable\<close> and \<^verbatim>\<open>is_executable\<close> hold of every section,
  whatever its permission: they compare a flag with the integer 0.\<close>
theorem section_predicates_always_true:
  "is_readable s \<and> is_writable s \<and> is_executable s"
  by (simp add: is_readable_def is_writable_def is_executable_def perm_ne_int_def)

text \<open>Fact: in a live process the address lookup returns a section of the map that contains the
  address, and it returns None exactly when \<^verbatim>\<open>Address.valid\<close> is false.\<close>
theorem lookup_agrees_with_valid:
  assumes "t_alive t" "t_ptrsize t = 8 \<or> t_ptrsize t = 4"
  shows "(case process_lookup_address t maps a of
            Some s \<Rightarrow> s \<in> set maps \<and> sect_contains s a
          | None \<Rightarrow> \<not> addr_valid maps a)"
proof -
  have e: "process_lookup_address t maps a = find_sect (\<lambda>s. sect_contains s a) maps"
    using assms kernel_test_false by (simp add: process_lookup_address_def sect_contains_def)
  show ?thesis
  proof (cases "find_sect (\<lambda>s. sect_contains s a) maps")
    case None
    then have "\<not> addr_valid maps a" by (simp add: addr_valid_iff find_sect_None)
    then show ?thesis by (simp add: e None)
  next
    case (Some s)
    then show ?thesis using find_sect_Some [OF Some] by (simp add: e)
  qed
qed

theorem lookup_agrees_with_valid_witness:
  "(case process_lookup_address demo_target [new_sect\<lparr>page_start := 0x1000, page_end := 0x2000\<rparr>] 0x1800 of
      Some s \<Rightarrow> s \<in> set [new_sect\<lparr>page_start := 0x1000, page_end := 0x2000\<rparr>] \<and> sect_contains s 0x1800
    | None \<Rightarrow> \<not> addr_valid [new_sect\<lparr>page_start := 0x1000, page_end := 0x2000\<rparr>] 0x1800)"
  by (rule lookup_agrees_with_valid) (simp_all add: demo_target_def)

end
