(* ===== verification/MemMaps.thy ===== *)
theory MemMaps
  imports Sections
begin

unbundle bit_operations_syntax

text \<open>
  \<^verbatim>\<open>GefMemoryManager\<close> of \<^verbatim>\<open>scripts/gef.py\<close>: the cached memory map, the parsers that
  fill it, the order in which they are tried, and \<^verbatim>\<open>append\<close>.  What the parsers read (the procfs
  file, the debugger's answers) is an argument.
\<close>

section \<open>The parsers\<close>

definition two_of :: "int list \<Rightarrow> (int \<times> int) result" where
  "two_of xs = (case xs of [a, b] \<Rightarrow> Inr (a, b) | _ \<Rightarrow> raise ValueError ''values to unpack'')"

text \<open>One line of \<^verbatim>\<open>parse_procfs_maps\<close>\<close>
definition parse_procfs_line :: "string \<Rightarrow> sect result" where
  "parse_procfs_line line0 =
     (let line = strip line0 in
      case split_max (CHR '' '') 4 line of
        [addr, perm, off, _, rest0] \<Rightarrow>
          (let rest = split_max (CHR '' '') 1 rest0;
               inode_s = hd rest;
               pathname = (if length rest = 1 then [] else lstrip_of is_space (rest ! 1))
           in bindE (bindE (parse_string_range addr) two_of) (\<lambda>(s, e).
              bindE (py_int 16 off) (\<lambda>o1.
              bindE (from_process_maps perm) (\<lambda>p.
              bindE (py_int 10 inode_s) (\<lambda>i.
                Inr \<lparr>page_start = s, page_end = e, offset = o1, permission = p,
                     inode = i, path = pathname\<rparr>)))))
      | _ \<Rightarrow> raise ValueError ''not enough values to unpack'')"

text \<open>\<^verbatim>\<open>parse_procfs_maps\<close>: the lines of the map file, when there is one\<close>
definition parse_procfs_maps :: "string list option \<Rightarrow> sect list result" where
  "parse_procfs_maps mapfile =
     (case mapfile of
        None \<Rightarrow> raise FileNotFoundError ''Missing procfs map file''
      | Some ls \<Rightarrow> mapE parse_procfs_line ls)"

definition three_of :: "int list \<Rightarrow> (int \<times> int \<times> int) result" where
  "three_of xs = (case xs of [a, b, c] \<Rightarrow> Inr (a, b, c) | _ \<Rightarrow> raise ValueError ''values to unpack'')"

text \<open>One line of \<^verbatim>\<open>parse_gdb_info_proc_maps\<close>: the first three columns are the start, the
  end and the size of the mapping\<close>
definition parse_info_proc_line :: "bool \<Rightarrow> string \<Rightarrow> sect result" where
  "parse_info_proc_line mock line =
     (let parts = map strip (split_ws line) in
      bindE (bindE (mapE (py_int 16) (take 3 parts)) three_of) (\<lambda>(s, e, o1).
        if mock then
          Inr (new_sect\<lparr>page_start := s, page_end := e, offset := o1, permission := Perm 7,
             path := (if 4 \<le> length parts then join '' '' (drop 4 parts) else [])\<rparr>)
        else if length parts \<le> 4 then raise IndexError ''list index out of range''
        else bindE (from_process_maps (parts ! 4)) (\<lambda>p.
          Inr (new_sect\<lparr>page_start := s, page_end := e, offset := o1, permission := p,
             path := (if 5 \<le> length parts then join '' '' (drop 5 parts) else [])\<rparr>))))"

definition parse_gdb_info_proc_maps :: "bool \<Rightarrow> target \<Rightarrow> sect list result" where
  "parse_gdb_info_proc_maps gdb_at_least_11 t =
     (if \<not> gdb_at_least_11 then raise AttributeError ''Disregarding old format''
      else bindE (t_exec t ''info proc mappings'') (\<lambda>output.
        if output = [] then raise AttributeError []
        else case str_find ''Start Addr'' output of
          None \<Rightarrow> raise AttributeError []
        | Some start_idx \<Rightarrow>
            (let ls = splitlines (drop start_idx output) in
             if length ls < 2 then raise AttributeError []
             else
               (let mock = list_all (\<lambda>x. strip x \<noteq> ''Perms'') (split_ws (hd ls))
                in mapE (parse_info_proc_line mock) (takeWhile (\<lambda>l. l \<noteq> []) (tl ls))))))"

text \<open>\<^verbatim>\<open>parse_monitor_info_mem\<close>: a line that does not have the three columns, or whose
  numbers do not parse, is skipped; a short permission column is an error\<close>
definition monitor_line :: "string \<Rightarrow> (int \<times> int \<times> int \<times> string) result" where
  "monitor_line line =
     (case split_ws line of
        [ranges, off, perms] \<Rightarrow>
          bindE (py_int 16 off) (\<lambda>o1.
          bindE (bindE (mapE (py_int 16) (split_on (CHR ''-'') ranges)) two_of) (\<lambda>(s, e).
            Inr (s, e, o1, perms)))
      | _ \<Rightarrow> raise ValueError ''values to unpack'')"

fun parse_monitor_lines :: "string list \<Rightarrow> sect list result" where
  "parse_monitor_lines [] = Inr []"
| "parse_monitor_lines (l # ls) =
     (case monitor_line l of
        Inl _ \<Rightarrow> parse_monitor_lines ls
      | Inr (s, e, o1, perms) \<Rightarrow>
          bindE (from_monitor_info_mem perms) (\<lambda>p.
          bindE (parse_monitor_lines ls) (\<lambda>ss.
            Inr (new_sect\<lparr>page_start := s, page_end := e, offset := o1, permission := p\<rparr> # ss))))"

definition parse_monitor_info_mem :: "target \<Rightarrow> sect list result" where
  "parse_monitor_info_mem t =
     bindE (t_exec t ''monitor info mem'') (\<lambda>out. parse_monitor_lines (splitlines out))"

fun parse_info_mem_lines :: "string list \<Rightarrow> sect list result" where
  "parse_info_mem_lines [] = Inr []"
| "parse_info_mem_lines (l # ls) =
     (case split_ws l of
        _ # en # st # en2 # attrs \<Rightarrow>
          if en \<noteq> ''y'' then parse_info_mem_lines ls
          else
            (let p = (if ''flash'' \<in> set attrs then from_info_mem ''r'' else from_info_mem ''rw'') in
             bindE (py_int 0 st) (\<lambda>s. bindE (py_int 0 en2) (\<lambda>e.
             bindE (parse_info_mem_lines ls) (\<lambda>ss.
               Inr (new_sect\<lparr>page_start := s, page_end := e, permission := p\<rparr> # ss)))))
      | _ \<Rightarrow> raise ValueError ''not enough values to unpack'')"

definition parse_info_mem :: "target \<Rightarrow> sect list result" where
  "parse_info_mem t = bindE (t_exec t ''info mem'') (\<lambda>out. parse_info_mem_lines (splitlines out))"

section \<open>The manager\<close>

text \<open>What the manager consults: the map function of the architecture, if it defines one, and
  the three sources in the order they are tried\<close>
record sources =
  arch_maps :: "sect list result option"
  gdb11 :: bool
  inferior_of :: target
  procfs :: "string list option"

definition parse_maps :: "sources \<Rightarrow> sect list result" where
  "parse_maps src =
     (case arch_maps src of
        Some r \<Rightarrow> r
      | None \<Rightarrow>
          (case parse_gdb_info_proc_maps (gdb11 src) (inferior_of src) of Inr ss \<Rightarrow> Inr ss
           | Inl _ \<Rightarrow>
          (case parse_procfs_maps (procfs src) of Inr ss \<Rightarrow> Inr ss
           | Inl _ \<Rightarrow>
          (case parse_monitor_info_mem (inferior_of src) of Inr ss \<Rightarrow> Inr ss
           | Inl _ \<Rightarrow> raise RuntimeError ''Failed to get memory layout''))))"

text \<open>The state is the cached map; None and the empty list are both "not cached"\<close>
type_synonym mm = "sect list option"

definition mm_reset :: "mm \<Rightarrow> mm" where
  "mm_reset m = None"

definition maps_of :: "sources \<Rightarrow> (mm, sect list) stm" where
  "maps_of src m =
     (case m of
        Some (s # ss) \<Rightarrow> (Inr (s # ss), m)
      | _ \<Rightarrow> (case parse_maps src of Inl e \<Rightarrow> (Inl e, m) | Inr ss \<Rightarrow> (Inr ss, Some ss)))"

definition mm_append :: "sources \<Rightarrow> sect \<Rightarrow> (mm, unit) stm" where
  "mm_append src new =
     bindS (maps_of src) (\<lambda>ss.
       if ss = [] then raiseS AttributeError ''No mapping defined''
       else (\<lambda>m. case find_sect (\<lambda>s. overlaps new s) ss of
              Some s \<Rightarrow> raiseS RuntimeError (sect_str new @ '' overlaps '' @ sect_str s) m
            | None \<Rightarrow> (Inr (), Some (ss @ [new]))))"

section \<open>Facts about the parsers\<close>

text \<open>The line the kernel prints for a mapping (the address columns are padded to eight
  digits, the path to a column)\<close>
definition maps_line :: "char \<Rightarrow> string \<Rightarrow> nat \<Rightarrow> sect \<Rightarrow> string" where
  "maps_line shared dev pad s =
     fmt_x0 8 (page_start s) @ CHR ''-'' # fmt_x0 8 (page_end s) @ CHR '' '' #
     (perm_str (permission s) @ [shared]) @ CHR '' '' # fmt_x0 8 (offset s) @ CHR '' '' #
     dev @ CHR '' '' # decs (inode s) @
     (if path s = [] then [] else CHR '' '' # replicate pad (CHR '' '') @ path s)"

lemma hex_digits_fmt_x0: "0 \<le> x \<Longrightarrow> \<forall>c \<in> set (fmt_x0 w x). hex_digit c"
  by (simp add: fmt_x0_def hex_digit_zfill_digits)

lemma fmt_x0_nonempty: "fmt_x0 w x \<noteq> []"
  by (simp add: fmt_x0_def zfill_def)

lemma fmt_x0_no_sep: "0 \<le> x \<Longrightarrow> \<not> hex_digit d \<Longrightarrow> d \<notin> set (fmt_x0 w x)"
  using hex_digits_fmt_x0 by blast

lemma hex_digits_decs: "0 \<le> x \<Longrightarrow> \<forall>c \<in> set (decs x). hex_digit c"
  using hex_digit_nat_digits [of 10 "nat x"] by (simp add: decs_def)

lemma decs_no_space: "0 \<le> x \<Longrightarrow> CHR '' '' \<notin> set (decs x)"
  using hex_digits_decs [of x] by auto

lemma parse_range_text:
  assumes "0 \<le> a" "0 \<le> b"
  shows "parse_string_range (fmt_x0 v a @ CHR ''-'' # fmt_x0 w b) = Inr [a, b]"
  using assms
  by (simp add: parse_string_range_def split_on_append_sep split_on_none fmt_x0_no_sep py_int_fmt_x0)

lemma perm_str_no_space: "CHR '' '' \<notin> set (perm_str p)"
  by (simp add: perm_str_def)

lemma last_not_space_decs: "0 \<le> x \<Longrightarrow> decs x \<noteq> [] \<and> \<not> is_space (last (decs x))"
proof -
  assume "0 \<le> x"
  then have "hex_digit (last (decs x))" "decs x \<noteq> []"
    using hex_digits_decs [of x] last_in_set [of "decs x"] by (auto simp: decs_def)
  then show ?thesis using hex_digit_facts(1) by blast
qed

lemma perm_str_parse:
  assumes "0 \<le> pbits p" "pbits p \<le> 7"
  shows "from_process_maps (perm_str p @ rest) = Inr p"
  using assms
  by (cases rule: small_perm_cases)
    (simp_all add: perm_str_def from_process_maps_def char_at_def perm_ops perm_consts)

lemma lstrip_pad: "s \<noteq> [] \<Longrightarrow> \<not> is_space (hd s) \<Longrightarrow>
  lstrip_of is_space (replicate n (CHR '' '') @ s) = s"
proof -
  assume a: "s \<noteq> []" "\<not> is_space (hd s)"
  have "is_space (CHR '' '')" by (simp add: is_space_def)
  then have "dropWhile is_space (replicate n (CHR '' '') @ s) = dropWhile is_space s"
    by (induction n) auto
  with a show ?thesis by (simp add: lstrip_of_def dropWhile_hd)
qed

definition wf_maps_entry :: "char \<Rightarrow> string \<Rightarrow> sect \<Rightarrow> bool" where
  "wf_maps_entry shared dev s \<longleftrightarrow>
     0 \<le> page_start s \<and> 0 \<le> page_end s \<and> 0 \<le> offset s \<and> 0 \<le> inode s
     \<and> 0 \<le> pbits (permission s) \<and> pbits (permission s) \<le> 7
     \<and> shared \<noteq> CHR '' '' \<and> CHR '' '' \<notin> set dev
     \<and> (path s \<noteq> [] \<longrightarrow> \<not> is_space (hd (path s)) \<and> \<not> is_space (last (path s)))"

lemma strip_maps_line:
  assumes "wf_maps_entry shared dev s"
  shows "strip (maps_line shared dev pad s) = maps_line shared dev pad s"
proof (rule strip_ends)
  let ?a = "fmt_x0 8 (page_start s)"
  have "hex_digit (hd ?a)"
    using assms hex_digits_fmt_x0 fmt_x0_nonempty hd_in_set by (metis wf_maps_entry_def)
  then have "\<not> is_space (hd ?a)" by (rule hex_digit_facts)
  then show "\<not> is_space (hd (maps_line shared dev pad s))"
    by (simp add: maps_line_def hd_append fmt_x0_nonempty)
  show "\<not> is_space (last (maps_line shared dev pad s))"
    using assms last_not_space_decs [of "inode s"]
    by (auto simp: maps_line_def wf_maps_entry_def last_append)
qed (simp add: maps_line_def)

lemma split_max_4:
  "d \<notin> set a \<Longrightarrow> d \<notin> set b \<Longrightarrow> d \<notin> set c \<Longrightarrow> d \<notin> set e \<Longrightarrow>
   split_max d 4 (a @ d # b @ d # c @ d # e @ d # r) = [a, b, c, e, r]"
  by (simp add: split_max_step)

lemma parse_maps_line:
  assumes w: "wf_maps_entry shared dev s"
  shows "parse_procfs_line (maps_line shared dev pad s) = Inr s"
proof -
  let ?addr = "fmt_x0 8 (page_start s) @ CHR ''-'' # fmt_x0 8 (page_end s)"
  let ?perm = "perm_str (permission s) @ [shared]"
  let ?rest = "decs (inode s) @ (if path s = [] then [] else CHR '' '' # replicate pad (CHR '' '') @ path s)"
  have ns: "CHR '' '' \<notin> set ?addr" "CHR '' '' \<notin> set ?perm" "CHR '' '' \<notin> set (fmt_x0 8 (offset s))"
    "CHR '' '' \<notin> set dev"
    using w by (auto simp: wf_maps_entry_def fmt_x0_no_sep perm_str_no_space)
  have "maps_line shared dev pad s = ?addr @ CHR '' '' # ?perm @ CHR '' '' # fmt_x0 8 (offset s)
      @ CHR '' '' # dev @ CHR '' '' # ?rest"
    by (simp add: maps_line_def)
  then have sp: "split_max (CHR '' '') 4 (maps_line shared dev pad s) =
      [?addr, ?perm, fmt_x0 8 (offset s), dev, ?rest]"
    using split_max_4 [OF ns] by simp
  have re: "split_max (CHR '' '') (Suc 0) ?rest = (if path s = [] then [decs (inode s)]
      else [decs (inode s), replicate pad (CHR '' '') @ path s])"
    using w by (simp add: wf_maps_entry_def split_max_none split_max_step decs_no_space)
  have "lstrip_of is_space (replicate pad (CHR '' '') @ path s) = path s" if "path s \<noteq> []"
    using w that by (intro lstrip_pad) (auto simp: wf_maps_entry_def)
  note ls = this
  note facts = parse_procfs_line_def strip_maps_line [OF w] sp Let_def two_of_def
        parse_range_text py_int_fmt_x0 perm_str_parse py_int_decs wf_maps_entry_def
  show ?thesis
  proof (cases "path s = []")
    case True
    with w re show ?thesis by (simp add: facts)
  next
    case False
    with w re ls show ?thesis by (simp add: facts)
  qed
qed

lemma three_of_Inr [simp]: "three_of xs = Inr (a, b, c) \<longleftrightarrow> xs = [a, b, c]"
  by (auto simp: three_of_def split: list.splits)

section \<open>Facts about the manager\<close>

definition nonoverlapping :: "sect list \<Rightarrow> bool" where
  "nonoverlapping ss \<longleftrightarrow> sorted_wrt (\<lambda>s r. \<not> overlaps s r) ss"

lemma maps_of_cached: "ss \<noteq> [] \<Longrightarrow> maps_of src (Some ss) = (Inr ss, Some ss)"
  by (cases ss) (simp_all add: maps_of_def)

lemma mm_append_cached:
  assumes "ss \<noteq> []"
  shows "mm_append src new (Some ss) =
    (case find_sect (\<lambda>s. overlaps new s) ss of
       Some s \<Rightarrow> (raise RuntimeError (sect_str new @ '' overlaps '' @ sect_str s), Some ss)
     | None \<Rightarrow> (Inr (), Some (ss @ [new])))"
  using assms by (simp add: mm_append_def bindS_def maps_of_cached raiseS_def split: option.split)

section \<open>Properties\<close>

text \<open>C29: a line of \<^verbatim>\<open>/proc/pid/maps\<close> as the kernel prints it is parsed to exactly the
  mapping it describes: range, permission, offset, inode and path.\<close>
theorem procfs_line_roundtrip:
  assumes "wf_maps_entry shared dev s"
  shows "parse_procfs_line (maps_line shared dev pad s) = Inr s"
  using assms by (rule parse_maps_line)

theorem procfs_line_roundtrip_witness:
  "let s = \<lparr>page_start = 0x7ffff7dd5000, page_end = 0x7ffff7dfc000, offset = 0x2000,
           permission = Perm 5, inode = 1835, path = ''/usr/lib/libc.so.6''\<rparr>
   in parse_procfs_line (maps_line (CHR ''p'') ''08:01'' 20 s) = Inr s"
proof -
  let ?s = "\<lparr>page_start = 0x7ffff7dd5000, page_end = 0x7ffff7dfc000, offset = 0x2000,
           permission = Perm 5, inode = 1835, path = ''/usr/lib/libc.so.6''\<rparr>"
  have "wf_maps_entry (CHR ''p'') ''08:01'' ?s"
    by (simp add: wf_maps_entry_def is_space_def)
  from procfs_line_roundtrip [OF this, of 20] show ?thesis by (simp only: Let_def)
qed

text \<open>Fact: \<^verbatim>\<open>append\<close> on a cached map either adds the section at the end, keeping the map
  free of overlaps, or, exactly when it overlaps a section of the map, raises and leaves the
  map as it was.\<close>
theorem append_keeps_nonoverlapping:
  assumes "ss \<noteq> []" "nonoverlapping ss"
  shows "(\<exists>s \<in> set ss. overlaps new s) \<and> snd (mm_append src new (Some ss)) = Some ss
           \<and> \<not> is_ok (fst (mm_append src new (Some ss)))
       \<or> (\<forall>s \<in> set ss. \<not> overlaps new s) \<and> mm_append src new (Some ss) = (Inr (), Some (ss @ [new]))
           \<and> nonoverlapping (ss @ [new])"
proof (cases "find_sect (\<lambda>s. overlaps new s) ss")
  case None
  then have "\<forall>s \<in> set ss. \<not> overlaps new s" by (simp add: find_sect_None)
  with None assms show ?thesis
    by (simp add: mm_append_cached nonoverlapping_def sorted_wrt_append overlaps_sym)
next
  case (Some s)
  with assms find_sect_Some [OF Some] show ?thesis by (auto simp: mm_append_cached)
qed

definition demo_sources :: sources where
  "demo_sources = \<lparr>arch_maps = None, gdb11 = True, inferior_of = demo_target, procfs = None\<rparr>"

definition demo_sect :: "int \<Rightarrow> int \<Rightarrow> sect" where
  "demo_sect a b = new_sect\<lparr>page_start := a, page_end := b\<rparr>"

theorem append_keeps_nonoverlapping_witness:
  "mm_append demo_sources (demo_sect 0x3000 0x4000) (Some [demo_sect 0x1000 0x2000]) =
     (Inr (), Some [demo_sect 0x1000 0x2000, demo_sect 0x3000 0x4000])"
  using append_keeps_nonoverlapping [of "[demo_sect 0x1000 0x2000]" "demo_sect 0x3000 0x4000" demo_sources]
  by (simp add: nonoverlapping_def overlaps_def demo_sect_def)

text \<open>Fact: two adjacent sections share no address, and yet the second cannot be appended
  after the first: the overlap test compares the half-open ranges inclusively.\<close>
theorem append_refuses_adjacent:
  assumes "page_start s < page_end s" "page_start new = page_end s" "page_start new < page_end new"
  shows "\<not> is_ok (fst (mm_append src new (Some [s]))) \<and> (\<forall>a. \<not> (sect_contains s a \<and> sect_contains new a))"
  using assms by (simp add: mm_append_cached overlaps_def sect_contains_def)

theorem append_refuses_adjacent_witness:
  "\<not> is_ok (fst (mm_append demo_sources (demo_sect 0x2000 0x3000) (Some [demo_sect 0x1000 0x2000])))"
  using append_refuses_adjacent [of "demo_sect 0x1000 0x2000" "demo_sect 0x2000 0x3000" demo_sources]
  by (simp add: demo_sect_def)

text \<open>Fact: the offset recorded for a mapping read from \<^verbatim>\<open>info proc mappings\<close> is the
  number in the size column, the third, not the one in the offset column, the fourth.\<close>
theorem gdb_maps_offset_is_size_column:
  assumes "parse_info_proc_line mock line = Inr s"
  shows "py_int 16 (map strip (split_ws line) ! 2) = Inr (offset s)"
proof -
  define parts where "parts = map strip (split_ws line)"
  from assms obtain a b c where m: "mapE (py_int 16) (take 3 parts) = Inr [a, b, c]" and o1: "offset s = c"
    by (auto simp: parse_info_proc_line_def parts_def [symmetric] result_simps Let_def
        split: if_splits)
  have l: "length (take 3 parts) = 3" using mapE_Inr_length [OF m] by simp
  have "\<exists>x y z. xs = [x, y, z]" if "length xs = 3" for xs :: "string list"
    using that by (auto simp: length_Suc_conv numeral_eq_Suc)
  from this [OF l] obtain x y z where t: "take 3 parts = [x, y, z]" by blast
  have "take 3 parts ! 2 = parts ! 2" by simp
  then have "parts ! 2 = z" by (simp add: t)
  with m t o1 show ?thesis by (auto simp: parts_def result_simps)
qed

theorem gdb_maps_offset_is_size_column_witness:
  "\<exists>s. parse_info_proc_line False ''0x5000 0x19000 0x14000 0x4000 r-xp /bin/ls'' = Inr s
     \<and> py_int 16 (map strip (split_ws ''0x5000 0x19000 0x14000 0x4000 r-xp /bin/ls'') ! 2) = Inr (offset s)"
proof -
  have "is_ok (parse_info_proc_line False ''0x5000 0x19000 0x14000 0x4000 r-xp /bin/ls'')"
    by (simp add: parse_info_proc_line_def py_eval three_of_def from_process_maps_def char_at_def)
  then obtain s where "parse_info_proc_line False ''0x5000 0x19000 0x14000 0x4000 r-xp /bin/ls'' = Inr s"
    by (auto simp: is_ok_iff)
  with gdb_maps_offset_is_size_column [OF this] show ?thesis by blast
qed

end
