(* ===== verification/Elf.thy ===== *)
theory Elf
  imports Target
begin

unbundle bit_operations_syntax

text \<open>
  The ELF reader of \<^verbatim>\<open>scripts/gef.py\<close>: the classes \<^verbatim>\<open>Elf\<close>, \<^verbatim>\<open>Phdr\<close> and
  \<^verbatim>\<open>Shdr\<close>.  A file is its list of bytes and a position in it; reading past the end returns
  what is left, and unpacking a short read raises.  Enumeration members are their integer
  values, with the tables of the source.
\<close>

section \<open>Enumerations\<close>

definition elf_classes :: "(string \<times> int) list" where
  "elf_classes =
    [(''ELF_32_BITS'', 0x01), (''ELF_64_BITS'', 0x02)]"

definition elf_abis :: "(string \<times> int) list" where
  "elf_abis =
    [(''X86_64'', 0x3e), (''X86_32'', 0x03), (''ARM'', 0x28), (''MIPS'', 0x08),
     (''POWERPC'', 0x14), (''POWERPC64'', 0x15), (''SPARC'', 0x02), (''SPARC64'', 0x2b),
     (''AARCH64'', 0xb7), (''RISCV'', 0xf3), (''IA64'', 0x32), (''M68K'', 0x04)]"

definition elf_types :: "(string \<times> int) list" where
  "elf_types =
    [(''ET_RELOC'', 1), (''ET_EXEC'', 2), (''ET_DYN'', 3), (''ET_CORE'', 4)]"

definition elf_osabis :: "(string \<times> int) list" where
  "elf_osabis =
    [(''SYSTEMV'', 0x00), (''HPUX'', 0x01), (''NETBSD'', 0x02), (''LINUX'', 0x03),
     (''SOLARIS'', 0x06), (''AIX'', 0x07), (''IRIX'', 0x08), (''FREEBSD'', 0x09),
     (''OPENBSD'', 0x0c)]"

definition phdr_types :: "(string \<times> int) list" where
  "phdr_types =
    [(''PT_NULL'', 0), (''PT_LOAD'', 1), (''PT_DYNAMIC'', 2), (''PT_INTERP'', 3),
     (''PT_NOTE'', 4), (''PT_SHLIB'', 5), (''PT_PHDR'', 6), (''PT_TLS'', 7),
     (''PT_LOOS'', 0x60000000), (''PT_GNU_EH_FRAME'', 0x6474e550),
     (''PT_GNU_STACK'', 0x6474e551), (''PT_GNU_RELRO'', 0x6474e552),
     (''PT_GNU_PROPERTY'', 0x6474e553), (''PT_LOSUNW'', 0x6ffffffa),
     (''PT_SUNWBSS'', 0x6ffffffa), (''PT_SUNWSTACK'', 0x6ffffffb),
     (''PT_HISUNW'', 0x6fffffff), (''PT_HIOS'', 0x6fffffff), (''PT_LOPROC'', 0x70000000),
     (''PT_ARM_EIDX'', 0x70000001), (''PT_MIPS_ABIFLAGS'', 0x70000003),
     (''PT_HIPROC'', 0x7fffffff), (''UNKNOWN_PHDR'', 0xffffffff)]"

definition shdr_types :: "(string \<times> int) list" where
  "shdr_types =
    [(''SHT_NULL'', 0), (''SHT_PROGBITS'', 1), (''SHT_SYMTAB'', 2), (''SHT_STRTAB'', 3),
     (''SHT_RELA'', 4), (''SHT_HASH'', 5), (''SHT_DYNAMIC'', 6), (''SHT_NOTE'', 7),
     (''SHT_NOBITS'', 8), (''SHT_REL'', 9), (''SHT_SHLIB'', 10), (''SHT_DYNSYM'', 11),
     (''SHT_NUM'', 12), (''SHT_INIT_ARRAY'', 14), (''SHT_FINI_ARRAY'', 15),
     (''SHT_PREINIT_ARRAY'', 16), (''SHT_GROUP'', 17), (''SHT_SYMTAB_SHNDX'', 18),
     (''SHT_LOOS'', 0x60000000), (''SHT_GNU_ATTRIBUTES'', 0x6ffffff5),
     (''SHT_GNU_HASH'', 0x6ffffff6), (''SHT_GNU_LIBLIST'', 0x6ffffff7),
     (''SHT_CHECKSUM'', 0x6ffffff8), (''SHT_LOSUNW'', 0x6ffffffa),
     (''SHT_SUNW_move'', 0x6ffffffa), (''SHT_SUNW_COMDAT'', 0x6ffffffb),
     (''SHT_SUNW_syminfo'', 0x6ffffffc), (''SHT_GNU_verdef'', 0x6ffffffd),
     (''SHT_GNU_verneed'', 0x6ffffffe), (''SHT_GNU_versym'', 0x6fffffff),
     (''SHT_LOPROC'', 0x70000000), (''SHT_ARM_EXIDX'', 0x70000001),
     (''SHT_X86_64_UNWIND'', 0x70000001), (''SHT_ARM_ATTRIBUTES'', 0x70000003),
     (''SHT_MIPS_OPTIONS'', 0x7000000d), (''DT_MIPS_INTERFACE'', 0x7000002a),
     (''SHT_HIPROC'', 0x7fffffff), (''SHT_LOUSER'', 0x80000000), (''SHT_HIUSER'', 0x8fffffff),
     (''UNKNOWN_SHDR'', 0xffffffff)]"

definition shdr_flags :: "(string \<times> int) list" where
  "shdr_flags =
    [(''WRITE'', 1), (''ALLOC'', 2), (''EXECINSTR'', 4), (''MERGE'', 0x10),
     (''STRINGS'', 0x20), (''INFO_LINK'', 0x40), (''LINK_ORDER'', 0x80),
     (''OS_NONCONFORMING'', 0x100), (''GROUP'', 0x200), (''TLS'', 0x400),
     (''COMPRESSED'', 0x800), (''RELA_LIVEPATCH'', 0x00100000),
     (''RO_AFTER_INIT'', 0x00200000), (''ORDERED'', 0x40000000), (''EXCLUDE'', 0x80000000),
     (''UNKNOWN_FLAG'', 0xffffffff)]"

text \<open>Calling an enumeration on a value: an unknown value is an error, or, where the class
  overrides \<^verbatim>\<open>_missing_\<close>, the designated member\<close>
definition enum_call :: "(string \<times> int) list \<Rightarrow> int \<Rightarrow> int result" where
  "enum_call table v = (if v \<in> set (map snd table) then Inr v
     else raise ValueError (decs v @ '' is not a valid member''))"

definition enum_call_or :: "(string \<times> int) list \<Rightarrow> int \<Rightarrow> int \<Rightarrow> int" where
  "enum_call_or table dflt v = (if v \<in> set (map snd table) then v else dflt)"

text \<open>The name of a member: the first one declared with the value\<close>
definition enum_name :: "(string \<times> int) list \<Rightarrow> int \<Rightarrow> string" where
  "enum_name table v = (case find (\<lambda>p. snd p = v) table of Some p \<Rightarrow> fst p | None \<Rightarrow> [])"

section \<open>Reading a file\<close>

definition fread :: "byte list \<Rightarrow> nat \<Rightarrow> nat \<Rightarrow> byte list \<times> nat" where
  "fread file pos n = (let d = take n (drop pos file) in (d, pos + length d))"

fun unpack_fields :: "endianness \<Rightarrow> nat list \<Rightarrow> byte list \<Rightarrow> int list" where
  "unpack_fields e [] bs = []"
| "unpack_fields e (w # ws) bs = le_val (order e (take w bs)) # unpack_fields e ws (drop w bs)"

text \<open>\<^verbatim>\<open>read_and_unpack\<close>: the format is the byte order and the widths of the unsigned fields\<close>
definition read_and_unpack ::
  "byte list \<Rightarrow> endianness \<Rightarrow> nat list \<Rightarrow> nat \<Rightarrow> (int list \<times> nat) result" where
  "read_and_unpack file e ws pos =
     (let (data, pos') = fread file pos (sum_list ws)
      in if length data = sum_list ws then Inr (unpack_fields e ws data, pos')
         else raise StructError ''unpack requires a buffer of the right size'')"

section \<open>Headers\<close>

record elf =
  e_magic :: int
  e_class :: int
  e_endianness :: endianness
  e_eiversion :: int
  e_osabi :: int
  e_abiversion :: int
  e_pad :: "byte list"
  e_type :: int
  e_machine :: int
  e_version :: int
  e_entry :: int
  e_phoff :: int
  e_shoff :: int
  e_flags :: int
  e_ehsize :: int
  e_phentsize :: int
  e_phnum :: int
  e_shentsize :: int
  e_shnum :: int
  e_shstrndx :: int

record phdr =
  ph_off :: int
  p_type :: int
  p_flags :: int
  p_offset :: int
  p_vaddr :: int
  p_paddr :: int
  p_filesz :: int
  p_memsz :: int
  p_align :: int

record shdr =
  sh_name :: int
  sh_type :: int
  sh_flags :: int
  sh_addr :: int
  sh_offset :: int
  sh_size :: int
  sh_link :: int
  sh_info :: int
  sh_addralign :: int
  sh_entsize :: int
  sh_name_text :: string

definition ELF_MAGIC :: int where "ELF_MAGIC = 0x7f454c46"

definition endianness_call :: "int \<Rightarrow> endianness result" where
  "endianness_call v = (if v = 1 then Inr LITTLE_ENDIAN else if v = 2 then Inr BIG_ENDIAN
     else raise ValueError (decs v @ '' is not a valid Endianness''))"

definition is64 :: "elf \<Rightarrow> bool" where "is64 h = (e_class h = 2)"

text \<open>The fixed part of the file: \<^verbatim>\<open>Elf.__init__\<close> up to the header tables.  (The warning about an
  unexpected byte order is only printed.)\<close>
definition parse_elf_header :: "byte list \<Rightarrow> elf result" where
  "parse_elf_header f =
     bindE (read_and_unpack f BIG_ENDIAN [4, 1, 1, 1] 0) (\<lambda>(a, p1).
     if a ! 0 \<noteq> ELF_MAGIC then raise RuntimeError ''Not a valid ELF file (magic)''
     else
     bindE (enum_call elf_classes (a ! 1)) (\<lambda>cls.
     bindE (endianness_call (a ! 2)) (\<lambda>e.
     bindE (read_and_unpack f e [1, 1] p1) (\<lambda>(b, p2).
     bindE (enum_call elf_osabis (b ! 0)) (\<lambda>osabi.
     let (pad, p3) = fread f p2 7 in
     bindE (read_and_unpack f e [2, 2, 4] p3) (\<lambda>(c, p4).
     bindE (enum_call elf_types (c ! 0)) (\<lambda>ty.
     bindE (enum_call elf_abis (c ! 1)) (\<lambda>mach.
     bindE (read_and_unpack f e (if cls = 2 then [8, 8, 8] else [4, 4, 4]) p4) (\<lambda>(d, p5).
     bindE (read_and_unpack f e [4, 2, 2, 2] p5) (\<lambda>(g, p6).
     bindE (read_and_unpack f e [2, 2, 2] p6) (\<lambda>(h, p7).
       Inr \<lparr>e_magic = a ! 0, e_class = cls, e_endianness = e, e_eiversion = a ! 3,
            e_osabi = osabi, e_abiversion = b ! 1, e_pad = pad, e_type = ty, e_machine = mach,
            e_version = c ! 2, e_entry = d ! 0, e_phoff = d ! 1, e_shoff = d ! 2,
            e_flags = g ! 0, e_ehsize = g ! 1, e_phentsize = g ! 2, e_phnum = g ! 3,
            e_shentsize = h ! 0, e_shnum = h ! 1, e_shstrndx = h ! 2\<rparr>)))))))))))"

definition parse_phdr :: "byte list \<Rightarrow> elf \<Rightarrow> int \<Rightarrow> phdr result" where
  "parse_phdr f h off =
     (let e = e_endianness h in
      if is64 h then
        bindE (read_and_unpack f e [4, 4, 8] (nat off)) (\<lambda>(a, p1).
        bindE (read_and_unpack f e [8, 8] p1) (\<lambda>(b, p2).
        bindE (read_and_unpack f e [8, 8, 8] p2) (\<lambda>(c, _).
          Inr \<lparr>ph_off = off, p_type = enum_call_or phdr_types 0xffffffff (a ! 0), p_flags = a ! 1,
               p_offset = a ! 2, p_vaddr = b ! 0, p_paddr = b ! 1, p_filesz = c ! 0,
               p_memsz = c ! 1, p_align = c ! 2\<rparr>)))
      else
        bindE (read_and_unpack f e [4, 4] (nat off)) (\<lambda>(a, p1).
        bindE (read_and_unpack f e [4, 4] p1) (\<lambda>(b, p2).
        bindE (read_and_unpack f e [4, 4, 4, 4] p2) (\<lambda>(c, _).
          Inr \<lparr>ph_off = off, p_type = enum_call_or phdr_types 0xffffffff (a ! 0), p_flags = c ! 2,
               p_offset = a ! 1, p_vaddr = b ! 0, p_paddr = b ! 1, p_filesz = c ! 0,
               p_memsz = c ! 1, p_align = c ! 3\<rparr>))))"

text \<open>The name loop of \<^verbatim>\<open>Shdr.__init__\<close>: one byte at a time up to the zero byte; the end of
  the file is an error\<close>
fun read_name :: "byte list \<Rightarrow> string result" where
  "read_name [] = raise StructError ''unpack requires a buffer of 1 bytes''"
| "read_name (b # bs) =
     (if b = 0 then Inr [] else bindE (read_name bs) (\<lambda>s. Inr (char_of (unat b) # s)))"

text \<open>The offset of the section name table is read with the byte order of the current
  architecture, \<^verbatim>\<open>arch\<close>, not with that of the file\<close>
definition strtab_offset :: "byte list \<Rightarrow> endianness \<Rightarrow> elf \<Rightarrow> int result" where
  "strtab_offset f arch h =
     (let stroff = e_shoff h + e_shentsize h * e_shstrndx h in
      if is64 h then u64 arch False None (fst (fread f (nat (stroff + 16 + 8)) 8))
      else u32 arch False None (fst (fread f (nat (stroff + 12 + 4)) 4)))"

definition parse_shdr :: "byte list \<Rightarrow> endianness \<Rightarrow> elf \<Rightarrow> int \<Rightarrow> shdr result" where
  "parse_shdr f arch h off =
     (let e = e_endianness h in
      bindE (if is64 h then
        bindE (read_and_unpack f e [4, 4, 8] (nat off)) (\<lambda>(a, p1).
        bindE (read_and_unpack f e [8, 8] p1) (\<lambda>(b, p2).
        bindE (read_and_unpack f e [8, 4, 4] p2) (\<lambda>(c, p3).
        bindE (read_and_unpack f e [8, 8] p3) (\<lambda>(d, _). Inr (a, b, c, d)))))
      else
        bindE (read_and_unpack f e [4, 4, 4] (nat off)) (\<lambda>(a, p1).
        bindE (read_and_unpack f e [4, 4] p1) (\<lambda>(b, p2).
        bindE (read_and_unpack f e [4, 4, 4] p2) (\<lambda>(c, p3).
        bindE (read_and_unpack f e [4, 4] p3) (\<lambda>(d, _). Inr (a, b, c, d))))))
      (\<lambda>(a, b, c, d).
        bindE (strtab_offset f arch h) (\<lambda>offset.
        bindE (read_name (drop (nat (offset + a ! 0)) f)) (\<lambda>name.
          Inr \<lparr>sh_name = a ! 0, sh_type = enum_call_or shdr_types 0xffffffff (a ! 1),
               sh_flags = enum_call_or shdr_flags 0xffffffff (a ! 2),
               sh_addr = b ! 0, sh_offset = b ! 1, sh_size = c ! 0, sh_link = c ! 1,
               sh_info = c ! 2, sh_addralign = d ! 0, sh_entsize = d ! 1,
               sh_name_text = name\<rparr>))))"

text \<open>\<^verbatim>\<open>Elf.__init__\<close>: None for a path that does not exist\<close>
definition elf_init ::
  "byte list option \<Rightarrow> endianness \<Rightarrow> (elf \<times> phdr list \<times> shdr list) result" where
  "elf_init file arch =
     (case file of
        None \<Rightarrow> raise FileNotFoundError ''not found/readable, most gef features will not work''
      | Some f \<Rightarrow>
          bindE (parse_elf_header f) (\<lambda>h.
          bindE (mapE (\<lambda>i. parse_phdr f h (e_phoff h + e_phentsize h * int i)) [0..<nat (e_phnum h)]) (\<lambda>ps.
          bindE (mapE (\<lambda>i. parse_shdr f arch h (e_shoff h + e_shentsize h * int i)) [0..<nat (e_shnum h)]) (\<lambda>ss.
            Inr (h, ps, ss)))))"

definition elf_is_valid :: "byte list \<Rightarrow> bool result" where
  "elf_is_valid f = bindE (u32 BIG_ENDIAN False (Some BIG_ENDIAN) (take 4 f)) (\<lambda>m. Inr (m = ELF_MAGIC))"

definition elf_str :: "string \<Rightarrow> elf \<Rightarrow> string" where
  "elf_str abspath h = ''ELF('' @ [CHR 0x27] @ abspath @ [CHR 0x27] @ '', '' @
     enum_name elf_classes (e_class h) @ '', '' @ enum_name elf_abis (e_machine h) @ '')''"

definition phdr_str :: "(int \<Rightarrow> string) \<Rightarrow> phdr \<Rightarrow> string" where
  "phdr_str flags_name p = ''Phdr(offset='' @ decs (ph_off p) @ '', type='' @ enum_name phdr_types (p_type p)
     @ '', flags='' @ flags_name (p_flags p) @ '', vaddr='' @ decs (p_vaddr p) @ '', paddr='' @ decs (p_paddr p)
     @ '', filesz='' @ decs (p_filesz p) @ '', memsz='' @ decs (p_memsz p) @ '', align='' @ decs (p_align p) @ '')''"

definition shdr_str :: "shdr \<Rightarrow> string" where
  "shdr_str s = ''Shdr(name='' @ sh_name_text s @ '', type='' @ enum_name shdr_types (sh_type s)
     @ '', flags='' @ enum_name shdr_flags (sh_flags s) @ '', addr='' @ hexs (sh_addr s)
     @ '', offset='' @ decs (sh_offset s) @ '', size='' @ decs (sh_size s) @ '', link='' @ decs (sh_link s)
     @ '', info='' @ decs (sh_info s) @ '', addralign='' @ decs (sh_addralign s)
     @ '', entsize='' @ decs (sh_entsize s) @ '')''"

section \<open>Security properties\<close>

text \<open>\<^verbatim>\<open>checksec\<close>: the argument runs readelf with the options and tells whether a line matches
  the pattern, or raises.  The state is the cached dictionary, which is filled entry by entry.\<close>
definition checksec_step ::
  "string \<Rightarrow> (bool dict \<Rightarrow> bool result) \<Rightarrow> (bool dict, unit) stm" where
  "checksec_step key val d = (case val d of Inl e \<Rightarrow> (Inl e, d) | Inr b \<Rightarrow> (Inr (), AList.update key b d))"

definition checksec :: "(string \<Rightarrow> string \<Rightarrow> bool result) \<Rightarrow> (bool dict, bool dict) stm" where
  "checksec check d0 =
     (if d0 \<noteq> [] then (Inr d0, d0)
      else
        bindS (foldS (\<lambda>(k, v). checksec_step k v)
          [(''Canary'', \<lambda>_. check ''-rs'' ''__stack_chk_fail''),
           (''NX'', \<lambda>_. bindE (check ''-W -l'' ''GNU_STACK'') (\<lambda>has.
               if has then bindE (check ''-W -l'' ''GNU_STACK.*RWE'') (\<lambda>b. Inr (\<not> b)) else Inr False)),
           (''PIE'', \<lambda>_. bindE (check ''-h'' '':.*EXEC'') (\<lambda>b. Inr (\<not> b))),
           (''Fortify'', \<lambda>_. check ''-s'' ''_chk@GLIBC''),
           (''Partial RelRO'', \<lambda>_. check ''-l'' ''GNU_RELRO''),
           (''Full RelRO'', \<lambda>d. if map_of d ''Partial RelRO'' = Some True
               then check ''-d'' ''BIND_NOW'' else Inr False)])
          (\<lambda>_ d. (Inr d, d)) d0)"

section \<open>Writing the formats\<close>

text \<open>The inverse of the reader: the bytes of a list of fields, and of the headers\<close>
fun pack_fields :: "endianness \<Rightarrow> nat list \<Rightarrow> int list \<Rightarrow> byte list" where
  "pack_fields e (w # ws) (x # xs) = order e (le_bytes w x) @ pack_fields e ws xs"
| "pack_fields e _ _ = []"

definition fits :: "nat list \<Rightarrow> int list \<Rightarrow> bool" where
  "fits ws xs \<longleftrightarrow> list_all2 (\<lambda>w x. 0 \<le> x \<and> x < 256 ^ w) ws xs"

definition header_bytes :: "elf \<Rightarrow> byte list" where
  "header_bytes h = (let e = e_endianness h in
     pack_fields BIG_ENDIAN [4, 1, 1, 1] [e_magic h, e_class h, endianness_int e, e_eiversion h]
     @ pack_fields e [1, 1] [e_osabi h, e_abiversion h] @ e_pad h
     @ pack_fields e [2, 2, 4] [e_type h, e_machine h, e_version h]
     @ pack_fields e (if e_class h = 2 then [8, 8, 8] else [4, 4, 4]) [e_entry h, e_phoff h, e_shoff h]
     @ pack_fields e [4, 2, 2, 2] [e_flags h, e_ehsize h, e_phentsize h, e_phnum h]
     @ pack_fields e [2, 2, 2] [e_shentsize h, e_shnum h, e_shstrndx h])"

definition wf_elf :: "elf \<Rightarrow> bool" where
  "wf_elf h \<longleftrightarrow> e_magic h = ELF_MAGIC \<and> e_class h \<in> {1, 2} \<and> length (e_pad h) = 7
     \<and> e_osabi h \<in> set (map snd elf_osabis) \<and> e_type h \<in> set (map snd elf_types)
     \<and> e_machine h \<in> set (map snd elf_abis)
     \<and> fits [1, 1, 4, 4, 2, 2, 2, 2, 2, 2]
         [e_eiversion h, e_abiversion h, e_version h, e_flags h, e_ehsize h, e_phentsize h, e_phnum h,
          e_shentsize h, e_shnum h, e_shstrndx h]
     \<and> fits (if e_class h = 2 then [8, 8, 8] else [4, 4, 4]) [e_entry h, e_phoff h, e_shoff h]"

definition phdr_bytes :: "elf \<Rightarrow> phdr \<Rightarrow> byte list" where
  "phdr_bytes h p = (let e = e_endianness h in
     if is64 h then
       pack_fields e [4, 4, 8] [p_type p, p_flags p, p_offset p] @ pack_fields e [8, 8] [p_vaddr p, p_paddr p]
       @ pack_fields e [8, 8, 8] [p_filesz p, p_memsz p, p_align p]
     else
       pack_fields e [4, 4] [p_type p, p_offset p] @ pack_fields e [4, 4] [p_vaddr p, p_paddr p]
       @ pack_fields e [4, 4, 4, 4] [p_filesz p, p_memsz p, p_flags p, p_align p])"

definition wf_phdr :: "elf \<Rightarrow> phdr \<Rightarrow> bool" where
  "wf_phdr h p \<longleftrightarrow> p_type p \<in> set (map snd phdr_types) \<and>
     fits (if is64 h then [4, 4, 8, 8, 8, 8, 8, 8] else [4, 4, 4, 4, 4, 4, 4, 4])
       [p_type p, p_flags p, p_offset p, p_vaddr p, p_paddr p, p_filesz p, p_memsz p, p_align p]"

section \<open>Facts about the reader\<close>

lemma length_pack_fields [simp]: "length xs = length ws \<Longrightarrow> length (pack_fields e ws xs) = sum_list ws"
  by (induction e ws xs rule: pack_fields.induct) auto

lemma unpack_pack_fields: "fits ws xs \<Longrightarrow> unpack_fields e ws (pack_fields e ws xs) = xs"
proof (induction e ws xs rule: pack_fields.induct)
  case (1 e w ws x xs)
  then have "0 \<le> x" "x < 256 ^ w" "unpack_fields e ws (pack_fields e ws xs) = xs"
    by (simp_all add: fits_def)
  then show ?case by (simp add: le_val_le_bytes)
qed (auto simp: fits_def)

lemma read_packed:
  assumes "fits ws xs" "drop pos f = pack_fields e ws xs @ rest" "pos' = pos + sum_list ws"
  shows "read_and_unpack f e ws pos = Inr (xs, pos') \<and> drop pos' f = rest"
proof -
  have l: "length xs = length ws" using assms(1) by (auto simp: fits_def list_all2_lengthD)
  have "drop pos' f = drop (sum_list ws) (drop pos f)" using assms(3) by (simp add: add.commute)
  then have "drop pos' f = rest" using assms(2) l by simp
  moreover have "read_and_unpack f e ws pos = Inr (xs, pos')"
    using assms l by (simp add: read_and_unpack_def fread_def unpack_pack_fields Let_def)
  ultimately show ?thesis by simp
qed

lemma fread_at:
  assumes "drop pos f = d @ rest" "n = length d"
  shows "fread f pos n = (d, pos + n) \<and> drop (pos + n) f = rest"
proof -
  have "drop (pos + n) f = drop n (drop pos f)" by (simp add: add.commute)
  then show ?thesis using assms by (simp add: fread_def Let_def)
qed

lemma enum_call_ok: "v \<in> set (map snd t) \<Longrightarrow> enum_call t v = Inr v"
  by (simp add: enum_call_def)

lemma endianness_call_int: "endianness_call (endianness_int e) = Inr e"
  by (simp add: endianness_call_def endianness_int_def split: endianness.split)

lemma small_enum_fits:
  "v \<in> set (map snd elf_osabis) \<Longrightarrow> 0 \<le> v \<and> v < 256"
  "v \<in> set (map snd elf_types) \<Longrightarrow> 0 \<le> v \<and> v < 256"
  "v \<in> set (map snd elf_abis) \<Longrightarrow> 0 \<le> v \<and> v < 256"
  by (auto simp: elf_osabis_def elf_types_def elf_abis_def)

lemma parse_header_bytes:
  assumes w: "wf_elf h"
  shows "parse_elf_header (header_bytes h @ rest) = Inr h"
proof -
  let ?e = "e_endianness h" and ?f = "header_bytes h @ rest"
  let ?W = "if e_class h = 2 then [8, 8, 8] else [4, 4, 4 :: nat]"
  let ?d6 = "pack_fields ?e [2, 2, 2] [e_shentsize h, e_shnum h, e_shstrndx h] @ rest"
  let ?d5 = "pack_fields ?e [4, 2, 2, 2] [e_flags h, e_ehsize h, e_phentsize h, e_phnum h] @ ?d6"
  let ?d4 = "pack_fields ?e ?W [e_entry h, e_phoff h, e_shoff h] @ ?d5"
  let ?d3 = "pack_fields ?e [2, 2, 4] [e_type h, e_machine h, e_version h] @ ?d4"
  let ?d2 = "e_pad h @ ?d3"
  let ?d1 = "pack_fields ?e [1, 1] [e_osabi h, e_abiversion h] @ ?d2"
  note wf = w [unfolded wf_elf_def fits_def]
  have en: "0 \<le> endianness_int ?e" "endianness_int ?e < 256"
    by (simp_all add: endianness_int_def split: endianness.split)
  have d0: "drop 0 ?f = pack_fields BIG_ENDIAN [4, 1, 1, 1]
      [e_magic h, e_class h, endianness_int ?e, e_eiversion h] @ ?d1"
    by (simp add: header_bytes_def Let_def del: pack_fields.simps)
  have f1: "fits [4, 1, 1, 1] [e_magic h, e_class h, endianness_int ?e, e_eiversion h]"
    using wf en by (auto simp: fits_def ELF_MAGIC_def)
  have r1: "read_and_unpack ?f BIG_ENDIAN [4, 1, 1, 1] 0
      = Inr ([e_magic h, e_class h, endianness_int ?e, e_eiversion h], 7) \<and> drop 7 ?f = ?d1"
    by (rule read_packed [OF f1 d0]) simp
  have f2: "fits [1, 1] [e_osabi h, e_abiversion h]"
    using wf small_enum_fits(1) [of "e_osabi h"] by (simp add: fits_def)
  have r2: "read_and_unpack ?f ?e [1, 1] 7 = Inr ([e_osabi h, e_abiversion h], 9) \<and> drop 9 ?f = ?d2"
    by (rule read_packed [OF f2 r1 [THEN conjunct2]]) simp
  have "7 = length (e_pad h)" using wf by simp
  then have pad: "fread ?f 9 7 = (e_pad h, 16) \<and> drop 16 ?f = ?d3"
    using fread_at [OF r2 [THEN conjunct2], of 7] by simp
  have f3: "fits [2, 2, 4] [e_type h, e_machine h, e_version h]"
    using wf small_enum_fits(2) [of "e_type h"] small_enum_fits(3) [of "e_machine h"]
    by (simp add: fits_def)
  have r3: "read_and_unpack ?f ?e [2, 2, 4] 16 = Inr ([e_type h, e_machine h, e_version h], 24)
      \<and> drop 24 ?f = ?d4"
    by (rule read_packed [OF f3 pad [THEN conjunct2]]) simp
  let ?p = "if e_class h = 2 then 48 else 36 :: nat"
  have f4: "fits ?W [e_entry h, e_phoff h, e_shoff h]" using w by (simp add: wf_elf_def)
  have r4: "read_and_unpack ?f ?e ?W 24 = Inr ([e_entry h, e_phoff h, e_shoff h], ?p) \<and> drop ?p ?f = ?d5"
    by (rule read_packed [OF f4 r3 [THEN conjunct2]]) simp
  have f5: "fits [4, 2, 2, 2] [e_flags h, e_ehsize h, e_phentsize h, e_phnum h]"
    using wf by (simp add: fits_def)
  have r5: "read_and_unpack ?f ?e [4, 2, 2, 2] ?p
      = Inr ([e_flags h, e_ehsize h, e_phentsize h, e_phnum h], ?p + 10) \<and> drop (?p + 10) ?f = ?d6"
    by (rule read_packed [OF f5 r4 [THEN conjunct2]]) simp
  have f6: "fits [2, 2, 2] [e_shentsize h, e_shnum h, e_shstrndx h]"
    using wf by (simp add: fits_def)
  have r6: "read_and_unpack ?f ?e [2, 2, 2] (?p + 10)
      = Inr ([e_shentsize h, e_shnum h, e_shstrndx h], ?p + 16) \<and> drop (?p + 16) ?f = rest"
    by (rule read_packed [OF f6 r5 [THEN conjunct2]]) simp
  have cls: "enum_call elf_classes (e_class h) = Inr (e_class h)"
    using wf by (intro enum_call_ok) (auto simp: elf_classes_def)
  note enums = cls endianness_call_int enum_call_ok [of "e_osabi h"] enum_call_ok [of "e_type h"]
    enum_call_ok [of "e_machine h"]
  note reads = r1 [THEN conjunct1] r2 [THEN conjunct1] pad [THEN conjunct1] r3 [THEN conjunct1]
    r4 [THEN conjunct1] r5 [THEN conjunct1] r6 [THEN conjunct1]
  have nth: "[a, b, c] ! 2 = c" "[a, b, c, d] ! 2 = c" "[a, b, c, d] ! 3 = d"
    "(a # b # xs) ! 1 = b" "(a # xs) ! 0 = a" for a b c d :: int and xs
    by simp_all
  have "e_magic h = ELF_MAGIC" "e_osabi h \<in> set (map snd elf_osabis)"
    "e_type h \<in> set (map snd elf_types)" "e_machine h \<in> set (map snd elf_abis)"
    using wf by simp_all
  then show ?thesis
    unfolding parse_elf_header_def
    by (simp only: reads enums bindE.simps prod.case Let_def nth
        simp_thms if_False elf.surjective) simp
qed

lemma fits_Cons: "fits (w # ws) (x # xs) \<longleftrightarrow> 0 \<le> x \<and> x < 256 ^ w \<and> fits ws xs"
  by (simp add: fits_def)

lemma fits_Nil [simp]: "fits [] []"
  by (simp add: fits_def)

lemma parse_phdr_bytes:
  assumes w: "wf_phdr h p" and d: "drop (nat (ph_off p)) f = phdr_bytes h p @ rest"
  shows "parse_phdr f h (ph_off p) = Inr p"
proof -
  let ?e = "e_endianness h" and ?o = "nat (ph_off p)"
  have ty: "p_type p \<in> set (map snd phdr_types)" using w by (simp add: wf_phdr_def)
  have nth: "[a, b, c] ! 2 = c" "[a, b, c, d] ! 2 = c" "[a, b, c, d] ! 3 = d"
    "(a # b # xs) ! 1 = b" "(a # xs) ! 0 = a" for a b c d :: int and xs
    by simp_all
  note fin = nth bindE.simps prod.case Let_def if_True if_False enum_call_or_def ty phdr.surjective
  show ?thesis
  proof (cases "is64 h")
    case True
    have f: "fits [4, 4, 8] [p_type p, p_flags p, p_offset p]" "fits [8, 8] [p_vaddr p, p_paddr p]"
      "fits [8, 8, 8] [p_filesz p, p_memsz p, p_align p]"
      using w True by (simp_all add: wf_phdr_def fits_Cons)
    have d0: "drop ?o f = pack_fields ?e [4, 4, 8] [p_type p, p_flags p, p_offset p] @
        (pack_fields ?e [8, 8] [p_vaddr p, p_paddr p] @
         (pack_fields ?e [8, 8, 8] [p_filesz p, p_memsz p, p_align p] @ rest))"
      using d True by (simp add: phdr_bytes_def Let_def del: pack_fields.simps)
    note r1 = read_packed [OF f(1) d0 refl]
    note r2 = read_packed [OF f(2) r1 [THEN conjunct2] refl]
    note r3 = read_packed [OF f(3) r2 [THEN conjunct2] refl]
    show ?thesis using True
      by (simp only: parse_phdr_def r1 r2 r3 fin) simp
  next
    case False
    have f: "fits [4, 4] [p_type p, p_offset p]" "fits [4, 4] [p_vaddr p, p_paddr p]"
      "fits [4, 4, 4, 4] [p_filesz p, p_memsz p, p_flags p, p_align p]"
      using w False by (simp_all add: wf_phdr_def fits_Cons)
    have d0: "drop ?o f = pack_fields ?e [4, 4] [p_type p, p_offset p] @
        (pack_fields ?e [4, 4] [p_vaddr p, p_paddr p] @
         (pack_fields ?e [4, 4, 4, 4] [p_filesz p, p_memsz p, p_flags p, p_align p] @ rest))"
      using d False by (simp add: phdr_bytes_def Let_def del: pack_fields.simps)
    note r1 = read_packed [OF f(1) d0 refl]
    note r2 = read_packed [OF f(2) r1 [THEN conjunct2] refl]
    note r3 = read_packed [OF f(3) r2 [THEN conjunct2] refl]
    show ?thesis using False
      by (simp only: parse_phdr_def r1 r2 r3 fin) simp
  qed
qed

lemma read_name_text:
  "0 \<notin> set bs \<Longrightarrow> read_name (bs @ 0 # rest) = Inr (map (\<lambda>b. char_of (unat b)) bs)"
  by (induction bs) auto

lemma checksec_cached: "d \<noteq> [] \<Longrightarrow> checksec check d = (Inr d, d)"
  by (simp add: checksec_def)

section \<open>Properties\<close>

text \<open>Fact: for either class and byte order, parsing the bytes of a well-formed ELF header,
  followed by anything, gives back all its fields.\<close>
theorem elf_header_roundtrip:
  assumes "wf_elf h"
  shows "parse_elf_header (header_bytes h @ rest) = Inr h"
  using assms by (rule parse_header_bytes)

definition demo_elf :: elf where
  "demo_elf = \<lparr>e_magic = ELF_MAGIC, e_class = 2, e_endianness = LITTLE_ENDIAN, e_eiversion = 1,
     e_osabi = 0, e_abiversion = 0, e_pad = replicate 7 0, e_type = 2, e_machine = 0xf3, e_version = 1,
     e_entry = 0x80200000, e_phoff = 64, e_shoff = 0, e_flags = 5, e_ehsize = 64, e_phentsize = 56,
     e_phnum = 1, e_shentsize = 64, e_shnum = 0, e_shstrndx = 0\<rparr>"

lemma wf_demo_elf: "wf_elf demo_elf"
  by (simp add: wf_elf_def demo_elf_def elf_osabis_def elf_types_def elf_abis_def fits_Cons)

theorem elf_header_roundtrip_witness: "parse_elf_header (header_bytes demo_elf @ [1, 2, 3]) = Inr demo_elf"
  by (rule elf_header_roundtrip [OF wf_demo_elf])

text \<open>Fact: a file whose first four bytes are not the ELF magic is refused with the magic
  error, whatever follows.\<close>
theorem elf_bad_magic:
  assumes "7 \<le> length f" "le_val (rev (take 4 f)) \<noteq> ELF_MAGIC"
  shows "elf_init (Some f) arch = raise RuntimeError ''Not a valid ELF file (magic)''"
proof -
  have "take 4 (take 7 f) = take 4 f" by simp
  with assms have "parse_elf_header f = raise RuntimeError ''Not a valid ELF file (magic)''"
    by (simp add: parse_elf_header_def read_and_unpack_def fread_def order_def endianness_str_def Let_def)
  then show ?thesis by (simp add: elf_init_def)
qed

theorem elf_bad_magic_witness:
  "elf_init (Some [0x4d, 0x5a, 0x90, 0, 3, 0, 0, 0]) LITTLE_ENDIAN =
     raise RuntimeError ''Not a valid ELF file (magic)''"
  by (rule elf_bad_magic) (simp_all add: ELF_MAGIC_def)

text \<open>Fact: a program header stored at an offset of the file, for either class and byte order,
  is read back field by field.\<close>
theorem phdr_roundtrip:
  assumes "wf_phdr h p" "drop (nat (ph_off p)) f = phdr_bytes h p @ rest"
  shows "parse_phdr f h (ph_off p) = Inr p"
  using assms by (rule parse_phdr_bytes)

definition demo_phdr :: phdr where
  "demo_phdr = \<lparr>ph_off = 64, p_type = 1, p_flags = 5, p_offset = 0x1000, p_vaddr = 0x80200000,
     p_paddr = 0x80200000, p_filesz = 0x2000, p_memsz = 0x3000, p_align = 0x1000\<rparr>"

theorem phdr_roundtrip_witness:
  "parse_phdr (replicate 64 0 @ phdr_bytes demo_elf demo_phdr @ [7]) demo_elf 64 = Inr demo_phdr"
proof -
  have "wf_phdr demo_elf demo_phdr"
    by (simp add: wf_phdr_def demo_elf_def demo_phdr_def phdr_types_def is64_def fits_Cons)
  moreover have "ph_off demo_phdr = 64" by (simp add: demo_phdr_def)
  ultimately show ?thesis
    using phdr_roundtrip [of demo_elf demo_phdr "replicate 64 0 @ phdr_bytes demo_elf demo_phdr @ [7]" "[7]"]
    by simp
qed

text \<open>Fact: a section header's flags survive only when they are a single declared flag: any
  other field value, such as the WRITE and ALLOC flags of a data section, becomes
  UNKNOWN\_FLAG.\<close>
theorem shdr_combined_flags_lost:
  assumes "parse_shdr f arch h off = Inr s" "is64 h"
    and "read_and_unpack f (e_endianness h) [4, 4, 8] (nat off) = Inr ([nm, ty, v], p)"
  shows "sh_flags s = (if \<exists>name. (name, v) \<in> set shdr_flags then v else 0xffffffff)"
proof -
  have "sh_flags s = enum_call_or shdr_flags 0xffffffff v"
    using assms by (auto simp: parse_shdr_def Let_def result_simps split: prod.splits)
  moreover have "v \<in> set (map snd shdr_flags) \<longleftrightarrow> (\<exists>name. (name, v) \<in> set shdr_flags)" by force
  ultimately show ?thesis by (simp add: enum_call_or_def)
qed

definition demo_shdr_file :: "byte list" where
  "demo_shdr_file = pack_fields LITTLE_ENDIAN [4, 4, 8, 8, 8, 8, 4, 4, 8, 8] [0, 1, 3, 0, 64, 2, 0, 0, 1, 0]
     @ [0x2e, 0x64, 0]"

theorem shdr_combined_flags_lost_witness:
  "\<exists>s. parse_shdr demo_shdr_file LITTLE_ENDIAN (demo_elf\<lparr>e_shnum := 1\<rparr>) 0 = Inr s
     \<and> sh_flags s = 0xffffffff"
proof -
  let ?h = "demo_elf\<lparr>e_shnum := 1\<rparr>"
  have "is_ok (parse_shdr demo_shdr_file LITTLE_ENDIAN ?h 0)" by code_simp
  then obtain s where s: "parse_shdr demo_shdr_file LITTLE_ENDIAN ?h 0 = Inr s" by (auto simp: is_ok_iff)
  have r: "read_and_unpack demo_shdr_file (e_endianness ?h) [4, 4, 8] (nat 0) = Inr ([0, 1, 3], 16)"
    by code_simp
  have "is64 ?h" by (simp add: is64_def demo_elf_def)
  from shdr_combined_flags_lost [OF s this r] have "sh_flags s = 0xffffffff"
    by (simp add: shdr_flags_def)
  with s show ?thesis by blast
qed

text \<open>Fact: the offset of the section-name table is the file's field only when the current
  architecture has the byte order of the file; otherwise its bytes are read reversed.\<close>
theorem strtab_offset_byte_order:
  assumes "is64 h" "length bs = 8"
    and "drop (nat (e_shoff h + e_shentsize h * e_shstrndx h + 24)) f = bs @ rest"
  shows "strtab_offset f arch h =
    u64 (e_endianness h) False None (if arch = e_endianness h then bs else rev bs)"
proof -
  let ?o = "e_shoff h + e_shentsize h * e_shstrndx h"
  have k: "nat (?o + 16 + 8) = nat (?o + 24)" by simp
  have "take 8 (drop (nat (?o + 24)) f) = bs" using assms by simp
  then have "fst (fread f (nat (?o + 16 + 8)) 8) = bs"
    by (simp only: fread_def Let_def fst_conv k)
  then show ?thesis using assms(1,2)
    by (cases arch; cases "e_endianness h")
      (simp_all add: strtab_offset_def Let_def u64_def struct_unpack_def endian_or_def order_def
        endianness_str_def)
qed

theorem strtab_offset_byte_order_witness:
  "strtab_offset demo_shdr_file BIG_ENDIAN demo_elf = u64 LITTLE_ENDIAN False None [0, 0, 0, 0, 0, 0, 0, 64]"
proof -
  have d: "drop (nat (e_shoff demo_elf + e_shentsize demo_elf * e_shstrndx demo_elf + 24)) demo_shdr_file
      = [64, 0, 0, 0, 0, 0, 0, 0] @ drop 32 demo_shdr_file"
    by code_simp
  have "is64 demo_elf" "e_endianness demo_elf = LITTLE_ENDIAN" by (simp_all add: is64_def demo_elf_def)
  with strtab_offset_byte_order [OF _ _ d, of BIG_ENDIAN] show ?thesis by simp
qed

text \<open>Fact: when readelf fails after the first property was recorded, the incomplete dictionary
  stays cached: the next call returns it as the answer without running readelf.\<close>
theorem checksec_partial_cache:
  assumes "check ''-rs'' ''__stack_chk_fail'' = Inr b" "check ''-W -l'' ''GNU_STACK'' = Inl e"
  shows "checksec check [] = (Inl e, [(''Canary'', b)])
    \<and> checksec check' (snd (checksec check [])) = (Inr [(''Canary'', b)], [(''Canary'', b)])"
proof -
  have "checksec check [] = (Inl e, [(''Canary'', b)])"
    using assms by (simp add: checksec_def checksec_step_def state_simps)
  then show ?thesis by (simp add: checksec_cached)
qed

theorem checksec_partial_cache_witness:
  "let check = (\<lambda>opt pat. if opt = ''-rs'' then Inr True else raise OSError ''readelf'')
   in checksec check [] = (raise OSError ''readelf'', [(''Canary'', True)])"
  using checksec_partial_cache [of "\<lambda>opt pat. if opt = ''-rs'' then Inr True else raise OSError ''readelf''"
      True "Exn OSError ''readelf''"] by (simp add: Let_def)

end
