(* ===== verification/Glibc.thy ===== *)
theory Glibc
  imports Sections
begin

unbundle bit_operations_syntax

text \<open>
  The glibc heap structures of \<^verbatim>\<open>scripts/gef.py\<close>: \<^verbatim>\<open>GlibcHeapInfo\<close>, \<^verbatim>\<open>GlibcArena\<close>,
  \<^verbatim>\<open>GlibcChunk\<close> and \<^verbatim>\<open>GlibcFastChunk\<close>, and the size and alignment computations of
  \<^verbatim>\<open>GefHeapManager\<close> they use.  The structures are read through \<^verbatim>\<open>ctypes\<close>, whose layout rules
  (every field aligned to its width, byte order and pointer width of the machine GEF runs on)
  are written out.
\<close>

text \<open>What the heap code consults: the inferior, the libc version, and the answers about types
  and architectures\<close>
record genv =
  g_target :: target
  g_libc :: "(nat \<times> nat) option"
  g_x86_32 :: bool
  g_32bit :: bool
  g_long_size :: "nat option"
  g_host :: endianness
  g_maps :: "sect list"

abbreviation g_ptrsize :: "genv \<Rightarrow> nat" where "g_ptrsize g \<equiv> t_ptrsize (g_target g)"

definition version_ge :: "nat \<times> nat \<Rightarrow> nat \<times> nat \<Rightarrow> bool" where
  "version_ge v w \<longleftrightarrow> fst w < fst v \<or> (fst w = fst v \<and> snd w \<le> snd v)"

definition libc_at_least :: "genv \<Rightarrow> nat \<times> nat \<Rightarrow> bool" where
  "libc_at_least g w = (case g_libc g of None \<Rightarrow> False | Some v \<Rightarrow> version_ge v w)"

definition assert_libc :: "genv \<Rightarrow> (nat \<times> nat) result" where
  "assert_libc g = (case g_libc g of None \<Rightarrow> raise AssertionError [] | Some v \<Rightarrow> Inr v)"

section \<open>Sizes and alignment\<close>

definition min_chunk_size :: "genv \<Rightarrow> int" where
  "min_chunk_size g = 4 * int (g_ptrsize g)"

definition malloc_alignment_of :: "genv \<Rightarrow> nat \<times> nat \<Rightarrow> int" where
  "malloc_alignment_of g v =
     (if version_ge v (2, 26) \<and> g_x86_32 g then 0x10 else 2 * int (g_ptrsize g))"

definition malloc_alignment :: "genv \<Rightarrow> int result" where
  "malloc_alignment g = bindE (assert_libc g) (\<lambda>v. Inr (malloc_alignment_of g v))"

definition csize2tidx :: "genv \<Rightarrow> int \<Rightarrow> int result" where
  "csize2tidx g csize = bindE (malloc_alignment g) (\<lambda>al.
     Inr (\<bar>csize - min_chunk_size g + al - 1\<bar> div al))"

definition tidx2size :: "genv \<Rightarrow> int \<Rightarrow> int result" where
  "tidx2size g idx = bindE (malloc_alignment g) (\<lambda>al. Inr (idx * al + min_chunk_size g))"

text \<open>Python's true division of an integer by a power of two is a double: the integer is
  rounded to 53 significant bits, ties to even, and scaling by the power of two is exact\<close>
function bit_length :: "nat \<Rightarrow> nat" where
  "bit_length n = (if n = 0 then 0 else Suc (bit_length (n div 2)))"
  by pat_completeness auto
termination by (relation "measure id") auto

declare bit_length.simps [simp del]

definition float53 :: "int \<Rightarrow> int" where
  "float53 a =
     (if \<bar>a\<bar> < 2 ^ 53 then a
      else let e = bit_length (nat \<bar>a\<bar>) - 53;
               q = \<bar>a\<bar> div 2 ^ e; r = \<bar>a\<bar> mod 2 ^ e;
               q' = (if 2 ^ e < 2 * r \<or> (2 * r = 2 ^ e \<and> odd q) then q + 1 else q)
           in sgn a * q' * 2 ^ e)"

text \<open>\<^verbatim>\<open>malloc_alignment * ceil(address / malloc_alignment)\<close> with
  \<^verbatim>\<open>ceil = lambda n: int(-1 * n // 1 * -1)\<close>\<close>
definition malloc_align :: "int \<Rightarrow> int \<Rightarrow> int" where
  "malloc_align al address = al * (- ((- float53 address) div al))"

definition malloc_align_address :: "genv \<Rightarrow> int \<Rightarrow> int result" where
  "malloc_align_address g address =
     bindE (malloc_alignment g) (\<lambda>al. Inr (malloc_align al address))"

section \<open>Structures in memory\<close>

text \<open>A layout lists the fields with their width and count\<close>
type_synonym layout = "(string \<times> nat \<times> nat) list"

definition round_up :: "nat \<Rightarrow> nat \<Rightarrow> nat" where
  "round_up n w = (n + w - 1) div w * w"

fun field_offsets :: "nat \<Rightarrow> layout \<Rightarrow> (string \<times> nat) list" where
  "field_offsets o1 [] = []"
| "field_offsets o1 ((n, w, c) # fs) =
     (let p = round_up o1 w in (n, p) # field_offsets (p + w * c) fs)"

fun layout_end :: "nat \<Rightarrow> layout \<Rightarrow> nat" where
  "layout_end o1 [] = o1"
| "layout_end o1 ((n, w, c) # fs) = layout_end (round_up o1 w + w * c) fs"

definition layout_align :: "layout \<Rightarrow> nat" where
  "layout_align fs = foldl max 1 (map (\<lambda>(_, w, _). w) fs)"

definition sizeof_layout :: "layout \<Rightarrow> nat" where
  "sizeof_layout fs = round_up (layout_end 0 fs) (layout_align fs)"

definition field_at :: "genv \<Rightarrow> layout \<Rightarrow> byte list \<Rightarrow> string \<Rightarrow> nat \<Rightarrow> int" where
  "field_at g fs data name i =
     (case (map_of fs name, map_of (field_offsets 0 fs) name) of
        (Some (w, _), Some p) \<Rightarrow> le_val (order (g_host g) (take w (drop (p + i * w) data)))
      | _ \<Rightarrow> 0)"

abbreviation ptr_width :: "genv \<Rightarrow> nat" where
  "ptr_width g \<equiv> (if g_ptrsize g = 8 then 8 else 4)"

text \<open>\<^verbatim>\<open>ctypes.POINTER\<close> fields have the width of the machine GEF runs on: 8 bytes\<close>
definition heap_info_t :: "genv \<Rightarrow> layout result" where
  "heap_info_t g = bindE (assert_libc g) (\<lambda>v. bindE (malloc_alignment g) (\<lambda>al.
     let pad = (\<lambda>k. nat ((- k * int (g_ptrsize g)) AND (al - 1)));
         base = [(''ar_ptr'', 8, 1), (''prev'', 8, 1), (''size'', ptr_width g, 1)];
         f1 = (if version_ge v (2, 5) then base @ [(''mprotect_size'', ptr_width g, 1)] else base);
         p1 = (if version_ge v (2, 5) then pad 6 else pad 5);
         f2 = (if version_ge v (2, 34) then f1 @ [(''pagesize'', ptr_width g, 1)] else f1);
         p2 = (if version_ge v (2, 34) then pad 3 else p1)
     in Inr (f2 @ [(''pad'', 1, p2)])))"

definition malloc_state_t :: "genv \<Rightarrow> layout" where
  "malloc_state_t g =
     (let p = ptr_width g in
      [(''mutex'', 4, 1), (''flags'', 4, 1)]
      @ (if libc_at_least g (2, 27) then [(''have_fastchunks'', 4, 1), (''UNUSED_c'', 4, 1)] else [])
      @ [(''fastbinsY'', p, 10), (''top'', p, 1), (''last_remainder'', p, 1), (''bins'', p, 254),
         (''binmap'', 4, 4), (''next'', p, 1), (''next_free'', p, 1)]
      @ (if libc_at_least g (2, 23) then [(''attached_threads'', p, 1)] else [])
      @ [(''system_mem'', p, 1), (''max_system_mem'', p, 1)])"

definition malloc_chunk_t :: "genv \<Rightarrow> layout" where
  "malloc_chunk_t g =
     (let p = ptr_width g in
      [(''prev_size'', p, 1), (''size'', p, 1), (''fd'', p, 1), (''bk'', p, 1),
       (''fd_nextsize'', 8, 1), (''bk_nextsize'', 8, 1)])"

section \<open>Heap infos\<close>

record heap_info =
  hi_address :: int
  hi_sizeof :: nat
  hi_data :: "byte list"

definition heap_info_reset :: "genv \<Rightarrow> int \<Rightarrow> heap_info result" where
  "heap_info_reset g addr = bindE (heap_info_t g) (\<lambda>lay.
     bindE (mem_read (g_target g) addr (int (sizeof_layout lay))) (\<lambda>d.
       Inr \<lparr>hi_address = addr, hi_sizeof = sizeof_layout lay, hi_data = d\<rparr>))"

text \<open>The constructor on a symbol and on an address\<close>
definition heap_info_of_str :: "genv \<Rightarrow> string \<Rightarrow> heap_info result" where
  "heap_info_of_str g s = bindE (parse_address (g_target g) (CHR ''&'' # s)) (heap_info_reset g)"

text \<open>\<^verbatim>\<open>__getattr__\<close>: the value of a null pointer, or of a zero field, is None\<close>
definition hi_field :: "genv \<Rightarrow> heap_info \<Rightarrow> string \<Rightarrow> int option result" where
  "hi_field g h name = bindE (heap_info_t g) (\<lambda>lay.
     let v = field_at g lay (hi_data h) name 0 in Inr (if v = 0 then None else Some v))"

definition need_int :: "int option \<Rightarrow> int result" where
  "need_int v = (case v of None \<Rightarrow> raise TypeError ''NoneType operand'' | Some x \<Rightarrow> Inr x)"

definition heap_end :: "genv \<Rightarrow> heap_info \<Rightarrow> int result" where
  "heap_end g h = bindE (bindE (hi_field g h ''size'') need_int) (\<lambda>s. Inr (hi_address h + s))"

section \<open>Arenas\<close>

record arena =
  ar_address :: int
  ar_sizeof :: nat
  ar_data :: "byte list"

definition arena_reset :: "genv \<Rightarrow> int \<Rightarrow> arena result" where
  "arena_reset g addr =
     (let lay = malloc_state_t g in
      bindE (mem_read (g_target g) addr (int (sizeof_layout lay))) (\<lambda>d.
        Inr \<lparr>ar_address = addr, ar_sizeof = sizeof_layout lay, ar_data = d\<rparr>))"

definition is_gdb_error :: "py_exn \<Rightarrow> bool" where
  "is_gdb_error e = (exn_cls e = GdbError \<or> exn_cls e = GdbMemoryError)"

text \<open>\<^verbatim>\<open>GlibcArena(addr)\<close>: when the expression cannot be evaluated the address of the main
  arena, \<^verbatim>\<open>fallback\<close>, is used\<close>
definition arena_init :: "genv \<Rightarrow> int result \<Rightarrow> string \<Rightarrow> arena result" where
  "arena_init g fallback addr =
     (case parse_address (g_target g) (CHR ''&'' # addr) of
        Inr a \<Rightarrow> arena_reset g a
      | Inl e \<Rightarrow> if is_gdb_error e then bindE fallback (arena_reset g) else Inl e)"

definition ar_field :: "genv \<Rightarrow> arena \<Rightarrow> string \<Rightarrow> nat \<Rightarrow> int" where
  "ar_field g a name i = field_at g (malloc_state_t g) (ar_data a) name i"

definition ar_top :: "genv \<Rightarrow> arena \<Rightarrow> int" where "ar_top g a = ar_field g a ''top'' 0"
definition ar_last_remainder :: "genv \<Rightarrow> arena \<Rightarrow> int" where
  "ar_last_remainder g a = ar_field g a ''last_remainder'' 0"
definition ar_next :: "genv \<Rightarrow> arena \<Rightarrow> int" where "ar_next g a = ar_field g a ''next'' 0"
definition ar_system_mem :: "genv \<Rightarrow> arena \<Rightarrow> int" where
  "ar_system_mem g a = ar_field g a ''system_mem'' 0"
definition ar_max_system_mem :: "genv \<Rightarrow> arena \<Rightarrow> int" where
  "ar_max_system_mem g a = ar_field g a ''max_system_mem'' 0"

text \<open>Python's indexing of a ctypes array of n elements: negative indices count from the end\<close>
definition array_at :: "(nat \<Rightarrow> int) \<Rightarrow> int \<Rightarrow> int \<Rightarrow> int result" where
  "array_at f n i =
     (if 0 \<le> i \<and> i < n then Inr (f (nat i))
      else if - n \<le> i \<and> i < 0 then Inr (f (nat (n + i)))
      else raise IndexError ''invalid index'')"

definition ar_bin :: "genv \<Rightarrow> arena \<Rightarrow> int \<Rightarrow> (int \<times> int) result" where
  "ar_bin g a i =
     bindE (array_at (ar_field g a ''bins'') 254 (i * 2)) (\<lambda>fd.
     bindE (array_at (ar_field g a ''bins'') 254 (i * 2 + 1)) (\<lambda>bk. Inr (fd, bk)))"

definition ar_bin_at :: "genv \<Rightarrow> arena \<Rightarrow> int \<Rightarrow> int" where
  "ar_bin_at g a i =
     (let header_sz = 2 * int (g_ptrsize g);
          o1 = (case map_of (field_offsets 0 (malloc_state_t g)) ''bins'' of Some p \<Rightarrow> int p | None \<Rightarrow> 0)
      in ar_address a + o1 + (i - 1) * 2 * int (g_ptrsize g) + header_sz)"

text \<open>\<^verbatim>\<open>__iter__\<close>: the arenas up to the one whose next pointer is null or the main arena.  The
  list in memory may be cyclic, so the walk has fuel (None when it runs out).  An exception
  ends the walk after the arenas already produced.\<close>
fun arena_iter :: "genv \<Rightarrow> int result \<Rightarrow> int \<Rightarrow> nat \<Rightarrow> arena \<Rightarrow> (arena list \<times> py_exn option) option" where
  "arena_iter g fallback main 0 a = None"
| "arena_iter g fallback main (Suc n) a =
     (if ar_next g a = 0 \<or> ar_next g a = main then Some ([a], None)
      else case arena_init g fallback (CHR ''*'' # hexs (ar_next g a) @ '' '') of
             Inl e \<Rightarrow> Some ([a], Some e)
           | Inr b \<Rightarrow> map_option (\<lambda>(as, e). (a # as, e)) (arena_iter g fallback main n b))"

definition arena_str :: "bool \<Rightarrow> genv \<Rightarrow> arena \<Rightarrow> string" where
  "arena_str disabled g a =
     colorify disabled ''Arena'' ''blue bold underline'' @ ''(base='' @ hexs (ar_address a)
     @ '', top='' @ hexs (ar_top g a) @ '', last_remainder='' @ hexs (ar_last_remainder g a)
     @ '', next='' @ hexs (ar_next g a) @ '', mem='' @ decs (ar_system_mem g a)
     @ '', mempeak='' @ decs (ar_max_system_mem g a) @ '')''"

definition is_main_arena :: "arena option \<Rightarrow> arena \<Rightarrow> bool" where
  "is_main_arena main a = (case main of None \<Rightarrow> False | Some m \<Rightarrow> ar_address a = ar_address m)"

text \<open>\<^verbatim>\<open>heap_addr\<close>; \<^verbatim>\<open>base\<close> is the base address of the main heap\<close>
definition heap_addr :: "genv \<Rightarrow> arena option \<Rightarrow> int option \<Rightarrow> bool \<Rightarrow> arena \<Rightarrow> int option result" where
  "heap_addr g main base allow_unaligned a =
     (if is_main_arena main a then
        Inr (case base of None \<Rightarrow> None | Some b \<Rightarrow> if b = 0 then None else Some b)
      else
        (let addr = ar_address a + int (ar_sizeof a) in
         if allow_unaligned then Inr (Some addr)
         else bindE (malloc_align_address g addr) (\<lambda>x. Inr (Some x))))"

definition heap_max_size :: "genv \<Rightarrow> int" where
  "heap_max_size g =
     (let threshold = (if g_32bit g then 512 * 1024
        else 4 * 1024 * 1024 * int (case g_long_size g of Some s \<Rightarrow> s | None \<Rightarrow> g_ptrsize g))
      in 2 * threshold)"

definition get_heap_for_ptr :: "genv \<Rightarrow> int \<Rightarrow> int" where
  "get_heap_for_ptr g ptr = ptr AND NOT (heap_max_size g - 1)"

text \<open>\<^verbatim>\<open>get_heap_info_list\<close> of a non-main arena: the chain of \<^verbatim>\<open>prev\<close> pointers, oldest first\<close>
fun heap_info_chain :: "genv \<Rightarrow> nat \<Rightarrow> heap_info list \<Rightarrow> heap_info list result option" where
  "heap_info_chain g 0 hs = None"
| "heap_info_chain g (Suc n) hs =
     (case hi_field g (hd hs) ''prev'' of
        Inl e \<Rightarrow> Some (Inl e)
      | Inr None \<Rightarrow> Some (Inr hs)
      | Inr (Some p) \<Rightarrow>
          (case heap_info_reset g p of
             Inl e \<Rightarrow> Some (Inl e)
           | Inr h \<Rightarrow> heap_info_chain g n (h # hs)))"

definition get_heap_info_list ::
  "genv \<Rightarrow> arena option \<Rightarrow> nat \<Rightarrow> arena \<Rightarrow> heap_info list option result option" where
  "get_heap_info_list g main fuel a =
     (if is_main_arena main a then Some (Inr None)
      else case heap_info_reset g (get_heap_for_ptr g (ar_top g a)) of
             Inl e \<Rightarrow> Some (Inl e)
           | Inr h \<Rightarrow> map_option (\<lambda>r. bindE r (\<lambda>hs. Inr (Some hs))) (heap_info_chain g fuel [h]))"

text \<open>\<^verbatim>\<open>verify\<close>: follow the next pointers until the arena is met again.  Every exception means
  False.  The comparison of an arena with the integer 0 reads its address.\<close>
fun verify_loop :: "genv \<Rightarrow> int result \<Rightarrow> nat \<Rightarrow> arena \<Rightarrow> arena \<Rightarrow> bool option" where
  "verify_loop g fallback 0 test cur = None"
| "verify_loop g fallback (Suc n) test cur =
     (if ar_address cur = ar_address test then Some True
      else if ar_address cur = 0 then Some False
      else case arena_init g fallback (CHR ''*'' # hexs (ar_next g cur)) of
             Inl e \<Rightarrow> Some False
           | Inr c \<Rightarrow> verify_loop g fallback n test c)"

definition arena_verify :: "genv \<Rightarrow> int result \<Rightarrow> nat \<Rightarrow> int \<Rightarrow> bool option" where
  "arena_verify g fallback fuel addr =
     (case bindE (arena_init g fallback (CHR ''*'' # hexs addr)) (\<lambda>test.
             bindE (arena_init g fallback (CHR ''*'' # hexs (ar_next g test))) (\<lambda>cur.
               Inr (test, cur))) of
        Inl e \<Rightarrow> Some False
      | Inr (test, cur) \<Rightarrow> verify_loop g fallback fuel test cur)"

end
