(* ===== verification/Chunks.thy ===== *)
theory Chunks
  imports Glibc
begin

unbundle bit_operations_syntax

text \<open>
  \<^verbatim>\<open>GlibcChunk\<close> and \<^verbatim>\<open>GlibcFastChunk\<close> of \<^verbatim>\<open>scripts/gef.py\<close>: construction, header fields,
  the walk over consecutive chunks, and the protected pointers of fast chunks.
\<close>

section \<open>Chunks\<close>

record chunk =
  data_address :: int
  base_address :: int
  size_addr :: int
  prev_size_addr :: int
  c_data :: "byte list"

definition chunk_init :: "genv \<Rightarrow> int \<Rightarrow> bool \<Rightarrow> bool \<Rightarrow> chunk result" where
  "chunk_init g addr from_base allow_unaligned =
     (let ptrsize = int (g_ptrsize g);
          data0 = (if from_base then addr + 2 * ptrsize else addr);
          base = (if from_base then addr else addr - 2 * ptrsize)
      in bindE (if allow_unaligned then Inr data0 else malloc_align_address g data0) (\<lambda>data.
         bindE (mem_read (g_target g) base (int (sizeof_layout (malloc_chunk_t g)))) (\<lambda>d.
           Inr \<lparr>data_address = data, base_address = base, size_addr = data - ptrsize,
                prev_size_addr = base, c_data = d\<rparr>)))"

definition c_field :: "genv \<Rightarrow> chunk \<Rightarrow> string \<Rightarrow> int" where
  "c_field g c name = field_at g (malloc_chunk_t g) (c_data c) name 0"

definition c_prev_size :: "genv \<Rightarrow> chunk \<Rightarrow> int" where "c_prev_size g c = c_field g c ''prev_size''"
definition c_size :: "genv \<Rightarrow> chunk \<Rightarrow> int" where "c_size g c = c_field g c ''size'' AND NOT 7"
definition c_flags :: "genv \<Rightarrow> chunk \<Rightarrow> int" where "c_flags g c = c_field g c ''size'' AND 7"
definition c_fd :: "genv \<Rightarrow> chunk \<Rightarrow> int" where "c_fd g c = c_field g c ''fd''"
definition c_bk :: "genv \<Rightarrow> chunk \<Rightarrow> int" where "c_bk g c = c_field g c ''bk''"

definition has_p_bit :: "genv \<Rightarrow> chunk \<Rightarrow> bool" where "has_p_bit g c = (c_flags g c AND 1 \<noteq> 0)"
definition has_m_bit :: "genv \<Rightarrow> chunk \<Rightarrow> bool" where "has_m_bit g c = (c_flags g c AND 2 \<noteq> 0)"
definition has_n_bit :: "genv \<Rightarrow> chunk \<Rightarrow> bool" where "has_n_bit g c = (c_flags g c AND 4 \<noteq> 0)"

definition get_usable_size :: "genv \<Rightarrow> chunk \<Rightarrow> int" where
  "get_usable_size g c =
     (let ptrsz = int (g_ptrsize g); cursz = c_size g c
      in if cursz = 0 then cursz
         else if has_m_bit g c then cursz - 2 * ptrsz else cursz - ptrsz)"

definition get_prev_chunk_size :: "genv \<Rightarrow> chunk \<Rightarrow> int result" where
  "get_prev_chunk_size g c = read_integer (g_target g) (prev_size_addr c)"

definition get_next_chunk_addr :: "genv \<Rightarrow> chunk \<Rightarrow> int" where
  "get_next_chunk_addr g c = data_address c + c_size g c"

definition get_next_chunk :: "genv \<Rightarrow> bool \<Rightarrow> chunk \<Rightarrow> chunk result" where
  "get_next_chunk g allow_unaligned c = chunk_init g (get_next_chunk_addr g c) False allow_unaligned"

definition is_used :: "genv \<Rightarrow> chunk \<Rightarrow> bool result" where
  "is_used g c =
     (if has_m_bit g c then Inr True
      else bindE (get_next_chunk g False c) (\<lambda>n. Inr (if has_p_bit g n then True else False)))"

text \<open>\<^verbatim>\<open>__iter__\<close>: the chunks from one up to the top chunk of the main arena, an empty chunk or the
  end of the mapped memory.  None is exhausted fuel; an exception ends the walk.\<close>
fun chunk_iter :: "genv \<Rightarrow> int \<Rightarrow> nat \<Rightarrow> chunk \<Rightarrow> (chunk list \<times> py_exn option) option" where
  "chunk_iter g tp 0 c = None"
| "chunk_iter g tp (Suc n) c =
     (if base_address c = tp then Some ([c], None)
      else if c_size g c = 0 then Some ([c], None)
      else if \<not> addr_valid (g_maps g) (get_next_chunk_addr g c) then Some ([c], None)
      else case get_next_chunk g False c of
             Inl e \<Rightarrow> Some ([c], Some e)
           | Inr d \<Rightarrow> map_option (\<lambda>(cs, e). (c # cs, e)) (chunk_iter g tp n d))"

text \<open>Printing; \<^verbatim>\<open>b\<close> is the setting that disables colours\<close>
definition flags_str :: "bool \<Rightarrow> int \<Rightarrow> string" where
  "flags_str b f = join '' | ''
     [if f AND 1 \<noteq> 0 then greenify b ''PREV_INUSE'' else redify b ''PREV_INUSE'',
      if f AND 2 \<noteq> 0 then greenify b ''IS_MMAPPED'' else redify b ''IS_MMAPPED'',
      if f AND 4 \<noteq> 0 then greenify b ''NON_MAIN_ARENA'' else redify b ''NON_MAIN_ARENA'']"

definition chunk_str :: "bool \<Rightarrow> genv \<Rightarrow> chunk \<Rightarrow> string" where
  "chunk_str b g c = colorify b ''Chunk'' ''yellow bold underline'' @ ''(addr='' @ hexs (data_address c)
     @ '', size='' @ hexs (c_size g c) @ '', flags='' @ flags_str b (c_flags g c) @ '')''"

definition size_line :: "string \<Rightarrow> int \<Rightarrow> string" where
  "size_line what n = what @ '': '' @ decs n @ '' ('' @ hexs n @ '')''"

text \<open>The header has been read when the chunk was made, so only the previous size can fail\<close>
definition str_sizes :: "bool \<Rightarrow> genv \<Rightarrow> chunk \<Rightarrow> string result" where
  "str_sizes b g c =
     (let a = [size_line ''Chunk size'' (c_size g c), size_line ''Usable size'' (get_usable_size g c)];
          fin = (\<lambda>p. join [CHR 0x0A] (a @ [p, flags_str b (c_flags g c)]))
      in case get_prev_chunk_size g c of
           Inr p \<Rightarrow> Inr (fin (size_line ''Previous chunk size'' p))
         | Inl e \<Rightarrow> if exn_cls e = GdbMemoryError
             then Inr (fin (''Previous chunk size: Cannot read at '' @ hexs (base_address c) @ '' (corrupted?)''))
             else Inl e)"

definition str_pointers :: "genv \<Rightarrow> chunk \<Rightarrow> string" where
  "str_pointers g c = join [CHR 0x0A]
     [''Forward pointer: '' @ hexs (c_fd g c), ''Backward pointer: '' @ hexs (c_bk g c)]"

definition psprint :: "bool \<Rightarrow> genv \<Rightarrow> chunk \<Rightarrow> string result" where
  "psprint b g c =
     bindE (str_sizes b g c) (\<lambda>sz. bindE (is_used g c) (\<lambda>used.
       Inr (join [CHR 0x0A] ([chunk_str b g c, sz]
              @ (if \<not> used then [CHR 0x0A # CHR 0x0A # str_pointers g c] else [])) @ [CHR 0x0A])))"

definition resolve_type :: "(int \<Rightarrow> string option) \<Rightarrow> genv \<Rightarrow> chunk \<Rightarrow> string result" where
  "resolve_type symbol_at g c =
     bindE (read_integer (g_target g) (data_address c)) (\<lambda>p.
       Inr (if p \<noteq> 0 then
              (case symbol_at p of
                 Some loc \<Rightarrow> if str_in ''vtable for'' loc then str_replace ''vtable for '' [] loc else []
               | None \<Rightarrow> [])
            else []))"

section \<open>Fast chunks\<close>

definition protect_ptr :: "genv \<Rightarrow> int \<Rightarrow> int \<Rightarrow> int result" where
  "protect_ptr g pos pointer = bindE (assert_libc g) (\<lambda>v.
     Inr (if \<not> version_ge v (2, 32) then pointer else drop_bit 12 pos XOR pointer))"

definition reveal_ptr :: "genv \<Rightarrow> int \<Rightarrow> int result" where
  "reveal_ptr g pointer = bindE (assert_libc g) (\<lambda>v.
     if \<not> version_ge v (2, 32) then Inr pointer
     else bindE (read_integer (g_target g) pointer) (\<lambda>x. Inr (x XOR drop_bit 12 pointer)))"

definition fast_fd :: "genv \<Rightarrow> chunk \<Rightarrow> int result" where
  "fast_fd g c = bindE (assert_libc g) (\<lambda>v.
     if \<not> version_ge v (2, 32) then Inr (c_fd g c) else reveal_ptr g (data_address c))"

text \<open>\<^verbatim>\<open>GlibcArena.fastbin\<close>: the head chunk of a fast bin\<close>
definition ar_fastbin :: "genv \<Rightarrow> arena \<Rightarrow> int \<Rightarrow> chunk option result" where
  "ar_fastbin g a i =
     bindE (array_at (ar_field g a ''fastbinsY'') 10 i) (\<lambda>addr.
       if addr = 0 then Inr None
       else bindE (chunk_init g (addr + 2 * int (g_ptrsize g)) False True) (\<lambda>c. Inr (Some c)))"

section \<open>Facts about alignment\<close>

lemma float53_exact: "\<bar>a\<bar> < 2 ^ 53 \<Longrightarrow> float53 a = a"
  by (simp add: float53_def)

lemma ceil_mult:
  assumes "0 < al"
  shows "a \<le> al * (- ((- a) div al))" "al * (- ((- a) div al)) < a + (al :: int)"
proof -
  have "al * ((- a) div al) + (- a) mod al = - a" by simp
  moreover have "al * (- ((- a) div al)) = - (al * ((- a) div al))" by simp
  ultimately have e: "al * (- ((- a) div al)) = a + (- a) mod al" by linarith
  from assms show "a \<le> al * (- ((- a) div al))" "al * (- ((- a) div al)) < a + al"
    unfolding e by simp_all
qed

lemma malloc_align_exact:
  assumes "0 < al" "\<bar>a\<bar> < 2 ^ 53"
  shows "a \<le> malloc_align al a" "malloc_align al a < a + al" "malloc_align al a mod al = 0"
  using ceil_mult [OF assms(1), of a] assms by (simp_all add: malloc_align_def float53_exact)

lemma malloc_alignment_pos: "0 < g_ptrsize g \<Longrightarrow> 0 < malloc_alignment_of g v"
  by (simp add: malloc_alignment_of_def)

section \<open>Facts about the walk\<close>

lemma and_minus_exp: "x AND - (2 ^ n) = x div 2 ^ n * (2 ^ n :: int)"
proof -
  have "x AND push_bit n (- 1) = push_bit n (drop_bit n x)"
    by (rule bit_eqI) (auto simp: bit_simps)
  then show ?thesis by (simp add: push_bit_eq_mult drop_bit_eq_div)
qed

lemma and_minus_8: "x AND - 8 = (x div 8) * (8 :: int)"
  using and_minus_exp [of x 3] by simp

lemma field_at_nonneg: "0 \<le> field_at g fs d name i"
  using le_val_bounds by (auto simp: field_at_def split: option.split)

lemma c_size_nonneg: "0 \<le> c_size g c"
  using field_at_nonneg [of g "malloc_chunk_t g" "c_data c" "''size''" 0]
  by (simp add: c_size_def c_field_def and_minus_8 pos_imp_zdiv_nonneg_iff)

lemma c_size_step: "c_size g c \<noteq> 0 \<Longrightarrow> 8 \<le> c_size g c"
  using c_size_nonneg [of g c] by (simp add: c_size_def and_minus_8)

lemma chunk_init_data:
  "chunk_init g addr False False = Inr d \<Longrightarrow> \<exists>v. g_libc g = Some v \<and>
     data_address d = malloc_align (malloc_alignment_of g v) addr"
  by (auto simp: chunk_init_def Let_def result_simps malloc_align_address_def malloc_alignment_def
      assert_libc_def split: option.splits)

definition maps_end :: "sect list \<Rightarrow> int" where
  "maps_end maps = foldr max (map page_end maps) 0"

lemma maps_end_bound: "s \<in> set maps \<Longrightarrow> page_end s \<le> maps_end maps"
  by (induction maps) (auto simp: maps_end_def)

lemma next_chunk_progress:
  assumes "maps_end (g_maps g) < 2 ^ 53" "0 < g_ptrsize g" "0 \<le> data_address c"
    and "c_size g c \<noteq> 0" "addr_valid (g_maps g) (get_next_chunk_addr g c)"
    and "get_next_chunk g False c = Inr d"
  shows "data_address c < data_address d" "get_next_chunk_addr g c \<le> data_address d"
    "data_address c < maps_end (g_maps g)" "0 \<le> data_address d"
proof -
  let ?n = "get_next_chunk_addr g c"
  have n: "data_address c + 8 \<le> ?n" using c_size_step [OF assms(4)] by (simp add: get_next_chunk_addr_def)
  obtain s where "s \<in> set (g_maps g)" "?n < page_end s"
    using assms(5) by (auto simp: addr_valid_iff sect_contains_def)
  then have le: "?n < maps_end (g_maps g)" using maps_end_bound by fastforce
  obtain v where d: "data_address d = malloc_align (malloc_alignment_of g v) ?n"
    using chunk_init_data [of g ?n d] assms(6) unfolding get_next_chunk_def by blast
  have "\<bar>?n\<bar> < 2 ^ 53" using n le assms(1,3) by simp
  from malloc_align_exact(1) [OF malloc_alignment_pos [OF assms(2)] this]
  have up: "?n \<le> data_address d" by (simp add: d)
  then show "?n \<le> data_address d" .
  show "data_address c < data_address d" "0 \<le> data_address d" using up n assms(3) by linarith+
  show "data_address c < maps_end (g_maps g)" using n le by linarith
qed

lemma chunk_iter_fuel:
  assumes "maps_end (g_maps g) < 2 ^ 53" "0 < g_ptrsize g" "0 \<le> data_address c"
    and "nat (maps_end (g_maps g) - data_address c) < n"
  shows "\<exists>cs e. chunk_iter g tp n c = Some (cs, e)"
  using assms(3,4)
proof (induction n arbitrary: c)
  case (Suc n)
  show ?case
  proof (cases "base_address c = tp \<or> c_size g c = 0 \<or> \<not> addr_valid (g_maps g) (get_next_chunk_addr g c)")
    case False
    then have f: "c_size g c \<noteq> 0" "addr_valid (g_maps g) (get_next_chunk_addr g c)" by auto
    show ?thesis
    proof (cases "get_next_chunk g False c")
      case (Inr d)
      note p = next_chunk_progress [OF assms(1,2) Suc.prems(1) f Inr]
      then have "nat (maps_end (g_maps g) - data_address d) < n" using Suc.prems(2) by linarith
      from Suc.IH [OF p(4) this] show ?thesis using False Inr by auto
    qed (use False in auto)
  qed auto
qed simp

lemma chunk_iter_linked:
  "chunk_iter g tp n c = Some (cs, e) \<Longrightarrow>
   cs \<noteq> [] \<and> hd cs = c \<and> successively (\<lambda>a b. get_next_chunk g False a = Inr b
     \<and> base_address a \<noteq> tp \<and> c_size g a \<noteq> 0 \<and> addr_valid (g_maps g) (get_next_chunk_addr g a)) cs"
proof (induction n arbitrary: c cs)
  case (Suc n)
  show ?case
  proof (cases "base_address c = tp \<or> c_size g c = 0 \<or> \<not> addr_valid (g_maps g) (get_next_chunk_addr g c)")
    case False
    show ?thesis
    proof (cases "get_next_chunk g False c")
      case (Inr d)
      with Suc.prems False obtain ds where ds: "chunk_iter g tp n d = Some (ds, e)" "cs = c # ds"
        by auto
      from Suc.IH [OF ds(1)] show ?thesis using ds(2) Inr False by (cases ds) auto
    qed (use False Suc.prems in auto)
  next
    case True
    with Suc.prems have "cs = [c]" by (auto split: if_splits)
    then show ?thesis by simp
  qed
qed simp

lemma chunk_iter_increasing:
  assumes "maps_end (g_maps g) < 2 ^ 53" "0 < g_ptrsize g"
  shows "0 \<le> data_address c \<Longrightarrow> chunk_iter g tp n c = Some (cs, e) \<Longrightarrow>
    \<exists>ds. cs = c # ds \<and> sorted_wrt (\<lambda>a b. data_address a < data_address b) (c # ds)"
proof (induction n arbitrary: c cs)
  case (Suc n)
  show ?case
  proof (cases "base_address c = tp \<or> c_size g c = 0 \<or> \<not> addr_valid (g_maps g) (get_next_chunk_addr g c)")
    case False
    then have f: "c_size g c \<noteq> 0" "addr_valid (g_maps g) (get_next_chunk_addr g c)" by auto
    show ?thesis
    proof (cases "get_next_chunk g False c")
      case (Inr d)
      note p = next_chunk_progress [OF assms Suc.prems(1) f Inr]
      from Suc.prems(2) False Inr obtain ds where ds: "chunk_iter g tp n d = Some (ds, e)" "cs = c # ds"
        by auto
      from Suc.IH [OF p(4) ds(1)] p(1) ds(2) show ?thesis by fastforce
    qed (use False Suc.prems in auto)
  next
    case True
    with Suc.prems have "cs = [c]" by (auto split: if_splits)
    then show ?thesis by simp
  qed
qed simp

section \<open>Properties\<close>

text \<open>Fact: with a map below 2 to the 53 the walk over the chunks always ends: a fuel of the
  distance to the end of the map is enough, and the chunks come in strictly increasing
  address order, the starting chunk first.\<close>
theorem chunk_walk_terminates:
  assumes "maps_end (g_maps g) < 2 ^ 53" "0 < g_ptrsize g" "0 \<le> data_address c"
  shows "\<exists>cs e. chunk_iter g tp (Suc (nat (maps_end (g_maps g) - data_address c))) c = Some (c # cs, e)
    \<and> sorted_wrt (\<lambda>a b. data_address a < data_address b) (c # cs)"
proof -
  obtain ds e where d: "chunk_iter g tp (Suc (nat (maps_end (g_maps g) - data_address c))) c = Some (ds, e)"
    using chunk_iter_fuel [OF assms, of "Suc (nat (maps_end (g_maps g) - data_address c))" tp] by blast
  from chunk_iter_increasing [OF assms d] show ?thesis using d by blast
qed

definition demo_genv :: genv where
  "demo_genv = \<lparr>g_target = demo_target, g_libc = Some (2, 35), g_x86_32 = False, g_32bit = False,
     g_long_size = Some 8, g_host = LITTLE_ENDIAN,
     g_maps = [new_sect\<lparr>page_start := 0x1000, page_end := 0x2000\<rparr>]\<rparr>"

definition demo_chunk :: chunk where
  "demo_chunk = \<lparr>data_address = 0x1010, base_address = 0x1000, size_addr = 0x1008,
     prev_size_addr = 0x1000, c_data = replicate 48 0\<rparr>"

theorem chunk_walk_terminates_witness:
  "\<exists>cs e. chunk_iter demo_genv 0x1fe0 (Suc (nat (0x2000 - 0x1010))) demo_chunk = Some (demo_chunk # cs, e)"
  using chunk_walk_terminates [of demo_genv demo_chunk "0x1fe0"]
  by (auto simp: demo_genv_def demo_chunk_def maps_end_def new_sect_def demo_target_def)

text \<open>Fact: below 2 to the 53 \<^verbatim>\<open>malloc_align_address\<close> is the least multiple of the alignment that
  is not below the address.\<close>
theorem malloc_align_least_multiple:
  assumes "malloc_align_address g a = Inr r" "0 < g_ptrsize g" "\<bar>a\<bar> < 2 ^ 53"
  shows "\<exists>al. malloc_alignment g = Inr al \<and> r mod al = 0 \<and> a \<le> r \<and> r < a + al"
proof -
  from assms(1) obtain v where v: "malloc_alignment g = Inr (malloc_alignment_of g v)"
    and r: "r = malloc_align (malloc_alignment_of g v) a"
    by (auto simp: malloc_align_address_def malloc_alignment_def result_simps)
  show ?thesis
    using malloc_align_exact [OF malloc_alignment_pos [OF assms(2)] assms(3), of v] v r by auto
qed

theorem malloc_align_least_multiple_witness:
  "malloc_align_address demo_genv 0x1018 = Inr 0x1020 \<and>
   (\<exists>al. malloc_alignment demo_genv = Inr al \<and> 0x1020 mod al = 0)"
proof -
  have r: "malloc_align_address demo_genv 0x1018 = Inr 0x1020"
    by (simp add: malloc_align_address_def malloc_alignment_def malloc_alignment_of_def assert_libc_def
        demo_genv_def demo_target_def malloc_align_def float53_def)
  moreover have "0 < g_ptrsize demo_genv" by (simp add: demo_genv_def demo_target_def)
  ultimately show ?thesis using malloc_align_least_multiple [OF r] by auto
qed

text \<open>Fact: from 2 to the 53 on the division in double precision loses the low bits: a 16-byte
  aligned address is moved down, below itself.\<close>
theorem malloc_align_rounds_down:
  "malloc_align 16 (2 ^ 60 + 16) = 2 ^ 60"
proof -
  have "bit_length 1152921504606846992 = 61" by (simp add: bit_length.simps)
  then have "float53 (2 ^ 60 + 16) = 2 ^ 60" by (simp add: float53_def Let_def)
  then show ?thesis by (simp add: malloc_align_def)
qed

text \<open>Fact: the tcache index of the size of an index is that index.\<close>
theorem tcache_index_roundtrip:
  assumes "tidx2size g i = Inr s" "0 \<le> i" "0 < g_ptrsize g"
  shows "csize2tidx g s = Inr i"
proof -
  from assms(1) obtain v where v: "g_libc g = Some v"
    and s: "s = i * malloc_alignment_of g v + min_chunk_size g"
    by (auto simp: tidx2size_def malloc_alignment_def assert_libc_def result_simps split: option.splits)
  let ?al = "malloc_alignment_of g v"
  have al: "0 < ?al" using assms(3) by (rule malloc_alignment_pos)
  then have "0 \<le> i * ?al" using assms(2) by simp
  with al have "\<bar>s - min_chunk_size g + ?al - 1\<bar> = ?al - 1 + i * ?al" by (simp add: s)
  moreover have "(?al - 1 + i * ?al) div ?al = i" using al by simp
  ultimately show ?thesis by (simp add: csize2tidx_def malloc_alignment_def assert_libc_def v)
qed

theorem tcache_index_roundtrip_witness: "csize2tidx demo_genv 0x50 = Inr 3"
  by (rule tcache_index_roundtrip)
    (simp_all add: tidx2size_def malloc_alignment_def malloc_alignment_of_def assert_libc_def
      min_chunk_size_def demo_genv_def demo_target_def version_ge_def)

text \<open>Fact: since libc 2.32, when the forward pointer of a fast chunk holds the protected form of
  a pointer, \<^verbatim>\<open>fd\<close> reveals that pointer.\<close>
theorem reveal_protected_pointer:
  assumes "g_libc g = Some v" "version_ge v (2, 32)"
    and "protect_ptr g (data_address c) p = Inr q" "read_integer (g_target g) (data_address c) = Inr q"
  shows "fast_fd g c = Inr p"
  using assms by (auto simp: fast_fd_def reveal_ptr_def protect_ptr_def assert_libc_def xor.left_commute xor.commute)

definition demo_fast_genv :: genv where
  "demo_fast_genv = demo_genv\<lparr>g_target := demo_target\<lparr>t_mem := (\<lambda>a. if a = 0x1010 then Some 0x11 else
     if 0x1000 \<le> a \<and> a < 0x2000 then Some 0 else None)\<rparr>\<rparr>"

theorem reveal_protected_pointer_witness: "fast_fd demo_fast_genv demo_chunk = Inr 0x10"
proof (rule reveal_protected_pointer)
  show "g_libc demo_fast_genv = Some (2, 35)" by (simp add: demo_fast_genv_def demo_genv_def)
  show "version_ge (2, 35) (2, 32)" by (simp add: version_ge_def)
  show "protect_ptr demo_fast_genv (data_address demo_chunk) 0x10 = Inr 0x11"
    by (simp add: protect_ptr_def assert_libc_def demo_fast_genv_def demo_genv_def version_ge_def demo_chunk_def)
  show "read_integer (g_target demo_fast_genv) (data_address demo_chunk) = Inr 0x11"
    by code_simp
qed

text \<open>Fact: the heap of a pointer starts at a multiple of the maximal heap size, at most one such
  size below the pointer.\<close>
theorem heap_for_ptr_aligned:
  assumes "g_32bit g \<or> g_long_size g = Some 8"
  shows "get_heap_for_ptr g p mod heap_max_size g = 0 \<and> get_heap_for_ptr g p \<le> p
    \<and> p < get_heap_for_ptr g p + heap_max_size g"
proof -
  obtain n where n: "heap_max_size g = 2 ^ n"
  proof -
    have "heap_max_size g = 2 ^ 20 \<or> heap_max_size g = 2 ^ 26"
      using assms by (auto simp: heap_max_size_def)
    then show ?thesis using that by blast
  qed
  have "NOT (2 ^ n - 1) = - (2 ^ n :: int)" by (simp add: not_int_def)
  then have e: "get_heap_for_ptr g p = p div 2 ^ n * 2 ^ n"
    by (simp add: get_heap_for_ptr_def n and_minus_exp)
  have "p = p div 2 ^ n * 2 ^ n + p mod 2 ^ n" by (rule div_mult_mod_eq [symmetric])
  moreover have "0 \<le> p mod 2 ^ n" "p mod 2 ^ n < 2 ^ n" by simp_all
  ultimately show ?thesis unfolding e n by (simp only: mod_mult_self2_is_0) linarith
qed

theorem heap_for_ptr_aligned_witness: "get_heap_for_ptr demo_genv 0x7f1234567890 \<le> 0x7f1234567890"
  using heap_for_ptr_aligned [of demo_genv "0x7f1234567890"] by (simp add: demo_genv_def)

text \<open>Fact: for a 32-bit target the header fields after the two leading pointers of
  \<^verbatim>\<open>heap_info\<close> are read at the wrong offset: those pointers take 8 bytes each in the model's
  layout (as in \<^verbatim>\<open>ctypes\<close> on a 64-bit machine), so \<^verbatim>\<open>size\<close> is read at 16, not at 8.\<close>
theorem heap_info_size_offset_32bit:
  assumes "heap_info_t g = Inr lay"
  shows "map_of (field_offsets 0 lay) ''size'' = Some 16"
proof -
  obtain fs where l: "lay = [(''ar_ptr'', 8, 1), (''prev'', 8, 1), (''size'', ptr_width g, 1)] @ fs"
  proof -
    from assms have "\<exists>fs. lay = [(''ar_ptr'', 8, 1), (''prev'', 8, 1), (''size'', ptr_width g, 1)] @ fs"
      unfolding heap_info_t_def result_simps Let_def by (elim exE conjE) (simp split: if_splits; blast)
    then show ?thesis using that by blast
  qed
  have r: "round_up 0 8 = 0" "round_up 8 8 = 8" "round_up 16 8 = 16" "round_up 16 4 = 16"
    by (simp_all add: round_up_def)
  show ?thesis by (simp add: l r Let_def)
qed

theorem heap_info_size_offset_32bit_witness:
  "\<exists>lay. heap_info_t (demo_genv\<lparr>g_target := demo_target\<lparr>t_ptrsize := 4\<rparr>\<rparr>) = Inr lay
     \<and> map_of (field_offsets 0 lay) ''size'' = Some 16"
proof -
  let ?g = "demo_genv\<lparr>g_target := demo_target\<lparr>t_ptrsize := 4\<rparr>\<rparr>"
  obtain lay where "heap_info_t ?g = Inr lay"
    by (simp add: heap_info_t_def malloc_alignment_def assert_libc_def demo_genv_def Let_def)
  with heap_info_size_offset_32bit [OF this] show ?thesis by blast
qed

end
