(* ===== verification/HeapManager.thy ===== *)
theory HeapManager
  imports Chunks
begin

text \<open>
  \<^verbatim>\<open>GefHeapManager\<close> of \<^verbatim>\<open>scripts/gef.py\<close>: the search for the main arena, and the manager's
  cached main arena, selected arena and heap base.
\<close>

section \<open>The search for the main arena\<close>

text \<open>The settings and the answers the search consults\<close>
record arena_search =
  cfg_offset :: int
  cfg_bruteforce :: bool
  libc_base :: "int option result"
  as_x86 :: bool
  as_aarch64 :: bool
  as_arm :: bool
  as_zones :: "zone list result"
  as_arch_name :: string

text \<open>The first address of a range that \<^verbatim>\<open>GlibcArena.verify\<close> accepts.  The outer None is a
  verification that does not end.\<close>
fun first_verified :: "(int \<Rightarrow> bool option) \<Rightarrow> int list \<Rightarrow> int option option" where
  "first_verified vf [] = Some None"
| "first_verified vf (a # as) =
     (case vf a of None \<Rightarrow> None
      | Some b \<Rightarrow> if b then Some (Some a) else first_verified vf as)"

definition range_step :: "int \<Rightarrow> int \<Rightarrow> int \<Rightarrow> int list" where
  "range_step s e d = map (\<lambda>k. s + d * int k) [0..<nat ((e - s + d - 1) div d)]"

text \<open>The four attempts: None is "nothing found, go on"\<close>
definition try_config_offset ::
  "arena_search \<Rightarrow> (int \<Rightarrow> bool option) \<Rightarrow> int option result option" where
  "try_config_offset cfg vf =
     (if cfg_offset cfg = 0 then Some (Inr None)
      else case libc_base cfg of
        Inl e \<Rightarrow> if is_gdb_error e then Some (Inr None) else Some (Inl e)
      | Inr None \<Rightarrow> Some (Inr None)
      | Inr (Some b) \<Rightarrow>
          if b = 0 then Some (Inr None)
          else (case vf (b + cfg_offset cfg) of None \<Rightarrow> None
                | Some ok \<Rightarrow> Some (Inr (if ok then Some (b + cfg_offset cfg) else None))))"

definition try_symbol :: "genv \<Rightarrow> int option result" where
  "try_symbol g =
     (case parse_address (g_target g) ''&main_arena'' of
        Inr a \<Rightarrow> Inr (Some a)
      | Inl e \<Rightarrow> if is_gdb_error e then Inr None else Inl e)"

definition malloc_hook_candidate :: "genv \<Rightarrow> arena_search \<Rightarrow> int \<Rightarrow> int option" where
  "malloc_hook_candidate g cfg hook =
     (let p = int (g_ptrsize g); sz = int (sizeof_layout (malloc_state_t g))
      in if as_x86 cfg then Some (align_address_to_size (hook + p) 0x20)
         else if as_aarch64 cfg then Some (hook - p * 2 - sz)
         else if as_arm cfg then Some (hook - p - sz)
         else None)"

definition try_malloc_hook ::
  "genv \<Rightarrow> arena_search \<Rightarrow> nat \<times> nat \<Rightarrow> (int \<Rightarrow> bool option) \<Rightarrow> int option result option" where
  "try_malloc_hook g cfg v vf =
     (if version_ge v (2, 34) then Some (Inr None)
      else case parse_address (g_target g) ''(void *)&__malloc_hook'' of
        Inl e \<Rightarrow> if is_gdb_error e then Some (Inr None) else Some (Inl e)
      | Inr hook \<Rightarrow>
          (case malloc_hook_candidate g cfg hook of
             None \<Rightarrow> Some (Inr None)
           | Some a \<Rightarrow>
               if a = 0 then Some (Inr None)
               else (case vf a of None \<Rightarrow> None
                     | Some ok \<Rightarrow> Some (Inr (if ok then Some a else None)))))"

definition try_bruteforce :: "arena_search \<Rightarrow> (int \<Rightarrow> bool option) \<Rightarrow> int option option" where
  "try_bruteforce cfg vf =
     (if \<not> cfg_bruteforce cfg then Some None
      else case as_zones cfg of
        Inl _ \<Rightarrow> Some None
      | Inr zs \<Rightarrow>
          (case filter (\<lambda>f. str_in ''libc'' (z_filename f) \<and> z_name f = ''.data'') zs of
             [] \<Rightarrow> Some None
           | z # _ \<Rightarrow> first_verified vf (range_step (zone_start z) (zone_end z) 0x8)))"

text \<open>\<^verbatim>\<open>find_main_arena_addr\<close>.  \<^verbatim>\<open>again\<close> is the answer of the nested search an arena constructor
  makes during verification when its expression cannot be evaluated; \<^verbatim>\<open>fuel\<close> bounds each
  verification.\<close>
definition find_main_arena_addr ::
  "genv \<Rightarrow> arena_search \<Rightarrow> int result \<Rightarrow> nat \<Rightarrow> int result option" where
  "find_main_arena_addr g cfg again fuel =
     (let vf = arena_verify g again fuel in
      case g_libc g of
        None \<Rightarrow> Some (raise AssertionError [])
      | Some v \<Rightarrow>
      (case try_config_offset cfg vf of
         None \<Rightarrow> None
       | Some (Inl e) \<Rightarrow> Some (Inl e)
       | Some (Inr (Some a)) \<Rightarrow> Some (Inr a)
       | Some (Inr None) \<Rightarrow>
      (case try_symbol g of
         Inl e \<Rightarrow> Some (Inl e)
       | Inr (Some a) \<Rightarrow> Some (Inr a)
       | Inr None \<Rightarrow>
      (case try_malloc_hook g cfg v vf of
         None \<Rightarrow> None
       | Some (Inl e) \<Rightarrow> Some (Inl e)
       | Some (Inr (Some a)) \<Rightarrow> Some (Inr a)
       | Some (Inr None) \<Rightarrow>
      (case try_bruteforce cfg vf of
         None \<Rightarrow> None
       | Some (Some a) \<Rightarrow> Some (Inr a)
       | Some None \<Rightarrow> Some (raise OSError (''Cannot find main_arena for '' @ as_arch_name cfg
           @ ''. You might want to set a manually found libc offset ''
           @ (if \<not> cfg_bruteforce cfg then ''or allow bruteforcing '' else [])
           @ ''through the GEF config.'')))))))"

section \<open>The manager\<close>

record hm =
  libc_main_arena :: "arena option"
  libc_selected_arena :: "arena option"
  heap_base :: "int option"

definition hm_reset :: "hm \<Rightarrow> hm" where
  "hm_reset s = \<lparr>libc_main_arena = None, libc_selected_arena = None, heap_base = None\<rparr>"

text \<open>The property \<^verbatim>\<open>main_arena\<close>; \<^verbatim>\<open>finder\<close> is the answer of the search.  Every failure is
  swallowed.\<close>
definition main_arena :: "genv \<Rightarrow> int result \<Rightarrow> hm \<Rightarrow> arena option \<times> hm" where
  "main_arena g finder s =
     (case libc_main_arena s of
        Some a \<Rightarrow> (Some a, s)
      | None \<Rightarrow>
          (case bindE finder (\<lambda>addr. arena_init g finder (CHR ''*'' # hexs addr)) of
             Inl _ \<Rightarrow> (None, s)
           | Inr a \<Rightarrow> (Some a, s\<lparr>libc_main_arena := Some a, libc_selected_arena := Some a\<rparr>)))"

definition set_main_arena :: "arena \<Rightarrow> hm \<Rightarrow> hm" where
  "set_main_arena a s = s\<lparr>libc_main_arena := Some a\<rparr>"

definition selected_arena :: "genv \<Rightarrow> int result \<Rightarrow> hm \<Rightarrow> arena option \<times> hm" where
  "selected_arena g finder s =
     (case libc_selected_arena s of
        Some a \<Rightarrow> (Some a, s)
      | None \<Rightarrow> (let (m, s') = main_arena g finder s
                 in (m, s'\<lparr>libc_selected_arena := m\<rparr>)))"

definition set_selected_arena :: "arena \<Rightarrow> hm \<Rightarrow> hm" where
  "set_selected_arena a s = s\<lparr>libc_selected_arena := Some a\<rparr>"

text \<open>The property \<^verbatim>\<open>arenas\<close>: the walk from the main arena\<close>
definition arenas :: "genv \<Rightarrow> int result \<Rightarrow> nat \<Rightarrow> hm \<Rightarrow> (arena list \<times> py_exn option) option \<times> hm" where
  "arenas g finder fuel s =
     (let (m, s') = main_arena g finder s
      in (case m of None \<Rightarrow> Some ([], None)
          | Some a \<Rightarrow> arena_iter g finder (ar_address a) fuel a, s'))"

text \<open>The property \<^verbatim>\<open>base_address\<close>; \<^verbatim>\<open>heap_section\<close> is the start of the section named [heap]\<close>
definition hm_base_address :: "genv \<Rightarrow> int option result \<Rightarrow> (hm, int option) stm" where
  "hm_base_address g heap_section s =
     (if heap_base s \<noteq> None \<and> heap_base s \<noteq> Some 0 then (Inr (heap_base s), s)
      else
        (case (case bindE (parse_address (g_target g) ''mp_->sbrk_base'') (malloc_align_address g) of
                 Inr b \<Rightarrow> Inr b
               | Inl e \<Rightarrow> if is_gdb_error e then Inr 0 else Inl e) of
           Inl e \<Rightarrow> (Inl e, s)
         | Inr b \<Rightarrow>
             (case (if b \<noteq> 0 then Inr (Some b) else heap_section) of
                Inl e \<Rightarrow> (Inl e, s)
              | Inr r \<Rightarrow> (Inr r, s\<lparr>heap_base := r\<rparr>))))"

text \<open>The property \<^verbatim>\<open>chunks\<close>: the walk from the base of the heap\<close>
definition hm_chunks :: "genv \<Rightarrow> int option result \<Rightarrow> (hm, chunk option) stm" where
  "hm_chunks g heap_section =
     bindS (hm_base_address g heap_section) (\<lambda>b. case b of
        None \<Rightarrow> retS None
      | Some a \<Rightarrow> if a = 0 then retS None
          else (\<lambda>s. (bindE (chunk_init g a True True) (\<lambda>c. Inr (Some c)), s)))"

section \<open>Facts\<close>

lemma first_verified_sound: "first_verified vf as = Some (Some a) \<Longrightarrow> vf a = Some True"
  by (induction as) (auto split: option.splits if_splits)

lemma try_config_sound: "try_config_offset cfg vf = Some (Inr (Some a)) \<Longrightarrow> vf a = Some True"
  by (auto simp: try_config_offset_def split: if_splits sum.splits option.splits)

lemma try_hook_sound: "try_malloc_hook g cfg v vf = Some (Inr (Some a)) \<Longrightarrow> vf a = Some True"
  by (auto simp: try_malloc_hook_def split: if_splits sum.splits option.splits)

lemma try_brute_sound: "try_bruteforce cfg vf = Some (Some a) \<Longrightarrow> vf a = Some True"
  using first_verified_sound
  by (auto simp: try_bruteforce_def split: if_splits sum.splits list.splits)

lemma try_symbol_sound: "try_symbol g = Inr (Some a) \<Longrightarrow> parse_address (g_target g) ''&main_arena'' = Inr a"
  by (auto simp: try_symbol_def split: sum.splits if_splits)

lemma main_arena_cached: "main_arena g f s = (Some a, s') \<Longrightarrow> libc_main_arena s' = Some a"
  by (auto simp: main_arena_def split: option.splits sum.splits)

section \<open>Properties\<close>

text \<open>Fact: every address the search returns is the value of the symbol \<^verbatim>\<open>main_arena\<close> or has passed
  \<^verbatim>\<open>GlibcArena.verify\<close>.\<close>
theorem main_arena_search_sound:
  assumes "find_main_arena_addr g cfg again fuel = Some (Inr a)"
  shows "parse_address (g_target g) ''&main_arena'' = Inr a \<or> arena_verify g again fuel a = Some True"
  using assms try_config_sound try_hook_sound try_brute_sound try_symbol_sound
  unfolding find_main_arena_addr_def Let_def
  by (simp split: option.splits sum.splits)

definition demo_search :: arena_search where
  "demo_search = \<lparr>cfg_offset = 0, cfg_bruteforce = False, libc_base = Inr None, as_x86 = True,
     as_aarch64 = False, as_arm = False, as_zones = Inr [], as_arch_name = ''X86''\<rparr>"

theorem main_arena_search_sound_witness:
  "let g = demo_genv\<lparr>g_target := demo_target\<lparr>t_eval := (\<lambda>_. Inr 0x1000)\<rparr>\<rparr>
   in find_main_arena_addr g demo_search (Inr 0) 5 = Some (Inr 0x1000)
     \<and> (parse_address (g_target g) ''&main_arena'' = Inr 0x1000 \<or> arena_verify g (Inr 0) 5 0x1000 = Some True)"
proof -
  let ?g = "demo_genv\<lparr>g_target := demo_target\<lparr>t_eval := (\<lambda>_. Inr 0x1000)\<rparr>\<rparr>"
  have "find_main_arena_addr ?g demo_search (Inr 0) 5 = Some (Inr 0x1000)"
    by (simp add: find_main_arena_addr_def demo_search_def try_config_offset_def try_symbol_def
        parse_address_def is_hex_def startswith_def lower_def lower_char_def demo_genv_def)
  with main_arena_search_sound [OF this] show ?thesis by (simp add: Let_def)
qed

text \<open>Fact: an arena selected by the user stays selected whatever the main arena is, and after a
  reset the selection falls back to the main arena, which the two properties then both
  return from the cache.\<close>
theorem selection_defaults_to_main:
  "selected_arena g f (set_selected_arena a s) = (Some a, set_selected_arena a s)
   \<and> (let (r, s') = selected_arena g f (hm_reset s)
      in r = fst (main_arena g f (hm_reset s)) \<and> libc_selected_arena s' = r
       \<and> (r \<noteq> None \<longrightarrow> main_arena g f s' = (r, s') \<and> selected_arena g f s' = (r, s')))"
proof -
  obtain r s' where m: "main_arena g f (hm_reset s) = (r, s')" by fastforce
  have "selected_arena g f (hm_reset s) = (r, s'\<lparr>libc_selected_arena := r\<rparr>)"
    using m by (simp add: selected_arena_def hm_reset_def)
  moreover have "libc_main_arena (s'\<lparr>libc_selected_arena := r\<rparr>) = r" if "r \<noteq> None"
    using that m main_arena_cached by (cases r) auto
  ultimately show ?thesis
    using m by (auto simp: selected_arena_def set_selected_arena_def main_arena_def)
qed

definition demo_arena :: arena where
  "demo_arena = \<lparr>ar_address = 0x1000, ar_sizeof = 0, ar_data = []\<rparr>"

definition demo_hm :: hm where
  "demo_hm = \<lparr>libc_main_arena = None, libc_selected_arena = None, heap_base = None\<rparr>"

theorem selection_defaults_to_main_witness:
  "selected_arena demo_genv (raise OSError []) (set_selected_arena demo_arena demo_hm)
     = (Some demo_arena, set_selected_arena demo_arena demo_hm)"
  using selection_defaults_to_main [of demo_genv "raise OSError []" demo_arena demo_hm] by blast

end
