(* ===== verification/Ui.thy ===== *)
theory Ui
  imports Sections
begin

text \<open>
  The messages of \<^verbatim>\<open>scripts/gef.py\<close>: \<^verbatim>\<open>dbg\<close>, \<^verbatim>\<open>err\<close>, \<^verbatim>\<open>warn\<close>, \<^verbatim>\<open>ok\<close>, \<^verbatim>\<open>info\<close>, \<^verbatim>\<open>titlify\<close>,
  \<^verbatim>\<open>push_context_message\<close>, and the buffering of the output of a command.  A line printed is an
  element of the list of output lines.
\<close>

text \<open>The glyphs of the source are not ASCII; they are their UTF-8 bytes here\<close>
definition RIGHT_ARROW :: string where "RIGHT_ARROW = [CHR '' '', CHR 0xE2, CHR 0x86, CHR 0x92, CHR '' '']"
definition HORIZONTAL_LINE :: string where "HORIZONTAL_LINE = [CHR 0xE2, CHR 0x94, CHR 0x80]"
definition TICK :: string where "TICK = [CHR 0xE2, CHR 0x9C, CHR 0x93, CHR '' '']"
definition CROSS :: string where "CROSS = [CHR 0xE2, CHR 0x9C, CHR 0x98, CHR '' '']"

definition err_line :: "bool \<Rightarrow> string \<Rightarrow> string" where
  "err_line b msg = colorify b ''[!]'' ''bold red'' @ '' '' @ msg"
definition warn_line :: "bool \<Rightarrow> string \<Rightarrow> string" where
  "warn_line b msg = colorify b ''[*]'' ''bold yellow'' @ '' '' @ msg"
definition ok_line :: "bool \<Rightarrow> string \<Rightarrow> string" where
  "ok_line b msg = colorify b ''[+]'' ''bold green'' @ '' '' @ msg"
definition info_line :: "bool \<Rightarrow> string \<Rightarrow> string" where
  "info_line b msg = colorify b ''[+]'' ''bold blue'' @ '' '' @ msg"

text \<open>\<^verbatim>\<open>dbg\<close> prints only when the debug setting is on\<close>
definition dbg_lines :: "bool \<Rightarrow> bool \<Rightarrow> string \<Rightarrow> string list" where
  "dbg_lines b debug msg = (if debug then [colorify b ''[=]'' ''bold cyan'' @ '' '' @ msg] else [])"

definition rep_str :: "string \<Rightarrow> int \<Rightarrow> string" where
  "rep_str s n = concat (replicate (nat n) s)"

text \<open>\<^verbatim>\<open>titlify\<close>: the two theme settings, the terminal width, and the optional colours\<close>
definition titlify ::
  "bool \<Rightarrow> (string \<Rightarrow> string) \<Rightarrow> int \<Rightarrow> string \<Rightarrow> string option \<Rightarrow> string option \<Rightarrow> string" where
  "titlify b theme cols txt color msg_color =
     (let nb = (cols - int (length txt) - 2) div 2;
          pick = (\<lambda>c d. case c of Some x \<Rightarrow> if x = [] then theme d else x | None \<Rightarrow> theme d);
          line_color = pick color ''theme.default_title_line'';
          text_color = pick msg_color ''theme.default_title_message''
      in colorify b (rep_str HORIZONTAL_LINE nb @ '' '') line_color
         @ colorify b txt text_color
         @ colorify b ('' '' @ rep_str HORIZONTAL_LINE nb) line_color)"

section \<open>Context messages\<close>

type_synonym messages = "(string \<times> string) list"

text \<open>\<^verbatim>\<open>push_context_message\<close>: the printed lines and the new list of messages\<close>
definition push_context_message :: "bool \<Rightarrow> string \<Rightarrow> string \<Rightarrow> messages \<Rightarrow> string list \<times> messages" where
  "push_context_message b level message ms =
     (if level \<notin> {''error'', ''warn'', ''ok'', ''info''}
      then ([err_line b (''Invalid level '' @ [CHR 0x27] @ level @ [CHR 0x27] @ '', discarding message'')], ms)
      else ([], ms @ [(level, message)]))"

section \<open>Buffering\<close>

text \<open>The output state: the buffer of the running command, the redirection file descriptor with
  the name it was opened under, the setting \<^verbatim>\<open>context.redirect\<close>, the names that are closed
  terminals, and what has been written to standard output and to each file\<close>
record ui =
  stream_buffer :: "string option"
  redirect_fd :: "string option"
  redirect_cfg :: string
  closed_fds :: "string list"
  stdout_text :: string
  file_text :: "string dict"

text \<open>\<^verbatim>\<open>gef_print\<close> of one already highlighted text: into the buffer when buffering is on and a buffer
  with content exists (an empty \<^verbatim>\<open>StringIO\<close> is truthy, so any buffer counts), else to standard output\<close>
definition ui_print :: "bool \<Rightarrow> bool \<Rightarrow> string \<Rightarrow> ui \<Rightarrow> ui" where
  "ui_print buffer_output debug txt u =
     (case stream_buffer u of
        Some buf \<Rightarrow>
          if buffer_output \<and> \<not> debug then u\<lparr>stream_buffer := Some (buf @ txt @ [CHR 0x0A])\<rparr>
          else u\<lparr>stdout_text := stdout_text u @ txt @ [CHR 0x0A]\<rparr>
      | None \<Rightarrow> u\<lparr>stdout_text := stdout_text u @ txt @ [CHR 0x0A]\<rparr>)"

text \<open>Where the wrapper writes: the descriptor it uses (None is standard output) and the new state.
  \<^verbatim>\<open>can_open\<close> tells whether the redirection can be opened for writing.\<close>
definition pick_fd :: "(string \<Rightarrow> bool) \<Rightarrow> ui \<Rightarrow> (string option \<times> ui) result" where
  "pick_fd can_open u =
     (let redirect = redirect_cfg u in
      if startswith redirect ''/dev/pts/'' then
        (case redirect_fd u of
           None \<Rightarrow> if can_open redirect then Inr (Some redirect, u\<lparr>redirect_fd := Some redirect,
                       closed_fds := removeAll redirect (closed_fds u)\<rparr>)
                   else raise OSError redirect
         | Some name \<Rightarrow>
             if redirect \<noteq> name then
               (if can_open redirect then Inr (Some redirect, u\<lparr>redirect_fd := Some redirect,
                    closed_fds := removeAll redirect (name # closed_fds u)\<rparr>)
                else raise OSError redirect)
             else Inr (Some name, u))
      else Inr (None, u\<lparr>redirect_fd := None\<rparr>))"

text \<open>The flush at the end of the outermost buffered call\<close>
definition flush :: "(string \<Rightarrow> bool) \<Rightarrow> ui \<Rightarrow> unit result \<times> ui" where
  "flush can_open u =
     (case pick_fd can_open u of
        Inl e \<Rightarrow> (Inl e, u)
      | Inr (fd0, u1) \<Rightarrow>
          (let closed = (case fd0 of Some n \<Rightarrow> n \<in> set (closed_fds u1) | None \<Rightarrow> False);
               fd = (if closed then None else fd0);
               u2 = (if closed then u1\<lparr>redirect_fd := None, redirect_cfg := []\<rparr> else u1);
               txt = (case stream_buffer u2 of Some s \<Rightarrow> s | None \<Rightarrow> []);
               u3 = (case fd of
                       None \<Rightarrow> u2\<lparr>stdout_text := stdout_text u2 @ txt\<rparr>
                     | Some n \<Rightarrow> u2\<lparr>file_text := AList.update n
                         ((case map_of (file_text u2) n of Some t \<Rightarrow> t | None \<Rightarrow> []) @ txt) (file_text u2)\<rparr>)
           in (Inr (), u3\<lparr>stream_buffer := None\<rparr>)))"

text \<open>\<^verbatim>\<open>bufferize(f)\<close>: a nested call runs unwrapped; the outermost one flushes also when f raises,
  and an error of the flush replaces f's result\<close>
definition bufferize :: "(string \<Rightarrow> bool) \<Rightarrow> (ui, 'a) stm \<Rightarrow> (ui, 'a) stm" where
  "bufferize can_open f u =
     (case stream_buffer u of
        Some _ \<Rightarrow> f u
      | None \<Rightarrow>
          (case f (u\<lparr>stream_buffer := Some []\<rparr>) of (r, u') \<Rightarrow>
             (case flush can_open u' of
                (Inl e, u'') \<Rightarrow> (Inl e, u'')
              | (Inr _, u'') \<Rightarrow> (r, u''))))"

section \<open>Properties\<close>

text \<open>Fact: the outermost buffered command leaves no buffer behind and, without redirection, appends
  to standard output exactly what it buffered, whether it returns or raises.\<close>
theorem bufferize_flushes:
  assumes "stream_buffer u = None" "\<not> startswith (redirect_cfg u') ''/dev/pts/''"
    and "f (u\<lparr>stream_buffer := Some []\<rparr>) = (r, u')" "stream_buffer u' = Some buf"
  shows "\<exists>v. bufferize can_open f u = (r, v) \<and> stream_buffer v = None
    \<and> stdout_text v = stdout_text u' @ buf"
  using assms by (simp add: bufferize_def flush_def pick_fd_def Let_def)

definition demo_ui :: ui where
  "demo_ui = \<lparr>stream_buffer = None, redirect_fd = None, redirect_cfg = [], closed_fds = [],
     stdout_text = ''$ '', file_text = []\<rparr>"

theorem bufferize_flushes_witness:
  "\<exists>v. bufferize (\<lambda>_. True) (\<lambda>u. (raise RuntimeError ''x'' :: unit result, ui_print True False ''hi'' u)) demo_ui
     = (raise RuntimeError ''x'', v) \<and> stdout_text v = ''$ hi'' @ [CHR 0x0A]"
proof -
  let ?f = "\<lambda>u. (raise RuntimeError ''x'' :: unit result, ui_print True False ''hi'' u)"
  let ?u' = "demo_ui\<lparr>stream_buffer := Some (''hi'' @ [CHR 0x0A])\<rparr>"
  have f: "?f (demo_ui\<lparr>stream_buffer := Some []\<rparr>) = (raise RuntimeError ''x'', ?u')"
    by (simp add: ui_print_def demo_ui_def)
  show ?thesis
    using bufferize_flushes [of demo_ui ?u' ?f _ _ "\<lambda>_. True", OF _ _ f]
    by (auto simp: demo_ui_def startswith_def)
qed

text \<open>Fact: inside a running buffered command a nested buffered call is the call itself: it neither
  flushes nor drops what is buffered.\<close>
theorem bufferize_nested:
  assumes "stream_buffer u \<noteq> None"
  shows "bufferize can_open (bufferize can_open f) u = f u"
  using assms by (auto simp: bufferize_def)

theorem bufferize_nested_witness:
  "bufferize (\<lambda>_. True) (bufferize (\<lambda>_. True) (\<lambda>u. (Inr (), u))) (demo_ui\<lparr>stream_buffer := Some []\<rparr>)
     = (Inr (), demo_ui\<lparr>stream_buffer := Some []\<rparr>)"
  by (rule bufferize_nested) simp

end
