(* ===== verification/HeapTrack.thy ===== *)
theory HeapTrack
  imports Chunks Ui "HOL-Library.Multiset"
begin

text \<open>
  The heap analysis of \<^verbatim>\<open>scripts/gef.py\<close>: the breakpoints \<^verbatim>\<open>TraceMallocRetBreakpoint\<close>,
  \<^verbatim>\<open>TraceReallocRetBreakpoint\<close>, \<^verbatim>\<open>TraceFreeBreakpoint\<close>, \<^verbatim>\<open>TraceFreeRetBreakpoint\<close> and
  \<^verbatim>\<open>UafWatchpoint\<close> as handlers over the tracking lists of the session, and the command
  \<^verbatim>\<open>heap-analysis-helper\<close> that installs and removes them.  A handler's result is whether the
  execution stops.
\<close>

section \<open>State and configuration\<close>

record hconf =
  check_free_null :: bool
  check_double_free :: bool
  check_weird_free :: bool
  check_uaf :: bool
  check_overlap :: bool
  no_color :: bool

text \<open>A watchpoint is an object: it has an identity, the watched address and its enabled flag\<close>
record watchpoint =
  wp_id :: nat
  wp_address :: int

record track =
  allocated :: "(int \<times> int) list"
  freed :: "(int \<times> int) list"
  uaf :: "watchpoint list"
  disabled_wps :: "nat list"
  next_wp :: nat
  msgs :: messages
  out :: "string list"

definition heap_title :: "hconf \<Rightarrow> string" where
  "heap_title c = colorify (no_color c) ''Heap-Analysis'' ''yellow bold''"

definition say_ok :: "hconf \<Rightarrow> string \<Rightarrow> track \<Rightarrow> track" where
  "say_ok c m s = s\<lparr>out := out s @ [ok_line (no_color c) m]\<rparr>"

definition warn_message :: "hconf \<Rightarrow> string list \<Rightarrow> track \<Rightarrow> track" where
  "warn_message c ls s =
     (let (o1, ms) = push_context_message (no_color c) ''warn'' (join [CHR 0x0A] ls) (msgs s)
      in s\<lparr>msgs := ms, out := out s @ o1\<rparr>)"

section \<open>malloc returns\<close>

text \<open>\<^verbatim>\<open>for item in l: if p(item): l.remove(item)\<close>: the iterator's index moves on although the
  list has become shorter.  \<^verbatim>\<open>list.remove\<close> deletes the first equal element.\<close>
function purge_items :: "('a \<Rightarrow> bool) \<Rightarrow> nat \<Rightarrow> 'a list \<Rightarrow> 'a list" where
  "purge_items p i l =
     (if i < length l then
        (if p (l ! i) then purge_items p (Suc i) (remove1 (l ! i) l) else purge_items p (Suc i) l)
      else l)"
  by pat_completeness auto
termination by (relation "measure (\<lambda>(p, i, l). length l - i)") (auto simp: length_remove1)

declare purge_items.simps [simp del]

definition purge_uaf :: "(int \<Rightarrow> bool) \<Rightarrow> track \<Rightarrow> track" where
  "purge_uaf p s =
     (let l = purge_items (\<lambda>w. p (wp_address w)) 0 (uaf s)
      in s\<lparr>uaf := l, disabled_wps := disabled_wps s @ map wp_id (filter (\<lambda>w. w \<notin> set l) (uaf s))\<rparr>)"

text \<open>The overlap check over the tracked chunks: the effective size of each is read from memory by
  \<^verbatim>\<open>csize\<close>, which may raise.  The result is the message of the first overlap.\<close>
fun overlap_scan ::
  "hconf \<Rightarrow> (int \<Rightarrow> int result) \<Rightarrow> int \<Rightarrow> int \<Rightarrow> int \<Rightarrow> (int \<times> int) list \<Rightarrow> string list option result" where
  "overlap_scan c csize align loc sz [] = Inr None"
| "overlap_scan c csize align loc sz ((chunk_addr, _) # rest) =
     bindE (csize chunk_addr) (\<lambda>cur.
       if chunk_addr \<le> loc \<and> loc < chunk_addr + cur then
         (let off = loc - chunk_addr - 2 * align in
          if off < 0 then overlap_scan c csize align loc sz rest
          else Inr (Some
            [heap_title c, ''Possible heap overlap detected'',
             ''Reason '' @ RIGHT_ARROW @ '' new allocated chunk '' @ hexs loc @ '' (of size '' @ decs sz
               @ '') overlaps in-used chunk '' @ hexs chunk_addr @ '' (of size '' @ hexs cur @ '')'',
             ''Writing '' @ decs off @ '' bytes from '' @ hexs chunk_addr @ '' will reach chunk '' @ hexs loc,
             ''Payload example for chunk '' @ hexs chunk_addr @ '' (to overwrite '' @ hexs loc @ '' headers):'',
             ''  data = '' @ [CHR 0x27] @ ''A'' @ [CHR 0x27] @ ''*'' @ decs off @ '' + '' @ [CHR 0x27] @ ''B'' @ [CHR 0x27]
               @ ''*'' @ decs align @ '' + '' @ [CHR 0x27] @ ''C'' @ [CHR 0x27] @ ''*'' @ decs align]))
       else overlap_scan c csize align loc sz rest)"

definition malloc_ret ::
  "hconf \<Rightarrow> (int \<Rightarrow> int result) \<Rightarrow> int \<Rightarrow> string \<Rightarrow> int \<Rightarrow> int result \<Rightarrow> (track, bool) stm" where
  "malloc_ret c csize align name sz ret s0 =
     (case ret of
        Inl e \<Rightarrow> (Inl e, s0)
      | Inr loc \<Rightarrow>
          (let s1 = say_ok c (heap_title c @ '' - '' @ name @ ''('' @ decs sz @ '')='' @ hexs loc) s0;
               s2 = s1\<lparr>freed := purge_items (\<lambda>it. fst it = loc) 0 (freed s1)\<rparr>;
               s3 = purge_uaf (\<lambda>a. loc \<le> a \<and> a < loc + sz) s2;
               fin = (Inr False, s3\<lparr>allocated := allocated s3 @ [(loc, sz)]\<rparr>)
           in if check_overlap c then
                (case overlap_scan c csize align loc sz (allocated s3) of
                   Inl e \<Rightarrow> (Inl e, s3)
                 | Inr (Some ls) \<Rightarrow> (Inr True, warn_message c ls s3)
                 | Inr None \<Rightarrow> fin)
              else fin))"

section \<open>realloc returns\<close>

fun index_of :: "int \<Rightarrow> int list \<Rightarrow> nat option" where
  "index_of a [] = None"
| "index_of a (x # xs) = (if x = a then Some 0 else map_option Suc (index_of a xs))"

definition pop_at :: "nat \<Rightarrow> 'a list \<Rightarrow> 'a list" where
  "pop_at i l = take i l @ drop (Suc i) l"

text \<open>The item popped from the list replaces the new one, and is appended again\<close>
definition realloc_ret :: "hconf \<Rightarrow> bool \<Rightarrow> int \<Rightarrow> int \<Rightarrow> int result \<Rightarrow> (track, bool) stm" where
  "realloc_ret c debug ptr sz ret s0 =
     (case ret of
        Inl e \<Rightarrow> (Inl e, s0)
      | Inr newloc \<Rightarrow>
          (let s1 = say_ok c (heap_title c @ '' - realloc('' @ hexs ptr @ '', '' @ decs sz @ '')=''
                     @ colorify (no_color c) (hexs newloc) ''green'') s0;
               item = (newloc, sz)
           in case index_of ptr (map fst (allocated s1)) of
                Some i \<Rightarrow> (let item' = allocated s1 ! i in
                  (Inr False, s1\<lparr>allocated := pop_at i (allocated s1) @ [item']\<rparr>))
              | None \<Rightarrow>
                  (let s2 = (if debug then s1\<lparr>out := out s1 @ [warn_line (no_color c)
                         (''Chunk '' @ hexs ptr @ '' was not in tracking list'')]\<rparr> else s1)
                   in (Inr False, s2\<lparr>allocated := allocated s2 @ [item]\<rparr>))))"

section \<open>free\<close>

text \<open>The handler at the entry of free: the result also says whether a return breakpoint that sets
  the watchpoint is installed\<close>
definition free_stop :: "hconf \<Rightarrow> int \<Rightarrow> int \<Rightarrow> track \<Rightarrow> (bool \<times> bool) \<times> track" where
  "free_stop c pc addr s0 =
     (let s1 = say_ok c (heap_title c @ '' - free('' @ hexs addr @ '')'') s0 in
      if addr = 0 then
        (if check_free_null c then
           ((True, False), warn_message c [heap_title c, ''Attempting to free(NULL) at '' @ hexs pc,
              ''Reason: if NULL page is allocatable, this can lead to code execution.''] s1)
         else ((False, False), s1))
      else if addr \<in> set (map fst (freed s1)) then
        (if check_double_free c then
           ((True, False), warn_message c [heap_title c,
              ''Double-free detected '' @ RIGHT_ARROW @ '' free('' @ hexs addr @ '') is called at '' @ hexs pc
                @ '' but is already in the free-ed list'',
              ''Execution will likely crash...''] s1)
         else ((False, False), s1))
      else (case index_of addr (map fst (allocated s1)) of
        None \<Rightarrow>
          (if check_weird_free c then
             ((True, False), warn_message c [heap_title c, ''Heap inconsistency detected:'',
                ''Attempting to free an unknown value: '' @ hexs addr] s1)
           else ((False, False), s1))
      | Some i \<Rightarrow>
          ((False, check_uaf c), s1\<lparr>allocated := pop_at i (allocated s1),
             freed := freed s1 @ [allocated s1 ! i]\<rparr>)))"

text \<open>The return breakpoint of free: the debugger may refuse to set the watchpoint\<close>
definition free_ret_stop :: "bool \<Rightarrow> int \<Rightarrow> (track, bool) stm" where
  "free_ret_stop can_watch addr s =
     (if \<not> can_watch then (raise GdbError ''cannot set watchpoint'', s)
      else (Inr False, s\<lparr>uaf := uaf s @ [\<lparr>wp_id = next_wp s, wp_address = addr\<rparr>], next_wp := Suc (next_wp s)\<rparr>))"

text \<open>A watchpoint is hit: \<^verbatim>\<open>insn\<close> is the text of the instruction two before the pc\<close>
definition uaf_stop :: "hconf \<Rightarrow> string option \<Rightarrow> string \<Rightarrow> int option \<Rightarrow> string \<Rightarrow> int \<Rightarrow> (track, bool) stm" where
  "uaf_stop c frame filepath pc insn addr s =
     (if frame \<in> {Some ''_int_malloc'', Some ''malloc_consolidate'', Some ''__libc_calloc''} then (Inr False, s)
      else (case pc of
        None \<Rightarrow> (raise AssertionError [], s)
      | Some p \<Rightarrow>
          if p = 0 then (raise AssertionError [], s)
          else (Inr True, warn_message c [heap_title c,
             ''Possible Use-after-Free in '' @ [CHR 0x27] @ filepath @ [CHR 0x27] @ '': pointer '' @ hexs addr
               @ '' was freed, but is attempted to be used at '' @ hexs p, insn] s)))"

section \<open>The command\<close>

definition heap_setup :: "hconf \<Rightarrow> track \<Rightarrow> track" where
  "heap_setup c s = s\<lparr>out := out s @
     [ok_line (no_color c) ''Tracking malloc() & calloc()'', ok_line (no_color c) ''Tracking free()'',
      ok_line (no_color c) ''Tracking realloc()'',
      ok_line (no_color c) ''Disabling hardware watchpoints (this may increase the latency)'',
      info_line (no_color c) (''Dynamic breakpoints correctly setup, '' @
        ''GEF will break execution if a possible vulnerabity is found.''),
      warn_line (no_color c) (colorify (no_color c) ''Note'' ''bold underline yellow'' @ '': ''
        @ ''The heap analysis slows down the execution noticeably.'')]\<rparr>"

definition dump_tracked_allocations :: "hconf \<Rightarrow> track \<Rightarrow> track" where
  "dump_tracked_allocations c s = s\<lparr>out := out s
     @ (if allocated s \<noteq> [] then ok_line (no_color c) ''Tracked as in-use chunks:'' #
          map (\<lambda>(a, z). CROSS @ '' malloc('' @ decs z @ '') = '' @ hexs a) (allocated s)
        else [ok_line (no_color c) ''No malloc() chunk tracked''])
     @ (if freed s \<noteq> [] then ok_line (no_color c) ''Tracked as free-ed chunks:'' #
          map (\<lambda>(a, z). TICK @ ''  free('' @ decs z @ '') = '' @ hexs a) (freed s)
        else [ok_line (no_color c) ''No free() chunk tracked''])\<rparr>"

definition heap_do_invoke :: "hconf \<Rightarrow> string list \<Rightarrow> track \<Rightarrow> track" where
  "heap_do_invoke c argv s =
     (case argv of [] \<Rightarrow> heap_setup c s
      | a # _ \<Rightarrow> if a = ''show'' then dump_tracked_allocations c s else s)"

definition heap_clean :: "hconf \<Rightarrow> track \<Rightarrow> track" where
  "heap_clean c s =
     (let s1 = say_ok c (heap_title c @ '' - Cleaning up'') s;
          s2 = s1\<lparr>allocated := [], freed := [], uaf := []\<rparr>
      in say_ok c (heap_title c @ '' - Re-enabling hardware watchpoints'') s2)"

section \<open>Facts about the purging loop\<close>

text \<open>What the loop keeps of a list without repetitions: the element after a removed one is skipped\<close>
fun survivors :: "('a \<Rightarrow> bool) \<Rightarrow> 'a list \<Rightarrow> 'a list" where
  "survivors p [] = []"
| "survivors p (x # xs) =
     (if p x then (case xs of [] \<Rightarrow> [] | y # ys \<Rightarrow> y # survivors p ys) else x # survivors p xs)"

lemma remove1_nth_distinct:
  "distinct l \<Longrightarrow> i < length l \<Longrightarrow> remove1 (l ! i) l = take i l @ drop (Suc i) l"
proof (induction l arbitrary: i)
  case (Cons x l)
  then show ?case by (cases i) (auto simp: nth_mem)
qed simp

lemma purge_eq_survivors:
  "distinct l \<Longrightarrow> i \<le> length l \<Longrightarrow> purge_items p i l = take i l @ survivors p (drop i l)"
proof (induction p i l rule: purge_items.induct)
  case (1 p i l)
  show ?case
  proof (cases "i < length l")
    case True
    have d: "drop i l = l ! i # drop (Suc i) l" using True by (simp add: Cons_nth_drop_Suc)
    show ?thesis
    proof (cases "p (l ! i)")
      case P: True
      let ?r = "take i l @ drop (Suc i) l"
      have r: "remove1 (l ! i) l = ?r" using remove1_nth_distinct 1(3) True .
      show ?thesis
      proof (cases "drop (Suc i) l")
        case Nil
        then have "\<not> Suc i < length ?r" "length l = Suc i" using True by auto
        then have "purge_items p (Suc i) ?r = ?r" by (subst purge_items.simps) simp
        then have "purge_items p i l = ?r"
          using True P r by (subst purge_items.simps) simp
        then show ?thesis using P d Nil by simp
      next
        case (Cons y ys)
        have len: "Suc i \<le> length ?r" using True Cons by (auto simp: min_def)
        have dr: "distinct ?r" using 1(3) r distinct_remove1 by metis
        have tk: "take (Suc i) ?r = take i l @ [y]" "drop (Suc i) ?r = ys"
          using True Cons by (simp_all add: min_def)
        have "purge_items p i l = purge_items p (Suc i) ?r"
          using True P r by (simp add: purge_items.simps [of p i l])
        also have "\<dots> = take (Suc i) ?r @ survivors p (drop (Suc i) ?r)"
          using 1(1) [OF True P] r dr len by simp
        finally show ?thesis using P d Cons tk by simp
      qed
    next
      case False
      have "purge_items p i l = purge_items p (Suc i) l"
        using True False by (simp add: purge_items.simps [of p i l])
      also have "\<dots> = take (Suc i) l @ survivors p (drop (Suc i) l)"
        using 1(2) [OF True False 1(3)] True by simp
      finally show ?thesis using False d True by (simp add: take_Suc_conv_app_nth)
    qed
  next
    case False
    with 1(4) show ?thesis by (subst purge_items.simps) simp
  qed
qed

lemma survivors_none: "\<forall>x \<in> set l. \<not> p x \<Longrightarrow> survivors p l = l"
  by (induction l) auto

lemma survivors_subset: "set (survivors p l) \<subseteq> set l"
  by (induction p l rule: survivors.induct) (auto split: list.splits)

lemma survivors_distinct:
  "distinct (map f l) \<Longrightarrow> distinct (map f (survivors p l))"
proof (induction p l rule: survivors.induct)
  case (2 p x xs)
  have sub: "a \<notin> f ` set (survivors p zs)" if "a \<notin> f ` set zs" for a zs
    using that survivors_subset [of p zs] by blast
  show ?case
  proof (cases "p x")
    case True
    with 2 sub show ?thesis by (cases xs) auto
  next
    case False
    with 2 sub show ?thesis by simp
  qed
qed simp

lemma survivors_key:
  "distinct (map fst l) \<Longrightarrow> survivors (\<lambda>it. fst it = k) l = filter (\<lambda>it. fst it \<noteq> k) l"
proof (induction l)
  case (Cons x xs)
  show ?case
  proof (cases "fst x = k")
    case True
    with Cons.prems have n: "\<forall>y \<in> set xs. fst y \<noteq> k" by (fastforce simp: image_iff)
    then have "filter (\<lambda>it. fst it \<noteq> k) xs = xs" by simp
    moreover have "survivors (\<lambda>it. fst it = k) (tl xs) = tl xs"
      using n by (intro survivors_none) (metis list.set_sel(2) list.sel(2))
    ultimately show ?thesis using True by (cases xs) auto
  qed (use Cons in auto)
qed simp

lemma purge_freed:
  assumes "distinct (map fst l)"
  shows "purge_items (\<lambda>it. fst it = loc) 0 l = filter (\<lambda>it. fst it \<noteq> loc) l"
  using purge_eq_survivors [of l 0] assms survivors_key by (simp add: distinct_map)

section \<open>Facts about the lists\<close>

lemma index_of_Some: "index_of a xs = Some i \<Longrightarrow> i < length xs \<and> xs ! i = a"
  by (induction xs arbitrary: i) (auto split: if_splits)

lemma index_of_None: "index_of a xs = None \<longleftrightarrow> a \<notin> set xs"
  by (induction xs) auto

lemma mset_pop_at: "i < length l \<Longrightarrow> add_mset (l ! i) (mset (pop_at i l)) = mset l"
proof -
  assume "i < length l"
  then have "mset l = mset (take i l @ l ! i # drop (Suc i) l)" by (simp add: id_take_nth_drop [symmetric])
  then show ?thesis by (simp add: pop_at_def)
qed

lemma warn_message_lists [simp]:
  "allocated (warn_message c ls s) = allocated s" "freed (warn_message c ls s) = freed s"
  "uaf (warn_message c ls s) = uaf s" "next_wp (warn_message c ls s) = next_wp s"
  "msgs (warn_message c ls s) = msgs s @ [(''warn'', join [CHR 0x0A] ls)]"
  by (simp_all add: warn_message_def push_context_message_def Let_def)

lemma say_ok_lists [simp]:
  "allocated (say_ok c m s) = allocated s" "freed (say_ok c m s) = freed s"
  "uaf (say_ok c m s) = uaf s" "next_wp (say_ok c m s) = next_wp s" "msgs (say_ok c m s) = msgs s"
  by (simp_all add: say_ok_def)

lemma purge_uaf_lists [simp]:
  "allocated (purge_uaf p s) = allocated s" "freed (purge_uaf p s) = freed s"
  "next_wp (purge_uaf p s) = next_wp s"
  "uaf (purge_uaf p s) = purge_items (\<lambda>w. p (wp_address w)) 0 (uaf s)"
  by (simp_all add: purge_uaf_def Let_def)

lemma free_stop_tracked:
  assumes "addr \<noteq> 0" "addr \<notin> set (map fst (freed s))" "index_of addr (map fst (allocated s)) = Some i"
  shows "fst (free_stop c pc addr s) = (False, check_uaf c)"
    "allocated (snd (free_stop c pc addr s)) = pop_at i (allocated s)"
    "freed (snd (free_stop c pc addr s)) = freed s @ [allocated s ! i]"
    "uaf (snd (free_stop c pc addr s)) = uaf s" "next_wp (snd (free_stop c pc addr s)) = next_wp s"
  using assms by (simp_all add: free_stop_def Let_def)

lemma free_stop_freed:
  "freed (snd (free_stop c pc addr s)) = freed s \<or>
   (\<exists>i. addr \<notin> set (map fst (freed s)) \<and> index_of addr (map fst (allocated s)) = Some i
      \<and> freed (snd (free_stop c pc addr s)) = freed s @ [allocated s ! i])"
  by (auto simp: free_stop_def Let_def split: option.splits)

lemma malloc_ret_freed:
  assumes "distinct (map fst (freed s))" "malloc_ret c csize al name sz (Inr loc) s = (r, s')"
  shows "freed s' = filter (\<lambda>it. fst it \<noteq> loc) (freed s)"
  using assms purge_freed
  by (auto simp: malloc_ret_def Let_def split: if_splits sum.splits option.splits)

section \<open>Runs\<close>

text \<open>A run interleaves the handlers in any order, with any arguments and answers\<close>
inductive heap_step :: "hconf \<Rightarrow> track \<Rightarrow> track \<Rightarrow> bool" for c where
  step_malloc: "heap_step c s (snd (malloc_ret c csize al name sz ret s))"
| step_realloc: "heap_step c s (snd (realloc_ret c debug ptr sz ret s))"
| step_free: "heap_step c s (snd (free_stop c pc addr s))"
| step_free_ret: "heap_step c s (snd (free_ret_stop can_watch addr s))"
| step_uaf: "heap_step c s (snd (uaf_stop c frame fp pc insn addr s))"
| step_clean: "heap_step c s (heap_clean c s)"
| step_command: "heap_step c s (heap_do_invoke c argv s)"

definition init_track :: track where
  "init_track = \<lparr>allocated = [], freed = [], uaf = [], disabled_wps = [], next_wp = 0, msgs = [], out = []\<rparr>"

inductive reachable :: "hconf \<Rightarrow> track \<Rightarrow> bool" for c where
  reach_init: "reachable c init_track"
| reach_step: "reachable c s \<Longrightarrow> heap_step c s s' \<Longrightarrow> reachable c s'"

inductive_cases heap_stepE: "heap_step c s s'"

lemma malloc_ret_distinct:
  "distinct (map fst (freed s)) \<Longrightarrow> distinct (map fst (freed (snd (malloc_ret c csize al name sz ret s))))"
proof (cases ret)
  case (Inr loc)
  assume d: "distinct (map fst (freed s))"
  obtain r s' where "malloc_ret c csize al name sz ret s = (r, s')" by fastforce
  with malloc_ret_freed [OF d] Inr have "freed s' = filter (\<lambda>it. fst it \<noteq> loc) (freed s)" by blast
  with \<open>malloc_ret c csize al name sz ret s = (r, s')\<close> d show ?thesis by (simp add: distinct_map_filter)
qed (simp add: malloc_ret_def)

lemma free_stop_distinct:
  "distinct (map fst (freed s)) \<Longrightarrow> distinct (map fst (freed (snd (free_stop c pc addr s))))"
  using free_stop_freed [of c pc addr s] index_of_Some by fastforce

lemma other_handlers_freed:
  "freed (snd (realloc_ret c debug ptr sz ret s)) = freed s"
  "freed (snd (free_ret_stop can_watch addr s)) = freed s"
  "freed (snd (uaf_stop c frame fp pc insn addr s)) = freed s"
  "freed (heap_do_invoke c argv s) = freed s"
  by (auto simp: realloc_ret_def free_ret_stop_def uaf_stop_def heap_do_invoke_def heap_setup_def
      dump_tracked_allocations_def Let_def split: sum.splits option.splits list.splits)

lemma heap_step_distinct:
  "heap_step c s s' \<Longrightarrow> distinct (map fst (freed s)) \<Longrightarrow> distinct (map fst (freed s'))"
  by (erule heap_stepE)
    (auto simp: malloc_ret_distinct free_stop_distinct other_handlers_freed heap_clean_def Let_def)

lemma reachable_distinct: "reachable c s \<Longrightarrow> distinct (map fst (freed s))"
  by (induction rule: reachable.induct) (auto simp: init_track_def heap_step_distinct)

definition track1 :: track where
  "track1 = init_track\<lparr>allocated := [(0x5000, 24)]\<rparr>"

definition conf_all :: hconf where
  "conf_all = \<lparr>check_free_null = True, check_double_free = True, check_weird_free = True,
     check_uaf = True, check_overlap = False, no_color = True\<rparr>"

section \<open>Properties\<close>

text \<open>Fact: in every reachable state no address is twice in the list of freed chunks.\<close>
theorem freed_addresses_distinct:
  assumes "reachable c s"
  shows "distinct (map fst (freed s))"
  using assms by (rule reachable_distinct)

theorem freed_addresses_distinct_witness:
  "distinct (map fst (freed (snd (free_stop conf_all 0 0x5000
      (snd (malloc_ret conf_all (\<lambda>_. Inr 0) 8 ''malloc'' 24 (Inr 0x5000) init_track))))))"
  by (rule freed_addresses_distinct)
    (rule reach_step [OF reach_step [OF reach_init step_malloc] step_free])

text \<open>Fact: freeing a tracked address moves its entry from the in-use list to the freed list without
  stopping, and the entries of both lists together stay the same.\<close>
theorem free_moves_entry:
  assumes "addr \<noteq> 0" "addr \<notin> set (map fst (freed s))" "addr \<in> set (map fst (allocated s))"
  shows "fst (free_stop c pc addr s) = (False, check_uaf c)
    \<and> addr \<in> set (map fst (freed (snd (free_stop c pc addr s))))
    \<and> mset (allocated (snd (free_stop c pc addr s))) + mset (freed (snd (free_stop c pc addr s)))
      = mset (allocated s) + mset (freed s)"
proof -
  obtain i where i: "index_of addr (map fst (allocated s)) = Some i"
    using assms(3) index_of_None by (metis option.exhaust)
  note f = free_stop_tracked [OF assms(1,2) i]
  have n: "i < length (allocated s)" "fst (allocated s ! i) = addr" using index_of_Some [OF i] by auto
  show ?thesis using f n mset_pop_at [OF n(1)] by (simp add: image_iff)
qed

theorem free_moves_entry_witness:
  "freed (snd (free_stop conf_all 0 0x5000 track1)) = [(0x5000, 24)]
    \<and> mset (allocated (snd (free_stop conf_all 0 0x5000 track1))) + {#(0x5000, 24)#} = {#(0x5000, 24)#}"
proof -
  have f: "freed (snd (free_stop conf_all 0 0x5000 track1)) = [(0x5000, 24)]"
    by (simp add: free_stop_def track1_def init_track_def say_ok_def pop_at_def)
  have "mset (allocated (snd (free_stop conf_all 0 0x5000 track1))) + mset (freed (snd (free_stop conf_all 0 0x5000 track1)))
      = mset (allocated track1) + mset (freed track1)"
    using free_moves_entry [of "0x5000" track1 conf_all 0] by (simp add: track1_def init_track_def)
  then show ?thesis using f by (simp add: track1_def init_track_def)
qed

text \<open>Fact: after the free of a tracked chunk a second free of the same address is reported: the
  execution stops with a warning and the lists do not change.\<close>
theorem double_free_reported:
  assumes "addr \<noteq> 0" "addr \<notin> set (map fst (freed s))" "addr \<in> set (map fst (allocated s))"
    and "check_double_free c" "s1 = snd (free_stop c pc addr s)" "s2 = snd (free_stop c pc2 addr s1)"
  shows "fst (free_stop c pc2 addr s1) = (True, False) \<and> allocated s2 = allocated s1
    \<and> freed s2 = freed s1 \<and> length (msgs s2) = Suc (length (msgs s1))"
proof -
  obtain i where i: "index_of addr (map fst (allocated s)) = Some i"
    using assms(3) index_of_None by (metis option.exhaust)
  have "fst (allocated s ! i) = addr" using index_of_Some [OF i] by auto
  then have "addr \<in> set (map fst (freed s1))"
    using free_stop_tracked(3) [OF assms(1,2) i] assms(5) by (simp add: image_iff)
  then show ?thesis using assms(1,4,6) by (simp add: free_stop_def Let_def)
qed

theorem double_free_reported_witness:
  "fst (free_stop conf_all 4 0x5000 (snd (free_stop conf_all 0 0x5000 track1))) = (True, False)"
  using double_free_reported [of "0x5000" track1 conf_all, OF _ _ _ _ refl refl]
  by (simp add: track1_def init_track_def conf_all_def)

text \<open>Fact: in a reachable state, without the overlap check, the return of an allocation adds exactly
  its entry to the in-use list and takes the address out of the freed list.\<close>
theorem malloc_tracks_allocation:
  assumes "reachable c s" "\<not> check_overlap c"
    and "malloc_ret c csize al name sz (Inr loc) s = (r, s')"
  shows "r = Inr False \<and> allocated s' = allocated s @ [(loc, sz)]
    \<and> freed s' = filter (\<lambda>it. fst it \<noteq> loc) (freed s)"
  using assms(2,3) malloc_ret_freed [OF reachable_distinct [OF assms(1)] assms(3)]
  by (auto simp: malloc_ret_def Let_def)

theorem malloc_tracks_allocation_witness:
  "allocated (snd (malloc_ret conf_all (\<lambda>_. Inr 0) 8 ''malloc'' 24 (Inr 0x5000) init_track)) = [(0x5000, 24)]"
proof -
  obtain r s' where m: "malloc_ret conf_all (\<lambda>_. Inr 0) 8 ''malloc'' 24 (Inr 0x5000) init_track = (r, s')"
    by fastforce
  from malloc_tracks_allocation [OF reach_init _ m] have "allocated s' = [(0x5000, 24)]"
    by (simp add: conf_all_def init_track_def)
  then show ?thesis by (simp add: m)
qed

text \<open>Fact: when the reallocated pointer is tracked, its old entry is put back and the new block is not
  recorded: the entries of the in-use list are unchanged.\<close>
theorem realloc_keeps_stale_entry:
  assumes "ptr \<in> set (map fst (allocated s))"
    and "realloc_ret c debug ptr sz (Inr newloc) s = (r, s')"
  shows "mset (allocated s') = mset (allocated s)"
proof -
  obtain i where i: "index_of ptr (map fst (allocated s)) = Some i"
    using assms(1) index_of_None by (metis option.exhaust)
  then have n: "i < length (allocated s)" using index_of_Some by fastforce
  have "allocated s' = pop_at i (allocated s) @ [allocated s ! i]"
    using assms(2) i by (auto simp: realloc_ret_def Let_def)
  then show ?thesis using mset_pop_at [OF n] by simp
qed

theorem realloc_keeps_stale_entry_witness:
  "mset (allocated (snd (realloc_ret conf_all False 0x5000 64 (Inr 0x6000) track1))) = {#(0x5000, 24)#}"
proof -
  obtain r s' where m: "realloc_ret conf_all False 0x5000 64 (Inr 0x6000) track1 = (r, s')" by fastforce
  from realloc_keeps_stale_entry [OF _ m] have "mset (allocated s') = {#(0x5000, 24)#}"
    by (simp add: track1_def init_track_def)
  then show ?thesis by (simp add: m)
qed

text \<open>Fact: of two neighbouring watchpoints inside a newly allocated block only the first is removed: the
  loop deletes from the list it iterates over and skips the next element.\<close>
theorem stale_watchpoint_survives:
  assumes "uaf s = [w, w2]" "w \<noteq> w2" "loc \<le> wp_address w" "wp_address w < loc + sz"
    and "loc \<le> wp_address w2" "wp_address w2 < loc + sz"
    and "\<not> check_overlap c" "malloc_ret c csize al name sz (Inr loc) s = (r, s')"
  shows "uaf s' = [w2]"
proof -
  have "purge_items (\<lambda>v. loc \<le> wp_address v \<and> wp_address v < loc + sz) 0 [w, w2] = [w2]"
    using assms(2-6) purge_eq_survivors [of "[w, w2]" 0] by simp
  then show ?thesis using assms(1,7,8) by (auto simp: malloc_ret_def Let_def)
qed

definition two_wps :: track where
  "two_wps = init_track\<lparr>uaf := [\<lparr>wp_id = 0, wp_address = 0x5000\<rparr>, \<lparr>wp_id = 1, wp_address = 0x5008\<rparr>]\<rparr>"

theorem stale_watchpoint_survives_witness:
  "uaf (snd (malloc_ret conf_all (\<lambda>_. Inr 0) 8 ''malloc'' 24 (Inr 0x5000) two_wps))
     = [\<lparr>wp_id = 1, wp_address = 0x5008\<rparr>]"
proof -
  obtain r s' where m: "malloc_ret conf_all (\<lambda>_. Inr 0) 8 ''malloc'' 24 (Inr 0x5000) two_wps = (r, s')"
    by fastforce
  have "uaf s' = [\<lparr>wp_id = 1, wp_address = 0x5008\<rparr>]"
    by (rule stale_watchpoint_survives [OF _ _ _ _ _ _ _ m, where w = "\<lparr>wp_id = 0, wp_address = 0x5000\<rparr>"])
      (simp_all add: two_wps_def conf_all_def)
  then show ?thesis by (simp add: m)
qed

end
