(* ===== verification/Architecture.thy ===== *)
theory Architecture
  imports Sections
begin

unbundle bit_operations_syntax

text \<open>
  \<^verbatim>\<open>Instruction\<close> and \<^verbatim>\<open>Architecture\<close> of \<^verbatim>\<open>scripts/gef.py\<close>: instructions and how they are printed,
  reading a register, the class attributes of every supported architecture, the registry of
  architectures, and the interface between an architecture and the views that explain its
  conditional branches.
\<close>

section \<open>Instructions\<close>

record insn =
  i_address :: int
  i_location :: string
  mnemonic :: string
  operands :: "string list"
  opcodes :: "byte list"

text \<open>\<^verbatim>\<open>f"{x:#10x}"\<close>: right aligned in ten columns\<close>
definition hex10 :: "int \<Rightarrow> string" where "hex10 x = rjust 10 (hexs x)"

definition insn_str :: "insn \<Rightarrow> string" where
  "insn_str i = hex10 (i_address i) @ '' '' @ ljust 16 (i_location i) @ '' '' @ ljust 6 (mnemonic i)
     @ '' '' @ join '', '' (operands i)"

text \<open>\<^verbatim>\<open>__format__\<close> with \<^verbatim>\<open>"o"\<close> (None) or \<^verbatim>\<open>"<n>o"\<close> (Some n)\<close>
definition insn_format :: "int option \<Rightarrow> insn \<Rightarrow> string" where
  "insn_format spec i =
     (let n = (case spec of None \<Rightarrow> int (length (opcodes i)) | Some k \<Rightarrow> k);
          txt0 = concat (map (\<lambda>b. fmt_x0 2 (uint b)) (slice_to n (opcodes i)));
          txt = (if n < int (length (opcodes i)) then txt0 @ ''...'' else txt0)
      in hex10 (i_address i) @ '' '' @ ljust (nat (n * 2 + 3)) txt @ '' '' @ ljust 16 (i_location i)
         @ '' '' @ ljust 6 (mnemonic i) @ '' '' @ join '', '' (operands i))"

definition insn_is_valid :: "insn \<Rightarrow> bool" where
  "insn_is_valid i = (\<not> str_in ''(bad)'' (mnemonic i))"

definition insn_size :: "insn \<Rightarrow> int" where "insn_size i = int (length (opcodes i))"

text \<open>The address \<^verbatim>\<open>next\<close> disassembles at\<close>
definition insn_next_address :: "insn \<Rightarrow> int" where
  "insn_next_address i = i_address i + insn_size i"

text \<open>\<^verbatim>\<open>operands[k]\<close>, with negative indices from the end\<close>
definition operand :: "insn \<Rightarrow> int \<Rightarrow> string result" where
  "operand i k =
     (let n = int (length (operands i)) in
      if 0 \<le> k \<and> k < n then Inr (operands i ! nat k)
      else if - n \<le> k \<and> k < 0 then Inr (operands i ! nat (n + k))
      else raise IndexError ''list index out of range'')"

section \<open>Registers\<close>

text \<open>\<^verbatim>\<open>register\<close>: first as an expression, then, when GDB cannot evaluate it, as a register of the
  selected frame, \<^verbatim>\<open>read_reg\<close>, without the leading dollar signs\<close>
definition arch_register :: "target \<Rightarrow> (string \<Rightarrow> int result) \<Rightarrow> string \<Rightarrow> int result" where
  "arch_register t read_reg name =
     (if \<not> t_alive t then raise GdbError ''No debugging session active''
      else case parse_address t name of
        Inr v \<Rightarrow> Inr v
      | Inl e \<Rightarrow> if exn_cls e = GdbError \<or> exn_cls e = GdbMemoryError
                 then read_reg (lstrip_of (\<lambda>c. c = CHR ''$'') name) else Inl e)"

text \<open>What an architecture's methods consult: the inferior, the registers by name, the value types'
  widths, the pc of the older frame, and whether the target is 64-bit x86\<close>
record cpu =
  c_target :: target
  c_reg :: "string \<Rightarrow> int result"
  c_32bit :: bool
  c_64bit :: bool
  c_older_pc :: "int option"
  c_x86_64 :: bool

definition to_unsigned_long :: "cpu \<Rightarrow> int \<Rightarrow> int" where
  "to_unsigned_long c v = (let mask = push_bit (t_ptrsize (c_target c) * 8) 1 - 1 in v AND mask)"

text \<open>\<^verbatim>\<open>dereference\<close>: the unsigned integer of pointer width at an address, None when it is not
  readable\<close>
definition dereference :: "cpu \<Rightarrow> int \<Rightarrow> int option" where
  "dereference c addr = (case read_integer (c_target c) addr of Inr v \<Rightarrow> Some v | Inl _ \<Rightarrow> None)"

definition use_stdtype :: "cpu \<Rightarrow> string" where
  "use_stdtype c = (if c_32bit c then ''uint32_t'' else if c_64bit c then ''uint64_t'' else ''uint16_t'')"
definition use_default_type :: "cpu \<Rightarrow> string" where
  "use_default_type c = (if c_32bit c then ''unsigned int'' else if c_64bit c then ''unsigned long''
     else ''unsigned short'')"
definition use_golang_type :: "cpu \<Rightarrow> string" where
  "use_golang_type c = (if c_32bit c then ''uint32'' else if c_64bit c then ''uint64'' else ''uint16'')"
definition use_rust_type :: "cpu \<Rightarrow> string" where
  "use_rust_type c = (if c_32bit c then ''u32'' else if c_64bit c then ''u64'' else ''u16'')"

section \<open>The architectures\<close>

datatype arch_alias = AliasName string | AbiValue int

record arch_desc =
  d_arch :: string
  d_mode :: string
  d_aliases :: "arch_alias list"
  d_registers :: "string list"
  d_nop :: "byte list"
  d_return :: string
  d_flag :: "string option"
  d_length :: "nat option"
  d_flags :: "(nat \<times> string) list"
  d_syscall :: string
  d_syscall_insns :: "string list"
  d_params :: "string list"
  d_special :: "string list"
  d_ptrsize :: "nat option"
  d_endian :: "endianness option"

definition GenericArchitecture_desc :: arch_desc where
  "GenericArchitecture_desc = \<lparr>
     d_arch = ''Generic'', d_mode = [],
     d_aliases = [AliasName ''GenericArchitecture''],
     d_registers = [],
     d_nop = [],
     d_return = [], d_flag = None, d_length = Some 0,
     d_flags = [],
     d_syscall = [], d_syscall_insns = [],
     d_params = [],
     d_special = [],
     d_ptrsize = None, d_endian = None\<rparr>"

definition RISCV_desc :: arch_desc where
  "RISCV_desc = \<lparr>
     d_arch = ''RISCV'', d_mode = ''RISCV'',
     d_aliases = [AliasName ''RISCV'', AbiValue 0xf3],
     d_registers = [''$zero'', ''$ra'', ''$sp'', ''$gp'', ''$tp'', ''$t0'', ''$t1'', ''$t2'', ''$fp'',
      ''$s1'', ''$a0'', ''$a1'', ''$a2'', ''$a3'', ''$a4'', ''$a5'', ''$a6'', ''$a7'',
      ''$s2'', ''$s3'', ''$s4'', ''$s5'', ''$s6'', ''$s7'', ''$s8'', ''$s9'', ''$s10'',
      ''$s11'', ''$t3'', ''$t4'', ''$t5'', ''$t6''],
     d_nop = [0x00, 0x00, 0x00, 0x13],
     d_return = ''$a0'', d_flag = None, d_length = None,
     d_flags = [],
     d_syscall = ''$a7'', d_syscall_insns = [''ecall''],
     d_params = [''$a0'', ''$a1'', ''$a2'', ''$a3'', ''$a4'', ''$a5'', ''$a6'', ''$a7''],
     d_special = [],
     d_ptrsize = None, d_endian = None\<rparr>"

definition ARM_desc :: arch_desc where
  "ARM_desc = \<lparr>
     d_arch = ''ARM'', d_mode = [],
     d_aliases = [AliasName ''ARM'', AbiValue 0x28],
     d_registers = [''$r0'', ''$r1'', ''$r2'', ''$r3'', ''$r4'', ''$r5'', ''$r6'', ''$r7'', ''$r8'',
      ''$r9'', ''$r10'', ''$r11'', ''$r12'', ''$sp'', ''$lr'', ''$pc'', ''$cpsr''],
     d_nop = [0x00, 0xf0, 0x20, 0xe3],
     d_return = ''$r0'', d_flag = Some ''$cpsr'', d_length = None,
     d_flags = [(31, ''negative''), (30, ''zero''), (29, ''carry''), (28, ''overflow''),
      (7, ''interrupt''), (6, ''fast''), (5, ''thumb'')],
     d_syscall = ''$r7'', d_syscall_insns = [''swi 0x0'', ''swi NR''],
     d_params = [''$r0'', ''$r1'', ''$r2'', ''$r3''],
     d_special = [],
     d_ptrsize = None, d_endian = Some LITTLE_ENDIAN\<rparr>"

definition AARCH64_desc :: arch_desc where
  "AARCH64_desc = \<lparr>
     d_arch = ''ARM64'', d_mode = [],
     d_aliases = [AliasName ''ARM64'', AliasName ''AARCH64'', AbiValue 0xb7],
     d_registers = [''$x0'', ''$x1'', ''$x2'', ''$x3'', ''$x4'', ''$x5'', ''$x6'', ''$x7'', ''$x8'',
      ''$x9'', ''$x10'', ''$x11'', ''$x12'', ''$x13'', ''$x14'', ''$x15'', ''$x16'',
      ''$x17'', ''$x18'', ''$x19'', ''$x20'', ''$x21'', ''$x22'', ''$x23'', ''$x24'',
      ''$x25'', ''$x26'', ''$x27'', ''$x28'', ''$x29'', ''$x30'', ''$sp'', ''$pc'',
      ''$cpsr'', ''$fpsr'', ''$fpcr''],
     d_nop = [0x1f, 0x20, 0x03, 0xd5],
     d_return = ''$x0'', d_flag = Some ''$cpsr'', d_length = None,
     d_flags = [(31, ''negative''), (30, ''zero''), (29, ''carry''), (28, ''overflow''),
      (7, ''interrupt''), (9, ''endian''), (6, ''fast''), (5, ''t32''), (4, ''m[4]'')],
     d_syscall = ''$x8'', d_syscall_insns = [''svc $x0''],
     d_params = [''$x0'', ''$x1'', ''$x2'', ''$x3'', ''$x4'', ''$x5'', ''$x6'', ''$x7''],
     d_special = [],
     d_ptrsize = None, d_endian = Some LITTLE_ENDIAN\<rparr>"

definition X86_desc :: arch_desc where
  "X86_desc = \<lparr>
     d_arch = ''X86'', d_mode = ''32'',
     d_aliases = [AliasName ''X86'', AbiValue 0x3],
     d_registers = [''$eax'', ''$ebx'', ''$ecx'', ''$edx'', ''$esp'', ''$ebp'', ''$esi'', ''$edi'',
      ''$eip'', ''$eflags'', ''$cs'', ''$ss'', ''$ds'', ''$es'', ''$fs'', ''$gs''],
     d_nop = [0x90],
     d_return = ''$eax'', d_flag = Some ''$eflags'', d_length = None,
     d_flags = [(6, ''zero''), (0, ''carry''), (2, ''parity''), (4, ''adjust''), (7, ''sign''),
      (8, ''trap''), (9, ''interrupt''), (10, ''direction''), (11, ''overflow''),
      (16, ''resume''), (17, ''virtualx86''), (21, ''identification'')],
     d_syscall = ''$eax'', d_syscall_insns = [''sysenter'', ''int 0x80''],
     d_params = [''$esp''],
     d_special = [''$cs'', ''$ss'', ''$ds'', ''$es'', ''$fs'', ''$gs''],
     d_ptrsize = Some 4, d_endian = Some LITTLE_ENDIAN\<rparr>"

definition X86_64_desc :: arch_desc where
  "X86_64_desc = \<lparr>
     d_arch = ''X86'', d_mode = ''64'',
     d_aliases = [AliasName ''X86_64'', AbiValue 0x3e, AliasName ''i386:x86-64''],
     d_registers = [''$rax'', ''$rbx'', ''$rcx'', ''$rdx'', ''$rsp'', ''$rbp'', ''$rsi'', ''$rdi'',
      ''$rip'', ''$r8'', ''$r9'', ''$r10'', ''$r11'', ''$r12'', ''$r13'', ''$r14'',
      ''$r15'', ''$eflags'', ''$cs'', ''$ss'', ''$ds'', ''$es'', ''$fs'', ''$gs''],
     d_nop = [0x90],
     d_return = ''$rax'', d_flag = Some ''$eflags'', d_length = None,
     d_flags = [(6, ''zero''), (0, ''carry''), (2, ''parity''), (4, ''adjust''), (7, ''sign''),
      (8, ''trap''), (9, ''interrupt''), (10, ''direction''), (11, ''overflow''),
      (16, ''resume''), (17, ''virtualx86''), (21, ''identification'')],
     d_syscall = ''$rax'', d_syscall_insns = [''syscall''],
     d_params = [''$rdi'', ''$rsi'', ''$rdx'', ''$rcx'', ''$r8'', ''$r9''],
     d_special = [''$cs'', ''$ss'', ''$ds'', ''$es'', ''$fs'', ''$gs''],
     d_ptrsize = Some 8, d_endian = Some LITTLE_ENDIAN\<rparr>"

definition PowerPC_desc :: arch_desc where
  "PowerPC_desc = \<lparr>
     d_arch = ''PPC'', d_mode = ''PPC32'',
     d_aliases = [AliasName ''PowerPC'', AbiValue 0x14, AliasName ''PPC''],
     d_registers = [''$r0'', ''$r1'', ''$r2'', ''$r3'', ''$r4'', ''$r5'', ''$r6'', ''$r7'', ''$r8'',
      ''$r9'', ''$r10'', ''$r11'', ''$r12'', ''$r13'', ''$r14'', ''$r15'', ''$r16'',
      ''$r17'', ''$r18'', ''$r19'', ''$r20'', ''$r21'', ''$r22'', ''$r23'', ''$r24'',
      ''$r25'', ''$r26'', ''$r27'', ''$r28'', ''$r29'', ''$r30'', ''$r31'', ''$pc'',
      ''$msr'', ''$cr'', ''$lr'', ''$ctr'', ''$xer'', ''$trap''],
     d_nop = [0x60, 0x00, 0x00, 0x00],
     d_return = ''$r0'', d_flag = Some ''$cr'', d_length = Some 4,
     d_flags = [(3, ''negative[0]''), (2, ''positive[0]''), (1, ''equal[0]''), (0, ''overflow[0]''),
      (31, ''less[7]''), (30, ''greater[7]''), (29, ''equal[7]''), (28, ''overflow[7]'')],
     d_syscall = ''$r0'', d_syscall_insns = [''sc''],
     d_params = [''$i0'', ''$i1'', ''$i2'', ''$i3'', ''$i4'', ''$i5''],
     d_special = [],
     d_ptrsize = Some 4, d_endian = None\<rparr>"

definition PowerPC64_desc :: arch_desc where
  "PowerPC64_desc = \<lparr>
     d_arch = ''PPC'', d_mode = ''PPC64'',
     d_aliases = [AliasName ''PowerPC64'', AbiValue 0x15, AliasName ''PPC64''],
     d_registers = [''$r0'', ''$r1'', ''$r2'', ''$r3'', ''$r4'', ''$r5'', ''$r6'', ''$r7'', ''$r8'',
      ''$r9'', ''$r10'', ''$r11'', ''$r12'', ''$r13'', ''$r14'', ''$r15'', ''$r16'',
      ''$r17'', ''$r18'', ''$r19'', ''$r20'', ''$r21'', ''$r22'', ''$r23'', ''$r24'',
      ''$r25'', ''$r26'', ''$r27'', ''$r28'', ''$r29'', ''$r30'', ''$r31'', ''$pc'',
      ''$msr'', ''$cr'', ''$lr'', ''$ctr'', ''$xer'', ''$trap''],
     d_nop = [0x60, 0x00, 0x00, 0x00],
     d_return = ''$r0'', d_flag = Some ''$cr'', d_length = Some 4,
     d_flags = [(3, ''negative[0]''), (2, ''positive[0]''), (1, ''equal[0]''), (0, ''overflow[0]''),
      (31, ''less[7]''), (30, ''greater[7]''), (29, ''equal[7]''), (28, ''overflow[7]'')],
     d_syscall = ''$r0'', d_syscall_insns = [''sc''],
     d_params = [''$i0'', ''$i1'', ''$i2'', ''$i3'', ''$i4'', ''$i5''],
     d_special = [],
     d_ptrsize = Some 8, d_endian = None\<rparr>"

definition SPARC_desc :: arch_desc where
  "SPARC_desc = \<lparr>
     d_arch = ''SPARC'', d_mode = [],
     d_aliases = [AliasName ''SPARC'', AbiValue 0x2],
     d_registers = [''$g0'', ''$g1'', ''$g2'', ''$g3'', ''$g4'', ''$g5'', ''$g6'', ''$g7'', ''$o0'',
      ''$o1'', ''$o2'', ''$o3'', ''$o4'', ''$o5'', ''$o7'', ''$l0'', ''$l1'', ''$l2'',
      ''$l3'', ''$l4'', ''$l5'', ''$l6'', ''$l7'', ''$i0'', ''$i1'', ''$i2'', ''$i3'',
      ''$i4'', ''$i5'', ''$i7'', ''$pc'', ''$npc'', ''$sp '', ''$fp '', ''$psr''],
     d_nop = [0x00, 0x00, 0x00, 0x00],
     d_return = ''$i0'', d_flag = Some ''$psr'', d_length = Some 4,
     d_flags = [(23, ''negative''), (22, ''zero''), (21, ''overflow''), (20, ''carry''),
      (7, ''supervisor''), (5, ''trap'')],
     d_syscall = ''%g1'', d_syscall_insns = [''t 0x10''],
     d_params = [''$o0 '', ''$o1 '', ''$o2 '', ''$o3 '', ''$o4 '', ''$o5 '', ''$o7 ''],
     d_special = [],
     d_ptrsize = None, d_endian = None\<rparr>"

definition SPARC64_desc :: arch_desc where
  "SPARC64_desc = \<lparr>
     d_arch = ''SPARC'', d_mode = ''V9'',
     d_aliases = [AliasName ''SPARC64'', AbiValue 0x2b],
     d_registers = [''$g0'', ''$g1'', ''$g2'', ''$g3'', ''$g4'', ''$g5'', ''$g6'', ''$g7'', ''$o0'',
      ''$o1'', ''$o2'', ''$o3'', ''$o4'', ''$o5'', ''$o7'', ''$l0'', ''$l1'', ''$l2'',
      ''$l3'', ''$l4'', ''$l5'', ''$l6'', ''$l7'', ''$i0'', ''$i1'', ''$i2'', ''$i3'',
      ''$i4'', ''$i5'', ''$i7'', ''$pc'', ''$npc'', ''$sp'', ''$fp'', ''$state''],
     d_nop = [0x00, 0x00, 0x00, 0x00],
     d_return = ''$i0'', d_flag = Some ''$state'', d_length = Some 4,
     d_flags = [(35, ''negative''), (34, ''zero''), (33, ''overflow''), (32, ''carry'')],
     d_syscall = ''%g1'', d_syscall_insns = [''t 0x6d''],
     d_params = [''$o0 '', ''$o1 '', ''$o2 '', ''$o3 '', ''$o4 '', ''$o5 '', ''$o7 ''],
     d_special = [],
     d_ptrsize = None, d_endian = None\<rparr>"

definition MIPS_desc :: arch_desc where
  "MIPS_desc = \<lparr>
     d_arch = ''MIPS'', d_mode = ''MIPS32'',
     d_aliases = [AliasName ''MIPS'', AbiValue 0x8],
     d_registers = [''$zero'', ''$at'', ''$v0'', ''$v1'', ''$a0'', ''$a1'', ''$a2'', ''$a3'', ''$t0'',
      ''$t1'', ''$t2'', ''$t3'', ''$t4'', ''$t5'', ''$t6'', ''$t7'', ''$s0'', ''$s1'',
      ''$s2'', ''$s3'', ''$s4'', ''$s5'', ''$s6'', ''$s7'', ''$t8'', ''$t9'', ''$k0'',
      ''$k1'', ''$s8'', ''$pc'', ''$sp'', ''$hi'', ''$lo'', ''$fir'', ''$ra'', ''$gp''],
     d_nop = [0x00, 0x00, 0x00, 0x00],
     d_return = ''$v0'', d_flag = Some ''$fcsr'', d_length = Some 4,
     d_flags = [],
     d_syscall = ''$v0'', d_syscall_insns = [''syscall''],
     d_params = [''$a0'', ''$a1'', ''$a2'', ''$a3''],
     d_special = [],
     d_ptrsize = Some 4, d_endian = None\<rparr>"

definition MIPS64_desc :: arch_desc where
  "MIPS64_desc = \<lparr>
     d_arch = ''MIPS'', d_mode = ''MIPS64'',
     d_aliases = [AliasName ''MIPS64''],
     d_registers = [''$zero'', ''$at'', ''$v0'', ''$v1'', ''$a0'', ''$a1'', ''$a2'', ''$a3'', ''$t0'',
      ''$t1'', ''$t2'', ''$t3'', ''$t4'', ''$t5'', ''$t6'', ''$t7'', ''$s0'', ''$s1'',
      ''$s2'', ''$s3'', ''$s4'', ''$s5'', ''$s6'', ''$s7'', ''$t8'', ''$t9'', ''$k0'',
      ''$k1'', ''$s8'', ''$pc'', ''$sp'', ''$hi'', ''$lo'', ''$fir'', ''$ra'', ''$gp''],
     d_nop = [0x00, 0x00, 0x00, 0x00],
     d_return = ''$v0'', d_flag = Some ''$fcsr'', d_length = Some 4,
     d_flags = [],
     d_syscall = ''$v0'', d_syscall_insns = [''syscall''],
     d_params = [''$a0'', ''$a1'', ''$a2'', ''$a3''],
     d_special = [],
     d_ptrsize = Some 8, d_endian = None\<rparr>"

definition all_archs :: "arch_desc list" where
  "all_archs = [GenericArchitecture_desc, RISCV_desc, ARM_desc, AARCH64_desc, X86_desc, X86_64_desc,
     PowerPC_desc, PowerPC64_desc, SPARC_desc, SPARC64_desc, MIPS_desc, MIPS64_desc]"

text \<open>\<^verbatim>\<open>__init_subclass__\<close>: every alias is a key of the registry; a later class replaces an earlier one\<close>
definition register_arch ::
  "(arch_alias \<times> arch_desc) list \<Rightarrow> arch_desc \<Rightarrow> (arch_alias \<times> arch_desc) list" where
  "register_arch reg d = foldl (\<lambda>r k. AList.update k d r) reg (d_aliases d)"

definition registered_architectures :: "(arch_alias \<times> arch_desc) list" where
  "registered_architectures = foldl register_arch [] all_archs"

definition arch_str :: "endianness \<Rightarrow> arch_desc \<Rightarrow> string" where
  "arch_str e d = ''Architecture('' @ d_arch d @ '', '' @ (if d_mode d = [] then ''None'' else d_mode d)
     @ '', '' @ endianness_repr e @ '')''"

definition is_arch :: "int \<Rightarrow> arch_desc \<Rightarrow> bool" where
  "is_arch abi d = (AbiValue abi \<in> set (d_aliases d))"
definition is_x86_64 :: "arch_desc \<Rightarrow> bool" where
  "is_x86_64 d = (AbiValue 0x3e \<in> set (d_aliases d))"
definition is_x86_32 :: "arch_desc \<Rightarrow> bool" where
  "is_x86_32 d = (AbiValue 0x03 \<in> set (d_aliases d))"
definition is_x86 :: "arch_desc \<Rightarrow> bool" where
  "is_x86 d = (is_x86_32 d \<or> is_x86_64 d)"

text \<open>\<^verbatim>\<open>supports_gdb_arch\<close>: only MIPS64 decides; the argument is whether the loaded ELF is 64-bit (None
  without one)\<close>
definition supports_gdb_arch :: "bool option \<Rightarrow> arch_desc \<Rightarrow> string \<Rightarrow> bool option" where
  "supports_gdb_arch elf64 d gdb_arch =
     (if d_mode d = ''MIPS64'' then
        (case elf64 of None \<Rightarrow> Some False | Some b \<Rightarrow> Some (startswith gdb_arch ''mips'' \<and> b))
      else None)"

text \<open>\<^verbatim>\<open>reset_architecture\<close>: the architecture in force before, the forced name, the name GDB gives to
  the architecture of a running process, and the machine field of the loaded ELF\<close>
definition reset_architecture ::
  "(arch_alias \<times> arch_desc) list \<Rightarrow> string option \<Rightarrow> string option \<Rightarrow> bool option \<Rightarrow> int option
    \<Rightarrow> (arch_desc, unit) stm" where
  "reset_architecture reg forced running elf64 machine d =
     (case (case forced of Some a \<Rightarrow> if a = [] then None else Some a | None \<Rightarrow> None) of
        Some a \<Rightarrow>
          (case map_of reg (AliasName a) of
             Some d' \<Rightarrow> (Inr (), d')
           | None \<Rightarrow> (raise OSError (''Specified arch '' @ upper a @ '' is not supported''), d))
      | None \<Rightarrow>
          (case (case running of None \<Rightarrow> None
                 | Some g \<Rightarrow> find (\<lambda>x. supports_gdb_arch elf64 x g = Some True) (map snd reg)) of
             Some d' \<Rightarrow> (Inr (), d')
           | None \<Rightarrow>
               (case machine of
                  None \<Rightarrow> (Inr (), d)
                | Some m \<Rightarrow>
                    (case map_of reg (AbiValue m) of
                       Some d' \<Rightarrow> (Inr (), d')
                     | None \<Rightarrow> (raise OSError ''CPU type is currently not supported'', d)))))"

text \<open>\<^verbatim>\<open>ptrsize\<close> and \<^verbatim>\<open>endianness\<close> of the base class: the cached value, or the debugger's answer\<close>
definition base_ptrsize :: "nat option \<Rightarrow> nat \<Rightarrow> (nat option, nat) stm" where
  "base_ptrsize size_t pc_size cached =
     (case cached of
        Some n \<Rightarrow> if n \<noteq> 0 then (Inr n, cached)
          else (let m = (case size_t of Some k \<Rightarrow> k | None \<Rightarrow> pc_size) in (Inr m, Some m))
      | None \<Rightarrow> (let m = (case size_t of Some k \<Rightarrow> k | None \<Rightarrow> pc_size) in (Inr m, Some m)))"

definition base_endianness :: "target \<Rightarrow> (endianness option, endianness) stm" where
  "base_endianness t cached =
     (case cached of
        Some e \<Rightarrow> (Inr e, cached)
      | None \<Rightarrow>
          (case t_exec t ''show endian'' of
             Inl e \<Rightarrow> (Inl e, cached)
           | Inr o1 \<Rightarrow>
               (let outp = lower (strip o1) in
                if str_in ''little endian'' outp then (Inr LITTLE_ENDIAN, Some LITTLE_ENDIAN)
                else if str_in ''big endian'' outp then (Inr BIG_ENDIAN, Some BIG_ENDIAN)
                else (raise OSError (''No valid endianess found in '' @ [CHR 0x27] @ outp @ [CHR 0x27]), cached))))"

text \<open>\<^verbatim>\<open>get_ith_parameter\<close> through the parameter registers\<close>
definition base_get_ith_parameter :: "cpu \<Rightarrow> arch_desc \<Rightarrow> nat \<Rightarrow> (string \<times> int) result" where
  "base_get_ith_parameter c d i =
     (if i < length (d_params d) then bindE (c_reg c (d_params d ! i)) (\<lambda>v. Inr (d_params d ! i, v))
      else raise IndexError ''tuple index out of range'')"

section \<open>Flags\<close>

definition flag_bit :: "arch_desc \<Rightarrow> string \<Rightarrow> nat" where
  "flag_bit d name = (case find (\<lambda>p. snd p = name) (rev (d_flags d)) of Some p \<Rightarrow> fst p | None \<Rightarrow> 0)"

definition flag_set :: "arch_desc \<Rightarrow> int \<Rightarrow> string \<Rightarrow> bool" where
  "flag_set d val name = (val AND push_bit (flag_bit d name) 1 \<noteq> 0)"

definition flag_register_of :: "arch_desc \<Rightarrow> string" where
  "flag_register_of d = (case d_flag d of Some r \<Rightarrow> r | None \<Rightarrow> [])"

text \<open>\<^verbatim>\<open>flag_register_to_human\<close> of the architectures that have a flag register\<close>
definition flag_register_to_human :: "bool \<Rightarrow> cpu \<Rightarrow> arch_desc \<Rightarrow> int option \<Rightarrow> string result" where
  "flag_register_to_human b c d val =
     bindE (case val of Some v \<Rightarrow> Inr v | None \<Rightarrow> c_reg c (flag_register_of d)) (\<lambda>v.
       Inr (flags_to_human (boldify b) v (d_flags d)))"

section \<open>Branch decoders\<close>

text \<open>
  The contract between an architecture and the code view: whenever the architecture says that a
  mnemonic is a conditional branch, its verdict on it comes with a reason.
\<close>
locale branch_decoder =
  fixes is_cond :: "insn \<Rightarrow> bool"
    and taken :: "cpu \<Rightarrow> insn \<Rightarrow> (bool \<times> string) result"
  assumes reason_given: "is_cond i \<Longrightarrow> taken c i = Inr (b, r) \<Longrightarrow> r \<noteq> []"

text \<open>The code view's text for the branch at the pc (\<^verbatim>\<open>context_code\<close>): the text and the
  target operand\<close>
definition branch_text ::
  "bool \<Rightarrow> (cpu \<Rightarrow> insn \<Rightarrow> (bool \<times> string) result) \<Rightarrow> cpu \<Rightarrow> insn \<Rightarrow> (string \<times> string option) result" where
  "branch_text b taken c i =
     bindE (taken c i) (\<lambda>(is_taken, reason).
       if is_taken then
         bindE (operand i (- 1)) (\<lambda>op.
           case split_ws op of
             [] \<Rightarrow> raise IndexError ''list index out of range''
           | tgt # _ \<Rightarrow>
               Inr (colorify b (CHR 0x09 # ''TAKEN '' @ (if reason \<noteq> [] then ''[Reason: '' @ reason @ '']'' else []))
                      ''bold green'', Some tgt))
       else
         Inr (colorify b (CHR 0x09 # ''NOT taken '' @ (if reason \<noteq> [] then ''[Reason: !('' @ reason @ '')]'' else []))
                ''bold red'', None))"

context branch_decoder
begin

lemma not_taken_text:
  assumes "is_cond i" "taken c i = Inr (False, r)"
  shows "branch_text True taken c i =
    Inr (CHR 0x09 # ''NOT taken [Reason: !('' @ r @ '')]'', None)"
  using reason_given [OF assms] assms(2) by (simp add: branch_text_def colorify_def)

lemma taken_text:
  assumes "is_cond i" "taken c i = Inr (True, r)" "operands i \<noteq> []"
    and "split_ws (last (operands i)) = tgt # ws"
  shows "branch_text True taken c i = Inr (CHR 0x09 # ''TAKEN [Reason: '' @ r @ '']'', Some tgt)"
proof -
  have "operand i (- 1) = Inr (last (operands i))"
  proof (cases "operands i" rule: rev_cases)
    case (snoc xs x)
    have "nat (int (length xs + 1) + - 1) = length xs" by linarith
    then show ?thesis by (simp add: operand_def Let_def snoc nth_append)
  qed (use assms(3) in simp)
  then show ?thesis
    using reason_given [OF assms(1,2)] assms(2,4) by (simp add: branch_text_def colorify_def)
qed

end

end
