(* ===== verification/ArchArm.thy ===== *)
theory ArchArm
  imports Architecture
begin

unbundle bit_operations_syntax

text \<open>
  The classes \<^verbatim>\<open>RISCV\<close>, \<^verbatim>\<open>ARM\<close> and \<^verbatim>\<open>AARCH64\<close> of \<^verbatim>\<open>scripts/gef.py\<close>: which instructions call,
  return and branch, whether a conditional branch is taken and why, the return address, and the
  assembly of the mprotect stub.
\<close>

section \<open>RISC-V\<close>

definition riscv_is_call :: "insn \<Rightarrow> bool" where
  "riscv_is_call i = (mnemonic i = ''call'')"

text \<open>The third operand of \<^verbatim>\<open>jalr\<close>, a string, is compared with the integer 0\<close>
definition riscv_is_ret :: "insn \<Rightarrow> bool result" where
  "riscv_is_ret i =
     (if mnemonic i = ''ret'' then Inr True
      else if mnemonic i = ''jalr'' then
        bindE (operand i 0) (\<lambda>a. if a \<noteq> ''zero'' then Inr False else
        bindE (operand i 1) (\<lambda>b. if b \<noteq> ''ra'' then Inr False else
        bindE (operand i 2) (\<lambda>_. Inr False)))
      else if mnemonic i = ''c.jalr'' then bindE (operand i 0) (\<lambda>a. Inr (a = ''ra''))
      else Inr False)"

definition riscv_mprotect_asm :: "int \<Rightarrow> int \<Rightarrow> int \<Rightarrow> string result" where
  "riscv_mprotect_asm addr sz perm = raise OSError ''Architecture RISCV not supported yet''"

definition riscv_ptrsize :: "bool \<Rightarrow> nat \<Rightarrow> (nat option, nat) stm" where
  "riscv_ptrsize alive pc_size cached =
     (case cached of Some n \<Rightarrow> (Inr n, cached)
      | None \<Rightarrow> if alive then (Inr pc_size, Some pc_size) else (Inr 4, cached))"

definition riscv_is_conditional_branch :: "insn \<Rightarrow> bool" where
  "riscv_is_conditional_branch i = startswith (mnemonic i) ''b''"

definition long_to_twos_complement :: "cpu \<Rightarrow> int \<Rightarrow> int result" where
  "long_to_twos_complement c v =
     (if c_32bit c then Inr (if v AND 0x80000000 \<noteq> 0 then v - 0x100000000 else v)
      else if c_64bit c then Inr (if v AND 0x8000000000000000 \<noteq> 0 then v - 0x10000000000000000 else v)
      else raise OSError ''RISC-V: ELF file is not ELF32 or ELF64. This is not currently supported'')"

definition cmp_reason :: "int \<Rightarrow> string \<Rightarrow> int \<Rightarrow> string" where
  "cmp_reason a rel b = decs a @ rel @ decs b"

definition riscv_decide :: "string \<Rightarrow> int \<Rightarrow> int \<Rightarrow> insn \<Rightarrow> (bool \<times> string) result" where
  "riscv_decide cond a b i =
     (if cond = ''eq'' then Inr (if a = b then (True, cmp_reason a ''='' b) else (False, cmp_reason a ''!='' b))
      else if cond = ''ne'' then Inr (if a \<noteq> b then (True, cmp_reason a ''!='' b) else (False, cmp_reason a ''='' b))
      else if cond = ''lt'' then Inr (if a < b then (True, cmp_reason a ''<'' b) else (False, cmp_reason a ''>='' b))
      else if cond = ''le'' then Inr (if a \<le> b then (True, cmp_reason a ''<='' b) else (False, cmp_reason a ''>'' b))
      else if cond = ''ge'' then Inr (if a < b then (True, cmp_reason a ''>='' b) else (False, cmp_reason a ''<'' b))
      else raise OSError (''RISC-V: Conditional instruction `'' @ insn_str i @ ''` not supported yet''))"

definition riscv_is_branch_taken :: "cpu \<Rightarrow> insn \<Rightarrow> (bool \<times> string) result" where
  "riscv_is_branch_taken c i =
     (let cond0 = drop 1 (mnemonic i) in
      bindE (if endswith cond0 ''z'' then
               bindE (operand i 0) (\<lambda>o0. bindE (c_reg c o0) (\<lambda>rs1.
               bindE (c_reg c ''$zero'') (\<lambda>rs2. Inr (rs1, rs2, butlast cond0))))
             else if 2 < length (operands i) then
               bindE (operand i 0) (\<lambda>o0. bindE (c_reg c o0) (\<lambda>rs1.
               bindE (operand i 1) (\<lambda>o1. bindE (c_reg c o1) (\<lambda>rs2. Inr (rs1, rs2, cond0)))))
             else raise OSError (''RISC-V: Failed to get rs1 and rs2 for instruction: `'' @ insn_str i @ ''`''))
      (\<lambda>(rs1, rs2, cond).
        if \<not> endswith cond ''u'' then
          bindE (long_to_twos_complement c rs2) (\<lambda>b.
          bindE (long_to_twos_complement c rs1) (\<lambda>a. riscv_decide cond a b i))
        else riscv_decide (butlast cond) rs1 rs2 i))"

definition riscv_get_ra :: "cpu \<Rightarrow> insn \<Rightarrow> int option result" where
  "riscv_get_ra c i =
     bindE (riscv_is_ret i) (\<lambda>r.
       if r then bindE (c_reg c ''$ra'') (\<lambda>v. Inr (Some v))
       else Inr (map_option (to_unsigned_long c) (c_older_pc c)))"

section \<open>ARM\<close>

definition arm_cpsr :: "cpu \<Rightarrow> int result" where
  "arm_cpsr c = (if \<not> t_alive (c_target c) then raise RuntimeError ''Cannot get CPSR, program not started?''
     else c_reg c ''$cpsr'')"

definition arm_is_thumb :: "cpu \<Rightarrow> bool result" where
  "arm_is_thumb c = (if \<not> t_alive (c_target c) then Inr False
     else bindE (arm_cpsr c) (\<lambda>v. Inr (v AND push_bit 5 1 = 1)))"

definition arm_pc :: "cpu \<Rightarrow> int result" where
  "arm_pc c = bindE (c_reg c ''$pc'') (\<lambda>pc. bindE (arm_is_thumb c) (\<lambda>t. Inr (if t then pc + 1 else pc)))"

definition arm_mode :: "cpu \<Rightarrow> string result" where
  "arm_mode c = bindE (arm_is_thumb c) (\<lambda>t. Inr (if t then ''THUMB'' else ''ARM''))"

definition arm_instruction_length :: "cpu \<Rightarrow> nat option result" where
  "arm_instruction_length c = bindE (arm_is_thumb c) (\<lambda>t. Inr (if t then None else Some 4))"

definition arm_ptrsize :: nat where "arm_ptrsize = 4"

definition arm_is_call :: "insn \<Rightarrow> bool" where
  "arm_is_call i = (mnemonic i \<in> {''bl'', ''blx''})"

definition arm_is_ret :: "insn \<Rightarrow> bool result" where
  "arm_is_ret i =
     (if mnemonic i = ''pop'' then bindE (operand i (- 1)) (\<lambda>x. Inr (x = '' pc}''))
      else if mnemonic i \<in> {''bl'', ''bx''} then bindE (operand i (- 1)) (\<lambda>x. Inr (x = ''lr''))
      else if mnemonic i \<in> {''ldr'', ''add''} then bindE (operand i 0) (\<lambda>x. Inr (x = ''pc''))
      else Inr False)"

definition arm_conditions :: "string list" where
  "arm_conditions = [''eq'', ''ne'', ''lt'', ''le'', ''gt'', ''ge'', ''vs'', ''vc'', ''mi'', ''pl'', ''hi'',
     ''ls'', ''cc'', ''cs'']"

definition last2 :: "string \<Rightarrow> string" where "last2 s = drop (length s - 2) s"

definition arm_is_conditional_branch :: "insn \<Rightarrow> bool" where
  "arm_is_conditional_branch i = (last2 (mnemonic i) \<in> set arm_conditions)"

text \<open>The decision on the value of the flag register; \<^verbatim>\<open>d\<close> is the architecture whose table names
  the flags\<close>
definition arm_decide :: "arch_desc \<Rightarrow> string \<Rightarrow> int \<Rightarrow> bool \<times> string" where
  "arm_decide d m val =
     (let n = flag_set d val ''negative''; z = flag_set d val ''zero'';
          c = flag_set d val ''carry''; v = flag_set d val ''overflow''
      in if endswith m ''eq'' then (z, ''Z'')
         else if endswith m ''ne'' then (\<not> z, ''!Z'')
         else if endswith m ''lt'' then (n \<noteq> v, ''N!=V'')
         else if endswith m ''le'' then (z \<or> n \<noteq> v, ''Z || N!=V'')
         else if endswith m ''gt'' then (\<not> z \<and> n = v, ''!Z && N==V'')
         else if endswith m ''ge'' then (n = v, ''N==V'')
         else if endswith m ''vs'' then (v, ''V'')
         else if endswith m ''vc'' then (\<not> v, ''!V'')
         else if endswith m ''mi'' then (n, ''N'')
         else if endswith m ''pl'' then (\<not> n, ''N==0'')
         else if endswith m ''hi'' then (c \<and> \<not> z, ''C && !Z'')
         else if endswith m ''ls'' then (\<not> c \<or> z, ''!C || Z'')
         else if endswith m ''cs'' then (c, ''C'')
         else if endswith m ''cc'' then (\<not> c, ''!C'')
         else (False, []))"

definition arm_is_branch_taken :: "arch_desc \<Rightarrow> cpu \<Rightarrow> insn \<Rightarrow> (bool \<times> string) result" where
  "arm_is_branch_taken d c i =
     bindE (c_reg c (flag_register_of d)) (\<lambda>val. Inr (arm_decide d (mnemonic i) val))"

definition arm_get_ra :: "cpu \<Rightarrow> nat \<Rightarrow> insn \<Rightarrow> int option result" where
  "arm_get_ra c psize i =
     bindE (arm_is_ret i) (\<lambda>r.
       if \<not> r then Inr (c_older_pc c)
       else if mnemonic i = ''pop'' then
         bindE (c_reg c ''$sp'') (\<lambda>sp.
           let a = sp + (int (length (operands i)) - 1) * int psize in
           if a = 0 then Inr None else Inr (map_option (to_unsigned_long c) (dereference c a)))
       else if mnemonic i = ''ldr'' then
         bindE (c_reg c ''$sp'') (\<lambda>sp. Inr (map_option (to_unsigned_long c) (dereference c sp)))
       else bindE (c_reg c ''$lr'') (\<lambda>v. Inr (Some v)))"

definition arm_mprotect_asm :: "int \<Rightarrow> int \<Rightarrow> int \<Rightarrow> string" where
  "arm_mprotect_asm addr sz perm = join ''; ''
     [''push {r0-r2, r7}'', ''mov r1, '' @ decs (addr AND 0xffff),
      ''mov r0, '' @ decs (drop_bit 16 (addr AND 0xffff0000)), ''lsl r0, r0, 16'', ''add r0, r0, r1'',
      ''mov r1, '' @ decs (sz AND 0xffff), ''mov r2, '' @ decs (perm AND 0xff), ''mov r7, '' @ decs 125,
      ''svc 0'', ''pop {r0-r2, r7}'']"

section \<open>AArch64\<close>

definition aarch64_is_call :: "insn \<Rightarrow> bool" where
  "aarch64_is_call i = (mnemonic i \<in> {''bl'', ''blr''})"

text \<open>A given value of 0 counts as no value: the register is read\<close>
definition aarch64_flag_register_to_human :: "bool \<Rightarrow> cpu \<Rightarrow> int option \<Rightarrow> string result" where
  "aarch64_flag_register_to_human b c val =
     flag_register_to_human b c AARCH64_desc (if val = Some 0 then None else val)"

definition aarch64_is_aarch32 :: "cpu \<Rightarrow> bool result" where
  "aarch64_is_aarch32 c = bindE (arm_cpsr c) (\<lambda>a.
     if a AND push_bit 4 1 \<noteq> 0 then bindE (arm_cpsr c) (\<lambda>b. Inr (b AND push_bit 5 1 = 0)) else Inr False)"

definition aarch64_is_thumb32 :: "cpu \<Rightarrow> bool result" where
  "aarch64_is_thumb32 c = bindE (arm_cpsr c) (\<lambda>a.
     if a AND push_bit 4 1 = 1 then bindE (arm_cpsr c) (\<lambda>b. Inr (b AND push_bit 5 1 = 1)) else Inr False)"

definition aarch64_ptrsize :: "cpu \<Rightarrow> nat result" where
  "aarch64_ptrsize c =
     (if \<not> t_alive (c_target c) then Inr 8
      else bindE (aarch64_is_aarch32 c) (\<lambda>a. if a then Inr 4
           else bindE (aarch64_is_thumb32 c) (\<lambda>b. Inr (if b then 2 else 8))))"

text \<open>The k-th 16-bit piece of an immediate, for \<^verbatim>\<open>movz\<close> and \<^verbatim>\<open>movk\<close>\<close>
definition imm16 :: "nat \<Rightarrow> int \<Rightarrow> int" where
  "imm16 k x = drop_bit (16 * k) x AND 0xFFFF"

definition aarch64_mprotect_asm :: "int \<Rightarrow> int \<Rightarrow> int \<Rightarrow> string" where
  "aarch64_mprotect_asm addr sz perm = join ''; ''
     [''str x8, [sp, -16]!'', ''str x0, [sp, -16]!'', ''str x1, [sp, -16]!'', ''str x2, [sp, -16]!'',
      ''mov x8, '' @ decs 226,
      ''movz x0, '' @ hexs (imm16 0 addr),
      ''movk x0, '' @ hexs (imm16 1 addr) @ '', lsl 16'',
      ''movk x0, '' @ hexs (imm16 2 addr) @ '', lsl 32'',
      ''movk x0, '' @ hexs (imm16 3 addr) @ '', lsl 48'',
      ''movz x1, '' @ hexs (imm16 0 sz),
      ''movk x1, '' @ hexs (imm16 1 sz) @ '', lsl 16'',
      ''mov x2, '' @ decs perm, ''svc 0'',
      ''ldr x2, [sp], 16'', ''ldr x1, [sp], 16'', ''ldr x0, [sp], 16'', ''ldr x8, [sp], 16'']"

definition aarch64_is_conditional_branch :: "insn \<Rightarrow> bool" where
  "aarch64_is_conditional_branch i =
     (startswith (mnemonic i) ''b.'' \<or> mnemonic i \<in> {''cbnz'', ''cbz'', ''tbnz'', ''tbz''})"

definition test_bit_operand :: "insn \<Rightarrow> int result" where
  "test_bit_operand i = bindE (operand i 1) (\<lambda>o1. py_int 10 (lstrip_of (\<lambda>c. c = CHR ''#'') (strip o1)))"

definition aarch64_register_branch :: "string \<Rightarrow> string \<Rightarrow> int \<Rightarrow> insn \<Rightarrow> (bool \<times> string) result" where
  "aarch64_register_branch m r op i =
     (if m = ''cbnz'' then Inr (if op \<noteq> 0 then (True, r @ ''!=0'') else (False, r @ ''==0''))
      else if m = ''cbz'' then Inr (if op = 0 then (True, r @ ''==0'') else (False, r @ ''!=0''))
      else bindE (test_bit_operand i) (\<lambda>k.
        if k < 0 then raise ValueError ''negative shift count''
        else (let s = op AND push_bit (nat k) 1;
                  t = (\<lambda>rel. r @ ''&1<<'' @ decs k @ rel)
              in if m = ''tbnz'' then Inr (if s \<noteq> 0 then (True, t ''!=0'') else (False, t ''==0''))
                 else Inr (if s = 0 then (True, t ''==0'') else (False, t ''!=0'')))))"

definition aarch64_is_branch_taken :: "cpu \<Rightarrow> insn \<Rightarrow> (bool \<times> string) result" where
  "aarch64_is_branch_taken c i =
     bindE (if mnemonic i \<in> {''cbnz'', ''cbz'', ''tbnz'', ''tbz''} then
              bindE (operand i 0) (\<lambda>o0. bindE (c_reg c (CHR ''$'' # o0)) (\<lambda>op.
                aarch64_register_branch (mnemonic i) (CHR ''$'' # o0) op i))
            else Inr (False, []))
       (\<lambda>(t, r). if r = [] then arm_is_branch_taken AARCH64_desc c i else Inr (t, r))"

section \<open>The branch decoder contract\<close>

lemma endswith_last2: "endswith m [a, b] \<longleftrightarrow> last2 m = [a, b]"
proof -
  have "endswith m [a, b] \<longleftrightarrow> take 2 (rev m) = rev [a, b]"
    by (simp add: endswith_def startswith_def numeral_2_eq_2)
  also have "take 2 (rev m) = rev (last2 m)" by (simp add: last2_def take_rev)
  finally show ?thesis by (simp only: rev_is_rev_conv)
qed

lemma arm_decide_reason: "last2 m \<in> set arm_conditions \<Longrightarrow> snd (arm_decide d m val) \<noteq> []"
  by (auto simp: arm_decide_def arm_conditions_def endswith_last2 Let_def)

lemma decs_nonempty [simp]: "decs x \<noteq> []"
  by (simp add: decs_def)

lemma riscv_decide_reason: "riscv_decide cond a b i = Inr (t, r) \<Longrightarrow> r \<noteq> []"
  by (auto simp: riscv_decide_def cmp_reason_def split: if_splits)

interpretation arm_branches: branch_decoder arm_is_conditional_branch "arm_is_branch_taken ARM_desc"
proof
  fix i c b r
  assume "arm_is_conditional_branch i" "arm_is_branch_taken ARM_desc c i = Inr (b, r)"
  then obtain val where "arm_decide ARM_desc (mnemonic i) val = (b, r)"
    and "last2 (mnemonic i) \<in> set arm_conditions"
    by (auto simp: arm_is_conditional_branch_def arm_is_branch_taken_def result_simps)
  then show "r \<noteq> []" using arm_decide_reason by (metis snd_conv)
qed

interpretation riscv_branches: branch_decoder riscv_is_conditional_branch riscv_is_branch_taken
proof
  fix i c b r
  assume "riscv_is_branch_taken c i = Inr (b, r)"
  then obtain cond x y where "riscv_decide cond x y i = Inr (b, r)"
    by (auto simp: riscv_is_branch_taken_def Let_def result_simps split: if_splits)
  then show "r \<noteq> []" by (rule riscv_decide_reason)
qed

section \<open>Signed words\<close>

lemma and_bit_iff: "(v AND push_bit n 1 \<noteq> 0) = bit (v :: int) n"
  by (simp add: push_bit_eq_mult and_exp_eq_0_iff_not_bit)

lemma sint_from_uint64: "sint (x :: 64 word) = uint x - (if bit (uint x) 63 then 2 ^ 64 else 0)"
proof -
  have "take_bit 64 (uint x) = uint x" using uint_lt2p [of x] by (simp add: take_bit_int_eq_self)
  then show ?thesis by (simp add: sint_uint signed_take_bit_eq_take_bit_minus)
qed

lemma twos_complement_64:
  assumes "c_64bit c" "\<not> c_32bit c"
  shows "long_to_twos_complement c (uint (x :: 64 word)) = Inr (sint x)"
proof -
  have "(uint x AND 0x8000000000000000 \<noteq> 0) = bit (uint x) 63"
    using and_bit_iff [of "uint x" 63] by (simp add: push_bit_eq_mult)
  then show ?thesis using assms by (simp add: long_to_twos_complement_def sint_from_uint64)
qed

text \<open>The flags of a comparison of words: negative and signed overflow of the difference\<close>
definition cmp_overflow :: "'a::len word \<Rightarrow> 'a word \<Rightarrow> bool" where
  "cmp_overflow a b \<longleftrightarrow> (let d = sint a - sint b; m = 2 ^ (LENGTH('a) - 1) in d < - m \<or> m \<le> d)"

definition cmp_negative :: "'a::len word \<Rightarrow> 'a word \<Rightarrow> bool" where
  "cmp_negative a b \<longleftrightarrow> sint (a - b) < 0"

lemma signed_less_flags: "(cmp_negative a b \<noteq> cmp_overflow a b) = (sint a < sint (b :: 'a::len word))"
proof -
  let ?n = "LENGTH('a) - 1"
  define m :: int where "m = 2 ^ ?n"
  define d where "d = sint a - sint b"
  have m0: "0 < m" by (simp add: m_def)
  have two: "2 * m = 2 ^ LENGTH('a)"
    using len_gt_0 [where 'a = 'a] by (simp add: m_def flip: power_Suc)
  have ra: "- m \<le> sint a" "sint a < m" "- m \<le> sint b" "sint b < m"
    using sint_range_size [of a] sint_range_size [of b] by (simp_all add: m_def word_size)
  then have dr: "- (2 * m) < d" "d < 2 * m" by (simp_all add: d_def)
  have "sint (a - b) = signed_take_bit ?n d"
    by (simp add: d_def sint_word_ariths)
  also have "\<dots> = (d + m) mod (2 * m) - m"
    using two by (simp add: signed_take_bit_eq_take_bit_shift take_bit_eq_mod m_def)
  finally have s: "sint (a - b) = (d + m) mod (2 * m) - m" .
  have "(d + m) mod (2 * m) = (if d + m < 0 then d + 3 * m else if d + m < 2 * m then d + m else d - m)"
  proof -
    have "(d + m) mod (2 * m) = (d + m + k * (2 * m)) mod (2 * m)" for k by simp
    from this [of 1] this [of "- 1"] show ?thesis using dr m0
      by (auto simp: algebra_simps mod_pos_pos_trivial)
  qed
  with s have s': "sint (a - b) = (if d + m < 0 then d + 2 * m else if d + m < 2 * m then d else d - 2 * m)"
    by simp
  have "cmp_overflow a b \<longleftrightarrow> d < - m \<or> m \<le> d" by (simp add: cmp_overflow_def d_def m_def Let_def)
  moreover have "sint a < sint b \<longleftrightarrow> d < 0" by (simp add: d_def)
  ultimately show ?thesis using dr m0 by (simp only: cmp_negative_def s') (simp split: if_split; arith)
qed

lemma endswith_single: "endswith m [a] \<longleftrightarrow> m \<noteq> [] \<and> last m = a"
  by (cases m rule: rev_cases) (auto simp: endswith_def startswith_def)

lemma riscv_taken_two:
  assumes "c_64bit c" "\<not> c_32bit c" "2 < length (operands i)"
    and "c_reg c (operands i ! 0) = Inr (uint (x :: 64 word))" "c_reg c (operands i ! 1) = Inr (uint (y :: 64 word))"
    and "\<not> endswith (drop 1 (mnemonic i)) ''z''"
  shows "riscv_is_branch_taken c i =
    (if endswith (drop 1 (mnemonic i)) ''u''
     then riscv_decide (butlast (drop 1 (mnemonic i))) (uint x) (uint y) i
     else riscv_decide (drop 1 (mnemonic i)) (sint x) (sint y) i)"
  using assms by (auto simp: riscv_is_branch_taken_def operand_def Let_def twos_complement_64)

lemma riscv_decide_simps:
  "riscv_decide ''eq'' a b i = Inr (a = b, if a = b then cmp_reason a ''='' b else cmp_reason a ''!='' b)"
  "riscv_decide ''ne'' a b i = Inr (a \<noteq> b, if a \<noteq> b then cmp_reason a ''!='' b else cmp_reason a ''='' b)"
  "riscv_decide ''lt'' a b i = Inr (a < b, if a < b then cmp_reason a ''<'' b else cmp_reason a ''>='' b)"
  "riscv_decide ''ge'' a b i = Inr (a < b, if a < b then cmp_reason a ''>='' b else cmp_reason a ''<'' b)"
  by (simp_all add: riscv_decide_def)

lemma sint_inject: "(sint a = sint b) = (a = (b :: 'a::len word))"
  by (metis signed_word_eqI)

lemma imm16_mod: "imm16 k x = (x div 2 ^ (16 * k)) mod 65536"
proof -
  show ?thesis using and_mask_mod [of "drop_bit (16 * k) x" 16] by (simp add: imm16_def drop_bit_eq_div)
qed

lemma imm16_fields:
  "imm16 0 x = x mod 65536" "imm16 1 x = (x div 65536) mod 65536"
  "imm16 2 x = (x div 4294967296) mod 65536" "imm16 3 x = (x div 281474976710656) mod 65536"
  by (simp_all add: imm16_mod)

lemma recombine_opaque:
  "a = b * (65536 :: int) + r0 \<Longrightarrow> b = c * 65536 + r1 \<Longrightarrow> c = d * 65536 + r2
    \<Longrightarrow> r0 + r1 * 65536 + r2 * 4294967296 + d * 281474976710656 = a"
  by simp

lemma pieces_recombine:
  assumes "0 \<le> addr" "addr < (2 :: int) ^ 64"
  shows "addr mod 65536 + (addr div 65536) mod 65536 * 65536 + (addr div 4294967296) mod 65536 * 4294967296
    + (addr div 281474976710656) mod 65536 * 281474976710656 = addr"
proof -
  have m: "(addr div 281474976710656) mod 65536 = addr div 281474976710656"
    using assms by (intro mod_pos_pos_trivial) (simp_all add: div_less_iff_less_mult pos_imp_zdiv_nonneg_iff)
  have e2: "addr div 4294967296 = (addr div 65536) div 65536" by (simp add: zdiv_zmult2_eq [symmetric])
  have e3: "addr div 281474976710656 = (addr div 4294967296) div 65536" by (simp add: zdiv_zmult2_eq [symmetric])
  show ?thesis unfolding m
    by (rule recombine_opaque [of addr "addr div 65536" "addr mod 65536" "addr div 4294967296"
        "(addr div 65536) mod 65536" "addr div 281474976710656" "(addr div 4294967296) mod 65536",
        OF div_mult_mod_eq [symmetric] div_mult_mod_eq [symmetric, of "addr div 65536" 65536, folded e2]
          div_mult_mod_eq [symmetric, of "addr div 4294967296" 65536, folded e3]])
qed

section \<open>Properties\<close>

text \<open>Fact: on a 64-bit target the verdict on the RISC-V branches beq, bne, blt and bltu is the
  machine's: equality, and the signed or unsigned order of the two registers.\<close>
theorem riscv_branches_correct:
  assumes "c_64bit c" "\<not> c_32bit c" "2 < length (operands i)"
    and "c_reg c (operands i ! 0) = Inr (uint (x :: 64 word))" "c_reg c (operands i ! 1) = Inr (uint (y :: 64 word))"
    and "(mnemonic i, t) \<in> {(''beq'', x = y), (''bne'', x \<noteq> y), (''blt'', sint x < sint y), (''bltu'', x < y)}"
  shows "\<exists>r. riscv_is_branch_taken c i = Inr (t, r)"
proof -
  consider "mnemonic i = ''beq''" "t = (x = y)" | "mnemonic i = ''bne''" "t = (x \<noteq> y)"
    | "mnemonic i = ''blt''" "t = (sint x < sint y)" | "mnemonic i = ''bltu''" "t = (x < y)"
    using assms(6) by blast
  then show ?thesis
    by cases (simp_all add: riscv_taken_two [OF assms(1-5)] endswith_single riscv_decide_simps
        sint_inject word_less_def)
qed

definition demo_cpu :: "(string \<Rightarrow> int result) \<Rightarrow> cpu" where
  "demo_cpu r = \<lparr>c_target = demo_target, c_reg = r, c_32bit = False, c_64bit = True,
     c_older_pc = None, c_x86_64 = False\<rparr>"

definition demo_insn :: "string \<Rightarrow> string list \<Rightarrow> insn" where
  "demo_insn m ops = \<lparr>i_address = 0x1000, i_location = [], mnemonic = m, operands = ops, opcodes = []\<rparr>"

definition demo_regs :: "string \<Rightarrow> int result" where
  "demo_regs r = (if r = ''$a0'' then Inr (uint (- 1 :: 64 word)) else Inr (uint (1 :: 64 word)))"

theorem riscv_branches_correct_witness:
  "\<exists>r. riscv_is_branch_taken (demo_cpu demo_regs) (demo_insn ''blt'' [''$a0'', ''$a1'', ''0x1010'']) = Inr (True, r)"
  by (rule riscv_branches_correct [where x = "- 1" and y = 1])
    (simp_all add: demo_cpu_def demo_insn_def demo_regs_def)

text \<open>Fact: the verdict on bge and bgeu is inverted: the branch is reported taken exactly when the
  first register is smaller, with the reason that it is not.\<close>
theorem riscv_bge_inverted:
  assumes "c_64bit c" "\<not> c_32bit c" "2 < length (operands i)"
    and "c_reg c (operands i ! 0) = Inr (uint (x :: 64 word))" "c_reg c (operands i ! 1) = Inr (uint (y :: 64 word))"
    and "(mnemonic i, lt) \<in> {(''bge'', sint x < sint y), (''bgeu'', x < y)}"
  shows "\<exists>a b. riscv_is_branch_taken c i = Inr (lt, decs a @ (if lt then ''>='' else ''<'') @ decs b)"
proof -
  consider "mnemonic i = ''bge''" "lt = (sint x < sint y)" | "mnemonic i = ''bgeu''" "lt = (x < y)"
    using assms(6) by blast
  then show ?thesis
    by cases (auto simp: riscv_taken_two [OF assms(1-5)] endswith_single riscv_decide_simps
        cmp_reason_def word_less_def)
qed

theorem riscv_bge_inverted_witness:
  "\<exists>a b. riscv_is_branch_taken (demo_cpu demo_regs) (demo_insn ''bge'' [''$a0'', ''$a1'', ''0x1010''])
     = Inr (True, decs a @ ''>='' @ decs b)"
  using riscv_bge_inverted [of "demo_cpu demo_regs" "demo_insn ''bge'' [''$a0'', ''$a1'', ''0x1010'']" "- 1" 1 True]
  by (simp add: demo_cpu_def demo_insn_def demo_regs_def)

text \<open>Fact: after a comparison of two words, with the flags it sets (carry clear on a borrow), every
  ARM conditional branch is decided as the order of the words it names.\<close>
theorem arm_conditions_after_compare:
  fixes a b :: "'a::len word"
  assumes "flag_set d val ''negative'' = cmp_negative a b" "flag_set d val ''zero'' = (a = b)"
    and "flag_set d val ''carry'' = (b \<le> a)" "flag_set d val ''overflow'' = cmp_overflow a b"
  shows "fst (arm_decide d ''beq'' val) = (a = b) \<and> fst (arm_decide d ''bne'' val) = (a \<noteq> b)
    \<and> fst (arm_decide d ''blt'' val) = (sint a < sint b) \<and> fst (arm_decide d ''bge'' val) = (sint b \<le> sint a)
    \<and> fst (arm_decide d ''bgt'' val) = (sint b < sint a) \<and> fst (arm_decide d ''ble'' val) = (sint a \<le> sint b)
    \<and> fst (arm_decide d ''bhi'' val) = (b < a) \<and> fst (arm_decide d ''bls'' val) = (a \<le> b)
    \<and> fst (arm_decide d ''bcs'' val) = (b \<le> a) \<and> fst (arm_decide d ''bcc'' val) = (a < b)"
proof -
  have l: "(flag_set d val ''negative'' \<noteq> flag_set d val ''overflow'') = (sint a < sint b)"
    using signed_less_flags assms(1,4) by simp
  note e = sint_inject [of a b]
  show ?thesis
    using l e assms(2,3) by (auto simp: arm_decide_def Let_def endswith_last2 last2_def)
qed

theorem arm_conditions_after_compare_witness:
  "fst (arm_decide ARM_desc ''blt'' 0x80000000) = (sint (1 :: 32 word) < sint (2 :: 32 word))"
proof -
  have f: "flag_bit ARM_desc ''negative'' = 31" "flag_bit ARM_desc ''zero'' = 30"
    "flag_bit ARM_desc ''carry'' = 29" "flag_bit ARM_desc ''overflow'' = 28"
    by (simp_all add: flag_bit_def ARM_desc_def)
  show ?thesis
    using arm_conditions_after_compare [of ARM_desc "0x80000000" "1 :: 32 word" 2]
    by (simp add: flag_set_def f cmp_negative_def cmp_overflow_def push_bit_eq_mult word_le_def)
qed

text \<open>Fact: with the thumb bit set or clear, the ARM mode is always ARM: the masked status register
  is compared with 1 where it can only be 0 or 32.\<close>
theorem arm_never_thumb:
  assumes "arm_is_thumb c = Inr t"
  shows "\<not> t"
proof -
  have "v AND 32 \<noteq> 1" for v :: int
  proof
    assume "v AND 32 = 1"
    then have "odd (v AND 32)" by simp
    then show False by (simp add: even_and_iff)
  qed
  then show ?thesis using assms
    by (auto simp: arm_is_thumb_def result_simps push_bit_eq_mult split: if_splits)
qed

theorem arm_never_thumb_witness:
  "arm_is_thumb (demo_cpu (\<lambda>_. Inr 0x60000030)) = Inr False"
proof -
  have "\<exists>t. arm_is_thumb (demo_cpu (\<lambda>_. Inr 0x60000030)) = Inr t"
    by (auto simp: arm_is_thumb_def arm_cpsr_def demo_cpu_def demo_target_def)
  then obtain t where t: "arm_is_thumb (demo_cpu (\<lambda>_. Inr 0x60000030)) = Inr t" by blast
  with arm_never_thumb [OF t] show ?thesis by simp
qed

text \<open>Fact: the four immediates that load the address in the AArch64 stub fit their 16-bit fields and
  recombine to the 64-bit address.\<close>
theorem aarch64_address_pieces:
  assumes "0 \<le> addr" "addr < 2 ^ 64"
  shows "imm16 0 addr + imm16 1 addr * 2 ^ 16 + imm16 2 addr * 2 ^ 32 + imm16 3 addr * 2 ^ 48 = addr
    \<and> (\<forall>k. 0 \<le> imm16 k addr \<and> imm16 k addr < 2 ^ 16)"
proof (intro conjI)
  have p: "(2 :: int) ^ 16 = 65536" "(2 :: int) ^ 32 = 4294967296" "(2 :: int) ^ 48 = 281474976710656" by simp_all
  show "imm16 0 addr + imm16 1 addr * 2 ^ 16 + imm16 2 addr * 2 ^ 32 + imm16 3 addr * 2 ^ 48 = addr"
    unfolding imm16_fields p by (rule pieces_recombine [OF assms])
  show "\<forall>k. 0 \<le> imm16 k addr \<and> imm16 k addr < 2 ^ 16"
    unfolding imm16_mod p by simp
qed

theorem aarch64_address_pieces_witness:
  "imm16 0 0xffff800012345678 + imm16 1 0xffff800012345678 * 2 ^ 16
     + imm16 2 0xffff800012345678 * 2 ^ 32 + imm16 3 0xffff800012345678 * 2 ^ 48 = 0xffff800012345678"
  using aarch64_address_pieces [of "0xffff800012345678"] by simp

text \<open>Fact: on AArch64 the mnemonic \<^verbatim>\<open>ret\<close> is not recognised as a return.\<close>
theorem aarch64_ret_not_recognised:
  "arm_is_ret (demo_insn ''ret'' ops) = Inr False"
  by (simp add: arm_is_ret_def demo_insn_def)

end
