(* ===== verification/ArchX86.thy ===== *)
theory ArchX86
  imports ArchArm
begin

unbundle bit_operations_syntax

text \<open>
  The classes \<^verbatim>\<open>X86\<close> and \<^verbatim>\<open>X86_64\<close> of \<^verbatim>\<open>scripts/gef.py\<close>: calls, returns, the conditional
  jumps and the flags that decide them, the return address, parameters on the stack or in
  registers, the canary address and the mprotect stubs.
\<close>

section \<open>Instructions\<close>

definition x86_flag_register_to_human :: "bool \<Rightarrow> cpu \<Rightarrow> int option \<Rightarrow> string result" where
  "x86_flag_register_to_human b c val = flag_register_to_human b c X86_desc val"

definition x86_is_call :: "insn \<Rightarrow> bool" where
  "x86_is_call i = (mnemonic i \<in> {''call'', ''callq''})"

definition x86_is_ret :: "insn \<Rightarrow> bool" where
  "x86_is_ret i = (mnemonic i = ''ret'')"

definition x86_branch_mnemos :: "string list" where
  "x86_branch_mnemos =
     [''ja'', ''jnbe'', ''jae'', ''jnb'', ''jnc'', ''jb'', ''jc'', ''jnae'', ''jbe'', ''jna'',
      ''jcxz'', ''jecxz'', ''jrcxz'', ''je'', ''jz'', ''jg'', ''jnle'', ''jge'', ''jnl'',
      ''jl'', ''jnge'', ''jle'', ''jng'', ''jne'', ''jnz'', ''jno'', ''jnp'', ''jpo'', ''jns'',
      ''jo'', ''jp'', ''jpe'', ''js'']"

definition x86_is_conditional_branch :: "insn \<Rightarrow> bool" where
  "x86_is_conditional_branch i = (mnemonic i \<in> set x86_branch_mnemos)"

text \<open>\<^verbatim>\<open>val & (1 << flags[name])\<close>\<close>
definition flag_mask :: "arch_desc \<Rightarrow> int \<Rightarrow> string \<Rightarrow> int" where
  "flag_mask d val name = val AND push_bit (flag_bit d name) 1"

text \<open>The decision on the flags and the counter register.  The comparison of \<^verbatim>\<open>jl\<close> is between the
  two masked values, inside the call of \<^verbatim>\<open>bool\<close>.\<close>
definition x86_decide :: "arch_desc \<Rightarrow> string \<Rightarrow> int \<Rightarrow> int result \<Rightarrow> (bool \<times> string) result" where
  "x86_decide d m val cx =
     (let C = flag_set d val ''carry''; Z = flag_set d val ''zero''; S = flag_set d val ''sign'';
          O' = flag_set d val ''overflow''; P = flag_set d val ''parity''
      in if m \<in> {''ja'', ''jnbe''} then Inr (\<not> C \<and> \<not> Z, ''!C && !Z'')
         else if m \<in> {''jae'', ''jnb'', ''jnc''} then Inr (\<not> C, ''!C'')
         else if m \<in> {''jb'', ''jc'', ''jnae''} then Inr (C, ''C'')
         else if m \<in> {''jbe'', ''jna''} then Inr (C \<or> Z, ''C || Z'')
         else if m \<in> {''jcxz'', ''jecxz'', ''jrcxz''} then bindE cx (\<lambda>v. Inr (v = 0, ''!$CX''))
         else if m \<in> {''je'', ''jz''} then Inr (Z, ''Z'')
         else if m \<in> {''jne'', ''jnz''} then Inr (\<not> Z, ''!Z'')
         else if m \<in> {''jg'', ''jnle''} then Inr (\<not> Z \<and> O' = S, ''!Z && S==O'')
         else if m \<in> {''jge'', ''jnl''} then Inr (S = O', ''S==O'')
         else if m \<in> {''jl'', ''jnge''} then
           Inr (flag_mask d val ''overflow'' \<noteq> flag_mask d val ''sign'', ''S!=O'')
         else if m \<in> {''jle'', ''jng''} then Inr (Z \<or> O' \<noteq> S, ''Z || S!=O'')
         else if m = ''jo'' then Inr (O', ''O'')
         else if m = ''jno'' then Inr (\<not> O', ''!O'')
         else if m \<in> {''jpe'', ''jp''} then Inr (P, ''P'')
         else if m \<in> {''jnp'', ''jpo''} then Inr (\<not> P, ''!P'')
         else if m = ''js'' then Inr (S, ''S'')
         else if m = ''jns'' then Inr (\<not> S, ''!S'')
         else Inr (False, []))"

definition x86_is_branch_taken :: "arch_desc \<Rightarrow> cpu \<Rightarrow> insn \<Rightarrow> (bool \<times> string) result" where
  "x86_is_branch_taken d c i =
     bindE (c_reg c (flag_register_of d)) (\<lambda>val.
       x86_decide d (mnemonic i) val (if c_x86_64 c then c_reg c ''$rcx'' else c_reg c ''$ecx''))"

section \<open>Return address, parameters, stubs\<close>

definition x86_get_ra :: "cpu \<Rightarrow> insn \<Rightarrow> int option result" where
  "x86_get_ra c i =
     (if x86_is_ret i then bindE (c_reg c ''$sp'') (\<lambda>sp. Inr (map_option (to_unsigned_long c) (dereference c sp)))
      else Inr (map_option (to_unsigned_long c) (c_older_pc c)))"

text \<open>\<^verbatim>\<open>X86.get_ith_parameter\<close>: on the stack, above the return address inside the callee; \<^verbatim>\<open>X86_64\<close>
  takes the base class's method\<close>
definition x86_get_ith_parameter :: "cpu \<Rightarrow> nat \<Rightarrow> bool \<Rightarrow> (string \<times> int) result" where
  "x86_get_ith_parameter c i in_func =
     (let k = int (if in_func then i + 1 else i); sz = int (t_ptrsize (c_target c)) in
      bindE (c_reg c ''$sp'') (\<lambda>sp.
      bindE (read_integer (c_target c) (sp + k * sz)) (\<lambda>v.
        Inr (''[sp + '' @ hexs (k * sz) @ '']'', v))))"

definition x86_64_get_ith_parameter :: "cpu \<Rightarrow> nat \<Rightarrow> (string \<times> int) result" where
  "x86_64_get_ith_parameter c i = base_get_ith_parameter c X86_64_desc i"

definition x86_mprotect_asm :: "int \<Rightarrow> int \<Rightarrow> int \<Rightarrow> string" where
  "x86_mprotect_asm addr sz perm = join ''; ''
     [''pushad'', ''pushfd'', ''mov eax, '' @ decs 125, ''mov ebx, '' @ decs addr,
      ''mov ecx, '' @ decs sz, ''mov edx, '' @ decs perm, ''int 0x80'', ''popfd'', ''popad'']"

definition x86_64_mprotect_asm :: "int \<Rightarrow> int \<Rightarrow> int \<Rightarrow> string" where
  "x86_64_mprotect_asm addr sz perm = join ''; ''
     [''pushfq'', ''push rax'', ''push rdi'', ''push rsi'', ''push rdx'', ''push rcx'', ''push r11'',
      ''mov rax, '' @ decs 10, ''mov rdi, '' @ decs addr, ''mov rsi, '' @ decs sz,
      ''mov rdx, '' @ decs perm, ''syscall'',
      ''pop r11'', ''pop rcx'', ''pop rdx'', ''pop rsi'', ''pop rdi'', ''pop rax'', ''popfq'']"

definition x86_64_canary_address :: "cpu \<Rightarrow> int result" where
  "x86_64_canary_address c = bindE (c_reg c ''fs_base'') (\<lambda>v. Inr (v + 0x28))"

section \<open>The branch decoder contract\<close>

lemma x86_decide_reason:
  assumes "m \<in> set x86_branch_mnemos" "x86_decide d m val cx = Inr (b, r)"
  shows "r \<noteq> []"
  using assms by (auto simp: x86_branch_mnemos_def x86_decide_def Let_def result_simps)

interpretation x86_branches: branch_decoder x86_is_conditional_branch "x86_is_branch_taken X86_desc"
  by unfold_locales
    (auto simp: x86_is_conditional_branch_def x86_is_branch_taken_def result_simps dest: x86_decide_reason)

interpretation x86_64_branches: branch_decoder x86_is_conditional_branch "x86_is_branch_taken X86_64_desc"
  by unfold_locales
    (auto simp: x86_is_conditional_branch_def x86_is_branch_taken_def result_simps dest: x86_decide_reason)

lemma x86_flag_bits:
  "flag_bit X86_desc ''carry'' = 0" "flag_bit X86_desc ''zero'' = 6" "flag_bit X86_desc ''sign'' = 7"
  "flag_bit X86_desc ''overflow'' = 11" "flag_bit X86_desc ''parity'' = 2"
  by (simp_all add: flag_bit_def X86_desc_def)

lemma flag_mask_cases: "flag_mask d val n = (if flag_set d val n then 2 ^ flag_bit d n else 0)"
  by (auto simp: flag_mask_def flag_set_def push_bit_eq_mult and_exp_eq_0_iff_not_bit intro!: bit_eqI
      simp: bit_and_iff bit_exp_iff)

text \<open>The masks of two flags of different bits differ as soon as one of the flags is set\<close>
lemma masks_differ:
  assumes "flag_bit d n \<noteq> flag_bit d k"
  shows "flag_mask d val n \<noteq> flag_mask d val k \<longleftrightarrow> flag_set d val n \<or> flag_set d val k"
  using assms by (auto simp: flag_mask_cases)

text \<open>The decision of each jump that follows a comparison, on the flags\<close>
lemma x86_decide_simps:
  "x86_decide d ''ja'' val cx = Inr (\<not> flag_set d val ''carry'' \<and> \<not> flag_set d val ''zero'', ''!C && !Z'')"
  "x86_decide d ''jae'' val cx = Inr (\<not> flag_set d val ''carry'', ''!C'')"
  "x86_decide d ''jb'' val cx = Inr (flag_set d val ''carry'', ''C'')"
  "x86_decide d ''jbe'' val cx = Inr (flag_set d val ''carry'' \<or> flag_set d val ''zero'', ''C || Z'')"
  "x86_decide d ''je'' val cx = Inr (flag_set d val ''zero'', ''Z'')"
  "x86_decide d ''jne'' val cx = Inr (\<not> flag_set d val ''zero'', ''!Z'')"
  "x86_decide d ''jg'' val cx =
    Inr (\<not> flag_set d val ''zero'' \<and> \<not> (flag_set d val ''sign'' \<noteq> flag_set d val ''overflow''), ''!Z && S==O'')"
  "x86_decide d ''jge'' val cx = Inr (\<not> (flag_set d val ''sign'' \<noteq> flag_set d val ''overflow''), ''S==O'')"
  "x86_decide d ''jle'' val cx =
    Inr (flag_set d val ''zero'' \<or> (flag_set d val ''sign'' \<noteq> flag_set d val ''overflow''), ''Z || S!=O'')"
  by (auto simp: x86_decide_def Let_def)

section \<open>Properties\<close>

text \<open>Fact: after a comparison of two words, with the flags it sets (carry on a borrow), the conditional
  jumps ja, jae, jb, jbe, je, jne, jg, jge and jle are decided as the order of the words they name.\<close>
theorem x86_jumps_after_compare:
  fixes a b :: "'a::len word"
  assumes "flag_set d val ''sign'' = cmp_negative a b" "flag_set d val ''zero'' = (a = b)"
    and "flag_set d val ''carry'' = (a < b)" "flag_set d val ''overflow'' = cmp_overflow a b"
    and "(m, verdict) \<in> {(''ja'', b < a), (''jae'', b \<le> a), (''jb'', a < b), (''jbe'', a \<le> b),
           (''je'', a = b), (''jne'', a \<noteq> b), (''jg'', sint b < sint a), (''jge'', sint b \<le> sint a),
           (''jle'', sint a \<le> sint b)}"
  shows "\<exists>r. x86_decide d m val cx = Inr (verdict, r)"
proof -
  note l = signed_less_flags [of a b, folded assms(1,4)]
  have e: "(sint a = sint b) = (a = b)" by (rule sint_inject)
  have o: "(b < a) = (\<not> a < b \<and> a \<noteq> b)" "(b \<le> a) = (\<not> a < b)" "(a \<le> b) = (a < b \<or> a = b)"
    by auto
  have so: "(sint b < sint a) = (\<not> sint a < sint b \<and> a \<noteq> b)" "(sint b \<le> sint a) = (\<not> sint a < sint b)"
    "(sint a \<le> sint b) = (sint a < sint b \<or> a = b)"
    using e by linarith+
  show ?thesis using assms(5)
    by (elim insertE emptyE; simp only: prod.inject; elim conjE; simp only: x86_decide_simps l assms(2,3) o so) blast+
qed

theorem x86_jumps_after_compare_witness:
  "\<exists>r. x86_decide X86_desc ''jg'' 0 (Inr 0) = Inr (sint (1 :: 32 word) < sint (2 :: 32 word), r)"
  by (rule x86_jumps_after_compare [of _ _ "2 :: 32 word" 1])
    (simp_all add: flag_set_def cmp_negative_def cmp_overflow_def)

text \<open>Fact: jl compares the masked overflow and sign flags, whose masks are different bits, so after a
  comparison it is reported taken when the first word is smaller and also whenever both flags are
  set, where it is not.\<close>
theorem x86_jl_after_compare:
  fixes a b :: "'a::len word"
  assumes "flag_set X86_desc val ''sign'' = cmp_negative a b"
    and "flag_set X86_desc val ''overflow'' = cmp_overflow a b"
  shows "x86_decide X86_desc ''jl'' val cx =
    Inr (sint a < sint b \<or> (cmp_negative a b \<and> cmp_overflow a b), ''S!=O'')"
proof -
  have "(flag_mask X86_desc val ''overflow'' \<noteq> flag_mask X86_desc val ''sign'')
      = (sint a < sint b \<or> (cmp_negative a b \<and> cmp_overflow a b))"
    using signed_less_flags [of a b] assms by (auto simp: masks_differ x86_flag_bits)
  then show ?thesis by (simp add: x86_decide_def Let_def)
qed

theorem x86_jl_after_compare_witness:
  "x86_decide X86_desc ''jl'' 0x880 (Inr 0) = Inr (True, ''S!=O'')
    \<and> \<not> sint (0x7f :: 8 word) < sint (0xff :: 8 word)"
  using x86_jl_after_compare [of "0x880" "0x7f :: 8 word" "0xff" "Inr 0"]
  by (simp add: flag_set_def x86_flag_bits cmp_negative_def cmp_overflow_def push_bit_eq_mult)

end
