(* ===== verification/ArchOthers.thy ===== *)
theory ArchOthers
  imports ArchX86
begin

unbundle bit_operations_syntax

text \<open>
  The classes \<^verbatim>\<open>PowerPC\<close>, \<^verbatim>\<open>SPARC\<close>, \<^verbatim>\<open>SPARC64\<close> and \<^verbatim>\<open>MIPS\<close> of \<^verbatim>\<open>scripts/gef.py\<close>, which all
  declare their calls, returns, conditional branches, return address and mprotect stub.
\<close>

text \<open>The return address where returning jumps through a link register\<close>
definition link_register_ra :: "cpu \<Rightarrow> bool \<Rightarrow> string \<Rightarrow> int option result" where
  "link_register_ra c is_ret_insn reg =
     (if is_ret_insn then bindE (c_reg c reg) (\<lambda>v. Inr (Some v))
      else Inr (map_option (to_unsigned_long c) (c_older_pc c)))"

section \<open>PowerPC\<close>

definition ppc_flag_register_to_human :: "bool \<Rightarrow> cpu \<Rightarrow> int option \<Rightarrow> string result" where
  "ppc_flag_register_to_human b c val = flag_register_to_human b c PowerPC_desc val"

definition ppc_is_call :: "insn \<Rightarrow> bool" where "ppc_is_call i = False"

definition ppc_is_ret :: "insn \<Rightarrow> bool" where "ppc_is_ret i = (mnemonic i = ''blr'')"

definition ppc_is_conditional_branch :: "insn \<Rightarrow> bool" where
  "ppc_is_conditional_branch i =
     (mnemonic i \<in> {''beq'', ''bne'', ''ble'', ''blt'', ''bgt'', ''bge''})"

definition ppc_decide :: "arch_desc \<Rightarrow> string \<Rightarrow> int \<Rightarrow> bool \<times> string" where
  "ppc_decide d m val =
     (let E = flag_set d val ''equal[7]''; L = flag_set d val ''less[7]''; G = flag_set d val ''greater[7]''
      in if m = ''beq'' then (E, ''E'')
         else if m = ''bne'' then (\<not> E, ''!E'')
         else if m = ''ble'' then (E \<or> L, ''E || L'')
         else if m = ''blt'' then (L, ''L'')
         else if m = ''bge'' then (E \<or> G, ''E || G'')
         else if m = ''bgt'' then (G, ''G'')
         else (False, []))"

definition ppc_is_branch_taken :: "arch_desc \<Rightarrow> cpu \<Rightarrow> insn \<Rightarrow> (bool \<times> string) result" where
  "ppc_is_branch_taken d c i =
     bindE (c_reg c (flag_register_of d)) (\<lambda>val. Inr (ppc_decide d (mnemonic i) val))"

definition ppc_get_ra :: "cpu \<Rightarrow> insn \<Rightarrow> int option result" where
  "ppc_get_ra c i = link_register_ra c (ppc_is_ret i) ''$lr''"

definition ppc_mprotect_asm :: "int \<Rightarrow> int \<Rightarrow> int \<Rightarrow> string" where
  "ppc_mprotect_asm addr sz perm = join '';''
     [''addi 1, 1, -16'', ''stw 0, 0(1)'', ''stw 3, 4(1)'', ''stw 4, 8(1)'', ''stw 5, 12(1)'',
      ''li 0, '' @ decs 125,
      ''lis 3, '' @ hexs addr @ ''@h'', ''ori 3, 3, '' @ hexs addr @ ''@l'',
      ''lis 4, '' @ hexs sz @ ''@h'', ''ori 4, 4, '' @ hexs sz @ ''@l'',
      ''li 5, '' @ decs perm, ''sc'',
      ''lwz 0, 0(1)'', ''lwz 3, 4(1)'', ''lwz 4, 8(1)'', ''lwz 5, 12(1)'', ''addi 1, 1, 16'']"

section \<open>SPARC\<close>

definition sparc_flag_register_to_human :: "bool \<Rightarrow> cpu \<Rightarrow> int option \<Rightarrow> string result" where
  "sparc_flag_register_to_human b c val = flag_register_to_human b c SPARC_desc val"

definition sparc_is_call :: "insn \<Rightarrow> bool" where "sparc_is_call i = False"

definition sparc_is_ret :: "insn \<Rightarrow> bool" where "sparc_is_ret i = (mnemonic i = ''ret'')"

definition sparc_branch_mnemos :: "string list" where
  "sparc_branch_mnemos = [''be'', ''bne'', ''bg'', ''bge'', ''bgeu'', ''bgu'', ''bl'', ''ble'', ''blu'',
     ''bleu'', ''bneg'', ''bpos'', ''bvs'', ''bvc'', ''bcs'', ''bcc'']"

definition sparc_is_conditional_branch :: "insn \<Rightarrow> bool" where
  "sparc_is_conditional_branch i = (mnemonic i \<in> set sparc_branch_mnemos)"

definition sparc_decide :: "arch_desc \<Rightarrow> string \<Rightarrow> int \<Rightarrow> bool \<times> string" where
  "sparc_decide d m val =
     (let Z = flag_set d val ''zero''; N = flag_set d val ''negative'';
          V = flag_set d val ''overflow''; C = flag_set d val ''carry''
      in if m = ''be'' then (Z, ''Z'')
         else if m = ''bne'' then (\<not> Z, ''!Z'')
         else if m = ''bg'' then (\<not> Z \<and> (\<not> N \<or> \<not> V), ''!Z && (!N || !O)'')
         else if m = ''bge'' then (\<not> N \<or> \<not> V, ''!N || !O'')
         else if m = ''bgu'' then (\<not> C \<and> \<not> Z, ''!C && !Z'')
         else if m = ''bgeu'' then (\<not> C, ''!C'')
         else if m = ''bl'' then (N \<and> V, ''N && O'')
         else if m = ''blu'' then (C, ''C'')
         else if m = ''ble'' then (Z \<or> (N \<or> V), ''Z || (N || O)'')
         else if m = ''bleu'' then (C \<or> Z, ''C || Z'')
         else if m = ''bneg'' then (N, ''N'')
         else if m = ''bpos'' then (\<not> N, ''!N'')
         else if m = ''bvs'' then (V, ''O'')
         else if m = ''bvc'' then (\<not> V, ''!O'')
         else if m = ''bcs'' then (C, ''C'')
         else if m = ''bcc'' then (\<not> C, ''!C'')
         else (False, []))"

definition sparc_is_branch_taken :: "arch_desc \<Rightarrow> cpu \<Rightarrow> insn \<Rightarrow> (bool \<times> string) result" where
  "sparc_is_branch_taken d c i =
     bindE (c_reg c (flag_register_of d)) (\<lambda>val. Inr (sparc_decide d (mnemonic i) val))"

definition sparc_get_ra :: "cpu \<Rightarrow> insn \<Rightarrow> int option result" where
  "sparc_get_ra c i = link_register_ra c (sparc_is_ret i) ''$o7''"

definition sparc_stub :: "string \<Rightarrow> int \<Rightarrow> int \<Rightarrow> int \<Rightarrow> string" where
  "sparc_stub trap addr sz perm =
     (let hi = drop_bit 16 (addr AND 0xffff0000); lo = addr AND 0x0000ffff in join ''; ''
     [''add %sp, -16, %sp'', ''st %g1, [ %sp ]'', ''st %o0, [ %sp + 4 ]'', ''st %o1, [ %sp + 8 ]'',
      ''st %o2, [ %sp + 12 ]'', ''sethi  %hi('' @ decs hi @ ''), %o0'', ''or  %o0, '' @ decs lo @ '', %o0'',
      ''clr  %o1'', ''clr  %o2'', ''mov  '' @ decs 125 @ '', %g1'', trap,
      ''ld [ %sp ], %g1'', ''ld [ %sp + 4 ], %o0'', ''ld [ %sp + 8 ], %o1'', ''ld [ %sp + 12 ], %o2'',
      ''add %sp, 16, %sp''])"

definition sparc_mprotect_asm :: "int \<Rightarrow> int \<Rightarrow> int \<Rightarrow> string" where
  "sparc_mprotect_asm = sparc_stub ''t 0x10''"

definition sparc64_mprotect_asm :: "int \<Rightarrow> int \<Rightarrow> int \<Rightarrow> string" where
  "sparc64_mprotect_asm = sparc_stub ''t 0x6d''"

section \<open>MIPS\<close>

definition mips_flag_register_to_human :: "bool \<Rightarrow> string" where
  "mips_flag_register_to_human b = colorify b ''No flag register'' ''yellow underline''"

definition mips_is_call :: "insn \<Rightarrow> bool" where "mips_is_call i = False"

definition mips_is_ret :: "insn \<Rightarrow> bool result" where
  "mips_is_ret i =
     (if mnemonic i = ''jr'' then bindE (operand i 0) (\<lambda>o0. Inr (o0 = ''ra'')) else Inr False)"

definition mips_is_conditional_branch :: "insn \<Rightarrow> bool" where
  "mips_is_conditional_branch i =
     (mnemonic i \<in> {''beq'', ''bne'', ''beqz'', ''bnez'', ''bgtz'', ''bgez'', ''bltz'', ''blez''})"

text \<open>A comparison of the register named by the first operand with 0\<close>
definition mips_zero_test :: "cpu \<Rightarrow> insn \<Rightarrow> (int \<Rightarrow> bool) \<Rightarrow> string \<Rightarrow> (bool \<times> string) result" where
  "mips_zero_test c i P rel =
     bindE (operand i 0) (\<lambda>o0. bindE (c_reg c o0) (\<lambda>v. Inr (P v, o0 @ rel @ ''0'')))"

definition mips_pair_test :: "cpu \<Rightarrow> insn \<Rightarrow> (int \<Rightarrow> int \<Rightarrow> bool) \<Rightarrow> string \<Rightarrow> (bool \<times> string) result" where
  "mips_pair_test c i P rel =
     bindE (operand i 0) (\<lambda>o0. bindE (c_reg c o0) (\<lambda>v.
     bindE (operand i 1) (\<lambda>o1. bindE (c_reg c o1) (\<lambda>w. Inr (P v w, o0 @ rel @ o1)))))"

definition mips_is_branch_taken :: "cpu \<Rightarrow> insn \<Rightarrow> (bool \<times> string) result" where
  "mips_is_branch_taken c i =
     (let m = mnemonic i in
      if m = ''beq'' then mips_pair_test c i (=) '' == ''
      else if m = ''bne'' then mips_pair_test c i (\<noteq>) '' != ''
      else if m = ''beqz'' then mips_zero_test c i (\<lambda>v. v = 0) '' == ''
      else if m = ''bnez'' then mips_zero_test c i (\<lambda>v. v \<noteq> 0) '' != ''
      else if m = ''bgtz'' then mips_zero_test c i (\<lambda>v. 0 < v) '' > ''
      else if m = ''bgez'' then mips_zero_test c i (\<lambda>v. 0 \<le> v) '' >= ''
      else if m = ''bltz'' then mips_zero_test c i (\<lambda>v. v < 0) '' < ''
      else if m = ''blez'' then mips_zero_test c i (\<lambda>v. v \<le> 0) '' <= ''
      else Inr (False, []))"

definition mips_get_ra :: "cpu \<Rightarrow> insn \<Rightarrow> int option result" where
  "mips_get_ra c i = bindE (mips_is_ret i) (\<lambda>r. link_register_ra c r ''$ra'')"

definition mips_mprotect_asm :: "int \<Rightarrow> int \<Rightarrow> int \<Rightarrow> string" where
  "mips_mprotect_asm addr sz perm = join ''; ''
     [''addi $sp, $sp, -16'', ''sw $v0, 0($sp)'', ''sw $a0, 4($sp)'', ''sw $a3, 8($sp)'', ''sw $a3, 12($sp)'',
      ''li $v0, '' @ decs 4125, ''li $a0, '' @ decs addr, ''li $a1, '' @ decs sz, ''li $a2, '' @ decs perm,
      ''syscall'', ''lw $v0, 0($sp)'', ''lw $a1, 4($sp)'', ''lw $a3, 8($sp)'', ''lw $a3, 12($sp)'',
      ''addi $sp, $sp, 16'']"

section \<open>The branch decoder contract\<close>

lemma ppc_decide_reason:
  "m \<in> {''beq'', ''bne'', ''ble'', ''blt'', ''bgt'', ''bge''} \<Longrightarrow> snd (ppc_decide d m val) \<noteq> []"
  by (auto simp: ppc_decide_def Let_def)

lemma sparc_decide_reason: "m \<in> set sparc_branch_mnemos \<Longrightarrow> snd (sparc_decide d m val) \<noteq> []"
  by (auto simp: sparc_branch_mnemos_def sparc_decide_def Let_def)

interpretation ppc_branches: branch_decoder ppc_is_conditional_branch "ppc_is_branch_taken PowerPC_desc"
proof
  fix i c b r
  assume "ppc_is_conditional_branch i" "ppc_is_branch_taken PowerPC_desc c i = Inr (b, r)"
  then show "r \<noteq> []" using ppc_decide_reason [of "mnemonic i" PowerPC_desc]
    by (auto simp: ppc_is_conditional_branch_def ppc_is_branch_taken_def result_simps)
      (metis snd_conv)+
qed

interpretation sparc_branches: branch_decoder sparc_is_conditional_branch "sparc_is_branch_taken SPARC_desc"
proof
  fix i c b r
  assume "sparc_is_conditional_branch i" "sparc_is_branch_taken SPARC_desc c i = Inr (b, r)"
  then show "r \<noteq> []" using sparc_decide_reason [of "mnemonic i" SPARC_desc]
    by (auto simp: sparc_is_conditional_branch_def sparc_is_branch_taken_def result_simps)
      (metis snd_conv)
qed

interpretation mips_branches: branch_decoder mips_is_conditional_branch mips_is_branch_taken
  by unfold_locales
    (auto simp: mips_is_conditional_branch_def mips_is_branch_taken_def mips_zero_test_def
      mips_pair_test_def result_simps)

section \<open>Properties\<close>

text \<open>Fact: with the condition field a comparison of two words sets (exactly one of less, greater and
  equal), every PowerPC conditional branch is decided as the order it names.\<close>
theorem ppc_branches_after_compare:
  fixes a b :: "'a::linorder"
  assumes "flag_set d val ''less[7]'' = (a < b)" "flag_set d val ''greater[7]'' = (b < a)"
    and "flag_set d val ''equal[7]'' = (a = b)"
  shows "fst (ppc_decide d ''beq'' val) = (a = b) \<and> fst (ppc_decide d ''bne'' val) = (a \<noteq> b)
    \<and> fst (ppc_decide d ''blt'' val) = (a < b) \<and> fst (ppc_decide d ''ble'' val) = (a \<le> b)
    \<and> fst (ppc_decide d ''bgt'' val) = (b < a) \<and> fst (ppc_decide d ''bge'' val) = (b \<le> a)"
  using assms by (auto simp: ppc_decide_def Let_def)

theorem ppc_branches_after_compare_witness:
  "fst (ppc_decide PowerPC_desc ''bge'' 0x40000000) = ((2 :: int) \<le> 3)"
proof -
  have f: "flag_bit PowerPC_desc ''less[7]'' = 31" "flag_bit PowerPC_desc ''greater[7]'' = 30"
    "flag_bit PowerPC_desc ''equal[7]'' = 29"
    by (simp_all add: flag_bit_def PowerPC_desc_def)
  show ?thesis
    using ppc_branches_after_compare [of PowerPC_desc "0x40000000" "3 :: int" 2]
    by (simp add: flag_set_def f push_bit_eq_mult)
qed

text \<open>Fact: after a comparison of two words the SPARC branches be, bne, bgu, bgeu, blu and bleu are
  decided as the order they name, and bl is reported taken only when the first word is not the
  smaller one.\<close>
theorem sparc_branches_after_compare:
  fixes a b :: "'a::len word"
  assumes "flag_set d val ''negative'' = cmp_negative a b" "flag_set d val ''zero'' = (a = b)"
    and "flag_set d val ''carry'' = (a < b)" "flag_set d val ''overflow'' = cmp_overflow a b"
  shows "fst (sparc_decide d ''be'' val) = (a = b) \<and> fst (sparc_decide d ''bne'' val) = (a \<noteq> b)
    \<and> fst (sparc_decide d ''bgu'' val) = (b < a) \<and> fst (sparc_decide d ''bgeu'' val) = (b \<le> a)
    \<and> fst (sparc_decide d ''blu'' val) = (a < b) \<and> fst (sparc_decide d ''bleu'' val) = (a \<le> b)
    \<and> fst (sparc_decide d ''bl'' val) = (cmp_negative a b \<and> cmp_overflow a b)
    \<and> (fst (sparc_decide d ''bl'' val) \<longrightarrow> \<not> sint a < sint b)"
proof -
  note l = signed_less_flags [of a b]
  have o: "(b < a) = (\<not> a < b \<and> a \<noteq> b)" "(b \<le> a) = (\<not> a < b)" "(a \<le> b) = (a < b \<or> a = b)"
    by auto
  show ?thesis unfolding o l [symmetric] by (simp add: sparc_decide_def Let_def assms)
qed

theorem sparc_branches_after_compare_witness:
  "\<not> fst (sparc_decide SPARC_desc ''bl'' 0x900000) \<and> sint (1 :: 32 word) < sint (2 :: 32 word)"
proof -
  have f: "flag_bit SPARC_desc ''negative'' = 23" "flag_bit SPARC_desc ''zero'' = 22"
    "flag_bit SPARC_desc ''overflow'' = 21" "flag_bit SPARC_desc ''carry'' = 20"
    by (simp_all add: flag_bit_def SPARC_desc_def)
  show ?thesis
    using sparc_branches_after_compare [of SPARC_desc "0x900000" "1 :: 32 word" 2]
    by (simp add: flag_set_def f cmp_negative_def cmp_overflow_def push_bit_eq_mult)
qed

end
