(* ===== verification/Aliases.thy ===== *)
theory Aliases
  imports Ui
begin

text \<open>
  The aliases of \<^verbatim>\<open>scripts/gef.py\<close>: \<^verbatim>\<open>GefAlias\<close>, kept in the session's list, and the commands
  \<^verbatim>\<open>aliases add\<close>, \<^verbatim>\<open>aliases rm\<close> and \<^verbatim>\<open>aliases ls\<close>.  Registering a command name with GDB, which may
  refuse it, is the parameter \<^verbatim>\<open>gdb_register\<close>.
\<close>

section \<open>GefAlias\<close>

record gef_alias =
  al_alias :: string
  al_command :: string
  al_doc :: string
  al_completes :: bool

text \<open>What the constructor reads of a loaded command: its documentation and whether it has a
  completer\<close>
record loaded_command =
  lc_doc :: string
  lc_complete :: bool

definition lookup_command :: "loaded_command dict \<Rightarrow> string \<Rightarrow> (string \<times> loaded_command) option" where
  "lookup_command cmds c = find (\<lambda>p. c = fst p) cmds"

definition alias_doc :: "bool \<Rightarrow> loaded_command dict \<Rightarrow> string \<Rightarrow> string" where
  "alias_doc b cmds command =
     ''Alias for '' @ [CHR 0x27] @ greenify b command @ [CHR 0x27] @
     (case lookup_command cmds (hd (split_ws command)) of
        None \<Rightarrow> [] | Some (_, inst) \<Rightarrow> '': '' @ lc_doc inst)"

definition alias_init ::
  "bool \<Rightarrow> (string \<Rightarrow> unit result) \<Rightarrow> loaded_command dict \<Rightarrow> string \<Rightarrow> string \<Rightarrow> (gef_alias list, unit) stm" where
  "alias_init b gdb_register cmds al command als =
     (if split_ws command = [] then (Inr (), als)
      else if list_ex (\<lambda>x. al_alias x = al) als then (Inr (), als)
      else let r = lookup_command cmds (hd (split_ws command));
               new = \<lparr>al_alias = al, al_command = command, al_doc = alias_doc b cmds command,
                      al_completes = (case r of None \<Rightarrow> False | Some (_, inst) \<Rightarrow> lc_complete inst)\<rparr>
           in case gdb_register al of
                Inl e \<Rightarrow> (Inl e, als)
              | Inr _ \<Rightarrow> (Inr (), als @ [new]))"

definition alias_str :: "gef_alias \<Rightarrow> string" where
  "alias_str a = ''GefAlias(from='' @ al_alias a @ '', to='' @ al_command a @ '')''"

text \<open>The line handed to GDB\<close>
definition alias_invoke :: "gef_alias \<Rightarrow> string \<Rightarrow> string" where
  "alias_invoke a args = al_command a @ '' '' @ args"

section \<open>Commands\<close>

text \<open>The outcome of a command: its result, the lines printed, and the new list of aliases\<close>
definition aliases_add ::
  "bool \<Rightarrow> (string \<Rightarrow> unit result) \<Rightarrow> loaded_command dict \<Rightarrow> string \<Rightarrow> string list \<Rightarrow> gef_alias list
     \<Rightarrow> unit result \<times> string list \<times> gef_alias list" where
  "aliases_add b gdb_register cmds usage argv als =
     (if length argv < 2 then (Inr (), [err_line b (''Syntax'' @ [CHR 0x0A] @ usage)], als)
      else let (r, als') = alias_init b gdb_register cmds (hd argv) (join '' '' (tl argv)) als
           in (r, [], als'))"

text \<open>\<^verbatim>\<open>list.remove\<close> of the first alias with the name\<close>
fun remove_alias :: "string \<Rightarrow> gef_alias list \<Rightarrow> gef_alias list" where
  "remove_alias n [] = []"
| "remove_alias n (a # as) = (if al_alias a = n then as else a # remove_alias n as)"

definition aliases_rm ::
  "bool \<Rightarrow> string \<Rightarrow> string list \<Rightarrow> gef_alias list \<Rightarrow> string list \<times> gef_alias list" where
  "aliases_rm b usage argv als =
     (if length argv \<noteq> 1 then ([err_line b (''Syntax'' @ [CHR 0x0A] @ usage)], als)
      else if \<not> list_ex (\<lambda>x. al_alias x = hd argv) als
           then ([err_line b (hd argv @ '' not found in aliases.'')], als)
      else ([''You must reload GEF for alias removals to apply.''], remove_alias (hd argv) als))"

definition aliases_ls :: "bool \<Rightarrow> gef_alias list \<Rightarrow> string list" where
  "aliases_ls b als =
     ok_line b ''Aliases defined:''
     # map (\<lambda>a. ljust 30 (al_alias a) @ '' '' @ RIGHT_ARROW @ '' '' @ al_command a) als"

section \<open>The sessions of alias commands\<close>

text \<open>The lists of aliases the commands can produce\<close>
inductive alias_session :: "gef_alias list \<Rightarrow> bool" where
  alias_start: "alias_session []"
| alias_added: "alias_session als \<Longrightarrow> aliases_add b gr cmds u argv als = (r, out, als') \<Longrightarrow> alias_session als'"
| alias_removed: "alias_session als \<Longrightarrow> aliases_rm b u argv als = (out, als') \<Longrightarrow> alias_session als'"

abbreviation alias_names :: "gef_alias list \<Rightarrow> string list" where
  "alias_names als \<equiv> map al_alias als"

lemma alias_names_iff: "list_ex (\<lambda>x. al_alias x = n) als \<longleftrightarrow> n \<in> set (alias_names als)"
  by (auto simp: list_ex_iff)

lemma remove_alias_names: "alias_names (remove_alias n als) = remove1 n (alias_names als)"
  by (induction als) auto

lemma alias_init_names:
  "alias_init b gr cmds al c als = (r, als') \<Longrightarrow>
     als' = als \<or> (al \<notin> set (alias_names als) \<and> alias_names als' = alias_names als @ [al])"
  by (auto simp: alias_init_def alias_names_iff Let_def split: if_splits sum.splits)

lemma aliases_add_names:
  assumes "aliases_add b gr cmds u argv als = (r, out, als')"
  shows "als' = als \<or> (hd argv \<notin> set (alias_names als) \<and> alias_names als' = alias_names als @ [hd argv])"
proof (cases "length argv < 2")
  case False
  obtain r' als'' where i: "alias_init b gr cmds (hd argv) (join '' '' (tl argv)) als = (r', als'')"
    by (cases "alias_init b gr cmds (hd argv) (join '' '' (tl argv)) als")
  with False assms have "als' = als''" by (simp add: aliases_add_def)
  then show ?thesis using alias_init_names [OF i] by simp
qed (use assms in \<open>simp add: aliases_add_def\<close>)

lemma aliases_rm_names:
  assumes "aliases_rm b u argv als = (out, als')"
  shows "alias_names als' = alias_names als \<or> alias_names als' = remove1 (hd argv) (alias_names als)"
  using assms by (auto simp: aliases_rm_def remove_alias_names split: if_splits)

lemma alias_session_distinct: "alias_session als \<Longrightarrow> distinct (alias_names als)"
proof (induction rule: alias_session.induct)
  case (alias_added als b gr cmds u argv r out als')
  then show ?case using aliases_add_names [OF alias_added.hyps(2)] by auto
next
  case (alias_removed als b u argv out als')
  then show ?case using aliases_rm_names [OF alias_removed.hyps(2)] by (metis distinct_remove1)
qed simp

section \<open>Properties\<close>

text \<open>Fact: in every list the alias commands can produce, the names are distinct, and removing a name
  that is in it removes exactly that name.\<close>
theorem alias_names_unique:
  assumes "alias_session als" "n \<in> set (alias_names als)" "aliases_rm b u [n] als = (out, als')"
  shows "distinct (alias_names als) \<and> set (alias_names als') = set (alias_names als) - {n}"
proof -
  have d: "distinct (alias_names als)" using assms(1) by (rule alias_session_distinct)
  have "als' = remove_alias n als"
    using assms(2,3) by (auto simp: aliases_rm_def alias_names_iff list_ex_iff split: if_splits)
  then show ?thesis using d by (simp add: remove_alias_names)
qed

theorem alias_names_unique_witness:
  "\<exists>als als' out. aliases_rm True [] [''k''] als = (out, als') \<and> ''k'' \<in> set (alias_names als)
     \<and> set (alias_names als') = set (alias_names als) - {''k''}"
proof -
  obtain r out als where a: "aliases_add True (\<lambda>_. Inr ()) [] [] [''k'', ''ls''] [] = (r, out, als)"
    by (metis prod_cases3)
  have s: "alias_session als" by (rule alias_added [OF alias_start a])
  have k: "''k'' \<in> set (alias_names als)"
    using a by (auto simp: aliases_add_def alias_init_def split_ws_def is_space_def alias_doc_def Let_def
        split: sum.splits)
  obtain out' als' where m: "aliases_rm True [] [''k''] als = (out', als')"
    by (cases "aliases_rm True [] [''k''] als")
  show ?thesis using alias_names_unique [OF s k m] m k by blast
qed

end
