(* ===== verification/Settings.thy ===== *)
theory Settings
  imports Aliases "HOL-Library.List_Lexorder" "HOL-Library.Char_ord"
begin

text \<open>
  The settings of \<^verbatim>\<open>scripts/gef.py\<close>: \<^verbatim>\<open>GefSetting\<close> and \<^verbatim>\<open>GefSettingsManager\<close>, the settings of one
  command (\<^verbatim>\<open>GenericCommand\<close>), and the commands \<^verbatim>\<open>gef config\<close>, \<^verbatim>\<open>gef save\<close> and \<^verbatim>\<open>gef restore\<close>.
  The manager is a dictionary in insertion order.  What the hooks do outside the settings
  (creating folders, loading plugins) are parameters.
\<close>

section \<open>Values and types\<close>

datatype py_val = VBool bool | VInt int | VStr string | VPath string | VTuple "py_val list"

datatype py_type = TBool | TInt | TStr | TPath | TPosixPath | TTuple

fun type_of :: "py_val \<Rightarrow> py_type" where
  "type_of (VBool _) = TBool"
| "type_of (VInt _) = TInt"
| "type_of (VStr _) = TStr"
| "type_of (VPath _) = TPosixPath"
| "type_of (VTuple _) = TTuple"

fun type_name :: "py_type \<Rightarrow> string" where
  "type_name TBool = ''bool''"
| "type_name TInt = ''int''"
| "type_name TStr = ''str''"
| "type_name TPath = ''Path''"
| "type_name TPosixPath = ''PosixPath''"
| "type_name TTuple = ''tuple''"

text \<open>\<^verbatim>\<open>str(pathlib.Path(s))\<close>: empty and \<^verbatim>\<open>.\<close> components are dropped\<close>
definition path_norm :: "string \<Rightarrow> string" where
  "path_norm s =
     (let parts = filter (\<lambda>p. p \<noteq> [] \<and> p \<noteq> ''.'') (split_on (CHR ''/'') s);
          root = (if startswith s ''//'' \<and> \<not> startswith s ''///'' then ''//''
                  else if startswith s ''/'' then ''/'' else []);
          r = root @ join ''/'' parts
      in if r = [] then ''.'' else r)"

text \<open>\<^verbatim>\<open>repr\<close> of a string\<close>
definition repr_char :: "char \<Rightarrow> char \<Rightarrow> string" where
  "repr_char q c =
     (let n = (of_char c :: nat) in
      if c = q \<or> n = 0x5c then [CHR 0x5c, c]
      else if n = 9 then [CHR 0x5c, CHR ''t''] else if n = 10 then [CHR 0x5c, CHR ''n'']
      else if n = 13 then [CHR 0x5c, CHR ''r'']
      else if n < 32 \<or> n = 127 then CHR 0x5c # CHR ''x'' # fmt_x0 2 (int n) else [c])"

definition repr_str :: "string \<Rightarrow> string" where
  "repr_str s =
     (let q = (if CHR 0x27 \<in> set s \<and> CHR 0x22 \<notin> set s then CHR 0x22 else CHR 0x27)
      in q # concat (map (repr_char q) s) @ [q])"

fun py_repr :: "py_val \<Rightarrow> string" where
  "py_repr (VBool b) = (if b then ''True'' else ''False'')"
| "py_repr (VInt i) = decs i"
| "py_repr (VStr s) = repr_str s"
| "py_repr (VPath p) = ''PosixPath('' @ repr_str p @ '')''"
| "py_repr (VTuple xs) =
     ''('' @ join '', '' (map py_repr xs) @ (if length xs = 1 then '','' else []) @ '')''"

fun py_str :: "py_val \<Rightarrow> string" where
  "py_str (VStr s) = s"
| "py_str (VPath p) = p"
| "py_str v = py_repr v"

fun truthy :: "py_val \<Rightarrow> bool" where
  "truthy (VBool b) = b"
| "truthy (VInt i) = (i \<noteq> 0)"
| "truthy (VStr s) = (s \<noteq> [])"
| "truthy (VPath _) = True"
| "truthy (VTuple xs) = (xs \<noteq> [])"

definition type_error :: "'a result" where "type_error = raise TypeError ''unsupported argument''"

text \<open>A type called on a value\<close>
fun coerce :: "py_type \<Rightarrow> py_val \<Rightarrow> py_val result" where
  "coerce TBool v = Inr (VBool (truthy v))"
| "coerce TInt v =
     (case v of VInt i \<Rightarrow> Inr (VInt i) | VBool b \<Rightarrow> Inr (VInt (if b then 1 else 0))
      | VStr s \<Rightarrow> bindE (py_int 10 s) (\<lambda>i. Inr (VInt i)) | _ \<Rightarrow> type_error)"
| "coerce TStr v = Inr (VStr (py_str v))"
| "coerce TPath v = (case v of VStr s \<Rightarrow> Inr (VPath (path_norm s)) | VPath p \<Rightarrow> Inr (VPath p) | _ \<Rightarrow> type_error)"
| "coerce TPosixPath v =
     (case v of VStr s \<Rightarrow> Inr (VPath (path_norm s)) | VPath p \<Rightarrow> Inr (VPath p) | _ \<Rightarrow> type_error)"
| "coerce TTuple v =
     (case v of VTuple xs \<Rightarrow> Inr (VTuple xs) | VStr s \<Rightarrow> Inr (VTuple (map (\<lambda>c. VStr [c]) s)) | _ \<Rightarrow> type_error)"

section \<open>GefSetting\<close>

text \<open>The hooks of the source: the two static methods, and callbacks of other objects\<close>
datatype hook = NoSpaces | CreateFolderTree | Callback nat

record setting =
  s_value :: py_val
  s_type :: py_type
  s_desc :: string
  s_on_read :: "hook list"
  s_on_write :: "hook list"

definition add_hook :: "string \<Rightarrow> hook list \<Rightarrow> setting \<Rightarrow> setting result" where
  "add_hook access funcs s =
     (if access = ''on_read'' then Inr (s\<lparr>s_on_read := s_on_read s @ funcs\<rparr>)
      else if access = ''on_write'' then Inr (s\<lparr>s_on_write := s_on_write s @ funcs\<rparr>)
      else raise ValueError ''invalid access type'')"

fun add_hooks :: "(string \<times> hook list) list \<Rightarrow> setting \<Rightarrow> setting result" where
  "add_hooks [] s = Inr s"
| "add_hooks ((access, funcs) # hs) s = bindE (add_hook access funcs s) (add_hooks hs)"

definition setting_init ::
  "py_val \<Rightarrow> py_type option \<Rightarrow> string \<Rightarrow> (string \<times> hook list) list \<Rightarrow> setting result" where
  "setting_init v cls desc hooks =
     add_hooks hooks \<lparr>s_value = v, s_type = (case cls of Some t \<Rightarrow> t | None \<Rightarrow> type_of v),
       s_desc = desc, s_on_read = [], s_on_write = []\<rparr>"

definition setting_str :: "setting \<Rightarrow> string" where
  "setting_str s =
     ''Setting(type='' @ type_name (s_type s) @ '', value='' @ [CHR 0x27] @ py_str (s_value s) @ [CHR 0x27]
     @ '', desc='' @ [CHR 0x27] @ take 10 (s_desc s) @ ''...'' @ [CHR 0x27] @ '', read_hooks=''
     @ decs (int (length (s_on_read s))) @ '', write_hooks='' @ decs (int (length (s_on_write s))) @ '')''"

text \<open>An object assigned to a key: a plain value or a setting\<close>
datatype cfg_arg = Val py_val | SettingObj setting

fun arg_str :: "cfg_arg \<Rightarrow> string" where
  "arg_str (Val v) = py_str v"
| "arg_str (SettingObj s) = setting_str s"

definition no_spaces :: "cfg_arg \<Rightarrow> unit result" where
  "no_spaces a = (if str_in '' '' (arg_str a) then raise ValueError ''setting cannot contain spaces'' else Inr ())"

text \<open>What the hooks rely on: creating a directory tree, and the callbacks, called with no argument
  on a read\<close>
record hook_env =
  mkdir_tree :: "string \<Rightarrow> unit result"
  callback :: "nat \<Rightarrow> cfg_arg option \<Rightarrow> unit result"

definition create_folder_tree :: "hook_env \<Rightarrow> cfg_arg \<Rightarrow> unit result" where
  "create_folder_tree env a =
     (case a of Val (VPath p) \<Rightarrow> mkdir_tree env p
      | _ \<Rightarrow> raise AttributeError ''object has no attribute mkdir'')"

fun run_write_hook :: "hook_env \<Rightarrow> cfg_arg \<Rightarrow> hook \<Rightarrow> unit result" where
  "run_write_hook env a NoSpaces = no_spaces a"
| "run_write_hook env a CreateFolderTree = create_folder_tree env a"
| "run_write_hook env a (Callback n) = callback env n (Some a)"

fun run_read_hook :: "hook_env \<Rightarrow> hook \<Rightarrow> unit result" where
  "run_read_hook env (Callback n) = callback env n None"
| "run_read_hook env _ = raise TypeError ''missing 1 required positional argument''"

fun run_hooks :: "('h \<Rightarrow> unit result) \<Rightarrow> 'h list \<Rightarrow> unit result" where
  "run_hooks f [] = Inr ()"
| "run_hooks f (h # hs) = bindE (f h) (\<lambda>_. run_hooks f hs)"

section \<open>GefSettingsManager\<close>

type_synonym config = "setting dict"

definition raw_entry :: "config \<Rightarrow> string \<Rightarrow> setting result" where
  "raw_entry cfg name = (case map_of cfg name of Some s \<Rightarrow> Inr s | None \<Rightarrow> raise KeyError name)"

definition cfg_get :: "hook_env \<Rightarrow> config \<Rightarrow> string \<Rightarrow> py_val result" where
  "cfg_get env cfg name = bindE (raw_entry cfg name) (\<lambda>s.
     bindE (run_hooks (run_read_hook env) (s_on_read s)) (\<lambda>_. Inr (s_value s)))"

text \<open>The type of a setting called on the assigned object; a setting is truthy, has a text, and is
  neither a number nor a path\<close>
fun coerce_arg :: "py_type \<Rightarrow> cfg_arg \<Rightarrow> py_val result" where
  "coerce_arg t (Val v) = coerce t v"
| "coerce_arg t (SettingObj s) =
     (if t = TBool then Inr (VBool True) else if t = TStr then Inr (VStr (setting_str s)) else type_error)"

definition cfg_set :: "hook_env \<Rightarrow> string \<Rightarrow> cfg_arg \<Rightarrow> (config, unit) stm" where
  "cfg_set env name a cfg =
     (case map_of cfg name of
        Some s \<Rightarrow>
          (case coerce_arg (s_type s) a of
             Inl e \<Rightarrow> (Inl e, cfg)
           | Inr v \<Rightarrow> (run_hooks (run_write_hook env a) (s_on_write s),
                       AList.update name (s\<lparr>s_value := v\<rparr>) cfg))
      | None \<Rightarrow>
          (case a of
             Val _ \<Rightarrow> (raise PlainException ''Invalid argument'', cfg)
           | SettingObj s \<Rightarrow>
               if s_desc s = [] then (raise PlainException ''Invalid description'', cfg)
               else (run_hooks (run_write_hook env (Val (s_value s))) (s_on_write s),
                     AList.update name s cfg)))"

definition cfg_del :: "string \<Rightarrow> (config, unit) stm" where
  "cfg_del name cfg =
     (if map_of cfg name = None then (raise KeyError name, cfg) else (Inr (), AList.delete name cfg))"

section \<open>The settings of a command\<close>

definition gc_setting_name :: "string \<Rightarrow> string \<Rightarrow> string" where
  "gc_setting_name cmdline name = str_replace '' '' ''-'' cmdline @ ''.'' @ name"

text \<open>\<^verbatim>\<open>s.replace(a, b, 1)\<close>\<close>
fun replace_first :: "string \<Rightarrow> string \<Rightarrow> string \<Rightarrow> string" where
  "replace_first a b [] = (if a = [] then b else [])"
| "replace_first a b (c # cs) =
     (if startswith (c # cs) a then b @ drop (length a) (c # cs) else c # replace_first a b cs)"

definition gc_settings :: "string \<Rightarrow> config \<Rightarrow> string list" where
  "gc_settings cmdline cfg =
     map (replace_first (cmdline @ ''.'') []) (filter (\<lambda>k. startswith k cmdline) (map fst cfg))"

definition gc_getitem :: "hook_env \<Rightarrow> string \<Rightarrow> config \<Rightarrow> string \<Rightarrow> py_val result" where
  "gc_getitem env cmdline cfg name = cfg_get env cfg (gc_setting_name cmdline name)"

definition gc_contains :: "string \<Rightarrow> config \<Rightarrow> string \<Rightarrow> bool" where
  "gc_contains cmdline cfg name = (gc_setting_name cmdline name \<in> set (map fst cfg))"

fun items_of :: "py_val \<Rightarrow> py_val list result" where
  "items_of (VTuple xs) = Inr xs"
| "items_of (VStr s) = Inr (map (\<lambda>c. VStr [c]) s)"
| "items_of _ = type_error"

text \<open>Assigning to a setting of a command: an existing setting gets the object as it is, a new one is
  made from a value or from a value and a description.  \<^verbatim>\<open>is_root\<close> tells that the command's class
  derives from \<^verbatim>\<open>GenericCommand\<close> directly.\<close>
definition gc_setitem ::
  "hook_env \<Rightarrow> bool \<Rightarrow> string \<Rightarrow> string \<Rightarrow> py_val \<Rightarrow> (config, unit) stm" where
  "gc_setitem env is_root cmdline name v cfg =
     (if \<not> is_root then (Inr (), cfg)
      else let key = gc_setting_name cmdline name in
        case map_of cfg key of
          Some s \<Rightarrow> (Inr (), AList.update key (s\<lparr>s_value := v\<rparr>) cfg)
        | None \<Rightarrow>
            (case items_of v of
               Inl e \<Rightarrow> (Inl e, cfg)
             | Inr [x] \<Rightarrow>
                 (case setting_init x None [] [] of Inl e \<Rightarrow> (Inl e, cfg)
                  | Inr s \<Rightarrow> cfg_set env key (SettingObj s) cfg)
             | Inr [x, d] \<Rightarrow>
                 (case setting_init x None (py_str d) [] of Inl e \<Rightarrow> (Inl e, cfg)
                  | Inr s \<Rightarrow> cfg_set env key (SettingObj s) cfg)
             | Inr _ \<Rightarrow> (Inr (), cfg)))"

definition gc_delitem :: "string \<Rightarrow> string \<Rightarrow> (config, unit) stm" where
  "gc_delitem cmdline name = cfg_del (gc_setting_name cmdline name)"

record repeat_state =
  rp_repeat :: bool
  rp_count :: int
  rp_last :: "string option"

text \<open>\<^verbatim>\<open>__set_repeat_count\<close>, with the answer of GDB's \<^verbatim>\<open>show commands\<close>\<close>
definition set_repeat_count :: "string \<Rightarrow> bool \<Rightarrow> repeat_state \<Rightarrow> repeat_state" where
  "set_repeat_count shown from_tty s =
     (if \<not> from_tty then s\<lparr>rp_repeat := False, rp_count := 0\<rparr>
      else let command = last (split_on (CHR 0x0A) (strip shown)); rep = (rp_last s = Some command)
           in \<lparr>rp_repeat = rep, rp_count = (if rep then rp_count s + 1 else 0), rp_last = Some command\<rparr>)"

text \<open>What \<^verbatim>\<open>invoke\<close> does with the outcome of a command: the outcome it has itself and the lines it
  prints; in debug mode the trace, \<^verbatim>\<open>trace\<close>.  Only exceptions below \<^verbatim>\<open>Exception\<close> are caught.\<close>
definition gc_handle :: "bool \<Rightarrow> bool \<Rightarrow> bool \<Rightarrow> string list \<Rightarrow> string \<Rightarrow> unit result \<Rightarrow> unit result \<times> string list" where
  "gc_handle b debug propagate trace cmdline r =
     (case r of
        Inr _ \<Rightarrow> (Inr (), [])
      | Inl e \<Rightarrow>
          if exn_cls e = KeyboardInterrupt then (Inl e, [])
          else if debug then (if propagate then Inl e else Inr (), trace)
          else (Inr (), [err_line b (''Command '' @ [CHR 0x27] @ cmdline @ [CHR 0x27]
                 @ '' failed to execute properly, reason: '' @ exn_msg e)]))"

section \<open>gef config\<close>

text \<open>The settings, the lines printed, and how often the caches were reset\<close>
record conf_state =
  cs_cfg :: config
  cs_out :: "string list"
  cs_resets :: nat

definition say :: "string \<Rightarrow> (conf_state, unit) stm" where
  "say l s = (Inr (), s\<lparr>cs_out := cs_out s @ [l]\<rparr>)"

fun keys_with_prefix :: "string \<Rightarrow> config \<Rightarrow> string list" where
  "keys_with_prefix p cfg = filter (\<lambda>k. startswith k p) (map fst cfg)"

definition print_setting :: "hook_env \<Rightarrow> bool \<Rightarrow> string \<Rightarrow> bool \<Rightarrow> (conf_state, unit) stm" where
  "print_setting env b name verbose s =
     (case bindE (raw_entry (cs_cfg s) name) (\<lambda>res.
           bindE (cfg_get env (cs_cfg s) ''theme.dereference_string'') (\<lambda>sc.
           bindE (cfg_get env (cs_cfg s) ''theme.dereference_base_address'') (\<lambda>mc. Inr (res, sc, mc)))) of
        Inl e \<Rightarrow> (Inl e, s)
      | Inr (res, sc, mc) \<Rightarrow>
          (let ty = type_name (s_type res);
               v = (if ty = ''str''
                    then [CHR 0x22] @ colorify b (py_str (s_value res)) (py_str sc) @ [CHR 0x22]
                    else colorify b (py_str (s_value res)) (py_str mc))
           in bindS (say (colorify b name ''green'' @ '' ('' @ ty @ '') = '' @ v)) (\<lambda>_.
              if verbose then
                bindS (say (colorify b (CHR 0x0A # ''Description:'') ''bold underline''))
                  (\<lambda>_. say (CHR 0x09 # s_desc res))
              else retS ()) s))"

definition parse_bool :: "string \<Rightarrow> bool result" where
  "parse_bool v =
     (if upper v \<in> {''TRUE'', ''T'', ''1''} then Inr True
      else if upper v \<in> {''FALSE'', ''F'', ''0''} then Inr False
      else raise ValueError (''Cannot parse '' @ [CHR 0x27] @ v @ [CHR 0x27] @ '' as bool''))"

text \<open>The value made of the text of a setting: booleans are parsed, other types are called\<close>
definition parse_setting :: "py_type \<Rightarrow> string \<Rightarrow> py_val result" where
  "parse_setting t v = (if t = TBool then bindE (parse_bool v) (\<lambda>x. Inr (VBool x)) else coerce t (VStr v))"

definition set_setting :: "hook_env \<Rightarrow> bool \<Rightarrow> string list \<Rightarrow> string \<Rightarrow> string \<Rightarrow> (conf_state, unit) stm" where
  "set_setting env b commands key new_value s =
     (if \<not> str_in ''.'' key then say (err_line b ''Invalid command format'') s
      else let plugin = hd (split_max (CHR ''.'') 1 key) in
      if plugin \<notin> set (commands @ [''gef'']) then
        say (err_line b (''Unknown plugin '' @ [CHR 0x27] @ plugin @ [CHR 0x27])) s
      else case map_of (cs_cfg s) key of
        None \<Rightarrow> say (err_line b ([CHR 0x27] @ key @ [CHR 0x27] @ '' is not a valid configuration setting'')) s
      | Some st \<Rightarrow>
          (case parse_setting (s_type st) new_value of
             Inl e \<Rightarrow> (Inl e, s)
           | Inr v \<Rightarrow>
               (let (r, cfg') = cfg_set env key (Val v) (cs_cfg s); s' = s\<lparr>cs_cfg := cfg'\<rparr>
                in case r of Inl e \<Rightarrow> (Inl e, s') | Inr _ \<Rightarrow> (Inr (), s'\<lparr>cs_resets := cs_resets s' + 1\<rparr>))))"

definition print_settings :: "hook_env \<Rightarrow> bool \<Rightarrow> (conf_state, unit) stm" where
  "print_settings env b s = foldS (\<lambda>x. print_setting env b x False) (sort (map fst (cs_cfg s))) s"

text \<open>\<^verbatim>\<open>invoke\<close>; \<^verbatim>\<open>title\<close> stands for \<^verbatim>\<open>titlify\<close> at the width of the terminal\<close>
definition config_invoke ::
  "hook_env \<Rightarrow> bool \<Rightarrow> bool \<Rightarrow> (string \<Rightarrow> string) \<Rightarrow> string list \<Rightarrow> string list \<Rightarrow> (conf_state, unit) stm" where
  "config_invoke env b debug title commands argv s =
     (case argv of
        [] \<Rightarrow> bindS (say (title ''GEF configuration settings'')) (\<lambda>_. print_settings env b) s
      | [p] \<Rightarrow>
          (case keys_with_prefix p (cs_cfg s) of
             [] \<Rightarrow> (Inr (), s)
           | [n] \<Rightarrow> bindS (say (title (''GEF configuration setting: '' @ n))) (\<lambda>_. print_setting env b n True) s
           | ns \<Rightarrow> bindS (say (title (''GEF configuration settings matching '' @ [CHR 0x27] @ p @ [CHR 0x27])))
                     (\<lambda>_. foldS (\<lambda>n. print_setting env b n False) ns) s)
      | [k, v] \<Rightarrow>
          (case set_setting env b commands k v s of
             (Inl e, s') \<Rightarrow> if \<not> debug \<and> exn_cls e = ValueError then say (err_line b (exn_msg e)) s' else (Inl e, s')
           | (Inr _, s') \<Rightarrow> (Inr (), s'))
      | _ \<Rightarrow> say (err_line b ''Invalid number of arguments'') s)"

definition config_complete :: "config \<Rightarrow> string \<Rightarrow> string \<Rightarrow> string list" where
  "config_complete cfg txt word =
     (let settings = sort (map fst cfg) in
      if txt = [] then filter (\<lambda>s. str_in word s) settings
      else if \<not> str_in ''.'' txt then filter (\<lambda>s. startswith s (strip txt)) settings
      else map (\<lambda>s. split_max (CHR ''.'') 1 s ! 1) (filter (\<lambda>s. startswith s (strip txt)) settings))"

end
