(* ===== verification/ConfigFile.thy ===== *)
theory ConfigFile
  imports Settings
begin

text \<open>
  The commands \<^verbatim>\<open>gef save\<close> and \<^verbatim>\<open>gef restore\<close> of \<^verbatim>\<open>scripts/gef.py\<close>, over a configuration file given
  as its sections with their options.  The layer of text between the two is that of
  \<^verbatim>\<open>configparser\<close> for values of one line and names without the delimiters: a value is read back
  stripped, option names are in lower case, and a percent sign starts an interpolation.
\<close>

section \<open>The configuration file\<close>

type_synonym ini = "(string \<times> string dict) list"

definition ini_add_section :: "string \<Rightarrow> ini \<Rightarrow> ini result" where
  "ini_add_section s f =
     (if s = ''DEFAULT'' then raise ValueError (''Invalid section name: '' @ s)
      else if s \<in> set (map fst f) then raise PlainException (''Section '' @ s @ '' already exists'')
      else Inr (f @ [(s, [])]))"

definition ini_set :: "string \<Rightarrow> string \<Rightarrow> string \<Rightarrow> ini \<Rightarrow> ini result" where
  "ini_set s opt v f =
     (if s \<notin> set (map fst f) then raise PlainException (''No section: '' @ s)
      else Inr (map (\<lambda>(s', os). if s' = s then (s', AList.update (lower opt) v os) else (s', os)) f))"

text \<open>What a value reads back as after the file has been written and read\<close>
definition ini_reread :: "ini \<Rightarrow> ini" where
  "ini_reread f = map (\<lambda>(s, os). (s, map (\<lambda>(opt, v). (opt, strip v)) os)) f"

text \<open>The basic interpolation of \<^verbatim>\<open>ConfigParser.get\<close>; a reference to another option is left to the
  parameter\<close>
fun interpolate :: "(string \<Rightarrow> string result) \<Rightarrow> string \<Rightarrow> string result" where
  "interpolate ref [] = Inr []"
| "interpolate ref [c] = (if c = CHR ''%'' then raise PlainException ''bad interpolation'' else Inr [c])"
| "interpolate ref (c # d # cs) =
     (if c \<noteq> CHR ''%'' then bindE (interpolate ref (d # cs)) (\<lambda>r. Inr (c # r))
      else if d = CHR ''%'' then bindE (interpolate ref cs) (\<lambda>r. Inr (CHR ''%'' # r))
      else if d = CHR ''('' then ref (d # cs)
      else raise PlainException ''bad interpolation'')"

section \<open>Saving\<close>

fun save_keys :: "hook_env \<Rightarrow> config \<Rightarrow> string list \<Rightarrow> string option \<Rightarrow> ini \<Rightarrow> ini result" where
  "save_keys env cfg [] old f = Inr f"
| "save_keys env cfg (key # keys) old f =
     (case split_max (CHR ''.'') 1 key of
        [sect, optname] \<Rightarrow>
          bindE (cfg_get env cfg key) (\<lambda>v.
          bindE (if old \<noteq> Some sect then ini_add_section sect f else Inr f) (\<lambda>f1.
          bindE (ini_set sect optname (py_str v) f1) (\<lambda>f2.
            save_keys env cfg keys (Some sect) f2)))
      | _ \<Rightarrow> raise ValueError ''not enough values to unpack (expected 2, got 1)'')"

fun save_aliases :: "gef_alias list \<Rightarrow> ini \<Rightarrow> ini result" where
  "save_aliases [] f = Inr f"
| "save_aliases (a # as) f = bindE (ini_set ''aliases'' (al_alias a) (al_command a) f) (save_aliases as)"

text \<open>The file \<^verbatim>\<open>gef save\<close> writes\<close>
definition save_config :: "hook_env \<Rightarrow> config \<Rightarrow> gef_alias list \<Rightarrow> ini result" where
  "save_config env cfg als =
     bindE (save_keys env cfg (sort (map fst cfg)) None []) (\<lambda>f.
     bindE (ini_add_section ''aliases'' f) (save_aliases als))"

section \<open>Restoring\<close>

text \<open>What restoring consults: how a reference in a value resolves, the outcome of registering an
  alias with GDB, and the loaded commands\<close>
record restore_env =
  re_ref :: "string \<Rightarrow> string result"
  re_register :: "string \<Rightarrow> unit result"
  re_commands :: "loaded_command dict"

definition restored_value :: "py_type \<Rightarrow> string \<Rightarrow> py_val result" where
  "restored_value t v =
     (if t = TBool then Inr (VBool (upper v \<in> {''TRUE'', ''T'', ''1''})) else coerce t (VStr v))"

definition restore_option :: "restore_env \<Rightarrow> string \<Rightarrow> string \<times> string \<Rightarrow> config \<Rightarrow> unit result \<times> config" where
  "restore_option env sect = (\<lambda>(optname, txt) cfg.
     let key = sect @ ''.'' @ optname in
     case map_of cfg key of
       None \<Rightarrow> (Inr (), cfg)
     | Some s \<Rightarrow>
         (case bindE (interpolate (re_ref env) txt) (restored_value (s_type s)) of
            Inl e \<Rightarrow> (Inl e, cfg)
          | Inr v \<Rightarrow> (Inr (), AList.update key (s\<lparr>s_value := v\<rparr>) cfg)))"

text \<open>Every exception of an alias is swallowed\<close>
definition restore_alias :: "bool \<Rightarrow> restore_env \<Rightarrow> string \<times> string \<Rightarrow> gef_alias list \<Rightarrow> gef_alias list" where
  "restore_alias b env = (\<lambda>(al, txt) als.
     case interpolate (re_ref env) txt of
       Inl e \<Rightarrow> als
     | Inr c \<Rightarrow> snd (alias_init b (re_register env) (re_commands env) al c als))"

fun restore_sections :: "bool \<Rightarrow> restore_env \<Rightarrow> ini \<Rightarrow> (config \<times> gef_alias list, unit) stm" where
  "restore_sections b env [] s = (Inr (), s)"
| "restore_sections b env ((sect, os) # f) (cfg, als) =
     (if sect = ''aliases'' then restore_sections b env f (cfg, fold (restore_alias b env) os als)
      else case foldS (restore_option env sect) os cfg of
             (Inl e, cfg') \<Rightarrow> (Inl e, (cfg', als))
           | (Inr _, cfg') \<Rightarrow> restore_sections b env f (cfg', als))"

text \<open>\<^verbatim>\<open>reload\<close>: the lines printed, for the file (None when there is none: it is read as empty)\<close>
definition reload_config ::
  "bool \<Rightarrow> restore_env \<Rightarrow> string \<Rightarrow> bool \<Rightarrow> ini option \<Rightarrow> config \<times> gef_alias list
     \<Rightarrow> unit result \<times> (config \<times> gef_alias list) \<times> string list" where
  "reload_config b env rc quiet f s =
     (case restore_sections b env (ini_reread (case f of Some x \<Rightarrow> x | None \<Rightarrow> [])) s of
        (Inl e, s') \<Rightarrow> (Inl e, s', [])
      | (Inr _, s') \<Rightarrow> (Inr (), s', if quiet then [] else
           [ok_line b (''Configuration from '' @ [CHR 0x27] @ colorify b rc ''bold blue'' @ [CHR 0x27] @ '' restored'')]))"

text \<open>\<^verbatim>\<open>gef restore\<close> does nothing when the file does not exist\<close>
definition restore_invoke ::
  "bool \<Rightarrow> restore_env \<Rightarrow> string \<Rightarrow> string \<Rightarrow> ini option \<Rightarrow> config \<times> gef_alias list
     \<Rightarrow> unit result \<times> (config \<times> gef_alias list) \<times> string list" where
  "restore_invoke b env rc args f s =
     (if f = None then (Inr (), s, []) else reload_config b env rc (lower args = ''quiet'') f s)"

section \<open>Sorted keys keep their sections together\<close>

lemma lex_between:
  fixes y :: string
  shows "p @ x \<le> y \<Longrightarrow> y \<le> p @ z \<Longrightarrow> \<exists>w. y = p @ w"
proof (induction p arbitrary: y)
  case (Cons a p)
  obtain c y' where y: "y = c # y'" using Cons.prems(1) by (cases y) auto
  from Cons.prems have "c = a" "p @ x \<le> y'" "y' \<le> p @ z" by (auto simp: y)
  with Cons.IH [of y'] show ?case by (auto simp: y)
qed simp

definition key_sect :: "string \<Rightarrow> string" where "key_sect k = takeWhile (\<lambda>c. c \<noteq> CHR ''.'') k"
definition key_opt :: "string \<Rightarrow> string" where "key_opt k = tl (dropWhile (\<lambda>c. c \<noteq> CHR ''.'') k)"

lemma split_key: "CHR ''.'' \<in> set k \<Longrightarrow> split_max (CHR ''.'') 1 k = [key_sect k, key_opt k]"
  by (induction k) (auto simp: key_sect_def key_opt_def)

lemma key_split: "CHR ''.'' \<in> set k \<Longrightarrow> k = key_sect k @ ''.'' @ key_opt k"
  by (induction k) (auto simp: key_sect_def key_opt_def)

lemma key_sect_join: "CHR ''.'' \<notin> set s \<Longrightarrow> key_sect (s @ ''.'' @ w) = s"
  by (induction s) (auto simp: key_sect_def)

lemma key_sect_no_dot: "CHR ''.'' \<notin> set (key_sect k)"
  by (auto simp: key_sect_def dest: set_takeWhileD)

lemma sections_together:
  assumes "a \<le> b" "b \<le> c" "CHR ''.'' \<in> set a" "CHR ''.'' \<in> set c" "key_sect a = key_sect c"
  shows "key_sect b = key_sect a"
proof -
  have "(key_sect a @ ''.'') @ key_opt a \<le> b" "b \<le> (key_sect a @ ''.'') @ key_opt c"
    using assms key_split [OF assms(3)] key_split [OF assms(4)] by simp_all
  then obtain w where "b = (key_sect a @ ''.'') @ w" using lex_between by blast
  then show ?thesis by (simp add: key_sect_join [OF key_sect_no_dot, simplified])
qed


lemma str_in_char: "str_in [c] s \<longleftrightarrow> c \<in> set s"
  by (induction s) (auto simp: startswith_def)

section \<open>Saving, step by step\<close>

text \<open>The keys \<^verbatim>\<open>gef save\<close> can write, and the settings whose text reads back as their value\<close>
definition key_ok :: "string \<Rightarrow> bool" where
  "key_ok k = (CHR ''.'' \<in> set k \<and> lower (key_opt k) = key_opt k \<and> key_sect k \<noteq> ''DEFAULT''
     \<and> key_sect k \<noteq> ''aliases'')"

definition plain_text :: "string \<Rightarrow> bool" where
  "plain_text t = (strip t = t \<and> CHR ''%'' \<notin> set t)"

fun storable_value :: "py_type \<Rightarrow> py_val \<Rightarrow> bool" where
  "storable_value TBool (VBool _) = True"
| "storable_value TInt (VInt _) = True"
| "storable_value TStr (VStr x) = plain_text x"
| "storable_value TPath (VPath p) = (plain_text p \<and> path_norm p = p)"
| "storable_value TPosixPath (VPath p) = (plain_text p \<and> path_norm p = p)"
| "storable_value _ _ = False"

definition storable :: "setting \<Rightarrow> bool" where
  "storable s = (s_on_read s = [] \<and> storable_value (s_type s) (s_value s))"

definition ini_good :: "config \<Rightarrow> ini \<Rightarrow> bool" where
  "ini_good cfg f = (\<forall>(s, os) \<in> set f. \<forall>(opt, t) \<in> set os.
     \<exists>st. map_of cfg (s @ ''.'' @ opt) = Some st \<and> t = py_str (s_value st))"

definition ini_has :: "ini \<Rightarrow> string list \<Rightarrow> bool" where
  "ini_has f ks = (\<forall>k \<in> set ks. \<exists>os. (key_sect k, os) \<in> set f \<and> key_opt k \<in> fst ` set os)"

lemma ini_goodD:
  "ini_good cfg f \<Longrightarrow> (s, os) \<in> set f \<Longrightarrow> (opt, t) \<in> set os \<Longrightarrow>
     \<exists>st. map_of cfg (s @ ''.'' @ opt) = Some st \<and> t = py_str (s_value st)"
  unfolding ini_good_def by blast

lemma set_update_subset: "set (AList.update k v al) \<subseteq> insert (k, v) (set al)"
  by (induction al) auto

lemma ini_set_good:
  assumes "ini_good cfg f" "map_of cfg (s @ ''.'' @ opt) = Some st" "lower opt = opt"
    and "ini_set s opt (py_str (s_value st)) f = Inr f'"
  shows "ini_good cfg f'"
proof -
  have f': "f' = map (\<lambda>(s', os). if s' = s then (s', AList.update opt (py_str (s_value st)) os) else (s', os)) f"
    using assms(4) unfolding ini_set_def assms(3) by (simp split: if_splits)
  have "\<exists>st. map_of cfg (s' @ ''.'' @ opt') = Some st \<and> t = py_str (s_value st)"
    if h: "(s', os') \<in> set f'" "(opt', t) \<in> set os'" for s' os' opt' t
  proof -
    obtain os where os: "(s', os) \<in> set f"
      "os' = (if s' = s then AList.update opt (py_str (s_value st)) os else os)"
      using h(1) unfolding f' by (auto split: if_splits)
    then have "(opt', t) \<in> set os \<or> (s' = s \<and> opt' = opt \<and> t = py_str (s_value st))"
      using h(2) set_update_subset [of opt "py_str (s_value st)" os] by (auto split: if_splits)
    then show ?thesis using os(1) assms(1,2) unfolding ini_good_def by blast
  qed
  then show ?thesis unfolding ini_good_def by blast
qed

lemma ini_set_has:
  assumes "ini_has f ks" "ini_set (key_sect k) (key_opt k) t f = Inr f'" "lower (key_opt k) = key_opt k"
  shows "ini_has f' (ks @ [k]) \<and> map fst f' = map fst f"
proof -
  have f': "f' = map (\<lambda>(s', os). if s' = key_sect k then (s', AList.update (key_opt k) t os) else (s', os)) f"
    and m: "key_sect k \<in> set (map fst f)"
    using assms(2) unfolding ini_set_def assms(3) by (simp_all split: if_splits)
  have u: "fst ` set (AList.update x v os) = insert x (fst ` set os)" for x v and os :: "string dict"
    by (simp add: dom_map_of_conv_image_fst [symmetric] AList.update_conv' insert_commute)
  have "\<exists>os. (key_sect k', os) \<in> set f' \<and> key_opt k' \<in> fst ` set os" if "k' \<in> set (ks @ [k])" for k'
  proof (cases "k' = k")
    case True
    obtain os where "(key_sect k, os) \<in> set f" using m by auto
    then have "(key_sect k, AList.update (key_opt k) t os) \<in> set f'" unfolding f' by force
    then show ?thesis using True u by (metis insertI1)
  next
    case False
    then have "k' \<in> set ks" using that by simp
    then obtain os where "(key_sect k', os) \<in> set f" "key_opt k' \<in> fst ` set os"
      using assms(1) unfolding ini_has_def by blast
    moreover from this(1) have "(key_sect k', if key_sect k' = key_sect k then AList.update (key_opt k) t os else os) \<in> set f'"
      unfolding f' by force
    moreover have "key_opt k' \<in> fst ` set (if key_sect k' = key_sect k then AList.update (key_opt k) t os else os)"
      using \<open>key_opt k' \<in> fst ` set os\<close> by (simp add: u)
    ultimately show ?thesis by blast
  qed
  then have "ini_has f' (ks @ [k])" unfolding ini_has_def by blast
  moreover have "map fst f' = map fst f" unfolding f' by (auto intro!: map_cong)
  ultimately show ?thesis ..
qed

lemma new_section:
  assumes "sorted (dn @ key # keys)" "\<forall>k \<in> set (dn @ [key]). CHR ''.'' \<in> set k" "dn \<noteq> []"
    and "key_sect (last dn) \<noteq> key_sect key"
  shows "key_sect key \<notin> key_sect ` set dn"
proof
  assume "key_sect key \<in> key_sect ` set dn"
  then obtain a where a: "a \<in> set dn" "key_sect key = key_sect a" by auto
  have l: "last dn \<in> set dn" using assms(3) by simp
  have "a \<le> last dn"
    using assms(1,3) a(1) by (cases dn rule: rev_cases) (auto simp: sorted_append)
  moreover have "last dn \<le> key" using assms(1) l by (auto simp: sorted_append)
  ultimately have "key_sect (last dn) = key_sect a"
    using sections_together [of a "last dn" key] a assms(2) by simp
  with a(2) assms(4) show False by simp
qed

lemma save_keys_ok:
  assumes "sorted (dn @ keys)" "\<forall>k \<in> set (dn @ keys). key_ok k"
    and "\<forall>k \<in> set keys. \<exists>s. map_of cfg k = Some s \<and> storable s"
    and "set (map fst f) = key_sect ` set dn" "old = (if dn = [] then None else Some (key_sect (last dn)))"
    and "ini_good cfg f" "ini_has f dn"
  shows "\<exists>f'. save_keys env cfg keys old f = Inr f' \<and> set (map fst f') = key_sect ` set (dn @ keys)
    \<and> ini_good cfg f' \<and> ini_has f' (dn @ keys)"
  using assms
proof (induction keys arbitrary: dn old f)
  case (Cons k keys)
  have k: "CHR ''.'' \<in> set k" "lower (key_opt k) = key_opt k" "key_sect k \<noteq> ''DEFAULT''"
    using Cons.prems(2) by (simp_all add: key_ok_def)
  obtain st where st: "map_of cfg k = Some st" "storable st" using Cons.prems(3) by auto
  have g: "cfg_get env cfg k = Inr (s_value st)"
    using st by (simp add: cfg_get_def raw_entry_def storable_def)
  define f1 where "f1 = (if old \<noteq> Some (key_sect k) then f @ [(key_sect k, [])] else f)"
  have new: "key_sect k \<notin> set (map fst f)" if "old \<noteq> Some (key_sect k)"
  proof (cases "dn = []")
    case False
    then show ?thesis using new_section [of dn k keys] that Cons.prems(1,2,4,5) by (auto simp: key_ok_def)
  qed (use Cons.prems(4) in simp)
  have f1: "(if old \<noteq> Some (key_sect k) then ini_add_section (key_sect k) f else Inr f) = Inr f1"
    using new k(3) by (auto simp: ini_add_section_def f1_def)
  have s1: "set (map fst f1) = key_sect ` set (dn @ [k])"
    using Cons.prems(4,5) by (cases dn rule: rev_cases) (auto simp: f1_def)
  have g1: "ini_good cfg f1" using Cons.prems(6) by (auto simp: f1_def ini_good_def)
  have "set f \<subseteq> set f1" by (auto simp: f1_def)
  then have h1: "ini_has f1 dn" using Cons.prems(7) unfolding ini_has_def by blast
  obtain f2 where f2: "ini_set (key_sect k) (key_opt k) (py_str (s_value st)) f1 = Inr f2"
    using s1 by (auto simp: ini_set_def)
  have mk: "map_of cfg (key_sect k @ ''.'' @ key_opt k) = Some st" using st(1) key_split [OF k(1)] by simp
  have g2: "ini_good cfg f2" by (rule ini_set_good [OF g1 mk k(2) f2])
  have h2: "ini_has f2 (dn @ [k])" "map fst f2 = map fst f1" using ini_set_has [OF h1 f2 k(2)] by auto
  have "\<exists>f'. save_keys env cfg keys (Some (key_sect k)) f2 = Inr f' \<and> set (map fst f') = key_sect ` set ((dn @ [k]) @ keys)
    \<and> ini_good cfg f' \<and> ini_has f' ((dn @ [k]) @ keys)"
    by (rule Cons.IH) (use Cons.prems(1-3) s1 g2 h2 in simp_all)
  then show ?case using split_key [OF k(1)] g f1 f2 by simp
qed simp

lemma save_aliases_frame:
  assumes "''aliases'' \<in> set (map fst f)"
  shows "\<exists>f'. save_aliases als f = Inr f' \<and> (\<forall>s os. s \<noteq> ''aliases'' \<longrightarrow> (s, os) \<in> set f' \<longleftrightarrow> (s, os) \<in> set f)"
  using assms
proof (induction als arbitrary: f)
  case (Cons a als)
  obtain f1 where f1: "ini_set ''aliases'' (al_alias a) (al_command a) f = Inr f1"
    and e: "f1 = map (\<lambda>(s', os). if s' = ''aliases'' then (s', AList.update (lower (al_alias a)) (al_command a) os) else (s', os)) f"
    using Cons.prems by (simp add: ini_set_def)
  have "map fst f1 = map fst f" unfolding e by (auto intro!: map_cong)
  then obtain f' where "save_aliases als f1 = Inr f'"
    "\<forall>s os. s \<noteq> ''aliases'' \<longrightarrow> (s, os) \<in> set f' \<longleftrightarrow> (s, os) \<in> set f1"
    using Cons.IH [of f1] Cons.prems by auto
  moreover have "(s, os) \<in> set f1 \<longleftrightarrow> (s, os) \<in> set f" if "s \<noteq> ''aliases''" for s os
    using that unfolding e by (auto split: if_splits) force
  ultimately show ?case using f1 by auto
qed simp


section \<open>Restoring, step by step\<close>

lemma interpolate_plain: "CHR ''%'' \<notin> set t \<Longrightarrow> interpolate ref t = Inr t"
  by (induction ref t rule: interpolate.induct) auto

lemma decs_plain: "plain_text (decs x)"
proof -
  have d: "set (nat_digits 10 n) \<subseteq> {c. hex_digit c}" for n
    using hex_digit_nat_digits [of 10 n] by auto
  have h: "\<not> is_space c \<and> c \<noteq> CHR ''%''" if "c \<in> set (decs x)" for c
  proof -
    have "hex_digit c \<or> c = CHR ''-''" using that d by (auto simp: decs_def split: if_splits)
    then show ?thesis using hex_digit_facts(1) [of c] by (auto simp: hex_digit_def is_space_def)
  qed
  then show ?thesis using strip_id by (auto simp: plain_text_def)
qed

lemma upper_True: "upper ''True'' = ''TRUE''" "upper ''False'' = ''FALSE''"
  by code_simp+

lemma storable_restored:
  assumes "storable_value t v"
  shows "bindE (interpolate ref (strip (py_str v))) (restored_value t) = Inr v"
proof -
  have p: "plain_text (py_str v)" if "t \<noteq> TBool"
    using assms that by (cases "(t, v)" rule: storable_value.cases) (auto simp: decs_plain)
  show ?thesis
  proof (cases "t = TBool")
    case True
    with assms obtain b where "v = VBool b" by (cases "(t, v)" rule: storable_value.cases) auto
    with True show ?thesis
      by (cases b) (simp_all add: restored_value_def strip_def lstrip_of_def rstrip_of_def is_space_def
          upper_True)
  next
    case False
    with p have "interpolate ref (strip (py_str v)) = Inr (py_str v)"
      by (simp add: plain_text_def interpolate_plain)
    then show ?thesis using assms False
      by (cases "(t, v)" rule: storable_value.cases) (auto simp: restored_value_def py_int_decs)
  qed
qed

definition cfg_types :: "config \<Rightarrow> string \<Rightarrow> py_type option" where
  "cfg_types cfg k = map_option s_type (map_of cfg k)"

definition cfg_values :: "config \<Rightarrow> string \<Rightarrow> py_val option" where
  "cfg_values cfg k = map_option s_value (map_of cfg k)"

text \<open>A text that restores the value \<^verbatim>\<open>w k\<close> of the setting \<^verbatim>\<open>k\<close>\<close>
definition restores :: "restore_env \<Rightarrow> (string \<Rightarrow> py_type option) \<Rightarrow> (string \<Rightarrow> py_val) \<Rightarrow> string \<Rightarrow> string \<Rightarrow> bool" where
  "restores env ty w k txt =
     (\<forall>t. ty k = Some t \<longrightarrow> bindE (interpolate (re_ref env) txt) (restored_value t) = Inr (w k))"

lemma restore_option_ok:
  assumes "restores env (cfg_types cfg) w (sect @ ''.'' @ opt) txt"
  shows "\<exists>cfg'. restore_option env sect (opt, txt) cfg = (Inr (), cfg') \<and> cfg_types cfg' = cfg_types cfg
    \<and> cfg_values cfg' = (\<lambda>k. if k = sect @ ''.'' @ opt \<and> cfg_types cfg k \<noteq> None then Some (w k) else cfg_values cfg k)"
proof (cases "map_of cfg (sect @ ''.'' @ opt)")
  case None
  then show ?thesis by (auto simp: restore_option_def Let_def cfg_types_def fun_eq_iff)
next
  case (Some s)
  then have "bindE (interpolate (re_ref env) txt) (restored_value (s_type s)) = Inr (w (sect @ ''.'' @ opt))"
    using assms by (simp add: restores_def cfg_types_def)
  then show ?thesis using Some
    by (auto simp: restore_option_def Let_def cfg_types_def cfg_values_def AList.update_conv' fun_eq_iff)
qed

lemma restore_options_ok:
  assumes "\<forall>(opt, txt) \<in> set os. restores env (cfg_types cfg) w (sect @ ''.'' @ opt) txt"
  shows "\<exists>cfg'. foldS (restore_option env sect) os cfg = (Inr (), cfg') \<and> cfg_types cfg' = cfg_types cfg
    \<and> cfg_values cfg' = (\<lambda>k. if (\<exists>opt \<in> fst ` set os. k = sect @ ''.'' @ opt) \<and> cfg_types cfg k \<noteq> None
         then Some (w k) else cfg_values cfg k)"
  using assms
proof (induction os arbitrary: cfg)
  case (Cons p os)
  obtain opt tx where p: "p = (opt, tx)" by (cases p)
  obtain c1 where c1: "restore_option env sect p cfg = (Inr (), c1)" "cfg_types c1 = cfg_types cfg"
    "cfg_values c1 = (\<lambda>k. if k = sect @ ''.'' @ opt \<and> cfg_types cfg k \<noteq> None then Some (w k) else cfg_values cfg k)"
    using restore_option_ok [of env cfg w sect opt tx] Cons.prems p by auto
  obtain c2 where "foldS (restore_option env sect) os c1 = (Inr (), c2)" "cfg_types c2 = cfg_types c1"
    "cfg_values c2 = (\<lambda>k. if (\<exists>opt \<in> fst ` set os. k = sect @ ''.'' @ opt) \<and> cfg_types c1 k \<noteq> None
         then Some (w k) else cfg_values c1 k)"
    using Cons.IH [of c1] Cons.prems c1(2) by auto
  then show ?case using c1 p by (auto simp: bindS_def fun_eq_iff)
qed (simp add: retS_def)

lemma restore_sections_ok:
  assumes "\<forall>(s, os) \<in> set f. s \<noteq> ''aliases'' \<longrightarrow>
      (\<forall>(opt, txt) \<in> set os. restores env (cfg_types cfg) w (s @ ''.'' @ opt) txt)"
  shows "\<exists>cfg' als'. restore_sections b env f (cfg, als) = (Inr (), (cfg', als')) \<and> cfg_types cfg' = cfg_types cfg
    \<and> cfg_values cfg' = (\<lambda>k. if (\<exists>(s, os) \<in> set f. s \<noteq> ''aliases'' \<and> (\<exists>opt \<in> fst ` set os. k = s @ ''.'' @ opt))
           \<and> cfg_types cfg k \<noteq> None then Some (w k) else cfg_values cfg k)"
  using assms
proof (induction f arbitrary: cfg als)
  case (Cons p f)
  obtain s os where p: "p = (s, os)" by (cases p)
  show ?case
  proof (cases "s = ''aliases''")
    case True
    then show ?thesis using Cons.IH [of cfg "fold (restore_alias b env) os als"] Cons.prems p by simp
  next
    case False
    obtain c1 where c1: "foldS (restore_option env s) os cfg = (Inr (), c1)" "cfg_types c1 = cfg_types cfg"
      "cfg_values c1 = (\<lambda>k. if (\<exists>opt \<in> fst ` set os. k = s @ ''.'' @ opt) \<and> cfg_types cfg k \<noteq> None
         then Some (w k) else cfg_values cfg k)"
      using restore_options_ok [of os env cfg w s] Cons.prems p False by auto
    show ?thesis using Cons.IH [of c1 als] Cons.prems c1 p False by (auto simp: fun_eq_iff)
  qed
qed simp


section \<open>Properties\<close>

text \<open>What a saved file holds: the texts of the settings and nothing else outside the section of the aliases, and each
  setting at its key\<close>
lemma saved_file:
  assumes "\<forall>(k, s) \<in> set cfg. key_ok k \<and> storable s"
  shows "\<exists>f. save_config env cfg als = Inr f
    \<and> (\<forall>s os opt t. (s, os) \<in> set f \<longrightarrow> s \<noteq> ''aliases'' \<longrightarrow> (opt, t) \<in> set os
        \<longrightarrow> (\<exists>st. map_of cfg (s @ ''.'' @ opt) = Some st \<and> t = py_str (s_value st)))
    \<and> (\<forall>k \<in> set (map fst cfg). \<exists>os. (key_sect k, os) \<in> set f \<and> key_opt k \<in> fst ` set os)"
proof -
  let ?ks = "sort (map fst cfg)"
  have cfg: "map_of cfg k = Some s \<Longrightarrow> key_ok k \<and> storable s" for k s
    using assms(1) by (auto dest: map_of_SomeD)
  have "\<exists>f'. save_keys env cfg ?ks None [] = Inr f' \<and> set (map fst f') = key_sect ` set ([] @ ?ks)
    \<and> ini_good cfg f' \<and> ini_has f' ([] @ ?ks)"
  proof (rule save_keys_ok)
    show "\<forall>k \<in> set ?ks. \<exists>s. map_of cfg k = Some s \<and> storable s"
      using cfg by (auto simp: weak_map_of_SomeI) (metis weak_map_of_SomeI)
  qed (use assms(1) in \<open>auto simp: ini_good_def ini_has_def\<close>)
  then obtain f1 where f1: "save_keys env cfg ?ks None [] = Inr f1" "set (map fst f1) = key_sect ` set ?ks"
    "ini_good cfg f1" "ini_has f1 ?ks" by auto
  have na: "''aliases'' \<notin> set (map fst f1)" using f1(2) assms(1) by (auto simp: key_ok_def)
  obtain f where f: "save_aliases als (f1 @ [(''aliases'', [])]) = Inr f"
    and fr: "\<And>s os. s \<noteq> ''aliases'' \<Longrightarrow> (s, os) \<in> set f \<longleftrightarrow> (s, os) \<in> set (f1 @ [(''aliases'', [])])"
    using save_aliases_frame [of "f1 @ [(''aliases'', [])]" als] by auto
  have fin: "(s, os) \<in> set f \<longleftrightarrow> (s, os) \<in> set f1" if "s \<noteq> ''aliases''" for s os
    using fr [OF that, of os] that by simp
  have "save_config env cfg als = Inr f"
    using f1(1) na f by (simp add: save_config_def ini_add_section_def)
  moreover have "\<exists>st. map_of cfg (s @ ''.'' @ opt) = Some st \<and> t = py_str (s_value st)"
    if "(s, os) \<in> set f" "s \<noteq> ''aliases''" "(opt, t) \<in> set os" for s os opt t
    using ini_goodD [OF f1(3) _ that(3)] fin [OF that(2)] that(1) by blast
  moreover have "\<exists>os. (key_sect k, os) \<in> set f \<and> key_opt k \<in> fst ` set os" if "k \<in> set (map fst cfg)" for k
  proof -
    have "key_sect k \<noteq> ''aliases''" using that assms(1) by (auto simp: key_ok_def)
    then show ?thesis using f1(4) that fin unfolding ini_has_def by (metis set_sort)
  qed
  ultimately show ?thesis by blast
qed

lemma reread_key:
  assumes "\<exists>os. (key_sect k, os) \<in> set f \<and> key_opt k \<in> fst ` set os" "key_ok k"
  shows "\<exists>(s, os) \<in> set (ini_reread f). s \<noteq> ''aliases'' \<and> (\<exists>opt \<in> fst ` set os. k = s @ ''.'' @ opt)"
proof -
  obtain os where os: "(key_sect k, os) \<in> set f" "key_opt k \<in> fst ` set os" using assms(1) by blast
  have "(key_sect k, map (\<lambda>(opt, v). (opt, strip v)) os) \<in> set (ini_reread f)" using os(1) by (force simp: ini_reread_def)
  moreover have "key_opt k \<in> fst ` set (map (\<lambda>(opt, v). (opt, strip v)) os)" using os(2) by force
  moreover have "k = key_sect k @ ''.'' @ key_opt k" using assms(2) key_split by (simp add: key_ok_def)
  ultimately show ?thesis using assms(2) unfolding key_ok_def by blast
qed



definition demo_config :: config where
  "demo_config =
     [(''gef.debug'', \<lparr>s_value = VBool True, s_type = TBool, s_desc = ''Enable debug mode'', s_on_read = [], s_on_write = []\<rparr>),
      (''gef-x.n'', \<lparr>s_value = VInt (- 5), s_type = TInt, s_desc = ''A number'', s_on_read = [], s_on_write = []\<rparr>),
      (''gef.a'', \<lparr>s_value = VStr ''0x7f = x'', s_type = TStr, s_desc = ''A text'', s_on_read = [], s_on_write = []\<rparr>)]"


text \<open>Fact: a value refused by a write hook is stored all the same: the value is set before the hooks
  run, so after \<^verbatim>\<open>gef config\<close> reports the error the setting holds the refused value and the caches
  are not reset.\<close>
theorem refused_value_stays:
  assumes "key_sect key \<in> set commands" "CHR ''.'' \<in> set key" "map_of (cs_cfg s) key = Some st"
    and "s_type st = TStr" "NoSpaces = hd (s_on_write st)" "s_on_write st \<noteq> []" "CHR '' '' \<in> set v"
  shows "\<exists>s' l. config_invoke env b False ttl commands [key, v] s = (Inr (), s')
    \<and> cfg_values (cs_cfg s') key = Some (VStr v) \<and> cs_out s' = cs_out s @ [l] \<and> cs_resets s' = cs_resets s"
proof -
  have dot: "str_in ''.'' key" and sp: "str_in '' '' v"
    using assms(2,7) by (simp_all add: str_in_char)
  have h: "run_hooks (run_write_hook env (Val (VStr v))) (s_on_write st) =
      raise ValueError ''setting cannot contain spaces''"
    using assms(5,6) sp by (cases "s_on_write st") (simp_all add: no_spaces_def)
  have "set_setting env b commands key v s = (raise ValueError ''setting cannot contain spaces'',
      s\<lparr>cs_cfg := AList.update key (st\<lparr>s_value := VStr v\<rparr>) (cs_cfg s)\<rparr>)"
    using assms(1-4) dot h split_key [OF assms(2)]
    by (simp add: set_setting_def Let_def parse_setting_def cfg_set_def)
  then show ?thesis
    by (simp add: config_invoke_def say_def cfg_values_def AList.update_conv')
qed

theorem refused_value_stays_witness:
  "\<exists>s' l. config_invoke \<lparr>mkdir_tree = \<lambda>_. Inr (), callback = \<lambda>_ _. Inr ()\<rparr> True False id [''gef''] [''gef.d'', ''a b'']
      \<lparr>cs_cfg = [(''gef.d'', \<lparr>s_value = VStr [], s_type = TStr, s_desc = ''x'', s_on_read = [], s_on_write = [NoSpaces]\<rparr>)],
       cs_out = [], cs_resets = 0\<rparr> = (Inr (), s')
    \<and> cfg_values (cs_cfg s') ''gef.d'' = Some (VStr ''a b'') \<and> cs_out s' = [] @ [l] \<and> cs_resets s' = 0"
  using refused_value_stays [of "''gef.d''" "[''gef'']"
    "\<lparr>cs_cfg = [(''gef.d'', \<lparr>s_value = VStr [], s_type = TStr, s_desc = ''x'', s_on_read = [], s_on_write = [NoSpaces]\<rparr>)],
       cs_out = [], cs_resets = 0\<rparr>"
    "\<lparr>s_value = VStr [], s_type = TStr, s_desc = ''x'', s_on_read = [], s_on_write = [NoSpaces]\<rparr>" "''a b''"
    "\<lparr>mkdir_tree = \<lambda>_. Inr (), callback = \<lambda>_ _. Inr ()\<rparr>" True id]
  by (simp add: key_sect_def)


text \<open>A value has its setting's declared type; a path object has a subclass of the declared one\<close>
definition well_typed :: "setting \<Rightarrow> bool" where
  "well_typed s = (type_of (s_value s) = s_type s \<or> (s_type s = TPath \<and> type_of (s_value s) = TPosixPath))"

definition typed_config :: "config \<Rightarrow> bool" where
  "typed_config cfg = (\<forall>p \<in> set cfg. well_typed (snd p))"

lemma coerce_type: "coerce t v = Inr w \<Longrightarrow> type_of w = t \<or> (t = TPath \<and> type_of w = TPosixPath)"
  by (cases t) (auto simp: type_error_def result_simps split: py_val.splits)

lemma typed_update:
  assumes "typed_config cfg" "map_of cfg k = Some st" "type_of v = s_type st \<or> (s_type st = TPath \<and> type_of v = TPosixPath)"
  shows "typed_config (AList.update k (st\<lparr>s_value := v\<rparr>) cfg)
    \<and> cfg_types (AList.update k (st\<lparr>s_value := v\<rparr>) cfg) = cfg_types cfg"
  using assms set_update_subset [of k "st\<lparr>s_value := v\<rparr>" cfg]
  by (auto simp: typed_config_def well_typed_def cfg_types_def AList.update_conv' fun_eq_iff)

lemma restore_option_typed:
  assumes "typed_config cfg" "restore_option env sect p cfg = (r, cfg')"
  shows "typed_config cfg' \<and> cfg_types cfg' = cfg_types cfg"
proof -
  have "type_of w = t \<or> (t = TPath \<and> type_of w = TPosixPath)" if "restored_value t x = Inr w" for t x w
    using that coerce_type by (auto simp: restored_value_def split: if_splits)
  then show ?thesis using assms typed_update [OF assms(1)]
    by (auto simp: restore_option_def Let_def result_simps split: prod.splits option.splits sum.splits)
qed

lemma restore_options_typed:
  "typed_config cfg \<Longrightarrow> foldS (restore_option env sect) os cfg = (r, cfg') \<Longrightarrow>
     typed_config cfg' \<and> cfg_types cfg' = cfg_types cfg"
proof (induction os arbitrary: cfg)
  case (Cons p os)
  obtain r1 c1 where c1: "restore_option env sect p cfg = (r1, c1)" by fastforce
  show ?case using Cons restore_option_typed [OF Cons.prems(1) c1] c1
    by (cases r1) (auto simp: bindS_def)
qed (simp add: retS_def)

lemma restore_sections_typed:
  "typed_config cfg \<Longrightarrow> restore_sections b env f (cfg, als) = (r, (cfg', als')) \<Longrightarrow>
     typed_config cfg' \<and> cfg_types cfg' = cfg_types cfg"
proof (induction f arbitrary: cfg als)
  case (Cons p f)
  obtain s os where p: "p = (s, os)" by (cases p)
  obtain r1 c1 where c1: "foldS (restore_option env s) os cfg = (r1, c1)" by fastforce
  show ?case using Cons p restore_options_typed [OF Cons.prems(1) c1] c1
    by (cases "s = ''aliases''"; cases r1) auto
qed simp

lemma set_setting_typed:
  assumes "typed_config (cs_cfg s)" "set_setting env b commands key v s = (r, s')"
  shows "typed_config (cs_cfg s') \<and> cfg_types (cs_cfg s') = cfg_types (cs_cfg s)"
proof (cases "cs_cfg s' = cs_cfg s")
  case False
  then obtain st x w where st: "map_of (cs_cfg s) key = Some st" "coerce (s_type st) x = Inr w"
    and c: "cs_cfg s' = AList.update key (st\<lparr>s_value := w\<rparr>) (cs_cfg s)"
    using assms(2) by (auto simp: set_setting_def say_def Let_def cfg_set_def
        split: if_splits option.splits sum.splits)
  show ?thesis unfolding c by (rule typed_update [OF assms(1) st(1) coerce_type [OF st(2)]])
qed (use assms(1) in simp)

lemma print_setting_cfg: "print_setting env b n verbose s = (r, s') \<Longrightarrow> cs_cfg s' = cs_cfg s"
  by (auto simp: print_setting_def Let_def say_def state_simps split: sum.splits prod.splits if_splits)

lemma print_many_cfg:
  "foldS (\<lambda>n. print_setting env b n False) ns s = (r, s') \<Longrightarrow> cs_cfg s' = cs_cfg s"
proof (induction ns arbitrary: s)
  case (Cons n ns)
  obtain r1 s1 where s1: "print_setting env b n False s = (r1, s1)" by fastforce
  show ?case using Cons s1 print_setting_cfg [OF s1] by (cases r1) (auto simp: bindS_def)
qed (simp add: retS_def)



section \<open>The settings of a command\<close>

lemma str_replace_clears: "CHR '' '' \<notin> set (str_replace '' '' ''-'' s)"
proof (induction s)
  case (Cons c s)
  then show ?case by (simp add: startswith_def)
qed simp

text \<open>Fact: a command whose name has a space stores its settings under the name with hyphens, but
  lists those that start with the name itself: the setting it has just stored is there, and its
  list of settings is empty.\<close>
theorem spaced_command_lists_nothing:
  assumes "CHR '' '' \<in> set cmdline" "\<forall>k \<in> set (map fst cfg). CHR '' '' \<notin> set k" "CHR '' '' \<notin> set name"
    and "d \<noteq> []" "gc_setitem env True cmdline name (VTuple [v, VStr d]) cfg = (Inr (), cfg')"
  shows "gc_contains cmdline cfg' name \<and> gc_settings cmdline cfg' = []"
proof -
  let ?key = "gc_setting_name cmdline name"
  have nosp: "CHR '' '' \<notin> set ?key" using str_replace_clears assms(3) by (simp add: gc_setting_name_def)
  obtain st where c: "cfg' = AList.update ?key st cfg"
    using assms(4,5) by (auto simp: gc_setitem_def Let_def setting_init_def cfg_set_def split: option.splits)
  have keys: "set (map fst cfg') = insert ?key (set (map fst cfg))"
    unfolding c by (simp add: AList.dom_update)
  have "\<not> startswith k cmdline" if "k \<in> set (map fst cfg')" for k
  proof -
    have "CHR '' '' \<notin> set k" using that keys assms(2) nosp by auto
    then show ?thesis using assms(1) unfolding startswith_def by (metis in_set_takeD)
  qed
  then have "gc_settings cmdline cfg' = []" by (auto simp: gc_settings_def filter_empty_conv)
  moreover have "gc_contains cmdline cfg' name" using keys by (simp add: gc_contains_def)
  ultimately show ?thesis by simp
qed

theorem spaced_command_lists_nothing_witness:
  "\<exists>cfg'. gc_setitem \<lparr>mkdir_tree = \<lambda>_. Inr (), callback = \<lambda>_ _. Inr ()\<rparr> True ''heap chunks'' ''peek''
     (VTuple [VInt 16, VStr ''Bytes'']) [] = (Inr (), cfg') \<and> gc_contains ''heap chunks'' cfg' ''peek''
     \<and> gc_settings ''heap chunks'' cfg' = []"
proof -
  obtain r cfg' where s: "gc_setitem \<lparr>mkdir_tree = \<lambda>_. Inr (), callback = \<lambda>_ _. Inr ()\<rparr> True ''heap chunks'' ''peek''
     (VTuple [VInt 16, VStr ''Bytes'']) [] = (r, cfg')" by fastforce
  then have r: "r = Inr ()" by (auto simp: gc_setitem_def Let_def setting_init_def cfg_set_def)
  show ?thesis using spaced_command_lists_nothing [OF _ _ _ _ s [unfolded r]] s r by simp
qed

end
