(* ===== verification/Commands.thy ===== *)
theory Commands
  imports Aliases "HOL-Library.List_Lexorder" "HOL-Library.Char_ord" "HOL-Library.Multiset"
begin

text \<open>
  The commands of \<^verbatim>\<open>scripts/gef.py\<close>: the registry filled by the decorator \<^verbatim>\<open>register\<close>, and
  \<^verbatim>\<open>GefCommand\<close>, which instantiates the registered classes (a constructor may raise) and keeps
  the loaded commands, the functions and the missing ones; the help text built from them.
\<close>

section \<open>The registry\<close>

record command_class =
  cc_cmdline :: string
  cc_aliases :: "string list"

record registry =
  reg_commands :: "command_class list"
  reg_functions :: "string list"

datatype registrable = CommandClass command_class | FunctionClass string | OtherClass string

definition register :: "registrable \<Rightarrow> (registry, unit) stm" where
  "register c reg =
     (case c of
        CommandClass cls \<Rightarrow>
          if list_ex (\<lambda>x. cc_cmdline x = cc_cmdline cls) (reg_commands reg)
          then (raise AlreadyRegistered (cc_cmdline cls), reg)
          else (Inr (), reg\<lparr>reg_commands := reg_commands reg @ [cls]\<rparr>)
      | FunctionClass f \<Rightarrow>
          if f \<in> set (reg_functions reg) then (raise AlreadyRegistered f, reg)
          else (Inr (), reg\<lparr>reg_functions := reg_functions reg @ [f]\<rparr>)
      | OtherClass n \<Rightarrow> (raise TypeError (n @ '' is an illegal class for `register`''), reg))"

abbreviation reg_names :: "registry \<Rightarrow> string list" where
  "reg_names reg \<equiv> map cc_cmdline (reg_commands reg)"

section \<open>Loading\<close>

text \<open>What loading relies on: the constructors of commands and functions, and GDB's answer when an
  alias is registered\<close>
record load_env =
  le_init :: "string \<Rightarrow> loaded_command result"
  le_function :: "string \<Rightarrow> unit result"
  le_register :: "string \<Rightarrow> unit result"
  le_no_color :: bool

record gdb_state =
  g_commands :: "loaded_command dict"
  g_functions :: "string list"
  g_missing :: "py_exn dict"
  g_aliases :: "gef_alias list"

fun load_functions :: "load_env \<Rightarrow> string list \<Rightarrow> (gdb_state, unit) stm" where
  "load_functions env [] s = (Inr (), s)"
| "load_functions env (f # fs) s =
     (case le_function env f of
        Inl e \<Rightarrow> (Inl e, s)
      | Inr _ \<Rightarrow> load_functions env fs (s\<lparr>g_functions := g_functions s @ [f]\<rparr>))"

text \<open>The aliases of a command are made before the command counts as loaded\<close>
fun load_aliases :: "load_env \<Rightarrow> string \<Rightarrow> string list \<Rightarrow> (gdb_state, unit) stm" where
  "load_aliases env name [] s = (Inr (), s)"
| "load_aliases env name (a # as) s =
     (case alias_init (le_no_color env) (le_register env) (g_commands s) a name (g_aliases s) of
        (Inl e, als) \<Rightarrow> (Inl e, s\<lparr>g_aliases := als\<rparr>)
      | (Inr _, als) \<Rightarrow> load_aliases env name as (s\<lparr>g_aliases := als\<rparr>))"

definition load_command :: "load_env \<Rightarrow> command_class \<Rightarrow> gdb_state \<Rightarrow> gdb_state" where
  "load_command env cls s =
     (let name = cc_cmdline cls in
      case le_init env name of
        Inl e \<Rightarrow> s\<lparr>g_missing := AList.update name e (g_missing s)\<rparr>
      | Inr inst \<Rightarrow>
          (case load_aliases env name (cc_aliases cls) s of
             (Inl e, s') \<Rightarrow> s'\<lparr>g_missing := AList.update name e (g_missing s')\<rparr>
           | (Inr _, s') \<Rightarrow> s'\<lparr>g_commands := AList.update name inst (g_commands s')\<rparr>))"

text \<open>The registered commands that are not loaded yet, in the order of their names\<close>
definition new_commands :: "registry \<Rightarrow> gdb_state \<Rightarrow> command_class list" where
  "new_commands reg s =
     sort_key cc_cmdline (filter (\<lambda>c. cc_cmdline c \<notin> set (map fst (g_commands s))) (reg_commands reg))"

definition new_functions :: "registry \<Rightarrow> gdb_state \<Rightarrow> string list" where
  "new_functions reg s = sort (filter (\<lambda>f. f \<notin> set (g_functions s)) (reg_functions reg))"

definition load :: "load_env \<Rightarrow> registry \<Rightarrow> (gdb_state, unit) stm" where
  "load env reg s0 =
     (let s = s0\<lparr>g_missing := []\<rparr> in
      case load_functions env (new_functions reg s0) s of
        (Inl e, s1) \<Rightarrow> (Inl e, s1)
      | (Inr _, s1) \<Rightarrow> (Inr (), fold (load_command env) (new_commands reg s0) s1))"

text \<open>Sourcing the files of the plugin directory, in the order of the listing; \<^verbatim>\<open>source\<close> is what GDB
  does with one file: it may register classes and may raise.  The result tells for every file
  whether it loaded, with the warnings printed.\<close>
fun load_plugins :: "bool \<Rightarrow> (string \<Rightarrow> (registry, unit) stm) \<Rightarrow> string list \<Rightarrow> registry \<Rightarrow> bool list \<times> string list \<times> registry" where
  "load_plugins b source [] reg = ([], [], reg)"
| "load_plugins b source (p # ps) reg =
     (let (r, reg1) = source p reg;
          (ok1, w) = (case r of
             Inr _ \<Rightarrow> (True, [])
           | Inl e \<Rightarrow> if exn_cls e = AlreadyRegistered then (True, [])
                      else (False, [warn_line b (''Exception while loading '' @ p @ '': '' @ exn_msg e)]));
          (oks, ws, reg2) = load_plugins b source ps reg1
      in (ok1 # oks, w @ ws, reg2))"

text \<open>\<^verbatim>\<open>load_extra_plugins\<close>: the number of commands added, the lines printed, the registry and the
  loaded commands.  \<^verbatim>\<open>took\<close> is the printed time; an exception while loading is GDB's only if it is
  caught here.\<close>
definition load_extra_plugins ::
  "load_env \<Rightarrow> (string \<Rightarrow> (registry, unit) stm) \<Rightarrow> string \<Rightarrow> string \<Rightarrow> string list \<Rightarrow> registry \<Rightarrow> gdb_state
     \<Rightarrow> int result \<times> string list \<times> registry \<times> gdb_state" where
  "load_extra_plugins env source took dir listing reg s =
     (if dir = [] then (Inr 0, [], reg, s)
      else let b = le_no_color env; (oks, ws, reg1) = load_plugins b source listing reg;
               nb = int (length (reg_commands reg1)) - int (length (reg_commands reg))
           in if nb \<le> 0 then (Inr nb, ws, reg1, s)
              else case load env reg1 s of
                (Inl e, s1) \<Rightarrow>
                  if exn_cls e \<in> {GdbError, GdbMemoryError}
                  then (Inr nb, ws @ [err_line b (''failed: '' @ exn_msg e)], reg1, s1)
                  else (Inl e, ws, reg1, s1)
              | (Inr _, s1) \<Rightarrow>
                  (let failed = int (length (reg_commands reg1)) - int (length (g_commands s1)) in
                   (Inr nb, ws @ ok_line b (colorify b (decs nb) ''bold green'' @ '' extra commands added in ''
                        @ took @ '' seconds'')
                      # (if failed \<noteq> 0
                         then [warn_line b (colorify b (decs failed) ''bold light_gray''
                           @ '' extra commands/functions failed to be added. Check `gef missing` to know why'')]
                         else []), reg1, s1)))"

text \<open>\<^verbatim>\<open>gef missing\<close>\<close>
definition missing_lines :: "bool \<Rightarrow> py_exn dict \<Rightarrow> string list" where
  "missing_lines b ms =
     (if ms = [] then [ok_line b ''No missing command'']
      else map (\<lambda>(c, e). warn_line b (''Missing `'' @ c @ ''`, reason: '' @ exn_msg e)) ms)"

section \<open>The help\<close>

record help_state =
  h_docs :: "string list"
  h_refresh :: bool
  h_size :: nat
  h_text :: string

text \<open>The entry of one command, none for a subcommand\<close>
definition help_entry :: "bool \<Rightarrow> (string \<Rightarrow> string list) \<Rightarrow> string \<times> loaded_command \<Rightarrow> string list" where
  "help_entry b aliases_of = (\<lambda>(cmd, inst).
     if str_in '' '' cmd then []
     else [colorify b cmd ''bold red'' @ [CHR 0x0A] @ lstrip_of is_space (lc_doc inst) @ [CHR 0x0A]
           @ ''Aliases: '' @ join '', '' (aliases_of cmd)])"

text \<open>\<^verbatim>\<open>__rebuild\<close>: the entries are added to the list, which is not emptied before\<close>
definition help_rebuild :: "bool \<Rightarrow> (string \<Rightarrow> string list) \<Rightarrow> nat \<Rightarrow> loaded_command dict \<Rightarrow> help_state \<Rightarrow> help_state" where
  "help_rebuild b aliases_of cols cmds h =
     (let docs = h_docs h @ concat (map (help_entry b aliases_of) cmds);
          sep = [CHR 0x0A] @ concat (replicate cols HORIZONTAL_LINE) @ [CHR 0x0A]
      in \<lparr>h_docs = docs, h_refresh = False, h_size = length cmds, h_text = join sep (sort docs)\<rparr>)"

definition help_str :: "bool \<Rightarrow> (string \<Rightarrow> string list) \<Rightarrow> nat \<Rightarrow> loaded_command dict \<Rightarrow> help_state \<Rightarrow> string \<times> help_state" where
  "help_str b aliases_of cols cmds h =
     (let h' = (if h_refresh h \<or> h_size h \<noteq> length cmds then help_rebuild b aliases_of cols cmds h else h)
      in (h_text h', h'))"

section \<open>Lemmas\<close>

lemma register_distinct:
  "distinct (reg_names reg) \<Longrightarrow> register c reg = (r, reg') \<Longrightarrow> distinct (reg_names reg')"
  by (cases c; auto simp: register_def list_ex_iff split: if_splits; blast)

lemma load_aliases_frame:
  "load_aliases env name as s = (r, s') \<Longrightarrow> g_commands s' = g_commands s \<and> g_missing s' = g_missing s"
  by (induction env name as s rule: load_aliases.induct) (auto split: prod.splits sum.splits)

lemma load_functions_frame:
  "load_functions env fs s = (r, s') \<Longrightarrow> g_commands s' = g_commands s \<and> g_missing s' = g_missing s
     \<and> g_aliases s' = g_aliases s"
  by (induction env fs s rule: load_functions.induct) (auto split: sum.splits)

definition loaded_names :: "gdb_state \<Rightarrow> string set" where "loaded_names s = fst ` set (g_commands s)"
definition missing_names :: "gdb_state \<Rightarrow> string set" where "missing_names s = fst ` set (g_missing s)"

lemma fst_update: "fst ` set (AList.update k v al) = insert k (fst ` set al)"
  by (simp add: dom_map_of_conv_image_fst [symmetric] AList.update_conv' insert_commute)

text \<open>Loading one command puts its name on exactly one of the two sides\<close>
lemma load_command_names:
  "(loaded_names (load_command env c s) = insert (cc_cmdline c) (loaded_names s)
      \<and> missing_names (load_command env c s) = missing_names s)
   \<or> (loaded_names (load_command env c s) = loaded_names s
      \<and> missing_names (load_command env c s) = insert (cc_cmdline c) (missing_names s))"
proof (cases "le_init env (cc_cmdline c)")
  case (Inr inst)
  obtain r s' where l: "load_aliases env (cc_cmdline c) (cc_aliases c) s = (r, s')" by fastforce
  show ?thesis using Inr l load_aliases_frame [OF l]
    by (cases r) (simp_all add: load_command_def loaded_names_def missing_names_def fst_update)
qed (simp add: load_command_def loaded_names_def missing_names_def fst_update)

lemma load_commands_names:
  assumes "distinct (map cc_cmdline cs)" "cc_cmdline ` set cs \<inter> (loaded_names s \<union> missing_names s) = {}"
    and "loaded_names s \<inter> missing_names s = {}"
  shows "loaded_names (fold (load_command env) cs s) \<union> missing_names (fold (load_command env) cs s)
      = loaded_names s \<union> missing_names s \<union> cc_cmdline ` set cs
    \<and> loaded_names (fold (load_command env) cs s) \<inter> missing_names (fold (load_command env) cs s) = {}
    \<and> loaded_names s \<subseteq> loaded_names (fold (load_command env) cs s)"
  using assms
proof (induction cs arbitrary: s)
  case (Cons c cs)
  let ?s = "load_command env c s"
  have a: "loaded_names ?s \<union> missing_names ?s = insert (cc_cmdline c) (loaded_names s \<union> missing_names s)"
    "loaded_names ?s \<inter> missing_names ?s = {}" "loaded_names s \<subseteq> loaded_names ?s"
    using load_command_names [of env c s] Cons.prems(2,3) by auto
  have "cc_cmdline ` set cs \<inter> (loaded_names ?s \<union> missing_names ?s) = {}"
    using Cons.prems a(1) by auto
  moreover have "distinct (map cc_cmdline cs)" using Cons.prems(1) by simp
  ultimately have IH: "loaded_names (fold (load_command env) cs ?s) \<union> missing_names (fold (load_command env) cs ?s)
      = loaded_names ?s \<union> missing_names ?s \<union> cc_cmdline ` set cs
    \<and> loaded_names (fold (load_command env) cs ?s) \<inter> missing_names (fold (load_command env) cs ?s) = {}
    \<and> loaded_names ?s \<subseteq> loaded_names (fold (load_command env) cs ?s)"
    using Cons.IH [OF _ _ a(2)] by blast
  then show ?case using a(3) by (simp add: a(1)) blast
qed simp

section \<open>Properties\<close>

text \<open>C9: when the registered commands have different names, loading leaves every registered command
  either loaded or missing and never both, and keeps what was loaded before.\<close>
theorem load_partitions_commands:
  assumes "distinct (reg_names reg)" "load env reg s = (Inr (), s')"
  shows "loaded_names s' \<union> missing_names s' = loaded_names s \<union> set (reg_names reg)
    \<and> loaded_names s' \<inter> missing_names s' = {} \<and> loaded_names s \<subseteq> loaded_names s'"
proof -
  obtain r s1 where f: "load_functions env (new_functions reg s) (s\<lparr>g_missing := []\<rparr>) = (r, s1)" by fastforce
  have s': "s' = fold (load_command env) (new_commands reg s) s1"
    using assms(2) f by (cases r) (simp_all add: load_def Let_def)
  have s1: "loaded_names s1 = loaded_names s" "missing_names s1 = {}"
    using load_functions_frame [OF f] by (simp_all add: loaded_names_def missing_names_def)
  let ?cs = "new_commands reg s"
  have set_cs: "set ?cs = {c \<in> set (reg_commands reg). cc_cmdline c \<notin> loaded_names s}"
    by (auto simp: new_commands_def loaded_names_def)
  have "mset (map cc_cmdline ?cs) = mset (map cc_cmdline
      (filter (\<lambda>c. cc_cmdline c \<notin> set (map fst (g_commands s))) (reg_commands reg)))"
    by (simp add: new_commands_def)
  then have "distinct (map cc_cmdline ?cs)"
    using assms(1) by (metis mset_eq_imp_distinct_iff distinct_map_filter)
  moreover have "cc_cmdline ` set ?cs \<inter> (loaded_names s1 \<union> missing_names s1) = {}"
    using s1 set_cs by auto
  ultimately have "loaded_names s' \<union> missing_names s' = loaded_names s \<union> cc_cmdline ` set ?cs"
    "loaded_names s' \<inter> missing_names s' = {}" "loaded_names s \<subseteq> loaded_names s'"
    using load_commands_names [of ?cs s1 env] s1 unfolding s' by simp_all
  moreover have "loaded_names s \<union> cc_cmdline ` set ?cs = loaded_names s \<union> set (reg_names reg)"
    unfolding set_cs by auto
  ultimately show ?thesis by simp
qed

theorem load_partitions_commands_witness:
  "\<exists>s'. load \<lparr>le_init = \<lambda>n. if n = ''vmmap'' then raise RuntimeError ''no'' else Inr \<lparr>lc_doc = [], lc_complete = False\<rparr>,
       le_function = \<lambda>_. Inr (), le_register = \<lambda>_. Inr (), le_no_color = True\<rparr>
     \<lparr>reg_commands = [\<lparr>cc_cmdline = ''vmmap'', cc_aliases = []\<rparr>, \<lparr>cc_cmdline = ''heap'', cc_aliases = []\<rparr>],
      reg_functions = []\<rparr> \<lparr>g_commands = [], g_functions = [], g_missing = [], g_aliases = []\<rparr> = (Inr (), s')
   \<and> loaded_names s' \<union> missing_names s' = {''vmmap'', ''heap''}"
proof -
  let ?env = "\<lparr>le_init = \<lambda>n. if n = ''vmmap'' then raise RuntimeError ''no'' else Inr \<lparr>lc_doc = [], lc_complete = False\<rparr>,
       le_function = \<lambda>_. Inr (), le_register = \<lambda>_. Inr (), le_no_color = True\<rparr>"
  let ?reg = "\<lparr>reg_commands = [\<lparr>cc_cmdline = ''vmmap'', cc_aliases = []\<rparr>, \<lparr>cc_cmdline = ''heap'', cc_aliases = []\<rparr>],
      reg_functions = []\<rparr>"
  let ?s = "\<lparr>g_commands = [], g_functions = [], g_missing = [], g_aliases = []\<rparr>"
  obtain s' where l: "load ?env ?reg ?s = (Inr (), s')" by (simp add: load_def new_functions_def)
  have d: "distinct (reg_names ?reg)" by simp
  show ?thesis using load_partitions_commands [OF d l] l by (auto simp: loaded_names_def)
qed

text \<open>Fact: the help text repeats itself: when the number of commands has changed since the help was
  built, the entries of all commands are added to those already there.\<close>
theorem help_entries_accumulate:
  assumes "help_str b al cols cmds h = (t, h1)" "h_refresh h" "h_docs h = []"
    and "length cmds2 \<noteq> length cmds" "help_str b al cols cmds2 h1 = (t2, h2)"
  shows "h_docs h2 = concat (map (help_entry b al) cmds) @ concat (map (help_entry b al) cmds2)"
  using assms by (auto simp: help_str_def help_rebuild_def Let_def)

theorem help_entries_accumulate_witness:
  "h_docs (snd (help_str True (\<lambda>_. []) 1 [(''a'', \<lparr>lc_doc = [], lc_complete = False\<rparr>), (''b'', \<lparr>lc_doc = [], lc_complete = False\<rparr>)]
      (snd (help_str True (\<lambda>_. []) 1 [(''a'', \<lparr>lc_doc = [], lc_complete = False\<rparr>)]
        \<lparr>h_docs = [], h_refresh = True, h_size = 0, h_text = []\<rparr>))))
   = concat (map (help_entry True (\<lambda>_. [])) [(''a'', \<lparr>lc_doc = [], lc_complete = False\<rparr>)])
     @ concat (map (help_entry True (\<lambda>_. [])) [(''a'', \<lparr>lc_doc = [], lc_complete = False\<rparr>), (''b'', \<lparr>lc_doc = [], lc_complete = False\<rparr>)])"
  by (rule help_entries_accumulate [OF prod.collapse [symmetric] _ _ _ prod.collapse [symmetric]]) simp_all

end
