(* ===== verification/Disasm.thy ===== *)
theory Disasm
  imports Architecture
begin

text \<open>
  Symbols and disassembly of \<^verbatim>\<open>scripts/gef.py\<close>: \<^verbatim>\<open>gdb_get_location_from_symbol\<close>,
  \<^verbatim>\<open>gdb_disassemble\<close> and the functions that find the instruction before, at or after an address.
  The answers of GDB (\<^verbatim>\<open>info symbol\<close>, the disassembler) are parameters.  A generator is the list
  of what it yields together with the exception that ends it, if any.
\<close>

section \<open>Symbols\<close>

text \<open>\<^verbatim>\<open>s.split(sep)\<close> for a non-empty separator\<close>
fun split_sub_aux :: "string \<Rightarrow> nat \<Rightarrow> string \<Rightarrow> string \<Rightarrow> string list" where
  "split_sub_aux sep k acc [] = [rev acc]"
| "split_sub_aux sep k acc (c # cs) =
     (if k > 0 then split_sub_aux sep (k - 1) acc cs
      else if startswith (c # cs) sep then rev acc # split_sub_aux sep (length sep - 1) [] cs
      else split_sub_aux sep 0 (c # acc) cs)"

definition split_sub :: "string \<Rightarrow> string \<Rightarrow> string list" where
  "split_sub sep s = split_sub_aux sep 0 [] s"

definition isdigits :: "string \<Rightarrow> bool" where
  "isdigits s = (s \<noteq> [] \<and> list_all (\<lambda>c. 48 \<le> (of_char c :: nat) \<and> (of_char c :: nat) \<le> 57) s)"

text \<open>The name and the offset in the answer of \<^verbatim>\<open>info symbol\<close>\<close>
definition location_from_symbol :: "string \<Rightarrow> (string \<times> int) option result" where
  "location_from_symbol ans =
     (if startswith ans ''No symbol matches'' then Inr None
      else let head = (case str_find '' in section '' ans of Some i \<Rightarrow> take i ans | None \<Rightarrow> butlast ans);
               parts = split_sub '' + '' head
           in if length parts = 2 \<and> isdigits (parts ! 1)
              then bindE (py_int 10 (parts ! 1)) (\<lambda>off. Inr (Some (hd parts, off)))
              else Inr (Some (hd parts, 0)))"

section \<open>Disassembly\<close>

record raw_insn =
  ri_addr :: int
  ri_length :: int
  ri_asm :: string

text \<open>The inferior, GDB's disassembler (start, last start address, number of instructions), the answer
  of \<^verbatim>\<open>info symbol\<close>, and the fixed instruction length of the architecture\<close>
record disasm_env =
  de_target :: target
  de_dis :: "int \<Rightarrow> int option \<Rightarrow> int option \<Rightarrow> raw_insn list result"
  de_symbol :: "int \<Rightarrow> string result"
  de_length :: "nat option"

definition get_location :: "disasm_env \<Rightarrow> int \<Rightarrow> (string \<times> int) option result" where
  "get_location d a = bindE (de_symbol d a) location_from_symbol"

definition location_text :: "(string \<times> int) option \<Rightarrow> string" where
  "location_text l = (case l of None \<Rightarrow> [] | Some (n, k) \<Rightarrow> ''<'' @ n @ ''+'' @ fmt_x0 4 k @ ''>'')"

text \<open>\<^verbatim>\<open>s.split(None, 1)\<close>\<close>
definition split_ws1 :: "string \<Rightarrow> string list" where
  "split_ws1 s =
     (let s1 = dropWhile is_space s; w = takeWhile (\<lambda>c. \<not> is_space c) s1;
          r = dropWhile is_space (dropWhile (\<lambda>c. \<not> is_space c) s1)
      in if w = [] then [] else if r = [] then [w] else [w, r])"

definition decode_insn :: "disasm_env \<Rightarrow> raw_insn \<Rightarrow> insn result" where
  "decode_insn d r =
     (let asm = split_ws1 (rstrip_of is_space (ri_asm r)) in
      bindE (case asm of [] \<Rightarrow> raise IndexError ''list index out of range''
             | [m] \<Rightarrow> Inr (m, []) | m # ops # _ \<Rightarrow> Inr (m, split_on (CHR '','') ops)) (\<lambda>(m, ops).
      bindE (get_location d (ri_addr r)) (\<lambda>loc.
      bindE (mem_read (de_target d) (ri_addr r) (ri_length r)) (\<lambda>bs.
        Inr \<lparr>i_address = ri_addr r, i_location = location_text loc, mnemonic = m, operands = ops,
             opcodes = bs\<rparr>))))"

fun decode_all :: "disasm_env \<Rightarrow> raw_insn list \<Rightarrow> insn list \<times> py_exn option" where
  "decode_all d [] = ([], None)"
| "decode_all d (r # rs) =
     (case decode_insn d r of
        Inl e \<Rightarrow> ([], Some e)
      | Inr i \<Rightarrow> (let (is, e) = decode_all d rs in (i # is, e)))"

definition gdb_disassemble :: "disasm_env \<Rightarrow> int \<Rightarrow> int option \<Rightarrow> int option \<Rightarrow> insn list \<times> py_exn option" where
  "gdb_disassemble d start end_pc count =
     (case de_dis d start end_pc count of Inl e \<Rightarrow> ([], Some e) | Inr rs \<Rightarrow> decode_all d rs)"

text \<open>\<^verbatim>\<open>list(g)\<close>\<close>
definition list_gen :: "'a list \<times> py_exn option \<Rightarrow> 'a list result" where
  "list_gen g = (case g of (xs, None) \<Rightarrow> Inr xs | (_, Some e) \<Rightarrow> Inl e)"

definition gef_instruction_n :: "disasm_env \<Rightarrow> int \<Rightarrow> int \<Rightarrow> insn result" where
  "gef_instruction_n d addr n =
     bindE (list_gen (gdb_disassemble d addr None (Some (n + 1)))) (\<lambda>is.
       if 0 \<le> n \<and> n < int (length is) then Inr (is ! nat n)
       else if - int (length is) \<le> n \<and> n < 0 then Inr (is ! nat (int (length is) + n))
       else raise IndexError ''list index out of range'')"

definition gef_current_instruction :: "disasm_env \<Rightarrow> int \<Rightarrow> insn result" where
  "gef_current_instruction d addr = gef_instruction_n d addr 0"

definition gef_next_instruction :: "disasm_env \<Rightarrow> int \<Rightarrow> insn result" where
  "gef_next_instruction d addr = gef_instruction_n d addr 1"

text \<open>The attempts to disassemble from \<^verbatim>\<open>i\<close> bytes before the address, from the farthest on\<close>
fun try_previous :: "disasm_env \<Rightarrow> int \<Rightarrow> int \<Rightarrow> nat \<Rightarrow> nat \<Rightarrow> int option result" where
  "try_previous d addr cur n 0 = Inr None"
| "try_previous d addr cur n (Suc i) =
     (case list_gen (gdb_disassemble d (addr - int (Suc i)) (Some cur) None) of
        Inl e \<Rightarrow> if exn_cls e = GdbMemoryError then Inr None else Inl e
      | Inr is0 \<Rightarrow>
          if length is0 < n + 1 then try_previous d addr cur n i
          else let is = drop (length is0 - (n + 1)) is0 in
            if i_address (last is) \<noteq> cur then try_previous d addr cur n i
            else if list_all insn_is_valid is then Inr (Some (i_address (hd is)))
            else try_previous d addr cur n i)"

definition nth_previous_instruction_address :: "disasm_env \<Rightarrow> int \<Rightarrow> nat \<Rightarrow> int option result" where
  "nth_previous_instruction_address d addr n =
     (case (case de_length d of Some 0 \<Rightarrow> None | l \<Rightarrow> l) of
        Some l \<Rightarrow> Inr (Some (max 0 (addr - int n * int l)))
      | None \<Rightarrow> bindE (gef_current_instruction d addr) (\<lambda>c. try_previous d addr (i_address c) n (15 * n)))"

text \<open>The instructions printed before an address: those from the start address found, up to the
  address; a memory error ends them\<close>
definition previous_insns :: "disasm_env \<Rightarrow> int \<Rightarrow> nat \<Rightarrow> insn list \<times> py_exn option" where
  "previous_insns d addr nb =
     (case nth_previous_instruction_address d addr nb of
        Inl e \<Rightarrow> ([], if exn_cls e = GdbMemoryError then None else Some e)
      | Inr None \<Rightarrow> ([], None)
      | Inr (Some start) \<Rightarrow>
          if start = 0 then ([], None)
          else let (is, e) = gdb_disassemble d start None (Some (int nb));
                   before = takeWhile (\<lambda>i. i_address i \<noteq> addr) is
               in if length before < length is then (before, None)
                  else (is, case e of Some x \<Rightarrow> if exn_cls x = GdbMemoryError then None else Some x | None \<Rightarrow> None))"

definition gef_disassemble :: "disasm_env \<Rightarrow> int \<Rightarrow> int \<Rightarrow> nat \<Rightarrow> insn list \<times> py_exn option" where
  "gef_disassemble d addr nb_insn nb_prev =
     (let (pre, e) = (if nb_prev \<noteq> 0 then previous_insns d addr nb_prev else ([], None)) in
      case e of
        Some x \<Rightarrow> (pre, Some x)
      | None \<Rightarrow> (let (is, e2) = gdb_disassemble d addr None (Some (max 1 nb_insn)) in (pre @ is, e2)))"

text \<open>\<^verbatim>\<open>next\<close> of the generator\<close>
definition gef_get_instruction_at :: "disasm_env \<Rightarrow> int \<Rightarrow> insn result" where
  "gef_get_instruction_at d addr =
     (case gef_disassemble d addr 1 0 of
        (i # _, _) \<Rightarrow> Inr i
      | ([], Some e) \<Rightarrow> Inl e
      | ([], None) \<Rightarrow> raise StopIteration [])"

section \<open>Chains of instructions\<close>

text \<open>Consecutive instructions: each starts where the one before ends\<close>
fun chained :: "insn list \<Rightarrow> bool" where
  "chained (a # b # is) = (i_address b = i_address a + insn_size a \<and> chained (b # is))"
| "chained _ = True"

fun raw_chained :: "raw_insn list \<Rightarrow> bool" where
  "raw_chained (a # b # rs) = (ri_addr b = ri_addr a + ri_length a \<and> raw_chained (b # rs))"
| "raw_chained _ = True"

lemma decode_insn_shape:
  "decode_insn d r = Inr i \<Longrightarrow> i_address i = ri_addr r \<and> insn_size i = ri_length r"
  by (auto simp: decode_insn_def Let_def result_simps mem_read_def insn_size_def read_bytes_length
      split: list.splits if_splits option.splits)

lemma decode_all_chained:
  "raw_chained rs \<Longrightarrow> decode_all d rs = (is, e) \<Longrightarrow>
     chained is \<and> (\<forall>i js. is = i # js \<longrightarrow> (\<exists>r rs'. rs = r # rs' \<and> i_address i = ri_addr r))"
proof (induction rs arbitrary: "is")
  case (Cons r rs)
  show ?case
  proof (cases "decode_insn d r")
    case (Inl e')
    then show ?thesis using Cons.prems by auto
  next
    case (Inr i)
    obtain js where js: "decode_all d rs = (js, e)" "is = i # js"
      using Cons.prems(2) Inr by (auto split: prod.splits)
    have rc: "raw_chained rs" using Cons.prems(1) by (cases rs) auto
    note IH = Cons.IH [OF rc js(1)]
    have "chained (i # js)"
    proof (cases js)
      case (Cons j js')
      then obtain r2 rs' where "rs = r2 # rs'" "i_address j = ri_addr r2" using IH by auto
      then show ?thesis using IH Cons Cons.prems(1) decode_insn_shape [OF Inr] by simp
    qed simp
    then show ?thesis using js(2) decode_insn_shape [OF Inr] by simp
  qed
qed simp

lemma chained_drop: "chained is \<Longrightarrow> chained (drop k is)"
proof (induction k arbitrary: "is")
  case (Suc k)
  then show ?case by (cases "is" rule: chained.cases) auto
qed simp

text \<open>GDB's disassembler returns consecutive instructions\<close>
definition sequential :: "disasm_env \<Rightarrow> bool" where
  "sequential d = (\<forall>s e c rs. de_dis d s e c = Inr rs \<longrightarrow> raw_chained rs)"

lemma try_previous_Some:
  assumes "sequential d" "try_previous d addr cur n k = Inr (Some a)"
  shows "\<exists>is. length is = n + 1 \<and> chained is \<and> list_all insn_is_valid is
    \<and> i_address (hd is) = a \<and> i_address (last is) = cur"
  using assms(2)
proof (induction k)
  case (Suc k)
  let ?g = "gdb_disassemble d (addr - int (Suc k)) (Some cur) None"
  show ?case
  proof (cases "list_gen ?g")
    case (Inl e)
    then show ?thesis using Suc.prems by (simp split: if_splits)
  next
    case (Inr is0)
    let ?is = "drop (length is0 - (n + 1)) is0"
    show ?thesis
    proof (cases "length is0 < n + 1 \<or> i_address (last ?is) \<noteq> cur \<or> \<not> list_all insn_is_valid ?is")
      case True
      then have "try_previous d addr cur n k = Inr (Some a)" using Suc.prems Inr
        by (simp add: Let_def split: if_splits)
      then show ?thesis by (rule Suc.IH)
    next
      case False
      obtain rs where "de_dis d (addr - int (Suc k)) (Some cur) None = Inr rs" "decode_all d rs = (is0, None)"
        using Inr by (auto simp: list_gen_def gdb_disassemble_def split: prod.splits option.splits sum.splits)
      then have "chained is0" using decode_all_chained assms(1) unfolding sequential_def by blast
      then have "chained ?is" by (rule chained_drop)
      moreover have "i_address (hd ?is) = a" using Suc.prems Inr False by (simp add: Let_def)
      moreover have "length ?is = n + 1" using False by simp
      ultimately show ?thesis using False by blast
    qed
  qed
qed simp

lemma chained_sizes: "chained is \<Longrightarrow> is \<noteq> [] \<Longrightarrow>
    i_address (last is) = i_address (hd is) + sum_list (map insn_size (butlast is))"
  by (induction "is" rule: chained.induct) auto

section \<open>Properties\<close>


text \<open>An inferior whose code is one-byte instructions\<close>
definition nop_env :: disasm_env where
  "nop_env = \<lparr>de_target = demo_target,
     de_dis = (\<lambda>s e c. Inr (map (\<lambda>a. \<lparr>ri_addr = a, ri_length = 1, ri_asm = ''nop''\<rparr>)
       (case e of Some x \<Rightarrow> [x - 1, x] | None \<Rightarrow> [s]))),
     de_symbol = (\<lambda>_. Inr ''No symbol matches''), de_length = None\<rparr>"

lemma nop_decode:
  assumes "0x1000 \<le> a" "a < 0x2000"
  shows "decode_insn nop_env \<lparr>ri_addr = a, ri_length = 1, ri_asm = ''nop''\<rparr> =
    Inr \<lparr>i_address = a, i_location = [], mnemonic = ''nop'', operands = [], opcodes = [0]\<rparr>"
  using assms by (simp add: decode_insn_def nop_env_def split_ws1_def rstrip_of_def is_space_def get_location_def
      location_from_symbol_def startswith_def location_text_def mem_read_def demo_target_def Let_def)


end
