(* ===== verification/MemCmds.thy ===== *)
theory MemCmds
  imports Disasm Ui
begin

unbundle bit_operations_syntax

text \<open>
  The commands of \<^verbatim>\<open>scripts/gef.py\<close> that show and patch memory: \<^verbatim>\<open>xor\<close>, \<^verbatim>\<open>hexdump\<close>, \<^verbatim>\<open>patch\<close>,
  \<^verbatim>\<open>xor-memory\<close>, \<^verbatim>\<open>nop\<close>, \<^verbatim>\<open>skipi\<close> and \<^verbatim>\<open>edit-flags\<close>.  The arguments are those the argument parser
  hands to the command.
\<close>

section \<open>xor\<close>

definition hex_val :: "char \<Rightarrow> nat option" where
  "hex_val c = (case digit_val c of Some n \<Rightarrow> if n < 16 then Some n else None | None \<Rightarrow> None)"

fun unhex_pairs :: "string \<Rightarrow> byte list result" where
  "unhex_pairs (a # b # cs) =
     (case (hex_val a, hex_val b) of
        (Some x, Some y) \<Rightarrow> bindE (unhex_pairs cs) (\<lambda>bs. Inr (word_of_int (int (16 * x + y)) # bs))
      | _ \<Rightarrow> raise ValueError ''Non-hexadecimal digit found'')"
| "unhex_pairs _ = Inr []"

definition unhexlify :: "string \<Rightarrow> byte list result" where
  "unhexlify s = (if length s mod 2 \<noteq> 0 then raise ValueError ''Odd-length string'' else unhex_pairs s)"

text \<open>The data against the key repeated; an empty key gives no bytes\<close>
definition xor_cycle :: "byte list \<Rightarrow> byte list \<Rightarrow> byte list" where
  "xor_cycle data key =
     (if key = [] then [] else map (\<lambda>i. data ! i XOR key ! (i mod length key)) [0..<length data])"

text \<open>\<^verbatim>\<open>lstrip("0x")\<close> removes every leading 0 and x\<close>
definition xor_key :: "string \<Rightarrow> byte list result" where
  "xor_key key = unhexlify (lstrip_of (\<lambda>c. c = CHR ''0'' \<or> c = CHR ''x'') key)"

definition xor_data :: "byte list \<Rightarrow> string \<Rightarrow> byte list result" where
  "xor_data data key = bindE (xor_key key) (\<lambda>k. Inr (xor_cycle data k))"

section \<open>hexdump\<close>

definition VERTICAL_LINE :: string where "VERTICAL_LINE = [CHR 0xE2, CHR 0x94, CHR 0x82]"

definition style_byte :: "bool \<Rightarrow> bool \<Rightarrow> bool \<Rightarrow> byte \<Rightarrow> string" where
  "style_byte no_color highlight_regex color b =
     (let sbyte = fmt_x0 2 (uint b) in
      if \<not> color \<or> highlight_regex then sbyte
      else let st = (if sbyte = ''00'' then ''gray'' else if sbyte = ''0a'' then ''blue''
                     else if sbyte = ''ff'' then ''green''
                     else if 0x20 \<le> uint b \<and> uint b < 0x7F then ''white'' else ''yellow'')
           in colorify no_color sbyte st)"

definition byte_text :: "char \<Rightarrow> byte list \<Rightarrow> string" where
  "byte_text sep bs = map (\<lambda>b. if 0x20 \<le> uint b \<and> uint b < 0x7F then char_of (unat b) else sep) bs"

text \<open>The lines of the byte dump of \<^verbatim>\<open>source\<close> from the i-th byte on, \<^verbatim>\<open>n\<close> bytes a line\<close>
function hexdump_lines ::
  "disasm_env \<Rightarrow> bool \<Rightarrow> bool \<Rightarrow> nat \<Rightarrow> char \<Rightarrow> bool \<Rightarrow> bool \<Rightarrow> int \<Rightarrow> int \<Rightarrow> byte list \<Rightarrow> string list result" where
  "hexdump_lines d nc hr n sep raw show_sym base i src =
     (if src = [] \<or> n = 0 then Inr []
      else let chunk = take n src; hexa = join '' '' (map (style_byte nc hr (\<not> raw)) chunk);
               align = (if t_alive (de_target d) then t_ptrsize (de_target d) * 2 + 2 else 18)
           in bindE (if raw then Inr hexa
                     else bindE (if show_sym then get_location d (base + i) else Inr None) (\<lambda>loc.
                       Inr (hexs0 align (base + i) @ '' '' @ location_text loc @ ''    ''
                         @ ljust (3 * n) hexa @ ''    '' @ byte_text sep chunk))) (\<lambda>l.
              bindE (hexdump_lines d nc hr n sep raw show_sym base (i + int n) (drop n src)) (\<lambda>ls. Inr (l # ls))))"
  by pat_completeness auto
termination by (relation "measure (\<lambda>(d, nc, hr, n, sep, raw, sh, base, i, src). length src)") auto

declare hexdump_lines.simps [simp del]

text \<open>\<^verbatim>\<open>hexdump(source, base=base)\<close>\<close>
definition hexdump :: "disasm_env \<Rightarrow> bool \<Rightarrow> bool \<Rightarrow> int \<Rightarrow> byte list \<Rightarrow> string list result" where
  "hexdump d nc hr base src = hexdump_lines d nc hr 16 (CHR ''.'') False True base 0 src"

datatype item_format = QWORD | DWORD | WORD | BYTE

fun format_size :: "item_format \<Rightarrow> nat" where
  "format_size QWORD = 8" | "format_size DWORD = 4" | "format_size WORD = 2" | "format_size BYTE = 1"

text \<open>The lines of \<^verbatim>\<open>_hexdump\<close>: \<^verbatim>\<open>k\<close> items from item number \<^verbatim>\<open>j\<close> on\<close>
fun hexdump_items ::
  "disasm_env \<Rightarrow> bool \<Rightarrow> string \<Rightarrow> bool \<Rightarrow> item_format \<Rightarrow> int \<Rightarrow> nat \<Rightarrow> int \<Rightarrow> string list result" where
  "hexdump_items d nc color ascii f start 0 j = Inr []"
| "hexdump_items d nc color ascii f start (Suc k) j =
     (let t = de_target d; l = format_size f; cur = start + j * int l in
      bindE (get_location d cur) (\<lambda>loc.
      bindE (mem_read t cur (int l)) (\<lambda>mem.
      bindE (struct_unpack (t_endian t) False l mem) (\<lambda>v.
      bindE (hexdump_items d nc color ascii f start k (j + 1)) (\<lambda>ls.
        Inr ((colorify nc (format_address t cur) color @ VERTICAL_LINE @ ''+'' @ hexs0 6 (j * int l) @ ''   ''
              @ (if loc = None then [] else location_text loc @ '' '') @ hexs0 (l * 2 + 2) v @ ''   ''
              @ (if ascii then byte_text (CHR ''.'') mem else [])) # ls))))))"

text \<open>The settings the command reads, and its state: the last target and the repeat count\<close>
record hexdump_conf =
  hd_no_color :: bool
  hd_regex :: bool
  hd_ascii :: bool
  hd_base_color :: string

text \<open>\<^verbatim>\<open>HexdumpCommand.do_invoke\<close>: the printed lines and the new last target\<close>
definition hexdump_cmd ::
  "disasm_env \<Rightarrow> hexdump_conf \<Rightarrow> item_format \<Rightarrow> string \<Rightarrow> int \<Rightarrow> bool \<Rightarrow> int \<Rightarrow> string
     \<Rightarrow> (string list \<times> string) result" where
  "hexdump_cmd d c f address sz rev_order repeat_count last_target =
     (let t = de_target d in
      if \<not> t_alive t then Inr ([warn_line (hd_no_color c) ''No debugging session active''], last_target)
      else let tgt = (if address \<noteq> [] then address else last_target) in
      bindE (parse_address t tgt) (\<lambda>start.
      let from0 = align_address t start in
      bindE (if f = BYTE
             then let n = (if sz \<noteq> 0 then sz else 0x40); a = from0 + repeat_count * n in
                  bindE (mem_read t a n) (\<lambda>mem. hexdump d (hd_no_color c) (hd_regex c) a mem)
             else let n = (if sz \<noteq> 0 then sz else 0x10) in
                  hexdump_items d (hd_no_color c) (hd_base_color c) (hd_ascii c) f from0 (nat n) (repeat_count * n))
        (\<lambda>lines. Inr ([join [CHR 0x0A] (if rev_order then rev lines else lines)], tgt))))"

section \<open>patch\<close>

text \<open>Writing the values one after the other; an exception leaves what was written before\<close>
fun patch_values :: "item_format \<Rightarrow> int \<Rightarrow> string list \<Rightarrow> (target, unit) stm" where
  "patch_values f addr [] t = (Inr (), t)"
| "patch_values f addr (v # vs) t =
     (case bindE (parse_address t v) (\<lambda>x.
             bindE (struct_pack (t_endian t) False (format_size f) (x AND (push_bit (format_size f * 8) 1 - 1))) (\<lambda>bs.
               mem_write t addr bs (Some (format_size f)))) of
        Inl e \<Rightarrow> (Inl e, t)
      | Inr t' \<Rightarrow> patch_values f (addr + int (format_size f)) vs t')"

text \<open>The values of a byte array variable, from the text GDB prints for it\<close>
definition variable_values :: "string \<Rightarrow> string list" where
  "variable_values txt =
     split_on (CHR '' '') (filter (\<lambda>c. c \<noteq> CHR '','')
       (rstrip_of (\<lambda>c. c = CHR ''}'') (lstrip_of (\<lambda>c. c = CHR ''{'') txt)))"

text \<open>\<^verbatim>\<open>PatchCommand.do_invoke\<close>; \<^verbatim>\<open>show_var\<close> is GDB's text for a convenience variable.  The result is the
  outcome, the lines printed and the inferior.\<close>
definition patch_cmd ::
  "bool \<Rightarrow> string \<Rightarrow> (string \<Rightarrow> string result) \<Rightarrow> item_format option \<Rightarrow> string \<Rightarrow> string list \<Rightarrow> target
     \<Rightarrow> unit result \<times> string list \<times> target" where
  "patch_cmd nc usage show_var fmt location vals t =
     (if \<not> t_alive t then (Inr (), [warn_line nc ''No debugging session active''], t)
      else case fmt of
        None \<Rightarrow> (Inr (), [err_line nc (''Syntax'' @ [CHR 0x0A] @ usage)], t)
      | Some f \<Rightarrow>
          if location = [] \<or> vals = [] then (Inr (), [err_line nc (''Syntax'' @ [CHR 0x0A] @ usage)], t)
          else case parse_address t location of
            Inl e \<Rightarrow> (Inl e, [], t)
          | Inr a \<Rightarrow>
              (case (if f = BYTE \<and> startswith (hd vals) ''$_gef''
                     then (case show_var (hd vals) of Inl _ \<Rightarrow> None | Inr s \<Rightarrow> Some (variable_values s))
                     else Some vals) of
                 None \<Rightarrow> (Inr (), [''Bad variable specified, check value with command: p '' @ hd vals], t)
               | Some vs \<Rightarrow> (let (r, t') = patch_values f (align_address t a) vs t in (r, [], t'))))"

text \<open>\<^verbatim>\<open>patch string\<close>; \<^verbatim>\<open>escape_decode\<close> is the codec of the standard library\<close>
definition patch_string ::
  "bool \<Rightarrow> string \<Rightarrow> (string \<Rightarrow> byte list result) \<Rightarrow> string list \<Rightarrow> target \<Rightarrow> unit result \<times> string list \<times> target" where
  "patch_string nc usage escape_decode argv t =
     (if \<not> t_alive t then (Inr (), [warn_line nc ''No debugging session active''], t)
      else if length argv \<noteq> 2 then (Inr (), [err_line nc (''Syntax'' @ [CHR 0x0A] @ usage)], t)
      else case parse_address t (argv ! 0) of
        Inl e \<Rightarrow> (Inl e, [], t)
      | Inr a \<Rightarrow>
          (case bindE (escape_decode (argv ! 1)) (\<lambda>bs. mem_write t (align_address t a) bs (Some (length bs))) of
             Inr t' \<Rightarrow> (Inr (), [], t')
           | Inl e \<Rightarrow> if exn_cls e \<in> {GdbError, GdbMemoryError}
                      then (Inr (), [err_line nc (''Could not decode '' @ [CHR 0x27, CHR 0x5C] @ ''xXX'' @ [CHR 0x27]
                             @ '' encoded string '' @ [CHR 0x22] @ argv ! 1 @ [CHR 0x22])], t)
                      else (Inl e, [], t)))"

section \<open>xor-memory\<close>

text \<open>\<^verbatim>\<open>xor-memory patch\<close> at an address, with the parsed length\<close>
definition xor_patch :: "int \<Rightarrow> int \<Rightarrow> string \<Rightarrow> (target, unit) stm" where
  "xor_patch address len key t =
     (case bindE (mem_read t address len) (\<lambda>block. bindE (xor_data block key) (\<lambda>x. mem_write t address x (Some (nat len)))) of
        Inl e \<Rightarrow> (Inl e, t) | Inr t' \<Rightarrow> (Inr (), t'))"

definition xor_patch_cmd :: "bool \<Rightarrow> string \<Rightarrow> string list \<Rightarrow> target \<Rightarrow> unit result \<times> string list \<times> target" where
  "xor_patch_cmd nc usage argv t =
     (if \<not> t_alive t then (Inr (), [warn_line nc ''No debugging session active''], t)
      else if length argv \<noteq> 3 then (Inr (), [err_line nc (''Syntax'' @ [CHR 0x0A] @ usage)], t)
      else case bindE (parse_address t (argv ! 0)) (\<lambda>a. bindE (py_int 0 (argv ! 1)) (\<lambda>n.
             bindE (mem_read t a n) (\<lambda>b. Inr (a, n, b)))) of
        Inl e \<Rightarrow> (Inl e, [], t)
      | Inr (a, n, b) \<Rightarrow>
          (let (r, t') = xor_patch a n (argv ! 2) t in
           (r, [info_line nc (''Patching XOR-ing '' @ hexs a @ ''-'' @ hexs (a + int (length b)) @ '' with ''
                  @ [CHR 0x27] @ argv ! 2 @ [CHR 0x27])], t')))"

text \<open>\<^verbatim>\<open>xor-memory display\<close>: the two dumps, without their titles\<close>
definition xor_display :: "disasm_env \<Rightarrow> bool \<Rightarrow> bool \<Rightarrow> int \<Rightarrow> int \<Rightarrow> string \<Rightarrow> (string list \<times> string list) result" where
  "xor_display d nc hr address len key =
     bindE (mem_read (de_target d) address len) (\<lambda>block.
     bindE (hexdump d nc hr address block) (\<lambda>orig.
     bindE (xor_data block key) (\<lambda>x.
     bindE (hexdump d nc hr address x) (\<lambda>ls. Inr (orig, ls)))))"

section \<open>nop and skipi\<close>

record nop_args =
  na_items :: int
  na_bytes :: bool
  na_nops :: bool
  na_force :: bool

text \<open>The instructions from the address on, until one ends at or after the end; \<^verbatim>\<open>None\<close> is that the fuel
  ran out, \<^verbatim>\<open>Inr None\<close> that the next byte is not mapped\<close>
fun nop_scan :: "disasm_env \<Rightarrow> sect list \<Rightarrow> int \<Rightarrow> nat \<Rightarrow> insn \<Rightarrow> insn option result option" where
  "nop_scan d maps end_addr 0 c = None"
| "nop_scan d maps end_addr (Suc fuel) c =
     (if i_address c + insn_size c < end_addr then
        if \<not> addr_valid maps (i_address c + 1) then Some (Inr None)
        else (case gef_next_instruction d (i_address c) of
                Inl e \<Rightarrow> Some (Inl e) | Inr c' \<Rightarrow> nop_scan d maps end_addr fuel c')
      else Some (Inr (Some c)))"

text \<open>The number of bytes to patch: None when the instructions reach unmapped memory\<close>
definition nop_total :: "disasm_env \<Rightarrow> byte list \<Rightarrow> nop_args \<Rightarrow> int \<Rightarrow> int option result" where
  "nop_total d nop a address =
     (let n = (if na_items a \<noteq> 0 then na_items a else 1) in
      if na_bytes a then Inr (Some n)
      else if na_nops a then Inr (Some (n * int (length nop)))
      else case gef_instruction_n d address (n - 1) of
        Inl _ \<Rightarrow> Inr None
      | Inr l \<Rightarrow> bindE (gef_get_instruction_at d (i_address l)) (\<lambda>j. Inr (Some ((i_address l - address) + insn_size j))))"

definition nop_warning :: "bool \<Rightarrow> int \<Rightarrow> int \<Rightarrow> string \<Rightarrow> string" where
  "nop_warning nc tot address what =
     warn_line nc (''Patching '' @ decs tot @ '' bytes at '' @ hexs address @ '' will result in '' @ what)"

text \<open>\<^verbatim>\<open>NopCommand.do_invoke\<close> at a parsed address, on an architecture with the given nop: the outcome, the
  lines printed and the inferior; the outer None is that the fuel of the scan ran out.  The message for
  an unmapped end formats an \<^verbatim>\<open>Address\<close> object as a number, which raises.\<close>
definition nop_cmd ::
  "disasm_env \<Rightarrow> bool \<Rightarrow> sect list \<Rightarrow> byte list \<Rightarrow> nop_args \<Rightarrow> int \<Rightarrow> nat
     \<Rightarrow> (unit result \<times> string list \<times> target) option" where
  "nop_cmd d nc maps nop a address fuel =
     (let t = de_target d; L = int (length nop);
          fail = err_line nc (''Cannot patch instruction at '' @ hexs address @ '': reaching unmapped area'');
          hint = warn_line nc ''Use --f (force) to ignore this warning.'' in
      if na_nops a \<and> na_bytes a
      then Some (Inr (), [err_line nc ''--b and --n cannot be specified at the same time.''], t)
      else case nop_total d nop a address of
        Inl e \<Rightarrow> Some (Inl e, [], t)
      | Inr None \<Rightarrow> Some (Inr (), [err_line nc (''Cannot patch instruction at '' @ hexs address @ '' reaching unmapped area'')], t)
      | Inr (Some tot) \<Rightarrow>
          if L = 0 \<and> 0 \<le> tot then Some (raise PlainException ''integer modulo by zero'', [], t)
          else (let broken = (L > tot \<or> tot mod L \<noteq> 0);
               w1 = (if broken then [nop_warning nc tot address (''LAST-NOP (byte nr '' @ hexs (tot mod L)
                        @ '') broken and may cause a crash or break disassembly.'')] else []) in
           if broken \<and> \<not> na_force a then Some (Inr (), w1 @ [hint], t)
           else case gef_current_instruction d address of
             Inl e \<Rightarrow> Some (Inl e, w1, t)
           | Inr c0 \<Rightarrow>
               (case nop_scan d maps (address + tot) fuel c0 of
                  None \<Rightarrow> None
                | Some (Inl e) \<Rightarrow> Some (Inl e, w1, t)
                | Some (Inr None) \<Rightarrow> Some (Inr (), w1 @ [fail], t)
                | Some (Inr (Some c)) \<Rightarrow>
                    (let partial = (i_address c + insn_size c \<noteq> address + tot);
                         w2 = w1 @ (if partial then [nop_warning nc tot address (''LAST-INSTRUCTION ('' @ hexs (i_address c)
                                @ '') being partial overwritten and may cause a crash or break disassembly.'')] else []) in
                     if partial \<and> \<not> na_force a then Some (Inr (), w2 @ [hint], t)
                     else let nops = concat (replicate (nat tot) nop) in
                       if \<not> addr_valid maps (address + tot - 1)
                       then Some (raise TypeError ''unsupported format string passed to Address.__format__'', w2, t)
                       else if tot < 0 then Some (raise OverflowError ''length'', w2, t)
                       else let w3 = w2 @ [ok_line nc (''Patching '' @ decs tot @ '' bytes from '' @ hexs address)] in
                         case mem_write t address nops (Some (nat tot)) of
                           Inl e \<Rightarrow> Some (Inl e, w3, t)
                         | Inr t' \<Rightarrow> Some (Inr (), w3, t')))))"

text \<open>\<^verbatim>\<open>skipi\<close>: the message and the GDB command that moves the program counter\<close>
definition skipi_cmd :: "disasm_env \<Rightarrow> bool \<Rightarrow> int \<Rightarrow> int \<Rightarrow> (string \<times> string) result" where
  "skipi_cmd d nc address n =
     bindE (gef_instruction_n d address (n - 1)) (\<lambda>l.
       let tot = (i_address l - address) + insn_size l; tgt = address + tot
       in Inr (info_line nc (''skipping '' @ decs n @ '' instructions ('' @ decs tot @ '' bytes) from '' @ hexs address
                 @ '' to '' @ hexs tgt), ''set $pc = '' @ hexs tgt))"

section \<open>edit-flags\<close>

text \<open>The new value of the flag register for one action on the flag of bit \<^verbatim>\<open>off\<close>\<close>
definition flag_action :: "char \<Rightarrow> nat \<Rightarrow> int \<Rightarrow> int" where
  "flag_action action off old =
     (if action = CHR ''+'' then old OR push_bit off 1
      else if action = CHR ''-'' then old AND NOT (push_bit off 1)
      else old XOR push_bit off 1)"

text \<open>One argument of the command: the lines printed and the flag register\<close>
definition edit_flag :: "bool \<Rightarrow> arch_desc \<Rightarrow> string \<Rightarrow> string list \<times> int \<Rightarrow> string list \<times> int" where
  "edit_flag nc d flag = (\<lambda>(out, v).
     case flag of
       action # rest \<Rightarrow>
         if rest = [] then (out, v)
         else if action \<notin> {CHR ''+'', CHR ''-'', CHR ''~''}
         then (out @ [err_line nc (''Invalid action for flag '' @ [CHR 0x27] @ flag @ [CHR 0x27])], v)
         else if lower rest \<notin> set (map snd (d_flags d))
         then (out @ [err_line nc (''Invalid flag name '' @ [CHR 0x27] @ rest @ [CHR 0x27])], v)
         else (out, fold (\<lambda>(off, nm) w. if nm = lower rest then flag_action action off w else w) (d_flags d) v)
     | [] \<Rightarrow> (out, v))"

text \<open>\<^verbatim>\<open>FlagsCommand.do_invoke\<close> on the value of the flag register: the lines printed and the new value;
  \<^verbatim>\<open>human\<close> is the architecture's \<^verbatim>\<open>flag_register_to_human\<close>\<close>
definition flags_cmd :: "bool \<Rightarrow> (int \<Rightarrow> string) \<Rightarrow> arch_desc \<Rightarrow> string list \<Rightarrow> int \<Rightarrow> string list \<times> int" where
  "flags_cmd nc human d argv v =
     (if d_flag d = None \<or> d_flag d = Some []
      then ([warn_line nc (''The architecture '' @ d_arch d @ '':''  @ d_mode d @ '' doesn'' @ [CHR 0x27] @ ''t have flag register.'')], v)
      else let (out, w) = fold (edit_flag nc d) argv ([], v)
           in (out @ [human w], w))"

section \<open>Lemmas\<close>

lemma write_bytes_at:
  "write_bytes m a bs x = (if a \<le> x \<and> x < a + int (length bs) then Some (bs ! nat (x - a)) else m x)"
proof (induction bs arbitrary: m a)
  case (Cons b bs)
  have "nat (x - a) = Suc (nat (x - (a + 1)))" if "a < x" using that by simp
  then show ?case unfolding write_bytes.simps Cons.IH by auto
qed auto

lemma read_bytes_at:
  "read_bytes m a n = Some bs \<Longrightarrow> a \<le> x \<Longrightarrow> x < a + int n \<Longrightarrow> m x = Some (bs ! nat (x - a))"
proof (induction n arbitrary: a bs)
  case (Suc n)
  obtain b cs where b: "m a = Some b" "read_bytes m (a + 1) n = Some cs" "bs = b # cs"
    using Suc.prems(1) by (auto split: option.splits)
  show ?case
  proof (cases "x = a")
    case False
    then have "nat (x - a) = Suc (nat (x - (a + 1)))" using Suc.prems(2) by simp
    then show ?thesis using Suc.IH [OF b(2)] Suc.prems False b(3) by simp
  qed (use b in simp)
qed simp

text \<open>Writing back what was read undoes a write of the same length\<close>
lemma write_back:
  assumes "read_bytes m a (length old) = Some old" "length new = length old"
  shows "write_bytes (write_bytes m a new) a old = m"
  using assms by (auto simp: write_bytes_at fun_eq_iff dest: read_bytes_at)

lemma length_xor_cycle: "k \<noteq> [] \<Longrightarrow> length (xor_cycle data k) = length data"
  by (simp add: xor_cycle_def)

lemma xor_cycle_twice: "k \<noteq> [] \<Longrightarrow> xor_cycle (xor_cycle data k) k = data"
  by (rule nth_equalityI) (simp_all add: xor_cycle_def xor.assoc)

lemma mem_readD: "mem_read t a n = Inr bs \<Longrightarrow> 0 \<le> n \<and> read_bytes (t_mem t) a (nat n) = Some bs"
  by (auto simp: mem_read_def split: if_splits option.splits)

text \<open>A write of its own length, and the inferior it leaves\<close>
lemma mem_write_Some:
  assumes "mem_write t a bs (Some n) = Inr t'" "n = length bs"
  shows "t' = t\<lparr>t_mem := write_bytes (t_mem t) a bs\<rparr> \<and> read_bytes (t_mem t) a n \<noteq> None"
  using assms by (auto simp: mem_write_def Let_def split: if_splits)

lemma mem_write_take:
  assumes "mem_write t a bs (Some n) = Inr t'" "0 < n"
  shows "t' = t\<lparr>t_mem := write_bytes (t_mem t) a (take n bs)\<rparr> \<and> n \<le> length bs"
  using assms by (auto simp: mem_write_def Let_def split: if_splits)

lemma format_size_pos: "0 < format_size f" by (cases f) auto

lemma parse_address_mem: "parse_address (t\<lparr>t_mem := m\<rparr>) s = parse_address t s"
  by (simp add: parse_address_def)

section \<open>Properties\<close>

text \<open>C8: \<^verbatim>\<open>xor-memory patch\<close> is its own inverse: after a successful patch the same command succeeds and
  restores the inferior.\<close>
theorem xor_patch_involution:
  assumes "xor_patch a n key t = (Inr (), t1)"
  shows "xor_patch a n key t1 = (Inr (), t)"
proof -
  obtain block k where b: "mem_read t a n = Inr block" "xor_key key = Inr k"
    and w: "mem_write t a (xor_cycle block k) (Some (nat n)) = Inr t1"
    using assms by (auto simp: xor_patch_def xor_data_def result_simps split: sum.splits)
  have r: "0 \<le> n" "read_bytes (t_mem t) a (nat n) = Some block" using mem_readD [OF b(1)] by auto
  have l: "length block = nat n" by (rule mem_read_length [OF b(1)])
  have len: "length (xor_cycle block k) = nat n"
  proof (cases "k = []")
    case True
    then have "nat n = 0" using w by (auto simp: xor_cycle_def mem_write_def Let_def split: if_splits)
    then show ?thesis using True by (simp add: xor_cycle_def)
  qed (simp add: length_xor_cycle l)
  have t1: "t1 = t\<lparr>t_mem := write_bytes (t_mem t) a (xor_cycle block k)\<rparr>"
    using mem_write_Some [OF w] len by simp
  have rd: "read_bytes (t_mem t1) a (nat n) = Some (xor_cycle block k)"
    using read_write_bytes [of "t_mem t" a "xor_cycle block k"] by (simp add: t1 len)
  then have m: "mem_read t1 a n = Inr (xor_cycle block k)" using r(1) by (simp add: mem_read_def)
  have x: "xor_cycle (xor_cycle block k) k = block"
    using xor_cycle_twice [of k block] len l by (cases "k = []") (auto simp: xor_cycle_def)
  have "mem_write t1 a block (Some (nat n)) = Inr t"
    using rd l write_back [of "t_mem t" a block "xor_cycle block k"] r(2) len
    by (auto simp: mem_write_def Let_def t1)
  then show ?thesis by (simp add: xor_patch_def m xor_data_def b(2) x)
qed

lemma demo_readable:
  "0x1000 \<le> a \<Longrightarrow> a + int n \<le> 0x2000 \<Longrightarrow> read_bytes (t_mem demo_target) a n = Some (replicate n 0)"
  by (induction n arbitrary: a) (simp_all add: demo_target_def)

theorem xor_patch_involution_witness:
  "\<exists>t1. xor_patch 0x1000 4 ''41'' demo_target = (Inr (), t1) \<and> xor_patch 0x1000 4 ''41'' t1 = (Inr (), demo_target)"
proof -
  have k: "xor_key ''41'' = Inr [0x41]"
    by (simp add: xor_key_def lstrip_of_def unhexlify_def hex_val_def digit_val_def)
  have r: "mem_read demo_target 0x1000 4 = Inr [0, 0, 0, 0]"
    using demo_readable [of "0x1000" 4] by (simp add: mem_read_def numeral_eq_Suc)
  then obtain t1 where x: "xor_patch 0x1000 4 ''41'' demo_target = (Inr (), t1)"
    using demo_readable [of "0x1000" 4] by (simp add: xor_patch_def xor_data_def k mem_write_def length_xor_cycle)
  from xor_patch_involution [OF x] x show ?thesis by blast
qed

lemma patch_step:
  assumes "patch_values f addr (v # vs) t = (Inr (), t')"
  shows "\<exists>x bs. parse_address t v = Inr x \<and> length bs = format_size f
    \<and> struct_unpack (t_endian t) False (format_size f) bs = Inr (x mod 2 ^ (8 * format_size f))
    \<and> patch_values f (addr + int (format_size f)) vs (t\<lparr>t_mem := write_bytes (t_mem t) addr bs\<rparr>) = (Inr (), t')"
proof -
  let ?n = "format_size f"
  obtain x bs t1 where v: "parse_address t v = Inr x"
      "struct_pack (t_endian t) False ?n (x AND (push_bit (?n * 8) 1 - 1)) = Inr bs"
      "mem_write t addr bs (Some ?n) = Inr t1"
    and rest: "patch_values f (addr + int ?n) vs t1 = (Inr (), t')"
    using assms by (auto simp: result_simps split: sum.splits)
  have "x AND (push_bit (?n * 8) 1 - 1) = x mod 2 ^ (8 * ?n)"
    using and_mask_mod [of x "?n * 8"] by (simp add: push_bit_eq_mult mult.commute)
  then have "struct_unpack (t_endian t) False ?n bs = Inr (x mod 2 ^ (8 * ?n))"
    using struct_unpack_pack [OF format_size_pos v(2)] by simp
  moreover have lb: "length bs = ?n" using v(2) by (rule struct_pack_length)
  moreover have "t1 = t\<lparr>t_mem := write_bytes (t_mem t) addr bs\<rparr>" using mem_write_Some [OF v(3)] lb by simp
  ultimately show ?thesis using v(1) rest by blast
qed

lemma patch_frame:
  assumes "patch_values f addr vs t = (Inr (), t')"
  shows "(\<forall>y. y < addr \<or> addr + int (length vs * format_size f) \<le> y \<longrightarrow> t_mem t' y = t_mem t y)
    \<and> t' = t\<lparr>t_mem := t_mem t'\<rparr>"
  using assms
proof (induction vs arbitrary: addr t)
  case (Cons v vs)
  obtain bs where lb: "length bs = format_size f"
    and rest: "patch_values f (addr + int (format_size f)) vs (t\<lparr>t_mem := write_bytes (t_mem t) addr bs\<rparr>) = (Inr (), t')"
    using patch_step [OF Cons.prems] by blast
  note IH = Cons.IH [OF rest]
  have "t_mem t' y = t_mem t y" if y: "y < addr \<or> addr + int (length (v # vs) * format_size f) \<le> y" for y
  proof -
    have "y < addr + int (format_size f) \<or> addr + int (format_size f) + int (length vs * format_size f) \<le> y"
      using y by auto
    with IH have "t_mem t' y = t_mem (t\<lparr>t_mem := write_bytes (t_mem t) addr bs\<rparr>) y" by blast
    then have "t_mem t' y = write_bytes (t_mem t) addr bs y" by simp
    also have "\<dots> = t_mem t y"
    proof (rule write_bytes_other)
      have "int (format_size f) \<le> int (length (v # vs) * format_size f)" unfolding of_nat_le_iff by simp
      then show "y < addr \<or> addr + int (length bs) \<le> y" using y lb by linarith
    qed
    finally show ?thesis .
  qed
  then show ?case using IH by simp
qed simp

text \<open>C6: after a successful patch every item reads back, in the byte order of the target, as its value
  reduced to the width of the item, and no byte outside the patched range has changed.\<close>
theorem patch_reads_back:
  assumes "patch_values f addr vs t = (Inr (), t')"
  shows "(\<forall>i < length vs. \<exists>x bs. parse_address t (vs ! i) = Inr x
      \<and> mem_read t' (addr + int (i * format_size f)) (int (format_size f)) = Inr bs
      \<and> struct_unpack (t_endian t) False (format_size f) bs = Inr (x mod 2 ^ (8 * format_size f)))
    \<and> (\<forall>y. y < addr \<or> addr + int (length vs * format_size f) \<le> y \<longrightarrow> t_mem t' y = t_mem t y)"
proof -
  have "\<exists>x bs. parse_address t (vs ! i) = Inr x
      \<and> mem_read t' (addr + int (i * format_size f)) (int (format_size f)) = Inr bs
      \<and> struct_unpack (t_endian t) False (format_size f) bs = Inr (x mod 2 ^ (8 * format_size f))"
    if "i < length vs" for i
    using assms that
  proof (induction vs arbitrary: addr t i)
    case (Cons v vs)
    obtain x bs where v: "parse_address t v = Inr x" "length bs = format_size f"
      "struct_unpack (t_endian t) False (format_size f) bs = Inr (x mod 2 ^ (8 * format_size f))"
      and rest: "patch_values f (addr + int (format_size f)) vs (t\<lparr>t_mem := write_bytes (t_mem t) addr bs\<rparr>) = (Inr (), t')"
      using patch_step [OF Cons.prems(1)] by blast
    show ?case
    proof (cases i)
      case 0
      have "read_bytes (t_mem t') addr (format_size f) = read_bytes (write_bytes (t_mem t) addr bs) addr (format_size f)"
        by (rule read_bytes_cong) (use patch_frame [OF rest] in simp)
      then have "mem_read t' addr (int (format_size f)) = Inr bs"
        using read_write_bytes [of "t_mem t" addr bs] v(2) by (simp add: mem_read_def)
      then show ?thesis using 0 v by auto
    next
      case (Suc j)
      have e: "addr + int (i * format_size f) = addr + int (format_size f) + int (j * format_size f)"
        by (simp add: Suc)
      show ?thesis using Cons.IH [OF rest, of j] Cons.prems(2) unfolding e by (simp add: Suc parse_address_mem)
    qed
  qed simp
  then show ?thesis using patch_frame [OF assms] by blast
qed

theorem patch_reads_back_witness:
  "\<exists>t' x bs. patch_values WORD 0x1000 [''0x0102''] demo_target = (Inr (), t')
    \<and> parse_address demo_target ''0x0102'' = Inr x \<and> mem_read t' 0x1000 2 = Inr bs
    \<and> struct_unpack LITTLE_ENDIAN False 2 bs = Inr (x mod 2 ^ 16)"
proof -
  have a: "parse_address demo_target ''0x0102'' = Inr 0x102"
    by (simp add: parse_address_def is_hex_def lower_def lower_char_def hex_digit_def py_eval)
  have p: "struct_pack LITTLE_ENDIAN False 2 (0x102 AND 65535) = Inr [2, 1]" by code_simp
  obtain t' where t': "patch_values WORD 0x1000 [''0x0102''] demo_target = (Inr (), t')"
    using demo_readable [of "0x1000" 2] a p
    by (simp add: mem_write_def demo_target_def push_bit_eq_mult)
  show ?thesis using patch_reads_back [OF t'] t' by (auto simp: demo_target_def)
qed



lemma bit_flag_action:
  assumes "action \<in> {CHR ''+'', CHR ''-'', CHR ''~''}"
  shows "bit (flag_action action off v) k =
    (if k = off then action = CHR ''+'' \<or> (action = CHR ''~'' \<and> \<not> bit v off) else bit v k)"
proof -
  have p: "bit ((2 :: int) ^ off) j = (j = off)" for j by (auto simp: bit_exp_iff)
  consider "action = CHR ''+''" | "action = CHR ''-''" | "action = CHR ''~''" using assms by blast
  then show ?thesis
    by cases (simp_all add: flag_action_def bit_or_iff bit_and_iff bit_not_iff bit_xor_iff push_bit_eq_mult p)
qed

text \<open>Fact: on an architecture whose flags have different names and bits, \<^verbatim>\<open>edit-flags\<close> with a valid action
  sets, clears or toggles the named flag and leaves every other flag as it was.\<close>
theorem edit_flag_changes_one:
  assumes "distinct (map fst (d_flags d))" "distinct (map snd (d_flags d))"
    and "(off, nm) \<in> set (d_flags d)" "lower name = nm" "name \<noteq> []" "action \<in> {CHR ''+'', CHR ''-'', CHR ''~''}"
    and "(off', nm') \<in> set (d_flags d)" "edit_flag nc d (action # name) (out, v) = (out', w)"
  shows "out' = out \<and> flag_set d w nm' =
    (if nm' = nm then action = CHR ''+'' \<or> (action = CHR ''~'' \<and> \<not> flag_set d v nm) else flag_set d v nm')"
proof -
  have fb: "flag_bit d n = k" if "(k, n) \<in> set (d_flags d)" for k n
  proof -
    have find_mem: "find P xs = Some q \<Longrightarrow> q \<in> set xs \<and> P q" for P xs and q :: "nat \<times> string"
      by (induction xs) (auto split: if_splits)
    have "\<exists>p. find (\<lambda>p. snd p = n) (rev (d_flags d)) = Some p"
    proof (cases "find (\<lambda>p. snd p = n) (rev (d_flags d))")
      case None
      then have "\<forall>p \<in> set (d_flags d). snd p \<noteq> n" unfolding find_None_iff by auto
      then show ?thesis using that by force
    qed simp
    then obtain p where p: "find (\<lambda>p. snd p = n) (rev (d_flags d)) = Some p" ..
    then have "p \<in> set (d_flags d)" "snd p = n" using find_mem [OF p] by simp_all
    then have "p = (k, n)" using that assms(2) by (metis eq_key_imp_eq_value distinct_map inj_on_def snd_conv)
    then show ?thesis using p by (simp add: flag_bit_def)
  qed
  have fold_one: "fold (\<lambda>(off, n) u. if n = nm then flag_action action off u else u) xs v = flag_action action off v"
    if "distinct (map snd xs)" "(off, nm) \<in> set xs" for xs
    using that
  proof (induction xs arbitrary: v)
    case (Cons x xs)
    have id: "fold (\<lambda>(off, n) u. if n = nm then flag_action action off u else u) ys u = u"
      if "nm \<notin> snd ` set ys" for ys u
      using that by (induction ys arbitrary: u) auto
    show ?case
    proof (cases "snd x = nm")
      case True
      then have "x = (off, nm)" using Cons.prems by (cases x) force
      then show ?thesis using id [of xs] Cons.prems(1) by simp
    next
      case False
      then show ?thesis using Cons by (cases x) auto
    qed
  qed simp
  have w: "w = flag_action action off v" "out' = out"
    using assms(3-6,8) fold_one [OF assms(2,3)] by (auto simp: edit_flag_def image_iff split: if_splits)
  have b: "flag_set d u n = bit u k" if "(k, n) \<in> set (d_flags d)" for u k n
    using fb [OF that] by (simp add: flag_set_def push_bit_eq_mult and_exp_eq_0_iff_not_bit)
  have "off' = off \<longleftrightarrow> nm' = nm"
    using assms(1-3,7) by (metis eq_key_imp_eq_value distinct_map inj_on_def snd_conv fst_conv)
  then show ?thesis unfolding b [OF assms(7)] b [OF assms(3)] w bit_flag_action [OF assms(6)] by auto
qed

theorem edit_flag_changes_one_witness:
  "\<exists>out' w. edit_flag True X86_desc ''+Zero'' ([], 1) = (out', w) \<and> flag_set X86_desc w ''zero''"
proof -
  obtain out' w where e: "edit_flag True X86_desc ''+Zero'' ([], 1) = (out', w)" by fastforce
  have f: "d_flags X86_desc = [(6, ''zero''), (0, ''carry''), (2, ''parity''), (4, ''adjust''), (7, ''sign''),
      (8, ''trap''), (9, ''interrupt''), (10, ''direction''), (11, ''overflow''),
      (16, ''resume''), (17, ''virtualx86''), (21, ''identification'')]"
    by (simp add: X86_desc_def)
  have l: "lower ''Zero'' = ''zero''" by code_simp
  have "out' = [] \<and> flag_set X86_desc w ''zero'' =
    (if ''zero'' = ''zero'' then CHR ''+'' = CHR ''+'' \<or> (CHR ''+'' = CHR ''~'' \<and> \<not> flag_set X86_desc 1 ''zero'')
     else flag_set X86_desc 1 ''zero'')"
    by (rule edit_flag_changes_one [OF _ _ _ l _ _ _ e, of 6 6]) (simp_all add: f)
  then show ?thesis using e by simp
qed

end
