(* ===== verification/Search.thy ===== *)
theory Search
  imports MemCmds MemMaps
begin

text \<open>
  \<^verbatim>\<open>search-pattern\<close>: the byte patterns, the loop over the chunks of a range, the search of the
  readable sections of the memory map and the command line.  Regular expressions are those of
  Python's \<^verbatim>\<open>re\<close>: the patterns the command builds itself (plain characters and \<^verbatim>\<open>\xHH\<close>
  escapes) are matched here, every other pattern is left to the parameter \<^verbatim>\<open>se_regex\<close>.
\<close>

section \<open>Patterns\<close>

definition gef_pybytes :: "string \<Rightarrow> byte list" where
  "gef_pybytes s = map (\<lambda>c. word_of_nat (of_char c)) s"

text \<open>The substitutions do not produce characters a later one replaces\<close>
definition gef_pystring :: "byte list \<Rightarrow> string" where
  "gef_pystring bs = concat (map (\<lambda>c.
     if c = CHR 0x0A then [CHR 0x5C, CHR ''n''] else if c = CHR 0x0D then [CHR 0x5C, CHR ''r'']
     else if c = CHR 0x09 then [CHR 0x5C, CHR ''t''] else if c = CHR 0x0B then [CHR 0x5C, CHR ''v'']
     else if c = CHR 0x08 then [CHR 0x5C, CHR ''b''] else [c]) (latin1 bs))"

text \<open>The bytes an expression of plain characters and \<^verbatim>\<open>\xHH\<close> escapes stands for; None for any
  other expression\<close>
fun re_literal :: "string \<Rightarrow> byte list option" where
  "re_literal [] = Some []"
| "re_literal (c # cs) =
     (if c = CHR 0x5C then
        (case cs of x # h # l # rest \<Rightarrow>
           if x = CHR ''x'' \<and> hex_digit (lower_char h) \<and> hex_digit (lower_char l)
           then map_option ((#) (word_of_nat (16 * the (digit_val h) + the (digit_val l)))) (re_literal rest)
           else None
         | _ \<Rightarrow> None)
      else if c \<in> set ''.^$*+?{}[]|()'' then None
      else map_option ((#) (word_of_nat (of_char c))) (re_literal cs))"

text \<open>\<^verbatim>\<open>re.finditer\<close> for a literal: the leftmost matches that do not overlap; an empty expression
  matches everywhere\<close>
function find_lit :: "byte list \<Rightarrow> nat \<Rightarrow> byte list \<Rightarrow> nat list" where
  "find_lit p i [] = (if p = [] then [i] else [])"
| "find_lit p i (b # bs) =
     (if take (length p) (b # bs) = p
      then i # find_lit p (i + max 1 (length p)) (drop (max 1 (length p)) (b # bs))
      else find_lit p (i + 1) bs)"
  by pat_completeness auto
termination by (relation "measure (\<lambda>(p, i, m). length m)") auto

record search_env =
  se_target :: target
  se_maps :: "sect list"
  se_infos :: "zone list"
  se_decode :: "byte list \<Rightarrow> string option"
  se_regex :: "byte list \<Rightarrow> byte list \<Rightarrow> (nat \<times> nat) list result"
  se_literal :: "string \<Rightarrow> byte list result"
  se_nr_pages :: int
  se_pagesize :: int
  se_preview :: int
  se_no_color :: bool

definition finditer :: "search_env \<Rightarrow> byte list \<Rightarrow> byte list \<Rightarrow> (nat \<times> nat) list result" where
  "finditer env pat mem =
     (case re_literal (latin1 pat) of
        Some p \<Rightarrow> Inr (map (\<lambda>i. (i, i + length p)) (find_lit p 0 mem))
      | None \<Rightarrow> se_regex env pat mem)"

section \<open>Searching a range\<close>

text \<open>\<^verbatim>\<open>range(a, b, step)\<close>\<close>
definition py_range :: "int \<Rightarrow> int \<Rightarrow> int \<Rightarrow> int list result" where
  "py_range a b step =
     (if step = 0 then raise ValueError ''range() arg 3 must not be zero''
      else Inr (map (\<lambda>k. a + int k * step)
        [0..<nat (if 0 < step then (b - a + step - 1) div step else (a - b - step - 1) div (- step))]))"

type_synonym location = "int \<times> int \<times> string"

text \<open>The loop over the chunks: \<^verbatim>\<open>mk\<close> makes the entry of one match; a chunk that cannot be
  read ends the search with no result at all\<close>
fun search_chunks ::
  "search_env \<Rightarrow> byte list \<Rightarrow> (int \<Rightarrow> byte list \<Rightarrow> nat \<times> nat \<Rightarrow> location) \<Rightarrow> int \<Rightarrow> int
     \<Rightarrow> location list \<Rightarrow> int list \<Rightarrow> location list result" where
  "search_chunks env pat mk step end_address locations [] = Inr locations"
| "search_chunks env pat mk step end_address locations (chunk_addr # cs) =
     (let chunk_size = (if chunk_addr + step > end_address then end_address - chunk_addr else step) in
      case mem_read (se_target env) chunk_addr chunk_size of
        Inl e \<Rightarrow> if exn_cls e = GdbMemoryError then Inr [] else Inl e
      | Inr mem \<Rightarrow>
          (case finditer env pat mem of
             Inl e \<Rightarrow> Inl e
           | Inr ms \<Rightarrow> search_chunks env pat mk step end_address
               (locations @ map (mk chunk_addr mem) ms) cs))"

text \<open>The entry of a match of the textual search: the text at the match, or the pattern itself\<close>
definition text_entry :: "search_env \<Rightarrow> byte list \<Rightarrow> int \<Rightarrow> byte list \<Rightarrow> nat \<times> nat \<Rightarrow> location" where
  "text_entry env pat chunk_addr mem m =
     (let start = chunk_addr + int (fst m) in
      if is_ascii_string (se_decode env) (se_target env) start then
        (let ustr = (case read_ascii_string (se_decode env) (se_target env) start of
                       Inr (Some s) \<Rightarrow> s | _ \<Rightarrow> [])
         in (start, start + int (length ustr), ustr))
      else (start, start + int (length pat), gef_pystring pat @ ''[...]''))"

definition search_pattern_by_address :: "search_env \<Rightarrow> string \<Rightarrow> int \<Rightarrow> int \<Rightarrow> location list result" where
  "search_pattern_by_address env pattern start_address end_address =
     (let pat = gef_pybytes pattern; step = se_nr_pages env * se_pagesize env in
      bindE (py_range start_address end_address step)
        (search_chunks env pat (text_entry env pat) step end_address []))"

text \<open>\<^verbatim>\<open>str(b)\<close> of a bytes object\<close>
definition bytes_repr :: "byte list \<Rightarrow> string" where
  "bytes_repr bs =
     (let q = (if 0x27 \<in> set bs \<and> 0x22 \<notin> set bs then CHR 0x22 else CHR 0x27);
          esc = (\<lambda>b. let n = unat b; c = (char_of n :: char) in
            if c = q \<or> c = CHR 0x5C then [CHR 0x5C, c]
            else if n = 9 then [CHR 0x5C, CHR ''t''] else if n = 10 then [CHR 0x5C, CHR ''n'']
            else if n = 13 then [CHR 0x5C, CHR ''r'']
            else if 32 \<le> n \<and> n < 127 then [c] else CHR 0x5C # CHR ''x'' # fmt_x0 2 (int n))
      in CHR ''b'' # q # concat (map esc bs) @ [q])"

definition bin_entry :: "search_env \<Rightarrow> int \<Rightarrow> byte list \<Rightarrow> nat \<times> nat \<Rightarrow> location" where
  "bin_entry env chunk_addr mem m =
     (let start = chunk_addr + int (fst m);
          preview = bytes_repr (slice_to (se_preview env) (take (snd m - fst m) (drop (fst m) mem))) @ ''...'';
          size_match = int (snd m) - int (fst m)
      in (start, start + (if size_match > 0 then size_match - 1 else size_match), preview))"

definition search_binpattern_by_address ::
  "search_env \<Rightarrow> byte list \<Rightarrow> int \<Rightarrow> int \<Rightarrow> location list result" where
  "search_binpattern_by_address env binpattern start_address end_address =
     (let step = se_nr_pages env * se_pagesize env in
      bindE (py_range start_address end_address step)
        (search_chunks env binpattern (bin_entry env) step end_address []))"

section \<open>The command\<close>

definition section_line :: "bool \<Rightarrow> sect \<Rightarrow> string" where
  "section_line nc s =
     ok_line nc (''In '' @ (if path s \<noteq> [] then [CHR 0x27] @ colorify nc (path s) ''blue'' @ [CHR 0x27] else [])
       @ ''('' @ hexs (page_start s) @ ''-'' @ hexs (page_end s) @ ''), permission='' @ perm_str (permission s))"

definition loc_line :: "bool \<Rightarrow> location \<Rightarrow> string" where
  "loc_line nc l = ''  '' @ hexs (fst l) @ '' - '' @ hexs (fst (snd l)) @ '' '' @ RIGHT_ARROW @ ''  ''
     @ [CHR 0x22] @ colorify nc (snd (snd l)) ''pink'' @ [CHR 0x22, CHR '' '']"

text \<open>The entries found in one section, each new section of the map announced\<close>
fun section_locs :: "search_env \<Rightarrow> sect option \<Rightarrow> location list \<Rightarrow> string list" where
  "section_locs env old [] = []"
| "section_locs env old (l # ls) =
     (case process_lookup_address (se_target env) (se_maps env) (fst l) of
        Some s \<Rightarrow>
          (if \<not> sect_eq s old then section_line (se_no_color env) s # loc_line (se_no_color env) l
             # section_locs env (Some s) ls
           else loc_line (se_no_color env) l # section_locs env old ls)
      | None \<Rightarrow> loc_line (se_no_color env) l # section_locs env old ls)"

text \<open>The lines printed before an exception stay printed\<close>
fun search_pattern :: "search_env \<Rightarrow> string \<Rightarrow> string \<Rightarrow> sect list \<Rightarrow> string list \<times> py_exn option" where
  "search_pattern env pattern section_name [] = ([], None)"
| "search_pattern env pattern section_name (s # ss) =
     (if \<not> perm_truthy (perm_and (permission s) PREAD) \<or> path s = ''[vvar]'' \<or> \<not> str_in section_name (path s)
      then search_pattern env pattern section_name ss
      else case search_pattern_by_address env pattern (page_start s) (page_end s - 1) of
        Inl e \<Rightarrow> ([], Some e)
      | Inr locs \<Rightarrow> (let (ls, e) = search_pattern env pattern section_name ss
                     in (section_locs env None locs @ ls, e)))"

text \<open>Two digits each, as an expression; the order of the bytes is the target's or the user's\<close>
fun pair_up :: "string \<Rightarrow> string list" where
  "pair_up (a # b # cs) = [a, b] # pair_up cs"
| "pair_up cs = (if cs = [] then [] else [cs])"

definition hex_pattern :: "bool \<Rightarrow> string \<Rightarrow> string" where
  "hex_pattern big pattern =
     (let ps = pair_up (drop 2 pattern) in
      concat (map (\<lambda>p. [CHR 0x5C, CHR ''x''] @ p) (if big then ps else rev ps)))"

definition choose_endian :: "search_env \<Rightarrow> string list \<Rightarrow> endianness" where
  "choose_endian env argv =
     (if 2 \<le> length argv then
        if lower (argv ! 1) = ''big'' then BIG_ENDIAN
        else if lower (argv ! 1) = ''little'' then LITTLE_ENDIAN else t_endian (se_target env)
      else t_endian (se_target env))"

definition print_locs :: "search_env \<Rightarrow> location list result \<Rightarrow> string list \<times> py_exn option" where
  "print_locs env r = (case r of Inl e \<Rightarrow> ([], Some e) | Inr ls \<Rightarrow> (map (loc_line (se_no_color env)) ls, None))"

definition search_regex_cmd :: "search_env \<Rightarrow> string list \<Rightarrow> string list \<times> py_exn option" where
  "search_regex_cmd env argv =
     print_locs env (bindE (se_literal env (join '' '' (drop 3 argv))) (\<lambda>pat.
       bindE (parse_address (se_target env) (argv ! 1)) (\<lambda>a.
       bindE (parse_address (se_target env) (argv ! 2)) (\<lambda>b.
         search_binpattern_by_address env pat a b))))"

definition search_range_cmd :: "search_env \<Rightarrow> string \<Rightarrow> string \<Rightarrow> string list \<times> py_exn option" where
  "search_range_cmd env pattern range_text =
     (case bindE (parse_string_range range_text) two_of of
        Inl e \<Rightarrow> ([], Some e)
      | Inr (a, b) \<Rightarrow>
          (let head = (if \<not> addr_valid (se_maps env) a then Inr []
                       else case process_lookup_address (se_target env) (se_maps env) a of
                         None \<Rightarrow> raise AttributeError ''NoneType''
                       | Some s \<Rightarrow> Inr [section_line (se_no_color env) s]) in
           case head of
             Inl e \<Rightarrow> ([], Some e)
           | Inr h \<Rightarrow> (let (ls, e) = print_locs env (search_pattern_by_address env pattern a b) in (h @ ls, e))))"

definition search_cmd :: "search_env \<Rightarrow> string \<Rightarrow> string list \<Rightarrow> string list \<times> py_exn option" where
  "search_cmd env usage argv =
     (let nc = se_no_color env in
      if \<not> t_alive (se_target env) then ([warn_line nc ''No debugging session active''], None)
      else if argv = [] then ([err_line nc (''Syntax'' @ [CHR 0x0A] @ usage)], None)
      else if 3 < length argv \<and> startswith (hd argv) ''--regex'' then search_regex_cmd env argv
      else (let pattern = (if is_hex (hd argv) then hex_pattern (choose_endian env argv = BIG_ENDIAN) (hd argv)
                           else hd argv);
                title = (\<lambda>where. info_line nc (''Searching '' @ [CHR 0x27] @ colorify nc pattern ''yellow''
                           @ [CHR 0x27] @ '' in '' @ where));
                (l, ls, e) = (if length argv = 3 then
                     (title (argv ! 2), if str_in ''0x'' (argv ! 2) then search_range_cmd env pattern (argv ! 2)
                        else search_pattern env pattern
                          (if argv ! 2 = ''binary'' then (case t_filepath (se_target env) of Some f \<Rightarrow> f | None \<Rightarrow> [])
                           else argv ! 2) (se_maps env))
                   else (title ''memory'', search_pattern env pattern [] (se_maps env)))
            in (l # ls, e)))"

section \<open>Facts about the matches\<close>

text \<open>The bytes \<^verbatim>\<open>p\<close> stand in memory at \<^verbatim>\<open>a\<close>\<close>
definition occurs :: "(int \<Rightarrow> byte option) \<Rightarrow> byte list \<Rightarrow> int \<Rightarrow> bool" where
  "occurs m p a = list_all (\<lambda>i. m (a + int i) = Some (p ! i)) [0..<length p]"

lemma find_lit_sound:
  "i \<in> set (find_lit p k mem) \<Longrightarrow>
   k \<le> i \<and> take (length p) (drop (i - k) mem) = p"
proof (induction p k mem rule: find_lit.induct)
  case (2 p k b bs)
  show ?case
  proof (cases "take (length p) (b # bs) = p")
    case True
    then consider "i = k" | "i \<in> set (find_lit p (k + max 1 (length p)) (drop (max 1 (length p)) (b # bs)))"
      using "2.prems" by auto
    then show ?thesis
    proof cases
      case 2
      from "2.IH"(1) [OF True this]
      have *: "k + max 1 (length p) \<le> i" "take (length p) (drop (i - (k + max 1 (length p))) (drop (max 1 (length p)) (b # bs))) = p"
        by auto
      then show ?thesis by (simp add: drop_drop add.commute del: drop_Suc_Cons)
    qed (use True in simp)
  next
    case False
    then have "i \<in> set (find_lit p (k + 1) bs)" using "2.prems" by simp
    from "2.IH"(2) [OF False this] have *: "k + 1 \<le> i" "take (length p) (drop (i - (k + 1)) bs) = p" by auto
    then have "i - k = Suc (i - (k + 1))" by simp
    then show ?thesis using * by simp
  qed
qed (auto split: if_splits)

lemma find_lit_complete:
  "p \<noteq> [] \<Longrightarrow> take (length p) (drop j mem) = p \<Longrightarrow>
   \<exists>i \<in> set (find_lit p k mem). i \<le> k + j \<and> k + j < i + length p"
proof (induction p k mem arbitrary: j rule: find_lit.induct)
  case (2 p k b bs)
  show ?case
  proof (cases "take (length p) (b # bs) = p")
    case True
    have m: "max 1 (length p) = length p" using 2(3) by (cases p) auto
    show ?thesis
    proof (cases "j < length p")
      case False
      then have "take (length p) (drop (j - length p) (drop (max 1 (length p)) (b # bs))) = p"
        using 2(4) m by (simp add: drop_drop)
      from "2.IH"(1) [OF True 2(3) this] show ?thesis using True m False by auto
    qed (use True in auto)
  next
    case False
    then have "j \<noteq> 0" using 2(4) by (cases j) auto
    then have "take (length p) (drop (j - 1) bs) = p" using 2(4) by (cases j) auto
    from "2.IH"(2) [OF False 2(3) this] show ?thesis using False \<open>j \<noteq> 0\<close> by auto
  qed
qed auto

lemma find_lit_disjoint: "p \<noteq> [] \<Longrightarrow> sorted_wrt (\<lambda>i j. i + length p \<le> j) (find_lit p k mem)"
proof (induction p k mem rule: find_lit.induct)
  case (2 p k b bs)
  have m: "max 1 (length p) = length p" using 2(3) by (cases p) auto
  show ?case using 2 m by (auto dest!: find_lit_sound)
qed auto

section \<open>Facts about the ranges\<close>

lemma read_bytes_all:
  "(\<And>x. a \<le> x \<Longrightarrow> x < a + int n \<Longrightarrow> m x \<noteq> None) \<Longrightarrow>
   read_bytes m a n = Some (map (\<lambda>i. the (m (a + int i))) [0..<n])"
proof (induction n arbitrary: a)
  case (Suc n)
  obtain b where b: "m a = Some b" using Suc.prems [of a] by auto
  have "read_bytes m (a + 1) n = Some (map (\<lambda>i. the (m (a + 1 + int i))) [0..<n])"
    by (rule Suc.IH) (use Suc.prems in auto)
  then show ?case using b by (simp add: map_upt_Suc algebra_simps del: upt_Suc)
qed simp

lemma take_drop_occurs:
  assumes "i + length p \<le> n"
  shows "take (length p) (drop i (map (\<lambda>i. the (m (a + int i))) [0..<n])) = p
     \<longleftrightarrow> (\<forall>j < length p. the (m (a + int (i + j))) = p ! j)"
  using assms by (auto simp: list_eq_iff_nth_eq)

text \<open>The chunk an address of the range falls into\<close>
definition chunk_of :: "int \<Rightarrow> int \<Rightarrow> int \<Rightarrow> int" where
  "chunk_of s step a = (a - s) div step"

lemma chunk_of_add: "0 \<le> r \<Longrightarrow> r < step \<Longrightarrow> chunk_of s step (s + int k * step + r) = int k"
  by (simp add: chunk_of_def)

lemma chunk_bounds:
  fixes s e step :: int
  assumes "0 < step" "k < nat ((e - s + step - 1) div step)"
  shows "s + int k * step < e"
proof -
  let ?x = "e - s + step - 1"
  have "int k + 1 \<le> ?x div step" using assms(2) by linarith
  then have "(int k + 1) * step \<le> ?x div step * step" using assms(1) by (intro mult_right_mono) auto
  also have "?x div step * step = ?x - ?x mod step" by (rule minus_mod_eq_div_mult [symmetric])
  also have "\<dots> \<le> ?x" using pos_mod_sign [OF assms(1), of ?x] by linarith
  finally have "(int k + 1) * step \<le> ?x" .
  then show ?thesis by (simp add: algebra_simps)
qed

text \<open>A range all of whose bytes are mapped\<close>
definition readable :: "target \<Rightarrow> int \<Rightarrow> int \<Rightarrow> bool" where
  "readable t s e = (\<forall>x. s \<le> x \<and> x < e \<longrightarrow> t_mem t x \<noteq> None)"

abbreviation chunk_len :: "int \<Rightarrow> int \<Rightarrow> int \<Rightarrow> int" where
  "chunk_len step e c \<equiv> (if c + step > e then e - c else step)"

definition chunk_mem :: "target \<Rightarrow> int \<Rightarrow> int \<Rightarrow> int \<Rightarrow> byte list" where
  "chunk_mem t step e c = map (\<lambda>i. the (t_mem t (c + int i))) [0..<nat (chunk_len step e c)]"

lemma chunk_read:
  assumes "readable t s e" "s \<le> c" "c < e" "0 < step"
  shows "mem_read t c (chunk_len step e c) = Inr (chunk_mem t step e c)"
proof -
  have "read_bytes (t_mem t) c (nat (chunk_len step e c)) = Some (chunk_mem t step e c)"
    unfolding chunk_mem_def by (rule read_bytes_all) (use assms in \<open>auto simp: readable_def split: if_splits\<close>)
  then show ?thesis using assms by (simp add: mem_read_def)
qed

lemma search_chunks_readable:
  assumes "readable (se_target env) s e" "0 < step" "re_literal (latin1 pat) = Some p"
    and "\<forall>c \<in> set cs. s \<le> c \<and> c < e"
  shows "search_chunks env pat mk step e acc cs = Inr (acc @ concat (map (\<lambda>c.
    map (\<lambda>i. mk c (chunk_mem (se_target env) step e c) (i, i + length p))
      (find_lit p 0 (chunk_mem (se_target env) step e c))) cs))"
  using assms(4)
proof (induction cs arbitrary: acc)
  case (Cons c cs)
  then have r: "mem_read (se_target env) c (chunk_len step e c) = Inr (chunk_mem (se_target env) step e c)"
    using assms(1,2) by (intro chunk_read) auto
  from Cons show ?case
    by (simp only: search_chunks.simps Let_def r) (simp add: finditer_def assms(3) comp_def)
qed simp

lemma chunk_mem_length: "length (chunk_mem t step e c) = nat (chunk_len step e c)"
  by (simp add: chunk_mem_def)

lemma occurs_iff: "occurs m p a \<longleftrightarrow> (\<forall>j < length p. m (a + int j) = Some (p ! j))"
  by (auto simp: occurs_def list_all_iff)

lemma chunk_match_iff:
  assumes "readable t s e" "s \<le> c" "i + length p \<le> nat (chunk_len step e c)" "c < e" "0 < step"
  shows "take (length p) (drop i (chunk_mem t step e c)) = p \<longleftrightarrow> occurs (t_mem t) p (c + int i)"
proof -
  have "t_mem t (c + int (i + j)) = Some (p ! j) \<longleftrightarrow> the (t_mem t (c + int (i + j))) = p ! j"
    if "j < length p" for j
  proof -
    have "t_mem t (c + int (i + j)) \<noteq> None"
      using assms that by (auto simp: readable_def split: if_splits)
    then show ?thesis by auto
  qed
  moreover have "take (length p) (drop i (chunk_mem t step e c)) = p
    \<longleftrightarrow> (\<forall>j < length p. the (t_mem t (c + int (i + j))) = p ! j)"
    unfolding chunk_mem_def by (rule take_drop_occurs [OF assms(3)])
  ultimately show ?thesis by (simp add: occurs_iff add.assoc)
qed

abbreviation chunk_hits :: "target \<Rightarrow> byte list \<Rightarrow> int \<Rightarrow> int \<Rightarrow> int \<Rightarrow> nat list" where
  "chunk_hits t p step e c \<equiv> find_lit p 0 (chunk_mem t step e c)"

lemma chunk_hits_sound:
  assumes "readable t s e" "s \<le> c" "c < e" "0 < step" "p \<noteq> []" "i \<in> set (chunk_hits t p step e c)"
  shows "occurs (t_mem t) p (c + int i)" "int i + int (length p) \<le> chunk_len step e c"
proof -
  have m: "take (length p) (drop i (chunk_mem t step e c)) = p" using find_lit_sound [OF assms(6)] by simp
  then have "length (take (length p) (drop i (chunk_mem t step e c))) = length p" by simp
  then have l: "i + length p \<le> nat (chunk_len step e c)"
    using assms(5) by (simp only: chunk_mem_length length_take length_drop length_greater_0_conv [symmetric])
  then show "int i + int (length p) \<le> chunk_len step e c" using assms(3,4) by (auto split: if_splits)
  show "occurs (t_mem t) p (c + int i)" using chunk_match_iff [OF assms(1,2) l assms(3,4)] m by simp
qed

lemma chunk_hits_complete:
  assumes "readable t s e" "s \<le> c" "c < e" "0 < step" "p \<noteq> []"
    and "occurs (t_mem t) p (c + int j)" "int j + int (length p) \<le> chunk_len step e c"
  shows "\<exists>i \<in> set (chunk_hits t p step e c). i \<le> j \<and> j < i + length p"
proof -
  have "j + length p \<le> nat (chunk_len step e c)" using assms(7) by linarith
  from chunk_match_iff [OF assms(1,2) this assms(3,4)] assms(6)
  have "take (length p) (drop j (chunk_mem t step e c)) = p" by simp
  from find_lit_complete [OF assms(5) this, of 0] show ?thesis by simp
qed

text \<open>The starts of all matches, chunk after chunk\<close>
abbreviation all_hits :: "target \<Rightarrow> byte list \<Rightarrow> int \<Rightarrow> int \<Rightarrow> int \<Rightarrow> nat \<Rightarrow> int list" where
  "all_hits t p step s e n \<equiv> concat (map (\<lambda>k. map (\<lambda>i. s + int k * step + int i)
     (chunk_hits t p step e (s + int k * step))) [0..<n])"

lemma all_hits_sorted:
  assumes "readable t s e" "0 < step" "p \<noteq> []" "\<forall>k < n. s + int k * step < e"
  shows "sorted_wrt (\<lambda>a b. a + int (length p) \<le> b) (all_hits t p step s e n)"
  using assms(4)
proof (induction n)
  case (Suc n)
  let ?c = "s + int n * step"
  have "a + int (length p) \<le> b"
    if "a \<in> set (all_hits t p step s e n)" "b \<in> set (map (\<lambda>i. ?c + int i) (chunk_hits t p step e ?c))" for a b
  proof -
    obtain k i where k: "k < n" "i \<in> set (chunk_hits t p step e (s + int k * step))"
      "a = s + int k * step + int i" using \<open>a \<in> _\<close> by auto
    have "int i + int (length p) \<le> chunk_len step e (s + int k * step)"
      by (rule chunk_hits_sound(2) [OF assms(1) _ _ assms(2,3) k(2)]) (use Suc.prems k assms(2) in auto)
    also have "\<dots> \<le> step" by simp
    finally have "a + int (length p) \<le> s + (int k + 1) * step" using k(3) by (simp add: algebra_simps)
    also have "\<dots> \<le> ?c" using k(1) assms(2) by (intro add_left_mono mult_right_mono) auto
    also have "\<dots> \<le> b" using \<open>b \<in> _\<close> by auto
    finally show ?thesis .
  qed
  moreover have "sorted_wrt (\<lambda>a b. a + int (length p) \<le> b) (map (\<lambda>i. ?c + int i) (chunk_hits t p step e ?c))"
    using find_lit_disjoint [OF assms(3), of 0 "chunk_mem t step e ?c"]
    by (auto simp: sorted_wrt_map elim!: sorted_wrt_mono_rel [rotated])
  moreover have "sorted_wrt (\<lambda>a b. a + int (length p) \<le> b) (all_hits t p step s e n)"
    using Suc by simp
  ultimately show ?case by (simp only: upt_Suc_append map_append concat_append list.map concat.simps
      append_Nil2 sorted_wrt_append zero_le) blast
qed simp

lemma latin1_pybytes: "latin1 (gef_pybytes s) = s"
  by (simp add: latin1_def gef_pybytes_def comp_def unat_of_nat map_idI)

lemma fst_text_entry: "fst (text_entry env pat c mem m) = c + int (fst m)"
  by (simp add: text_entry_def Let_def)

lemma search_starts:
  assumes "readable (se_target env) s e" "0 < step" "re_literal pattern = Some p"
    and "step = se_nr_pages env * se_pagesize env" "n = nat ((e - s + step - 1) div step)"
  shows "\<exists>locs. search_pattern_by_address env pattern s e = Inr locs
    \<and> map fst locs = all_hits (se_target env) p step s e n"
proof -
  let ?cs = "map (\<lambda>k. s + int k * step) [0..<n]"
  have r: "py_range s e step = Inr ?cs" using assms(2,5) by (simp add: py_range_def)
  have c: "\<forall>c \<in> set ?cs. s \<le> c \<and> c < e" using chunk_bounds [OF assms(2)] assms(2,5) by auto
  have l: "re_literal (latin1 (gef_pybytes pattern)) = Some p" by (simp add: latin1_pybytes assms(3))
  show ?thesis
    using search_chunks_readable [OF assms(1,2) l c, of "text_entry env (gef_pybytes pattern)" "[]"] r
    by (simp add: search_pattern_by_address_def assms(4) [symmetric] map_concat comp_def fst_text_entry)
qed

lemma chunk_index:
  fixes s e step a :: int
  assumes "0 < step" "s \<le> a" "a < e"
  obtains k where "k < nat ((e - s + step - 1) div step)" "s + int k * step \<le> a"
    "a < s + int k * step + step" "int k = chunk_of s step a"
proof -
  let ?q = "(a - s) div step"
  have d: "?q * step + (a - s) mod step = a - s" by simp
  have q: "0 \<le> ?q" using assms by (simp add: pos_imp_zdiv_nonneg_iff)
  have m: "0 \<le> (a - s) mod step" "(a - s) mod step < step" using assms(1) by simp_all
  have "?q * step \<le> e - s - 1" using assms(3) d m by linarith
  then have "(?q + 1) * step \<le> e - s + step - 1" unfolding distrib_right by linarith
  then have "((?q + 1) * step) div step \<le> (e - s + step - 1) div step"
    using assms(1) by (rule zdiv_mono1)
  then have "?q + 1 \<le> (e - s + step - 1) div step" using assms(1) by simp
  then have "nat ?q < nat ((e - s + step - 1) div step)" using q by linarith
  moreover have nq: "int (nat ?q) = ?q" using q by simp
  have "s + int (nat ?q) * step \<le> a" "a < s + int (nat ?q) * step + step"
    unfolding nq using d m by linarith+
  ultimately show ?thesis by (rule that) (simp only: nq chunk_of_def)
qed

section \<open>Facts about hexadecimal patterns\<close>

primrec hexn :: "nat \<Rightarrow> nat \<Rightarrow> string" where
  "hexn 0 x = []"
| "hexn (Suc n) x = hexn n (x div 16) @ [digit_char (x mod 16)]"

lemma hexn_length [simp]: "length (hexn n x) = n"
  by (induction n arbitrary: x) auto

lemma hexn_zero: "hexn n 0 = replicate n (CHR ''0'')"
proof (induction n)
  case (Suc n)
  have "digit_char 0 = CHR ''0''" by code_simp
  with Suc show ?case by (simp add: replicate_append_same)
qed simp

lemma zfill_hexn: "0 < n \<Longrightarrow> x < 16 ^ n \<Longrightarrow> zfill n (nat_digits 16 x) = hexn n x"
proof (induction n arbitrary: x)
  case (Suc n)
  show ?case
  proof (cases "x < 16")
    case True
    then show ?thesis by (simp add: nat_digits.simps [of 16 x] zfill_def hexn_zero)
  next
    case False
    then have n: "0 < n" using Suc.prems by (cases n) auto
    have "x div 16 < 16 ^ n" using Suc.prems by (simp add: less_mult_imp_div_less mult.commute)
    from Suc.IH [OF n this] show ?thesis using False
      by (simp add: nat_digits.simps [of 16 x] zfill_def)
  qed
qed simp

lemma pair_up_snoc: "even (length a) \<Longrightarrow> pair_up (a @ [c, d]) = pair_up a @ [[c, d]]"
  by (induction a rule: pair_up.induct) (auto simp: neq_Nil_conv)

text \<open>The two digits of every byte, the least significant byte first\<close>
primrec hex_pairs :: "nat \<Rightarrow> nat \<Rightarrow> string list" where
  "hex_pairs 0 x = []"
| "hex_pairs (Suc n) x = [digit_char (x div 16 mod 16), digit_char (x mod 16)] # hex_pairs n (x div 256)"

lemma pair_up_hexn: "pair_up (hexn (2 * n) x) = rev (hex_pairs n x)"
proof (induction n arbitrary: x)
  case (Suc n)
  have "hexn (2 * Suc n) x = hexn (2 * n) (x div 256) @ [digit_char (x div 16 mod 16), digit_char (x mod 16)]"
    by (simp add: div_mult2_eq [of x 16 16, simplified])
  then show ?case by (simp add: pair_up_snoc Suc)
qed simp

definition esc_pair :: "string \<Rightarrow> string" where
  "esc_pair p = [CHR 0x5C, CHR ''x''] @ p"

lemma re_literal_pair:
  assumes "a < 16" "b < 16"
  shows "re_literal (esc_pair [digit_char a, digit_char b] @ rest)
    = map_option ((#) (word_of_nat (16 * a + b))) (re_literal rest)"
  using assms by (simp add: esc_pair_def hex_digit_lower hex_digit_digit_char digit_val_digit_char)

definition pair_byte :: "nat \<times> nat \<Rightarrow> byte" where
  "pair_byte = (\<lambda>(a, b). word_of_nat (16 * a + b))"

lemma re_literal_bytes:
  "list_all (\<lambda>(a, b). a < 16 \<and> b < 16) ds \<Longrightarrow>
   re_literal (concat (map (\<lambda>(a, b). esc_pair [digit_char a, digit_char b]) ds))
    = Some (map pair_byte ds)"
  by (induction ds) (auto simp: re_literal_pair pair_byte_def)

primrec nibbles :: "nat \<Rightarrow> nat \<Rightarrow> (nat \<times> nat) list" where
  "nibbles 0 x = []"
| "nibbles (Suc n) x = (x div 16 mod 16, x mod 16) # nibbles n (x div 256)"

lemma nibbles_small: "list_all (\<lambda>(a, b). a < 16 \<and> b < 16) (nibbles n x)"
  by (induction n arbitrary: x) auto

lemma hex_pairs_nibbles: "hex_pairs n x = map (\<lambda>(a, b). [digit_char a, digit_char b]) (nibbles n x)"
  by (induction n arbitrary: x) auto

lemma nibbles_bytes:
  "map pair_byte (nibbles n x) = le_bytes n (int x)"
proof (induction n arbitrary: x)
  case (Suc n)
  have "16 * (x div 16 mod 16) + x mod 16 = x mod 256"
    using mod_mult2_eq [of x 16 16] by simp
  moreover have "(word_of_nat (x mod 256) :: byte) = word_of_nat x"
    by (simp only: word_of_nat_eq_iff) (simp add: take_bit_eq_mod)
  ultimately have "pair_byte (x div 16 mod 16, x mod 16) = word_of_int (int x)"
    by (simp only: pair_byte_def prod.case of_int_of_nat_eq)
  then show ?case using Suc [of "x div 256"] by (simp add: zdiv_int)
qed simp

lemma hex_pattern_literal:
  "re_literal (hex_pattern big (CHR ''0'' # CHR ''x'' # hexn (2 * n) x))
    = Some (if big then rev (le_bytes n (int x)) else le_bytes n (int x))"
proof -
  have c: "(\<lambda>p. CHR 0x5C # CHR ''x'' # (case p of (a, b) \<Rightarrow> [digit_char a, digit_char b]))
    = (\<lambda>(a, b). esc_pair [digit_char a, digit_char b])"
    by (auto simp: esc_pair_def)
  have "list_all (\<lambda>(a, b). a < 16 \<and> b < 16) (rev (nibbles n x))" using nibbles_small by (simp add: list_all_iff)
  have r: "map pair_byte (rev (nibbles n x)) = rev (le_bytes n (int x))"
    by (simp add: rev_map [symmetric] nibbles_bytes)
  from re_literal_bytes [OF \<open>list_all _ (rev _)\<close>] re_literal_bytes [OF nibbles_small [of n x]]
  show ?thesis
    by (simp add: hex_pattern_def pair_up_hexn hex_pairs_nibbles comp_def c rev_map nibbles_bytes r)
qed

section \<open>Properties\<close>

text \<open>The start addresses of the reported occurrences, over all chunks\<close>
lemma all_hits_iff:
  "a \<in> set (all_hits t p step s e n) \<longleftrightarrow> (\<exists>k < n. \<exists>i \<in> set (chunk_hits t p step e (s + int k * step)). a = s + int k * step + int i)"
  by auto

lemma all_hits_sound:
  assumes "readable t s e" "p \<noteq> []" "0 < step" "n = nat ((e - s + step - 1) div step)" "a \<in> set (all_hits t p step s e n)"
  shows "occurs (t_mem t) p a \<and> s \<le> a \<and> a + int (length p) \<le> e
    \<and> chunk_of s step a = chunk_of s step (a + int (length p) - 1)"
proof -
  let ?L = "int (length p)"
  have L: "0 < ?L" using assms(2) by simp
  obtain k i where k: "k < n" "i \<in> set (chunk_hits t p step e (s + int k * step))" "a = s + int k * step + int i"
    using assms(5) unfolding all_hits_iff by blast
  have bound: "s \<le> s + int k * step" "s + int k * step < e"
    using chunk_bounds [OF assms(3)] k(1) assms(3,4) by auto
  note f = chunk_hits_sound [OF assms(1) bound assms(3,2) k(2)]
  have st: "int i + ?L \<le> step" using f(2) by (auto split: if_splits)
  have "chunk_of s step (s + int k * step + int i) = int k"
    by (rule chunk_of_add) (use st L in linarith)+
  moreover have "chunk_of s step (s + int k * step + (int i + ?L - 1)) = int k"
    by (rule chunk_of_add) (use st L in linarith)+
  ultimately have "chunk_of s step a = chunk_of s step (a + ?L - 1)"
    by (simp only: k(3) add.assoc add_diff_eq)
  then show ?thesis using f k(3) bound(1) by (auto split: if_splits)
qed

lemma all_hits_complete:
  assumes "readable t s e" "p \<noteq> []" "0 < step" "n = nat ((e - s + step - 1) div step)"
    and a: "occurs (t_mem t) p a" "s \<le> a" "a + int (length p) \<le> e" "chunk_of s step a = chunk_of s step (a + int (length p) - 1)"
  shows "\<exists>b \<in> set (all_hits t p step s e n). b \<le> a \<and> a < b + int (length p)"
proof -
  let ?L = "int (length p)"
  have L: "0 < ?L" using assms(2) by simp
  then have le: "a < e" "a + ?L - 1 < e" "s \<le> a + ?L - 1" using a(2,3) by linarith+
  obtain k where k: "k < n" "s + int k * step \<le> a" "int k = chunk_of s step a"
    using chunk_index [OF assms(3) a(2) le(1)] unfolding assms(4) by metis
  obtain k' where k': "a + ?L - 1 < s + int k' * step + step" "int k' = chunk_of s step (a + ?L - 1)"
    using chunk_index [OF assms(3) le(3,2)] by metis
  have "k' = k" using k(3) k'(2) a(4) by linarith
  define j where "j = nat (a - (s + int k * step))"
  have j: "a = s + int k * step + int j" using k(2) by (simp add: j_def)
  have bound: "s \<le> s + int k * step" "s + int k * step < e"
    using chunk_bounds [OF assms(3)] k(1) assms(3,4) by auto
  have "int j + ?L \<le> chunk_len step e (s + int k * step)" using k'(1) a(3) j \<open>k' = k\<close> by auto
  from chunk_hits_complete [OF assms(1) bound assms(3,2) _ this] a(1) j
  obtain i where i: "i \<in> set (chunk_hits t p step e (s + int k * step))" "i \<le> j" "j < i + length p" by auto
  then have "s + int k * step + int i \<in> set (all_hits t p step s e n)" unfolding all_hits_iff using k(1) by blast
  then show ?thesis by (rule bexI [rotated]) (use i(2,3) j in linarith)
qed

text \<open>C25: over a readable range \<^verbatim>\<open>search_pattern_by_address\<close> reports addresses where the bytes of
  the pattern stand, inside the range and inside one chunk; every such occurrence starts at a
  reported one or inside it; and the reported ones are in order and do not overlap.\<close>
theorem search_finds_occurrences:
  assumes "readable (se_target env) s e" "re_literal pattern = Some p" "p \<noteq> []"
    and "step = se_nr_pages env * se_pagesize env" "0 < step"
  shows "\<exists>locs. search_pattern_by_address env pattern s e = Inr locs
    \<and> sorted_wrt (\<lambda>l l'. fst l + int (length p) \<le> fst l') locs
    \<and> (\<forall>l \<in> set locs. occurs (t_mem (se_target env)) p (fst l) \<and> s \<le> fst l \<and> fst l + int (length p) \<le> e
        \<and> chunk_of s step (fst l) = chunk_of s step (fst l + int (length p) - 1))
    \<and> (\<forall>a. occurs (t_mem (se_target env)) p a \<and> s \<le> a \<and> a + int (length p) \<le> e
        \<and> chunk_of s step a = chunk_of s step (a + int (length p) - 1)
        \<longrightarrow> (\<exists>l \<in> set locs. fst l \<le> a \<and> a < fst l + int (length p)))"
proof -
  let ?t = "se_target env" and ?L = "int (length p)"
  define n where "n = nat ((e - s + step - 1) div step)"
  obtain locs where locs: "search_pattern_by_address env pattern s e = Inr locs"
    "map fst locs = all_hits ?t p step s e n"
    using search_starts [OF assms(1,5,2,4) n_def] by blast
  have "sorted_wrt (\<lambda>a b. a + ?L \<le> b) (map fst locs)"
    unfolding locs(2) by (rule all_hits_sorted [OF assms(1,5,3)]) (use chunk_bounds [OF assms(5)] assms(5) in \<open>auto simp: n_def\<close>)
  then have S: "sorted_wrt (\<lambda>l l'. fst l + ?L \<le> fst l') locs" by (simp only: sorted_wrt_map)
  have A: "occurs (t_mem ?t) p (fst l) \<and> s \<le> fst l \<and> fst l + ?L \<le> e
      \<and> chunk_of s step (fst l) = chunk_of s step (fst l + ?L - 1)" if "l \<in> set locs" for l
    by (rule all_hits_sound [OF assms(1,3,5) n_def]) (use that in \<open>simp add: locs(2) [symmetric]\<close>)
  have "\<exists>l \<in> set locs. fst l \<le> a \<and> a < fst l + ?L"
    if "occurs (t_mem ?t) p a" "s \<le> a" "a + ?L \<le> e" "chunk_of s step a = chunk_of s step (a + ?L - 1)" for a
    using all_hits_complete [OF assms(1,3,5) n_def that] by (simp add: locs(2) [symmetric])
  then show ?thesis using A S locs(1) by blast
qed

definition demo_bytes :: "byte list" where
  "demo_bytes = [0x41, 0x42, 0x41, 0x42, 0x00, 0x41, 0x42, 0x7f]"

definition demo_search :: search_env where
  "demo_search = \<lparr>se_target = demo_target\<lparr>t_mem := \<lambda>a. if 0x1000 \<le> a \<and> a < 0x1008
       then Some (demo_bytes ! nat (a - 0x1000)) else None\<rparr>, se_maps = [], se_infos = [],
     se_decode = \<lambda>_. None, se_regex = \<lambda>_ _. Inr [], se_literal = \<lambda>_. Inr [], se_nr_pages = 1,
     se_pagesize = 4, se_preview = 10, se_no_color = True\<rparr>"

theorem search_finds_occurrences_witness:
  "\<exists>locs. search_pattern_by_address demo_search ''AB'' 0x1000 0x1008 = Inr locs
    \<and> (\<exists>l \<in> set locs. fst l \<le> 0x1005 \<and> 0x1005 < fst l + 2)"
proof -
  have r: "readable (se_target demo_search) 0x1000 0x1008"
    by (simp add: readable_def demo_search_def)
  have l: "re_literal ''AB'' = Some [0x41, 0x42]" by simp
  have o: "occurs (t_mem (se_target demo_search)) [0x41, 0x42] 0x1005"
    by (simp add: occurs_iff less_Suc_eq demo_search_def demo_bytes_def)
  have c: "chunk_of 0x1000 4 0x1005 = chunk_of 0x1000 4 (0x1005 + int (length [0x41 :: byte, 0x42]) - 1)"
    by (simp add: chunk_of_def)
  have "\<exists>locs. search_pattern_by_address demo_search ''AB'' 0x1000 0x1008 = Inr locs
      \<and> (\<forall>a. occurs (t_mem (se_target demo_search)) [0x41, 0x42] a \<and> 0x1000 \<le> a \<and> a + 2 \<le> 0x1008
        \<and> chunk_of 0x1000 4 a = chunk_of 0x1000 4 (a + int (length [0x41 :: byte, 0x42]) - 1)
        \<longrightarrow> (\<exists>l \<in> set locs. fst l \<le> a \<and> a < fst l + 2))"
    using search_finds_occurrences [OF r l, of 4] by (force simp: demo_search_def)
  then show ?thesis using o c by force
qed

text \<open>Fact: the hexadecimal text of an address, as wide as its n bytes, is taken as hexadecimal and
  becomes the expression that matches exactly the n bytes of the address in the chosen byte
  order, the bytes \<^verbatim>\<open>struct.pack\<close> stores for it.\<close>
theorem hex_pattern_is_packed:
  assumes "0 \<le> x" "x < 256 ^ n" "0 < n"
  shows "is_hex (hexs0 (2 * n + 2) x)
    \<and> map_option Inr (re_literal (hex_pattern (e = BIG_ENDIAN) (hexs0 (2 * n + 2) x))) = Some (struct_pack e False n x)"
proof -
  have p: "(256 :: nat) ^ n = 16 ^ (2 * n)" by (simp add: power_mult)
  have "nat x < 256 ^ n" using assms(1,2) by (simp add: nat_less_iff)
  then have lt: "nat x < 16 ^ (2 * n)" by (simp only: p)
  have z: "zfill (2 * n) (nat_digits 16 (nat x)) = hexn (2 * n) (nat x)"
    by (rule zfill_hexn [OF _ lt]) (use assms(3) in simp)
  have t: "hexs0 (2 * n + 2) x = CHR ''0'' # CHR ''x'' # hexn (2 * n) (nat x)"
    using assms(1) z by (simp add: hexs0_def)
  have "is_hex (''0x'' @ zfill (2 * n) (nat_digits 16 (nat x)))"
    by (rule is_hex_zfill) (use lt assms(3) in \<open>auto intro!: length_nat_digits\<close>)
  then have "is_hex (hexs0 (2 * n + 2) x)" unfolding t by (simp add: z)
  moreover have "in_range False n x" using assms(1,2) by (simp add: in_range_def power_mult)
  ultimately show ?thesis using assms(1) unfolding t
    by (cases e) (simp_all add: hex_pattern_literal struct_pack_def order_def endianness_str_def)
qed

theorem hex_pattern_is_packed_witness:
  "re_literal (hex_pattern (LITTLE_ENDIAN = BIG_ENDIAN) (hexs0 8 0x401000)) = Some [0x00, 0x10, 0x40]"
proof -
  have "struct_pack LITTLE_ENDIAN False 3 0x401000 = Inr [0x00, 0x10, 0x40]"
    by code_simp
  then show ?thesis using hex_pattern_is_packed [of "0x401000" 3 LITTLE_ENDIAN] by simp
qed

end
