(* ===== verification/Pie.thy ===== *)
theory Pie
  imports Ui MemMaps
begin

text \<open>
  Breakpoints relative to the load address: \<^verbatim>\<open>PieVirtualBreakpoint\<close> and the \<^verbatim>\<open>pie\<close> commands over the
  session's dictionary and counter.  GDB is not part of the repository: its state is a type
  variable, \<^verbatim>\<open>pe_exec\<close> is \<^verbatim>\<open>gdb.execute\<close> on it, \<^verbatim>\<open>pe_target\<close> and \<^verbatim>\<open>pe_maps\<close> what the helpers
  read from it.
\<close>

record pie_bp =
  vbp_num :: int
  pb_offset :: int
  bp_num :: "string option"
  bp_addr :: string

text \<open>The text of the address: \<^verbatim>\<open>hex(addr)\<close>\<close>
definition pb_text :: "pie_bp \<Rightarrow> string" where "pb_text bp = hexs (pb_offset bp)"

definition new_pie_bp :: "int \<Rightarrow> int \<Rightarrow> pie_bp" where
  "new_pie_bp n a = \<lparr>vbp_num = n, pb_offset = a, bp_num = None, bp_addr = ''0''\<rparr>"

definition set_func :: "pie_bp \<Rightarrow> int \<Rightarrow> string" where
  "set_func bp base = ''b *'' @ decs (base + pb_offset bp)"

text \<open>The session and GDB as the commands see them\<close>
record 'g pie_state =
  pie_breakpoints :: "(int \<times> pie_bp) list"
  pie_counter :: int
  context_hidden :: bool
  pie_out :: "string list"
  dbg :: 'g

record 'g pie_env =
  pe_exec :: "string \<Rightarrow> ('g, string) stm"
  pe_target :: "'g \<Rightarrow> target"
  pe_maps :: "'g \<Rightarrow> sect list result"
  pe_access :: "string \<Rightarrow> bool"
  pe_remote :: bool
  pe_no_color :: bool

definition say_pie :: "string \<Rightarrow> 'g pie_state \<Rightarrow> 'g pie_state" where
  "say_pie l s = s\<lparr>pie_out := pie_out s @ [l]\<rparr>"

definition execute :: "'g pie_env \<Rightarrow> string \<Rightarrow> ('g pie_state, string) stm" where
  "execute env cmd s = (let (r, g) = pe_exec env cmd (dbg s) in (r, s\<lparr>dbg := g\<rparr>))"

text \<open>\<^verbatim>\<open>gdb.error\<close> includes its subclass \<^verbatim>\<open>gdb.MemoryError\<close>\<close>
definition is_gdb_error :: "py_exn \<Rightarrow> bool" where
  "is_gdb_error e = (exn_cls e = GdbError \<or> exn_cls e = GdbMemoryError)"

section \<open>Virtual breakpoints\<close>

definition bp_destroy :: "'g pie_env \<Rightarrow> pie_bp \<Rightarrow> ('g pie_state, pie_bp) stm" where
  "bp_destroy env bp s =
     (case bp_num bp of
        None \<Rightarrow> (Inr bp, say_pie (err_line (pe_no_color env) ''Destroy PIE breakpoint not even set'') s)
      | Some n \<Rightarrow> bindS (execute env (''delete '' @ n)) (\<lambda>_. retS (bp\<lparr>bp_num := None\<rparr>)) s)"

text \<open>The answer of GDB to the breakpoint command; the breakpoint as it is when an exception leaves\<close>
definition bp_set :: "'g pie_env \<Rightarrow> int \<Rightarrow> pie_bp \<Rightarrow> 'g pie_state \<Rightarrow> unit result \<times> pie_bp \<times> 'g pie_state" where
  "bp_set env base bp s =
     (case execute env (set_func bp base) s of
        (Inl e, s1) \<Rightarrow> if is_gdb_error e then (Inr (), bp, say_pie (err_line (pe_no_color env) (exn_msg e)) s1)
                       else (Inl e, bp, s1)
      | (Inr res, s1) \<Rightarrow>
          if res = [] then (Inr (), bp, s1)
          else if \<not> str_in ''Breakpoint'' res then (Inr (), bp, say_pie (err_line (pe_no_color env) res) s1)
          else (let l = split_ws res in
            if length l < 2 then (raise IndexError ''list index out of range'', bp, s1)
            else if length l < 4 then (raise IndexError ''list index out of range'', bp\<lparr>bp_num := Some (l ! 1)\<rparr>, s1)
            else (Inr (), bp\<lparr>bp_num := Some (l ! 1), bp_addr := l ! 3\<rparr>, s1)))"

definition bp_instantiate :: "'g pie_env \<Rightarrow> int \<Rightarrow> pie_bp \<Rightarrow> 'g pie_state \<Rightarrow> unit result \<times> pie_bp \<times> 'g pie_state" where
  "bp_instantiate env base bp s =
     (if bp_num bp = None then bp_set env base bp s
      else case bp_destroy env bp s of
        (Inl e, s1) \<Rightarrow> (Inl e, bp, s1)
      | (Inr bp1, s1) \<Rightarrow> bp_set env base bp1 s1)"

text \<open>The loop over the values of the dictionary: the objects change in place, an exception ends it\<close>
fun instantiate_list ::
  "'g pie_env \<Rightarrow> int \<Rightarrow> (int \<times> pie_bp) list \<Rightarrow> 'g pie_state \<Rightarrow> unit result \<times> (int \<times> pie_bp) list \<times> 'g pie_state" where
  "instantiate_list env base [] s = (Inr (), [], s)"
| "instantiate_list env base ((k, bp) # bps) s =
     (case bp_instantiate env base bp s of
        (Inl e, bp1, s1) \<Rightarrow> (Inl e, (k, bp1) # bps, s1)
      | (Inr _, bp1, s1) \<Rightarrow>
          (let (r, bps', s2) = instantiate_list env base bps s1 in (r, (k, bp1) # bps', s2)))"

definition instantiate_all :: "'g pie_env \<Rightarrow> int \<Rightarrow> ('g pie_state, unit) stm" where
  "instantiate_all env base s =
     (let (r, bps, s1) = instantiate_list env base (pie_breakpoints s) s in (r, s1\<lparr>pie_breakpoints := bps\<rparr>))"

section \<open>The commands\<close>

definition set_pie_breakpoint :: "int \<Rightarrow> 'g pie_state \<Rightarrow> 'g pie_state" where
  "set_pie_breakpoint addr s =
     s\<lparr>pie_breakpoints := AList.update (pie_counter s) (new_pie_bp (pie_counter s) addr) (pie_breakpoints s),
       pie_counter := pie_counter s + 1\<rparr>"

text \<open>The start of the first section of the file; \<^verbatim>\<open>p\<close> is the attribute compared\<close>
definition pie_base :: "'g pie_env \<Rightarrow> (sect \<Rightarrow> string result) \<Rightarrow> 'g \<Rightarrow> int result" where
  "pie_base env p g =
     bindE (pe_maps env g) (\<lambda>maps.
     bindE (mapE (\<lambda>x. bindE (p x) (\<lambda>q. Inr (page_start x, Some q = t_filepath (pe_target env g)))) maps) (\<lambda>xs.
       case filter snd xs of [] \<Rightarrow> raise IndexError ''list index out of range'' | x # _ \<Rightarrow> Inr (fst x)))"

definition lift_pie :: "('g \<Rightarrow> 'a result) \<Rightarrow> ('g pie_state, 'a) stm" where
  "lift_pie f s = (f (dbg s), s)"

definition pie_breakpoint_cmd :: "'g pie_env \<Rightarrow> string \<Rightarrow> string \<Rightarrow> ('g pie_state, unit) stm" where
  "pie_breakpoint_cmd env usage ofs s =
     (if ofs = [] then (Inr (), say_pie (err_line (pe_no_color env) (''Syntax'' @ [CHR 0x0A] @ usage)) s)
      else bindS (lift_pie (\<lambda>g. parse_address (pe_target env g) ofs)) (\<lambda>addr.
           bindS (modS (set_pie_breakpoint addr)) (\<lambda>_ s1.
             if t_alive (pe_target env (dbg s1))
             then bindS (lift_pie (pie_base env (\<lambda>x. Inr (path x)))) (instantiate_all env) s1
             else (Inr (), s1))) s)"

text \<open>\<^verbatim>\<open>pie info\<close>: a first number of -1 stands for all\<close>
definition selected :: "int list \<Rightarrow> (int \<times> pie_bp) list \<Rightarrow> pie_bp list" where
  "selected ns bps =
     (if hd ns = -1 then map snd bps
      else concat (map (\<lambda>n. case map_of bps n of Some bp \<Rightarrow> [bp] | None \<Rightarrow> []) ns))"

definition pie_info_lines :: "int list \<Rightarrow> 'g pie_state \<Rightarrow> string list" where
  "pie_info_lines ns s =
     (ljust 6 ''VNum'' @ ''  '' @ ljust 6 ''Num'' @ ''  '' @ ljust 18 ''Addr'')
     # map (\<lambda>x. rjust 6 (decs (vbp_num x)) @ ''  ''
              @ ljust 6 (case bp_num x of Some n \<Rightarrow> n | None \<Rightarrow> ''N/A'') @ ''  '' @ ljust 18 (pb_text x))
         (selected ns (pie_breakpoints s))"

text \<open>\<^verbatim>\<open>delete_bp\<close>: the selection was made before, so a number given twice is deleted twice\<close>
fun delete_bps :: "'g pie_env \<Rightarrow> pie_bp list \<Rightarrow> ('g pie_state, unit) stm" where
  "delete_bps env [] s = (Inr (), s)"
| "delete_bps env (bp # bps) s =
     (case (case bp_num bp of None \<Rightarrow> (Inr [], s) | Some n \<Rightarrow> execute env (''delete '' @ n) s) of
        (Inl e, s1) \<Rightarrow> (Inl e, s1)
      | (Inr _, s1) \<Rightarrow>
          if vbp_num bp \<notin> set (map fst (pie_breakpoints s1)) then (raise KeyError (decs (vbp_num bp)), s1)
          else delete_bps env bps (s1\<lparr>pie_breakpoints := AList.delete (vbp_num bp) (pie_breakpoints s1)\<rparr>))"

definition pie_delete_cmd :: "'g pie_env \<Rightarrow> int list \<Rightarrow> ('g pie_state, unit) stm" where
  "pie_delete_cmd env ns s = delete_bps env (selected ns (pie_breakpoints s)) s"

definition exec_ignore :: "'g pie_env \<Rightarrow> string \<Rightarrow> ('g pie_state, unit) stm" where
  "exec_ignore env cmd = bindS (execute env cmd) (\<lambda>_. retS ())"

text \<open>The end of \<^verbatim>\<open>pie run\<close>: an error of \<^verbatim>\<open>continue\<close> kills the process\<close>
definition continue_or_kill :: "'g pie_env \<Rightarrow> ('g pie_state, unit) stm" where
  "continue_or_kill env s =
     (case execute env ''continue'' s of
        (Inl e, s1) \<Rightarrow> if is_gdb_error e
          then exec_ignore env ''kill'' (say_pie (err_line (pe_no_color env) (exn_msg e)) s1) else (Inl e, s1)
      | (Inr _, s1) \<Rightarrow> (Inr (), s1))"

definition hide_context :: "'g pie_state \<Rightarrow> 'g pie_state" where
  "hide_context s = s\<lparr>context_hidden := True\<rparr>"
definition unhide_context :: "'g pie_state \<Rightarrow> 'g pie_state" where
  "unhide_context s = s\<lparr>context_hidden := False\<rparr>"

definition pie_run_cmd :: "'g pie_env \<Rightarrow> string list \<Rightarrow> ('g pie_state, unit) stm" where
  "pie_run_cmd env argv s0 =
     (let nc = pe_no_color env in
      case t_filepath (pe_target env (dbg s0)) of
        None \<Rightarrow> (Inr (), say_pie (warn_line nc (''No executable to debug, use `file` to load a binary'')) s0)
      | Some fpath \<Rightarrow>
          if fpath = [] then (Inr (), say_pie (warn_line nc (''No executable to debug, use `file` to load a binary'')) s0)
          else if \<not> pe_access env fpath then
            (Inr (), say_pie (warn_line nc (''The file '' @ [CHR 0x27] @ fpath @ [CHR 0x27] @ '' is not executable.'')) s0)
          else (let s = (if t_alive (pe_target env (dbg s0))
                         then say_pie (warn_line nc ''gdb is already running. Restart process.'') s0 else s0) in
            bindS (exec_ignore env ''set stop-on-solib-events 1'') (\<lambda>_.
            bindS (modS hide_context) (\<lambda>_.
            bindS (exec_ignore env (''run '' @ join '' '' argv)) (\<lambda>_.
            bindS (modS unhide_context) (\<lambda>_.
            bindS (exec_ignore env ''set stop-on-solib-events 0'') (\<lambda>_.
            bindS (lift_pie (pie_base env (\<lambda>x. Inr (path x)))) (\<lambda>base.
            bindS (modS (say_pie (info_line nc (''base address '' @ hexs base)))) (\<lambda>_.
            bindS (instantiate_all env base) (\<lambda>_. continue_or_kill env)))))))) s))"

definition pie_attach_with ::
  "'g pie_env \<Rightarrow> (sect \<Rightarrow> string result) \<Rightarrow> string \<Rightarrow> ('g pie_state, unit) stm" where
  "pie_attach_with env p cmd s =
     (case execute env cmd s of
        (Inl e, s1) \<Rightarrow> if is_gdb_error e then (Inr (), say_pie (err_line (pe_no_color env) (exn_msg e)) s1) else (Inl e, s1)
      | (Inr _, s1) \<Rightarrow>
          bindS (lift_pie (pie_base env p)) (\<lambda>base.
          bindS (instantiate_all env base) (\<lambda>_. exec_ignore env ''context'')) s1)"

definition pie_attach_cmd :: "'g pie_env \<Rightarrow> string list \<Rightarrow> ('g pie_state, unit) stm" where
  "pie_attach_cmd env argv = pie_attach_with env (\<lambda>x. Inr (path x)) (''attach '' @ join '' '' argv)"

definition pie_remote_cmd :: "'g pie_env \<Rightarrow> string list \<Rightarrow> ('g pie_state, unit) stm" where
  "pie_remote_cmd env argv =
     pie_attach_with env (realpath (pe_remote env)) (''gef-remote '' @ join '' '' argv)"

section \<open>The dictionary of breakpoints\<close>

text \<open>Every breakpoint stands under its own number, and every number has been given out\<close>
definition pie_inv :: "'g pie_state \<Rightarrow> bool" where
  "pie_inv s \<longleftrightarrow> distinct (map fst (pie_breakpoints s))
     \<and> list_all (\<lambda>(k, bp). vbp_num bp = k \<and> k < pie_counter s) (pie_breakpoints s)"

text \<open>What an instantiation does not change\<close>
definition fixed_part :: "int \<times> pie_bp \<Rightarrow> int \<times> int \<times> int" where
  "fixed_part = (\<lambda>(k, bp). (k, vbp_num bp, pb_offset bp))"

abbreviation same_books :: "'g pie_state \<Rightarrow> 'g pie_state \<Rightarrow> bool" where
  "same_books s s' \<equiv> pie_breakpoints s' = pie_breakpoints s \<and> pie_counter s' = pie_counter s"

lemma execute_books: "execute env cmd s = (r, s') \<Longrightarrow> same_books s s'"
  by (auto simp: execute_def split: prod.splits)

lemma say_books [simp]: "pie_breakpoints (say_pie l s) = pie_breakpoints s" "pie_counter (say_pie l s) = pie_counter s"
  "dbg (say_pie l s) = dbg s"
  by (simp_all add: say_pie_def)

lemma bp_set_books:
  "bp_set env base bp s = (r, bp', s') \<Longrightarrow> same_books s s' \<and> fixed_part (k, bp') = fixed_part (k, bp)"
  by (auto simp: bp_set_def fixed_part_def Let_def dest!: execute_books split: prod.splits sum.splits if_splits)

lemma bp_destroy_books:
  "bp_destroy env bp s = (r, s') \<Longrightarrow> same_books s s' \<and> (\<forall>bp'. r = Inr bp' \<longrightarrow> fixed_part (k, bp') = fixed_part (k, bp))"
  by (auto simp: bp_destroy_def fixed_part_def state_simps dest!: execute_books split: prod.splits sum.splits option.splits)

lemma bp_instantiate_books:
  "bp_instantiate env base bp s = (r, bp', s') \<Longrightarrow> same_books s s' \<and> fixed_part (k, bp') = fixed_part (k, bp)"
  by (auto simp: bp_instantiate_def dest!: bp_set_books [where k = k] bp_destroy_books [where k = k]
      split: if_splits prod.splits sum.splits)

lemma instantiate_list_books:
  "instantiate_list env base bps s = (r, bps', s') \<Longrightarrow> same_books s s' \<and> map fixed_part bps' = map fixed_part bps"
proof (induction env base bps s arbitrary: r bps' s' rule: instantiate_list.induct)
  case (2 env base k bp bps s)
  show ?case
  proof (cases "bp_instantiate env base bp s")
    case (fields r1 bp1 s1)
    note b = bp_instantiate_books [OF fields, of k]
    show ?thesis
    proof (cases r1)
      case (Inl e)
      then show ?thesis using 2(2) fields b by auto
    next
      case (Inr u)
      obtain r2 bps2 s2 where r: "instantiate_list env base bps s1 = (r2, bps2, s2)" by (cases "instantiate_list env base bps s1")
      from "2.IH" [OF fields [symmetric] Inr refl r] b show ?thesis using 2(2) fields Inr r by auto
    qed
  qed
qed simp

lemma fixed_part_inv:
  assumes "map fixed_part bps' = map fixed_part bps"
  shows "map fst bps' = map fst bps"
    "list_all (\<lambda>(k, bp). vbp_num bp = k \<and> k < c) bps' = list_all (\<lambda>(k, bp). vbp_num bp = k \<and> k < c) bps"
proof -
  have f: "map fst xs = map fst (map fixed_part xs)" for xs
    by (auto simp: fixed_part_def)
  have g: "list_all (\<lambda>(k, bp). vbp_num bp = k \<and> k < c) xs = list_all (\<lambda>(k, n, a). n = k \<and> k < c) (map fixed_part xs)" for xs
    by (induction xs) (auto simp: fixed_part_def)
  show "map fst bps' = map fst bps" by (simp only: f assms)
  show "list_all (\<lambda>(k, bp). vbp_num bp = k \<and> k < c) bps' = list_all (\<lambda>(k, bp). vbp_num bp = k \<and> k < c) bps"
    by (simp only: g assms)
qed

lemma keeps_instantiate [keeps_intros]: "keeps pie_inv (instantiate_all env base)"
proof (rule keepsI)
  fix s :: "'a pie_state" assume i: "pie_inv s"
  obtain r bps s1 where l: "instantiate_list env base (pie_breakpoints s) s = (r, bps, s1)"
    by (cases "instantiate_list env base (pie_breakpoints s) s")
  from instantiate_list_books [OF l] fixed_part_inv [of bps "pie_breakpoints s"] i
  show "pie_inv (snd (instantiate_all env base s))"
    by (simp add: instantiate_all_def l pie_inv_def)
qed

lemma pie_inv_books: "same_books s s' \<Longrightarrow> pie_inv s' = pie_inv s"
  by (simp add: pie_inv_def)

lemma keeps_execute [keeps_intros]: "keeps pie_inv (execute env cmd)"
  by (rule keepsI) (metis execute_books pie_inv_books prod.collapse)

lemma keeps_lift [keeps_intros]: "keeps P (lift_pie f)"
  by (simp add: keeps_def lift_pie_def)

lemma pie_inv_simps [simp]:
  "pie_inv (say_pie l s) = pie_inv s" "pie_inv (hide_context s) = pie_inv s" "pie_inv (unhide_context s) = pie_inv s"
  by (simp_all add: pie_inv_def hide_context_def unhide_context_def)

lemma keeps_exec_ignore [keeps_intros]: "keeps pie_inv (exec_ignore env cmd)"
  unfolding exec_ignore_def by (intro keeps_intros)

lemma update_new_key: "k \<notin> set (map fst al) \<Longrightarrow> AList.update k v al = al @ [(k, v)]"
  by (induction al) auto

lemma pie_inv_fresh: "pie_inv s \<Longrightarrow> pie_counter s \<notin> set (map fst (pie_breakpoints s))"
  by (auto simp: pie_inv_def list_all_iff)

lemma set_pie_append:
  "pie_inv s \<Longrightarrow> pie_breakpoints (set_pie_breakpoint a s) = pie_breakpoints s @ [(pie_counter s, new_pie_bp (pie_counter s) a)]"
  by (simp add: set_pie_breakpoint_def update_new_key [OF pie_inv_fresh])

lemma pie_inv_set: "pie_inv s \<Longrightarrow> pie_inv (set_pie_breakpoint a s)"
  using pie_inv_fresh [of s] set_pie_append [of s a]
  by (auto simp: pie_inv_def set_pie_breakpoint_def new_pie_bp_def list_all_iff)

lemma pie_inv_delete: "pie_inv s \<Longrightarrow> pie_inv (s\<lparr>pie_breakpoints := AList.delete k (pie_breakpoints s)\<rparr>)"
  by (auto simp: pie_inv_def AList.delete_eq list_all_iff distinct_map_filter)

lemma keeps_delete_bps [keeps_intros]: "keeps pie_inv (delete_bps env bps)"
proof (rule keepsI)
  fix s :: "'a pie_state"
  show "pie_inv s \<Longrightarrow> pie_inv (snd (delete_bps env bps s))"
  proof (induction bps arbitrary: s)
    case (Cons bp bps)
    let ?m = "case bp_num bp of None \<Rightarrow> (Inr [], s) | Some n \<Rightarrow> execute env (''delete '' @ n) s"
    obtain r s1 where m: "?m = (r, s1)" by (cases ?m)
    have "same_books s s1" using m by (auto dest!: execute_books split: option.splits)
    then have i: "pie_inv s1" using Cons.prems pie_inv_books by blast
    show ?case using Cons.IH [OF pie_inv_delete [OF i]] i by (simp add: m split: sum.split)
  qed simp
qed

lemma keeps_continue [keeps_intros]: "keeps pie_inv (continue_or_kill env)"
proof (rule keepsI)
  fix s :: "'a pie_state" assume i: "pie_inv s"
  obtain r s1 where e: "execute env ''continue'' s = (r, s1)" by (cases "execute env ''continue'' s")
  then have j: "pie_inv s1" using i pie_inv_books execute_books by metis
  have "pie_inv (snd (exec_ignore env ''kill'' (say_pie l s1)))" for l
    using keeps_exec_ignore [of env "''kill''"] j by (simp add: keeps_def)
  then show "pie_inv (snd (continue_or_kill env s))" using j by (simp add: continue_or_kill_def e split: sum.split)
qed

lemma keeps_breakpoint: "keeps pie_inv (pie_breakpoint_cmd env usage ofs)"
proof (rule keepsI)
  fix s :: "'a pie_state" assume i: "pie_inv s"
  have "keeps pie_inv (bindS (lift_pie (\<lambda>g. parse_address (pe_target env g) ofs)) (\<lambda>addr.
           bindS (modS (set_pie_breakpoint addr)) (\<lambda>_ s1.
             if t_alive (pe_target env (dbg s1))
             then bindS (lift_pie (pie_base env (\<lambda>x. Inr (path x)))) (instantiate_all env) s1
             else (Inr (), s1))))"
  proof (intro keeps_intros keeps_mod pie_inv_set)
    have "keeps pie_inv (bindS (lift_pie (pie_base env (\<lambda>x. Inr (path x)))) (instantiate_all env))"
      by (intro keeps_intros)
    then show "keeps pie_inv (\<lambda>s1. if t_alive (pe_target env (dbg s1))
             then bindS (lift_pie (pie_base env (\<lambda>x. Inr (path x)))) (instantiate_all env) s1 else (Inr (), s1))"
      by (simp add: keeps_def)
  qed
  then show "pie_inv (snd (pie_breakpoint_cmd env usage ofs s))"
    using i by (simp add: pie_breakpoint_cmd_def keeps_def)
qed

lemma keeps_run: "keeps pie_inv (pie_run_cmd env argv)"
proof (rule keepsI)
  fix s :: "'a pie_state" assume i: "pie_inv s"
  have *: "keeps pie_inv (bindS (exec_ignore env ''set stop-on-solib-events 1'') (\<lambda>_.
            bindS (modS hide_context) (\<lambda>_.
            bindS (exec_ignore env (''run '' @ join '' '' argv)) (\<lambda>_.
            bindS (modS unhide_context) (\<lambda>_.
            bindS (exec_ignore env ''set stop-on-solib-events 0'') (\<lambda>_.
            bindS (lift_pie (pie_base env (\<lambda>x. Inr (path x)))) (\<lambda>base.
            bindS (modS (say_pie (info_line (pe_no_color env) (''base address '' @ hexs base)))) (\<lambda>_.
            bindS (instantiate_all env base) (\<lambda>_. continue_or_kill env)))))))))"
    by (intro keeps_intros keeps_mod) simp_all
  from * i show "pie_inv (snd (pie_run_cmd env argv s))"
    by (auto simp: pie_run_cmd_def keeps_def Let_def split: option.split)
qed

lemma keeps_attach_with: "keeps pie_inv (pie_attach_with env p cmd)"
proof (rule keepsI)
  fix s :: "'a pie_state" assume i: "pie_inv s"
  obtain r s1 where e: "execute env cmd s = (r, s1)" by (cases "execute env cmd s")
  then have j: "pie_inv s1" using i pie_inv_books execute_books by metis
  have "keeps pie_inv (bindS (lift_pie (pie_base env p)) (\<lambda>base.
          bindS (instantiate_all env base) (\<lambda>_. exec_ignore env ''context'')))"
    by (intro keeps_intros)
  then show "pie_inv (snd (pie_attach_with env p cmd s))" using j
    by (simp add: pie_attach_with_def e keeps_def split: sum.split)
qed

text \<open>The sessions of the commands, whatever GDB answers and wherever they raise\<close>
inductive pie_session :: "'g pie_env \<Rightarrow> 'g pie_state \<Rightarrow> bool" for env where
  pie_start: "pie_breakpoints s = [] \<Longrightarrow> pie_session env s"
| pie_step_breakpoint: "pie_session env s \<Longrightarrow> pie_breakpoint_cmd env u a s = (r, s') \<Longrightarrow> pie_session env s'"
| pie_step_delete: "pie_session env s \<Longrightarrow> pie_delete_cmd env ns s = (r, s') \<Longrightarrow> pie_session env s'"
| pie_step_run: "pie_session env s \<Longrightarrow> pie_run_cmd env argv s = (r, s') \<Longrightarrow> pie_session env s'"
| pie_step_attach: "pie_session env s \<Longrightarrow> pie_attach_cmd env argv s = (r, s') \<Longrightarrow> pie_session env s'"
| pie_step_remote: "pie_session env s \<Longrightarrow> pie_remote_cmd env argv s = (r, s') \<Longrightarrow> pie_session env s'"
| pie_step_gdb: "pie_session env s \<Longrightarrow> pie_session env (s\<lparr>dbg := g\<rparr>)"

lemma pie_session_inv: "pie_session env s \<Longrightarrow> pie_inv s"
proof (induction rule: pie_session.induct)
  case (pie_step_breakpoint s u a r s')
  then show ?case using keepsD [OF keeps_breakpoint] by metis
next
  case (pie_step_delete s ns r s')
  then show ?case using keepsD [OF keeps_delete_bps] unfolding pie_delete_cmd_def by metis
next
  case (pie_step_run s argv r s')
  then show ?case using keepsD [OF keeps_run] by metis
next
  case (pie_step_attach s argv r s')
  then show ?case using keepsD [OF keeps_attach_with] unfolding pie_attach_cmd_def by metis
next
  case (pie_step_remote s argv r s')
  then show ?case using keepsD [OF keeps_attach_with] unfolding pie_remote_cmd_def by metis
qed (simp_all add: pie_inv_def)

section \<open>The breakpoints of GDB\<close>

text \<open>What GDB documents of \<^verbatim>\<open>break *ADDRESS\<close> and \<^verbatim>\<open>delete NUMBER\<close>: \<^verbatim>\<open>tbl\<close> is its table of breakpoints\<close>
definition breakpoint_gdb :: "'g pie_env \<Rightarrow> ('g \<Rightarrow> string \<rightharpoonup> int) \<Rightarrow> bool" where
  "breakpoint_gdb env tbl \<longleftrightarrow>
     (\<forall>g a. \<exists>n g' res loc rest. pe_exec env (''b *'' @ decs a) g = (Inr res, g') \<and> str_in ''Breakpoint'' res
        \<and> split_ws res = [''Breakpoint'', n, ''at'', loc] @ rest \<and> n \<notin> dom (tbl g) \<and> tbl g' = (tbl g)(n \<mapsto> a))
     \<and> (\<forall>g n. n \<in> dom (tbl g) \<longrightarrow> (\<exists>res g'. pe_exec env (''delete '' @ n) g = (Inr res, g') \<and> tbl g' = (tbl g)(n := None)))"

text \<open>The numbers of the real breakpoints behind the virtual ones\<close>
fun real_nums :: "(int \<times> pie_bp) list \<Rightarrow> string list" where
  "real_nums [] = []"
| "real_nums ((k, bp) # bps) = (case bp_num bp of None \<Rightarrow> real_nums bps | Some n \<Rightarrow> n # real_nums bps)"

lemma gdb_break:
  assumes "breakpoint_gdb env tbl"
  obtains n g' res loc rest where "pe_exec env (''b *'' @ decs a) g = (Inr res, g')" "str_in ''Breakpoint'' res"
    "split_ws res = [''Breakpoint'', n, ''at'', loc] @ rest" "n \<notin> dom (tbl g)" "tbl g' = (tbl g)(n \<mapsto> a)"
proof -
  from assms have "\<exists>n g' res loc rest. pe_exec env (''b *'' @ decs a) g = (Inr res, g') \<and> str_in ''Breakpoint'' res
        \<and> split_ws res = [''Breakpoint'', n, ''at'', loc] @ rest \<and> n \<notin> dom (tbl g) \<and> tbl g' = (tbl g)(n \<mapsto> a)"
    unfolding breakpoint_gdb_def by (rule conjE) (erule allE [where x = g], erule allE [where x = a])
  then show ?thesis using that by (elim exE conjE) metis
qed

lemma gdb_delete:
  assumes "breakpoint_gdb env tbl" "n \<in> dom (tbl g)"
  obtains res g' where "pe_exec env (''delete '' @ n) g = (Inr res, g')" "tbl g' = (tbl g)(n := None)"
proof -
  from assms(1) have "\<forall>g n. n \<in> dom (tbl g) \<longrightarrow> (\<exists>res g'. pe_exec env (''delete '' @ n) g = (Inr res, g') \<and> tbl g' = (tbl g)(n := None))"
    unfolding breakpoint_gdb_def by (rule conjunct2)
  then show ?thesis using assms(2) that by blast
qed

lemma bp_set_ok:
  assumes "breakpoint_gdb env tbl"
  shows "\<exists>n bp' s'. bp_set env base bp s = (Inr (), bp', s') \<and> bp_num bp' = Some n \<and> n \<notin> dom (tbl (dbg s))
    \<and> tbl (dbg s') = (tbl (dbg s))(n \<mapsto> base + pb_offset bp) \<and> fixed_part (k, bp') = fixed_part (k, bp)"
proof -
  obtain n g' res loc rest where g: "pe_exec env (''b *'' @ decs (base + pb_offset bp)) (dbg s) = (Inr res, g')"
    "str_in ''Breakpoint'' res" "split_ws res = [''Breakpoint'', n, ''at'', loc] @ rest" "n \<notin> dom (tbl (dbg s))"
    "tbl g' = (tbl (dbg s))(n \<mapsto> base + pb_offset bp)"
    by (rule gdb_break [OF assms])
  have "res \<noteq> []" using g(2) by auto
  with g show ?thesis
    by (simp add: bp_set_def execute_def set_func_def fixed_part_def del: str_in.simps)
qed

lemma bp_instantiate_ok:
  assumes "breakpoint_gdb env tbl" "set (real_nums [(k, bp)]) \<subseteq> dom (tbl (dbg s))"
  shows "\<exists>n bp' s'. bp_instantiate env base bp s = (Inr (), bp', s') \<and> bp_num bp' = Some n
    \<and> n \<notin> dom (tbl (dbg s)) - set (real_nums [(k, bp)])
    \<and> tbl (dbg s') = (tbl (dbg s) |` (- set (real_nums [(k, bp)])))(n \<mapsto> base + pb_offset bp)
    \<and> fixed_part (k, bp') = fixed_part (k, bp)"
proof (cases "bp_num bp")
  case None
  have "tbl (dbg s) |` UNIV = tbl (dbg s)" by (simp add: restrict_map_def)
  then show ?thesis using None bp_set_ok [OF assms(1), of base bp s k] by (simp add: bp_instantiate_def)
next
  case (Some m)
  then have "m \<in> dom (tbl (dbg s))" using assms(2) by simp
  then obtain res g' where d: "pe_exec env (''delete '' @ m) (dbg s) = (Inr res, g')" "tbl g' = (tbl (dbg s))(m := None)"
    by (rule gdb_delete [OF assms(1)])
  have "bp_destroy env bp s = (Inr (bp\<lparr>bp_num := None\<rparr>), s\<lparr>dbg := g'\<rparr>)"
    using Some d by (simp add: bp_destroy_def state_simps execute_def)
  then show ?thesis using Some d(2) bp_set_ok [OF assms(1), of base "bp\<lparr>bp_num := None\<rparr>" "s\<lparr>dbg := g'\<rparr>" k]
    by (auto simp: bp_instantiate_def restrict_complement_singleton_eq fixed_part_def)
qed

lemma instantiate_list_ok:
  assumes "breakpoint_gdb env tbl"
  shows "set (real_nums bps) \<subseteq> dom (tbl (dbg s)) \<Longrightarrow> distinct (real_nums bps) \<Longrightarrow>
    \<exists>bps' s'. instantiate_list env base bps s = (Inr (), bps', s') \<and> distinct (real_nums bps')
      \<and> list_all (\<lambda>(k, bp). \<exists>n. bp_num bp = Some n \<and> tbl (dbg s') n = Some (base + pb_offset bp)) bps'
      \<and> (\<forall>m \<in> dom (tbl (dbg s)) - set (real_nums bps). tbl (dbg s') m = tbl (dbg s) m)
      \<and> set (real_nums bps') \<inter> (dom (tbl (dbg s)) - set (real_nums bps)) = {}
      \<and> dom (tbl (dbg s')) = (dom (tbl (dbg s)) - set (real_nums bps)) \<union> set (real_nums bps')"
proof (induction bps arbitrary: s)
  case (Cons x bps)
  obtain k bp where x: "x = (k, bp)" by (cases x)
  let ?old = "set (real_nums [(k, bp)])"
  have ro: "set (real_nums (x # bps)) = ?old \<union> set (real_nums bps)" "?old \<inter> set (real_nums bps) = {}"
    "distinct (real_nums bps)"
    using Cons.prems(2) by (auto simp: x split: option.splits)
  obtain n bp1 s1 where b: "bp_instantiate env base bp s = (Inr (), bp1, s1)" "bp_num bp1 = Some n"
    "n \<notin> dom (tbl (dbg s)) - ?old" "tbl (dbg s1) = (tbl (dbg s) |` (- ?old))(n \<mapsto> base + pb_offset bp)"
    "fixed_part (k, bp1) = fixed_part (k, bp)"
    using bp_instantiate_ok [OF assms, of k bp s base] Cons.prems(1) ro(1) by auto
  have d1: "dom (tbl (dbg s1)) = insert n (dom (tbl (dbg s)) - ?old)" by (auto simp: b(4))
  have "set (real_nums bps) \<subseteq> dom (tbl (dbg s1))" using Cons.prems(1) ro d1 by blast
  from Cons.IH [OF this ro(3)] obtain bps2 s2 where i: "instantiate_list env base bps s1 = (Inr (), bps2, s2)"
    "distinct (real_nums bps2)"
    "list_all (\<lambda>(k, bp). \<exists>n. bp_num bp = Some n \<and> tbl (dbg s2) n = Some (base + pb_offset bp)) bps2"
    "\<forall>m \<in> dom (tbl (dbg s1)) - set (real_nums bps). tbl (dbg s2) m = tbl (dbg s1) m"
    "set (real_nums bps2) \<inter> (dom (tbl (dbg s1)) - set (real_nums bps)) = {}"
    "dom (tbl (dbg s2)) = (dom (tbl (dbg s1)) - set (real_nums bps)) \<union> set (real_nums bps2)" by blast
  have n: "n \<notin> set (real_nums bps)" using b(3) Cons.prems(1) ro by blast
  have "pb_offset bp1 = pb_offset bp" using b(5) by (simp add: fixed_part_def)
  moreover have "tbl (dbg s2) n = Some (base + pb_offset bp)" using i(4) n d1 b(4) by simp
  moreover have "n \<notin> set (real_nums bps2)" using i(5) n d1 by blast
  moreover have "tbl (dbg s2) m = tbl (dbg s) m" if m: "m \<in> dom (tbl (dbg s)) - set (real_nums (x # bps))" for m
  proof -
    have "m \<noteq> n" "m \<notin> ?old" using m b(3) ro by blast+
    moreover have "m \<in> dom (tbl (dbg s1)) - set (real_nums bps)" using m ro d1 by blast
    ultimately show ?thesis using i(4) b(4) by simp
  qed
  moreover have "set (real_nums ((k, bp1) # bps2)) \<inter> (dom (tbl (dbg s)) - set (real_nums (x # bps))) = {}"
    using b(2,3) i(5) d1 ro(1) by auto
  moreover have "dom (tbl (dbg s2)) = (dom (tbl (dbg s)) - set (real_nums (x # bps))) \<union> set (real_nums ((k, bp1) # bps2))"
    using b(2) i(6) d1 ro n by auto
  ultimately show ?case using b(1,2) i(1-3) by (simp add: x)
qed simp

section \<open>Properties\<close>

text \<open>Fact: in every session of the \<^verbatim>\<open>pie\<close> commands, whatever GDB answers and wherever a command
  raises, the numbers of the virtual breakpoints are distinct, each breakpoint stands under its own
  number, and the next number is unused.\<close>
theorem pie_numbers_unique:
  assumes "pie_session env s"
  shows "distinct (map fst (pie_breakpoints s)) \<and> map fst (pie_breakpoints s) = map (vbp_num \<circ> snd) (pie_breakpoints s)
    \<and> pie_breakpoints (set_pie_breakpoint a s)
        = pie_breakpoints s @ [(pie_counter s, new_pie_bp (pie_counter s) a)]"
proof -
  have i: "pie_inv s" using assms by (rule pie_session_inv)
  then have "map fst (pie_breakpoints s) = map (vbp_num \<circ> snd) (pie_breakpoints s)"
    by (auto simp: pie_inv_def list_all_iff)
  moreover have "distinct (map fst (pie_breakpoints s))" using i by (simp add: pie_inv_def)
  ultimately show ?thesis using set_pie_append [OF i] by blast
qed

definition demo_pie :: "(string \<times> int) list pie_state" where
  "demo_pie = \<lparr>pie_breakpoints = [(1, new_pie_bp 1 0x1139)], pie_counter = 2, context_hidden = False, pie_out = [], dbg = []\<rparr>"

definition demo_pie_env :: "nat pie_env" where
  "demo_pie_env = \<lparr>pe_exec = \<lambda>c g. (raise GdbError c, g), pe_target = \<lambda>_. demo_target\<lparr>t_alive := False, t_eval := \<lambda>_. Inr 16\<rparr>,
     pe_maps = \<lambda>_. Inr [], pe_access = \<lambda>_. True, pe_remote = False, pe_no_color = True\<rparr>"

theorem pie_numbers_unique_witness:
  "\<exists>s. pie_session demo_pie_env s \<and> map fst (pie_breakpoints (set_pie_breakpoint 0x20 s)) = [1, 2]"
proof -
  define s0 where "s0 = \<lparr>pie_breakpoints = [], pie_counter = 1, context_hidden = False, pie_out = [], dbg = 0 :: nat\<rparr>"
  have "pie_breakpoints s0 = []" unfolding s0_def by simp
  then have 0: "pie_session demo_pie_env s0" by (rule pie_start)
  have "\<not> is_hex ''main''" by code_simp
  then have "pie_breakpoint_cmd demo_pie_env [] ''main'' s0 = (Inr (), set_pie_breakpoint 16 s0)"
    by (simp add: pie_breakpoint_cmd_def state_simps lift_pie_def parse_address_def demo_pie_env_def demo_target_def)
  from pie_session.pie_step_breakpoint [OF 0 this]
  have 1: "pie_session demo_pie_env (set_pie_breakpoint 16 s0)" .
  have "pie_breakpoints (set_pie_breakpoint 16 s0) = [(1, new_pie_bp 1 16)]" "pie_counter (set_pie_breakpoint 16 s0) = 2"
    by (simp_all add: set_pie_breakpoint_def s0_def)
  then show ?thesis using pie_numbers_unique [OF 1, of "0x20"] 1 by (intro exI [of _ "set_pie_breakpoint 16 s0"]) simp
qed

text \<open>GDB's breakpoints other than the real ones behind the virtual ones\<close>
definition other_bps :: "('g \<Rightarrow> string \<rightharpoonup> int) \<Rightarrow> 'g pie_state \<Rightarrow> string \<rightharpoonup> int" where
  "other_bps tbl s = tbl (dbg s) |` (- set (real_nums (pie_breakpoints s)))"

text \<open>The abstract view: every virtual breakpoint has a real one of its own, at its offset from the base\<close>
definition placed :: "('g \<Rightarrow> string \<rightharpoonup> int) \<Rightarrow> int \<Rightarrow> 'g pie_state \<Rightarrow> bool" where
  "placed tbl base s \<longleftrightarrow> distinct (real_nums (pie_breakpoints s))
     \<and> list_all (\<lambda>(k, bp). \<exists>n. bp_num bp = Some n \<and> tbl (dbg s) n = Some (base + pb_offset bp)) (pie_breakpoints s)"

text \<open>C24: on a GDB that sets and deletes breakpoints as documented, instantiating implements the abstract
  placement: from any set of earlier real breakpoints every virtual breakpoint ends with one real
  breakpoint of its own at base plus offset, the earlier real ones are gone, every other breakpoint
  of GDB is untouched, and the dictionary keeps its numbers and offsets.\<close>
theorem instantiate_places_all:
  assumes "breakpoint_gdb env tbl" "distinct (real_nums (pie_breakpoints s))"
    and "set (real_nums (pie_breakpoints s)) \<subseteq> dom (tbl (dbg s))"
  shows "\<exists>s'. instantiate_all env base s = (Inr (), s') \<and> placed tbl base s' \<and> other_bps tbl s' = other_bps tbl s
    \<and> map fixed_part (pie_breakpoints s') = map fixed_part (pie_breakpoints s)"
proof -
  let ?old = "set (real_nums (pie_breakpoints s))"
  obtain bps' s1 where i: "instantiate_list env base (pie_breakpoints s) s = (Inr (), bps', s1)" "distinct (real_nums bps')"
    "list_all (\<lambda>(k, bp). \<exists>n. bp_num bp = Some n \<and> tbl (dbg s1) n = Some (base + pb_offset bp)) bps'"
    "\<forall>m \<in> dom (tbl (dbg s)) - ?old. tbl (dbg s1) m = tbl (dbg s) m"
    "set (real_nums bps') \<inter> (dom (tbl (dbg s)) - ?old) = {}"
    "dom (tbl (dbg s1)) = (dom (tbl (dbg s)) - ?old) \<union> set (real_nums bps')"
    using instantiate_list_ok [OF assms(1,3,2), of base] by (elim exE conjE) (rule that)
  have "(tbl (dbg s1) |` (- set (real_nums bps'))) m = (tbl (dbg s) |` (- ?old)) m" for m
  proof (cases "m \<in> dom (tbl (dbg s)) - ?old")
    case True
    then show ?thesis using i(4,5) by (auto simp: restrict_map_def)
  next
    case False
    then have "m \<notin> dom (tbl (dbg s1)) - set (real_nums bps')" using i(6) by blast
    with False show ?thesis by (auto simp: restrict_map_def)
  qed
  then have "tbl (dbg s1) |` (- set (real_nums bps')) = tbl (dbg s) |` (- ?old)" by (rule ext)
  then show ?thesis using i(1-3) instantiate_list_books [OF i(1)]
    by (simp add: instantiate_all_def placed_def other_bps_def)
qed

text \<open>A GDB that numbers its breakpoints 1, 11, 111, ...\<close>
definition demo_number :: "(string \<times> int) list \<Rightarrow> string" where
  "demo_number g = replicate (Suc (fold (\<lambda>x. max (length (fst x))) g 0)) (CHR ''1'')"

definition demo_gdb :: "(string \<times> int) list pie_env" where
  "demo_gdb = \<lparr>pe_exec = \<lambda>c g. if take 3 c = ''b *'' then
         (case py_int 10 (drop 3 c) of Inl e \<Rightarrow> (Inl e, g)
          | Inr a \<Rightarrow> (Inr (''Breakpoint '' @ demo_number g @ '' at 0x0''), (demo_number g, a) # g))
       else (Inr [], filter (\<lambda>x. fst x \<noteq> drop 7 c) g),
     pe_target = \<lambda>_. demo_target, pe_maps = \<lambda>_. Inr [], pe_access = \<lambda>_. True, pe_remote = False, pe_no_color = True\<rparr>"

lemma fold_max_ge: "a \<le> fold (\<lambda>x. max (f x)) xs (a :: nat) \<and> (\<forall>x \<in> set xs. f x \<le> fold (\<lambda>x. max (f x)) xs a)"
proof (induction xs arbitrary: a)
  case (Cons y xs)
  show ?case using Cons [of "max (f y) a"] by simp
qed simp

lemma demo_number_fresh: "demo_number g \<notin> fst ` set g"
proof
  assume "demo_number g \<in> fst ` set g"
  then obtain x where "x \<in> set g" "length (fst x) = length (demo_number g)" by force
  then show False using fold_max_ge [of 0 "\<lambda>x. length (fst x)" g] by (force simp: demo_number_def)
qed

lemma split_ws_ones:
  "k > 0 \<Longrightarrow> split_ws (''Breakpoint '' @ replicate k (CHR ''1'') @ '' at 0x0'') = [''Breakpoint'', replicate k (CHR ''1''), ''at'', ''0x0'']"
proof -
  have sp: "\<not> is_space (CHR ''1'')" by (simp add: is_space_def)
  have *: "split_ws_aux acc (replicate k (CHR ''1'') @ rest) = split_ws_aux (replicate k (CHR ''1'') @ acc) rest" for acc rest
    by (induction k arbitrary: acc) (auto simp: sp replicate_app_Cons_same)
  show "k > 0 \<Longrightarrow> ?thesis"
    by (simp add: split_ws_def * is_space_def)
qed

lemma map_of_filter_key: "map_of (filter (\<lambda>x. fst x \<noteq> n) g) = (map_of g)(n := None)"
  by (induction g) (auto simp: fun_eq_iff)

lemma demo_gdb_ok: "breakpoint_gdb demo_gdb (\<lambda>g. map_of g)"
proof -
  have "\<exists>res g'. pe_exec demo_gdb (''delete '' @ n) g = (Inr res, g') \<and> map_of g' = (map_of g)(n := None)" for n g
    by (simp add: demo_gdb_def map_of_filter_key)
  moreover have "\<exists>n g' res loc rest. pe_exec demo_gdb (''b *'' @ decs a) g = (Inr res, g') \<and> str_in ''Breakpoint'' res
        \<and> split_ws res = [''Breakpoint'', n, ''at'', loc] @ rest \<and> n \<notin> dom (map_of g) \<and> map_of g' = (map_of g)(n \<mapsto> a)" for g a
    using split_ws_ones [of "length (demo_number g)"] demo_number_fresh [of g]
    by (auto simp: demo_gdb_def py_int_decs startswith_def dom_map_of_conv_image_fst demo_number_def)
  ultimately show ?thesis unfolding breakpoint_gdb_def by blast
qed

theorem instantiate_places_all_witness:
  "\<exists>s'. instantiate_all demo_gdb 0x555555554000 demo_pie = (Inr (), s')
    \<and> placed map_of 0x555555554000 s' \<and> length (pie_breakpoints s') = 1"
proof -
  have e: "real_nums (pie_breakpoints demo_pie) = []" by (simp add: demo_pie_def new_pie_bp_def)
  from instantiate_places_all [OF demo_gdb_ok, of demo_pie "0x555555554000"] e
  obtain s' where "instantiate_all demo_gdb 0x555555554000 demo_pie = (Inr (), s')" "placed map_of 0x555555554000 s'"
    "map fixed_part (pie_breakpoints s') = map fixed_part (pie_breakpoints demo_pie)" by auto
  moreover from this(3) have "length (pie_breakpoints s') = length (pie_breakpoints demo_pie)" by (rule map_eq_imp_length_eq)
  ultimately show ?thesis by (simp add: demo_pie_def)
qed

text \<open>Fact: deleting a virtual breakpoint whose number is given twice removes it and then raises KeyError
  for the second mention.\<close>
theorem pie_delete_twice_raises:
  assumes "pie_session env s" "map_of (pie_breakpoints s) k = Some bp" "bp_num bp = None" "k \<noteq> -1"
  shows "pie_delete_cmd env [k, k] s
    = (raise KeyError (decs k), s\<lparr>pie_breakpoints := AList.delete k (pie_breakpoints s)\<rparr>)"
proof -
  have m: "(k, bp) \<in> set (pie_breakpoints s)" using assms(2) by (rule map_of_SomeD)
  then have v: "vbp_num bp = k" using pie_session_inv [OF assms(1)] by (auto simp: pie_inv_def list_all_iff)
  have "selected [k, k] (pie_breakpoints s) = [bp, bp]" using assms(2,4) by (simp add: selected_def)
  moreover have "k \<in> set (map fst (pie_breakpoints s))" using m by force
  moreover have "k \<notin> set (map fst (AList.delete k (pie_breakpoints s)))" by (auto simp: AList.delete_eq)
  ultimately show ?thesis using assms(3) v by (simp add: pie_delete_cmd_def)
qed

theorem pie_delete_twice_raises_witness:
  "\<exists>s. fst (pie_delete_cmd demo_pie_env [1, 1] s) = raise KeyError (decs 1) \<and> pie_session demo_pie_env s"
proof -
  define s0 where "s0 = \<lparr>pie_breakpoints = [], pie_counter = 1, context_hidden = False, pie_out = [], dbg = 0 :: nat\<rparr>"
  have "pie_breakpoints s0 = []" unfolding s0_def by simp
  then have 0: "pie_session demo_pie_env s0" by (rule pie_start)
  have "\<not> is_hex ''main''" by code_simp
  then have "pie_breakpoint_cmd demo_pie_env [] ''main'' s0 = (Inr (), set_pie_breakpoint 16 s0)"
    by (simp add: pie_breakpoint_cmd_def state_simps lift_pie_def parse_address_def demo_pie_env_def demo_target_def)
  from pie_session.pie_step_breakpoint [OF 0 this]
  have 1: "pie_session demo_pie_env (set_pie_breakpoint 16 s0)" .
  have m: "map_of (pie_breakpoints (set_pie_breakpoint 16 s0)) 1 = Some (new_pie_bp 1 16)"
    by (simp add: set_pie_breakpoint_def s0_def)
  have "bp_num (new_pie_bp 1 16) = None" by (simp add: new_pie_bp_def)
  from pie_delete_twice_raises [OF 1 m this] 1 show ?thesis by (intro exI [of _ "set_pie_breakpoint 16 s0"]) simp
qed

text \<open>Fact: when \<^verbatim>\<open>run\<close> raises, \<^verbatim>\<open>pie run\<close> leaves the context hidden.\<close>
theorem pie_run_failure_hides:
  assumes "t_filepath (pe_target env (dbg s)) = Some f" "f \<noteq> []" "pe_access env f"
    and "pe_exec env ''set stop-on-solib-events 1'' (dbg s) = (Inr r, g)"
    and "pe_exec env (''run '' @ join '' '' argv) g = (Inl e, g')"
  shows "\<exists>s'. pie_run_cmd env argv s = (Inl e, s') \<and> context_hidden s'"
  using assms by (auto simp: pie_run_cmd_def Let_def state_simps exec_ignore_def execute_def hide_context_def say_pie_def)

end
