(* ===== verification/Necklaces.thy ===== *)
theory Necklaces
  imports Main
begin

text \<open>
  Words under rotation, for the generator of cyclic patterns: the comparison of words at the first
  difference, necklaces (words not above any of their rotations), and the words the generator
  builds, which repeat a Lyndon word.  A word of length n is a function with period n.
\<close>

section \<open>Comparing words\<close>

definition less_on :: "nat \<Rightarrow> (nat \<Rightarrow> nat) \<Rightarrow> (nat \<Rightarrow> nat) \<Rightarrow> bool" where
  "less_on n f g \<longleftrightarrow> (\<exists>d<n. (\<forall>i<d. f i = g i) \<and> f d < g d)"

definition same_on :: "nat \<Rightarrow> (nat \<Rightarrow> nat) \<Rightarrow> (nat \<Rightarrow> nat) \<Rightarrow> bool" where
  "same_on n f g \<longleftrightarrow> (\<forall>i<n. f i = g i)"

definition shift :: "nat \<Rightarrow> (nat \<Rightarrow> nat) \<Rightarrow> nat \<Rightarrow> nat" where
  "shift s f i = f (s + i)"

lemma less_onI: "d < n \<Longrightarrow> (\<And>i. i < d \<Longrightarrow> f i = g i) \<Longrightarrow> f d < g d \<Longrightarrow> less_on n f g"
  by (auto simp: less_on_def)

lemma less_onE:
  assumes "less_on n f g"
  obtains d where "d < n" "\<And>i. i < d \<Longrightarrow> f i = g i" "f d < g d"
  using assms by (auto simp: less_on_def)

lemma less_on_mono: "less_on m f g \<Longrightarrow> m \<le> n \<Longrightarrow> less_on n f g"
  by (auto simp: less_on_def intro: order_less_le_trans)

lemma less_on_cases: "less_on n f g \<or> same_on n f g \<or> less_on n g f"
proof (cases "same_on n f g")
  case False
  define d where "d = (LEAST i. i < n \<and> f i \<noteq> g i)"
  have "\<exists>i. i < n \<and> f i \<noteq> g i" using False by (auto simp: same_on_def)
  then have d: "d < n" "f d \<noteq> g d" unfolding d_def by (metis (mono_tags, lifting) LeastI_ex)+
  have "f i = g i" if "i < d" for i
    using not_less_Least [OF that [unfolded d_def]] that d(1) by auto
  then show ?thesis using d by (cases "f d < g d") (auto simp: less_on_def intro!: exI [of _ d])
qed simp

lemma less_on_irrefl [simp]: "\<not> less_on n f f"
  by (simp add: less_on_def)

lemma less_on_trans: "less_on n f g \<Longrightarrow> less_on n g h \<Longrightarrow> less_on n f h"
proof (elim less_onE)
  fix d e
  assume "d < n" "\<And>i. i < d \<Longrightarrow> f i = g i" "f d < g d" "e < n" "\<And>i. i < e \<Longrightarrow> g i = h i" "g e < h e"
  note h = this
  show "less_on n f h"
  proof (rule less_onI [of "min d e"])
    show "f i = h i" if "i < min d e" for i using h(2,5) that by simp
    show "f (min d e) < h (min d e)"
      using h(2,3,5,6) by (cases d e rule: linorder_cases) (auto simp: min_def intro: order_less_trans)
  qed (use h in simp)
qed

lemma less_on_asym: "less_on n f g \<Longrightarrow> \<not> less_on n g f"
  using less_on_trans [of n f g f] by auto

lemma same_on_cong:
  "same_on n f f' \<Longrightarrow> same_on n g g' \<Longrightarrow> less_on n f g = less_on n f' g'"
  by (auto simp: less_on_def same_on_def)

lemma same_on_sym: "same_on n f g \<Longrightarrow> same_on n g f"
  by (simp add: same_on_def)

lemma same_on_less_False: "same_on n f g \<Longrightarrow> \<not> less_on n f g"
  by (auto simp: same_on_def less_on_def)

text \<open>A word between two words with a common prefix has it too\<close>
lemma sandwich:
  assumes "\<not> less_on n g f" "\<not> less_on n h g" "same_on m f h" "m \<le> n"
  shows "same_on m f g"
proof (rule ccontr)
  assume "\<not> same_on m f g"
  then consider "less_on m f g" | "less_on m g f" using less_on_cases by blast
  then show False
  proof cases
    case 1
    then have "less_on m h g" using same_on_cong [of m f h g g] assms(3) by (simp add: same_on_def)
    then show False using assms(2,4) less_on_mono by blast
  next
    case 2
    then show False using assms(1,4) less_on_mono by blast
  qed
qed

section \<open>Necklaces\<close>

definition necklace :: "nat \<Rightarrow> (nat \<Rightarrow> nat) \<Rightarrow> bool" where
  "necklace n f \<longleftrightarrow> (\<forall>i. f (i + n) = f i) \<and> (\<forall>s. \<not> less_on n (shift s f) f)"

lemma periodic_mod:
  fixes f :: "nat \<Rightarrow> nat" and i :: nat
  shows "(\<forall>i. f (i + n) = f i) \<Longrightarrow> f (i mod n) = f i"
proof (induction i rule: less_induct)
  case (less i)
  show ?case
  proof (cases "i < n \<or> n = 0")
    case False
    then have "f ((i - n) mod n) = f (i - n)" using less by simp
    moreover have "f (i - n) = f i" using False less.prems by (metis le_add_diff_inverse2 linorder_not_less)
    ultimately show ?thesis using False by (simp add: le_mod_geq)
  qed auto
qed

lemma necklace_max_first:
  assumes "necklace n f" "0 < n" "\<forall>i. f i \<le> K" "f 0 = K"
  shows "f i = K"
proof (rule ccontr)
  assume "f i \<noteq> K"
  then have "shift i f 0 < f 0" using assms(3,4) by (simp add: shift_def order_less_le)
  then have "less_on n (shift i f) f" using assms(2) by (auto simp: less_on_def)
  then show False using assms(1) by (simp add: necklace_def)
qed

text \<open>The first s letters of a necklace, filled up with the largest letter\<close>
definition filled :: "nat \<Rightarrow> nat \<Rightarrow> nat \<Rightarrow> (nat \<Rightarrow> nat) \<Rightarrow> nat \<Rightarrow> nat" where
  "filled n K s f i = (if i mod n < s then f i else K)"

lemma filled_simps:
  "i < n \<Longrightarrow> i < s \<Longrightarrow> filled n K s f i = f i" "i < n \<Longrightarrow> s \<le> i \<Longrightarrow> filled n K s f i = K"
  by (simp_all add: filled_def)

lemma filled_tail:
  assumes f: "necklace n f" and K: "\<forall>i. f i \<le> K" and rs: "0 < r" "r < s" "s < n"
    and eq: "\<And>i. i < s - r \<Longrightarrow> f (r + i) = f i"
    and top: "\<And>i. s - r \<le> i \<Longrightarrow> i < n - r \<Longrightarrow> filled n K s f i = K"
  shows "s \<le> j \<Longrightarrow> j < n \<Longrightarrow> f j = K"
proof (induction j rule: less_induct)
  case (less j)
  have before: "f i = K" if "s - r \<le> i" "i \<le> j - r" for i
  proof (cases "i < s")
    case True
    then show ?thesis using top [of i] that less.prems rs filled_simps(1) [of i n s K f] by auto
  next
    case False
    then show ?thesis using less.IH [of i] that less.prems rs by auto
  qed
  show ?case
  proof (rule ccontr)
    assume "f j \<noteq> K"
    then have lt: "f j < K" using K by (simp add: order_less_le)
    have "less_on n (shift r f) f"
    proof (rule less_onI [of "j - r"])
      fix i assume i: "i < j - r"
      show "shift r f i = f i"
      proof (cases "i < s - r")
        case False
        then have "f (r + i) = K" using less.IH [of "r + i"] i less.prems by auto
        moreover have "f i = K" using before False i by auto
        ultimately show ?thesis by (simp add: shift_def)
      qed (simp add: eq shift_def)
    qed (use less.prems rs lt before [of "j - r"] in \<open>auto simp: shift_def\<close>)
    then show False using f by (simp add: necklace_def)
  qed
qed

lemma filled_necklace:
  assumes f: "necklace n f" and K: "\<forall>i. f i \<le> K" and s: "s < n"
  shows "necklace n (filled n K s f)"
proof -
  let ?y = "filled n K s f"
  have per: "\<forall>i. ?y (i + n) = ?y i" using f by (auto simp: filled_def necklace_def)
  have le: "?y i \<le> K" for i using K by (simp add: filled_def)
  have main: "\<not> less_on n (shift r ?y) ?y" if r: "0 < r" "r < n" for r
  proof
    assume "less_on n (shift r ?y) ?y"
    then obtain d where d: "d < n" "\<And>i. i < d \<Longrightarrow> ?y (r + i) = ?y i" "?y (r + d) < ?y d"
      by (auto elim!: less_onE simp: shift_def)
    show False
    proof (cases "s \<le> r")
      case True
      then have yr: "?y r = K" using r by (simp add: filled_def)
      have "d \<noteq> 0" using d(3) yr le [of 0] by (cases d) auto
      then have y0: "?y 0 = K" using d(2) [of 0] yr by simp
      have "?y i = K" for i
      proof (cases "s = 0")
        case False
        then have "f 0 = K" using y0 s by (simp add: filled_def)
        then show ?thesis using necklace_max_first [OF f _ K] s by (simp add: filled_def)
      qed (simp add: filled_def)
      then show False using d(3) by simp
    next
      case False
      have low: "?y i = f i" if "i < s" for i using that s by (simp add: filled_simps)
      show False
      proof (cases "d < s - r")
        case True
        have "less_on n (shift r f) f"
        proof (rule less_onI [of d])
          show "shift r f i = f i" if "i < d" for i
            using d(2) [OF that] that True low [of i] low [of "r + i"] by (simp add: shift_def)
          show "shift r f d < f d" using d(3) True low [of d] low [of "r + d"] by (simp add: shift_def)
        qed (fact d(1))
        then show False using f by (simp add: necklace_def)
      next
        case ds: False
        have hi: "?y (r + i) = K" if "s - r \<le> i" "i < n - r" for i
          using that False filled_simps(2) [of "r + i" n s K f] by simp
        have "n - r \<le> d"
        proof (rule ccontr)
          assume "\<not> n - r \<le> d"
          then have "?y (r + d) = K" using hi ds by simp
          then show False using d(3) le [of d] by simp
        qed
        then have top: "?y i = K" if "s - r \<le> i" "i < n - r" for i
          using hi [OF that] d(2) [of i] that by simp
        have eq: "f (r + i) = f i" if "i < s - r" for i
          using d(2) [of i] that ds low [of i] low [of "r + i"] by simp
        have "f j = K" if "s \<le> j" "j < n" for j
          by (rule filled_tail [OF f K r(1) _ s eq top that]) (use False in auto)
        then have "?y i = f i" if "i < n" for i
          using that low [of i] filled_simps(2) [of i n s K f] by (cases "i < s") auto
        moreover have "f (i mod n) = f i" "?y (i mod n) = ?y i" for i
          using f per by (auto simp: necklace_def intro: periodic_mod)
        ultimately have "?y i = f i" for i
          using mod_less_divisor [of n i] s by (metis bot_nat_0.not_eq_extremum not_less_zero)
        then have "?y = f" by (rule ext)
        then have "less_on n (shift r f) f" using d by (intro less_onI [of d]) (simp_all add: shift_def)
        then show False using f by (simp add: necklace_def)
      qed
    qed
  qed
  have sh: "shift r ?y = shift (r mod n) ?y" for r
  proof
    fix i
    have "?y ((r + i) mod n) = ?y (r + i)" "?y ((r mod n + i) mod n) = ?y (r mod n + i)"
      using per periodic_mod by blast+
    then show "shift r ?y i = shift (r mod n) ?y i" by (simp add: shift_def mod_add_left_eq)
  qed
  have "\<not> less_on n (shift r ?y) ?y" for r
  proof (cases "r mod n = 0")
    case True
    then have "shift r ?y = ?y" using sh [of r] by (simp add: shift_def fun_eq_iff)
    then show ?thesis by simp
  next
    case False
    then show ?thesis using main [of "r mod n"] sh [of r] s by simp
  qed
  then show ?thesis using per by (simp add: necklace_def)
qed

section \<open>Words that repeat a Lyndon word\<close>

text \<open>The first m letters repeat the first p, which are below each of their proper suffixes\<close>
definition repeats :: "(nat \<Rightarrow> nat) \<Rightarrow> nat \<Rightarrow> nat \<Rightarrow> bool" where
  "repeats f m p \<longleftrightarrow> 1 \<le> p \<and> p \<le> m \<and> (\<forall>i. p \<le> i \<and> i < m \<longrightarrow> f i = f (i - p))
     \<and> (\<forall>s. 0 < s \<and> s < p \<longrightarrow> less_on (p - s) f (shift s f))"

lemma repeats_mod: "repeats f m p \<Longrightarrow> i < m \<Longrightarrow> f i = f (i mod p)"
proof (induction i rule: less_induct)
  case (less i)
  show ?case
  proof (cases "i < p")
    case False
    then have "f i = f (i - p)" "i - p < i" using less.prems by (auto simp: repeats_def)
    then show ?thesis using less.IH [of "i - p"] less.prems False by (simp add: le_mod_geq)
  qed simp
qed

lemma repeats_cong: "repeats f m p \<Longrightarrow> same_on m f g \<Longrightarrow> repeats g m p"
proof -
  assume r: "repeats f m p" and e: "same_on m f g"
  have "less_on (p - s) g (shift s g)" if s: "0 < s" "s < p" for s
  proof -
    have "p \<le> m" using r by (simp add: repeats_def)
    then have "same_on (p - s) f g" "same_on (p - s) (shift s f) (shift s g)"
      using e s by (auto simp: same_on_def shift_def)
    then have "less_on (p - s) f (shift s f) = less_on (p - s) g (shift s g)" by (rule same_on_cong)
    then show ?thesis using r s by (simp add: repeats_def)
  qed
  moreover have "g i = g (i - p)" if "p \<le> i" "i < m" for i
  proof -
    have "f i = f (i - p)" "f i = g i" "f (i - p) = g (i - p)" using r e that by (auto simp: repeats_def same_on_def)
    then show ?thesis by simp
  qed
  ultimately show "repeats g m p" using r by (simp add: repeats_def)
qed

lemma repeats_one: "repeats f 1 1"
  by (simp add: repeats_def)

lemma repeats_same: "repeats f m p \<Longrightarrow> f m = f (m - p) \<Longrightarrow> repeats f (Suc m) p"
  by (auto simp: repeats_def less_Suc_eq)

text \<open>A suffix that does not start at a repetition is above the word at its first difference\<close>
lemma repeats_suffix:
  assumes "repeats f m p" "s mod p \<noteq> 0"
  obtains d where "s mod p + d < p" "\<And>i. i < d \<Longrightarrow> f i = f (s mod p + i)" "f d < f (s mod p + d)"
proof -
  have "0 < s mod p" "s mod p < p" using assms by (auto simp: repeats_def)
  then have "less_on (p - s mod p) f (shift (s mod p) f)" using assms(1) by (simp add: repeats_def)
  then obtain d where d: "d < p - s mod p" "\<And>i. i < d \<Longrightarrow> f i = f (s mod p + i)" "f d < f (s mod p + d)"
    by (auto elim!: less_onE simp: shift_def)
  show ?thesis by (rule that [of d]) (use d in auto)
qed

lemma mod_sub: "(s :: nat) mod p = 0 \<Longrightarrow> s \<le> m \<Longrightarrow> (m - s) mod p = m mod p"
  by (metis add_0_right le_add_diff_inverse2 mod_add_right_eq)

lemma mod_add_small: "(s :: nat) mod p + i < p \<Longrightarrow> (s + i) mod p = s mod p + i"
  by (metis mod_add_left_eq mod_less)

text \<open>A larger letter ends the repetition: the whole word is then a Lyndon word\<close>
lemma repeats_larger:
  assumes r: "repeats f m p" and gt: "f (m - p) < f m"
  shows "repeats f (Suc m) (Suc m)"
proof -
  have p: "1 \<le> p" "p \<le> m" using r by (simp_all add: repeats_def)
  have fm: "f (m - p) = f ((m - p) mod p)" by (rule repeats_mod [OF r]) (use p in simp)
  have m0: "(m - p) mod p = m mod p" using p by (simp add: le_mod_geq)
  have "less_on (Suc m - s) f (shift s f)" if s: "0 < s" "s < Suc m" for s
  proof (cases "s mod p = 0")
    case True
    show ?thesis
    proof (rule less_onI [of "m - s"])
      fix i assume i: "i < m - s"
      have "(s + i) mod p = i mod p" using True by (metis add_0 mod_add_left_eq)
      then show "f i = shift s f i" using repeats_mod [OF r, of "s + i"] repeats_mod [OF r, of i] i by (simp add: shift_def)
    next
      have "(m - s) mod p = m mod p" using mod_sub [OF True, of m] s by simp
      then have "f (m - s) = f (m mod p)" using repeats_mod [OF r, of "m - s"] s p by simp
      then show "f (m - s) < shift s f (m - s)" using gt fm m0 s by (simp add: shift_def)
    qed (use s in simp)
  next
    case False
    from repeats_suffix [OF r False] obtain d where d: "s mod p + d < p" "\<And>i. i < d \<Longrightarrow> f i = f (s mod p + i)"
      "f d < f (s mod p + d)" by blast
    have eq: "f (s + i) = f (s mod p + i)" if "i \<le> d" "s + i < m" for i
      using repeats_mod [OF r that(2)] mod_add_small [of s p i] that(1) d(1) by simp
    show ?thesis
    proof (cases "s + d < m")
      case True
      then show ?thesis using d eq [of d] eq by (intro less_onI [of d]) (auto simp: shift_def)
    next
      case far: False
      define l where "l = m - s"
      have l: "s + l = m" "l \<le> d" using far s by (auto simp: l_def)
      have "m mod p = s mod p + l" using mod_add_small [of s p l] l d(1) by simp
      then have "f (s mod p + l) < f m" using gt fm m0 by simp
      moreover have "f l \<le> f (s mod p + l)" using d(2) [of l] d(3) l(2) by (cases "l = d") auto
      moreover have "f i = f (s + i)" if "i < l" for i using eq [of i] d(2) [of i] that l by simp
      ultimately show ?thesis using l by (intro less_onI [of l]) (auto simp: shift_def)
    qed
  qed
  then show ?thesis by (auto simp: repeats_def)
qed

text \<open>With a smaller letter the word starts no necklace\<close>
lemma repeats_smaller:
  assumes "repeats f m p" "f m < f (m - p)" "m < n" "necklace n f"
  shows False
proof -
  have "less_on n (shift p f) f"
  proof (rule less_onI [of "m - p"])
    fix i assume "i < m - p"
    then have "p \<le> p + i" "p + i < m" by auto
    moreover have "f (p + i) = f (p + i - p)" using assms(1) calculation unfolding repeats_def by blast
    ultimately show "shift p f i = f i" by (simp add: shift_def)
  qed (use assms in \<open>auto simp: shift_def repeats_def\<close>)
  then show False using assms(4) by (simp add: necklace_def)
qed

lemma repeats_dvd:
  assumes r: "repeats f n p" and per: "\<forall>i. f (i + n) = f i" and dvd: "p dvd n"
  shows "f i = f (i mod p)" "s mod p \<noteq> 0 \<Longrightarrow> less_on n f (shift s f)"
proof -
  have n: "0 < n" using r by (auto simp: repeats_def)
  have all: "f i = f (i mod p)" for i
  proof -
    have "f i = f (i mod n)" using periodic_mod [OF per] by simp
    also have "\<dots> = f (i mod n mod p)" using repeats_mod [OF r, of "i mod n"] n by simp
    also have "\<dots> = f (i mod p)" using dvd by (simp add: mod_mod_cancel)
    finally show ?thesis .
  qed
  then show "f i = f (i mod p)" .
  assume "s mod p \<noteq> 0"
  from repeats_suffix [OF r this] obtain d where d: "s mod p + d < p" "\<And>i. i < d \<Longrightarrow> f i = f (s mod p + i)"
    "f d < f (s mod p + d)" by blast
  have "p \<le> n" using r by (simp add: repeats_def)
  moreover have "f (s + i) = f (s mod p + i)" if "i \<le> d" for i
    using all [of "s + i"] mod_add_small [of s p i] that d(1) by simp
  ultimately show "less_on n f (shift s f)" using d by (intro less_onI [of d]) (auto simp: shift_def)
qed

text \<open>A word built from repetitions is a necklace exactly when they fill it\<close>
lemma repeats_necklace:
  assumes r: "repeats f n p" and per: "\<forall>i. f (i + n) = f i"
  shows "necklace n f \<longleftrightarrow> p dvd n"
proof
  assume dvd: "p dvd n"
  have "\<not> less_on n (shift s f) f" for s
  proof (cases "s mod p = 0")
    case True
    have "shift s f i = f i" for i
      using repeats_dvd(1) [OF r per dvd, of "s + i"] repeats_dvd(1) [OF r per dvd, of i] True
      by (simp add: shift_def) (metis add_0 mod_add_left_eq)
    then have "shift s f = f" by (rule ext)
    then show ?thesis by simp
  next
    case False
    show ?thesis using repeats_dvd(2) [OF r per dvd False] less_on_asym by blast
  qed
  then show "necklace n f" using per by (simp add: necklace_def)
next
  assume neck: "necklace n f"
  show "p dvd n"
  proof (rule ccontr)
    assume "\<not> p dvd n"
    define t where "t = n mod p"
    have p: "1 \<le> p" "p \<le> n" using r by (simp_all add: repeats_def)
    have t: "0 < t" "t < p" "t \<le> n" using \<open>\<not> p dvd n\<close> p by (auto simp: t_def dvd_eq_mod_eq_0)
    have m: "(n - t) mod p = 0" by (simp add: t_def minus_mod_eq_mult_div)
    from repeats_suffix [OF r, of t] t obtain d where d: "t + d < p" "\<And>i. i < d \<Longrightarrow> f i = f (t + i)" "f d < f (t + d)"
      by auto
    have low: "f (n - t + i) = f i" if "i < t" for i
    proof -
      have "(n - t + i) mod p = i mod p" using m by (metis add_0 mod_add_left_eq)
      then show ?thesis using repeats_mod [OF r, of "n - t + i"] that t by simp
    qed
    have high: "f (n - t + (t + i)) = f i" for i
      using per t(3) by (metis add.commute add.left_commute le_add_diff_inverse2)
    have "less_on n (shift (n - t) f) f"
    proof (rule less_onI [of "t + d"])
      fix i assume i: "i < t + d"
      show "shift (n - t) f i = f i"
      proof (cases "i < t")
        case False
        then obtain j where "i = t + j" "j < d" using i by (metis le_add_diff_inverse linorder_not_less nat_add_left_cancel_less)
        then show ?thesis using high [of j] d(2) [of j] by (simp add: shift_def)
      qed (simp add: low shift_def)
    qed (use d high [of d] p in \<open>auto simp: shift_def\<close>)
    then show False using neck by (simp add: necklace_def)
  qed
qed

end
