(* ===== verification/DeBruijn.thy ===== *)
theory DeBruijn
  imports Necklaces
begin

text \<open>
  The sequence made of the repeated parts of all necklaces in increasing order: read as a cycle it
  spells every word of their length exactly once.  The locale holds the argument for any such
  listing; the generator of cyclic patterns provides one.
\<close>

text \<open>A word as a function of period n\<close>
definition cyc :: "nat list \<Rightarrow> nat \<Rightarrow> nat" where
  "cyc w i = w ! (i mod length w)"

lemma cyc_same: "length v = n \<Longrightarrow> same_on n (nth v) (cyc v)"
  by (simp add: same_on_def cyc_def)

lemma cyc_periodic: "length v = n \<Longrightarrow> \<forall>i. cyc v (i + n) = cyc v i"
  by (simp add: cyc_def)

text \<open>The repeated parts of the listed words\<close>
abbreviation roots :: "(nat list \<times> nat) list \<Rightarrow> nat list" where
  "roots vs \<equiv> concat (map (\<lambda>(v, q). take q v) vs)"

section \<open>A listing of the necklaces\<close>

lemma cyc_map: "\<forall>i. f (i + n) = f i \<Longrightarrow> 0 < n \<Longrightarrow> cyc (map f [0..<n]) = f"
  using periodic_mod [of f n] by (auto simp: cyc_def fun_eq_iff)

text \<open>All necklaces of length n over the letters below k, in increasing order, each with the length of
  its repeated part\<close>
locale necklace_listing =
  fixes k n :: nat and L :: "(nat list \<times> nat) list"
  assumes n_pos: "0 < n" and k_ge: "2 \<le> k"
    and sound: "(v, q) \<in> set L \<Longrightarrow> length v = n \<and> set v \<subseteq> {..<k} \<and> repeats (cyc v) n q \<and> q dvd n"
    and complete: "length v = n \<Longrightarrow> set v \<subseteq> {..<k} \<Longrightarrow> necklace n (cyc v) \<Longrightarrow> \<exists>q. (v, q) \<in> set L"
    and increasing: "sorted_wrt (\<lambda>x y. less_on n (cyc (fst x)) (cyc (fst y))) L"
begin

abbreviation top_letter :: nat where "top_letter \<equiv> k - 1"

lemma letters: "(v, q) \<in> set L \<Longrightarrow> cyc v i \<le> top_letter"
proof -
  assume "(v, q) \<in> set L"
  then have v: "length v = n" "set v \<subseteq> {..<k}" using sound by blast+
  then have "v ! (i mod n) \<in> set v" using n_pos by (intro nth_mem) simp
  then have "v ! (i mod n) < k" using v(2) by auto
  then show "cyc v i \<le> top_letter" using v(1) by (simp add: cyc_def)
qed

lemma listed_necklace: "(v, q) \<in> set L \<Longrightarrow> necklace n (cyc v)"
  using sound [of v q] repeats_necklace [of "cyc v" n q] cyc_periodic [of v n] by blast

lemma listed_period:
  assumes "(v, q) \<in> set L"
  shows "cyc v i = cyc v (i mod q)" "1 \<le> q" "q \<le> n" "s mod q \<noteq> 0 \<Longrightarrow> less_on n (cyc v) (shift s (cyc v))"
proof -
  have r: "repeats (cyc v) n q" "\<forall>i. cyc v (i + n) = cyc v i" "q dvd n"
    using sound [OF assms] cyc_periodic [of v n] by blast+
  show "cyc v i = cyc v (i mod q)" by (rule repeats_dvd(1) [OF r])
  show "1 \<le> q" "q \<le> n" using r(1) by (simp_all add: repeats_def)
  show "less_on n (cyc v) (shift s (cyc v))" if "s mod q \<noteq> 0" by (rule repeats_dvd(2) [OF r that])
qed

lemma listed_function:
  assumes "necklace n f" "\<forall>i. f i \<le> top_letter"
  shows "\<exists>q. (map f [0..<n], q) \<in> set L"
proof -
  have "cyc (map f [0..<n]) = f" using assms(1) n_pos by (intro cyc_map) (auto simp: necklace_def)
  moreover have "f i < k" for i
    using assms(2) k_ge by (metis Suc_pred' le_imp_less_Suc less_le_trans zero_less_numeral)
  then have "set (map f [0..<n]) \<subseteq> {..<k}" by auto
  ultimately show ?thesis using complete [of "map f [0..<n]"] assms(1) by simp
qed

text \<open>Nothing stands between two neighbours of the listing\<close>
lemma neighbours:
  assumes "L = A @ (u, p) # (v, q) # B" "necklace n f" "\<forall>i. f i \<le> top_letter" "less_on n (cyc u) f"
  shows "\<not> less_on n f (cyc v)"
proof
  assume lt: "less_on n f (cyc v)"
  obtain r where r: "(map f [0..<n], r) \<in> set L" using listed_function [OF assms(2,3)] by blast
  have c: "cyc (map f [0..<n]) = f" using assms(2) n_pos by (intro cyc_map) (auto simp: necklace_def)
  have "\<exists>x \<in> set L. cyc (fst x) = f" using r c by (intro bexI [of _ "(map f [0..<n], r)"]) auto
  then obtain x where x: "x \<in> set L" "cyc (fst x) = f" by blast
  then consider "x \<in> set A" | "x = (u, p)" | "x = (v, q)" | "x \<in> set B" unfolding assms(1) by auto
  then show False
  proof cases
    case 1
    then have "less_on n f (cyc u)" using increasing x(2) unfolding assms(1) by (auto simp: sorted_wrt_append)
    then show False using assms(4) less_on_asym by blast
  next
    case 4
    then have "less_on n (cyc v) f" using increasing x(2) unfolding assms(1) by (auto simp: sorted_wrt_append)
    then show False using lt less_on_asym by blast
  qed (use x(2) lt assms(4) in auto)
qed

lemma next_greater: "L = A @ (u, p) # (v, q) # B \<Longrightarrow> less_on n (cyc u) (cyc v)"
  using increasing by (auto simp: sorted_wrt_append)

lemma filled_greater:
  assumes "(u, p) \<in> set L" "s < n"
  shows "necklace n (filled n top_letter s (cyc u))" "filled n top_letter s (cyc u) i \<le> top_letter"
    "same_on s (cyc u) (filled n top_letter s (cyc u))" "\<not> less_on n (filled n top_letter s (cyc u)) (cyc u)"
    "s \<le> i \<Longrightarrow> i < n \<Longrightarrow> cyc u i \<noteq> top_letter \<Longrightarrow> less_on n (cyc u) (filled n top_letter s (cyc u))"
proof -
  let ?y = "filled n top_letter s (cyc u)"
  have le: "\<forall>i. cyc u i \<le> top_letter" using letters [OF assms(1)] by blast
  show "necklace n ?y" by (rule filled_necklace [OF listed_necklace [OF assms(1)] le assms(2)])
  show "?y i \<le> top_letter" for i using le by (simp add: filled_def)
  show "same_on s (cyc u) ?y" using assms(2) by (simp add: same_on_def filled_def)
  have up: "cyc u i \<le> ?y i" if "i < n" for i using that le by (simp add: filled_def)
  show nl: "\<not> less_on n ?y (cyc u)" using up by (auto elim!: less_onE) (metis linorder_not_less)
  show "less_on n (cyc u) ?y" if i: "s \<le> i" "i < n" "cyc u i \<noteq> top_letter"
  proof -
    have "cyc u i \<noteq> ?y i" using i by (simp add: filled_simps)
    then have "\<not> same_on n (cyc u) ?y" using i(2) by (auto simp: same_on_def)
    then show ?thesis using less_on_cases nl by blast
  qed
qed

text \<open>The next necklace keeps the letters that do not have to change\<close>
lemma next_prefix:
  assumes "L = A @ (u, p) # (v, q) # B" "s \<le> i" "i < n" "cyc u i \<noteq> top_letter"
  shows "same_on s (cyc u) (cyc v)"
proof (rule sandwich)
  have u: "(u, p) \<in> set L" "s < n" using assms by auto
  let ?y = "filled n top_letter s (cyc u)"
  show "\<not> less_on n (cyc v) (cyc u)" using next_greater [OF assms(1)] less_on_asym by blast
  show "\<not> less_on n ?y (cyc v)"
    by (rule neighbours [OF assms(1) filled_greater(1) [OF u]]) (use filled_greater(2,5) [OF u] assms in auto)
  show "same_on s (cyc u) ?y" by (rule filled_greater(3) [OF u])
qed (use assms in simp)

lemma all_top: "(u, p) \<in> set L \<Longrightarrow> \<forall>i. n - p \<le> i \<and> i < n \<longrightarrow> cyc u i = top_letter \<Longrightarrow> cyc u j = top_letter"
proof -
  assume u: "(u, p) \<in> set L" and t: "\<forall>i. n - p \<le> i \<and> i < n \<longrightarrow> cyc u i = top_letter"
  have p: "1 \<le> p" "p \<le> n" "p dvd n" using listed_period [OF u] sound [OF u] by auto
  have "j mod p < p" using p by simp
  then have "n - p \<le> n - p + j mod p" "n - p + j mod p < n" using p by linarith+
  then have "cyc u (n - p + j mod p) = top_letter" using t by blast
  moreover have "(n - p + j mod p) mod p = j mod p" using p by (metis dvd_imp_mod_0 dvd_minus_self mod_add_left_eq add_0 mod_mod_trivial)
  ultimately show "cyc u j = top_letter"
    using listed_period(1) [OF u, of "n - p + j mod p"] listed_period(1) [OF u, of j] by simp
qed

lemma top_is_last: "L = A @ (u, p) # (v, q) # B \<Longrightarrow> \<forall>i. cyc u i = top_letter \<Longrightarrow> False"
proof -
  assume L: "L = A @ (u, p) # (v, q) # B" and t: "\<forall>i. cyc u i = top_letter"
  have v: "(v, q) \<in> set L" using L by simp
  from next_greater [OF L] obtain d where "cyc u d < cyc v d" by (auto elim: less_onE)
  then show False using t letters [OF v, of d] by simp
qed

lemma const_necklace: "necklace n (\<lambda>_. c)"
  by (simp add: necklace_def shift_def less_on_def)

lemma last_is_top: "L = A @ [(v, q)] \<Longrightarrow> cyc v i = top_letter"
proof -
  assume L: "L = A @ [(v, q)]"
  let ?w = "map (\<lambda>_. top_letter) [0..<n]"
  obtain r where r: "(?w, r) \<in> set L" using listed_function [OF const_necklace, of top_letter] by auto
  have c: "cyc ?w = (\<lambda>_. top_letter)" using n_pos by (intro cyc_map) auto
  have "(?w, r) \<notin> set A"
  proof
    assume "(?w, r) \<in> set A"
    then have "less_on n (cyc ?w) (cyc v)" using increasing unfolding L by (auto simp: sorted_wrt_append)
    then obtain d where "top_letter < cyc v d" unfolding c by (auto elim: less_onE)
    moreover have "(v, q) \<in> set L" using L by simp
    ultimately show False using letters [of v q d] by simp
  qed
  then have "?w = v" using r L by auto
  then show ?thesis using c by metis
qed

end

text \<open>The sequence made of the repeated parts\<close>
context necklace_listing
begin

lemma root_length: "(u, p) \<in> set L \<Longrightarrow> length (take p u) = p \<and> length u = n"
  using sound [of u p] listed_period(3) [of u p] by auto

lemma nth_cyc: "(u, p) \<in> set L \<Longrightarrow> i < n \<Longrightarrow> u ! i = cyc u i"
  using sound [of u p] by (simp add: cyc_def)

lemma nth_period: "(u, p) \<in> set L \<Longrightarrow> i < n \<Longrightarrow> u ! i = u ! (i mod p)"
  using listed_period(1) [of u p i] listed_period(2,3) [of u p] nth_cyc [of u p]
  by (metis le_less_trans less_le_trans mod_less_divisor mod_less_eq_dividend zero_less_one)

lemma unroll: "(u, p) \<in> set L \<Longrightarrow> take p u @ take (n - p) u = u"
proof (rule nth_equalityI)
  assume u: "(u, p) \<in> set L"
  note l = root_length [OF u] listed_period(2,3) [OF u]
  show "length (take p u @ take (n - p) u) = length u" using l by auto
  fix i assume "i < length (take p u @ take (n - p) u)"
  then have i: "i < n" using l by auto
  show "(take p u @ take (n - p) u) ! i = u ! i"
  proof (cases "i < p")
    case False
    then have "u ! (i - p) = u ! i" using nth_period [OF u, of i] nth_period [OF u, of "i - p"] i by (simp add: le_mod_geq)
    then show ?thesis using False i l by (simp add: nth_append)
  qed (use l in \<open>simp add: nth_append\<close>)
qed

lemma not_last_low: "L = A @ (u, p) # (v, q) # B \<Longrightarrow> \<exists>i. n - p \<le> i \<and> i < n \<and> cyc u i \<noteq> top_letter"
proof (rule ccontr)
  assume L: "L = A @ (u, p) # (v, q) # B" and "\<nexists>i. n - p \<le> i \<and> i < n \<and> cyc u i \<noteq> top_letter"
  then have "\<forall>i. n - p \<le> i \<and> i < n \<longrightarrow> cyc u i = top_letter" by blast
  then have "\<forall>j. cyc u j = top_letter" using all_top [of u p] L by auto
  then show False using top_is_last [OF L] by blast
qed

lemma first_low: "L = A @ (u, p) # (v, q) # B \<Longrightarrow> cyc u 0 \<noteq> top_letter"
proof
  assume L: "L = A @ (u, p) # (v, q) # B" and c: "cyc u 0 = top_letter"
  have u: "(u, p) \<in> set L" using L by simp
  then have le: "\<forall>i. cyc u i \<le> top_letter" using letters by blast
  have "\<forall>i. cyc u i = top_letter" using necklace_max_first [OF listed_necklace [OF u] n_pos le c] by blast
  then show False using top_is_last [OF L] by blast
qed

text \<open>From each necklace but the last on, the sequence spells the necklace\<close>
lemma spells: "L = A @ (u, p) # B \<Longrightarrow> B \<noteq> [] \<Longrightarrow> take n (roots ((u, p) # B)) = u"
proof (induction B arbitrary: A u p)
  case (Cons x B)
  obtain v q where x: "x = (v, q)" by (cases x)
  have L: "L = A @ (u, p) # (v, q) # B" using Cons.prems x by simp
  have u: "(u, p) \<in> set L" and v: "(v, q) \<in> set L" using L by auto
  note lu = root_length [OF u] listed_period(2,3) [OF u]
  obtain i where i: "n - p \<le> i" "i < n" "cyc u i \<noteq> top_letter" using not_last_low [OF L] by blast
  have pre: "same_on (n - p) (cyc u) (cyc v)" by (rule next_prefix [OF L i])
  have tk: "take (n - p) v = take (n - p) u"
  proof (rule nth_equalityI)
    show "length (take (n - p) v) = length (take (n - p) u)" using lu root_length [OF v] by simp
    show "take (n - p) v ! j = take (n - p) u ! j" if "j < length (take (n - p) v)" for j
      using that pre nth_cyc [OF u, of j] nth_cyc [OF v, of j] lu root_length [OF v] by (auto simp: same_on_def)
  qed
  have "take (n - p) (roots ((v, q) # B)) = take (n - p) u"
  proof (cases "p = n")
    case False
    then have np: "0 < n - p" using lu by simp
    have "B \<noteq> []"
    proof
      assume "B = []"
      then have "L = (A @ [(u, p)]) @ [(v, q)]" using L by simp
      then have "cyc v 0 = top_letter" by (rule last_is_top)
      then have "cyc u 0 = top_letter" using pre np by (simp add: same_on_def)
      then show False using first_low [OF L] by simp
    qed
    then have "take n (roots ((v, q) # B)) = v" using Cons.IH [of "A @ [(u, p)]" v q] L by simp
    then have "take (n - p) (take n (roots ((v, q) # B))) = take (n - p) u" by (simp only: tk)
    then show ?thesis by (simp only: take_take) (simp only: min.absorb1 [OF diff_le_self])
  qed simp
  then have "take n (take p u @ roots ((v, q) # B)) = take p u @ take (n - p) u" using lu by simp
  then show ?case using unroll [OF u] x by simp
qed simp

text \<open>The word x occurs in the sequence read as a cycle\<close>
definition occurs_cyclically :: "(nat \<Rightarrow> nat) \<Rightarrow> bool" where
  "occurs_cyclically x \<longleftrightarrow> (\<exists>pos < length (roots L). \<forall>j<n. roots L ! ((pos + j) mod length (roots L)) = x j)"

lemma occurs_linear:
  assumes "roots L = X @ Y" "take n Y = map x [0..<n]"
  shows "occurs_cyclically x"
  unfolding occurs_cyclically_def
proof (intro exI [of _ "length X"] conjI allI impI)
  have l: "n \<le> length Y" using arg_cong [OF assms(2), of length] by simp
  then have "0 < length Y" using n_pos by linarith
  then show "length X < length (roots L)" unfolding assms(1) by simp
  fix j assume j: "j < n"
  then have "(length X + j) mod length (roots L) = length X + j" using l unfolding assms(1) by simp
  moreover have "Y ! j = x j" using arg_cong [OF assms(2), of "\<lambda>ys. ys ! j"] j by simp
  ultimately show "roots L ! ((length X + j) mod length (roots L)) = x j" unfolding assms(1) by (simp add: nth_append)
qed

end

context necklace_listing
begin

lemma map_upt_append: "s \<le> n \<Longrightarrow> map f [0..<n - s] @ map (\<lambda>i. f (n - s + i)) [0..<s] = map f [0..<n]"
proof -
  assume "s \<le> n"
  then have "[0..<n] = [0..<n - s] @ map (\<lambda>i. n - s + i) [0..<s]"
    using upt_add_eq_append [of 0 "n - s" s] map_add_upt [of "n - s" s] by (simp add: add.commute)
  then show ?thesis by (simp add: comp_def)
qed

text \<open>A word across the boundary of two neighbours: the last letters of one root, then the start of the
  rest of the sequence\<close>
lemma occurs_boundary:
  assumes L: "L = A @ (u, q) # B" and s: "s \<le> n" "n - s \<le> q"
    and rest: "take s (roots B) = map (\<lambda>i. x (n - s + i)) [0..<s]"
    and first: "\<And>j. j < n - s \<Longrightarrow> cyc u (s + j) = x j"
  shows "occurs_cyclically x"
proof (rule occurs_linear)
  have u: "(u, q) \<in> set L" using L by simp
  note lu = root_length [OF u] listed_period(2,3) [OF u]
  let ?Y = "drop (q - (n - s)) (take q u) @ roots B"
  show "roots L = (roots A @ take (q - (n - s)) (take q u)) @ ?Y"
    unfolding L map_append concat_append list.map concat.simps prod.case append_assoc
    by (simp only: append_assoc [symmetric] append_take_drop_id)
  have "drop (q - (n - s)) (take q u) = map x [0..<n - s]"
  proof (rule nth_equalityI)
    show "length (drop (q - (n - s)) (take q u)) = length (map x [0..<n - s])" using lu s by simp
    fix j assume "j < length (drop (q - (n - s)) (take q u))"
    then have j: "j < n - s" using lu s by simp
    have e: "(n - q) + (q - (n - s) + j) = s + j" using lu s by simp
    have "q dvd n - q" using sound [OF u] by (simp add: dvd_diff_nat)
    then have "(s + j) mod q = (q - (n - s) + j) mod q" unfolding e [symmetric] by (metis dvd_imp_mod_0 add_0 mod_add_left_eq)
    then have "cyc u (s + j) = cyc u (q - (n - s) + j)"
      using listed_period(1) [OF u, of "s + j"] listed_period(1) [OF u, of "q - (n - s) + j"] by simp
    moreover have "drop (q - (n - s)) (take q u) ! j = u ! (q - (n - s) + j)" using lu s j by simp
    moreover have "u ! (q - (n - s) + j) = cyc u (q - (n - s) + j)" by (rule nth_cyc [OF u]) (use lu s j in simp)
    ultimately show "drop (q - (n - s)) (take q u) ! j = map x [0..<n - s] ! j" using first [OF j] j by simp
  qed
  then have "take n ?Y = map x [0..<n - s] @ take s (roots B)" using s by simp
  then show "take n ?Y = map x [0..<n]" using rest map_upt_append [OF s(1), of x] by simp
qed

text \<open>Every word has a rotation that is a necklace\<close>
lemma least_rotation:
  assumes per: "\<forall>i. x (i + n) = x i"
  shows "\<exists>s<n. necklace n (shift s x)"
proof -
  let ?R = "\<lambda>s r. less_on n (shift s x) (shift r x)"
  have "\<exists>s\<in>{..<n}. \<forall>r\<in>{..<n}. r \<noteq> s \<longrightarrow> \<not> ?R r s"
  proof (rule Finite_Set.bex_min_element)
    show "asymp_on {..<n} ?R" by (auto simp: asymp_on_def dest: less_on_asym)
    show "transp_on {..<n} ?R" by (auto simp: transp_on_def dest: less_on_trans)
  qed (use n_pos in auto)
  then obtain s where s: "s < n" "\<forall>r<n. r \<noteq> s \<longrightarrow> \<not> ?R r s" by auto
  have m: "\<not> ?R r s" for r
  proof -
    have "shift r x = shift (r mod n) x"
    proof
      fix i
      show "shift r x i = shift (r mod n) x i"
        using periodic_mod [OF per, of "r + i"] periodic_mod [OF per, of "r mod n + i"] by (simp add: shift_def mod_add_left_eq)
    qed
    then show ?thesis using s(2) n_pos by (cases "r mod n = s") auto
  qed
  have "\<forall>r. \<not> less_on n (shift r (shift s x)) (shift s x)"
  proof
    fix r
    have "shift r (shift s x) = shift (s + r) x" by (simp add: shift_def fun_eq_iff add.assoc)
    then show "\<not> less_on n (shift r (shift s x)) (shift s x)" using m by simp
  qed
  moreover have "\<forall>i. shift s x (i + n) = shift s x i" using per by (simp add: shift_def add.assoc [symmetric])
  ultimately show ?thesis using s(1) by (auto simp: necklace_def)
qed

text \<open>A word is a rotation of a listed necklace, by an offset in its last repeated part\<close>
lemma rotation_of_listed:
  assumes per: "\<forall>i. x (i + n) = x i" and le: "\<forall>i. x i \<le> top_letter"
  obtains u q s where "(u, q) \<in> set L" "s < n" "n - s \<le> q" "\<And>j. x j = cyc u (s + j)"
proof -
  obtain s0 where s0: "s0 < n" "necklace n (shift s0 x)" using least_rotation [OF per] by blast
  let ?u = "map (shift s0 x) [0..<n]"
  have "\<forall>i. shift s0 x i \<le> top_letter" using le by (simp add: shift_def)
  then obtain q where u: "(?u, q) \<in> set L" using listed_function [OF s0(2)] by blast
  have c: "cyc ?u = shift s0 x" using s0(2) n_pos by (intro cyc_map) (auto simp: necklace_def)
  note q = listed_period(2,3) [OF u]
  define s where "s = n - q + (n - s0) mod q"
  have m: "(n - s0) mod q < q" using q by simp
  have sn: "s < n" "n - s \<le> q" unfolding s_def using m q by linarith+
  have "q dvd n - q" using sound [OF u] by (simp add: dvd_diff_nat)
  then have sm: "(s + j) mod q = (n - s0 + j) mod q" for j
    unfolding s_def by (metis (no_types, opaque_lifting) add_0 dvd_imp_mod_0 mod_add_left_eq mod_mod_trivial)
  have "x j = cyc ?u (s + j)" for j
  proof -
    have "cyc ?u (s + j) = cyc ?u (n - s0 + j)"
      using listed_period(1) [OF u, of "s + j"] listed_period(1) [OF u, of "n - s0 + j"] sm by simp
    also have "\<dots> = x (s0 + (n - s0 + j))" by (simp only: c) (simp add: shift_def)
    also have "s0 + (n - s0 + j) = j + n" using s0(1) by simp
    finally show ?thesis using per by simp
  qed
  then show ?thesis using that u sn by blast
qed

end

context necklace_listing
begin

text \<open>A rotation whose tail is not made of the largest letter stands between its necklace and the next\<close>
lemma occurs_low:
  assumes u: "(u, q) \<in> set L" and s: "s < n" "n - s \<le> q" and x: "\<And>j. x j = cyc u (s + j)"
    and low: "s \<le> i" "i < n" "cyc u i \<noteq> top_letter"
  shows "occurs_cyclically x"
proof -
  obtain A B where L: "L = A @ (u, q) # B" using u by (meson split_list)
  have "B \<noteq> []" using last_is_top [of A u q i] low(3) L by auto
  then obtain v p B' where B: "B = (v, p) # B'" by (cases B) auto
  note L' = L [unfolded B]
  have v: "(v, p) \<in> set L" using L' by simp
  have pre: "same_on s (cyc u) (cyc v)" by (rule next_prefix [OF L' low])
  have vs: "take s (roots B) = take s v" if "s \<noteq> 0"
  proof -
    have "B' \<noteq> []"
    proof
      assume "B' = []"
      then have "L = (A @ [(u, q)]) @ [(v, p)]" using L' by simp
      then have "cyc v 0 = top_letter" by (rule last_is_top)
      then show False using pre that first_low [OF L'] by (simp add: same_on_def)
    qed
    then have "take n (roots B) = v" using spells [of "A @ [(u, q)]" v p B'] L' B by simp
    then have "take s (take n (roots B)) = take s v" by simp
    then show ?thesis using s(1) by (simp only: take_take) (simp add: min.absorb1)
  qed
  have per: "cyc u (i + n) = cyc u i" for i using cyc_periodic [of u n] sound [OF u] by blast
  show ?thesis
  proof (rule occurs_boundary [OF L])
    show "take s (roots B) = map (\<lambda>i. x (n - s + i)) [0..<s]"
    proof (cases "s = 0")
      case False
      have "take s v = map (\<lambda>i. x (n - s + i)) [0..<s]"
      proof (rule nth_equalityI)
        show "length (take s v) = length (map (\<lambda>i. x (n - s + i)) [0..<s])" using root_length [OF v] s(1) by simp
        fix j assume "j < length (take s v)"
        then have j: "j < s" by simp
        have "x (n - s + j) = cyc u (j + n)" using s(1) by (simp add: x add.commute)
        also have "\<dots> = cyc v j" using per pre j by (simp add: same_on_def)
        finally show "take s v ! j = map (\<lambda>i. x (n - s + i)) [0..<s] ! j" using j nth_cyc [OF v, of j] s(1) by simp
      qed
      then show ?thesis using vs [OF False] by simp
    qed simp
  qed (use s x in auto)
qed

text \<open>The sequence ends with n times the largest letter\<close>
lemma ends_with_top: "\<exists>X. roots L = X @ replicate n top_letter"
proof -
  let ?z = "if n = 1 then (\<lambda>_. k - 2) else filled n top_letter 1 (\<lambda>_. k - 2)"
  have z: "necklace n ?z" "\<forall>i. ?z i \<le> top_letter"
  proof -
    show "necklace n ?z" using const_necklace [of "k - 2"] n_pos filled_necklace [of n "\<lambda>_. k - 2" top_letter 1] by auto
    have "k - 2 \<le> top_letter" by simp
    then show "\<forall>i. ?z i \<le> top_letter" by (simp add: filled_def)
  qed
  have z0: "?z 0 = k - 2" "\<And>i. 0 < i \<Longrightarrow> i < n \<Longrightarrow> ?z i = top_letter" using n_pos by (auto simp: filled_def)
  obtain r where r: "(map ?z [0..<n], r) \<in> set L" using listed_function [OF z] by blast
  have cz: "cyc (map ?z [0..<n]) = ?z" using z(1) n_pos by (intro cyc_map) (auto simp: necklace_def)
  have "L \<noteq> []" using r by auto
  then obtain A v q where v: "L = A @ [(v, q)]" by (metis rev_exhaust surj_pair)
  have vt: "cyc v i = top_letter" for i using last_is_top [OF v] .
  have "map ?z [0..<n] \<noteq> v"
  proof
    assume "map ?z [0..<n] = v"
    then have "?z 0 = top_letter" using vt [of 0] cz by metis
    then show False using z0(1) k_ge by simp
  qed
  then have rA: "(map ?z [0..<n], r) \<in> set A" using r v by auto
  then have "A \<noteq> []" by auto
  then obtain A' w p where A: "A = A' @ [(w, p)]" by (metis rev_exhaust surj_pair)
  have L: "L = A' @ (w, p) # (v, q) # []" using v A by simp
  have wL: "(w, p) \<in> set L" and vL: "(v, q) \<in> set L" using L by auto
  have "w = map ?z [0..<n]"
  proof (rule ccontr)
    assume "w \<noteq> map ?z [0..<n]"
    then have "(map ?z [0..<n], r) \<in> set A'" using rA A by auto
    then have "less_on n ?z (cyc w)" using increasing cz unfolding L by (auto simp: sorted_wrt_append)
    then obtain d where d: "d < n" "?z d < cyc w d" by (auto elim: less_onE)
    then have "d = 0" using z0(2) [of d] letters [OF wL, of d] by (cases "d = 0") auto
    then have "cyc w 0 = top_letter" using d z0(1) letters [OF wL, of 0] by simp
    then show False using first_low [OF L] by simp
  qed
  then have cw: "cyc w = ?z" using cz by simp
  have "p = n"
  proof (rule ccontr)
    assume "p \<noteq> n"
    then have p: "0 < p" "p < n" using listed_period(2,3) [OF wL] by auto
    have "cyc w p = cyc w 0" using listed_period(1) [OF wL, of p] by simp
    then show False using z0(1) z0(2) [OF p] cw k_ge by simp
  qed
  note lw = root_length [OF wL] and lv = root_length [OF vL] listed_period(2,3) [OF vL]
  have "drop q w @ take q v = replicate n top_letter"
  proof (rule nth_equalityI)
    show "length (drop q w @ take q v) = length (replicate n top_letter)" using lw lv by simp
    fix i assume "i < length (drop q w @ take q v)"
    then have i: "i < n" using lw lv by simp
    show "(drop q w @ take q v) ! i = replicate n top_letter ! i"
    proof (cases "i < n - q")
      case True
      then have "w ! (q + i) = top_letter" using nth_cyc [OF wL, of "q + i"] cw z0(2) [of "q + i"] lv by simp
      then show ?thesis using True i lw by (simp add: nth_append)
    next
      case False
      then have "v ! (i - (n - q)) = top_letter" using nth_cyc [OF vL, of "i - (n - q)"] vt i by simp
      then show ?thesis using False i lw lv by (simp add: nth_append)
    qed
  qed
  moreover have "roots L = (roots A' @ take q w) @ (drop q w @ take q v)" using \<open>p = n\<close> lw unfolding L by simp
  ultimately have "roots L = (roots A' @ take q w) @ replicate n top_letter" by (simp only:)
  then show ?thesis by blast
qed

end

context necklace_listing
begin

lemma occurs_all_top: "(\<And>j. x j = top_letter) \<Longrightarrow> occurs_cyclically x"
proof -
  assume x: "\<And>j. x j = top_letter"
  obtain X where "roots L = X @ replicate n top_letter" using ends_with_top by blast
  moreover have "replicate n top_letter = map x [0..<n]" by (rule nth_equalityI) (simp_all add: x)
  ultimately show ?thesis by (intro occurs_linear [of X "replicate n top_letter"]) simp_all
qed

text \<open>A rotation that starts with the largest letters: it stands before the first necklace that begins
  with the rest\<close>
lemma occurs_high:
  assumes u: "(u, q) \<in> set L" and s: "0 < s" "s < n" "n - s \<le> q" and x: "\<And>j. x j = cyc u (s + j)"
    and high: "\<And>i. s \<le> i \<Longrightarrow> i < n \<Longrightarrow> cyc u i = top_letter" and u0: "cyc u 0 \<noteq> top_letter"
  shows "occurs_cyclically x"
proof -
  let ?P = "\<lambda>y. same_on s (cyc (fst y)) (cyc u)"
  have "\<exists>y \<in> set L. ?P y" using u by (force simp: same_on_def)
  then obtain A w B where L: "L = A @ w # B" "?P w" "\<forall>y \<in> set A. \<not> ?P y"
    using split_list_first_prop [of L ?P] by blast
  obtain w0 q0 where w: "w = (w0, q0)" by (cases w)
  have L0: "L = A @ (w0, q0) # B" and pw: "same_on s (cyc w0) (cyc u)" using L w by auto
  have wL: "(w0, q0) \<in> set L" using L0 by simp
  have "B \<noteq> []" using last_is_top [of A w0 q0 0] L0 pw u0 s(1) by (auto simp: same_on_def)
  from spells [OF L0 this] have sp: "take n (roots ((w0, q0) # B)) = w0" .
  have "take s (take n (roots ((w0, q0) # B))) = take s w0" by (simp only: sp)
  then have sp_s: "take s (roots ((w0, q0) # B)) = take s w0" using s(2) by (simp only: take_take) (simp add: min.absorb1)
  have per: "cyc u (i + n) = cyc u i" for i using cyc_periodic [of u n] sound [OF u] by blast
  have tail: "take s w0 = map (\<lambda>i. x (n - s + i)) [0..<s]"
  proof (rule nth_equalityI)
    show "length (take s w0) = length (map (\<lambda>i. x (n - s + i)) [0..<s])" using root_length [OF wL] s by simp
    fix j assume "j < length (take s w0)"
    then have j: "j < s" by simp
    have "x (n - s + j) = cyc u (j + n)" using s(2) by (simp add: x add.commute)
    also have "\<dots> = cyc w0 j" using per pw j by (simp add: same_on_def)
    finally show "take s w0 ! j = map (\<lambda>i. x (n - s + i)) [0..<s] ! j" using j nth_cyc [OF wL, of j] s by simp
  qed
  have head: "x j = top_letter" if "j < n - s" for j using high [of "s + j"] that x by simp
  show ?thesis
  proof (cases A rule: rev_cases)
    case Nil
    have "\<exists>X. roots L = X @ replicate n top_letter" by (rule ends_with_top)
    then obtain X where X: "roots L = X @ replicate n top_letter" by blast
    have len: "length (roots L) = length X + n" using X by simp
    show ?thesis unfolding occurs_cyclically_def
    proof (intro exI [of _ "length X + s"] conjI allI impI)
      show "length X + s < length (roots L)" using len s by simp
      fix j assume j: "j < n"
      show "roots L ! ((length X + s + j) mod length (roots L)) = x j"
      proof (cases "j < n - s")
        case True
        then have "(length X + s + j) mod length (roots L) = length X + (s + j)" using len by simp
        moreover have "roots L ! (length X + (s + j)) = top_letter" unfolding X using True by (simp add: nth_append)
        ultimately show ?thesis using head [OF True] by simp
      next
        case False
        have "length X + s + j = (j - (n - s)) + length (roots L)" using False len s by simp
        moreover have "j - (n - s) < length (roots L)" using len j s by simp
        ultimately have m: "(length X + s + j) mod length (roots L) = j - (n - s)" by simp
        have jj: "j - (n - s) < s" using j s False by simp
        have "roots L ! (j - (n - s)) = take s (roots L) ! (j - (n - s))" using jj by simp
        also have "\<dots> = x (n - s + (j - (n - s)))" using sp_s tail jj L0 Nil by simp
        also have "\<dots> = x j" using False by simp
        finally show ?thesis unfolding m .
      qed
    qed
  next
    case (snoc A' y)
    obtain v p where y: "y = (v, p)" by (cases y)
    have L1: "L = A' @ (v, p) # (w0, q0) # B" using L0 snoc y by simp
    have vL: "(v, p) \<in> set L" using L1 by simp
    have np: "\<not> same_on s (cyc v) (cyc u)" using L(3) snoc y by auto
    note f = filled_greater [OF vL s(2)]
    let ?y = "filled n top_letter s (cyc v)"
    have "less_on s (cyc v) (cyc w0)"
    proof -
      have "\<not> same_on s (cyc v) (cyc w0)" using np pw by (auto simp: same_on_def)
      moreover have "\<not> less_on s (cyc w0) (cyc v)"
        using next_greater [OF L1] less_on_mono [of s "cyc w0" "cyc v" n] s(2) less_on_asym by auto
      ultimately show ?thesis using less_on_cases by blast
    qed
    then have "less_on s ?y (cyc w0)" using same_on_cong [OF f(3), of "cyc w0" "cyc w0"] by (simp add: same_on_def)
    then have yw: "less_on n ?y (cyc w0)" using s(2) by (simp add: less_on_mono)
    have "same_on n (cyc v) ?y"
      using neighbours [OF L1 f(1)] f(2,4) yw less_on_cases by blast
    then have vt: "cyc v i = top_letter" if "s \<le> i" "i < n" for i using that by (simp add: same_on_def filled_simps)
    have "n - s < p"
    proof (rule ccontr)
      assume "\<not> n - s < p"
      then have "\<forall>i. n - p \<le> i \<and> i < n \<longrightarrow> cyc v i = top_letter" using vt s by auto
      then have "\<forall>j. cyc v j = top_letter" using all_top [OF vL] by blast
      then show False using top_is_last [OF L1] by blast
    qed
    then show ?thesis using s sp_s tail vt head
      by (intro occurs_boundary [OF L1, of s]) simp_all
  qed
qed

text \<open>Every word over the letters occurs in the sequence read as a cycle\<close>
lemma all_occur:
  assumes per: "\<forall>i. x (i + n) = x i" and le: "\<forall>i. x i \<le> top_letter"
  shows "occurs_cyclically x"
proof -
  obtain u q s where u: "(u, q) \<in> set L" "s < n" "n - s \<le> q" "\<And>j. x j = cyc u (s + j)"
    using rotation_of_listed [OF per le] by blast
  show ?thesis
  proof (cases "\<exists>i. s \<le> i \<and> i < n \<and> cyc u i \<noteq> top_letter")
    case True
    then show ?thesis using occurs_low [OF u] by blast
  next
    case False
    then have high: "cyc u i = top_letter" if "s \<le> i" "i < n" for i using that by blast
    show ?thesis
    proof (cases "cyc u 0 = top_letter")
      case True
      have "\<forall>i. cyc u i \<le> top_letter" using letters [OF u(1)] by blast
      then have "cyc u i = top_letter" for i
        using necklace_max_first [OF listed_necklace [OF u(1)] n_pos] True by blast
      then show ?thesis by (intro occurs_all_top) (simp add: u(4))
    next
      case False
      then have "s \<noteq> 0" using high [of 0] n_pos by auto
      then show ?thesis using occurs_high [OF u(1) _ u(2,3) u(4) high False] by blast
    qed
  qed
qed

end

text \<open>Counting: the sequence is no longer than the number of words, so no word occurs twice\<close>
context necklace_listing
begin

abbreviation all_words :: "nat list set" where
  "all_words \<equiv> {w. set w \<subseteq> {..<k} \<and> length w = n}"

abbreviation rotated :: "nat list \<times> nat \<Rightarrow> nat list" where
  "rotated \<equiv> \<lambda>(v, i). map (\<lambda>m. cyc v (i + m)) [0..<n]"

abbreviation pairs :: "(nat list \<times> nat) list \<Rightarrow> (nat list \<times> nat) list" where
  "pairs xs \<equiv> concat (map (\<lambda>(v, q). map (Pair v) [0..<q]) xs)"

lemma mem_pairs: "(v, i) \<in> set (pairs xs) \<longleftrightarrow> (\<exists>q. (v, q) \<in> set xs \<and> i < q)"
  by (induction xs) auto

lemma distinct_pairs: "distinct (map fst xs) \<Longrightarrow> distinct (pairs xs)"
proof (induction xs)
  case (Cons x xs)
  obtain v q where x: "x = (v, q)" by (cases x)
  have "v \<notin> fst ` set xs" using Cons.prems x by simp
  then have "set (map (Pair v) [0..<q]) \<inter> set (pairs xs) = {}" by force
  moreover have "distinct (map (Pair v) [0..<q])" by (simp add: distinct_map inj_on_def)
  ultimately show ?case using Cons x by simp
qed simp

lemma distinct_words: "distinct (map fst L)"
proof -
  have "sorted_wrt (\<noteq>) (map fst L)"
    using increasing by (auto simp: sorted_wrt_map elim!: sorted_wrt_mono_rel [rotated])
  then show ?thesis by (simp add: distinct_conv_nth sorted_wrt_iff_nth_less) (metis linorder_neqE_nat)
qed

text \<open>A rotation within the repeated part tells the necklace and the offset\<close>
lemma rotated_inj:
  assumes v: "(v, q) \<in> set L" "i < q" and w: "(w, p) \<in> set L" "j < p"
    and eq: "rotated (v, i) = rotated (w, j)"
  shows "v = w \<and> i = j"
proof -
  have pv: "\<forall>m. cyc v (m + n) = cyc v m" and pw: "\<forall>m. cyc w (m + n) = cyc w m"
    using cyc_periodic sound v(1) w(1) by metis+
  have e: "shift i (cyc v) = shift j (cyc w)"
  proof
    fix m
    have "\<forall>a. shift i (cyc v) (a + n) = shift i (cyc v) a" "\<forall>a. shift j (cyc w) (a + n) = shift j (cyc w) a"
      using pv pw by (simp_all add: shift_def add.assoc [symmetric])
    then have "shift i (cyc v) (m mod n) = shift i (cyc v) m" "shift j (cyc w) (m mod n) = shift j (cyc w) m"
      by (blast intro: periodic_mod)+
    moreover have "map (\<lambda>m. cyc v (i + m)) [0..<n] ! (m mod n) = map (\<lambda>m. cyc w (j + m)) [0..<n] ! (m mod n)"
      using arg_cong [OF eq, of "\<lambda>xs. xs ! (m mod n)"] by (simp only: prod.case)
    ultimately show "shift i (cyc v) m = shift j (cyc w) m" using n_pos by (simp add: shift_def)
  qed
  have undo: "shift (n - a) (shift a f) = f" if "a < n" "\<forall>m. f (m + n) = (f m :: nat)" for a f
    using that by (simp add: shift_def fun_eq_iff) (metis add.commute add.left_commute le_add_diff_inverse less_imp_le_nat)
  have iq: "i < n" "j < n" using listed_period(3) [OF v(1)] listed_period(3) [OF w(1)] v(2) w(2) by auto
  have "cyc v = shift (n - i) (shift j (cyc w))" using undo [OF iq(1) pv] e by simp
  then have vw: "cyc v = shift (n - i + j) (cyc w)" by (simp add: shift_def fun_eq_iff add.commute add.left_commute)
  have "cyc w = shift (n - j) (shift i (cyc v))" using undo [OF iq(2) pw] e by simp
  then have wv: "cyc w = shift (n - j + i) (cyc v)" by (simp add: shift_def fun_eq_iff add.commute add.left_commute)
  have "\<not> less_on n (cyc v) (cyc w)" "\<not> less_on n (cyc w) (cyc v)"
    using listed_necklace [OF v(1)] listed_necklace [OF w(1)] vw wv unfolding necklace_def by metis+
  then have same: "same_on n (cyc v) (cyc w)" using less_on_cases by blast
  have vweq: "v = w"
  proof (rule nth_equalityI)
    show "length v = length w" using sound v(1) w(1) by metis
    show "v ! a = w ! a" if "a < length v" for a
      using that same nth_cyc [OF v(1), of a] nth_cyc [OF w(1), of a] sound [OF v(1)] by (simp add: same_on_def)
  qed
  have no_shift: "\<not> a < b" if "shift a (cyc v) = shift b (cyc v)" "b < q" for a b
  proof
    assume ab: "a < b"
    have "a < n" "b - a < n" using ab that(2) listed_period(3) [OF v(1)] by auto
    have "cyc v = shift (n - a) (shift b (cyc v))" using undo [OF \<open>a < n\<close> pv] that(1) by simp
    also have "\<dots> = shift (b - a) (cyc v)"
    proof
      fix m
      have "b + (n - a + m) = (b - a + m) + n" using ab \<open>a < n\<close> by simp
      then show "shift (n - a) (shift b (cyc v)) m = shift (b - a) (cyc v) m"
        using pv unfolding shift_def by (simp only:)
    qed
    finally have "cyc v = shift (b - a) (cyc v)" .
    moreover have "less_on n (cyc v) (shift (b - a) (cyc v))"
      by (rule listed_period(4) [OF v(1)]) (use ab that(2) in simp)
    ultimately show False by (metis less_on_irrefl)
  qed
  have "p = q" using distinct_words v(1) w(1) vweq by (metis eq_key_imp_eq_value)
  then show ?thesis using no_shift [of i j] no_shift [of j i] e vweq v(2) w(2) by (metis linorder_neqE_nat)
qed

lemma roots_bound: "length (roots L) \<le> k ^ n"
proof -
  have "length (take (snd x) (fst x)) = length (map (Pair (fst x)) [0..<snd x])" if "x \<in> set L" for x
    using root_length [of "fst x" "snd x"] that by (simp only: prod.collapse length_map length_upt)
  then have len: "length (roots L) = length (pairs L)"
    by (simp add: length_concat case_prod_unfold comp_def cong: map_cong)
  have inj: "inj_on rotated (set (pairs L))"
  proof (rule inj_onI)
    fix x y assume xy: "x \<in> set (pairs L)" "y \<in> set (pairs L)" "rotated x = rotated y"
    obtain v i w j where e: "x = (v, i)" "y = (w, j)" by (cases x; cases y)
    obtain q where q: "(v, q) \<in> set L" "i < q" using xy(1) unfolding e mem_pairs by blast
    obtain p where p: "(w, p) \<in> set L" "j < p" using xy(2) unfolding e mem_pairs by blast
    show "x = y" using rotated_inj [OF q p] xy(3) unfolding e by blast
  qed
  have d: "distinct (map rotated (pairs L))"
    unfolding distinct_map using inj distinct_pairs [OF distinct_words] by blast
  have "length (pairs L) = length (map rotated (pairs L))" by (rule length_map [symmetric])
  also have "\<dots> = card (set (map rotated (pairs L)))" by (rule distinct_card [OF d, symmetric])
  also have "\<dots> \<le> card all_words"
  proof (rule card_mono)
    show "finite all_words" by (rule finite_lists_length_eq) simp
    have "cyc v m < k" if "(v, q) \<in> set L" for v q m using letters [OF that, of m] k_ge by linarith
    then show "set (map rotated (pairs L)) \<subseteq> all_words" by (auto simp: mem_pairs)
  qed
  also have "\<dots> = k ^ n" by (simp add: card_lists_length_eq)
  finally show ?thesis by (simp only: len)
qed

abbreviation window :: "nat \<Rightarrow> nat list" where
  "window pos \<equiv> map (\<lambda>j. roots L ! ((pos + j) mod length (roots L))) [0..<n]"

lemma roots_letters: "x \<in> set (roots L) \<Longrightarrow> x < k"
proof -
  assume "x \<in> set (roots L)"
  then obtain v q where "(v, q) \<in> set L" "x \<in> set v" by (auto dest: in_set_takeD)
  then show "x < k" using sound [of v q] by auto
qed

lemma windows_all: "window ` {..<length (roots L)} = all_words"
proof
  have in_range: "roots L ! (i mod length (roots L)) < k" if "pos < length (roots L)" for i pos
    by (rule roots_letters, rule nth_mem, rule mod_less_divisor) (use that in linarith)
  show "window ` {..<length (roots L)} \<subseteq> all_words"
    using in_range by (auto simp del: length_concat)
  show "all_words \<subseteq> window ` {..<length (roots L)}"
  proof
    fix w assume w: "w \<in> all_words"
    have "cyc w i < k" for i
    proof -
      have "w ! (i mod n) \<in> set w" using w n_pos by (intro nth_mem) simp
      then show ?thesis using w by (auto simp: cyc_def)
    qed
    then have "\<forall>i. cyc w i \<le> top_letter" using k_ge by (metis Suc_pred' less_Suc_eq_le less_le_trans zero_less_numeral)
    moreover have "\<forall>i. cyc w (i + n) = cyc w i" using w cyc_periodic by blast
    ultimately have "occurs_cyclically (cyc w)" using all_occur by blast
    then obtain pos where pos: "pos < length (roots L)" "\<forall>j<n. roots L ! ((pos + j) mod length (roots L)) = cyc w j"
      unfolding occurs_cyclically_def by blast
    have "window pos = w" by (rule nth_equalityI) (use w pos(2) in \<open>auto simp: cyc_def simp del: length_concat\<close>)
    then show "w \<in> window ` {..<length (roots L)}" using pos(1) by blast
  qed
qed

lemma windows_inj: "inj_on window {..<length (roots L)}" and roots_exact: "length (roots L) = k ^ n"
proof -
  have "card (window ` {..<length (roots L)}) = k ^ n"
    unfolding windows_all by (simp add: card_lists_length_eq)
  moreover have "card (window ` {..<length (roots L)}) \<le> length (roots L)" using card_image_le [of "{..<length (roots L)}" window] by simp
  ultimately show l: "length (roots L) = k ^ n" using roots_bound by linarith
  show "inj_on window {..<length (roots L)}"
    by (rule eq_card_imp_inj_on) (use l \<open>card _ = k ^ n\<close> in simp_all)
qed

lemma linear_window:
  "pos + n \<le> length (roots L) \<Longrightarrow> take n (drop pos (roots L)) = window pos"
  by (rule nth_equalityI) (auto simp del: length_concat)

lemma linear_windows_distinct:
  assumes "i + n \<le> length (roots L)" "j + n \<le> length (roots L)" "take n (drop i (roots L)) = take n (drop j (roots L))"
  shows "i = j"
  using inj_onD [OF windows_inj, of i j] assms linear_window n_pos by (simp del: length_concat)

end

end
