(* ===== verification/Deref.thy ===== *)
theory Deref
  imports MemCmds
begin

text \<open>
  The recursive dereference of \<^verbatim>\<open>scripts/gef.py\<close> (\<^verbatim>\<open>dereference_from\<close>, the \<^verbatim>\<open>dereference\<close> command and
  its pages) and the watched memory ranges (\<^verbatim>\<open>memory watch\<close>, \<^verbatim>\<open>unwatch\<close>, \<^verbatim>\<open>reset\<close>, \<^verbatim>\<open>list\<close> and the
  context pane that shows them).  The caches are not modelled: a result is a function of the inferior.
\<close>

definition LEFT_ARROW :: string where "LEFT_ARROW = [CHR '' '', CHR 0xE2, CHR 0x86, CHR 0x90, CHR '' '']"

record deref_env =
  dv_dis :: disasm_env
  dv_maps :: "sect list"
  dv_infos :: "zone list"
  dv_decode :: "byte list \<Rightarrow> string option"
  dv_theme :: "string \<Rightarrow> string"
  dv_no_color :: bool
  dv_max_recursion :: int
  dv_registers :: "(string \<times> int option) list"

abbreviation dv_target :: "deref_env \<Rightarrow> target" where "dv_target env \<equiv> de_target (dv_dis env)"

definition dv_lookup :: "deref_env \<Rightarrow> int \<Rightarrow> address" where
  "dv_lookup env a = lookup_address (dv_target env) (dv_maps env) (dv_infos env) a"

definition dv_str :: "deref_env \<Rightarrow> address \<Rightarrow> string" where
  "dv_str env a = address_str (dv_no_color env) (dv_theme env) (dv_target env) a"

section \<open>Dereferencing\<close>

text \<open>\<^verbatim>\<open>dereference\<close>: GDB fetches an unsigned integer as wide as a pointer, None on a memory error\<close>
definition dereference :: "target \<Rightarrow> int \<Rightarrow> int option" where
  "dereference t addr =
     (case mem_read t addr (int (t_ptrsize t)) of
        Inl _ \<Rightarrow> None | Inr bs \<Rightarrow> Some (le_val (order (t_endian t) bs)))"

definition address_dereference :: "target \<Rightarrow> address \<Rightarrow> int option" where
  "address_dereference t a = dereference t (align_address t (value_of a))"

text \<open>The last message: the value read is not an address of the map\<close>
definition value_text :: "deref_env \<Rightarrow> address \<Rightarrow> sect \<Rightarrow> int \<Rightarrow> string result" where
  "value_text env a s deref =
     (let t = dv_target env; v = value_of a; asc = is_ascii_string (dv_decode env) t v in
      if is_executable s \<and> is_in_text_segment t a \<and> \<not> asc then
        bindE (gef_current_instruction (dv_dis env) v) (\<lambda>i.
          Inr (colorify (dv_no_color env)
            (i_location i @ '' '' @ mnemonic i @ '' '' @ join '', '' (operands i)) (dv_theme env ''theme.dereference_code'')))
      else if perm_truthy (perm_and (permission s) PREAD) \<and> asc then
        bindE (read_cstring (dv_decode env) t v 50) (\<lambda>(_, s).
          let color = (\<lambda>x. colorify (dv_no_color env) x (dv_theme env ''theme.dereference_string'')) in
          Inr (if length s < t_ptrsize t then format_address t deref @ '' ('' @ [CHR 0x22] @ color s @ [CHR 0x22] @ ''?)''
               else if length s > 50 then color ([CHR 0x22] @ take 50 s @ ''[...]'' @ [CHR 0x22])
               else color ([CHR 0x22] @ s @ [CHR 0x22])))
      else Inr (format_address t deref))"

definition mapped :: "sect list \<Rightarrow> int set" where
  "mapped maps = (\<Union>s \<in> set maps. {page_start s ..< page_end s})"

lemma finite_mapped [simp]: "finite (mapped maps)"
  by (simp add: mapped_def)

lemma lookup_mapped: "process_lookup_address t maps a = Some s \<Longrightarrow> a \<in> mapped maps"
  by (force simp: process_lookup_address_def mapped_def split: if_splits dest: find_sect_Some)

text \<open>The loop: \<^verbatim>\<open>n\<close> is what is left of \<^verbatim>\<open>max_recursion\<close>, and any value but 0 lets it go on, so below 0
  only the addresses already seen end it\<close>
function deref_loop :: "deref_env \<Rightarrow> int \<Rightarrow> int list \<Rightarrow> int \<Rightarrow> string list result" where
  "deref_loop env n seen v =
     (case a_section (dv_lookup env v) of
        None \<Rightarrow> Inr []
      | Some s \<Rightarrow>
          if n = 0 then Inr []
          else if v \<in> set seen then Inr [''[loop detected]'']
          else case address_dereference (dv_target env) (dv_lookup env v) of
            None \<Rightarrow> Inr [dv_str env (dv_lookup env v)]
          | Some deref \<Rightarrow>
              if addr_valid (dv_maps env) deref then
                bindE (deref_loop env (n - 1) (v # seen) deref) (\<lambda>ms. Inr (dv_str env (dv_lookup env deref) # ms))
              else bindE (value_text env (dv_lookup env v) s deref) (\<lambda>m. Inr [m]))"
  by pat_completeness auto
termination
proof (relation "measure (\<lambda>(env, n, seen, v). if 0 \<le> n then nat n else card (mapped (dv_maps env) - set seen))")
  fix env :: deref_env and n v deref :: int and seen s
  assume s: "a_section (dv_lookup env v) = Some s" "n \<noteq> 0" "v \<notin> set seen"
  then have v: "v \<in> mapped (dv_maps env) - set seen" by (auto simp: dv_lookup_def lookup_address_def dest: lookup_mapped)
  have "mapped (dv_maps env) - set (v # seen) \<subset> mapped (dv_maps env) - set seen" using v by auto
  then have "card (mapped (dv_maps env) - set (v # seen)) < card (mapped (dv_maps env) - set seen)"
    by (intro psubset_card_mono) auto
  then show "((env, n - 1, v # seen, deref), env, n, seen, v)
    \<in> measure (\<lambda>(env, n, seen, v). if 0 \<le> n then nat n else card (mapped (dv_maps env) - set seen))"
    using s(2) by auto
qed simp

declare deref_loop.simps [simp del]

definition dereference_from :: "deref_env \<Rightarrow> int \<Rightarrow> string list result" where
  "dereference_from env address =
     (let t = dv_target env in
      if \<not> t_alive t then Inr [format_address t address]
      else let n = (if dv_max_recursion env = 0 then 10 else dv_max_recursion env); v = align_address t address in
        bindE (deref_loop env n [] v) (\<lambda>ms. Inr (format_address t v # ms)))"

section \<open>The command\<close>

text \<open>\<^verbatim>\<open>f'{x:+#07x}'\<close>\<close>
definition signed_hex7 :: "int \<Rightarrow> string" where
  "signed_hex7 x = (if x < 0 then ''-'' else ''+'') @ ''0x'' @ zfill 4 (nat_digits 16 (nat \<bar>x\<bar>))"

definition pprint_dereferenced :: "deref_env \<Rightarrow> int \<Rightarrow> int \<Rightarrow> int \<Rightarrow> string result" where
  "pprint_dereferenced env addr idx base_offset =
     (let t = dv_target env; nc = dv_no_color env; offset = idx * int (t_ptrsize t);
          current_address = align_address t (addr + offset) in
      bindE (dereference_from env current_address) (\<lambda>addrs.
      bindE (py_int 16 (hd addrs)) (\<lambda>a0.
        let l = colorify nc (format_address t a0) (dv_theme env ''theme.dereference_base_address'') @ VERTICAL_LINE
                @ signed_hex7 (base_offset + offset) @ '': ''
                @ ljust (t_ptrsize t * 2 + 2) (join ('' '' @ RIGHT_ARROW @ '' '') (tl addrs));
            hints = map fst (filter (\<lambda>r. snd r = Some current_address) (dv_registers env))
        in Inr (if hints = [] then l
                else l @ colorify nc (CHR 0x09 # LEFT_ARROW @ join '', '' hints) (dv_theme env ''theme.dereference_register_value'')))))"

text \<open>The indices a page shows: the first, the bound and the step of the range\<close>
definition deref_range :: "bool \<Rightarrow> int \<Rightarrow> int \<Rightarrow> int \<times> int \<times> int" where
  "deref_range grow_down nb repeat_count =
     (if grow_down then
        (if nb > 0 then (nb * (repeat_count + 1) - 1, repeat_count * nb - 1, -1)
         else (repeat_count * nb, nb * (repeat_count + 1), -1))
      else
        (if nb > 0 then (repeat_count * nb, nb * (repeat_count + 1), 1)
         else (nb * (repeat_count + 1) + 1, repeat_count * nb + 1, 1)))"

definition deref_indices :: "bool \<Rightarrow> int \<Rightarrow> int \<Rightarrow> int list" where
  "deref_indices grow_down nb repeat_count =
     (let (a, b, step) = deref_range grow_down nb repeat_count in
      if step = 1 then map (\<lambda>k. a + int k) [0..<nat (b - a)] else map (\<lambda>k. a - int k) [0..<nat (a - b)])"

text \<open>The lines printed, and the exception that ends them\<close>
fun deref_lines :: "deref_env \<Rightarrow> int \<Rightarrow> int \<Rightarrow> int list \<Rightarrow> string list \<times> py_exn option" where
  "deref_lines env start base_offset [] = ([], None)"
| "deref_lines env start base_offset (i # is) =
     (case pprint_dereferenced env start i base_offset of
        Inl e \<Rightarrow> ([], Some e)
      | Inr l \<Rightarrow> (let (ls, e) = deref_lines env start base_offset is in (l # ls, e)))"

definition deref_cmd ::
  "deref_env \<Rightarrow> bool \<Rightarrow> int \<Rightarrow> string \<Rightarrow> string \<Rightarrow> int \<Rightarrow> string list \<times> py_exn option" where
  "deref_cmd env grow_down repeat_count target_text reference0 nb =
     (let t = dv_target env; nc = dv_no_color env;
          unmapped = (\<lambda>x. ([err_line nc (''Unmapped address: '' @ [CHR 0x27] @ x @ [CHR 0x27])], None)) in
      if \<not> t_alive t then ([warn_line nc ''No debugging session active''], None)
      else let reference = (if reference0 = [] then target_text else reference0) in
      case bindE (parse_address t target_text) (\<lambda>a. bindE (parse_address t reference) (\<lambda>r. Inr (a, r))) of
        Inl e \<Rightarrow> ([], Some e)
      | Inr (target_addr, ref_addr) \<Rightarrow>
          if process_lookup_address t (dv_maps env) target_addr = None then unmapped target_text
          else if process_lookup_address t (dv_maps env) ref_addr = None then unmapped reference
          else let start = align_address t target_addr in
            deref_lines env start (start - align_address t ref_addr) (deref_indices grow_down nb repeat_count))"

section \<open>Watched ranges\<close>

type_synonym watches = "(int \<times> int \<times> string) list"

definition watch_cmd :: "bool \<Rightarrow> string \<Rightarrow> target \<Rightarrow> string list \<Rightarrow> watches \<Rightarrow> unit result \<times> string list \<times> watches" where
  "watch_cmd nc usage t argv ws =
     (let usage_line = err_line nc (''Syntax'' @ [CHR 0x0A] @ usage) in
      if \<not> t_alive t then (Inr (), [warn_line nc ''No debugging session active''], ws)
      else if length argv \<notin> {1, 2, 3} then (Inr (), [usage_line], ws)
      else case bindE (parse_address t (argv ! 0)) (\<lambda>a.
             bindE (if 1 < length argv then parse_address t (argv ! 1) else Inr 0x10) (\<lambda>n. Inr (a, n))) of
        Inl e \<Rightarrow> (Inl e, [], ws)
      | Inr (a, n) \<Rightarrow>
          (let g = lower (argv ! 2) in
           if length argv = 3 \<and> g \<notin> {''qword'', ''dword'', ''word'', ''byte'', ''pointers''}
           then (Inr (), [warn_line nc (''Unexpected grouping '' @ [CHR 0x27] @ g @ [CHR 0x27]), usage_line], ws)
           else let group = (if length argv = 3 then g else if t_ptrsize t = 4 then ''dword''
                             else if t_ptrsize t = 8 then ''qword'' else ''byte'')
             in (Inr (), [ok_line nc (''Adding memwatch to '' @ hexs a)], AList.update a (n, group) ws)))"

definition unwatch_cmd :: "bool \<Rightarrow> string \<Rightarrow> target \<Rightarrow> string list \<Rightarrow> watches \<Rightarrow> unit result \<times> string list \<times> watches" where
  "unwatch_cmd nc usage t argv ws =
     (if \<not> t_alive t then (Inr (), [warn_line nc ''No debugging session active''], ws)
      else if argv = [] then (Inr (), [err_line nc (''Syntax'' @ [CHR 0x0A] @ usage)], ws)
      else case parse_address t (hd argv) of
        Inl e \<Rightarrow> (Inl e, [], ws)
      | Inr a \<Rightarrow> (Inr (), [if a \<notin> set (map fst ws) then warn_line nc ([CHR ''Y''] @ ''ou weren'' @ [CHR 0x27] @ ''t watching '' @ hexs a)
                     else ok_line nc (''Removed memwatch of '' @ hexs a)], AList.delete a ws))"

definition watch_reset_cmd :: "bool \<Rightarrow> target \<Rightarrow> watches \<Rightarrow> string list \<times> watches" where
  "watch_reset_cmd nc t ws =
     (if \<not> t_alive t then ([warn_line nc ''No debugging session active''], ws)
      else ([ok_line nc ''Memory watches cleared''], []))"

text \<open>\<^verbatim>\<open>sorted(d.items())\<close>: the addresses are distinct, so they alone decide\<close>
definition sorted_watches :: "watches \<Rightarrow> watches" where
  "sorted_watches ws = sort_key fst ws"

definition watch_list_cmd :: "bool \<Rightarrow> target \<Rightarrow> watches \<Rightarrow> string list" where
  "watch_list_cmd nc t ws =
     (if \<not> t_alive t then [warn_line nc ''No debugging session active'']
      else if ws = [] then [info_line nc ''No memory watches'']
      else info_line nc ''Memory watches:''
        # map (\<lambda>(a, n, g). ''- '' @ hexs a @ '' ('' @ decs n @ '', '' @ g @ '')'') (sorted_watches ws))"

text \<open>The commands the context pane runs, each after its title\<close>
definition context_memory :: "watches \<Rightarrow> (string \<times> string) list" where
  "context_memory ws = map (\<lambda>(a, n, g). (''memory:'' @ hexs a,
     if g = ''pointers'' then ''dereference -l '' @ decs n @ '' '' @ hexs a
     else ''hexdump '' @ g @ '' -s '' @ decs n @ '' '' @ hexs a)) (sorted_watches ws)"

section \<open>Facts\<close>

abbreviation points_to :: "deref_env \<Rightarrow> int \<Rightarrow> int \<Rightarrow> bool" where
  "points_to env v w \<equiv> address_dereference (dv_target env) (dv_lookup env v) = Some w \<and> addr_valid (dv_maps env) w"

lemma deref_loop_chain:
  "deref_loop env n seen v = Inr ms \<Longrightarrow>
   \<exists>vs tail. ms = map (\<lambda>w. dv_str env (dv_lookup env w)) vs @ tail \<and> length tail \<le> 1
     \<and> successively (points_to env) (v # vs) \<and> distinct (butlast (v # vs)) \<and> set (butlast (v # vs)) \<inter> set seen = {}
     \<and> (0 \<le> n \<longrightarrow> int (length ms) \<le> n)"
proof (induction env n seen v arbitrary: ms rule: deref_loop.induct)
  case (1 env n seen v)
  note r = "1.prems" [unfolded deref_loop.simps [of env n seen v]]
  have leaf: ?case if "length ms \<le> 1" "0 \<le> n \<longrightarrow> int (length ms) \<le> n"
    using that by (intro exI [of _ "[]"] exI [of _ ms]) simp
  show ?case
  proof (cases "a_section (dv_lookup env v)")
    case None
    then show ?thesis using r by (intro leaf) simp_all
  next
    case (Some s)
    show ?thesis
    proof (cases "n = 0 \<or> v \<in> set seen")
      case True
      then show ?thesis using r Some by (intro leaf) (auto split: if_splits)
    next
      case False
      show ?thesis
      proof (cases "address_dereference (dv_target env) (dv_lookup env v)")
        case None
        then show ?thesis using r Some False by (intro leaf) auto
      next
        case (Some w)
        show ?thesis
        proof (cases "addr_valid (dv_maps env) w")
          case True
          then obtain ms' where ms': "deref_loop env (n - 1) (v # seen) w = Inr ms'" "ms = dv_str env (dv_lookup env w) # ms'"
            using r \<open>a_section _ = Some s\<close> False Some by (auto simp: result_simps)
          have f: "n \<noteq> 0" "v \<notin> set seen" using False by auto
          from "1.IH" [OF \<open>a_section _ = Some s\<close> f Some True ms'(1)]
          obtain vs tail where c: "ms' = map (\<lambda>w. dv_str env (dv_lookup env w)) vs @ tail" "length tail \<le> 1"
            "successively (points_to env) (w # vs)" "distinct (butlast (w # vs))"
            "set (butlast (w # vs)) \<inter> set (v # seen) = {}" "0 \<le> n - 1 \<longrightarrow> int (length ms') \<le> n - 1" by blast
          show ?thesis
            by (rule exI [of _ "w # vs"], rule exI [of _ tail]) (use c ms'(2) Some True f in auto)
        next
          case False
          then obtain m where "ms = [m]" using r \<open>a_section _ = Some s\<close> \<open>\<not> (n = 0 \<or> v \<in> set seen)\<close> Some
            by (auto simp: result_simps)
          then show ?thesis using \<open>\<not> (n = 0 \<or> v \<in> set seen)\<close> by (intro leaf) auto
        qed
      qed
    qed
  qed
qed

section \<open>Properties\<close>

text \<open>C26: \<^verbatim>\<open>dereference_from\<close> always returns: the address it was given, then a chain of mapped
  addresses each of which is the word stored at the one before, none repeated except the last, then
  at most one more message; with a positive limit there are at most that many after the first.\<close>
theorem dereference_follows_chain:
  assumes "t_alive (dv_target env)" "dereference_from env a = Inr ms"
  shows "\<exists>vs tail. ms = format_address (dv_target env) a # map (\<lambda>w. dv_str env (dv_lookup env w)) vs @ tail
    \<and> length tail \<le> 1 \<and> successively (points_to env) (align_address (dv_target env) a # vs)
    \<and> distinct (butlast (align_address (dv_target env) a # vs))
    \<and> (0 < dv_max_recursion env \<longrightarrow> int (length ms) \<le> dv_max_recursion env + 1)"
proof -
  let ?v = "align_address (dv_target env) a"
  let ?n = "if dv_max_recursion env = 0 then 10 else dv_max_recursion env"
  from assms obtain ls where l: "deref_loop env ?n [] ?v = Inr ls" "ms = format_address (dv_target env) ?v # ls"
    by (auto simp: dereference_from_def Let_def result_simps)
  have "format_address (dv_target env) ?v = format_address (dv_target env) a"
    by (simp add: format_address_def align_address_idem)
  note ms = l(2) [unfolded this]
  obtain vs tail where c: "ls = map (\<lambda>w. dv_str env (dv_lookup env w)) vs @ tail" "length tail \<le> 1"
    "successively (points_to env) (?v # vs)" "distinct (butlast (?v # vs))" "0 \<le> ?n \<longrightarrow> int (length ls) \<le> ?n"
    using deref_loop_chain [OF l(1)] by (elim exE conjE) (rule that)
  have "0 < dv_max_recursion env \<longrightarrow> int (length ms) \<le> dv_max_recursion env + 1" using c(5) ms by auto
  then show ?thesis using c(1-4) ms by blast
qed

definition demo_deref :: deref_env where
  "demo_deref = \<lparr>dv_dis = \<lparr>de_target = demo_target\<lparr>t_mem := \<lambda>a. if 0x1000 \<le> a \<and> a < 0x1008
       then Some (if a = 0x1001 then 0x18 else 0) else None\<rparr>,
       de_dis = \<lambda>_ _ _. Inr [], de_symbol = \<lambda>_. Inr [], de_length = None\<rparr>,
     dv_maps = [new_sect\<lparr>page_start := 0x1000, page_end := 0x2000\<rparr>], dv_infos = [], dv_decode = \<lambda>_. None,
     dv_theme = \<lambda>_. [], dv_no_color = True, dv_max_recursion = 7, dv_registers = []\<rparr>"

lemma demo_deref_result:
  "dereference_from demo_deref 0x1000
     = Inr [format_address (dv_target demo_deref) 0x1000, dv_str demo_deref (dv_lookup demo_deref 0x1800), dv_str demo_deref (dv_lookup demo_deref 0x1800)]"
proof -
  have t: "\<not> is_in_x86_kernel (dv_target demo_deref) a" for a
    by (rule kernel_test_false) (simp add: demo_deref_def demo_target_def)
  have s: "a_section (dv_lookup demo_deref a) = (if 0x1000 \<le> a \<and> a < 0x2000 then Some (hd (dv_maps demo_deref)) else None)" for a
    using t by (simp add: dv_lookup_def lookup_address_def process_lookup_address_def) (simp add: demo_deref_def demo_target_def)
  have v: "address_dereference (dv_target demo_deref) (dv_lookup demo_deref a) = dereference (dv_target demo_deref) (a mod 2 ^ 64)" for a
    by (simp add: address_dereference_def dv_lookup_def lookup_address_def align_address_mod) (simp add: demo_deref_def demo_target_def)
  have "dereference (dv_target demo_deref) 0x1000 = Some 0x1800"
    by code_simp
  moreover have "dereference (dv_target demo_deref) 0x1800 = None"
    by (simp add: dereference_def demo_deref_def demo_target_def mem_read_def numeral_eq_Suc)
  moreover have "addr_valid (dv_maps demo_deref) 0x1800" by (simp add: demo_deref_def addr_valid_def)
  ultimately have "deref_loop demo_deref 7 [] 0x1000
      = Inr [dv_str demo_deref (dv_lookup demo_deref 0x1800), dv_str demo_deref (dv_lookup demo_deref 0x1800)]"
    by (simp add: deref_loop.simps s v)
  moreover have "t_alive (dv_target demo_deref)" "dv_max_recursion demo_deref = 7" "t_ptrsize (dv_target demo_deref) = 8"
    by (simp_all add: demo_deref_def demo_target_def)
  ultimately show ?thesis by (simp add: dereference_from_def align_address_mod)
qed

theorem dereference_follows_chain_witness:
  "\<exists>vs tail. dereference_from demo_deref 0x1000 = Inr (format_address (dv_target demo_deref) 0x1000
     # map (\<lambda>w. dv_str demo_deref (dv_lookup demo_deref w)) vs @ tail) \<and> length tail \<le> 1"
proof -
  have a: "t_alive (dv_target demo_deref)" by (simp add: demo_deref_def demo_target_def)
  from dereference_follows_chain [OF a demo_deref_result] demo_deref_result show ?thesis by auto
qed

text \<open>Fact: the pages of the \<^verbatim>\<open>dereference\<close> command tile memory: the r-th repetition shows each index of
  its block of \<^verbatim>\<open>nb\<close> entries exactly once, upwards or, when the stack grows down, downwards.\<close>
theorem deref_pages_tile:
  assumes "nb \<noteq> 0"
  shows "set (deref_indices g nb r) = (if nb > 0 then {r * nb ..< (r + 1) * nb} else {(r + 1) * nb <.. r * nb})
    \<and> (if g then sorted_wrt (>) (deref_indices g nb r) else sorted_wrt (<) (deref_indices g nb r))
    \<and> int (length (deref_indices g nb r)) = \<bar>nb\<bar>"
proof -
  have up: "set (map (\<lambda>k. a + int k) [0..<n]) = {a ..< a + int n}" for a n
    by (auto simp: image_iff intro!: bexI [of _ "nat (_ - a)"])
  have down: "set (map (\<lambda>k. a - int k) [0..<n]) = {a - int n <.. a}" for a n
    by (auto simp: image_iff intro!: bexI [of _ "nat (a - _)"])
  have mono: "sorted_wrt (<) (map (\<lambda>k. a + int k) [0..<n])" "sorted_wrt (>) (map (\<lambda>k. a - int k) [0..<n])" for a n
    by (simp_all add: sorted_wrt_map sorted_wrt_iff_nth_less)
  define lo where "lo = (if nb > 0 then r * nb else (r + 1) * nb + 1)"
  have e: "deref_indices g nb r = (if g then map (\<lambda>k. lo + \<bar>nb\<bar> - 1 - int k) [0..<nat \<bar>nb\<bar>]
      else map (\<lambda>k. lo + int k) [0..<nat \<bar>nb\<bar>])"
    using assms by (auto simp: deref_indices_def deref_range_def lo_def algebra_simps)
  have "set (deref_indices g nb r) = {lo ..< lo + \<bar>nb\<bar>}"
    unfolding e using up [of lo "nat \<bar>nb\<bar>"] down [of "lo + \<bar>nb\<bar> - 1" "nat \<bar>nb\<bar>"] by auto
  also have "\<dots> = (if nb > 0 then {r * nb ..< (r + 1) * nb} else {(r + 1) * nb <.. r * nb})"
    using assms by (auto simp: lo_def algebra_simps)
  finally show ?thesis unfolding e using mono by simp
qed

theorem deref_pages_tile_witness:
  "set (deref_indices True 4 2) = {8 ..< 12} \<and> sorted_wrt (>) (deref_indices True 4 2)"
  using deref_pages_tile [of 4 True 2] by simp

end
