(* ===== verification/Cyclic.thy ===== *)
theory Cyclic
  imports DeBruijn Deref Search
begin

text \<open>
  The cyclic patterns: \<^verbatim>\<open>de_bruijn\<close>, \<^verbatim>\<open>generate_cyclic_pattern\<close> and the commands \<^verbatim>\<open>pattern create\<close> and
  \<^verbatim>\<open>pattern search\<close>, with the proof that no word of the period's length occurs twice in a pattern.
\<close>

section \<open>The generator\<close>

text \<open>\<^verbatim>\<open>db(t, p)\<close> with \<^verbatim>\<open>r = n + 1 - t\<close> positions left, over the array the closure shares: what it
  yields and the array it leaves\<close>
primrec db :: "nat \<Rightarrow> nat \<Rightarrow> nat \<Rightarrow> nat \<Rightarrow> nat list \<Rightarrow> nat list \<times> nat list" where
  "db k n 0 p a = (if n mod p = 0 then map (\<lambda>j. a ! j) [1..<p + 1] else [], a)"
| "db k n (Suc r) p a =
     (let t = n - r; a0 = a[t := a ! (t - p)]; (out, a1) = db k n r p a0 in
      fold (\<lambda>j (out, a). let (o1, a') = db k n r t (a[t := j]) in (out @ o1, a'))
        [a1 ! (t - p) + 1..<k] (out, a1))"

definition de_bruijn :: "byte list \<Rightarrow> nat \<Rightarrow> byte list" where
  "de_bruijn alphabet n =
     (let k = length alphabet in map (\<lambda>i. alphabet ! i) (fst (db k n n 1 (replicate (k * n) 0))))"

definition charset :: "byte list" where
  "charset = gef_pybytes ''abcdefghijklmnopqrstuvwxyz''"

text \<open>The slice of the generator: a negative length is refused; with a period below 1 the first
  element already indexes past the array\<close>
definition generate_cyclic_pattern :: "int \<Rightarrow> int \<Rightarrow> byte list result" where
  "generate_cyclic_pattern len cycle =
     (if len < 0 then raise ValueError ''Stop argument for islice() must be None or an integer: 0 <= x <= sys.maxsize.''
      else if len = 0 then Inr []
      else if cycle \<le> 0 then raise IndexError ''list index out of range''
      else Inr (take (nat len) (de_bruijn charset (nat cycle))))"

section \<open>The commands\<close>

text \<open>\<^verbatim>\<open>gef_convenience\<close> of a text: the variable's name, the command GDB runs, and the next index\<close>
definition gef_convenience_str :: "string \<Rightarrow> int \<Rightarrow> string \<times> string \<times> int" where
  "gef_convenience_str val index =
     (let name = ''$_gef'' @ decs index in
      (name, ''set '' @ name @ '' = '' @ [CHR 0x22] @ val @ [CHR 0x22, CHR '' ''], index + 1))"

text \<open>\<^verbatim>\<open>pattern create\<close>: the lines printed, the command run and the next index\<close>
definition pattern_create ::
  "bool \<Rightarrow> int \<Rightarrow> int \<Rightarrow> int \<Rightarrow> int \<Rightarrow> int \<Rightarrow> (string list \<times> string \<times> int) result" where
  "pattern_create nc default_length ptrsize len0 n0 index =
     (let len = (if len0 = 0 then default_length else len0); n = (if n0 = 0 then ptrsize else n0) in
      bindE (generate_cyclic_pattern len n) (\<lambda>pat.
        let txt = gef_pystring pat; (name, cmd, index') = gef_convenience_str txt index in
        Inr ([info_line nc (''Generating a pattern of '' @ decs len @ '' bytes (n='' @ decs n @ '')''), txt,
              ok_line nc (''Saved as '' @ [CHR 0x27] @ name @ [CHR 0x27])], cmd, index')))"

text \<open>\<^verbatim>\<open>b.find(p)\<close>, with None for -1\<close>
fun bytes_find :: "byte list \<Rightarrow> byte list \<Rightarrow> nat option" where
  "bytes_find p [] = (if p = [] then Some 0 else None)"
| "bytes_find p (b # bs) =
     (if take (length p) (b # bs) = p then Some 0 else map_option Suc (bytes_find p bs))"

definition bytes_hex :: "byte list \<Rightarrow> string" where
  "bytes_hex bs = concat (map (\<lambda>b. fmt_x0 2 (uint b)) bs)"

text \<open>\<^verbatim>\<open>safe_parse_and_eval\<close>, then \<^verbatim>\<open>if symbol\<close>: an error of GDB or a zero counts as no symbol\<close>
definition pattern_symbol :: "target \<Rightarrow> string \<Rightarrow> int option result" where
  "pattern_symbol t pattern =
     (case t_eval t pattern of
        Inl e \<Rightarrow> if exn_cls e = GdbError \<or> exn_cls e = GdbMemoryError then Inr None else Inl e
      | Inr v \<Rightarrow> Inr (if v = 0 then None else Some v))"

definition to_unsigned_long :: "target \<Rightarrow> int \<Rightarrow> int" where
  "to_unsigned_long t v = v AND (push_bit (t_ptrsize t * 8) 1 - 1)"

text \<open>The two byte strings looked for, little-endian first\<close>
definition pattern_bytes :: "target \<Rightarrow> string \<Rightarrow> nat \<Rightarrow> (byte list \<times> byte list) result" where
  "pattern_bytes t pattern period =
     bindE (pattern_symbol t pattern) (\<lambda>sym.
       Inr (case sym of
         Some v \<Rightarrow>
           (let addr = to_unsigned_long t v;
                addr = (case dereference t addr of Some d \<Rightarrow> if d \<noteq> 0 then to_unsigned_long t d else addr | None \<Rightarrow> addr);
                addr = addr AND (push_bit (8 * period) 1 - 1)
            in (le_bytes period addr, rev (le_bytes period addr)))
       | None \<Rightarrow> (gef_pybytes (rev pattern), gef_pybytes pattern)))"

definition found_line :: "bool \<Rightarrow> nat \<Rightarrow> string \<Rightarrow> string \<Rightarrow> string" where
  "found_line nc off kind likely = ok_line nc (''Found at offset '' @ decs (int off) @ '' ('' @ kind @ '' search) '' @ likely)"

definition pattern_search :: "bool \<Rightarrow> target \<Rightarrow> string \<Rightarrow> int \<Rightarrow> nat \<Rightarrow> string list result" where
  "pattern_search nc t pattern size0 period =
     bindE (pattern_bytes t pattern period) (\<lambda>(le, be).
     bindE (generate_cyclic_pattern size0 (int period)) (\<lambda>pat.
       let head = info_line nc (''Searching for '' @ [CHR 0x27] @ bytes_hex le @ [CHR 0x27] @ ''/'' @ [CHR 0x27]
                    @ bytes_hex be @ [CHR 0x27] @ '' with period='' @ decs (int period)) in
       Inr (case bytes_find le pat of
         Some off \<Rightarrow> [head, found_line nc off ''little-endian''
            (if t_endian t = LITTLE_ENDIAN then colorify nc ''likely'' ''bold red'' else [])]
       | None \<Rightarrow>
           (case bytes_find be pat of
              Some off \<Rightarrow> [head, found_line nc off ''big-endian''
                (if t_endian t = BIG_ENDIAN then colorify nc ''likely'' ''bold green'' else [])]
            | None \<Rightarrow> [head, err_line nc (''Pattern '' @ [CHR 0x27] @ pattern @ [CHR 0x27] @ '' not found'')]))))"

definition pattern_search_cmd :: "bool \<Rightarrow> int \<Rightarrow> target \<Rightarrow> string \<Rightarrow> int \<Rightarrow> int \<Rightarrow> string list result" where
  "pattern_search_cmd nc default_length t pattern max_length0 period0 =
     (if \<not> t_alive t then Inr [warn_line nc ''No debugging session active'']
      else if pattern = [] then Inr [warn_line nc ''No pattern provided'']
      else let max_length = (if max_length0 = 0 then default_length else max_length0);
               n = (if period0 = 0 then int (t_ptrsize t) else period0)
           in if n \<notin> {2, 4, 8} \<or> n > int (t_ptrsize t) then Inr [err_line nc ''Incorrect value for period'']
              else pattern_search nc t pattern max_length (nat n))"

section \<open>The words the generator visits\<close>

text \<open>The words of length n reached from the prefix w, with the length of the repeated part\<close>
primrec visit :: "nat \<Rightarrow> nat \<Rightarrow> nat \<Rightarrow> nat list \<Rightarrow> nat \<Rightarrow> (nat list \<times> nat) list" where
  "visit k n 0 w p = (if n mod p = 0 then [(w, p)] else [])"
| "visit k n (Suc r) w p =
     (let c = (0 # w) ! (length w + 1 - p) in
      visit k n r (w @ [c]) p @ concat (map (\<lambda>j. visit k n r (w @ [j]) (length w + 1)) [c + 1..<k]))"

definition started :: "nat list \<Rightarrow> nat \<Rightarrow> bool" where
  "started w p \<longleftrightarrow> repeats (nth w) (length w) p \<or> w = [] \<and> p = 1"

lemma started_bounds: "started w p \<Longrightarrow> 1 \<le> p \<and> p \<le> length w + 1 \<and> (w \<noteq> [] \<longrightarrow> p \<le> length w)"
  by (auto simp: started_def repeats_def)

lemma nth_append_same: "same_on (length w) (nth w) (nth (w @ u))"
  by (simp add: same_on_def nth_append)

lemma started_same:
  assumes "started w p"
  shows "started (w @ [(0 # w) ! (length w + 1 - p)]) p"
proof (cases "w = []")
  case False
  let ?v = "w @ [(0 # w) ! (length w + 1 - p)]"
  have r: "repeats (nth w) (length w) p" using assms False by (simp add: started_def)
  then have p: "1 \<le> p" "p \<le> length w" by (simp_all add: repeats_def)
  have "repeats (nth ?v) (length w) p" using repeats_cong [OF r nth_append_same] .
  moreover have "?v ! length w = ?v ! (length w - p)"
    using p False by (simp add: nth_append nth_Cons' Suc_diff_le)
  ultimately have "repeats (nth ?v) (Suc (length w)) p" by (rule repeats_same)
  then show ?thesis by (simp add: started_def)
qed (use assms in \<open>auto simp: started_def repeats_def\<close>)

lemma started_larger:
  assumes "started w p" "(0 # w) ! (length w + 1 - p) < j"
  shows "started (w @ [j]) (length w + 1)"
proof (cases "w = []")
  case False
  let ?v = "w @ [j]"
  have r: "repeats (nth w) (length w) p" using assms False by (simp add: started_def)
  then have p: "1 \<le> p" "p \<le> length w" by (simp_all add: repeats_def)
  have "repeats (nth ?v) (length w) p" using repeats_cong [OF r nth_append_same] .
  moreover have "?v ! (length w - p) < ?v ! length w"
    using assms(2) p False by (simp add: nth_append nth_Cons' Suc_diff_le)
  ultimately have "repeats (nth ?v) (Suc (length w)) (Suc (length w))" by (rule repeats_larger)
  then show ?thesis by (simp add: started_def)
qed (auto simp: started_def repeats_def)

lemma visit_prefix: "(v, q) \<in> set (visit k n r w p) \<Longrightarrow> take (length w) v = w"
proof (induction r arbitrary: w p)
  case (Suc r)
  then obtain x p' where "(v, q) \<in> set (visit k n r (w @ [x]) p')" by (auto simp: Let_def)
  then have "take (length w + 1) v = w @ [x]" using Suc.IH by fastforce
  then show ?case by (metis append_eq_conv_conj length_append_singleton take_add Suc_eq_plus1 append_same_eq take_take min.absorb1 le_add1)
qed (auto split: if_splits)

lemma visit_sound:
  assumes "0 < n"
  shows "started w p \<Longrightarrow> set w \<subseteq> {..<k} \<Longrightarrow> 0 < k \<Longrightarrow> length w + r = n \<Longrightarrow> (v, q) \<in> set (visit k n r w p) \<Longrightarrow>
    length v = n \<and> set v \<subseteq> {..<k} \<and> repeats (nth v) n q \<and> q dvd n"
proof (induction r arbitrary: w p)
  case 0
  then show ?case using assms by (auto simp: started_def split: if_splits)
next
  case (Suc r)
  let ?c = "(0 # w) ! (length w + 1 - p)"
  have "?c \<in> set (0 # w)" using started_bounds [OF Suc.prems(1)] by (intro nth_mem) simp
  then have c: "?c < k" using Suc.prems(2,3) by auto
  from Suc.prems(5) consider "(v, q) \<in> set (visit k n r (w @ [?c]) p)"
    | j where "?c < j" "j < k" "(v, q) \<in> set (visit k n r (w @ [j]) (length w + 1))"
    by (auto simp: Let_def Suc_le_eq)
  then show ?case
  proof cases
    case 1
    show ?thesis by (rule Suc.IH [OF started_same [OF Suc.prems(1)] _ Suc.prems(3) _ 1]) (use Suc.prems c in auto)
  next
    case 2
    show ?thesis by (rule Suc.IH [OF started_larger [OF Suc.prems(1) 2(1)] _ Suc.prems(3) _ 2(3)]) (use Suc.prems 2(2) in auto)
  qed
qed

lemma take_snoc: "take (length w) v = w \<Longrightarrow> length w < length v \<Longrightarrow> take (length (w @ [v ! length w])) v = w @ [v ! length w]"
  by (simp add: take_Suc_conv_app_nth)

lemma visit_complete:
  assumes "0 < n" "length v = n" "set v \<subseteq> {..<k}" "necklace n (cyc v)"
  shows "started w p \<Longrightarrow> length w + r = n \<Longrightarrow> take (length w) v = w \<Longrightarrow> \<exists>q. (v, q) \<in> set (visit k n r w p)"
proof (induction r arbitrary: w p)
  case 0
  then have w: "w = v" "w \<noteq> []" using assms(1,2) by auto
  then have "repeats (nth v) n p" using 0 assms(2) by (simp add: started_def)
  from repeats_cong [OF this cyc_same [OF assms(2)]]
  have "p dvd n" using repeats_necklace [of "cyc v" n p] cyc_periodic [OF assms(2)] assms(4) by blast
  then show ?case using w by (intro exI [of _ p]) (simp add: dvd_eq_mod_eq_0)
next
  case (Suc r)
  let ?c = "(0 # w) ! (length w + 1 - p)" and ?x = "v ! length w"
  have l: "length w < length v" using Suc.prems assms(2) by simp
  note t = take_snoc [OF Suc.prems(3) l]
  have xk: "?x < k" using assms(3) l nth_mem by blast
  show ?case
  proof (cases "?x = ?c")
    case True
    have "\<exists>q. (v, q) \<in> set (visit k n r (w @ [?c]) p)"
      by (rule Suc.IH [OF started_same [OF Suc.prems(1)]]) (use Suc.prems t True in auto)
    then show ?thesis by (auto simp: Let_def)
  next
    case ne: False
    show ?thesis
    proof (cases "?c < ?x")
      case True
      have "\<exists>q. (v, q) \<in> set (visit k n r (w @ [?x]) (length w + 1))"
        by (rule Suc.IH [OF started_larger [OF Suc.prems(1) True]]) (use Suc.prems t in auto)
      then obtain q where "(v, q) \<in> set (visit k n r (w @ [?x]) (length w + 1))" by blast
      moreover have "?x \<in> set [?c + 1..<k]" using True xk by simp
      ultimately have "(v, q) \<in> set (visit k n (Suc r) w p)" unfolding visit.simps Let_def by auto
      then show ?thesis by blast
    next
      case False
      then have lt: "?x < ?c" using ne by simp
      then have w: "w \<noteq> []" using started_bounds [OF Suc.prems(1)] by (cases w) auto
      then have r: "repeats (nth w) (length w) p" using Suc.prems(1) by (simp add: started_def)
      then have p: "1 \<le> p" "p \<le> length w" by (simp_all add: repeats_def)
      have sw: "same_on (length w) (nth w) (nth v)"
        unfolding same_on_def using Suc.prems(3) by (metis nth_take)
      have "same_on (length w) (nth w) (cyc v)" using sw cyc_same [OF assms(2)] l assms(2) by (simp add: same_on_def)
      note rc = repeats_cong [OF r this]
      have "cyc v (length w) < cyc v (length w - p)"
        using lt p l sw w by (simp add: cyc_def nth_Cons' same_on_def Suc_diff_le)
      from repeats_smaller [OF rc this _ assms(4)] show ?thesis using l assms(2) by simp
    qed
  qed
qed

lemma visit_below:
  assumes "(u, q) \<in> set (visit k n r (w @ [x]) p)" "(v, q') \<in> set (visit k n r (w @ [y]) p')" "x < y" "length w < n"
  shows "less_on n (nth u) (nth v)"
proof -
  have u: "take (length w + 1) u = w @ [x]" "take (length w + 1) v = w @ [y]"
    using visit_prefix [OF assms(1)] visit_prefix [OF assms(2)] by simp_all
  have "nth u i = nth (w @ [x]) i" "nth v i = nth (w @ [y]) i" if "i \<le> length w" for i
    using u that by (metis Suc_eq_plus1 le_imp_less_Suc nth_take)+
  then show ?thesis using assms(3,4) by (intro less_onI [of "length w"]) (auto simp: nth_append)
qed

abbreviation visit_less :: "nat \<Rightarrow> nat list \<times> nat \<Rightarrow> nat list \<times> nat \<Rightarrow> bool" where
  "visit_less n x y \<equiv> less_on n (nth (fst x)) (nth (fst y))"

lemma sorted_concat:
  "(\<And>x. x \<in> set xs \<Longrightarrow> sorted_wrt P (f x)) \<Longrightarrow> sorted_wrt R xs \<Longrightarrow>
   (\<And>x y a b. R x y \<Longrightarrow> x \<in> set xs \<Longrightarrow> y \<in> set xs \<Longrightarrow> a \<in> set (f x) \<Longrightarrow> b \<in> set (f y) \<Longrightarrow> P a b) \<Longrightarrow>
   sorted_wrt P (concat (map f xs))"
proof (induction xs)
  case (Cons x xs)
  have "P a b" if ab: "a \<in> set (f x)" "b \<in> set (concat (map f xs))" for a b
  proof -
    obtain y where "y \<in> set xs" "b \<in> set (f y)" using ab(2) by auto
    then show ?thesis using Cons.prems(2) Cons.prems(3) [of x y a b] ab(1) by simp
  qed
  moreover have "sorted_wrt P (concat (map f xs))" by (rule Cons.IH) (use Cons.prems in auto)
  ultimately show ?case using Cons.prems(1) [of x] by (simp add: sorted_wrt_append)
qed simp

lemma visit_sorted: "length w + r = n \<Longrightarrow> sorted_wrt (visit_less n) (visit k n r w p)"
proof (induction r arbitrary: w p)
  case (Suc r)
  let ?c = "(0 # w) ! (length w + 1 - p)"
  have s: "sorted_wrt (visit_less n) (visit k n r (w @ [x]) p')" for x p' using Suc by simp
  have "sorted_wrt (visit_less n) (concat (map (\<lambda>j. visit k n r (w @ [j]) (length w + 1)) [?c + 1..<k]))"
    by (rule sorted_concat [where R = "(<)"])
      (use s Suc.prems in \<open>auto simp: strict_sorted_iff intro!: visit_below\<close>)
  then show ?case using s Suc.prems
    by (auto simp: Let_def sorted_wrt_append Suc_le_eq intro!: visit_below)
qed simp

section \<open>The array holds the prefix\<close>

lemma db_visit:
  "length w + r = n \<Longrightarrow> 0 < n \<Longrightarrow> started w p \<Longrightarrow> n < length a \<Longrightarrow> take (length w + 1) a = 0 # w \<Longrightarrow>
   \<exists>a'. db k n r p a = (roots (visit k n r w p), a') \<and> take (length w + 1) a' = 0 # w \<and> length a' = length a"
proof (induction r arbitrary: w p a)
  case 0
  then have p: "p \<le> length w" using started_bounds [OF 0(3)] by auto
  have "map (\<lambda>j. a ! j) [1..<p + 1] = take p w"
  proof (rule nth_equalityI)
    fix i assume "i < length (map (\<lambda>j. a ! j) [1..<p + 1])"
    then have i: "i < p" by (simp del: upt_Suc)
    then have "a ! (i + 1) = take (length w + 1) a ! (i + 1)" using p by (intro nth_take [symmetric]) simp
    also have "\<dots> = w ! i" unfolding 0(5) by simp
    finally have "a ! (i + 1) = w ! i" .
    then show "map (\<lambda>j. a ! j) [1..<p + 1] ! i = take p w ! i" using i p by (simp del: upt_Suc)
  qed (use p in simp)
  then show ?case using 0 by (simp del: upt_Suc)
next
  case (Suc r)
  let ?t = "length w + 1" and ?c = "(0 # w) ! (length w + 1 - p)"
  have t: "n - r = ?t" using Suc.prems(1) by simp
  have b: "1 \<le> p" "p \<le> ?t" using started_bounds [OF Suc.prems(3)] by auto
  have cc: "a1 ! (?t - p) = ?c" if "take ?t a1 = 0 # w" for a1
    using b that by (metis diff_less less_eq_Suc_le nth_take One_nat_def add_gr_0 less_numeral_extra(1))
  have upd: "take (length (w @ [x]) + 1) (a1[?t := x]) = 0 # (w @ [x])" if "take ?t a1 = 0 # w" "length a1 = length a" for a1 x
    using that Suc.prems(1,4) by (simp add: take_Suc_conv_app_nth)
  have step: "\<exists>a'. db k n r p' (a1[?t := x]) = (roots (visit k n r (w @ [x]) p'), a')
      \<and> take ?t a' = 0 # w \<and> length a' = length a"
    if st: "started (w @ [x]) p'" and a1: "take ?t a1 = 0 # w" "length a1 = length a" for x p' a1
  proof -
    have "\<exists>a'. db k n r p' (a1[?t := x]) = (roots (visit k n r (w @ [x]) p'), a')
      \<and> take (length (w @ [x]) + 1) a' = 0 # (w @ [x]) \<and> length a' = length (a1[?t := x])"
      by (rule Suc.IH [OF _ Suc.prems(2) st _ upd [OF a1]]) (use Suc.prems a1 in auto)
    then obtain a' where a': "db k n r p' (a1[?t := x]) = (roots (visit k n r (w @ [x]) p'), a')"
      "take (length (w @ [x]) + 1) a' = 0 # (w @ [x])" "length a' = length a" using a1 by auto
    have "take ?t a' = take ?t (take (length (w @ [x]) + 1) a')" by simp
    also have "\<dots> = 0 # w" unfolding a'(2) by simp
    finally show ?thesis using a' by blast
  qed
  let ?f = "\<lambda>j (out, a). let (o1, a') = db k n r ?t (a[?t := j]) in (out @ o1, a')"
  have loop: "\<exists>a'. fold ?f js (out, a1) = (out @ roots (concat (map (\<lambda>j. visit k n r (w @ [j]) ?t) js)), a')
      \<and> take ?t a' = 0 # w \<and> length a' = length a"
    if "\<forall>j \<in> set js. ?c < j" "take ?t a1 = 0 # w" "length a1 = length a" for js out a1
    using that
  proof (induction js arbitrary: out a1)
    case (Cons j js)
    have "started (w @ [j]) ?t" using started_larger [OF Suc.prems(3)] Cons.prems(1) by simp
    from step [OF this Cons.prems(2,3)] obtain a2 where a2: "db k n r ?t (a1[?t := j]) = (roots (visit k n r (w @ [j]) ?t), a2)"
      "take ?t a2 = 0 # w" "length a2 = length a" by blast
    from Cons.IH [OF _ a2(2,3), of "out @ roots (visit k n r (w @ [j]) ?t)"] Cons.prems(1)
    show ?case using a2(1) by simp
  qed simp
  have a0: "a[?t := a ! (?t - p)] = a[?t := ?c]" using cc [OF Suc.prems(5)] by simp
  obtain a1 where a1: "db k n r p (a[?t := ?c]) = (roots (visit k n r (w @ [?c]) p), a1)" "take ?t a1 = 0 # w" "length a1 = length a"
    using step [OF started_same [OF Suc.prems(3)] Suc.prems(5) refl] by blast
  obtain a2 where a2: "fold ?f [?c + 1..<k] (roots (visit k n r (w @ [?c]) p), a1)
      = (roots (visit k n r (w @ [?c]) p) @ roots (concat (map (\<lambda>j. visit k n r (w @ [j]) ?t) [?c + 1..<k])), a2)"
    "take ?t a2 = 0 # w" "length a2 = length a"
    using loop [OF _ a1(2,3), of "[?c + 1..<k]"] by (auto simp: Suc_le_eq)
  have "db k n (Suc r) p a = fold ?f [?c + 1..<k] (roots (visit k n r (w @ [?c]) p), a1)"
    unfolding db.simps Let_def t a0 a1(1) prod.case cc [OF a1(2)] by simp
  then show ?case using a2 by (simp add: Let_def)
qed

section \<open>The generated sequence\<close>

interpretation generated: necklace_listing "Suc (Suc k)" "Suc n" "visit (Suc (Suc k)) (Suc n) (Suc n) [] 1" for k n
proof
  have st: "started [] 1" by (simp add: started_def)
  show "length v = Suc n \<and> set v \<subseteq> {..<Suc (Suc k)} \<and> repeats (cyc v) (Suc n) q \<and> q dvd Suc n"
    if "(v, q) \<in> set (visit (Suc (Suc k)) (Suc n) (Suc n) [] 1)" for v q
  proof -
    have *: "length v = Suc n \<and> set v \<subseteq> {..<Suc (Suc k)} \<and> repeats (nth v) (Suc n) q \<and> q dvd Suc n"
      by (rule visit_sound [OF _ st _ _ _ that]) simp_all
    then show ?thesis using repeats_cong cyc_same by blast
  qed
  show "\<exists>q. (v, q) \<in> set (visit (Suc (Suc k)) (Suc n) (Suc n) [] 1)"
    if "length v = Suc n" "set v \<subseteq> {..<Suc (Suc k)}" "necklace (Suc n) (cyc v)" for v
    by (rule visit_complete [OF _ that st]) simp_all
  show "sorted_wrt (\<lambda>x y. less_on (Suc n) (cyc (fst x)) (cyc (fst y))) (visit (Suc (Suc k)) (Suc n) (Suc n) [] 1)"
  proof (rule sorted_wrt_mono_rel)
    show "sorted_wrt (visit_less (Suc n)) (visit (Suc (Suc k)) (Suc n) (Suc n) [] 1)" by (rule visit_sorted) simp
    fix x y
    assume x: "x \<in> set (visit (Suc (Suc k)) (Suc n) (Suc n) [] 1)" "y \<in> set (visit (Suc (Suc k)) (Suc n) (Suc n) [] 1)"
      and lt: "visit_less (Suc n) x y"
    have "length (fst z) = Suc n" if "z \<in> set (visit (Suc (Suc k)) (Suc n) (Suc n) [] 1)" for z
      using visit_sound [OF _ st, of "Suc n" "Suc (Suc k)" "Suc n" "fst z" "snd z"] that by simp
    then show "less_on (Suc n) (cyc (fst x)) (cyc (fst y))"
      using x lt same_on_cong [OF cyc_same cyc_same] by blast
  qed
qed simp_all

lemma de_bruijn_roots:
  assumes "length alphabet = Suc (Suc k)" "n = Suc m"
  shows "de_bruijn alphabet n = map (nth alphabet) (roots (visit (Suc (Suc k)) (Suc m) (Suc m) [] 1))"
proof -
  have "\<exists>a'. db (Suc (Suc k)) n n 1 (replicate (Suc (Suc k) * n) 0) = (roots (visit (Suc (Suc k)) n n [] 1), a')
      \<and> take (length ([] :: nat list) + 1) a' = [0] \<and> length a' = length (replicate (Suc (Suc k) * n) (0 :: nat))"
    by (rule db_visit) (use assms(2) in \<open>simp_all add: started_def\<close>)
  then obtain a' where e: "db (Suc (Suc k)) n n 1 (replicate (Suc (Suc k) * n) 0) = (roots (visit (Suc (Suc k)) n n [] 1), a')"
    by blast
  have "de_bruijn alphabet n = map (nth alphabet) (roots (visit (Suc (Suc k)) n n [] 1))"
    unfolding de_bruijn_def Let_def assms(1) e fst_conv ..
  then show ?thesis unfolding assms(2) .
qed

lemma two_more: "2 \<le> (k :: nat) \<Longrightarrow> \<exists>j. k = Suc (Suc j)"
  by presburger

lemma de_bruijn_distinct:
  assumes "distinct alphabet" "2 \<le> length alphabet" "0 < n"
    and "i + n \<le> length (de_bruijn alphabet n)" "j + n \<le> length (de_bruijn alphabet n)"
    and "take n (drop i (de_bruijn alphabet n)) = take n (drop j (de_bruijn alphabet n))"
  shows "i = j"
proof -
  obtain k where k: "length alphabet = Suc (Suc k)" using two_more assms(2) by blast
  obtain m where m: "n = Suc m" using assms(3) by (cases n) auto
  define R where "R = roots (visit (Suc (Suc k)) (Suc m) (Suc m) [] 1)"
  have d: "de_bruijn alphabet n = map (nth alphabet) R" unfolding R_def by (rule de_bruijn_roots [OF k m])
  have lt: "x < length alphabet" if "x \<in> set R" for x
    using generated.roots_letters [of x k m] that unfolding R_def k by blast
  have inj: "inj_on (nth alphabet) (set R)"
    using assms(1) lt by (auto simp: inj_on_def nth_eq_iff_index_eq)
  have "map (nth alphabet) (take n (drop i R)) = map (nth alphabet) (take n (drop j R))"
    using assms(6) by (simp add: d take_map drop_map)
  moreover have "inj_on (nth alphabet) (set (take n (drop i R)) \<union> set (take n (drop j R)))"
    by (rule inj_on_subset [OF inj]) (use set_take_subset set_drop_subset in fast)
  ultimately have "take n (drop i R) = take n (drop j R)" by (simp add: inj_on_map_eq_map)
  then have "take (Suc m) (drop i R) = take (Suc m) (drop j R)" by (simp only: m)
  moreover have "i + Suc m \<le> length R" "j + Suc m \<le> length R" using assms(4,5) d m by simp_all
  ultimately show ?thesis using generated.linear_windows_distinct [of i m k j] unfolding R_def by blast
qed

lemma de_bruijn_length: "2 \<le> length alphabet \<Longrightarrow> 0 < n \<Longrightarrow> length (de_bruijn alphabet n) = length alphabet ^ n"
proof -
  assume "2 \<le> length alphabet" "0 < n"
  then obtain k m where k: "length alphabet = Suc (Suc k)" "n = Suc m" using two_more by (metis gr0_implies_Suc)
  have "length (de_bruijn alphabet n) = length (roots (visit (Suc (Suc k)) (Suc m) (Suc m) [] 1))"
    using de_bruijn_roots [OF k] by (simp only: length_map)
  then show ?thesis unfolding generated.roots_exact k .
qed

lemma charset_facts: "length charset = 26" "distinct charset" "0 \<notin> set charset"
  by code_simp+

lemma de_bruijn_letters:
  assumes "2 \<le> length alphabet" "0 < n" "b \<in> set (de_bruijn alphabet n)"
  shows "b \<in> set alphabet"
proof -
  obtain k m where k: "length alphabet = Suc (Suc k)" "n = Suc m" using two_more assms(1,2) by (metis gr0_implies_Suc)
  obtain x where x: "x \<in> set (roots (visit (Suc (Suc k)) (Suc m) (Suc m) [] 1))" "b = alphabet ! x"
    using assms(3) unfolding de_bruijn_roots [OF k] set_map by blast
  then show ?thesis using generated.roots_letters [OF x(1)] k(1) by simp
qed

lemma generate_prefix:
  assumes "generate_cyclic_pattern len (int n) = Inr pat" "0 < n"
  shows "pat = take (nat len) (de_bruijn charset n)"
  using assms by (auto simp: generate_cyclic_pattern_def split: if_splits)

lemma window_take: "i + n \<le> length (take l xs) \<Longrightarrow> take n (drop i (take l xs)) = take n (drop i xs)"
proof -
  assume "i + n \<le> length (take l xs)"
  then have "i + n \<le> l" by simp
  then have "n \<le> l - i" by linarith
  then show ?thesis by (simp add: drop_take min_def)
qed

section \<open>Properties\<close>

text \<open>C2: in a generated pattern, whatever its length and period, no word of the period's length stands
  at two offsets.\<close>
theorem cyclic_pattern_distinct:
  assumes "generate_cyclic_pattern len (int n) = Inr pat" "0 < n" "i + n \<le> length pat" "j + n \<le> length pat"
    and "take n (drop i pat) = take n (drop j pat)"
  shows "i = j"
proof -
  have pat: "pat = take (nat len) (de_bruijn charset n)" by (rule generate_prefix [OF assms(1,2)])
  have l: "length pat \<le> length (de_bruijn charset n)" unfolding pat by simp
  show ?thesis
  proof (rule de_bruijn_distinct [OF charset_facts(2) _ assms(2)])
    show "take n (drop i (de_bruijn charset n)) = take n (drop j (de_bruijn charset n))"
      using assms(3-5) window_take unfolding pat by metis
  qed (use l assms charset_facts in auto)
qed

theorem cyclic_pattern_distinct_witness:
  "\<exists>pat. generate_cyclic_pattern 64 (int 4) = Inr pat \<and> take 4 (drop 3 pat) \<noteq> take 4 (drop 40 pat)"
proof -
  let ?pat = "take 64 (de_bruijn charset 4)"
  have g: "generate_cyclic_pattern 64 (int 4) = Inr ?pat" by (simp add: generate_cyclic_pattern_def)
  have "length ?pat = 64" using de_bruijn_length [of charset 4] charset_facts(1) by simp
  then show ?thesis using cyclic_pattern_distinct [OF g, of 3 40] g by auto
qed

text \<open>C1: the sequence of an alphabet of k distinct letters has length k to the n and, read as a cycle,
  spells every word of length n over the alphabet.\<close>
theorem de_bruijn_spells_all:
  assumes "distinct alphabet" "2 \<le> length alphabet" "0 < n"
  shows "length (de_bruijn alphabet n) = length alphabet ^ n
    \<and> (\<forall>w. length w = n \<and> set w \<subseteq> set alphabet \<longrightarrow> (\<exists>pos < length alphabet ^ n.
        w = map (\<lambda>j. de_bruijn alphabet n ! ((pos + j) mod (length alphabet ^ n))) [0..<n]))"
proof -
  obtain k m where k: "length alphabet = Suc (Suc k)" "n = Suc m" using two_more assms(2,3) by (metis gr0_implies_Suc)
  define R where "R = roots (visit (Suc (Suc k)) (Suc m) (Suc m) [] 1)"
  have d: "de_bruijn alphabet n = map (nth alphabet) R" unfolding R_def by (rule de_bruijn_roots [OF k])
  have len: "length R = length alphabet ^ n" using de_bruijn_length [OF assms(2,3)] d by simp
  have "\<exists>pos < length R. w = map (\<lambda>j. de_bruijn alphabet n ! ((pos + j) mod length R)) [0..<n]"
    if w: "length w = n" "set w \<subseteq> set alphabet" for w
  proof -
    have "\<forall>b \<in> set w. \<exists>x < length alphabet. alphabet ! x = b" using w(2) by (auto simp: in_set_conv_nth subset_iff)
    then obtain f where f: "\<And>b. b \<in> set w \<Longrightarrow> f b < length alphabet \<and> alphabet ! f b = b" by metis
    have fw: "map f w \<in> {v. set v \<subseteq> {..<Suc (Suc k)} \<and> length v = Suc m}" using f w(1) k by auto
    obtain pos where pos: "pos < length R" "map f w = map (\<lambda>j. R ! ((pos + j) mod length R)) [0..<Suc m]"
      using fw unfolding generated.windows_all [symmetric] R_def by (auto simp del: upt_Suc length_concat)
    have "w = map (nth alphabet) (map f w)" using f by (simp add: comp_def map_idI)
    also have "\<dots> = map (\<lambda>j. map (nth alphabet) R ! ((pos + j) mod length R)) [0..<Suc m]"
    proof -
      have "(pos + j) mod length R < length R" for j using pos(1) by (intro mod_less_divisor) linarith
      then show ?thesis unfolding pos(2) by (simp del: upt_Suc)
    qed
    finally have "w = map (\<lambda>j. de_bruijn alphabet n ! ((pos + j) mod length R)) [0..<n]"
      by (simp only: d [symmetric] k(2) [symmetric])
    then show ?thesis using pos(1) by blast
  qed
  then show ?thesis using len de_bruijn_length [OF assms(2,3)] by (simp del: upt_Suc)
qed

theorem de_bruijn_spells_all_witness:
  "length (de_bruijn [0, 1, 7] 2) = 9 \<and> (\<exists>pos < 9. [7, 0] = map (\<lambda>j. de_bruijn [0, 1, 7] 2 ! ((pos + j) mod 9)) [0..<2])"
proof -
  have "length (de_bruijn [0, 1, 7] 2) = 9 \<and> (\<forall>w. length w = 2 \<and> set w \<subseteq> {0, 1, 7} \<longrightarrow> (\<exists>pos < 9.
        w = map (\<lambda>j. de_bruijn [0, 1, 7] 2 ! ((pos + j) mod 9)) [0..<2]))"
  proof -
    have "length [0, 1, 7 :: byte] ^ 2 = 9" "set [0, 1, 7 :: byte] = {0, 1, 7}" by (simp_all add: power2_eq_square)
    then show ?thesis using de_bruijn_spells_all [of "[0, 1, 7]" 2] by (simp only:) simp
  qed
  then have "length (de_bruijn [0, 1, 7] 2) = 9" "\<exists>pos < 9. [7, 0] = map (\<lambda>j. de_bruijn [0, 1, 7] 2 ! ((pos + j) mod 9)) [0..<2]"
    by auto
  then show ?thesis ..
qed

lemma bytes_find_first:
  "take (length p) (drop i bs) = p \<Longrightarrow>
   \<exists>j \<le> i. bytes_find p bs = Some j \<and> take (length p) (drop j bs) = p"
proof (induction bs arbitrary: i)
  case (Cons b bs)
  show ?case
  proof (cases "take (length p) (b # bs) = p")
    case False
    then obtain i' where i': "i = Suc i'" using Cons.prems by (cases i) auto
    then obtain j where "j \<le> i'" "bytes_find p bs = Some j" "take (length p) (drop j bs) = p"
      using Cons.IH [of i'] Cons.prems by auto
    then show ?thesis using False i' by (intro exI [of _ "Suc j"]) auto
  qed auto
qed auto

lemma bytes_find_window:
  assumes "generate_cyclic_pattern len (int n) = Inr pat" "0 < n" "i + n \<le> length pat"
  shows "bytes_find (take n (drop i pat)) pat = Some i"
proof -
  let ?p = "take n (drop i pat)"
  have l: "length ?p = n" using assms(3) by simp
  obtain j where j: "j \<le> i" "bytes_find ?p pat = Some j" "take n (drop j pat) = ?p"
    using bytes_find_first [of ?p i pat] unfolding l by blast
  have jn: "j + n \<le> length pat" using j(1) assms(3) by simp
  note pat = generate_prefix [OF assms(1,2)]
  have "j = i"
  proof (rule de_bruijn_distinct [OF charset_facts(2) _ assms(2)])
    show "take n (drop j (de_bruijn charset n)) = take n (drop i (de_bruijn charset n))"
      using j(3) assms(3) jn window_take unfolding pat by metis
    have "length pat \<le> length (de_bruijn charset n)" unfolding pat by simp
    then show "j + n \<le> length (de_bruijn charset n)" "i + n \<le> length (de_bruijn charset n)" using jn assms(3) by linarith+
  qed (simp add: charset_facts)
  then show ?thesis using j(2) by simp
qed

lemma to_unsigned_long_mod: "to_unsigned_long t v = v mod 2 ^ (8 * t_ptrsize t)"
  by (simp add: to_unsigned_long_def push_bit_eq_mult and_mask_mod mult.commute)

text \<open>C3: a register that holds, as a little-endian number, the bytes of a generated pattern at some offset
  and that points nowhere is found at exactly that offset.\<close>
theorem pattern_search_finds:
  assumes "generate_cyclic_pattern len (int n) = Inr pat" "0 < n" "n \<le> t_ptrsize t" "i + n \<le> length pat"
    and "t_eval t reg = Inr v" "v mod 2 ^ (8 * n) = le_val (take n (drop i pat))" "v \<noteq> 0"
    and "dereference t (to_unsigned_long t v) = None"
  shows "\<exists>head likely. pattern_search nc t reg len n = Inr [head, found_line nc i ''little-endian'' likely]"
proof -
  let ?w = "take n (drop i pat)"
  have l: "length ?w = n" using assms(4) by simp
  have "(2 :: int) ^ (8 * n) dvd 2 ^ (8 * t_ptrsize t)" using assms(3) by (simp add: le_imp_power_dvd)
  then have "to_unsigned_long t v AND (push_bit (8 * n) 1 - 1) = v mod 2 ^ (8 * n)"
    by (simp add: to_unsigned_long_mod push_bit_eq_mult and_mask_mod mod_mod_cancel)
  then have "le_bytes n (to_unsigned_long t v AND (push_bit (8 * n) 1 - 1)) = ?w"
    using le_bytes_le_val [of ?w] assms(6) l by simp
  then have "pattern_bytes t reg n = Inr (?w, rev ?w)"
    using assms(5,7,8) by (simp add: pattern_bytes_def pattern_symbol_def)
  then show ?thesis
    using bytes_find_window [OF assms(1,2,4)] assms(1) by (auto simp: pattern_search_def)
qed

definition demo_register :: "int \<Rightarrow> target" where
  "demo_register v = demo_target\<lparr>t_eval := \<lambda>_. Inr v, t_mem := \<lambda>_. None\<rparr>"

theorem pattern_search_finds_witness:
  "\<exists>v head likely. pattern_search True (demo_register v) ''$pc'' 64 4 = Inr [head, found_line True 40 ''little-endian'' likely]"
proof -
  let ?pat = "take 64 (de_bruijn charset 4)"
  have g: "generate_cyclic_pattern 64 (int 4) = Inr ?pat" by (simp add: generate_cyclic_pattern_def)
  have l: "length ?pat = 64" using de_bruijn_length [of charset 4] charset_facts(1) by simp
  let ?w = "take 4 (drop 40 ?pat)"
  have lw: "length ?w = 4" using l by simp
  define v where "v = le_val ?w"
  have b: "0 \<le> v" "v < 2 ^ 32" using le_val_bounds [of ?w] lw by (simp_all add: v_def)
  have "?w \<noteq> []" using lw by auto
  then obtain c ws where c: "?w = c # ws" by (cases ?w) auto
  then have "c \<in> set ?w" by simp
  then have "c \<in> set (de_bruijn charset 4)" by (meson in_set_takeD in_set_dropD)
  then have "c \<noteq> 0" using de_bruijn_letters [of charset 4 c] charset_facts by auto
  then have "0 < uint c" using uint_lt2p [of c] by (metis uint_0_iff order_less_le uint_ge_0)
  then have v0: "v \<noteq> 0" using le_val_bounds [of ws] unfolding v_def c by simp
  have "dereference (demo_register v) (to_unsigned_long (demo_register v) v) = None"
    by (simp add: dereference_def demo_register_def demo_target_def mem_read_def numeral_eq_Suc)
  note d = this
  have pz: "t_ptrsize (demo_register v) = 8" "t_eval (demo_register v) ''$pc'' = Inr v"
    by (simp_all add: demo_register_def demo_target_def)
  have vm: "v mod 2 ^ (8 * 4) = le_val ?w" using b by (simp add: v_def)
  have "\<exists>head likely. pattern_search True (demo_register v) ''$pc'' 64 4
      = Inr [head, found_line True 40 ''little-endian'' likely]"
    by (rule pattern_search_finds [OF g _ _ _ pz(2) vm v0 d]) (use pz(1) l in simp_all)
  then show ?thesis by blast
qed

end
