(* ===== verification/HeapBins.thy ===== *)
theory HeapBins
  imports HeapManager Deref
begin

unbundle bit_operations_syntax

text \<open>
  The commands that list the free chunks: \<^verbatim>\<open>heap bins\<close> with \<^verbatim>\<open>tcache\<close>, \<^verbatim>\<open>fast\<close>, \<^verbatim>\<open>unsorted\<close>, \<^verbatim>\<open>small\<close>
  and \<^verbatim>\<open>large\<close>.  The single linked lists of the tcache and the fast bins are walked with a set of the
  addresses already seen, so those walks always end; the double linked lists are walked until the head
  is met again, so that walk is a partial function whose value None is a command that does not return.
\<close>

section \<open>What the commands consult and change\<close>

record heap_env =
  he_g :: genv
  he_finder :: "int result"
  he_section :: "int option result"
  he_no_color :: bool
  he_theme :: "string \<Rightarrow> string"
  he_cols :: int

record heap_ui =
  hu_hm :: hm
  hu_thread :: "int option"
  hu_out :: string

text \<open>\<^verbatim>\<open>gef_print(x, end="")\<close> and \<^verbatim>\<open>gef_print(x)\<close>\<close>
definition put :: "string \<Rightarrow> (heap_ui, unit) stm" where
  "put x = modS (\<lambda>s. s\<lparr>hu_out := hu_out s @ x\<rparr>)"

definition say :: "string \<Rightarrow> (heap_ui, unit) stm" where
  "say x = put (x @ [CHR 0x0A])"

definition lift_hm :: "(hm, 'a) stm \<Rightarrow> (heap_ui, 'a) stm" where
  "lift_hm m s = (case m (hu_hm s) of (r, h) \<Rightarrow> (r, s\<lparr>hu_hm := h\<rparr>))"

definition liftE :: "'a result \<Rightarrow> ('s, 'a) stm" where
  "liftE r s = (r, s)"

definition pure_hm :: "(hm \<Rightarrow> 'a \<times> hm) \<Rightarrow> (heap_ui, 'a) stm" where
  "pure_hm f = lift_hm (\<lambda>h. case f h of (x, h') \<Rightarrow> (Inr x, h'))"

definition he_title :: "heap_env \<Rightarrow> string \<Rightarrow> string" where
  "he_title e txt = titlify (he_no_color e) (he_theme e) (he_cols e) txt None None"

text \<open>\<^verbatim>\<open>only_if_gdb_running\<close>\<close>
definition if_running :: "heap_env \<Rightarrow> (heap_ui, unit) stm \<Rightarrow> (heap_ui, unit) stm" where
  "if_running e m =
     (if t_alive (g_target (he_g e)) then m else say (warn_line (he_no_color e) ''No debugging session active''))"

section \<open>The walk over a single linked list\<close>

text \<open>The chunk after one: a tcache pointer names the data of the next chunk, a fast bin's its header\<close>
definition next_free_chunk :: "genv \<Rightarrow> bool \<Rightarrow> chunk \<Rightarrow> chunk option result" where
  "next_free_chunk g from_base c =
     bindE (fast_fd g c) (\<lambda>next_chunk.
       if next_chunk = 0 then Inr None
       else bindE (chunk_init g next_chunk from_base True) (\<lambda>d. Inr (Some d)))"

datatype walk_end = EndNull | EndLoop chunk | EndCorrupt | EndRaise py_exn

text \<open>What bounds the addresses: a pointer is at most 64 bits wide, and revealing it shifts the
  address of the chunk down\<close>
definition addr_bound :: "genv \<Rightarrow> int" where
  "addr_bound g = 2 ^ 65 + 4 * int (g_ptrsize g)"

definition walk_range :: "genv \<Rightarrow> chunk \<Rightarrow> int set" where
  "walk_range g c = {- max \<bar>data_address c\<bar> (addr_bound g) .. max \<bar>data_address c\<bar> (addr_bound g)}"

lemma xor_bound:
  assumes "0 \<le> x" "x < 2 ^ n"
  shows "\<bar>x XOR y\<bar> \<le> \<bar>y\<bar> + (2 ^ n :: int)"
proof -
  have "x XOR y = (x OR y) - (x AND y)"
    by (rule eq_diff_eq [THEN iffD2], subst disjunctive_add_eq_or) (auto simp: bit_eq_iff bit_simps)
  moreover have "(x OR y) + (x AND y) = x + y"
    using plus_and_or [of x y] by simp
  ultimately have "x XOR y = x + y - 2 * (x AND y)" by simp
  moreover have "0 \<le> x AND y" "x AND y \<le> x" using assms(1) by (simp_all add: AND_upper1)
  ultimately show ?thesis using assms by linarith
qed

lemma le_val_64:
  assumes "length bs \<le> 8"
  shows "0 \<le> le_val bs" "le_val bs < 2 ^ 64"
proof -
  have "(256 :: int) ^ length bs \<le> 256 ^ 8" using assms by (intro power_increasing) auto
  then show "le_val bs < 2 ^ 64" using le_val_bounds [of bs] by simp
qed (use le_val_bounds in blast)

lemma c_fd_64: "0 \<le> c_fd g c" "c_fd g c < 2 ^ 64"
  using field_at_nonneg le_val_64(2)
  by (simp_all add: c_fd_def c_field_def) (simp add: field_at_def malloc_chunk_t_def order_def Let_def split: option.split)

lemma read_integer_64:
  assumes "read_integer t a = Inr x"
  shows "0 \<le> x \<and> x < 2 ^ 64"
proof -
  obtain bs where bs: "length bs \<le> 8" "x = le_val bs \<or> x = le_val (rev bs)"
    using assms by (force simp: read_integer_def result_simps u32_def u64_def struct_unpack_def order_def Let_def
        split: if_splits)
  then show ?thesis using le_val_64 [of bs] le_val_64 [of "rev bs"] by auto
qed

lemma fast_fd_bound:
  assumes "fast_fd g c = Inr n"
  shows "\<bar>n\<bar> + 2 * int (g_ptrsize g) \<le> max \<bar>data_address c\<bar> (addr_bound g)"
proof -
  obtain v where v: "g_libc g = Some v"
    using assms by (auto simp: fast_fd_def assert_libc_def split: option.splits)
  show ?thesis
  proof (cases "version_ge v (2, 32)")
    case True
    then obtain x where x: "read_integer (g_target g) (data_address c) = Inr x"
        "n = x XOR drop_bit 12 (data_address c)"
      using assms v by (auto simp: fast_fd_def reveal_ptr_def assert_libc_def result_simps)
    have "\<bar>n\<bar> \<le> \<bar>drop_bit 12 (data_address c)\<bar> + 2 ^ 64"
      unfolding x(2) using read_integer_64 [OF x(1)] by (intro xor_bound) auto
    then show ?thesis unfolding addr_bound_def drop_bit_eq_div max_def by (simp split: if_split) linarith
  next
    case False
    then have "n = c_fd g c" using assms v by (simp add: fast_fd_def assert_libc_def)
    then show ?thesis using c_fd_64 [of g c] by (simp add: addr_bound_def)
  qed
qed

lemma next_free_chunk_bound:
  assumes "next_free_chunk g b c = Inr (Some d)"
  shows "\<bar>data_address d\<bar> \<le> max \<bar>data_address c\<bar> (addr_bound g)"
proof -
  obtain n where n: "fast_fd g c = Inr n" "chunk_init g n b True = Inr d"
    using assms by (auto simp: next_free_chunk_def result_simps split: if_splits)
  have "data_address d = (if b then n + 2 * int (g_ptrsize g) else n)"
    using n(2) by (auto simp: chunk_init_def Let_def result_simps)
  then show ?thesis using fast_fd_bound [OF n(1)] by (auto split: if_splits)
qed

text \<open>The loop: the chunks added to the set, and how the walk ends\<close>
function bin_walk :: "genv \<Rightarrow> bool \<Rightarrow> int list \<Rightarrow> chunk \<Rightarrow> chunk list \<times> walk_end" where
  "bin_walk g from_base seen c =
     (if data_address c \<in> set seen then ([], EndLoop c)
      else case next_free_chunk g from_base c of
        Inl e \<Rightarrow> ([c], if exn_cls e = GdbMemoryError then EndCorrupt else EndRaise e)
      | Inr None \<Rightarrow> ([c], EndNull)
      | Inr (Some d) \<Rightarrow> (let (cs, e) = bin_walk g from_base (data_address c # seen) d in (c # cs, e)))"
  by pat_completeness auto
termination
proof (relation "measure (\<lambda>(g, b, seen, c). card (walk_range g c - set seen))")
  fix g :: genv and b seen and c d :: chunk and od
  assume c: "data_address c \<notin> set seen" and n: "next_free_chunk g b c = Inr od" "od = Some d"
  have "walk_range g d \<subseteq> walk_range g c"
    using next_free_chunk_bound [of g b c d] n by (auto simp: walk_range_def)
  moreover have "data_address c \<in> walk_range g c" by (auto simp: walk_range_def)
  ultimately have "walk_range g d - set (data_address c # seen) \<subset> walk_range g c - set seen" using c by auto
  moreover have "finite (walk_range g c)" by (simp add: walk_range_def)
  ultimately show "((g, b, data_address c # seen, d), g, b, seen, c)
      \<in> measure (\<lambda>(g, b, seen, c). card (walk_range g c - set seen))"
    by (simp add: psubset_card_mono)
qed simp

declare bin_walk.simps [simp del]

text \<open>The contract of the walk: the chunks are met in the order of the pointers, none twice, and the end
  says why the walk stopped\<close>
fun stops :: "genv \<Rightarrow> bool \<Rightarrow> chunk list \<Rightarrow> int list \<Rightarrow> walk_end \<Rightarrow> bool" where
  "stops g b cs seen EndNull \<longleftrightarrow> cs \<noteq> [] \<and> next_free_chunk g b (last cs) = Inr None"
| "stops g b cs seen (EndLoop d) \<longleftrightarrow> data_address d \<in> set seen \<union> data_address ` set cs
     \<and> (cs \<noteq> [] \<longrightarrow> next_free_chunk g b (last cs) = Inr (Some d))"
| "stops g b cs seen EndCorrupt \<longleftrightarrow> cs \<noteq> [] \<and> (\<exists>m. next_free_chunk g b (last cs) = raise GdbMemoryError m)"
| "stops g b cs seen (EndRaise e) \<longleftrightarrow> cs \<noteq> [] \<and> next_free_chunk g b (last cs) = Inl e \<and> exn_cls e \<noteq> GdbMemoryError"

lemma bin_walk_contract:
  "bin_walk g b seen c = (cs, e) \<Longrightarrow>
     stops g b cs seen e \<and> distinct (map data_address cs) \<and> set (map data_address cs) \<inter> set seen = {}
     \<and> successively (\<lambda>x y. next_free_chunk g b x = Inr (Some y)) cs \<and> (cs = [] \<or> hd cs = c)
     \<and> (cs = [] \<longrightarrow> e = EndLoop c)"
proof (induction g b seen c arbitrary: cs e rule: bin_walk.induct)
  case (1 g b seen c)
  note r = "1.prems" [unfolded bin_walk.simps [of g b seen c]]
  show ?case
  proof (cases "data_address c \<in> set seen")
    case False
    show ?thesis
    proof (cases "next_free_chunk g b c")
      case (Inl x)
      then show ?thesis using r False by (cases x) (auto split: if_splits)
    next
      case (Inr od)
      show ?thesis
      proof (cases od)
        case (Some d)
        obtain ds f where ds: "bin_walk g b (data_address c # seen) d = (ds, f)" by fastforce
        then have cs: "cs = c # ds" "e = f" using r False Inr Some by auto
        note ih = "1.IH" [OF False Inr Some ds]
        show ?thesis using ih False Inr Some unfolding cs
          by (cases f; cases ds) auto
      qed (use r False Inr in auto)
    qed
  qed (use r in auto)
qed

section \<open>The tcache\<close>

abbreviation TCACHE_MAX_BINS :: int where "TCACHE_MAX_BINS \<equiv> 0x40"

record thread =
  th_num :: int
  th_eval :: "string \<Rightarrow> int result"

text \<open>After \<^verbatim>\<open>thread.switch()\<close> GDB evaluates expressions in that thread\<close>
definition on_thread :: "heap_env \<Rightarrow> thread \<Rightarrow> heap_env" where
  "on_thread e th = e\<lparr>he_g := (he_g e)\<lparr>g_target := (g_target (he_g e))\<lparr>t_eval := th_eval th\<rparr>\<rparr>\<rparr>"

definition find_tcache :: "heap_env \<Rightarrow> (heap_ui, int) stm" where
  "find_tcache e =
     (case parse_address (g_target (he_g e)) ''(void *) tcache'' of
        Inr a \<Rightarrow> retS a
      | Inl x \<Rightarrow>
          if \<not> is_gdb_error x then liftE (Inl x)
          else bindS (lift_hm (hm_base_address (he_g e) (he_section e))) (\<lambda>heap_base. case heap_base of
                 None \<Rightarrow> bindS (say (err_line (he_no_color e) ''No heap section'')) (\<lambda>_. retS 0)
               | Some b \<Rightarrow> retS (b + 0x10)))"

text \<open>The width of a count: the tcache of version 2.30 is told from its chunk's usable size\<close>
definition tcache_count_size :: "genv \<Rightarrow> chunk \<Rightarrow> int" where
  "tcache_count_size g tcache_chunk =
     (if get_usable_size g tcache_chunk < TCACHE_MAX_BINS * 2 + TCACHE_MAX_BINS * int (g_ptrsize g) then 1 else 2)"

definition tcachebin :: "heap_env \<Rightarrow> int \<Rightarrow> int \<Rightarrow> (heap_ui, chunk option \<times> int) stm" where
  "tcachebin e tcache_base i =
     (if i \<ge> TCACHE_MAX_BINS then
        bindS (say (err_line (he_no_color e) (''Incorrect index value, index value must be between 0 and ''
                    @ decs TCACHE_MAX_BINS @ ''-1, given '' @ decs i))) (\<lambda>_. retS (None, 0))
      else let g = he_g e; t = g_target g in liftE
        (bindE (chunk_init g tcache_base False True) (\<lambda>tcache_chunk.
         let n = tcache_count_size g tcache_chunk in
         bindE (if n = 1 then bindE (mem_read t (tcache_base + n * i) 1) (\<lambda>bs. Inr (uint (hd bs)))
                else bindE (mem_read t (tcache_base + n * i) 2) (u16 (t_endian t) False None)) (\<lambda>count.
         case dereference t (tcache_base + n * TCACHE_MAX_BINS + i * int (g_ptrsize g)) of
           None \<Rightarrow> Inr (None, count)
         | Some v \<Rightarrow> if v = 0 then Inr (None, count)
             else bindE (chunk_init g v False True) (\<lambda>c. Inr (Some c, count))))))"

definition loop_text :: string where "loop_text = RIGHT_ARROW @ '' [loop detected]''"

definition walk_corrupt :: "chunk list \<Rightarrow> string" where
  "walk_corrupt cs = LEFT_ARROW @ '' [Corrupted chunk at '' @ hexs (data_address (last cs)) @ '']''"

definition tcache_item :: "bool \<Rightarrow> genv \<Rightarrow> chunk \<Rightarrow> string" where
  "tcache_item nc g c = LEFT_ARROW @ '' '' @ chunk_str nc g c @ '' ''"

text \<open>The messages of one list\<close>
fun tcache_msgs :: "bool \<Rightarrow> genv \<Rightarrow> chunk list \<times> walk_end \<Rightarrow> string list result" where
  "tcache_msgs nc g (cs, EndNull) = Inr (map (tcache_item nc g) cs)"
| "tcache_msgs nc g (cs, EndLoop d) = Inr (map (tcache_item nc g) (cs @ [d]) @ [loop_text])"
| "tcache_msgs nc g (cs, EndCorrupt) = Inr (map (tcache_item nc g) cs @ [walk_corrupt cs])"
| "tcache_msgs nc g (cs, EndRaise e) = Inl e"

text \<open>\<^verbatim>\<open>chunk_size\<close>: the first usable size that is not zero\<close>
definition first_size :: "genv \<Rightarrow> chunk list \<Rightarrow> int" where
  "first_size g cs = (case filter (\<lambda>c. get_usable_size g c \<noteq> 0) cs of [] \<Rightarrow> 0 | c # _ \<Rightarrow> get_usable_size g c)"

definition tcache_entry :: "heap_env \<Rightarrow> chunk \<Rightarrow> string result" where
  "tcache_entry e c =
     (let g = he_g e; w = bin_walk g False [] c; cs = fst w in
      bindE (tcache_msgs (he_no_color e) g w) (\<lambda>msg.
      bindE (csize2tidx g (first_size g (cs @ (case snd w of EndLoop d \<Rightarrow> [d] | _ \<Rightarrow> [])))) (\<lambda>tidx.
      bindE (tidx2size g tidx) (\<lambda>size0.
        Inr (''Tcachebins[idx='' @ decs tidx @ '', size='' @ hexs size0 @ '', count='' @ decs (int (length cs)) @ '']''
             @ concat msg)))))"

fun tcache_bins :: "heap_env \<Rightarrow> int \<Rightarrow> int list \<Rightarrow> bool \<Rightarrow> (heap_ui, bool) stm" where
  "tcache_bins e base [] tcache_empty = retS tcache_empty"
| "tcache_bins e base (i # is) tcache_empty =
     bindS (tcachebin e base i) (\<lambda>(chunk, count). case chunk of
        None \<Rightarrow> tcache_bins e base is tcache_empty
      | Some c \<Rightarrow> bindS (liftE (tcache_entry e c)) (\<lambda>line. bindS (say line) (\<lambda>_. tcache_bins e base is False)))"

definition tcache_thread :: "heap_env \<Rightarrow> int list \<Rightarrow> thread \<Rightarrow> (heap_ui, unit) stm" where
  "tcache_thread e0 tids th =
     (if th_num th \<notin> set tids then retS ()
      else let e = on_thread e0 th in
        bindS (modS (\<lambda>s. s\<lparr>hu_thread := Some (th_num th)\<rparr>)) (\<lambda>_.
        bindS (find_tcache e) (\<lambda>tcache_addr.
          if tcache_addr = 0 then say (info_line (he_no_color e) (''Uninitialized tcache for thread '' @ decs (th_num th)))
          else bindS (say (he_title e (''Tcachebins for thread '' @ decs (th_num th)))) (\<lambda>_.
               bindS (tcache_bins e tcache_addr [0..TCACHE_MAX_BINS - 1] True) (\<lambda>tcache_empty.
                 if tcache_empty then say ''All tcachebins are empty'' else retS ())))))"

text \<open>\<^verbatim>\<open>check_thread_ids\<close>: the ids that exist; the set's order does not matter\<close>
definition check_thread_ids :: "thread list \<Rightarrow> int list \<Rightarrow> int list" where
  "check_thread_ids threads tids = filter (\<lambda>i. i \<in> set (map th_num threads)) (remdups tids)"

definition tcache_tids :: "thread list \<Rightarrow> int \<Rightarrow> string list \<Rightarrow> int list result" where
  "tcache_tids threads current argv =
     (if argv = [] then Inr [current]
      else if ''all'' \<in> set argv then Inr (map th_num threads)
      else bindE (mapE (py_int 10) argv) (\<lambda>is. Inr (check_thread_ids threads is)))"

definition tcache_cmd :: "heap_env \<Rightarrow> thread list \<Rightarrow> string list \<Rightarrow> (heap_ui, unit) stm" where
  "tcache_cmd e threads0 argv =
     if_running e (\<lambda>s.
       (if g_libc (he_g e) \<noteq> None \<and> \<not> libc_at_least (he_g e) (2, 26)
        then say (info_line (he_no_color e) ''No Tcache in this version of libc'')
        else case hu_thread s of
          None \<Rightarrow> say (err_line (he_no_color e) (''Couldn'' @ [CHR 0x27] @ ''t find current thread''))
        | Some current \<Rightarrow>
            let threads = sort_key th_num threads0 in
            bindS (liftE (tcache_tids threads current argv)) (\<lambda>tids.
            bindS (foldS (tcache_thread e tids) threads) (\<lambda>_.
              modS (\<lambda>s. s\<lparr>hu_thread := Some current\<rparr>)))) s)"

section \<open>Fast bins\<close>

definition fastbin_index :: "int \<Rightarrow> int \<Rightarrow> int" where
  "fastbin_index SIZE_SZ sz = (if SIZE_SZ = 8 then drop_bit 4 sz - 2 else drop_bit 3 sz - 2)"

definition nfastbins :: "int \<Rightarrow> int" where
  "nfastbins SIZE_SZ = fastbin_index SIZE_SZ (80 * SIZE_SZ div 4) - 1"

definition fast_item :: "bool \<Rightarrow> genv \<Rightarrow> int \<Rightarrow> chunk \<Rightarrow> string" where
  "fast_item nc g i c = LEFT_ARROW @ '' '' @ chunk_str nc g c @ '' ''
     @ (if fastbin_index (int (g_ptrsize g)) (c_size g c) \<noteq> i then ''[incorrect fastbin_index] '' else [])"

text \<open>What the loop prints, and the exception that leaves it\<close>
fun fast_text :: "bool \<Rightarrow> genv \<Rightarrow> int \<Rightarrow> chunk list \<times> walk_end \<Rightarrow> string \<times> unit result" where
  "fast_text nc g i (cs, EndNull) = (concat (map (fast_item nc g i) cs), Inr ())"
| "fast_text nc g i (cs, EndLoop d) =
     (concat (map (fast_item nc g i) cs) @ LEFT_ARROW @ '' '' @ chunk_str nc g d @ '' '' @ loop_text, Inr ())"
| "fast_text nc g i (cs, EndCorrupt) = (concat (map (fast_item nc g i) cs) @ walk_corrupt cs, Inr ())"
| "fast_text nc g i (cs, EndRaise e) = (concat (map (fast_item nc g i) cs), Inl e)"

definition fast_bin :: "heap_env \<Rightarrow> arena \<Rightarrow> int \<Rightarrow> (heap_ui, unit) stm" where
  "fast_bin e a i =
     (let g = he_g e in
      bindS (put (''Fastbins[idx='' @ decs i @ '', size='' @ hexs ((i + 2) * int (g_ptrsize g) * 2) @ ''] '')) (\<lambda>_.
      bindS (liftE (ar_fastbin g a i)) (\<lambda>chunk.
      bindS (case chunk of None \<Rightarrow> put ''0x00''
             | Some c \<Rightarrow> (let (txt, r) = fast_text (he_no_color e) g i (bin_walk g True [] c)
                          in bindS (put txt) (\<lambda>_. liftE r))) (\<lambda>_. say []))))"

definition fast_cmd :: "heap_env \<Rightarrow> string \<Rightarrow> (heap_ui, unit) stm" where
  "fast_cmd e arena_address =
     (let g = he_g e; nc = he_no_color e in if_running e (
      bindS (pure_hm (main_arena g (he_finder e))) (\<lambda>m.
      if m = None then say (err_line nc ''Heap not initialized'')
      else bindS (if arena_address = [] then pure_hm (selected_arena g (he_finder e))
                  else liftE (bindE (arena_init g (he_finder e) (CHR ''*'' # arena_address)) (\<lambda>a. Inr (Some a)))) (\<lambda>arena.
           case arena of None \<Rightarrow> say (err_line nc ''Invalid Glibc arena'')
           | Some a \<Rightarrow> bindS (say (he_title e (''Fastbins for arena at '' @ hexs (ar_address a)))) (\<lambda>_.
                foldS (fast_bin e a) [0..nfastbins (int (g_ptrsize g)) - 1])))))"

section \<open>Double linked bins\<close>

definition class_fd :: "genv \<Rightarrow> string \<Rightarrow> chunk \<Rightarrow> int result" where
  "class_fd g kind c = (if kind = ''tcache'' \<or> kind = ''fast'' then fast_fd g c else Inr (c_fd g c))"

definition bin_step :: "genv \<Rightarrow> string \<Rightarrow> int \<Rightarrow> (chunk \<times> int) result" where
  "bin_step g kind fd = bindE (chunk_init g fd True True) (\<lambda>c. bindE (class_fd g kind c) (\<lambda>fd'. Inr (c, fd')))"

text \<open>\<^verbatim>\<open>while fd != head\<close>: the chunks met; None when the head is never met\<close>
partial_function (option) bin_loop :: "genv \<Rightarrow> string \<Rightarrow> int \<Rightarrow> int \<Rightarrow> chunk list result option" where
  "bin_loop g kind head fd =
     (if fd = head then Some (Inr [])
      else case bin_step g kind fd of
        Inl e \<Rightarrow> Some (Inl e)
      | Inr (c, fd') \<Rightarrow>
          Option.bind (bin_loop g kind head fd') (\<lambda>r. Some (bindE r (\<lambda>cs. Inr (c # cs)))))"

text \<open>\<^verbatim>\<open>pprint_bin\<close>: the lines printed and the number of chunks, or -1\<close>
definition pprint_bin :: "heap_env \<Rightarrow> string \<Rightarrow> int \<Rightarrow> string \<Rightarrow> (string list \<times> int result) option" where
  "pprint_bin e arena_addr index kind =
     (let g = he_g e; nc = he_no_color e in
      case bindE (arena_init g (he_finder e) arena_addr) (\<lambda>a. ar_bin g a index) of
        Inl x \<Rightarrow> Some ([], Inl x)
      | Inr (fd, bk) \<Rightarrow>
          if fd = 0 \<and> bk = 0 then
            Some ([warn_line nc ''Invalid backward and forward bin pointers(fw==bk==NULL)''], Inr (- 1))
          else case bin_step g kind bk of
            Inl x \<Rightarrow> Some ([], Inl x)
          | Inr (_, head) \<Rightarrow>
              if fd = head then Some ([], Inr 0)
              else Option.bind (bin_loop g kind head fd) (\<lambda>r.
                let l = ok_line nc (kind @ ''bins['' @ decs index @ '']: fw='' @ hexs fd @ '', bk='' @ hexs bk) in
                Some (case r of
                  Inl x \<Rightarrow> ([l], Inl x)
                | Inr cs \<Rightarrow> (l # (if cs = [] then []
                      else [join ''  '' (map (\<lambda>c. RIGHT_ARROW @ ''  '' @ chunk_str nc g c) cs)]), Inr (int (length cs))))))"

text \<open>The bins of a range, up to the first invalid one: the lines, and the chunks of the non-empty bins\<close>
fun scan_bins :: "heap_env \<Rightarrow> string \<Rightarrow> string \<Rightarrow> int list \<Rightarrow> (string list \<times> (int \<times> int) list result) option" where
  "scan_bins e arena_address kind [] = Some ([], Inr [])"
| "scan_bins e arena_address kind (i # is) =
     Option.bind (pprint_bin e (CHR ''*'' # arena_address) i kind) (\<lambda>(ls, r). case r of
        Inl x \<Rightarrow> Some (ls, Inl x)
      | Inr nb_chunk \<Rightarrow>
          if nb_chunk < 0 then Some (ls, Inr [])
          else Option.bind (scan_bins e arena_address kind is) (\<lambda>(ls', r').
            Some (ls @ ls', bindE r' (\<lambda>d. Inr (if nb_chunk > 0 then (i, nb_chunk) # d else d)))))"

definition usable_arena :: "heap_env \<Rightarrow> hm \<Rightarrow> arena option \<times> hm" where
  "usable_arena e h =
     (case main_arena (he_g e) (he_finder e) h of
        (None, h1) \<Rightarrow> (None, h1)
      | (Some _, h1) \<Rightarrow> selected_arena (he_g e) (he_finder e) h1)"

text \<open>What the three commands share: \<^verbatim>\<open>body\<close> gets the text of the arena's address\<close>
definition on_arena ::
  "heap_env \<Rightarrow> string \<Rightarrow> string \<Rightarrow> (string \<Rightarrow> (string list \<times> 'a result) option) \<Rightarrow> hm
    \<Rightarrow> (string list \<times> 'a option result \<times> hm) option" where
  "on_arena e title_text arg body h =
     (let nc = he_no_color e in
      if \<not> t_alive (g_target (he_g e)) then Some ([warn_line nc ''No debugging session active''], Inr None, h)
      else case usable_arena e h of
        (None, h1) \<Rightarrow> Some ([err_line nc ''Heap not initialized''], Inr None, h1)
      | (Some a, h1) \<Rightarrow>
          (let addr = (if arg = [] then hexs (ar_address a) else arg) in
           map_option (\<lambda>(ls, r). (he_title e (title_text @ addr) # ls, bindE r (\<lambda>x. Inr (Some x)), h1)) (body addr)))"

definition finish :: "('a \<Rightarrow> string list) \<Rightarrow> string list \<times> 'a option result \<times> hm \<Rightarrow> string list \<times> unit result \<times> hm" where
  "finish report x = (case x of (ls, Inr (Some y), h) \<Rightarrow> (ls @ report y, Inr (), h)
     | (ls, Inr None, h) \<Rightarrow> (ls, Inr (), h) | (ls, Inl err, h) \<Rightarrow> (ls, Inl err, h))"

definition unsorted_cmd :: "heap_env \<Rightarrow> string \<Rightarrow> hm \<Rightarrow> (string list \<times> unit result \<times> hm) option" where
  "unsorted_cmd e arg h =
     map_option (finish (\<lambda>nb_chunk. if nb_chunk \<ge> 0
         then [info_line (he_no_color e) (''Found '' @ decs nb_chunk @ '' chunks in unsorted bin.'')] else []))
       (on_arena e ''Unsorted Bin for arena at '' arg (\<lambda>addr. pprint_bin e (CHR ''*'' # addr) 0 ''unsorted_'') h)"

definition found_chunks :: "bool \<Rightarrow> string \<Rightarrow> (int \<times> int) list \<Rightarrow> string list" where
  "found_chunks nc kind bins = [info_line nc (''Found '' @ decs (sum_list (map snd bins)) @ '' chunks in ''
     @ decs (int (length bins)) @ '' '' @ kind @ '' non-empty bins.'')]"

definition small_cmd :: "heap_env \<Rightarrow> string \<Rightarrow> hm \<Rightarrow> (string list \<times> unit result \<times> hm) option" where
  "small_cmd e arg h = map_option (finish (found_chunks (he_no_color e) ''small''))
     (on_arena e ''Small Bins for arena at '' arg (\<lambda>addr. scan_bins e addr ''small_'' [1..62]) h)"

definition large_cmd :: "heap_env \<Rightarrow> string \<Rightarrow> hm \<Rightarrow> (string list \<times> unit result \<times> hm) option" where
  "large_cmd e arg h = map_option (finish (found_chunks (he_no_color e) ''large''))
     (on_arena e ''Large Bins for arena at '' arg (\<lambda>addr. scan_bins e addr ''large_'' [63..125]) h)"

definition bin_types :: "string list" where
  "bin_types = [''tcache'', ''fast'', ''unsorted'', ''small'', ''large'']"

text \<open>\<^verbatim>\<open>heap bins\<close>: the commands it makes GDB execute, None when it prints its usage\<close>
definition bins_cmd :: "string list \<Rightarrow> string list option" where
  "bins_cmd argv =
     (if argv = [] then Some (map (\<lambda>t. ''heap bins '' @ t) bin_types)
      else if hd argv \<notin> set bin_types then None
      else Some [''heap bins '' @ hd argv])"

section \<open>Facts\<close>

lemma bin_walk_linked:
  assumes "successively (\<lambda>x y. next_free_chunk g b x = Inr (Some y)) (c # cs)"
    and "distinct (map data_address (c # cs))" "set (map data_address (c # cs)) \<inter> set seen = {}"
    and "next_free_chunk g b (last (c # cs)) = Inr None"
  shows "bin_walk g b seen c = (c # cs, EndNull)"
  using assms
proof (induction cs arbitrary: c seen)
  case Nil
  then show ?case by (simp add: bin_walk.simps)
next
  case (Cons d cs)
  have "bin_walk g b (data_address c # seen) d = (d # cs, EndNull)"
    using Cons.prems by (intro Cons.IH) auto
  then show ?case using Cons.prems by (simp add: bin_walk.simps [of g b seen c])
qed

text \<open>The pointer after a number of steps\<close>
primrec fd_after :: "genv \<Rightarrow> string \<Rightarrow> nat \<Rightarrow> int \<Rightarrow> int result" where
  "fd_after g kind 0 fd = Inr fd"
| "fd_after g kind (Suc n) fd = bindE (bin_step g kind fd) (\<lambda>(c, fd'). fd_after g kind n fd')"

lemma bin_loop_reaches:
  "fd_after g kind n fd = Inr head \<or> fd_after g kind n fd = Inl x \<Longrightarrow> bin_loop g kind head fd \<noteq> None"
proof (induction n arbitrary: fd)
  case (Suc n)
  show ?case
  proof (cases "fd = head")
    case False
    show ?thesis
    proof (cases "bin_step g kind fd")
      case (Inr p)
      then show ?thesis using Suc.IH [of "snd p"] Suc.prems False
        by (auto simp: bin_loop.simps [of g kind head fd] split: prod.splits)
    qed (use False in \<open>simp add: bin_loop.simps\<close>)
  qed (simp add: bin_loop.simps)
qed (simp add: bin_loop.simps)

lemma bin_loop_stops:
  "bin_loop g kind head fd = Some r \<Longrightarrow> \<exists>n. fd_after g kind n fd = Inr head \<or> (\<exists>x. fd_after g kind n fd = Inl x)"
proof (erule bin_loop.raw_induct [rotated])
  fix rec :: "genv \<Rightarrow> string \<Rightarrow> int \<Rightarrow> int \<Rightarrow> chunk list result option" and g kind head fd r
  let ?stops = "\<lambda>g kind head fd. \<exists>n. fd_after g kind n fd = Inr head \<or> (\<exists>x. fd_after g kind n fd = Inl x)"
  assume ih: "\<And>g kind head fd r. rec g kind head fd = Some r \<Longrightarrow> ?stops g kind head fd"
    and r: "(if fd = head then Some (Inr []) else case bin_step g kind fd of Inl e \<Rightarrow> Some (Inl e)
      | Inr (c, fd') \<Rightarrow> Option.bind (rec g kind head fd') (\<lambda>r. Some (bindE r (\<lambda>cs. Inr (c # cs))))) = Some r"
  show "?stops g kind head fd"
  proof (cases "fd = head")
    case True
    then show ?thesis by (intro exI [of _ 0]) simp
  next
    case False
    show ?thesis
    proof (cases "bin_step g kind fd")
      case (Inl x)
      then show ?thesis by (intro exI [of _ 1]) simp
    next
      case (Inr p)
      obtain c fd' where p: "p = (c, fd')" by (cases p)
      then obtain q where "rec g kind head fd' = Some q"
        using r False Inr by (auto simp: Option.bind_eq_Some_conv)
      then obtain n where n: "fd_after g kind n fd' = Inr head \<or> (\<exists>x. fd_after g kind n fd' = Inl x)"
        using ih by blast
      then show ?thesis using Inr p by (intro exI [of _ "Suc n"]) simp
    qed
  qed
qed

text \<open>A ring: the chunks met from \<^verbatim>\<open>fd\<close> up to the head\<close>
fun ring :: "genv \<Rightarrow> string \<Rightarrow> int \<Rightarrow> int \<Rightarrow> chunk list \<Rightarrow> bool" where
  "ring g kind head fd [] \<longleftrightarrow> fd = head"
| "ring g kind head fd (c # cs) \<longleftrightarrow> fd \<noteq> head
     \<and> (\<exists>fd'. bin_step g kind fd = Inr (c, fd') \<and> ring g kind head fd' cs)"

lemma bin_loop_ring: "ring g kind head fd cs \<Longrightarrow> bin_loop g kind head fd = Some (Inr cs)"
  by (induction cs arbitrary: fd) (auto simp: bin_loop.simps)

lemma bin_loop_ok_ring: "bin_loop g kind head fd = Some (Inr cs) \<Longrightarrow> ring g kind head fd cs"
proof (induction cs arbitrary: fd)
  case Nil
  then show ?case
    by (auto simp: bin_loop.simps [of g kind head fd] result_simps Option.bind_eq_Some_conv split: if_splits sum.splits prod.splits)
next
  case (Cons c cs)
  then show ?case
    by (auto simp: bin_loop.simps [of g kind head fd] result_simps Option.bind_eq_Some_conv split: if_splits sum.splits prod.splits)
qed

lemma tcache_size_index:
  assumes "malloc_alignment g = Inr al" "al = 8 \<and> g_ptrsize g = 4 \<or> al = 16 \<and> (g_ptrsize g = 4 \<or> g_ptrsize g = 8)"
  shows "csize2tidx g (i * al + min_chunk_size g - int (g_ptrsize g)) = Inr i \<or> i < 0"
proof -
  have "\<bar>i * al + al - int (g_ptrsize g) - 1\<bar> div al = i" if "0 \<le> i"
    using that assms(2) by auto
  then show ?thesis using assms(1) by (auto simp: csize2tidx_def algebra_simps)
qed

section \<open>Properties\<close>

text \<open>C11: whatever the memory holds, the walk over a tcache or fast bin list ends; the chunks it lists
  start with the head, follow the (revealed) pointers, no address comes twice, and the walk stopped for
  the reason it reports: a null pointer, a chunk already listed, an unreadable chunk, or an exception.\<close>
theorem free_list_walk_sound:
  "case bin_walk g b [] c of (cs, e) \<Rightarrow>
     cs \<noteq> [] \<and> hd cs = c \<and> distinct (map data_address cs)
     \<and> successively (\<lambda>x y. next_free_chunk g b x = Inr (Some y)) cs \<and> stops g b cs [] e"
proof -
  obtain cs e where w: "bin_walk g b [] c = (cs, e)" by fastforce
  have "cs \<noteq> []" using w by (auto simp: bin_walk.simps [of g b "[]" c] split: sum.splits option.splits prod.splits)
  then show ?thesis using bin_walk_contract [OF w] w by auto
qed

text \<open>Fact: for a null-terminated tcache list of distinct chunks whose head has the size of index i, the
  command prints the index i, the chunk size of that index and the number of chunks in the list.\<close>
theorem tcache_entry_reports:
  assumes "successively (\<lambda>x y. next_free_chunk (he_g e) False x = Inr (Some y)) (c # cs)"
    and "distinct (map data_address (c # cs))" "next_free_chunk (he_g e) False (last (c # cs)) = Inr None"
    and "malloc_alignment (he_g e) = Inr al" "0 \<le> i"
    and "al = 8 \<and> g_ptrsize (he_g e) = 4 \<or> al = 16 \<and> (g_ptrsize (he_g e) = 4 \<or> g_ptrsize (he_g e) = 8)"
    and "c_size (he_g e) c = i * al + min_chunk_size (he_g e)" "\<not> has_m_bit (he_g e) c"
  shows "tcache_entry e c = Inr (''Tcachebins[idx='' @ decs i @ '', size='' @ hexs (c_size (he_g e) c)
    @ '', count='' @ decs (int (length (c # cs))) @ '']'' @ concat (map (tcache_item (he_no_color e) (he_g e)) (c # cs)))"
proof -
  let ?g = "he_g e"
  have w: "bin_walk ?g False [] c = (c # cs, EndNull)"
    by (rule bin_walk_linked [OF assms(1,2) _ assms(3)]) simp
  have pos: "0 < i * al + min_chunk_size ?g - int (g_ptrsize ?g)"
    using assms(5,6) by (auto simp: min_chunk_size_def)
  then have u: "get_usable_size ?g c = i * al + min_chunk_size ?g - int (g_ptrsize ?g)"
    using assms(7,8) by (auto simp: get_usable_size_def Let_def)
  then have "first_size ?g (c # cs) = i * al + min_chunk_size ?g - int (g_ptrsize ?g)"
    using pos by (simp add: first_size_def)
  then have "csize2tidx ?g (first_size ?g (c # cs)) = Inr i"
    using tcache_size_index [OF assms(4,6), of i] assms(5) by simp
  moreover have "tidx2size ?g i = Inr (c_size ?g c)" using assms(4,7) by (simp add: tidx2size_def)
  ultimately show ?thesis by (simp add: tcache_entry_def w Let_def)
qed

definition demo_heap :: heap_env where
  "demo_heap = \<lparr>he_g = demo_genv\<lparr>g_target := demo_target\<lparr>t_mem := (\<lambda>a. if a = 0x1010 then Some 1
      else if 0x1000 \<le> a \<and> a < 0x2000 then Some 0 else None)\<rparr>\<rparr>,
     he_finder = raise OSError [], he_section = Inr None, he_no_color = True, he_theme = (\<lambda>_. []), he_cols = 80\<rparr>"

definition demo_free_chunk :: chunk where
  "demo_free_chunk = demo_chunk\<lparr>c_data := replicate 8 0 @ 0x21 # replicate 39 0\<rparr>"

theorem tcache_entry_reports_witness:
  "tcache_entry demo_heap demo_free_chunk = Inr (''Tcachebins[idx='' @ decs 0 @ '', size='' @ hexs 0x20
    @ '', count='' @ decs 1 @ '']'' @ tcache_item True (he_g demo_heap) demo_free_chunk)"
proof -
  have f: "next_free_chunk (he_g demo_heap) False demo_free_chunk = Inr None" by code_simp
  have c: "c_size (he_g demo_heap) demo_free_chunk = 0x20" "\<not> has_m_bit (he_g demo_heap) demo_free_chunk"
    "malloc_alignment (he_g demo_heap) = Inr 16" "g_ptrsize (he_g demo_heap) = 8" "he_no_color demo_heap"
    by code_simp+
  show ?thesis
    using tcache_entry_reports [of demo_heap demo_free_chunk "[]" 16 0] f c
    by (simp add: min_chunk_size_def)
qed


text \<open>Fact: a chunk whose pointer names itself is listed for ever.\<close>
theorem self_linked_chunk_hangs:
  assumes "bin_step g kind fd = Inr (c, fd)" "fd \<noteq> head"
  shows "bin_loop g kind head fd = None"
proof -
  have "fd_after g kind n fd = Inr fd" for n using assms(1) by (induction n) auto
  then show ?thesis using bin_loop_stops [of g kind head fd] assms(2) by (cases "bin_loop g kind head fd") auto
qed

end
