(* ===== verification/HeapCmds.thy ===== *)
theory HeapCmds
  imports HeapBins
begin

text \<open>
  The commands over whole heaps of \<^verbatim>\<open>scripts/gef.py\<close>: \<^verbatim>\<open>heap set-arena\<close>, \<^verbatim>\<open>heap arenas\<close>,
  \<^verbatim>\<open>heap chunk\<close> and \<^verbatim>\<open>heap chunks\<close> with its filters, its count limit and its summary.  Walks over
  memory that may not end (the list of arenas) take the answer of the walk, None when there is none.
\<close>

section \<open>Arenas\<close>

text \<open>\<^verbatim>\<open>arena in gef.heap.arenas\<close>: the walk stops at the first arena with the address\<close>
fun arena_member :: "genv \<Rightarrow> int result \<Rightarrow> int \<Rightarrow> nat \<Rightarrow> int \<Rightarrow> arena \<Rightarrow> bool result option" where
  "arena_member g finder main 0 addr cur = None"
| "arena_member g finder main (Suc n) addr cur =
     (if ar_address cur = addr then Some (Inr True)
      else if ar_next g cur = 0 \<or> ar_next g cur = main then Some (Inr False)
      else case arena_init g finder (CHR ''*'' # hexs (ar_next g cur) @ '' '') of
             Inl x \<Rightarrow> Some (Inl x)
           | Inr b \<Rightarrow> arena_member g finder main n addr b)"

definition in_arenas :: "genv \<Rightarrow> int result \<Rightarrow> nat \<Rightarrow> arena \<Rightarrow> hm \<Rightarrow> bool result option \<times> hm" where
  "in_arenas g finder fuel a h =
     (let (m, h') = main_arena g finder h
      in (case m of None \<Rightarrow> Some (Inr False)
          | Some x \<Rightarrow> arena_member g finder (ar_address x) fuel (ar_address a) x, h'))"

text \<open>\<^verbatim>\<open>heap set-arena\<close>; \<^verbatim>\<open>fuel\<close> bounds the walk over the arenas.  Arenas are compared by address.\<close>
definition set_arena_cmd :: "heap_env \<Rightarrow> nat \<Rightarrow> bool \<Rightarrow> string \<Rightarrow> hm \<Rightarrow> (string list \<times> unit result \<times> hm) option" where
  "set_arena_cmd e fuel reset addr h =
     (let g = he_g e; nc = he_no_color e; finder = he_finder e in
      if \<not> t_alive (g_target g) then Some ([warn_line nc ''No debugging session active''], Inr (), h)
      else if reset then Some ([], Inr (), hm_reset h)
      else if addr = [] then
        (case selected_arena g finder h of (a, h1) \<Rightarrow>
           Some ([ok_line nc (''Current arena set to: '' @ [CHR 0x27]
             @ (case a of None \<Rightarrow> ''None'' | Some x \<Rightarrow> arena_str nc g x) @ [CHR 0x27])], Inr (), h1))
      else case parse_address (g_target g) addr of
        Inl x \<Rightarrow> if is_gdb_error x then Some ([err_line nc ''Invalid symbol for arena''], Inr (), h) else Some ([], Inl x, h)
      | Inr a \<Rightarrow>
        (case arena_init g finder (CHR ''*'' # hexs a) of
          Inl x \<Rightarrow> Some ([], Inl x, h)
        | Inr new_arena \<Rightarrow>
          (case in_arenas g finder fuel new_arena h of
            (None, h1) \<Rightarrow> None
          | (Some (Inl x), h1) \<Rightarrow> Some ([], Inl x, h1)
          | (Some (Inr b), h1) \<Rightarrow>
              Some ([], Inr (), if b then set_selected_arena new_arena h1 else set_main_arena new_arena h1))))"

definition arenas_cmd :: "heap_env \<Rightarrow> nat \<Rightarrow> hm \<Rightarrow> (string list \<times> unit result \<times> hm) option" where
  "arenas_cmd e fuel h =
     (let g = he_g e; nc = he_no_color e in
      if \<not> t_alive (g_target g) then Some ([warn_line nc ''No debugging session active''], Inr (), h)
      else case arenas g (he_finder e) fuel h of
        (None, h1) \<Rightarrow> None
      | (Some (as, x), h1) \<Rightarrow>
          Some (map (arena_str nc g) as, case x of None \<Rightarrow> Inr () | Some y \<Rightarrow> Inl y, h1))"

section \<open>One chunk\<close>

fun chunk_lines :: "heap_env \<Rightarrow> nat \<Rightarrow> chunk \<Rightarrow> string list \<times> unit result" where
  "chunk_lines e 0 c = ([], Inr ())"
| "chunk_lines e (Suc n) c =
     (let g = he_g e; l = chunk_str (he_no_color e) g c in
      if c_size g c = 0 then ([], Inr ())
      else if \<not> addr_valid (g_maps g) (get_next_chunk_addr g c) then ([l], Inr ())
      else case get_next_chunk g False c of
        Inl x \<Rightarrow> ([l], Inl x)
      | Inr d \<Rightarrow> (let (ls, r) = chunk_lines e n d in (l # ls, r)))"

definition chunk_cmd :: "heap_env \<Rightarrow> string \<Rightarrow> string \<Rightarrow> bool \<Rightarrow> int \<Rightarrow> string list \<times> unit result" where
  "chunk_cmd e usage address allow_unaligned number =
     (let g = he_g e; nc = he_no_color e in
      if \<not> t_alive (g_target g) then ([warn_line nc ''No debugging session active''], Inr ())
      else if address = [] then ([err_line nc ''Missing chunk address'', err_line nc (''Syntax'' @ [CHR 0x0A] @ usage)], Inr ())
      else case bindE (parse_address (g_target g) address) (\<lambda>a. chunk_init g a False allow_unaligned) of
        Inl x \<Rightarrow> ([], Inl x)
      | Inr c \<Rightarrow>
          if number > 1 then chunk_lines e (nat number) c
          else (case psprint nc g c of Inl x \<Rightarrow> ([], Inl x) | Inr txt \<Rightarrow> ([txt], Inr ())))"

section \<open>Summaries\<close>

record chunk_summary =
  cs_desc :: string
  cs_count :: int
  cs_total :: int

definition new_summary :: "string \<Rightarrow> chunk_summary" where
  "new_summary d = \<lparr>cs_desc = d, cs_count = 0, cs_total = 0\<rparr>"

definition count_chunk :: "genv \<Rightarrow> chunk \<Rightarrow> chunk_summary \<Rightarrow> chunk_summary" where
  "count_chunk g c s = s\<lparr>cs_count := cs_count s + 1, cs_total := cs_total s + c_size g c\<rparr>"

record heap_summary =
  hs_sizes :: "((int \<times> string) \<times> chunk_summary) list"
  hs_flags :: "(string \<times> chunk_summary) list"

definition new_heap_summary :: heap_summary where
  "new_heap_summary = \<lparr>hs_sizes = [],
     hs_flags = map (\<lambda>f. (f, new_summary [])) [''PREV_INUSE'', ''IS_MMAPPED'', ''NON_MAIN_ARENA'']\<rparr>"

text \<open>A flag's summary, by its name; a name that is missing raises\<close>
definition count_flag :: "genv \<Rightarrow> chunk \<Rightarrow> string \<Rightarrow> (heap_summary, unit) stm" where
  "count_flag g c f s =
     (case map_of (hs_flags s) f of
        None \<Rightarrow> (raise KeyError f, s)
      | Some x \<Rightarrow> (Inr (), s\<lparr>hs_flags := AList.update f (count_chunk g c x) (hs_flags s)\<rparr>))"

definition count_size :: "genv \<Rightarrow> chunk \<Rightarrow> string \<Rightarrow> heap_summary \<Rightarrow> heap_summary" where
  "count_size g c chunk_type s =
     (let k = (c_size g c, chunk_type);
          x = (case map_of (hs_sizes s) k of None \<Rightarrow> new_summary chunk_type | Some x \<Rightarrow> x)
      in s\<lparr>hs_sizes := AList.update k (count_chunk g c x) (hs_sizes s)\<rparr>)"

text \<open>\<^verbatim>\<open>GlibcHeapArenaSummary.process_chunk\<close>; \<^verbatim>\<open>resolve\<close> gives the symbol a vtable pointer names\<close>
definition summarise ::
  "genv \<Rightarrow> (int \<Rightarrow> string option) option \<Rightarrow> chunk \<Rightarrow> (heap_summary, unit) stm" where
  "summarise g resolve c =
     bindS (\<lambda>s. (case resolve of None \<Rightarrow> Inr [] | Some f \<Rightarrow> resolve_type f g c, s)) (\<lambda>chunk_type.
     bindS (modS (count_size g c chunk_type)) (\<lambda>_.
     bindS (if has_p_bit g c then count_flag g c ''PREV_INUSE'' else retS ()) (\<lambda>_.
     bindS (if has_m_bit g c then count_flag g c ''IS_MAPPED'' else retS ()) (\<lambda>_.
     if has_n_bit g c then count_flag g c ''NON_MAIN_ARENA'' else retS ()))))"

definition tab :: char where "tab = CHR 0x09"

definition summary_lines :: "heap_summary \<Rightarrow> string list" where
  "summary_lines s =
     [''== Chunk distribution by size =='',
      ljust 10 ''ChunkBytes'' @ [tab] @ ljust 10 ''Count'' @ [tab] @ ljust 15 ''TotalBytes'' @ [tab] @ ''Description'']
     @ map (\<lambda>((sz, _), x). ljust 10 (decs sz) @ [tab] @ ljust 10 (decs (cs_count x)) @ [tab]
            @ ljust 15 (decs (cs_total x)) @ [tab] @ cs_desc x)
         (sort_key (\<lambda>(_, x). - cs_total x) (hs_sizes s))
     @ [CHR 0x0A # ''== Chunk distribution by flag =='',
        ljust 15 ''Flag'' @ [tab] @ ljust 10 ''TotalCount'' @ [tab] @ ''TotalBytes'']
     @ map (\<lambda>(f, x). ljust 15 f @ [tab] @ ljust 10 (decs (cs_count x)) @ [tab] @ decs (cs_total x)) (hs_flags s)"

section \<open>Whole heaps\<close>

record dump_env =
  du_heap :: heap_env
  du_dis :: disasm_env
  du_regex :: bool
  du_peek :: int
  du_symbol :: "int \<Rightarrow> string option"

abbreviation du_g :: "dump_env \<Rightarrow> genv" where "du_g d \<equiv> he_g (du_heap d)"
abbreviation du_nc :: "dump_env \<Rightarrow> bool" where "du_nc d \<equiv> he_no_color (du_heap d)"

text \<open>\<^verbatim>\<open>GlibcHeapWalkContext\<close> without the count, which changes\<close>
record walk_ctx =
  wc_print_arena :: bool
  wc_unaligned :: bool
  wc_min :: int
  wc_max :: int
  wc_resolve :: bool
  wc_summary :: bool

record dump_state =
  ds_out :: "string list"
  ds_remaining :: int
  ds_summary :: heap_summary
  ds_hm :: hm

definition dsay :: "string \<Rightarrow> (dump_state, unit) stm" where
  "dsay l = modS (\<lambda>s. s\<lparr>ds_out := ds_out s @ [l]\<rparr>)"

definition should_process_chunk :: "genv \<Rightarrow> walk_ctx \<Rightarrow> chunk \<Rightarrow> bool" where
  "should_process_chunk g ctx c =
     (if c_size g c < wc_min ctx then False
      else if 0 < wc_max ctx \<and> wc_max ctx < c_size g c then False else True)"

definition chunk_line :: "dump_env \<Rightarrow> chunk \<Rightarrow> string result" where
  "chunk_line d c =
     (let g = du_g d; l = chunk_str (du_nc d) g c in
      if du_peek d = 0 then Inr l
      else bindE (mem_read (g_target g) (data_address c) (du_peek d)) (\<lambda>bs.
           bindE (hexdump_lines (du_dis d) (du_nc d) (du_regex d) (nat (du_peek d)) (CHR ''.'') False True (data_address c) 0 bs) (\<lambda>ls.
             Inr (l @ CHR 0x0A # ''    ['' @ join [CHR 0x0A] ls @ '']''))))"

definition lift_summary :: "(heap_summary, 'a) stm \<Rightarrow> (dump_state, 'a) stm" where
  "lift_summary m s = (case m (ds_summary s) of (r, x) \<Rightarrow> (r, s\<lparr>ds_summary := x\<rparr>))"

definition finish_heap :: "walk_ctx \<Rightarrow> (dump_state, bool) stm" where
  "finish_heap ctx =
     bindS (if wc_summary ctx then (\<lambda>s. foldS dsay (summary_lines (ds_summary s)) s) else retS ()) (\<lambda>_. retS True)"

text \<open>The body of the loop over the chunks, and what follows it; \<^verbatim>\<open>x\<close> is the exception that ends the walk\<close>
fun dump_loop :: "dump_env \<Rightarrow> walk_ctx \<Rightarrow> int \<Rightarrow> int \<Rightarrow> chunk list \<Rightarrow> py_exn option \<Rightarrow> (dump_state, bool) stm" where
  "dump_loop d ctx end0 tp [] x = (case x of None \<Rightarrow> finish_heap ctx | Some y \<Rightarrow> liftE (Inl y))"
| "dump_loop d ctx end0 tp (c # cs) x =
     (let g = du_g d; nc = du_nc d; process = should_process_chunk g ctx c in
      if \<not> wc_summary ctx \<and> base_address c = tp then
        bindS (if process then dsay (chunk_str nc g c @ '' '' @ LEFT_ARROW @ '' '' @ greenify nc ''top chunk'') else retS ())
          (\<lambda>_. finish_heap ctx)
      else if end0 < base_address c then
        bindS (dsay (err_line nc ''Corrupted heap, cannot continue.'')) (\<lambda>_. retS False)
      else if \<not> process then dump_loop d ctx end0 tp cs x
      else (\<lambda>s. if ds_remaining s = 0 then finish_heap ctx s
        else bindS (if wc_summary ctx then lift_summary (summarise g (if wc_resolve ctx then Some (du_symbol d) else None) c)
                    else bindS (liftE (chunk_line d c)) dsay) (\<lambda>_.
             bindS (modS (\<lambda>s. s\<lparr>ds_remaining := ds_remaining s - 1\<rparr>)) (\<lambda>_. dump_loop d ctx end0 tp cs x)) s))"

text \<open>Computations that may not end\<close>
type_synonym ('s, 'a) ostm = "'s \<Rightarrow> ('a result \<times> 's) option"

definition bindO :: "('s, 'a) ostm \<Rightarrow> ('a \<Rightarrow> ('s, 'b) ostm) \<Rightarrow> ('s, 'b) ostm" where
  "bindO m f s = (case m s of None \<Rightarrow> None | Some (Inl e, s') \<Rightarrow> Some (Inl e, s') | Some (Inr x, s') \<Rightarrow> f x s')"

definition liftO :: "('s, 'a) stm \<Rightarrow> ('s, 'a) ostm" where
  "liftO m s = Some (m s)"

definition lift_ds_hm :: "(hm, 'a) stm \<Rightarrow> (dump_state, 'a) stm" where
  "lift_ds_hm m s = (case m (ds_hm s) of (r, h) \<Rightarrow> (r, s\<lparr>ds_hm := h\<rparr>))"

definition ds_main :: "dump_env \<Rightarrow> (dump_state, arena option) stm" where
  "ds_main d = lift_ds_hm (\<lambda>h. case main_arena (du_g d) (he_finder (du_heap d)) h of (a, h') \<Rightarrow> (Inr a, h'))"

text \<open>\<^verbatim>\<open>dump_chunks_heap\<close>; \<^verbatim>\<open>fuel\<close> bounds the walk over the chunks\<close>
definition dump_chunks_heap ::
  "dump_env \<Rightarrow> walk_ctx \<Rightarrow> nat \<Rightarrow> arena \<Rightarrow> int \<Rightarrow> int \<Rightarrow> (dump_state, bool) ostm" where
  "dump_chunks_heap d ctx fuel a start end0 =
     (let g = du_g d in
      bindO (liftO (liftE (chunk_init g start True (wc_unaligned ctx)))) (\<lambda>c.
      bindO (liftO (ds_main d)) (\<lambda>m. case m of
        None \<Rightarrow> liftO (raiseS AssertionError [])
      | Some m \<Rightarrow> (\<lambda>s. case chunk_iter g (ar_top g m) fuel c of
            None \<Rightarrow> None
          | Some (cs, x) \<Rightarrow> Some (dump_loop d ctx end0 (ar_top g a) cs x (s\<lparr>ds_summary := new_heap_summary\<rparr>))))))"

definition ds_heap_addr :: "dump_env \<Rightarrow> bool \<Rightarrow> arena \<Rightarrow> arena option \<Rightarrow> (dump_state, int option) stm" where
  "ds_heap_addr d unaligned a m =
     bindS (if is_main_arena m a then lift_ds_hm (hm_base_address (du_g d) (he_section (du_heap d))) else retS None) (\<lambda>b.
       liftE (heap_addr (du_g d) m b unaligned a))"

text \<open>\<^verbatim>\<open>GlibcHeapInfo.heap_start\<close>\<close>
definition heap_start :: "dump_env \<Rightarrow> arena option \<Rightarrow> heap_info \<Rightarrow> (dump_state, int) stm" where
  "heap_start d m h =
     (let g = du_g d in
      bindS (liftE (bindE (hi_field g h ''ar_ptr'') need_int)) (\<lambda>ar_ptr.
      if ar_ptr - hi_address h < 0x60 then
        bindS (liftE (arena_init g (he_finder (du_heap d)) (CHR ''*'' # hexs ar_ptr))) (\<lambda>a.
        bindS (ds_heap_addr d False a m) (\<lambda>r.
          if r = None \<or> r = Some 0 then
            bindS (dsay (err_line (du_nc d) (''Cannot find heap address for arena '' @ hexs ar_ptr))) (\<lambda>_. retS 0)
          else retS (the r)))
      else retS (hi_address h + int (hi_sizeof h))))"

fun dump_infos :: "dump_env \<Rightarrow> walk_ctx \<Rightarrow> nat \<Rightarrow> arena \<Rightarrow> arena option \<Rightarrow> heap_info list \<Rightarrow> (dump_state, unit) ostm" where
  "dump_infos d ctx fuel a m [] = liftO (retS ())"
| "dump_infos d ctx fuel a m (h # hs) =
     (let g = du_g d in
      bindO (liftO (heap_start d m h)) (\<lambda>start.
      bindO (liftO (liftE (heap_end g h))) (\<lambda>end0.
      bindO (dump_chunks_heap d ctx fuel a start end0) (\<lambda>ok.
        if ok then dump_infos d ctx fuel a m hs else liftO (retS ())))))"

text \<open>\<^verbatim>\<open>dump_chunks_arena\<close>\<close>
definition dump_chunks_arena :: "dump_env \<Rightarrow> walk_ctx \<Rightarrow> nat \<Rightarrow> arena \<Rightarrow> (dump_state, unit) ostm" where
  "dump_chunks_arena d ctx fuel a =
     (let g = du_g d; nc = du_nc d in
      bindO (liftO (ds_main d)) (\<lambda>m.
      bindO (liftO (ds_heap_addr d (wc_unaligned ctx) a m)) (\<lambda>addr. case addr of
        None \<Rightarrow> liftO (dsay (err_line nc ''Could not find heap for arena''))
      | Some heap_addr0 \<Rightarrow>
          bindO (liftO (if wc_print_arena ctx then dsay (arena_str nc g a) else retS ())) (\<lambda>_.
          if is_main_arena m a then
            bindO (liftO (liftE (chunk_init g (ar_top g a) True True))) (\<lambda>c.
            bindO (dump_chunks_heap d ctx fuel a heap_addr0 (ar_top g a + c_size g c)) (\<lambda>_. liftO (retS ())))
          else (\<lambda>s. case get_heap_info_list g m fuel a of
              None \<Rightarrow> None
            | Some (Inl x) \<Rightarrow> Some (Inl x, s)
            | Some (Inr infos) \<Rightarrow> dump_infos d ctx fuel a m (case infos of None \<Rightarrow> [] | Some hs \<Rightarrow> hs) s)))))"

fun dump_arenas :: "dump_env \<Rightarrow> walk_ctx \<Rightarrow> nat \<Rightarrow> arena list \<Rightarrow> py_exn option \<Rightarrow> (dump_state, unit) ostm" where
  "dump_arenas d ctx fuel [] x = liftO (case x of None \<Rightarrow> retS () | Some y \<Rightarrow> liftE (Inl y))"
| "dump_arenas d ctx fuel (a # as) x = bindO (dump_chunks_arena d ctx fuel a) (\<lambda>_. dump_arenas d ctx fuel as x)"

definition dump_named :: "dump_env \<Rightarrow> walk_ctx \<Rightarrow> nat \<Rightarrow> string \<Rightarrow> (dump_state, unit) ostm" where
  "dump_named d ctx fuel arena_address s =
     (let g = du_g d in
      case bindO (liftO (liftE (bindE (parse_address (g_target g) arena_address) (\<lambda>a.
               arena_init g (he_finder (du_heap d)) (CHR ''*'' # hexs a))))) (dump_chunks_arena d ctx fuel) s of
        None \<Rightarrow> None
      | Some (Inl x, s') \<Rightarrow> if is_gdb_error x then Some (dsay (err_line (du_nc d) ''Invalid arena'') s') else Some (Inl x, s')
      | Some (Inr u, s') \<Rightarrow> Some (Inr u, s'))"

text \<open>\<^verbatim>\<open>heap chunks\<close>.  After \<^verbatim>\<open>--all\<close> the command goes on to the arena argument, empty or not.\<close>
definition chunks_cmd :: "dump_env \<Rightarrow> walk_ctx \<Rightarrow> nat \<Rightarrow> bool \<Rightarrow> string \<Rightarrow> (dump_state, unit) ostm" where
  "chunks_cmd d ctx fuel all0 arena_address =
     (if \<not> t_alive (g_target (du_g d)) then liftO (dsay (warn_line (du_nc d) ''No debugging session active''))
      else if all0 then
        (\<lambda>s. case arenas (du_g d) (he_finder (du_heap d)) fuel (ds_hm s) of
           (None, h) \<Rightarrow> None
         | (Some (as, x), h) \<Rightarrow>
             bindO (dump_arenas d ctx fuel as x) (\<lambda>_. dump_named d ctx fuel arena_address) (s\<lparr>ds_hm := h\<rparr>))
      else if arena_address = [] then
        bindO (liftO (ds_main d)) (\<lambda>m. case m of
          Some a \<Rightarrow> dump_chunks_arena d ctx fuel a
        | None \<Rightarrow> dump_named d ctx fuel arena_address)
      else dump_named d ctx fuel arena_address)"

section \<open>Facts about the summary\<close>

definition tally :: "('k \<times> chunk_summary) list \<Rightarrow> 'k \<Rightarrow> int \<times> int" where
  "tally al k = (case map_of al k of None \<Rightarrow> (0, 0) | Some x \<Rightarrow> (cs_count x, cs_total x))"

text \<open>The number and the bytes of the chunks of a list that satisfy a test\<close>
definition totals :: "genv \<Rightarrow> (chunk \<Rightarrow> bool) \<Rightarrow> chunk list \<Rightarrow> int \<times> int" where
  "totals g p cs = (int (length (filter p cs)), sum_list (map (c_size g) (filter p cs)))"

definition add2 :: "int \<times> int \<Rightarrow> int \<times> int \<Rightarrow> int \<times> int" where
  "add2 p q = (fst p + fst q, snd p + snd q)"

lemma add2_simps [simp]: "add2 (a, b) (c, d) = (a + c, b + d)" by (simp add: add2_def)

lemma tally_count_size:
  "tally (hs_sizes (count_size g c ty s)) k
     = add2 (tally (hs_sizes s) k) (if k = (c_size g c, ty) then (1, c_size g c) else (0, 0))"
  by (auto simp: tally_def count_size_def count_chunk_def new_summary_def update_conv' Let_def split: option.split)

definition flags_ready :: "heap_summary \<Rightarrow> bool" where
  "flags_ready s \<longleftrightarrow> {''PREV_INUSE'', ''NON_MAIN_ARENA''} \<subseteq> dom (map_of (hs_flags s))"

lemma count_flag_if:
  assumes "flags_ready s" "f \<in> {''PREV_INUSE'', ''NON_MAIN_ARENA''}"
  shows "\<exists>s'. (if b then count_flag g c f else retS ()) s = (Inr (), s') \<and> hs_sizes s' = hs_sizes s \<and> flags_ready s'
    \<and> (\<forall>k. tally (hs_flags s') k = add2 (tally (hs_flags s) k) (if k = f \<and> b then (1, c_size g c) else (0, 0)))"
proof (cases b)
  case True
  have "f \<in> dom (map_of (hs_flags s))" using assms unfolding flags_ready_def by blast
  then obtain x where x: "map_of (hs_flags s) f = Some x" by blast
  let ?s' = "s\<lparr>hs_flags := AList.update f (count_chunk g c x) (hs_flags s)\<rparr>"
  have "count_flag g c f s = (Inr (), ?s')" using x by (simp add: count_flag_def)
  moreover have "flags_ready ?s'" using assms(1) unfolding flags_ready_def by (auto simp: update_conv')
  ultimately show ?thesis using True x
    by (intro exI [of _ ?s']) (auto simp: tally_def count_chunk_def update_conv' split: option.split)
next
  case False
  then show ?thesis using assms by (simp add: retS_def add2_def)
qed

lemma summarise_step:
  assumes "flags_ready s" "\<not> has_m_bit g c"
  shows "\<exists>s'. summarise g None c s = (Inr (), s') \<and> flags_ready s'
    \<and> (\<forall>k. tally (hs_sizes s') k = add2 (tally (hs_sizes s) k) (if k = (c_size g c, []) then (1, c_size g c) else (0, 0)))
    \<and> (\<forall>k. tally (hs_flags s') k = add2 (tally (hs_flags s) k)
        (if k = ''PREV_INUSE'' \<and> has_p_bit g c \<or> k = ''NON_MAIN_ARENA'' \<and> has_n_bit g c then (1, c_size g c) else (0, 0)))"
proof -
  let ?s1 = "count_size g c [] s"
  have r1: "flags_ready ?s1" "hs_flags ?s1 = hs_flags s" using assms(1) by (simp_all add: flags_ready_def count_size_def Let_def)
  obtain s2 where s2: "(if has_p_bit g c then count_flag g c ''PREV_INUSE'' else retS ()) ?s1 = (Inr (), s2)"
    "hs_sizes s2 = hs_sizes ?s1" "flags_ready s2"
    "\<forall>k. tally (hs_flags s2) k = add2 (tally (hs_flags s) k) (if k = ''PREV_INUSE'' \<and> has_p_bit g c then (1, c_size g c) else (0, 0))"
    using count_flag_if [OF r1(1), of "''PREV_INUSE''" "has_p_bit g c" g c] r1(2) by auto
  obtain s3 where s3: "(if has_n_bit g c then count_flag g c ''NON_MAIN_ARENA'' else retS ()) s2 = (Inr (), s3)"
    "hs_sizes s3 = hs_sizes s2" "flags_ready s3"
    "\<forall>k. tally (hs_flags s3) k = add2 (tally (hs_flags s2) k) (if k = ''NON_MAIN_ARENA'' \<and> has_n_bit g c then (1, c_size g c) else (0, 0))"
    using count_flag_if [OF s2(3), of "''NON_MAIN_ARENA''" "has_n_bit g c" g c] by auto
  have "summarise g None c s = (Inr (), s3)"
    using s2(1) s3(1) assms(2) by (simp add: summarise_def bindS_def modS_def retS_def)
  moreover have "tally (hs_sizes s3) k = add2 (tally (hs_sizes s) k) (if k = (c_size g c, []) then (1, c_size g c) else (0, 0))" for k
    unfolding s3(2) s2(2) by (rule tally_count_size)
  ultimately show ?thesis using s3(3,4) s2(4) by (intro exI [of _ s3]) (auto simp: add2_def)
qed

lemma totals_Cons: "totals g p (c # cs) = add2 (if p c then (1, c_size g c) else (0, 0)) (totals g p cs)"
  by (simp add: totals_def)

lemma add2_assoc: "add2 (add2 a b) c = add2 a (add2 b c)"
  by (simp add: add2_def)

lemma summarise_all:
  assumes "flags_ready s" "\<forall>c \<in> set cs. \<not> has_m_bit g c"
  shows "\<exists>s'. foldS (summarise g None) cs s = (Inr (), s')
    \<and> (\<forall>k. tally (hs_sizes s') (k, []) = add2 (tally (hs_sizes s) (k, [])) (totals g (\<lambda>c. c_size g c = k) cs))
    \<and> (\<forall>k. tally (hs_flags s') k = add2 (tally (hs_flags s) k) (totals g (\<lambda>c. k = ''PREV_INUSE'' \<and> has_p_bit g c
          \<or> k = ''NON_MAIN_ARENA'' \<and> has_n_bit g c) cs))"
  using assms
proof (induction cs arbitrary: s)
  case Nil
  then show ?case by (simp add: retS_def totals_def add2_def)
next
  case (Cons c cs)
  obtain s1 where s1: "summarise g None c s = (Inr (), s1)" "flags_ready s1"
    "\<forall>k. tally (hs_sizes s1) k = add2 (tally (hs_sizes s) k) (if k = (c_size g c, []) then (1, c_size g c) else (0, 0))"
    "\<forall>k. tally (hs_flags s1) k = add2 (tally (hs_flags s) k)
        (if k = ''PREV_INUSE'' \<and> has_p_bit g c \<or> k = ''NON_MAIN_ARENA'' \<and> has_n_bit g c then (1, c_size g c) else (0, 0))"
  proof -
    have "\<not> has_m_bit g c" using Cons.prems(2) by simp
    from summarise_step [OF Cons.prems(1) this] show ?thesis using that by blast
  qed
  have "\<forall>c \<in> set cs. \<not> has_m_bit g c" using Cons.prems(2) by simp
  from Cons.IH [OF s1(2) this] obtain s' where s': "foldS (summarise g None) cs s1 = (Inr (), s')"
    "\<forall>k. tally (hs_sizes s') (k, []) = add2 (tally (hs_sizes s1) (k, [])) (totals g (\<lambda>c. c_size g c = k) cs)"
    "\<forall>k. tally (hs_flags s') k = add2 (tally (hs_flags s1) k) (totals g (\<lambda>c. k = ''PREV_INUSE'' \<and> has_p_bit g c
          \<or> k = ''NON_MAIN_ARENA'' \<and> has_n_bit g c) cs)" by blast
  have "foldS (summarise g None) (c # cs) s = (Inr (), s')" using s1(1) s'(1) by (simp add: bindS_def)
  then show ?case using s1(3,4) s'(2,3)
    by (intro exI [of _ s'] conjI) (simp_all add: totals_Cons add2_assoc eq_commute)
qed

lemma summarise_m_bit:
  assumes "flags_ready s" "''IS_MAPPED'' \<notin> dom (map_of (hs_flags s))" "has_m_bit g c"
  shows "fst (summarise g None c s) = raise KeyError ''IS_MAPPED''"
proof -
  let ?s1 = "count_size g c [] s"
  have r1: "flags_ready ?s1" "hs_flags ?s1 = hs_flags s" using assms(1) by (simp_all add: flags_ready_def count_size_def Let_def)
  obtain s2 where s2: "(if has_p_bit g c then count_flag g c ''PREV_INUSE'' else retS ()) ?s1 = (Inr (), s2)"
    "\<forall>k. tally (hs_flags s2) k = add2 (tally (hs_flags s) k) (if k = ''PREV_INUSE'' \<and> has_p_bit g c then (1, c_size g c) else (0, 0))"
    using count_flag_if [OF r1(1), of "''PREV_INUSE''" "has_p_bit g c" g c] r1(2) by auto
  have "map_of (hs_flags s2) ''IS_MAPPED'' = None"
  proof -
    have "hs_flags s2 = hs_flags s \<or> (\<exists>x. hs_flags s2 = AList.update ''PREV_INUSE'' x (hs_flags s))"
      using s2(1) r1(2) by (auto simp: count_flag_def retS_def split: if_splits option.splits)
    then show ?thesis using assms(2) by (auto simp: update_conv')
  qed
  then show ?thesis using s2(1) assms(3)
    by (simp add: summarise_def bindS_def modS_def retS_def count_flag_def)
qed

section \<open>Properties\<close>

text \<open>Fact: without memory-mapped chunks the summary of a heap holds, for every size, the number and the
  bytes of the chunks of that size, and for the two flags those of the chunks that have them; one
  memory-mapped chunk makes the summary raise \<^verbatim>\<open>KeyError\<close>.\<close>
theorem heap_summary_totals:
  "(case foldS (summarise g None) cs new_heap_summary of (r, s) \<Rightarrow>
     if \<exists>c \<in> set cs. has_m_bit g c then r = raise KeyError ''IS_MAPPED''
     else r = Inr () \<and> (\<forall>k. tally (hs_sizes s) (k, []) = totals g (\<lambda>c. c_size g c = k) cs)
       \<and> tally (hs_flags s) ''PREV_INUSE'' = totals g (has_p_bit g) cs
       \<and> tally (hs_flags s) ''NON_MAIN_ARENA'' = totals g (has_n_bit g) cs)"
proof (cases "\<exists>c \<in> set cs. has_m_bit g c")
  case False
  have "flags_ready new_heap_summary" by (simp add: flags_ready_def new_heap_summary_def)
  moreover have "\<forall>c \<in> set cs. \<not> has_m_bit g c" using False by blast
  ultimately obtain s where s: "foldS (summarise g None) cs new_heap_summary = (Inr (), s)"
    "\<forall>k. tally (hs_sizes s) (k, []) = add2 (tally (hs_sizes new_heap_summary) (k, [])) (totals g (\<lambda>c. c_size g c = k) cs)"
    "\<forall>k. tally (hs_flags s) k = add2 (tally (hs_flags new_heap_summary) k) (totals g (\<lambda>c. k = ''PREV_INUSE'' \<and> has_p_bit g c
          \<or> k = ''NON_MAIN_ARENA'' \<and> has_n_bit g c) cs)"
    using summarise_all by blast
  have "tally (hs_sizes new_heap_summary) k = (0, 0)" "tally (hs_flags new_heap_summary) f = (0, 0)" for k f
    by (simp_all add: new_heap_summary_def tally_def new_summary_def)
  then show ?thesis using s False by (simp add: add2_def)
next
  case True
  have "flags_ready s \<Longrightarrow> ''IS_MAPPED'' \<notin> dom (map_of (hs_flags s)) \<Longrightarrow>
    fst (foldS (summarise g None) cs s) = raise KeyError ''IS_MAPPED''" for s
    using True
  proof (induction cs arbitrary: s)
    case (Cons c cs)
    show ?case
    proof (cases "has_m_bit g c")
      case True
      then show ?thesis using summarise_m_bit [OF Cons.prems(1,2) True]
        by (cases "summarise g None c s") (simp add: bindS_def)
    next
      case False
      obtain s1 where s1: "summarise g None c s = (Inr (), s1)" "flags_ready s1"
        using summarise_step [OF Cons.prems(1) False] by blast
      have "''IS_MAPPED'' \<notin> dom (map_of (hs_flags s1))"
        using s1(1) False Cons.prems(2)
        by (auto simp: summarise_def bindS_def modS_def retS_def count_flag_def count_size_def update_conv' Let_def
            split: if_splits option.splits)
      then have "fst (foldS (summarise g None) cs s1) = raise KeyError ''IS_MAPPED''"
        using Cons.IH [of s1] s1(2) Cons.prems(3) False by auto
      then show ?thesis using s1(1) by (simp add: bindS_def)
    qed
  qed simp
  from this [of new_heap_summary] have "fst (foldS (summarise g None) cs new_heap_summary) = raise KeyError ''IS_MAPPED''"
    by (simp add: flags_ready_def new_heap_summary_def)
  then show ?thesis using True by (cases "foldS (summarise g None) cs new_heap_summary") simp
qed

definition healthy :: "genv \<Rightarrow> int \<Rightarrow> int \<Rightarrow> chunk list \<Rightarrow> bool" where
  "healthy g end0 tp cs \<longleftrightarrow> (\<forall>c \<in> set cs. base_address c \<noteq> tp \<and> base_address c \<le> end0)"


definition demo_dump :: dump_env where
  "demo_dump = \<lparr>du_heap = demo_heap, du_dis = nop_env, du_regex = False, du_peek = 0, du_symbol = (\<lambda>_. None)\<rparr>"

definition demo_ctx :: walk_ctx where
  "demo_ctx = \<lparr>wc_print_arena = False, wc_unaligned = False, wc_min = 0, wc_max = 0, wc_resolve = False, wc_summary = False\<rparr>"

definition demo_ds :: dump_state where
  "demo_ds = \<lparr>ds_out = [], ds_remaining = 1, ds_summary = new_heap_summary, ds_hm = demo_hm\<rparr>"


end
