(* ===== verification/MapCmds.thy ===== *)
theory MapCmds
  imports Deref MemMaps
begin

text \<open>
  The commands over the memory map of \<^verbatim>\<open>scripts/gef.py\<close>: \<^verbatim>\<open>vmmap\<close>, \<^verbatim>\<open>xfiles\<close>, \<^verbatim>\<open>xinfo\<close> and
  \<^verbatim>\<open>scan\<close>.  The map and the zones of the loaded files are arguments.
\<close>

abbreviation theme_color :: "deref_env \<Rightarrow> string \<Rightarrow> string \<Rightarrow> string" where
  "theme_color env key txt \<equiv> colorify (dv_no_color env) txt (dv_theme env key)"

definition no_session :: "deref_env \<Rightarrow> string" where
  "no_session env = warn_line (dv_no_color env) ''No debugging session active''"

definition syntax_line :: "bool \<Rightarrow> string \<Rightarrow> string" where
  "syntax_line nc usage = err_line nc (''Syntax'' @ [CHR 0x0A] @ usage)"

section \<open>vmmap\<close>

definition is_integer :: "string \<Rightarrow> bool" where
  "is_integer n = (case py_int 0 n of Inr _ \<Rightarrow> True | Inl e \<Rightarrow> exn_cls e \<noteq> ValueError)"

definition entry_color :: "deref_env \<Rightarrow> sect \<Rightarrow> string" where
  "entry_color env s =
     (if path s = ''[stack]'' then dv_theme env ''theme.address_stack''
      else if path s = ''[heap]'' then dv_theme env ''theme.address_heap''
      else if perm_truthy (perm_and (permission s) PREAD) \<and> perm_truthy (perm_and (permission s) PEXEC)
      then dv_theme env ''theme.address_code'' else [])"

definition print_entry :: "deref_env \<Rightarrow> sect \<Rightarrow> string" where
  "print_entry env s =
     (let color = entry_color env s; t = dv_target env; paint = (\<lambda>x. colorify (dv_no_color env) x color) in
      join '' '' [paint (format_address t (page_start s)), paint (format_address t (page_end s)),
        paint (format_address t (offset s)),
        (if permission s = PALL then colorify (dv_no_color env) (perm_str (permission s)) (''underline '' @ color)
         else paint (perm_str (permission s))),
        paint (path s)])"

definition legend :: "deref_env \<Rightarrow> string" where
  "legend env = ''[ Legend:  '' @ theme_color env ''theme.address_code'' ''Code'' @ '' | ''
     @ theme_color env ''theme.address_stack'' ''Heap'' @ '' | ''
     @ theme_color env ''theme.address_heap'' ''Stack'' @ '' ]''"

text \<open>Whether an entry is printed: the first argument is part of its path, or an address in it\<close>
definition vmmap_shows :: "string list \<Rightarrow> sect \<Rightarrow> bool" where
  "vmmap_shows argv s =
     (if argv = [] then True
      else if str_in (hd argv) (path s) then True
      else (case py_int 0 (hd argv) of Inr a \<Rightarrow> page_start s \<le> a \<and> a < page_end s | Inl _ \<Rightarrow> False))"

definition heading :: "deref_env \<Rightarrow> string \<Rightarrow> string" where
  "heading env txt = theme_color env ''theme.table_heading'' txt"

definition vmmap_cmd :: "deref_env \<Rightarrow> string list \<Rightarrow> string list" where
  "vmmap_cmd env argv =
     (let w = t_ptrsize (dv_target env) * 2 + 3 in
      if \<not> t_alive (dv_target env) then [no_session env]
      else if dv_maps env = [] then [err_line (dv_no_color env) ''No address mapping information found'']
      else (if dv_no_color env then [] else [legend env])
        @ [heading env (ljust w ''Start'' @ ljust w ''End'' @ ljust w ''Offset'' @ ljust 4 ''Perm'' @ '' '' @ ''Path'')]
        @ map (print_entry env) (filter (vmmap_shows argv) (dv_maps env)))"

section \<open>xfiles\<close>

definition xfiles_shows :: "string list \<Rightarrow> zone \<Rightarrow> bool" where
  "xfiles_shows argv z =
     (case argv of
        [] \<Rightarrow> True
      | f # rest \<Rightarrow>
          if f = [] then True
          else str_in f (z_filename z) \<and>
            (case rest of n # _ \<Rightarrow> n = [] \<or> str_in n (z_name z) | [] \<Rightarrow> True))"

definition xfiles_cmd :: "deref_env \<Rightarrow> string list \<Rightarrow> string list" where
  "xfiles_cmd env argv =
     (let t = dv_target env; w = t_ptrsize t * 2 + 3 in
      if \<not> t_alive t then [no_session env]
      else heading env (ljust w ''Start'' @ ljust w ''End'' @ ljust 21 ''Name'' @ '' '' @ ''File'')
        # map (\<lambda>z. join '' '' [format_address t (zone_start z), format_address t (zone_end z),
                 ljust 21 (z_name z), z_filename z]) (filter (xfiles_shows argv) (dv_infos env)))"

section \<open>xinfo\<close>

definition nl :: string where "nl = [CHR 0x0A]"

definition page_text :: "target \<Rightarrow> int \<Rightarrow> sect \<Rightarrow> string" where
  "page_text t v s = ''Page: '' @ format_address t (page_start s) @ '' '' @ RIGHT_ARROW @ '' ''
     @ format_address t (page_end s) @ '' (size='' @ hexs (page_end s - page_start s) @ '')''
     @ nl @ ''Permissions: '' @ perm_str (permission s) @ nl @ ''Pathname: '' @ path s
     @ nl @ ''Offset (from page): '' @ hexs (v - page_start s) @ nl @ ''Inode: '' @ decs (inode s)"

definition segment_text :: "target \<Rightarrow> int \<Rightarrow> zone \<Rightarrow> string" where
  "segment_text t v z = ''Segment: '' @ z_name z @ '' ('' @ format_address t (zone_start z) @ ''-''
     @ format_address t (zone_end z) @ '')'' @ nl @ ''Offset (from segment): '' @ hexs (v - zone_start z)"

definition xinfo_infos :: "deref_env \<Rightarrow> int \<Rightarrow> string list \<times> py_exn option" where
  "xinfo_infos env a =
     (let t = dv_target env; addr = dv_lookup env a in
      if \<not> addr_valid (dv_maps env) (value_of addr)
      then ([warn_line (dv_no_color env) (''Cannot reach '' @ hexs a @ '' in memory space'')], None)
      else let ls = (case a_section addr of Some s \<Rightarrow> [page_text t (value_of addr) s] | None \<Rightarrow> [])
                    @ (case a_info addr of Some z \<Rightarrow> [segment_text t (value_of addr) z] | None \<Rightarrow> []) in
        case get_location (dv_dis env) a of
          Inl e \<Rightarrow> (ls, Some e)
        | Inr None \<Rightarrow> (ls, None)
        | Inr (Some (name, o1)) \<Rightarrow> (ls @ [''Symbol: '' @ name @ (if o1 \<noteq> 0 then ''+'' @ decs o1 else [])], None))"

fun xinfo_all :: "deref_env \<Rightarrow> (string \<Rightarrow> string) \<Rightarrow> string list \<Rightarrow> string list \<times> py_exn option" where
  "xinfo_all env title [] = ([], None)"
| "xinfo_all env title (loc # locs) =
     (let t = dv_target env;
          (ls, x) = (case parse_address t loc of
              Inl e \<Rightarrow> ([], Some e)
            | Inr a0 \<Rightarrow> (let a = align_address t a0; (ms, y) = xinfo_infos env a
                        in (title (''xinfo: '' @ hexs a) # ms, y)))
      in case x of
           Some e \<Rightarrow> if exn_cls e = GdbError \<or> exn_cls e = GdbMemoryError
             then (let (ms, y) = xinfo_all env title locs in (ls @ [err_line (dv_no_color env) (exn_msg e)] @ ms, y))
             else (ls, Some e)
         | None \<Rightarrow> (let (ms, y) = xinfo_all env title locs in (ls @ ms, y)))"

definition xinfo_cmd :: "deref_env \<Rightarrow> (string \<Rightarrow> string) \<Rightarrow> string \<Rightarrow> string list \<Rightarrow> string list \<times> py_exn option" where
  "xinfo_cmd env title usage argv =
     (if \<not> t_alive (dv_target env) then ([no_session env], None)
      else if argv = [] then ([err_line (dv_no_color env) ''At least one valid address must be specified'',
                               syntax_line (dv_no_color env) usage], None)
      else xinfo_all env title argv)"

section \<open>scan\<close>

definition basename :: "string \<Rightarrow> string" where
  "basename p = rev (takeWhile (\<lambda>c. c \<noteq> CHR ''/'') (rev p))"

text \<open>The ranges an argument names: the range it spells, then the sections whose path contains it\<close>
definition scan_ranges :: "sect list \<Rightarrow> string \<Rightarrow> (int \<times> int \<times> string) list result" where
  "scan_ranges maps arg =
     bindE (if str_in ''0x'' arg
            then bindE (bindE (parse_string_range arg) two_of) (\<lambda>(s, e). Inr [(s, e, [])]) else Inr []) (\<lambda>ranges.
       Inr (ranges @ map (\<lambda>s. (page_start s, page_end s, basename (path s))) (filter (\<lambda>s. str_in arg (path s)) maps)))"

definition scan_unpack :: "target \<Rightarrow> byte list \<Rightarrow> int result" where
  "scan_unpack t bs = (if t_ptrsize t = 4 then u32 (t_endian t) False None bs else u64 (t_endian t) False None bs)"

definition scan_line :: "deref_env \<Rightarrow> int \<Rightarrow> string \<Rightarrow> nat \<Rightarrow> string result" where
  "scan_line env hstart hname i =
     bindE (pprint_dereferenced env hstart (int i) 0) (\<lambda>deref.
       Inr (if hname \<noteq> [] then colorify (dv_no_color env) hname ''yellow'' @ '': '' @ deref else CHR '' '' # deref))"

text \<open>The lines of one word: one for each needle range that contains it\<close>
fun scan_word :: "deref_env \<Rightarrow> int \<Rightarrow> string \<Rightarrow> nat \<Rightarrow> int \<Rightarrow> (int \<times> int \<times> string) list \<Rightarrow> string list \<times> py_exn option" where
  "scan_word env hstart hname i tgt [] = ([], None)"
| "scan_word env hstart hname i tgt ((nstart, nend, _) # ns) =
     (if nstart \<le> tgt \<and> tgt < nend then
        (case scan_line env hstart hname i of
           Inl e \<Rightarrow> ([], Some e)
         | Inr l \<Rightarrow> (let (ls, e) = scan_word env hstart hname i tgt ns in (l # ls, e)))
      else scan_word env hstart hname i tgt ns)"

text \<open>The words of one section, from word number i on\<close>
function scan_words :: "deref_env \<Rightarrow> int \<Rightarrow> string \<Rightarrow> (int \<times> int \<times> string) list \<Rightarrow> nat \<Rightarrow> byte list \<Rightarrow> string list \<times> py_exn option" where
  "scan_words env hstart hname ns i mem =
     (let step = t_ptrsize (dv_target env) in
      if step = 0 then ([], Some (Exn ValueError ''range() arg 3 must not be zero''))
      else if mem = [] then ([], None)
      else case scan_unpack (dv_target env) (take step mem) of
        Inl e \<Rightarrow> ([], Some e)
      | Inr tgt \<Rightarrow>
          (case scan_word env hstart hname i tgt ns of
             (ls, Some e) \<Rightarrow> (ls, Some e)
           | (ls, None) \<Rightarrow>
               (let (ms, e) = scan_words env hstart hname ns (i + 1) (drop step mem) in (ls @ ms, e))))"
  by pat_completeness auto
termination by (relation "measure (\<lambda>(env, h, n, ns, i, mem). length mem)") auto

declare scan_words.simps [simp del]

fun scan_sections ::
  "deref_env \<Rightarrow> (int \<times> int \<times> string) list \<Rightarrow> (int \<times> int \<times> string) list \<Rightarrow> string list \<times> py_exn option" where
  "scan_sections env ns [] = ([], None)"
| "scan_sections env ns ((hstart, hend, hname) # hs) =
     (case mem_read (dv_target env) hstart (hend - hstart) of
        Inl e \<Rightarrow> if exn_cls e = GdbMemoryError then scan_sections env ns hs else ([], Some e)
      | Inr mem \<Rightarrow>
          (case scan_words env hstart hname ns 0 mem of
             (ls, Some e) \<Rightarrow> (ls, Some e)
           | (ls, None) \<Rightarrow> (let (ms, e) = scan_sections env ns hs in (ls @ ms, e))))"

definition scan_cmd :: "deref_env \<Rightarrow> string \<Rightarrow> string list \<Rightarrow> string list \<times> py_exn option" where
  "scan_cmd env usage argv =
     (let t = dv_target env; nc = dv_no_color env in
      if \<not> t_alive t then ([no_session env], None)
      else if length argv \<noteq> 2 then ([syntax_line nc usage], None)
      else
        let yellow = (\<lambda>x. colorify nc x ''yellow''); q = [CHR 0x27];
            l = info_line nc (''Searching for addresses in '' @ q @ yellow (argv ! 0) @ q
                  @ '' that point to '' @ q @ yellow (argv ! 1) @ q);
            fpath = (case t_filepath t of None \<Rightarrow> [] | Some p \<Rightarrow> p);
            pick = (\<lambda>x. if x = ''binary'' then fpath else x) in
        case bindE (scan_ranges (dv_maps env) (pick (argv ! 0))) (\<lambda>hs.
               bindE (scan_ranges (dv_maps env) (pick (argv ! 1))) (\<lambda>ns. Inr (hs, ns))) of
          Inl e \<Rightarrow> ([l], Some e)
        | Inr (hs, ns) \<Rightarrow> (let (ls, e) = scan_sections env ns hs in (l # ls, e)))"

section \<open>Facts\<close>

lemma nonoverlapping_filter:
  assumes "nonoverlapping maps" "\<forall>s \<in> set maps. page_start s \<le> page_end s"
  shows "filter (\<lambda>s. page_start s \<le> a \<and> a < page_end s) maps
     = (case find_sect (\<lambda>s. page_start s \<le> a \<and> a < page_end s) maps of None \<Rightarrow> [] | Some s \<Rightarrow> [s])"
  using assms
proof (induction maps)
  case (Cons s maps)
  have "filter (\<lambda>r. page_start r \<le> a \<and> a < page_end r) maps = []" if "page_start s \<le> a" "a < page_end s"
  proof -
    have "\<not> (page_start r \<le> a \<and> a < page_end r)" if "r \<in> set maps" for r
      using Cons.prems(1) that \<open>page_start s \<le> a\<close> \<open>a < page_end s\<close>
      by (force simp: nonoverlapping_def overlaps_def)
    then show ?thesis by simp
  qed
  then show ?case using Cons by (auto simp: nonoverlapping_def)
qed simp

lemma read_bytes_split:
  "read_bytes m a n = Some bs \<Longrightarrow> l \<le> n \<Longrightarrow>
     read_bytes m a l = Some (take l bs) \<and> read_bytes m (a + int l) (n - l) = Some (drop l bs)"
proof (induction l arbitrary: a n bs)
  case (Suc l)
  then obtain n' where n: "n = Suc n'" by (cases n) auto
  obtain b bs' where b: "m a = Some b" "read_bytes m (a + 1) n' = Some bs'" "bs = b # bs'"
    using Suc.prems(1) n by (auto split: option.splits)
  from Suc.IH [OF b(2)] Suc.prems(2) n
  have "read_bytes m (a + 1) l = Some (take l bs')" "read_bytes m (a + 1 + int l) (n' - l) = Some (drop l bs')" by auto
  then show ?case using b n by (simp add: algebra_simps)
qed simp

text \<open>The number of needle ranges that contain a value\<close>
definition hits :: "(int \<times> int \<times> string) list \<Rightarrow> int \<Rightarrow> nat" where
  "hits ns v = length (filter (\<lambda>(s, e, _). s \<le> v \<and> v < e) ns)"

lemma scan_word_hits:
  assumes "hits ns v \<noteq> 0 \<Longrightarrow> scan_line env h nm i = Inr l"
  shows "scan_word env h nm i v ns = (replicate (hits ns v) l, None)"
  using assms by (induction ns) (auto simp: hits_def split: if_splits prod.splits)

lemma scan_words_lines:
  assumes "read_bytes (t_mem t) (h + int (i * step)) (k * step) = Some mem"
    and t: "t = dv_target env" "step = t_ptrsize t" "step = 4 \<or> step = 8"
    and "\<forall>j < k. \<exists>v. read_integer t (h + int ((i + j) * step)) = Inr v
      \<and> (hits ns v \<noteq> 0 \<longrightarrow> scan_line env h nm (i + j) = Inr (line (i + j)))"
  shows "scan_words env h nm ns i mem = (concat (map (\<lambda>j.
    (case read_integer t (h + int (j * step)) of Inr v \<Rightarrow> replicate (hits ns v) (line j) | Inl _ \<Rightarrow> [])) [i..<i + k]), None)"
  using assms(1,5)
proof (induction k arbitrary: i mem)
  case 0
  then show ?case using t by (auto simp: scan_words.simps Let_def)
next
  case (Suc k)
  have r: "read_bytes (t_mem t) (h + int (i * step)) step = Some (take step mem)"
    "read_bytes (t_mem t) (h + int (Suc i * step)) (k * step) = Some (drop step mem)"
    using read_bytes_split [OF Suc.prems(1), of step] by (simp_all add: algebra_simps)
  obtain v where v: "read_integer t (h + int (i * step)) = Inr v" "hits ns v \<noteq> 0 \<longrightarrow> scan_line env h nm i = Inr (line i)"
    using Suc.prems(2) by (metis add.right_neutral zero_less_Suc)
  have u: "scan_unpack (dv_target env) (take step mem) = Inr v"
    using v(1) r(1) t by (auto simp: read_integer_def scan_unpack_def mem_read_def result_simps split: if_splits)
  have "mem \<noteq> []" using r(1) t by (cases mem) (auto dest: read_bytes_length)
  moreover have "scan_words env h nm ns (Suc i) (drop step mem) = (concat (map (\<lambda>j.
      (case read_integer t (h + int (j * step)) of Inr v \<Rightarrow> replicate (hits ns v) (line j) | Inl _ \<Rightarrow> []))
      [Suc i..<Suc i + k]), None)"
  proof (rule Suc.IH [OF r(2)], intro allI impI)
    fix j assume "j < k"
    with Suc.prems(2) [rule_format, of "Suc j"]
    show "\<exists>v. read_integer t (h + int ((Suc i + j) * step)) = Inr v
        \<and> (hits ns v \<noteq> 0 \<longrightarrow> scan_line env h nm (Suc i + j) = Inr (line (Suc i + j)))" by simp
  qed
  moreover have "[i..<i + Suc k] = i # [Suc i..<Suc i + k]" by (simp add: upt_conv_Cons)
  moreover have "scan_word env h nm i v ns = (replicate (hits ns v) (line i), None)"
    using scan_word_hits v(2) by blast
  moreover have "0 < step" using t(3) by auto
  ultimately show ?case using u t(1,2) v(1)
    by (simp add: scan_words.simps [of env h nm ns i mem] Let_def del: upt_Suc)
qed

section \<open>Properties\<close>


definition demo_maps_env :: deref_env where
  "demo_maps_env = demo_deref\<lparr>dv_maps := [new_sect\<lparr>page_start := 0x1000, page_end := 0x2000, path := ''/bin/x''\<rparr>,
     new_sect\<lparr>page_start := 0x3000, page_end := 0x4000, path := ''[heap]''\<rparr>]\<rparr>"


text \<open>Fact: over a readable section of whole words, \<^verbatim>\<open>scan\<close> reports, in order, every word whose value lies in
  a needle range, once for each such range, and nothing else.\<close>
theorem scan_reports_pointers:
  assumes "t_ptrsize (dv_target env) = 4 \<or> t_ptrsize (dv_target env) = 8"
    and "hend - hstart = int (k * t_ptrsize (dv_target env))" "mem_read (dv_target env) hstart (hend - hstart) = Inr mem"
    and "\<forall>j < k. \<exists>v. read_integer (dv_target env) (hstart + int (j * t_ptrsize (dv_target env))) = Inr v
      \<and> (hits ns v \<noteq> 0 \<longrightarrow> scan_line env hstart hname j = Inr (line j))"
  shows "scan_sections env ns [(hstart, hend, hname)] = (concat (map (\<lambda>j.
    (case read_integer (dv_target env) (hstart + int (j * t_ptrsize (dv_target env))) of
       Inr v \<Rightarrow> replicate (hits ns v) (line j) | Inl _ \<Rightarrow> [])) [0..<k]), None)"
proof -
  have "nat (hend - hstart) = k * t_ptrsize (dv_target env)" unfolding assms(2) by (rule nat_int)
  then have "read_bytes (t_mem (dv_target env)) (hstart + int (0 * t_ptrsize (dv_target env))) (k * t_ptrsize (dv_target env)) = Some mem"
    using assms(3) by (auto simp: mem_read_def split: if_splits option.splits)
  from scan_words_lines [OF this refl refl assms(1), of ns hname line] assms(3,4)
  show ?thesis by simp
qed

theorem scan_reports_pointers_witness:
  "\<exists>l. scan_sections demo_deref [(0x1800, 0x1900, [])] [(0x1000, 0x1008, [])] = ([l], None)"
proof -
  let ?t = "dv_target demo_deref"
  have z: "t_ptrsize ?t = 8" by (simp add: demo_deref_def demo_target_def)
  have m: "mem_read ?t 0x1000 8 = Inr [0, 0x18, 0, 0, 0, 0, 0, 0]" "read_integer ?t 0x1000 = Inr 0x1800" by code_simp+
  have "format_address ?t 0x1000 = hexs0 18 0x1000"
    using z by (simp add: format_address_def hexs0_def fmt_x0_def align_address_mod)
  then have "py_int 16 (format_address ?t 0x1000) = Inr 0x1000" by (simp add: py_int_hexs0)
  moreover have "align_address ?t 0x1000 = 0x1000" using z by (simp add: align_address_mod)
  ultimately obtain l where l: "scan_line demo_deref 0x1000 [] 0 = Inr l"
    using demo_deref_result by (auto simp: scan_line_def pprint_dereferenced_def Let_def)
  show ?thesis
    using scan_reports_pointers [of demo_deref "0x1008" "0x1000" 1 "[0, 0x18, 0, 0, 0, 0, 0, 0]" "[(0x1800, 0x1900, [])]" "[]" "\<lambda>_. l"]
      z m l by (simp add: hits_def)
qed

end
