(* ===== verification/Events.thy ===== *)
theory Events
  imports MemCmds
begin

text \<open>
  Commands that interleave what they print with commands they make GDB execute: a computation yields
  the events in order and a result, and an exception keeps the events that came before it.
\<close>

datatype event = Print string | Exec string | WriteTty string string | SelectFrame nat | SwitchThread int
  | ResetRedirect | Ask string | WriteFile string string | MakeDir string | RemoveDir string

type_synonym 'a io = "event list \<times> 'a result"

definition bindI :: "'a io \<Rightarrow> ('a \<Rightarrow> 'b io) \<Rightarrow> 'b io" where
  "bindI m f = (case m of (es, Inl x) \<Rightarrow> (es, Inl x)
     | (es, Inr v) \<Rightarrow> (case f v of (fs, r) \<Rightarrow> (es @ fs, r)))"

definition retI :: "'a \<Rightarrow> 'a io" where "retI v = ([], Inr v)"
definition resI :: "'a result \<Rightarrow> 'a io" where "resI r = ([], r)"
definition emit :: "event \<Rightarrow> unit io" where "emit e = ([e], Inr ())"
definition printI :: "string \<Rightarrow> unit io" where "printI l = emit (Print l)"
definition raiseI :: "exn_class \<Rightarrow> string \<Rightarrow> 'a io" where "raiseI c m = ([], raise c m)"

text \<open>\<^verbatim>\<open>gdb.execute\<close>, with the answer of GDB\<close>
definition execI :: "(string \<Rightarrow> unit result) \<Rightarrow> string \<Rightarrow> unit io" where
  "execI gdb cmd = ([Exec cmd], gdb cmd)"

definition catchI :: "'a io \<Rightarrow> (py_exn \<Rightarrow> 'a io option) \<Rightarrow> 'a io" where
  "catchI m h = (case m of (es, Inr v) \<Rightarrow> (es, Inr v)
     | (es, Inl x) \<Rightarrow> (case h x of None \<Rightarrow> (es, Inl x) | Some k \<Rightarrow> (case k of (fs, r) \<Rightarrow> (es @ fs, r))))"

fun eachI :: "('x \<Rightarrow> unit io) \<Rightarrow> 'x list \<Rightarrow> unit io" where
  "eachI f [] = retI ()"
| "eachI f (x # xs) = bindI (f x) (\<lambda>_. eachI f xs)"

lemmas io_defs = bindI_def retI_def resI_def emit_def printI_def raiseI_def execI_def

definition print_all :: "string list \<Rightarrow> unit io" where
  "print_all ls = eachI printI ls"

lemma print_all_events: "print_all ls = (map Print ls, Inr ())"
  by (induction ls) (simp_all add: print_all_def io_defs)

lemma bindI_ret [simp]: "bindI (retI v) f = f v"
  by (cases "f v") (simp add: io_defs)

lemma bindI_assoc: "bindI (bindI m f) g = bindI m (\<lambda>v. bindI (f v) g)"
  by (auto simp: bindI_def split: prod.splits sum.splits)

lemma eachI_ok:
  assumes "\<And>x. x \<in> set xs \<Longrightarrow> f x = (ev x, Inr ())"
  shows "eachI f xs = (concat (map ev xs), Inr ())"
  using assms by (induction xs) (simp_all add: io_defs)

section \<open>Events and a state\<close>

text \<open>Computations that also change a state, which keeps its changes when an exception is raised\<close>
type_synonym ('s, 'a) sio = "'s \<Rightarrow> event list \<times> 'a result \<times> 's"

definition bindX :: "('s, 'a) sio \<Rightarrow> ('a \<Rightarrow> ('s, 'b) sio) \<Rightarrow> ('s, 'b) sio" where
  "bindX m f s = (case m s of
     (es, Inl x, s') \<Rightarrow> (es, Inl x, s')
   | (es, Inr v, s') \<Rightarrow> (case f v s' of (fs, r, s'') \<Rightarrow> (es @ fs, r, s'')))"

definition retX :: "'a \<Rightarrow> ('s, 'a) sio" where "retX v s = ([], Inr v, s)"
definition resX :: "'a result \<Rightarrow> ('s, 'a) sio" where "resX r s = ([], r, s)"
definition raiseX :: "exn_class \<Rightarrow> string \<Rightarrow> ('s, 'a) sio" where "raiseX c m s = ([], raise c m, s)"
definition getX :: "('s \<Rightarrow> 'a) \<Rightarrow> ('s, 'a) sio" where "getX f s = ([], Inr (f s), s)"
definition modX :: "('s \<Rightarrow> 's) \<Rightarrow> ('s, unit) sio" where "modX f s = ([], Inr (), f s)"
definition emitX :: "event \<Rightarrow> ('s, unit) sio" where "emitX e s = ([e], Inr (), s)"
definition printX :: "string \<Rightarrow> ('s, unit) sio" where "printX l = emitX (Print l)"

definition catchX :: "('s, 'a) sio \<Rightarrow> (py_exn \<Rightarrow> ('s, 'a) sio option) \<Rightarrow> ('s, 'a) sio" where
  "catchX m h s = (case m s of
     (es, Inr v, s') \<Rightarrow> (es, Inr v, s')
   | (es, Inl x, s') \<Rightarrow> (case h x of None \<Rightarrow> (es, Inl x, s')
       | Some k \<Rightarrow> (case k s' of (fs, r, s'') \<Rightarrow> (es @ fs, r, s''))))"

fun eachX :: "('x \<Rightarrow> ('s, unit) sio) \<Rightarrow> 'x list \<Rightarrow> ('s, unit) sio" where
  "eachX f [] = retX ()"
| "eachX f (x # xs) = bindX (f x) (\<lambda>_. eachX f xs)"

lemmas sio_defs = bindX_def retX_def resX_def raiseX_def getX_def modX_def emitX_def printX_def

text \<open>Every outcome keeps a property of the state\<close>
definition keepsX :: "('s \<Rightarrow> bool) \<Rightarrow> ('s, 'a) sio \<Rightarrow> bool" where
  "keepsX P m \<longleftrightarrow> (\<forall>s. P s \<longrightarrow> P (snd (snd (m s))))"

lemma keepsX_bind [keeps_intros]: "keepsX P m \<Longrightarrow> (\<And>v. keepsX P (f v)) \<Longrightarrow> keepsX P (bindX m f)"
  unfolding keepsX_def bindX_def by (auto split: prod.split sum.split) (metis snd_conv)+

lemma keepsX_pure [keeps_intros]:
  "keepsX P (retX v)" "keepsX P (resX r)" "keepsX P (raiseX c m)" "keepsX P (getX g)" "keepsX P (emitX e)" "keepsX P (printX l)"
  by (simp_all add: keepsX_def sio_defs)

lemma keepsX_mod: "(\<And>s. P s \<Longrightarrow> P (f s)) \<Longrightarrow> keepsX P (modX f)"
  by (simp add: keepsX_def sio_defs)

lemma keepsX_each [keeps_intros]: "(\<And>x. keepsX P (f x)) \<Longrightarrow> keepsX P (eachX f xs)"
  by (induction xs) (auto intro: keeps_intros)

lemma keepsX_catch [keeps_intros]:
  assumes "keepsX P m" "\<And>x k. h x = Some k \<Longrightarrow> keepsX P k"
  shows "keepsX P (catchX m h)"
  using assms unfolding keepsX_def catchX_def
  by (auto split: prod.split sum.split option.split) (metis snd_conv)+

end
