(* ===== verification/Context.thy ===== *)
theory Context
  imports Events Deref
begin

text \<open>
  The \<^verbatim>\<open>context\<close> command of \<^verbatim>\<open>scripts/gef.py\<close>: the driver over the layout, the titles, and the panes
  legend, regs, stack, threads, trace and extra.  The panes over code are in the theory ContextCode.
\<close>

record ctx_env =
  cx_deref :: deref_env
  cx_cols :: int
  cx_gdb :: "string \<Rightarrow> unit result"

abbreviation cx_target :: "ctx_env \<Rightarrow> target" where "cx_target c \<equiv> dv_target (cx_deref c)"
abbreviation cx_nc :: "ctx_env \<Rightarrow> bool" where "cx_nc c \<equiv> dv_no_color (cx_deref c)"
abbreviation cx_theme :: "ctx_env \<Rightarrow> string \<Rightarrow> string" where "cx_theme c \<equiv> dv_theme (cx_deref c)"
abbreviation cx_paint :: "ctx_env \<Rightarrow> string \<Rightarrow> string \<Rightarrow> string" where
  "cx_paint c key txt \<equiv> colorify (cx_nc c) txt (cx_theme c key)"

section \<open>Titles and the legend\<close>

definition title_text :: "ctx_env \<Rightarrow> string \<Rightarrow> string" where
  "title_text c m =
     (if m = [] then cx_paint c ''theme.context_title_line'' (rep_str HORIZONTAL_LINE (cx_cols c))
      else let width = max (cx_cols c - (int (length m) + 6)) 0 in
        cx_paint c ''theme.context_title_line'' (rep_str HORIZONTAL_LINE width @ '' '')
        @ cx_paint c ''theme.context_title_message'' m
        @ cx_paint c ''theme.context_title_line'' (CHR '' '' # rep_str HORIZONTAL_LINE 4))"

definition context_title :: "ctx_env \<Rightarrow> string option \<Rightarrow> unit io" where
  "context_title c m = (case m of None \<Rightarrow> retI () | Some x \<Rightarrow> printI (title_text c x))"

definition show_legend :: "ctx_env \<Rightarrow> unit io" where
  "show_legend c =
     (if cx_nc c then retI ()
      else printI (''[ Legend: '' @ cx_paint c ''theme.registers_value_changed'' ''Modified register''
        @ '' | '' @ cx_paint c ''theme.address_code'' ''Code'' @ '' | '' @ cx_paint c ''theme.address_heap'' ''Heap''
        @ '' | '' @ cx_paint c ''theme.address_stack'' ''Stack'' @ '' | '' @ cx_paint c ''theme.dereference_string'' ''String''
        @ '' ]''))"

section \<open>The driver\<close>

record pane =
  pn_show :: "unit io"
  pn_title :: "string option io option"
  pn_condition :: "bool io option"

text \<open>The body of the \<^verbatim>\<open>try\<close>\<close>
definition show_pane :: "ctx_env \<Rightarrow> (string \<times> pane) list \<Rightarrow> string \<Rightarrow> unit io" where
  "show_pane c panes section =
     (case map_of panes section of
        None \<Rightarrow> raiseI KeyError section
      | Some p \<Rightarrow>
          bindI (case pn_condition p of None \<Rightarrow> retI True | Some b \<Rightarrow> b) (\<lambda>ok.
          if \<not> ok then retI ()
          else bindI (case pn_title p of None \<Rightarrow> retI () | Some t \<Rightarrow> bindI t (context_title c)) (\<lambda>_. pn_show p)))"

text \<open>A memory error is printed, an index error skipped, any other exception leaves the command\<close>
definition section_handler :: "ctx_env \<Rightarrow> py_exn \<Rightarrow> unit io option" where
  "section_handler c x =
     (if exn_cls x = GdbMemoryError then Some (printI (err_line (cx_nc c) (exn_msg x)))
      else if exn_cls x = IndexError then Some (retI ()) else None)"

definition show_section :: "ctx_env \<Rightarrow> (string \<times> pane) list \<Rightarrow> string \<Rightarrow> unit io" where
  "show_section c panes section =
     (if section = [] then raiseI IndexError ''string index out of range''
      else if hd section = CHR ''-'' then retI ()
      else catchI (show_pane c panes section) (section_handler c))"

record ctx_conf =
  cf_enable :: bool
  cf_hidden :: bool
  cf_layout :: string
  cf_redirect :: string
  cf_clear :: bool
  cf_writable :: bool
  cf_tty :: "unit result"

definition enable_redirect_output :: "ctx_env \<Rightarrow> string \<Rightarrow> unit io" where
  "enable_redirect_output c to_file =
     (if CHR '' '' \<in> set to_file then raiseI ValueError ''Target filepath cannot contain spaces''
      else eachI (execI (cx_gdb c)) [''set logging overwrite'', ''set logging file '' @ to_file,
        ''set logging redirect on'', ''set logging on''])"

definition disable_redirect_output :: "ctx_env \<Rightarrow> unit io" where
  "disable_redirect_output c = eachI (execI (cx_gdb c)) [''set logging off'', ''set logging redirect off'']"

text \<open>\<^verbatim>\<open>clear_screen\<close>; \<^verbatim>\<open>opened\<close> is the answer of opening and writing the terminal\<close>
definition clear_screen :: "ctx_env \<Rightarrow> unit result \<Rightarrow> string \<Rightarrow> unit io" where
  "clear_screen c opened tty =
     (if tty = [] then execI (cx_gdb c) ''shell clear -x''
      else case opened of
        Inr _ \<Rightarrow> emit (WriteTty tty (ESC # ''[H'' @ ESC # ''[J''))
      | Inl x \<Rightarrow> if exn_cls x = PermissionError then emit ResetRedirect else resI (Inl x))"

definition context_cmd :: "ctx_env \<Rightarrow> ctx_conf \<Rightarrow> string \<Rightarrow> (string \<times> pane) list \<Rightarrow> string list \<Rightarrow> unit io" where
  "context_cmd c f usage panes argv =
     (if \<not> t_alive (cx_target c) then printI (warn_line (cx_nc c) ''No debugging session active'')
      else if \<not> cf_enable f \<or> cf_hidden f then retI ()
      else if \<not> list_all (\<lambda>s. s \<in> set (map fst panes)) argv
      then printI (err_line (cx_nc c) (''Syntax'' @ [CHR 0x0A] @ usage))
      else let layout = (if argv \<noteq> [] then argv else split_ws (strip (cf_layout f)));
               redirect = cf_redirect f; redirecting = (redirect \<noteq> [] \<and> cf_writable f) in
        if layout = [] then retI ()
        else bindI (if redirecting then enable_redirect_output c redirect else retI ()) (\<lambda>_.
             bindI (if cf_clear f \<and> argv = [] then clear_screen c (cf_tty f) redirect else retI ()) (\<lambda>_.
             bindI (eachI (show_section c panes) layout) (\<lambda>_.
             bindI (context_title c (Some [])) (\<lambda>_.
               if redirecting then disable_redirect_output c else retI ())))))"

section \<open>Registers\<close>

text \<open>What GDB answers for a register: no value, a value with the flags type or another, an error of
  GDB, or any other exception of the conversion\<close>
datatype reg_answer = RegVoid | RegValue bool int | RegGdbError | RegOther

record reg_env =
  rg_all :: "string list"
  rg_eval :: "string \<Rightarrow> reg_answer"
  rg_raw :: "string \<Rightarrow> int result"
  rg_old :: "(string \<times> int option) list"
  rg_flags :: "string result option"

text \<open>The value shown and whether it has the flags type; None skips the register\<close>
definition reg_value :: "reg_env \<Rightarrow> string \<Rightarrow> (int \<times> bool) option result" where
  "reg_value e r =
     (case rg_eval e r of
        RegVoid \<Rightarrow> Inr None
      | RegValue fl v \<Rightarrow> Inr (Some (v, fl))
      | RegGdbError \<Rightarrow> bindE (rg_raw e r) (\<lambda>v. Inr (Some (v, False)))
      | RegOther \<Rightarrow> Inr (Some (0, False)))"

definition old_value :: "reg_env \<Rightarrow> string \<Rightarrow> int" where
  "old_value e r = (case map_of (rg_old e) r of Some (Some v) \<Rightarrow> v | _ \<Rightarrow> 0)"

definition widest :: "string list \<Rightarrow> nat" where
  "widest rs = foldr max (map length rs) 0"

definition reg_cell :: "ctx_env \<Rightarrow> reg_env \<Rightarrow> string \<Rightarrow> int \<Rightarrow> bool \<Rightarrow> string" where
  "reg_cell c e r new_value flag =
     (let t = cx_target c; padreg = ljust (widest (rg_all e)) r;
          v = align_address t new_value; old = align_address t (old_value e r);
          addr = dv_lookup (cx_deref c) (align_address t v) in
      cx_paint c (if v = old then ''theme.registers_register_name'' else ''theme.registers_value_changed'') padreg @ '': ''
      @ (if flag \<or> \<not> addr_valid (dv_maps (cx_deref c)) (value_of addr) then format_address_spaces t True v
         else dv_str (cx_deref c) addr) @ '' '')"

text \<open>The lines of the pane: \<^verbatim>\<open>nb\<close> registers on each\<close>
fun regs_loop :: "ctx_env \<Rightarrow> reg_env \<Rightarrow> string list \<Rightarrow> int \<Rightarrow> int \<Rightarrow> string \<Rightarrow> string list \<Rightarrow> unit io" where
  "regs_loop c e ignored nb i line [] = (if line \<noteq> [] then printI line else retI ())"
| "regs_loop c e ignored nb i line (r # rs) =
     (if r \<in> set ignored then regs_loop c e ignored nb i line rs
      else case reg_value e r of
        Inl x \<Rightarrow> resI (Inl x)
      | Inr None \<Rightarrow> regs_loop c e ignored nb i line rs
      | Inr (Some (v, fl)) \<Rightarrow>
          (let line' = line @ reg_cell c e r v fl in
           if nb = 0 then raiseI ZeroDivisionError ''integer modulo by zero''
           else if i mod nb = 0 then bindI (printI line') (\<lambda>_. regs_loop c e ignored nb (i + 1) [] rs)
           else regs_loop c e ignored nb (i + 1) line' rs))"

definition context_regs :: "ctx_env \<Rightarrow> reg_env \<Rightarrow> bool \<Rightarrow> string \<Rightarrow> unit io" where
  "context_regs c e raw ignore_registers =
     bindI (context_title c (Some ''registers'')) (\<lambda>_.
       let ignored = split_ws ignore_registers in
       if \<not> raw then execI (cx_gdb c) (''registers '' @ join '' '' (filter (\<lambda>r. r \<notin> set ignored) (rg_all e)))
       else if rg_all e = [] then raiseI ValueError ''max() arg is an empty sequence''
       else let l = int (widest (rg_all e)) + 5 + int (t_ptrsize (cx_target c)) * 2 in
         bindI (regs_loop c e ignored (cx_cols c div l) 1 [] (rg_all e)) (\<lambda>_.
           case rg_flags e of None \<Rightarrow> retI () | Some h \<Rightarrow> bindI (resI h) (\<lambda>txt. printI (''Flags: '' @ txt))))"

text \<open>\<^verbatim>\<open>update_registers\<close>\<close>
definition update_registers :: "reg_env \<Rightarrow> (string \<times> int option) list" where
  "update_registers e = foldl (\<lambda>old r. AList.update r
     (Some (case rg_raw e r of Inr v \<Rightarrow> v | Inl _ \<Rightarrow> 0)) old) (rg_old e) (rg_all e)"

section \<open>The stack\<close>

definition context_stack :: "ctx_env \<Rightarrow> bool \<Rightarrow> bool \<Rightarrow> int \<Rightarrow> int result \<Rightarrow> unit io" where
  "context_stack c highlight_regex show_raw nb_lines stack_pointer =
     bindI (context_title c (Some ''stack'')) (\<lambda>_.
     catchI
       (bindI (resI stack_pointer) (\<lambda>sp.
          if show_raw then
            bindI (resI (bindE (mem_read (cx_target c) sp (0x10 * nb_lines))
                (hexdump (dv_dis (cx_deref c)) (cx_nc c) highlight_regex sp))) (\<lambda>ls. printI (join [CHR 0x0A] ls))
          else execI (cx_gdb c) (''dereference -l '' @ decs nb_lines @ '' '' @ hexs sp)))
       (\<lambda>x. if exn_cls x = GdbMemoryError
             then Some (printI (err_line (cx_nc c) ''Cannot read memory from $SP (corrupted stack pointer?)'')) else None))"

section \<open>The backtrace\<close>

text \<open>A frame as GDB describes it: whether it is valid, its pc, its name, and its arguments with their
  values as text.  The frames are numbered from the newest.\<close>
record frame =
  fr_valid :: bool
  fr_pc :: int
  fr_name :: "string option"
  fr_args :: "(string \<times> string) list"

text \<open>None is a pc that cannot be read, which ends the backtrace\<close>
definition frame_items :: "ctx_env \<Rightarrow> frame \<Rightarrow> string list option result" where
  "frame_items c f =
     (let nc = cx_nc c; d = dv_dis (cx_deref c); pc = hexs (fr_pc f);
          name = (case fr_name f of None \<Rightarrow> [] | Some n \<Rightarrow> n) in
      if name \<noteq> [] then
        Inr (Some [pc, greenify nc name @ ''('' @ join '', '' (map (\<lambda>(a, v). colorify nc a ''yellow'' @ ''='' @ v) (fr_args f)) @ '')''])
      else case gef_get_instruction_at d (fr_pc f) of
        Inl x \<Rightarrow> if exn_cls x = GdbMemoryError then Inr None else Inl x
      | Inr i \<Rightarrow>
          bindE (get_location d (fr_pc f)) (\<lambda>loc.
            Inr (Some [pc, redify nc ((case loc of None \<Rightarrow> [] | Some (n, o1) \<Rightarrow> '' <'' @ n @ ''+'' @ fmt_x o1 @ ''> '')
                   @ mnemonic i @ '' '' @ join '', '' (operands i))])))"

definition frame_line :: "ctx_env \<Rightarrow> nat \<Rightarrow> nat \<Rightarrow> string list \<Rightarrow> string" where
  "frame_line c orig level items =
     ''['' @ colorify (cx_nc c) (CHR ''#'' # decs (int level)) (if level = orig then ''bold green'' else ''bold pink'')
     @ ''] '' @ join RIGHT_ARROW items"

text \<open>The loop from frame number \<^verbatim>\<open>level\<close> on; None is the loop that never leaves an invalid frame\<close>
fun trace_loop :: "ctx_env \<Rightarrow> nat \<Rightarrow> nat \<Rightarrow> int \<Rightarrow> frame list \<Rightarrow> unit io option" where
  "trace_loop c orig level nb [] = Some (retI ())"
| "trace_loop c orig level nb (f # fs) =
     (if \<not> fr_valid f then None
      else case frame_items c f of
        Inl x \<Rightarrow> Some (bindI (emit (SelectFrame level)) (\<lambda>_. resI (Inl x)))
      | Inr None \<Rightarrow> Some (emit (SelectFrame level))
      | Inr (Some items) \<Rightarrow>
          (let shown = bindI (emit (SelectFrame level)) (\<lambda>_. printI (frame_line c orig level items)) in
           if nb - 1 = 0 then Some shown
           else map_option (\<lambda>rest. bindI shown (\<lambda>_. rest)) (trace_loop c orig (level + 1) (nb - 1) fs)))"

text \<open>The frames from the newest on, and the number of the selected one\<close>
definition context_trace ::
  "ctx_env \<Rightarrow> int \<Rightarrow> int \<Rightarrow> bool \<Rightarrow> frame list \<Rightarrow> nat \<Rightarrow> unit io option" where
  "context_trace c nb_backtrace nb_before has_decorator frames orig =
     (let title = context_title c (Some ''trace'') in
      if nb_backtrace \<le> 0 then Some title
      else if \<not> has_decorator then Some (bindI title (\<lambda>_. execI (cx_gdb c) (''backtrace '' @ decs nb_backtrace)))
      else let level = max (int (Suc orig) - nb_before - 1) 0 in
        if level > int orig then Some (bindI title (\<lambda>_. raiseI IndexError ''list index out of range''))
        else map_option (\<lambda>loop. bindI title (\<lambda>_. bindI loop (\<lambda>_. emit (SelectFrame orig))))
               (trace_loop c orig (nat level) nb_backtrace (drop (nat level) frames)))"

section \<open>Threads\<close>

datatype thread_status = ThRunning | ThStopped int "string option" | ThExited | ThOther

text \<open>A thread: its number, name, status (with the pc and the name of its frame), and what
  \<^verbatim>\<open>info program\<close> prints in it\<close>
record thr =
  tr_num :: int
  tr_name :: "string option"
  tr_status :: thread_status
  tr_program :: "string result"

text \<open>The first line that tells\<close>
fun stop_reason_lines :: "string list \<Rightarrow> string" where
  "stop_reason_lines [] = ''STOPPED''"
| "stop_reason_lines (l # ls) =
     (let line = strip l in
      if startswith line ''It stopped with signal ''
      then hd (split_max (CHR '','') 1 (str_replace ''It stopped with signal '' [] line))
      else if line = ''The program being debugged is not being run.'' then ''NOT RUNNING''
      else if line = ''It stopped at a breakpoint that has since been deleted.'' then ''TEMPORARY BREAKPOINT''
      else if startswith line ''It stopped at breakpoint '' then ''BREAKPOINT''
      else if line = ''It stopped after being stepped.'' then ''SINGLE STEP''
      else stop_reason_lines ls)"

definition stop_reason :: "string \<Rightarrow> string" where
  "stop_reason res = (if res = [] then ''NOT RUNNING'' else stop_reason_lines (splitlines res))"

definition stopped_text :: "ctx_env \<Rightarrow> thr \<Rightarrow> int \<Rightarrow> string option \<Rightarrow> string result" where
  "stopped_text c th pc name0 =
     (let nc = cx_nc c; name = (case name0 of None \<Rightarrow> [] | Some n \<Rightarrow> n) in
      bindE (if name \<noteq> [] then Inr name
             else bindE (get_location (dv_dis (cx_deref c)) pc) (\<lambda>loc.
               Inr (case loc of None \<Rightarrow> [] | Some (n, o1) \<Rightarrow> ''<'' @ n @ ''+'' @ fmt_x o1 @ ''>''))) (\<lambda>frame_name.
      bindE (tr_program th) (\<lambda>txt.
        Inr ('' '' @ colorify nc (hexs pc) ''blue'' @ '' in ''
          @ colorify nc (if frame_name = [] then ''??'' else frame_name) ''bold yellow'' @ '' (), reason: ''
          @ colorify nc (stop_reason txt) ''bold pink''))))"

definition thread_line :: "ctx_env \<Rightarrow> int \<Rightarrow> nat \<Rightarrow> thr \<Rightarrow> unit io" where
  "thread_line c selected i th =
     (let nc = cx_nc c;
          head = ''['' @ colorify nc (CHR ''#'' # decs (int i)) (if tr_num th = selected then ''bold green'' else ''bold pink'')
            @ ''] Id '' @ decs (tr_num th) @ '', ''
            @ (case tr_name th of Some n \<Rightarrow> if n = [] then [] else ''Name: '' @ [CHR 0x22] @ n @ [CHR 0x22] @ '', '' | None \<Rightarrow> [])
      in case tr_status th of
           ThRunning \<Rightarrow> printI (head @ colorify nc ''running'' ''bold green'')
         | ThStopped pc name \<Rightarrow>
             bindI (emit (SwitchThread (tr_num th))) (\<lambda>_. bindI (resI (stopped_text c th pc name)) (\<lambda>txt.
               printI (head @ colorify nc ''stopped'' ''bold red'' @ txt)))
         | ThExited \<Rightarrow> printI (head @ colorify nc ''exited'' ''bold yellow'')
         | ThOther \<Rightarrow> printI head)"

text \<open>\<^verbatim>\<open>threads0\<close> are the threads of the inferior, newest last; the selected thread and frame are
  restored at the end\<close>
definition context_threads :: "ctx_env \<Rightarrow> int \<Rightarrow> thr list \<Rightarrow> int \<Rightarrow> nat \<Rightarrow> unit io" where
  "context_threads c nb_lines threads0 selected selected_frame =
     bindI (context_title c (Some ''threads'')) (\<lambda>_.
       let threads = (if nb_lines > 0 then take (nat nb_lines) (rev threads0) else rev threads0) in
       if nb_lines = 0 then retI ()
       else if threads = [] then printI (err_line (cx_nc c) ''No thread selected'')
       else bindI (eachI (\<lambda>(i, th). thread_line c selected i th) (enumerate 0 threads)) (\<lambda>_.
            bindI (emit (SwitchThread selected)) (\<lambda>_. emit (SelectFrame selected_frame))))"

section \<open>Messages\<close>

definition message_line :: "bool \<Rightarrow> string \<times> string \<Rightarrow> string" where
  "message_line nc m =
     (if fst m = ''error'' then err_line nc (snd m) else if fst m = ''warn'' then warn_line nc (snd m)
      else if fst m = ''success'' then ok_line nc (snd m) else info_line nc (snd m))"

definition context_additional_information :: "ctx_env \<Rightarrow> messages \<Rightarrow> unit io" where
  "context_additional_information c ms =
     (if ms = [] then retI ()
      else bindI (context_title c (Some ''extra'')) (\<lambda>_. print_all (map (message_line (cx_nc c)) ms)))"

text \<open>The memory pane: the commands of the watched ranges, each after its title\<close>
definition context_memory_pane :: "ctx_env \<Rightarrow> watches \<Rightarrow> unit io" where
  "context_memory_pane c ws = eachI (\<lambda>(title, cmd).
     bindI (context_title c (Some title)) (\<lambda>_. execI (cx_gdb c) cmd)) (context_memory ws)"

section \<open>Facts\<close>

definition dashed :: "string \<Rightarrow> bool" where
  "dashed s \<longleftrightarrow> s \<noteq> [] \<and> hd s = CHR ''-''"

text \<open>A section that lets the command go on\<close>
definition harmless :: "ctx_env \<Rightarrow> (string \<times> pane) list \<Rightarrow> string \<Rightarrow> bool" where
  "harmless c panes s \<longleftrightarrow> s \<noteq> [] \<and> (dashed s \<or> (case snd (show_pane c panes s) of Inr _ \<Rightarrow> True
     | Inl x \<Rightarrow> exn_cls x = GdbMemoryError \<or> exn_cls x = IndexError))"

text \<open>What a section shows: nothing with a dash, and the message of a memory error after the rest\<close>
definition section_events :: "ctx_env \<Rightarrow> (string \<times> pane) list \<Rightarrow> string \<Rightarrow> event list" where
  "section_events c panes s =
     (if dashed s then [] else fst (show_pane c panes s) @ (case snd (show_pane c panes s) of
        Inl x \<Rightarrow> if exn_cls x = GdbMemoryError then [Print (err_line (cx_nc c) (exn_msg x))] else []
      | Inr _ \<Rightarrow> []))"

lemma show_section_harmless:
  assumes "harmless c panes s"
  shows "show_section c panes s = (section_events c panes s, Inr ())"
proof (cases "dashed s")
  case True
  then show ?thesis by (simp add: show_section_def section_events_def dashed_def retI_def)
next
  case False
  obtain es r where sp: "show_pane c panes s = (es, r)" by fastforce
  show ?thesis
  proof (cases r)
    case (Inl x)
    then show ?thesis using assms False sp
      by (cases x) (auto simp: harmless_def show_section_def section_events_def dashed_def catchI_def section_handler_def io_defs)
  next
    case (Inr u)
    then show ?thesis using assms False sp
      by (simp add: harmless_def show_section_def section_events_def dashed_def catchI_def)
  qed
qed

lemma eachI_append: "eachI f (xs @ ys) = bindI (eachI f xs) (\<lambda>_. eachI f ys)"
  by (induction xs) (simp_all add: bindI_assoc)

lemma eachI_harmless:
  "\<forall>s \<in> set ss. harmless c panes s \<Longrightarrow>
     eachI (show_section c panes) ss = (concat (map (section_events c panes) ss), Inr ())"
  by (rule eachI_ok) (simp add: show_section_harmless)

definition frame_events :: "ctx_env \<Rightarrow> nat \<Rightarrow> (frame \<Rightarrow> string list) \<Rightarrow> frame list \<Rightarrow> nat \<Rightarrow> event list" where
  "frame_events c orig items frames i = [SelectFrame i, Print (frame_line c orig i (items (frames ! i)))]"

lemma trace_loop_shows:
  assumes "\<forall>f \<in> set fs. fr_valid f \<and> frame_items c f = Inr (Some (items f))" "0 < nb"
    and "fs = drop level frames"
  shows "trace_loop c orig level nb fs = Some (concat (map (frame_events c orig items frames)
    [level ..< min (level + nat nb) (length frames)]), Inr ())"
  using assms
proof (induction fs arbitrary: level nb)
  case Nil
  then show ?case by (simp add: retI_def min_def)
next
  case (Cons f fs)
  have len: "level < length frames" using Cons.prems(3) by (metis drop_all list.distinct(1) not_le)
  have f: "f = frames ! level" "fs = drop (Suc level) frames"
    using Cons.prems(3) Cons_nth_drop_Suc [OF len] by (metis list.inject)+
  have up: "[level ..< min (level + nat nb) (length frames)]
      = level # [Suc level ..< min (level + nat nb) (length frames)]"
    using len Cons.prems(2) by (intro upt_conv_Cons) simp
  show ?case
  proof (cases "nb - 1 = 0")
    case True
    then have "min (level + nat nb) (length frames) = Suc level" using len by simp
    then show ?thesis using Cons.prems(1) True f(1) by (simp add: up io_defs frame_events_def del: upt_Suc) simp
  next
    case False
    have "trace_loop c orig (Suc level) (nb - 1) fs = Some (concat (map (frame_events c orig items frames)
        [Suc level ..< min (Suc level + nat (nb - 1)) (length frames)]), Inr ())"
      using Cons.prems False f(2) by (intro Cons.IH) auto
    moreover have "Suc level + nat (nb - 1) = level + nat nb" using Cons.prems(2) by simp
    ultimately have rec: "trace_loop c orig (Suc level) (nb - 1) fs = Some (concat (map (frame_events c orig items frames)
        [Suc level ..< min (level + nat nb) (length frames)]), Inr ())" by (simp only:)
    then show ?thesis using Cons.prems(1) False f(1) unfolding up
      by (simp add: io_defs frame_events_def [of c orig items frames level])
  qed
qed

section \<open>Properties\<close>

text \<open>C14: the context shows the sections of its layout in order, leaving out those with a dash; a memory
  error or an index error of one section does not keep the following ones from being shown, and the
  closing line is printed last.\<close>
theorem context_shows_layout:
  assumes "t_alive (cx_target c)" "cf_enable f" "\<not> cf_hidden f" "cf_redirect f = []" "\<not> cf_clear f"
    and "\<forall>s \<in> set argv. s \<in> set (map fst panes)"
    and "layout = (if argv \<noteq> [] then argv else split_ws (strip (cf_layout f)))" "layout \<noteq> []"
    and "\<forall>s \<in> set layout. harmless c panes s"
  shows "context_cmd c f usage panes argv
    = (concat (map (section_events c panes) layout) @ [Print (title_text c [])], Inr ())"
proof -
  have "list_all (\<lambda>s. s \<in> set (map fst panes)) argv" using assms(6) by (simp add: list_all_iff)
  then show ?thesis using assms(1-5,8) eachI_harmless [OF assms(9)]
    unfolding context_cmd_def assms(7) [symmetric]
    by (simp add: Let_def context_title_def) (simp add: io_defs)
qed

definition demo_ctx_env :: ctx_env where
  "demo_ctx_env = \<lparr>cx_deref = demo_deref, cx_cols = 20, cx_gdb = (\<lambda>_. Inr ())\<rparr>"

definition demo_conf :: ctx_conf where
  "demo_conf = \<lparr>cf_enable = True, cf_hidden = False, cf_layout = ''regs -code stack'', cf_redirect = [],
     cf_clear = False, cf_writable = False, cf_tty = Inr ()\<rparr>"

definition demo_panes :: "(string \<times> pane) list" where
  "demo_panes = [(''regs'', \<lparr>pn_show = raiseI GdbMemoryError ''unreadable'', pn_title = None, pn_condition = None\<rparr>),
     (''code'', \<lparr>pn_show = printI ''never'', pn_title = None, pn_condition = None\<rparr>),
     (''stack'', \<lparr>pn_show = printI ''rsp'', pn_title = None, pn_condition = None\<rparr>)]"

theorem context_shows_layout_witness:
  "context_cmd demo_ctx_env demo_conf [] demo_panes []
     = ([Print (err_line True ''unreadable''), Print ''rsp'', Print (title_text demo_ctx_env [])], Inr ())"
proof -
  have a: "t_alive (cx_target demo_ctx_env)" by (simp add: demo_ctx_env_def demo_deref_def demo_target_def)
  have l: "split_ws (strip (cf_layout demo_conf)) = [''regs'', ''-code'', ''stack'']" by code_simp
  have h: "\<forall>s \<in> set [''regs'', ''-code'', ''stack'']. harmless demo_ctx_env demo_panes s"
    by (simp add: harmless_def dashed_def show_pane_def demo_panes_def io_defs)
  have n: "cx_nc demo_ctx_env" by (simp add: demo_ctx_env_def demo_deref_def)
  have e: "concat (map (section_events demo_ctx_env demo_panes) [''regs'', ''-code'', ''stack''])
      = [Print (err_line True ''unreadable''), Print ''rsp'']"
    using n by (simp add: section_events_def dashed_def show_pane_def demo_panes_def io_defs)
  show ?thesis
    using context_shows_layout [OF a, of demo_conf "[]" demo_panes "[''regs'', ''-code'', ''stack'']" "[]"] l h e
    by (simp add: demo_conf_def)
qed

text \<open>Fact: a name in the layout setting that is no pane is not skipped: it raises \<^verbatim>\<open>KeyError\<close>, and neither
  the sections after it nor the closing line are shown.\<close>
theorem unknown_section_ends_context:
  assumes "t_alive (cx_target c)" "cf_enable f" "\<not> cf_hidden f" "cf_redirect f = []" "\<not> cf_clear f"
    and "split_ws (strip (cf_layout f)) = pre @ s # post" "\<forall>r \<in> set pre. harmless c panes r"
    and "map_of panes s = None" "s \<noteq> []" "\<not> dashed s"
  shows "context_cmd c f usage panes [] = (concat (map (section_events c panes) pre), raise KeyError s)"
proof -
  have "show_section c panes s = ([], raise KeyError s)"
    using assms(8-10) by (simp add: show_section_def show_pane_def dashed_def catchI_def section_handler_def io_defs)
  then have "eachI (show_section c panes) (pre @ s # post) = (concat (map (section_events c panes) pre), raise KeyError s)"
    using eachI_harmless [OF assms(7)] by (simp add: eachI_append io_defs)
  then show ?thesis using assms(1-6) by (simp add: context_cmd_def Let_def) (simp add: io_defs)
qed

theorem unknown_section_ends_context_witness:
  "context_cmd demo_ctx_env (demo_conf\<lparr>cf_layout := ''stack nope regs''\<rparr>) [] demo_panes []
     = ([Print ''rsp''], raise KeyError ''nope'')"
proof -
  have a: "t_alive (cx_target demo_ctx_env)" by (simp add: demo_ctx_env_def demo_deref_def demo_target_def)
  have l: "split_ws (strip ''stack nope regs'') = [''stack''] @ ''nope'' # [''regs'']" by code_simp
  have h: "\<forall>r \<in> set [''stack'']. harmless demo_ctx_env demo_panes r"
    by (simp add: harmless_def dashed_def show_pane_def demo_panes_def io_defs)
  have e: "concat (map (section_events demo_ctx_env demo_panes) [''stack'']) = [Print ''rsp'']"
    by (simp add: section_events_def dashed_def show_pane_def demo_panes_def io_defs)
  have m: "map_of demo_panes ''nope'' = None" "\<not> dashed ''nope''" by (simp_all add: demo_panes_def dashed_def)
  show ?thesis
    using unknown_section_ends_context [OF a, of "demo_conf\<lparr>cf_layout := ''stack nope regs''\<rparr>" "[''stack'']" "''nope''" "[''regs'']"
        demo_panes "[]"] l h e m by (simp add: demo_conf_def)
qed

text \<open>C16: with valid frames the backtrace shows, in order, the frames from the configured number before
  the selected one up to the limit; when the limit is larger than that number the selected frame is among
  them, and it is selected again at the end.\<close>
theorem trace_shows_selected_frame:
  assumes "\<forall>f \<in> set frames. fr_valid f \<and> frame_items c f = Inr (Some (items f))" "orig < length frames"
    and "int before < nb" "first = orig - before"
  shows "context_trace c nb (int before) True frames orig
      = Some (Print (title_text c ''trace'') # concat (map (frame_events c orig items frames)
          [first ..< min (first + nat nb) (length frames)]) @ [SelectFrame orig], Inr ())
    \<and> orig \<in> set [first ..< min (first + nat nb) (length frames)]"
proof -
  have nb: "0 < nb" using assms(3) by linarith
  have l: "max (int (Suc orig) - int before - 1) 0 = int first" using assms(4) by simp
  have "\<forall>f \<in> set (drop first frames). fr_valid f \<and> frame_items c f = Inr (Some (items f))"
    using assms(1) by (meson in_set_dropD)
  from trace_loop_shows [OF this nb refl, of orig]
  have "context_trace c nb (int before) True frames orig
      = Some (Print (title_text c ''trace'') # concat (map (frame_events c orig items frames)
          [first ..< min (first + nat nb) (length frames)]) @ [SelectFrame orig], Inr ())"
    using nb assms(4) unfolding context_trace_def l by (simp add: Let_def context_title_def io_defs)
  moreover have "orig \<in> set [first ..< min (first + nat nb) (length frames)]"
    using assms(2-4) by auto
  ultimately show ?thesis by blast
qed

definition demo_frame :: "string \<Rightarrow> frame" where
  "demo_frame n = \<lparr>fr_valid = True, fr_pc = 0x1000, fr_name = Some n, fr_args = []\<rparr>"

definition demo_frame_items :: "frame \<Rightarrow> string list" where
  "demo_frame_items f = [hexs 0x1000, (case fr_name f of Some n \<Rightarrow> n | None \<Rightarrow> []) @ ''()'']"

theorem trace_shows_selected_frame_witness:
  "\<exists>es. context_trace demo_ctx_env 2 (int 1) True (map demo_frame [''f'', ''g'', ''main'']) 1 = Some (es, Inr ())
     \<and> last es = SelectFrame 1"
proof -
  have n: "cx_nc demo_ctx_env" by (simp add: demo_ctx_env_def demo_deref_def)
  have "\<forall>f \<in> set (map demo_frame [''f'', ''g'', ''main'']). fr_valid f
      \<and> frame_items demo_ctx_env f = Inr (Some (demo_frame_items f))"
    using n by (simp add: demo_frame_def frame_items_def demo_frame_items_def Let_def greenify_def colorify_def)
  from trace_shows_selected_frame [OF this, of 1 1 2 0] show ?thesis by simp
qed

text \<open>Fact: an invalid frame is never left: the pane does not return.\<close>
theorem invalid_frame_hangs: "\<not> fr_valid f \<Longrightarrow> trace_loop c orig level nb (f # fs) = None"
  by simp

section \<open>The raw registers\<close>

definition shown_cells :: "ctx_env \<Rightarrow> reg_env \<Rightarrow> string list \<Rightarrow> string list \<Rightarrow> string list" where
  "shown_cells c e ignored rs = concat (map (\<lambda>r. if r \<in> set ignored then []
     else case reg_value e r of Inr (Some (v, fl)) \<Rightarrow> [reg_cell c e r v fl] | _ \<Rightarrow> []) rs)"

fun lines_of :: "event list \<Rightarrow> string list" where
  "lines_of [] = []"
| "lines_of (Print l # es) = l # lines_of es"
| "lines_of (_ # es) = lines_of es"

lemma regs_loop_cells:
  assumes "0 < nb" "\<forall>r \<in> set rs. r \<in> set ignored \<or> (\<exists>x. reg_value e r = Inr x)"
  shows "\<exists>es. regs_loop c e ignored nb i line rs = (map Print es, Inr ())
    \<and> concat es = line @ concat (shown_cells c e ignored rs)"
  using assms(2)
proof (induction rs arbitrary: i line)
  case Nil
  show ?case
    by (cases "line = []") (auto simp: io_defs shown_cells_def intro: exI [of _ "[]"] exI [of _ "[line]"])
next
  case (Cons r rs)
  have rs: "\<forall>r \<in> set rs. r \<in> set ignored \<or> (\<exists>x. reg_value e r = Inr x)" using Cons.prems by simp
  show ?case
  proof (cases "r \<in> set ignored \<or> reg_value e r = Inr None")
    case True
    then have "regs_loop c e ignored nb i line (r # rs) = regs_loop c e ignored nb i line rs" by auto
    moreover have "shown_cells c e ignored (r # rs) = shown_cells c e ignored rs" using True by (auto simp: shown_cells_def)
    ultimately show ?thesis using Cons.IH [OF rs] by simp
  next
    case False
    then obtain v fl where v: "reg_value e r = Inr (Some (v, fl))" using Cons.prems by auto
    let ?line = "line @ reg_cell c e r v fl"
    have sc: "shown_cells c e ignored (r # rs) = reg_cell c e r v fl # shown_cells c e ignored rs"
      using v False by (simp add: shown_cells_def)
    show ?thesis
    proof (cases "i mod nb = 0")
      case True
      obtain es where es: "regs_loop c e ignored nb (i + 1) [] rs = (map Print es, Inr ())"
        "concat es = concat (shown_cells c e ignored rs)" using Cons.IH [OF rs, of "i + 1" "[]"] by auto
      then show ?thesis using v False True assms(1) sc
        by (intro exI [of _ "?line # es"]) (simp add: io_defs)
    next
      case nz: False
      obtain es where es: "regs_loop c e ignored nb (i + 1) ?line rs = (map Print es, Inr ())"
        "concat es = ?line @ concat (shown_cells c e ignored rs)" using Cons.IH [OF rs, of "i + 1" ?line] by auto
      then show ?thesis using v False nz assms(1) sc by (intro exI [of _ es]) simp
    qed
  qed
qed

text \<open>Fact: on a terminal narrower than one column of registers the raw pane divides by zero at the first
  register it would show.\<close>
theorem narrow_terminal_divides_by_zero:
  assumes "0 \<le> cx_cols c" "cx_cols c < l" "r \<notin> set ignored" "reg_value e r = Inr (Some x)"
  shows "snd (regs_loop c e ignored (cx_cols c div l) i line (r # rs)) = raise ZeroDivisionError ''integer modulo by zero''"
  using assms by (cases x) (simp add: io_defs Let_def)

end
