(* ===== verification/ContextCode.thy ===== *)
theory ContextCode
  imports Context ArchX86
begin

text \<open>
  The panes of \<^verbatim>\<open>context\<close> over code: \<^verbatim>\<open>context_code\<close> with the branch at the pc and the code at its target,
  \<^verbatim>\<open>context_args\<close> with the arguments of a call, and \<^verbatim>\<open>context_source\<close>.
\<close>

definition BP_GLYPH :: string where "BP_GLYPH = [CHR 0xE2, CHR 0x97, CHR 0x8F]"
definition DOWN_ARROW :: string where "DOWN_ARROW = [CHR 0xE2, CHR 0x86, CHR 0xB3]"

section \<open>The code pane\<close>

text \<open>A breakpoint: its location text, and the addresses of its locations where GDB tells them\<close>
record breakpoint =
  bk_location :: "string option"
  bk_addresses :: "int option list option"

definition bp_locations :: "breakpoint list \<Rightarrow> string list" where
  "bp_locations bps =
     (if bps \<noteq> [] \<and> bk_addresses (last bps) \<noteq> None
      then concat (map (\<lambda>b. case bk_addresses b of None \<Rightarrow> []
             | Some ls \<Rightarrow> concat (map (\<lambda>l. case l of None \<Rightarrow> [] | Some a \<Rightarrow> [hexs a]) ls)) bps)
      else concat (map (\<lambda>b. case bk_location b of None \<Rightarrow> []
             | Some l \<Rightarrow> if l \<noteq> [] \<and> startswith l ''*'' then [l] else []) bps))"

text \<open>The test is for a part of the text, so an address also matches longer ones that begin with it\<close>
definition addr_has_breakpoint :: "int \<Rightarrow> string list \<Rightarrow> bool" where
  "addr_has_breakpoint a locations = list_ex (str_in (hexs a)) locations"

text \<open>What the pane asks the architecture\<close>
record arch_ops =
  ao_cpu :: cpu
  ao_cond :: "insn \<Rightarrow> bool"
  ao_taken :: "cpu \<Rightarrow> insn \<Rightarrow> (bool \<times> string) result"
  ao_call :: "insn \<Rightarrow> bool result"
  ao_ret :: "insn \<Rightarrow> bool result"
  ao_ra :: "insn \<Rightarrow> int option result"

record code_conf =
  cc_nb :: int
  cc_prev :: nat
  cc_opcodes :: int
  cc_peek_calls :: bool
  cc_peek_ret :: bool
  cc_bps :: "string list"

datatype jump = JumpText string | JumpAddr int

definition last_operand_word :: "insn \<Rightarrow> string result" where
  "last_operand_word i = bindE (operand i (- 1)) (\<lambda>op.
     case split_ws op of [] \<Rightarrow> raise IndexError ''list index out of range'' | w # _ \<Rightarrow> Inr w)"

text \<open>The text after the instruction at the pc, and the target to show\<close>
definition current_extra :: "ctx_env \<Rightarrow> arch_ops \<Rightarrow> code_conf \<Rightarrow> insn \<Rightarrow> (string \<times> jump option) result" where
  "current_extra c a f i =
     (if ao_cond a i then
        bindE (branch_text (cx_nc c) (ao_taken a) (ao_cpu a) i) (\<lambda>(txt, tgt). Inr (txt, map_option JumpText tgt))
      else bindE (ao_call a i) (\<lambda>call.
        if call \<and> cc_peek_calls f then bindE (last_operand_word i) (\<lambda>w. Inr ([], Some (JumpText w)))
        else bindE (ao_ret a i) (\<lambda>ret.
          if ret \<and> cc_peek_ret f then bindE (ao_ra a i) (\<lambda>ra. Inr ([], map_option JumpAddr ra))
          else Inr ([], None))))"

definition insn_text :: "code_conf \<Rightarrow> insn \<Rightarrow> string" where
  "insn_text f i = (if cc_opcodes f = 0 then insn_str i else insn_format (Some (cc_opcodes f)) i)"

definition code_line :: "ctx_env \<Rightarrow> arch_ops \<Rightarrow> code_conf \<Rightarrow> int \<Rightarrow> insn \<Rightarrow> (string \<times> jump option) result" where
  "code_line c a f pc i =
     (let prefix = (if addr_has_breakpoint (i_address i) (cc_bps f) then redify (cx_nc c) BP_GLYPH else '' '');
          txt = insn_text f i in
      if i_address i < pc then Inr (prefix @ ''  '' @ cx_paint c ''theme.old_context'' txt, None)
      else if i_address i = pc then
        bindE (current_extra c a f i) (\<lambda>(extra, tgt).
          Inr (prefix @ cx_paint c ''theme.disassemble_current_instruction'' (tl RIGHT_ARROW @ txt) @ extra, tgt))
      else Inr (prefix @ ''  '' @ txt, None))"

text \<open>\<^verbatim>\<open>if target\<close> and the conversion: None goes on with the next instruction\<close>
definition jump_address :: "jump option \<Rightarrow> int option result" where
  "jump_address tgt =
     (case tgt of
        None \<Rightarrow> Inr None
      | Some (JumpAddr a) \<Rightarrow> Inr (if a = 0 then None else Some a)
      | Some (JumpText s) \<Rightarrow>
          if s = [] then Inr None
          else (case py_int 0 s of
                  Inr a \<Rightarrow> Inr (Some a)
                | Inl x \<Rightarrow> if exn_cls x = ValueError then Inr None else Inl x))"

definition gen_end :: "py_exn option \<Rightarrow> unit io" where
  "gen_end x = (case x of None \<Rightarrow> retI () | Some y \<Rightarrow> resI (Inl y))"

definition target_line :: "nat \<times> insn \<Rightarrow> string" where
  "target_line p = ''   '' @ (if fst p = 0 then DOWN_ARROW else '' '') @ ''  '' @ insn_str (snd p)"

definition target_lines :: "ctx_env \<Rightarrow> code_conf \<Rightarrow> int \<Rightarrow> unit io" where
  "target_lines c f address =
     (case gef_disassemble (dv_dis (cx_deref c)) address (cc_nb f) 0 of
        (is, x) \<Rightarrow> bindI (print_all (map target_line (enumerate 0 is))) (\<lambda>_. gen_end x))"

fun code_loop :: "ctx_env \<Rightarrow> arch_ops \<Rightarrow> code_conf \<Rightarrow> int \<Rightarrow> insn list \<Rightarrow> py_exn option \<Rightarrow> unit io" where
  "code_loop c a f pc [] x = gen_end x"
| "code_loop c a f pc (i # is) x =
     bindI (resI (code_line c a f pc i)) (\<lambda>(txt, tgt).
     bindI (printI txt) (\<lambda>_.
     bindI (resI (jump_address tgt)) (\<lambda>addr. case addr of
         Some t \<Rightarrow> target_lines c f t
       | None \<Rightarrow> code_loop c a f pc is x)))"

definition context_code :: "ctx_env \<Rightarrow> arch_ops \<Rightarrow> code_conf \<Rightarrow> string \<Rightarrow> int \<Rightarrow> unit io" where
  "context_code c a f arch_name pc =
     bindI (context_title c (Some (''code:'' @ arch_name))) (\<lambda>_.
     catchI
       (case gef_disassemble (dv_dis (cx_deref c)) pc (cc_nb f) (cc_prev f) of (is, x) \<Rightarrow> code_loop c a f pc is x)
       (\<lambda>x. if exn_cls x = GdbMemoryError then Some (printI (err_line (cx_nc c) ''Cannot disassemble from $PC'')) else None))"

section \<open>The arguments of a call\<close>

definition size2type :: "(nat \<times> string) list" where
  "size2type = [(1, ''BYTE''), (2, ''WORD''), (4, ''DWORD''), (8, ''QWORD'')]"

definition type_of_size :: "nat \<Rightarrow> string result" where
  "type_of_size n = (case map_of size2type n of Some t \<Rightarrow> Inr t | None \<Rightarrow> raise KeyError (decs (int n)))"

text \<open>\<^verbatim>\<open>re.sub(r".*<([^\(> ]*).*", r"\1", ops)\<close>: the word after the last angle bracket\<close>
definition bracket_word :: "string \<Rightarrow> string" where
  "bracket_word ops = takeWhile (\<lambda>x. x \<notin> {CHR ''('', CHR ''>'', CHR '' ''}) (rev (takeWhile (\<lambda>x. x \<noteq> CHR ''<'') (rev ops)))"

definition hex_char :: "char \<Rightarrow> bool" where
  "hex_char x = hex_digit (lower_char x)"

text \<open>The last number with the prefix 0x, or the text itself: the start of the last prefix is looked for
  from the end\<close>
fun last_hex :: "string \<Rightarrow> string option" where
  "last_hex [] = None"
| "last_hex (x # xs) =
     (case last_hex xs of
        Some r \<Rightarrow> Some r
      | None \<Rightarrow> if startswith (x # xs) ''0x'' then Some (''0x'' @ takeWhile hex_char (drop 2 (x # xs))) else None)"

definition address_text :: "string \<Rightarrow> string" where
  "address_text ops = (case last_hex ops of Some r \<Rightarrow> r | None \<Rightarrow> ops)"

record args_env =
  ae_ctx :: ctx_env
  ae_registers :: "string list"
  ae_reg :: "string \<Rightarrow> int result"
  ae_call :: "insn \<Rightarrow> bool result"
  ae_ith :: "nat \<Rightarrow> (string \<times> int) result"
  ae_params :: "string list"
  ae_x86_32 :: bool
  ae_x86_64 :: bool

text \<open>What the symbol table says of the target: a parameter has a name, a type name and a size\<close>
datatype symbol_answer = NoSymbol | NotAFunction int | FunctionSymbol "(string option \<times> string option \<times> nat) list"

definition call_target :: "args_env \<Rightarrow> insn \<Rightarrow> string result" where
  "call_target e i =
     bindE (operand i (- 1)) (\<lambda>lastop.
     bindE (type_of_size (t_ptrsize (cx_target (ae_ctx e)))) (\<lambda>ty.
       if startswith lastop (ty @ '' PTR'') then
         (case split_ws lastop of [] \<Rightarrow> raise IndexError ''list index out of range'' | ws \<Rightarrow> Inr (CHR ''*'' # last ws))
       else bindE (operand i 0) (\<lambda>op0.
         if (CHR ''$'' # op0) \<in> set (ae_registers e) then
           bindE (ae_reg e (CHR ''$'' # op0)) (\<lambda>v. Inr (CHR ''*'' # hexs v))
         else let ops = join '' '' (operands i) in
           Inr (if CHR ''<'' \<in> set ops \<and> CHR ''>'' \<in> set ops then bracket_word ops else address_text ops))))"

definition ith_value :: "args_env \<Rightarrow> nat \<Rightarrow> (string \<times> string) result" where
  "ith_value e i = bindE (ae_ith e i) (\<lambda>(key, v).
     bindE (dereference_from (cx_deref (ae_ctx e)) v) (\<lambda>vs. Inr (key, join RIGHT_ARROW vs)))"

definition symbol_arg :: "args_env \<Rightarrow> nat \<times> (string option \<times> string option \<times> nat) \<Rightarrow> string result" where
  "symbol_arg e p =
     (case p of (i, (name, tname, sz)) \<Rightarrow>
        bindE (ith_value e i) (\<lambda>(_, val).
        bindE (case tname of Some t \<Rightarrow> if t = [] then type_of_size sz else Inr t | None \<Rightarrow> type_of_size sz) (\<lambda>ty.
          Inr (ty @ '' '' @ (case name of Some n \<Rightarrow> if n = [] then ''var_'' @ decs (int i) else n
                             | None \<Rightarrow> ''var_'' @ decs (int i)) @ '' = '' @ val))))"

definition print_arguments_from_symbol ::
  "args_env \<Rightarrow> string \<Rightarrow> (string option \<times> string option \<times> nat) list \<Rightarrow> unit io" where
  "print_arguments_from_symbol e function_name fs =
     (let c = ae_ctx e; nl = [CHR 0x0A] in
      bindI (resI (mapE (symbol_arg e) (enumerate 0 fs))) (\<lambda>args.
      bindI (context_title c (Some ''arguments'')) (\<lambda>_.
        printI (if args = [] then function_name @ '' (<void>)''
                else function_name @ '' ('' @ nl @ ''   '' @ join ('','' @ nl @ ''   '') args @ nl @ '')''))))"

definition extended_registers :: "(string \<times> string list) list" where
  "extended_registers = [(''$rdi'', [''$edi'', ''$di'']), (''$rsi'', [''$esi'', ''$si'']),
     (''$rdx'', [''$edx'', ''$dx'']), (''$rcx'', [''$ecx'', ''$cx''])]"

text \<open>The parameters one instruction adds\<close>
definition insn_params :: "args_env \<Rightarrow> insn \<Rightarrow> string list" where
  "insn_params e i =
     (case operands i of
        [] \<Rightarrow> []
      | op0 # _ \<Rightarrow>
          if ae_x86_32 e then (if mnemonic i = ''push'' then [op0] else [])
          else let op = CHR ''$'' # op0 in
            (if op \<in> set (ae_params e) then [op] else [])
            @ (if ae_x86_64 e then map fst (filter (\<lambda>(r, xs). op \<in> set xs) extended_registers) else []))"

fun index_of :: "string \<Rightarrow> string list \<Rightarrow> nat option" where
  "index_of x [] = None"
| "index_of x (y # ys) = (if x = y then Some 0 else map_option Suc (index_of x ys))"

definition param_index :: "args_env \<Rightarrow> string \<Rightarrow> nat result" where
  "param_index e p = (case index_of p (ae_params e) of Some i \<Rightarrow> Inr (i + 1)
     | None \<Rightarrow> raise ValueError ''tuple.index(x): x not in tuple'')"

definition nb_arguments :: "args_env \<Rightarrow> string list \<Rightarrow> nat result" where
  "nb_arguments e ps =
     (let parameter_set = remdups ps in
      if ae_x86_32 e then Inr (length parameter_set)
      else bindE (mapE (param_index e) parameter_set) (\<lambda>ns. Inr (foldr max ns 0)))"

text \<open>\<^verbatim>\<open>gdb.block_for_pc\<close>: it raises, finds none, or gives the block's start\<close>
datatype block_answer = BlockError | NoBlock | BlockStart int

definition block_start :: "disasm_env \<Rightarrow> block_answer \<Rightarrow> int \<Rightarrow> int option result" where
  "block_start d b pc = (case b of BlockStart s \<Rightarrow> Inr (Some s) | _ \<Rightarrow> nth_previous_instruction_address d pc 5)"

definition print_guessed_arguments :: "args_env \<Rightarrow> block_answer \<Rightarrow> int \<Rightarrow> string \<Rightarrow> unit io" where
  "print_guessed_arguments e b pc function_name =
     (let c = ae_ctx e; d = dv_dis (cx_deref c) in
      bindI (resI (block_start d b pc)) (\<lambda>start. case start of
        None \<Rightarrow> retI ()
      | Some s \<Rightarrow>
          if s = 0 then retI ()
          else bindI (resI (list_gen (gef_disassemble d s (pc - s) 0))) (\<lambda>is.
            bindI (resI (nb_arguments e (concat (map (insn_params e) is)))) (\<lambda>n.
            bindI (resI (mapE (ith_value e) [0..<n])) (\<lambda>vals.
            bindI (context_title c (Some ''arguments (guessed)'')) (\<lambda>_.
            bindI (printI (function_name @ '' (''))  (\<lambda>_.
            bindI (if vals = [] then retI ()
                   else printI (''   '' @ join ('','' @ [CHR 0x0A] @ ''   '')
                     (map (\<lambda>(k, v). cx_paint c ''theme.registers_register_name'' k @ '' = '' @ v) vals))) (\<lambda>_.
              printI '')''))))))))"

definition context_args :: "args_env \<Rightarrow> (string \<Rightarrow> symbol_answer) \<Rightarrow> block_answer \<Rightarrow> int \<Rightarrow> unit io" where
  "context_args e lookup b pc =
     (let c = ae_ctx e in
      bindI (resI (gef_current_instruction (dv_dis (cx_deref c)) pc)) (\<lambda>i.
      bindI (resI (ae_call e i)) (\<lambda>call.
        if \<not> call then retI ()
        else bindI (resI (call_target e i)) (\<lambda>target. case lookup target of
            NoSymbol \<Rightarrow> print_guessed_arguments e b pc target
          | NotAFunction code \<Rightarrow> printI (err_line (cx_nc c)
              (''Symbol '' @ [CHR 0x27] @ target @ [CHR 0x27] @ '' is not a function: type='' @ decs code))
          | FunctionSymbol fs \<Rightarrow> print_arguments_from_symbol e target fs))))"

section \<open>The source pane\<close>

text \<open>The number of characters of a text whose glyphs are kept as UTF-8\<close>
definition py_len :: "string \<Rightarrow> nat" where
  "py_len s = length (filter (\<lambda>x. \<not> (0x80 \<le> (of_char x :: nat) \<and> (of_char x :: nat) < 0xC0)) s)"

datatype var_value = VarPointer int | VarInt int | VarOther

text \<open>A symbol of a block, with the value GDB reads for it; a block, with whether it is static\<close>
record var_symbol =
  vs_name :: string
  vs_function :: bool
  vs_value :: "var_value result"

record block =
  bl_static :: bool
  bl_symbols :: "var_symbol list"

definition word_char :: "char \<Rightarrow> bool" where
  "word_char x = (let n = (of_char x :: nat) in
     (48 \<le> n \<and> n \<le> 57) \<or> (65 \<le> n \<and> n \<le> 90) \<or> n = 95 \<or> (97 \<le> n \<and> n \<le> 122))"

text \<open>\<^verbatim>\<open>re.search(r"\\W" + symbol + r"\\W", line)\<close> for a symbol that is an identifier\<close>
fun mentions :: "string \<Rightarrow> string \<Rightarrow> bool" where
  "mentions name [] = False"
| "mentions name (x # xs) =
     ((\<not> word_char x \<and> startswith xs name \<and> (case drop (length name) xs of y # _ \<Rightarrow> \<not> word_char y | [] \<Rightarrow> False))
      \<or> mentions name xs)"

definition var_text :: "ctx_env \<Rightarrow> var_value \<Rightarrow> string option result" where
  "var_text c v =
     (case v of
        VarPointer a \<Rightarrow> bindE (dereference_from (cx_deref c) a) (\<lambda>addrs.
          Inr (Some (join ('' '' @ RIGHT_ARROW @ '' '')
            (if length addrs > 2 then [hd addrs, ''[...]'', last addrs] else addrs))))
      | VarInt n \<Rightarrow> Inr (Some (hexs n))
      | VarOther \<Rightarrow> Inr None)"

text \<open>The variables of the line, the innermost block first; the first value of a name stays\<close>
fun block_vars :: "ctx_env \<Rightarrow> string \<Rightarrow> var_symbol list \<Rightarrow> string dict \<Rightarrow> string dict result" where
  "block_vars c line [] m = Inr m"
| "block_vars c line (v # vs) m =
     (if vs_function v \<or> \<not> mentions (vs_name v) line then block_vars c line vs m
      else bindE (vs_value v) (\<lambda>x. bindE (var_text c x) (\<lambda>txt. case txt of
          None \<Rightarrow> block_vars c line vs m
        | Some t \<Rightarrow> block_vars c line vs (if vs_name v \<in> set (map fst m) then m else m @ [(vs_name v, t)]))))"

fun blocks_vars :: "ctx_env \<Rightarrow> string \<Rightarrow> block list \<Rightarrow> string dict \<Rightarrow> string dict result" where
  "blocks_vars c line [] m = Inr m"
| "blocks_vars c line (b # bs) m =
     (if bl_static b then Inr m else bindE (block_vars c line (bl_symbols b) m) (blocks_vars c line bs))"

text \<open>The blocks from the one at the pc outwards; every exception means no text\<close>
definition get_pc_context_info :: "ctx_env \<Rightarrow> block list result \<Rightarrow> string \<Rightarrow> string" where
  "get_pc_context_info c blocks line =
     (case bindE blocks (\<lambda>bs. blocks_vars c line bs []) of
        Inl _ \<Rightarrow> []
      | Inr m \<Rightarrow> if m = [] then []
          else ''// '' @ join '', '' (map (\<lambda>(a, b). colorify (cx_nc c) a ''yellow'' @ ''='' @ b) m))"

record source_conf =
  sc_nb :: int
  sc_full_max :: int
  sc_base_max :: int
  sc_show_info :: bool

text \<open>What GDB and the file give: the name of the file, the current line counted from 0, the lines
  without their trailing blanks, the locations of the breakpoints in the file, and the blocks at the pc\<close>
record source_info =
  si_file :: string
  si_line :: int
  si_lines :: "string list"
  si_bps :: "string list"
  si_blocks :: "block list result"

definition source_basename :: "string \<Rightarrow> string" where
  "source_basename p = rev (takeWhile (\<lambda>x. x \<noteq> CHR ''/'') (rev p))"

text \<open>\<^verbatim>\<open>s[-n:]\<close>\<close>
definition last_chars :: "int \<Rightarrow> string \<Rightarrow> string" where
  "last_chars n s = (if n \<le> 0 then drop (nat (- n)) s else drop (length s - nat n) s)"

definition source_title :: "source_conf \<Rightarrow> source_info \<Rightarrow> string" where
  "source_title f s =
     (let base = source_basename (si_file s);
          fn = (if int (length (si_file s)) > sc_full_max f
                then take 15 (si_file s) @ ''[...]'' @ (if int (length base) > sc_base_max f then last_chars (sc_base_max f) base else base)
                else si_file s)
      in ''source:'' @ fn @ ''+'' @ decs (si_line s + 1))"

definition line_has_breakpoint :: "string \<Rightarrow> int \<Rightarrow> string list \<Rightarrow> bool" where
  "line_has_breakpoint file n locations = list_ex (str_in (file @ '':'' @ decs n)) locations"

definition numbered :: "int \<Rightarrow> string \<Rightarrow> string" where
  "numbered n l = rjust 4 (decs n) @ [CHR 0x09] @ '' '' @ l"

definition at_line :: "source_info \<Rightarrow> int \<Rightarrow> string result" where
  "at_line s i = (if i < int (length (si_lines s)) then Inr (si_lines s ! nat i) else raise IndexError ''list index out of range'')"

definition source_prefix :: "ctx_env \<Rightarrow> source_info \<Rightarrow> int \<Rightarrow> string" where
  "source_prefix c s i =
     (if line_has_breakpoint (source_basename (si_file s)) (i + 1) (si_bps s) then redify (cx_nc c) BP_GLYPH else '' '')"

text \<open>One line of the pane, and whether to go on\<close>
definition source_line :: "ctx_env \<Rightarrow> source_conf \<Rightarrow> source_info \<Rightarrow> int \<Rightarrow> bool io" where
  "source_line c f s i =
     (let prefix = source_prefix c s i in
      if i < si_line s then
        bindI (resI (at_line s i)) (\<lambda>l.
        bindI (printI (prefix @ cx_paint c ''theme.old_context'' (''  '' @ numbered (i + 1) l))) (\<lambda>_. retI True))
      else if i = si_line s then
        bindI (resI (at_line s i)) (\<lambda>l.
          let full = prefix @ tl RIGHT_ARROW @ numbered (i + 1) [];
              leading = length l - length (dropWhile is_space l);
              extra = (if sc_show_info f then get_pc_context_info c (si_blocks s) l else []) in
          bindI (if extra = [] then retI () else printI (replicate (py_len full + leading) (CHR '' '') @ extra)) (\<lambda>_.
          bindI (printI (cx_paint c ''theme.source_current_line'' (full @ l))) (\<lambda>_. retI True)))
      else (case at_line s i of
          Inl _ \<Rightarrow> retI False
        | Inr l \<Rightarrow> bindI (printI (prefix @ ''  '' @ numbered (i + 1) l)) (\<lambda>_. retI True)))"

fun source_loop :: "ctx_env \<Rightarrow> source_conf \<Rightarrow> source_info \<Rightarrow> int list \<Rightarrow> unit io" where
  "source_loop c f s [] = retI ()"
| "source_loop c f s (i # is) =
     (if i < 0 then source_loop c f s is
      else bindI (source_line c f s i) (\<lambda>go_on. if go_on then source_loop c f s is else retI ()))"

text \<open>None: the file or its symbol table could not be read\<close>
definition context_source :: "ctx_env \<Rightarrow> source_conf \<Rightarrow> source_info option \<Rightarrow> unit io" where
  "context_source c f info =
     (case info of
        None \<Rightarrow> retI ()
      | Some s \<Rightarrow> bindI (context_title c (Some (source_title f s))) (\<lambda>_.
          source_loop c f s [si_line s - sc_nb f + 1 .. si_line s + sc_nb f - 1]))"

section \<open>Facts\<close>

lemma code_loop_plain:
  assumes "\<forall>i \<in> set is. \<exists>tgt. code_line c a f pc i = Inr (line i, tgt) \<and> jump_address tgt = Inr None"
  shows "code_loop c a f pc (is @ js) x = bindI (map (\<lambda>i. Print (line i)) is, Inr ()) (\<lambda>_. code_loop c a f pc js x)"
  using assms
proof (induction "is")
  case Nil
  then show ?case by (cases "code_loop c a f pc js x") (simp add: io_defs)
next
  case (Cons i "is")
  obtain tgt where "code_line c a f pc i = Inr (line i, tgt)" "jump_address tgt = Inr None" using Cons.prems by auto
  then show ?case using Cons by (cases "code_loop c a f pc js x") (simp add: io_defs split: prod.splits sum.splits)
qed

lemma source_loop_skip: "\<forall>i \<in> set is. i < 0 \<Longrightarrow> source_loop c f s (is @ js) = source_loop c f s js"
  by (induction "is") simp_all

lemma source_line_in_file:
  assumes "0 \<le> i" "i < int (length (si_lines s))"
  shows "snd (source_line c f s i) = Inr True
    \<and> (cx_nc c \<longrightarrow> last (fst (source_line c f s i)) = Print (source_prefix c s i
        @ (if i = si_line s then tl RIGHT_ARROW else ''  '') @ numbered (i + 1) (si_lines s ! nat i)))"
  using assms by (simp add: source_line_def at_line_def Let_def io_defs colorify_def numbered_def)

lemma source_loop_in_file:
  assumes "\<forall>i \<in> set is. 0 \<le> i \<and> i < int (length (si_lines s))"
  shows "source_loop c f s (is @ js)
    = bindI (concat (map (\<lambda>i. fst (source_line c f s i)) is), Inr ()) (\<lambda>_. source_loop c f s js)"
  using assms
proof (induction "is")
  case Nil
  then show ?case by (cases "source_loop c f s js") (simp add: io_defs)
next
  case (Cons i "is")
  have "0 \<le> i" "i < int (length (si_lines s))" using Cons.prems by auto
  then obtain es where es: "source_line c f s i = (es, Inr True)" "\<not> i < 0"
    using source_line_in_file by (metis linorder_not_less prod.collapse)
  then have "source_loop c f s ((i # is) @ js)
      = bindI (es, Inr True) (\<lambda>_. source_loop c f s (is @ js))"
    by (simp add: io_defs split: prod.splits sum.splits)
  then show ?case using Cons es by (cases "source_loop c f s js") (simp add: io_defs split: prod.splits sum.splits)
qed

lemma source_loop_stops:
  assumes "js = [] \<or> (int (length (si_lines s)) \<le> hd js \<and> si_line s < hd js \<and> 0 \<le> hd js)"
  shows "source_loop c f s js = retI ()"
  using assms by (cases js) (auto simp: source_line_def at_line_def Let_def io_defs)

lemma upto_split3:
  fixes a b m n :: int
  assumes "m \<le> n + 1"
  shows "[a..b] = [a..min b (m - 1)] @ [max a m..min b n] @ [max a (n + 1)..b]"
proof -
  have split: "[a..b] = [a..min b (k - 1)] @ [max a k..b]" for a b k :: int
  proof (cases "a < k \<and> k \<le> b")
    case True
    then show ?thesis using upto_split1 [of a k b] by (simp add: min_def max_def)
  qed (auto simp: min_def max_def)
  have "[max a m..b] = [max a m..min b n] @ [max (max a m) (n + 1)..b]" using split [of "max a m" b "n + 1"] by simp
  moreover have "max (max a m) (n + 1) = max a (n + 1)" using assms by auto
  ultimately show ?thesis using split [of a b m] by simp
qed

definition x86_64_ops :: "cpu \<Rightarrow> arch_ops" where
  "x86_64_ops p = \<lparr>ao_cpu = p, ao_cond = x86_is_conditional_branch, ao_taken = x86_is_branch_taken X86_64_desc,
     ao_call = (\<lambda>i. Inr (x86_is_call i)), ao_ret = (\<lambda>i. Inr (x86_is_ret i)), ao_ra = x86_get_ra p\<rparr>"

definition past_line :: "ctx_env \<Rightarrow> code_conf \<Rightarrow> insn \<Rightarrow> string" where
  "past_line c f i = (if addr_has_breakpoint (i_address i) (cc_bps f) then redify (cx_nc c) BP_GLYPH else '' '')
     @ ''  '' @ cx_paint c ''theme.old_context'' (insn_text f i)"

definition current_line :: "ctx_env \<Rightarrow> code_conf \<Rightarrow> insn \<Rightarrow> string" where
  "current_line c f i = (if addr_has_breakpoint (i_address i) (cc_bps f) then redify (cx_nc c) BP_GLYPH else '' '')
     @ cx_paint c ''theme.disassemble_current_instruction'' (tl RIGHT_ARROW @ insn_text f i)"

section \<open>Properties\<close>

text \<open>C15: at a conditional branch of x86-64 that the flags take, the code pane prints the instructions
  before it, the branch itself with the reason, and then, in place of the instructions that follow it, the
  code at the target of the branch.\<close>
theorem code_pane_follows_taken_branch:
  assumes "gef_disassemble (dv_dis (cx_deref c)) (i_address i) (cc_nb f) (cc_prev f) = (pre @ i # post, x)"
    and "\<forall>j \<in> set pre. i_address j < i_address i" "cx_nc c"
    and "x86_is_conditional_branch i" "x86_is_branch_taken X86_64_desc p i = Inr (True, reason)"
    and "operands i \<noteq> []" "split_ws (last (operands i)) = target # ws" "target \<noteq> []" "py_int 0 target = Inr t"
    and "gef_disassemble (dv_dis (cx_deref c)) t (cc_nb f) 0 = (is, None)"
  shows "context_code c (x86_64_ops p) f arch_name (i_address i)
    = (map Print ([title_text c (''code:'' @ arch_name)] @ map (past_line c f) pre
        @ [current_line c f i @ CHR 0x09 # ''TAKEN [Reason: '' @ reason @ '']'']
        @ map target_line (enumerate 0 is)), Inr ())"
proof -
  let ?a = "x86_64_ops p"
  have pre: "\<forall>j \<in> set pre. \<exists>tgt. code_line c ?a f (i_address i) j = Inr (past_line c f j, tgt) \<and> jump_address tgt = Inr None"
    using assms(2) by (simp add: code_line_def past_line_def jump_address_def)
  have "branch_text True (x86_is_branch_taken X86_64_desc) p i
      = Inr (CHR 0x09 # ''TAKEN [Reason: '' @ reason @ '']'', Some target)"
    by (rule x86_64_branches.taken_text [OF assms(4-7)])
  then have "code_line c ?a f (i_address i) i
      = Inr (current_line c f i @ CHR 0x09 # ''TAKEN [Reason: '' @ reason @ '']'', Some (JumpText target))"
    using assms(3,4) by (simp add: code_line_def current_line_def current_extra_def x86_64_ops_def)
  moreover have "target_lines c f t = (map Print (map target_line (enumerate 0 is)), Inr ())"
    using assms(10) by (simp add: target_lines_def print_all_events gen_end_def io_defs)
  ultimately have "code_loop c ?a f (i_address i) (i # post) x
      = (Print (current_line c f i @ CHR 0x09 # ''TAKEN [Reason: '' @ reason @ '']'') # map Print (map target_line (enumerate 0 is)), Inr ())"
    using assms(8,9) by (simp add: jump_address_def io_defs)
  then show ?thesis using code_loop_plain [OF pre, of "i # post" x] assms(1)
    by (simp add: context_code_def context_title_def catchI_def io_defs)
qed

definition jump_env :: disasm_env where
  "jump_env = nop_env\<lparr>de_dis := (\<lambda>s e n. Inr [\<lparr>ri_addr = s, ri_length = 1,
     ri_asm = (if s = 0x1000 then ''je 0x1800'' else ''nop'')\<rparr>])\<rparr>"

definition jump_conf :: code_conf where
  "jump_conf = \<lparr>cc_nb = 1, cc_prev = 0, cc_opcodes = 0, cc_peek_calls = True, cc_peek_ret = True, cc_bps = []\<rparr>"

definition je_insn :: insn where
  "je_insn = \<lparr>i_address = 0x1000, i_location = [], mnemonic = ''je'', operands = [''0x1800''], opcodes = [0]\<rparr>"

theorem code_pane_follows_taken_branch_witness:
  "\<exists>l1 l2 l3. context_code (demo_ctx_env\<lparr>cx_deref := demo_deref\<lparr>dv_dis := jump_env\<rparr>\<rparr>)
       (x86_64_ops (demo_cpu (\<lambda>_. Inr 0x40))) jump_conf ''x86:64'' 0x1000
     = ([Print l1, Print (l2 @ CHR 0x09 # ''TAKEN [Reason: Z]''), Print l3], Inr ())"
proof -
  let ?c = "demo_ctx_env\<lparr>cx_deref := demo_deref\<lparr>dv_dis := jump_env\<rparr>\<rparr>"
  let ?nop = "\<lparr>i_address = 0x1800, i_location = [], mnemonic = ''nop'', operands = [], opcodes = [0]\<rparr>"
  have d: "dv_dis (cx_deref ?c) = jump_env" "cx_nc ?c" by (simp_all add: demo_ctx_env_def demo_deref_def)
  have g: "gef_disassemble jump_env 0x1000 1 0 = ([] @ je_insn # [], None)" "gef_disassemble jump_env 0x1800 1 0 = ([?nop], None)"
    by (simp_all add: gef_disassemble_def gdb_disassemble_def decode_insn_def jump_env_def nop_env_def split_ws1_def
        rstrip_of_def is_space_def get_location_def location_from_symbol_def startswith_def location_text_def mem_read_def
        demo_target_def je_insn_def Let_def)
  have k: "x86_is_conditional_branch je_insn" "x86_is_branch_taken X86_64_desc (demo_cpu (\<lambda>_. Inr 0x40)) je_insn = Inr (True, ''Z'')"
    "operands je_insn \<noteq> []" "split_ws (last (operands je_insn)) = ''0x1800'' # []" "''0x1800'' \<noteq> []" "i_address je_insn = 0x1000"
    by code_simp+
  have n: "py_int 0 ''0x1800'' = Inr 0x1800" by code_simp
  show ?thesis
    using code_pane_follows_taken_branch [of ?c je_insn jump_conf "[]" "[]" None, OF _ _ d(2) k(1-5) n]
      g d(1) k(6) by (simp add: jump_conf_def)
qed

text \<open>C17: with the current line in the file, the source pane prints exactly the lines of the file within
  the configured distance of it, in order, each with its number and the current one marked.\<close>
theorem source_pane_window:
  assumes "0 \<le> si_line s" "si_line s < int (length (si_lines s))" "0 < sc_nb f"
    and "window = [max 0 (si_line s - sc_nb f + 1) .. min (si_line s + sc_nb f - 1) (int (length (si_lines s)) - 1)]"
  shows "context_source c f (Some s) = (Print (title_text c (source_title f s))
        # concat (map (\<lambda>i. fst (source_line c f s i)) window), Inr ())
    \<and> (\<forall>i \<in> set window. cx_nc c \<longrightarrow> last (fst (source_line c f s i)) = Print (source_prefix c s i
        @ (if i = si_line s then tl RIGHT_ARROW else ''  '') @ numbered (i + 1) (si_lines s ! nat i)))"
proof -
  let ?a = "si_line s - sc_nb f + 1" and ?b = "si_line s + sc_nb f - 1" and ?n = "int (length (si_lines s)) - 1"
  have e: "[?a..?b] = [?a..min ?b (- 1)] @ window @ [max ?a (?n + 1)..?b]"
    using upto_split3 [of 0 ?n ?a ?b] assms(4) by (simp add: max.commute)
  have w: "\<forall>i \<in> set window. 0 \<le> i \<and> i < int (length (si_lines s))" using assms(4) by auto
  have "source_loop c f s [max ?a (?n + 1)..?b] = retI ()"
    using assms(1-3) by (intro source_loop_stops) (auto simp: upto_rec1)
  then have "source_loop c f s [?a..?b] = (concat (map (\<lambda>i. fst (source_line c f s i)) window), Inr ())"
    unfolding e using source_loop_skip [of "[?a..min ?b (- 1)]"] source_loop_in_file [OF w]
    by (simp add: io_defs)
  then show ?thesis using w source_line_in_file
    by (simp add: context_source_def context_title_def io_defs)
qed

theorem source_pane_window_witness:
  "\<exists>t e1 e2 e3. context_source demo_ctx_env \<lparr>sc_nb = 2, sc_full_max = 30, sc_base_max = 20, sc_show_info = False\<rparr>
     (Some \<lparr>si_file = ''a.c'', si_line = 1, si_lines = [''x;'', ''y;'', ''z;''], si_bps = [], si_blocks = Inr []\<rparr>)
     = (t # e1 @ e2 @ e3, Inr ()) \<and> last e2 = Print ('' '' @ tl RIGHT_ARROW @ numbered 2 ''y;'')"
proof -
  let ?f = "\<lparr>sc_nb = 2, sc_full_max = 30, sc_base_max = 20, sc_show_info = False\<rparr>"
  let ?s = "\<lparr>si_file = ''a.c'', si_line = 1, si_lines = [''x;'', ''y;'', ''z;''], si_bps = [], si_blocks = Inr []\<rparr>"
  have w: "[0, 1, 2] = [max 0 (si_line ?s - sc_nb ?f + 1) .. min (si_line ?s + sc_nb ?f - 1) (int (length (si_lines ?s)) - 1)]"
    by (simp add: upto.simps)
  have "source_prefix demo_ctx_env ?s 1 = '' ''" by (simp add: source_prefix_def line_has_breakpoint_def)
  moreover have "cx_nc demo_ctx_env" by (simp add: demo_ctx_env_def demo_deref_def)
  ultimately show ?thesis
    using source_pane_window [of ?s ?f "[0, 1, 2]" demo_ctx_env, OF _ _ _ w] by fastforce
qed

text \<open>Fact: a breakpoint is marked at every address whose text begins its own: one at 0x108 also marks 0x10.\<close>
theorem breakpoint_mark_prefix:
  "addr_has_breakpoint 16 (bp_locations [\<lparr>bk_location = Some ''*0x108'', bk_addresses = Some [Some 264]\<rparr>])"
  by (simp add: addr_has_breakpoint_def bp_locations_def hexs_def startswith_def digit_char_def nat_digits.simps)

end
