(* ===== verification/Session.thy ===== *)
theory Session
  imports Events MemMaps Settings
begin

unbundle bit_operations_syntax

text \<open>
  \<^verbatim>\<open>GefSessionManager\<close> of \<^verbatim>\<open>scripts/gef.py\<close>: the properties of the debugged process, each
  cached after its first use until \<^verbatim>\<open>reset_caches\<close>.  A falsy cached value (None, 0, an empty dictionary or
  text) counts as not cached, as in the source.  What GDB and the host answer is the argument.
\<close>

section \<open>State\<close>

record session =
  ss_auxv :: "int dict option"
  ss_pagesize :: "int option"
  ss_os :: "string option"
  ss_pid :: "int option"
  ss_file :: "string option"
  ss_maps :: "string option"
  ss_root :: "string option"
  ss_qemu_mode :: bool
  ss_convenience_vars_index :: int
  ss_heap_allocated_chunks :: "(int \<times> int) list"
  ss_heap_freed_chunks :: "(int \<times> int) list"
  ss_pie_counter :: int
  ss_modules :: "string list"
  ss_constants :: "string dict"

record sess_env =
  se_target :: target
  se_no_color :: bool
  se_qemu_system :: bool
  se_inferior_pid :: int
  se_thread_ptid :: "int option"
  se_progspace :: "string option option"
  se_expanduser :: "string \<Rightarrow> string"
  se_platform :: string
  se_path_dirs :: "string list"
  se_executable :: "string \<Rightarrow> bool"

text \<open>\<^verbatim>\<open>pathlib\<close>: \<^verbatim>\<open>p / q\<close> and \<^verbatim>\<open>p.parent\<close>\<close>
definition path_join :: "string \<Rightarrow> string \<Rightarrow> string" where
  "path_join p q = (if startswith q ''/'' then path_norm q else path_norm (p @ ''/'' @ q))"

definition path_parent :: "string \<Rightarrow> string" where
  "path_parent p =
     (let d = rev (dropWhile (\<lambda>c. c \<noteq> CHR ''/'') (rev p)) in
      if d = [] then ''.'' else if list_all (\<lambda>c. c = CHR ''/'') d then d else butlast d)"

definition which :: "sess_env \<Rightarrow> string \<Rightarrow> string result" where
  "which env program =
     (case find (se_executable env) (map (\<lambda>d. path_join (path_norm d) program) (se_path_dirs env)) of
        Some f \<Rightarrow> Inr f
      | None \<Rightarrow> raise FileNotFoundError (''Missing file `'' @ program @ ''`''))"

definition session_reset :: "'a session_scheme \<Rightarrow> 'a session_scheme" where
  "session_reset s = s\<lparr>ss_auxv := None, ss_pagesize := None, ss_os := None, ss_pid := None, ss_file := None,
     ss_maps := None, ss_root := None\<rparr>"

text \<open>The constants are looked up last, so a missing program leaves no session\<close>
definition session_init :: "sess_env \<Rightarrow> session result" where
  "session_init env =
     bindE (mapE (\<lambda>c. bindE (which env c) (\<lambda>p. Inr (c, p))) [''python3'', ''readelf'', ''file'', ''ps'']) (\<lambda>cs.
       Inr \<lparr>ss_auxv = None, ss_pagesize = None, ss_os = None, ss_pid = None, ss_file = None, ss_maps = None, ss_root = None,
         ss_qemu_mode = False, ss_convenience_vars_index = 0, ss_heap_allocated_chunks = [],
         ss_heap_freed_chunks = [], ss_pie_counter = 1, ss_modules = [], ss_constants = cs\<rparr>)"

section \<open>The properties\<close>

text \<open>One line of \<^verbatim>\<open>info auxv\<close>: the text before a double quote, without its last column's string\<close>
definition auxv_line :: "string \<Rightarrow> (string \<times> int) option result" where
  "auxv_line line =
     (let ws = split_ws (strip (hd (split_on (CHR 0x22) line))) in
      if length ws < 4 then Inr None
      else bindE (py_int 0 (last ws)) (\<lambda>v. Inr (Some (ws ! 1, v))))"

fun auxv_lines :: "string list \<Rightarrow> int dict \<Rightarrow> int dict result" where
  "auxv_lines [] d = Inr d"
| "auxv_lines (l # ls) d =
     bindE (auxv_line l) (\<lambda>e. auxv_lines ls (case e of None \<Rightarrow> d | Some (k, v) \<Rightarrow> AList.update k v d))"

definition auxiliary_vector :: "sess_env \<Rightarrow> ('a session_scheme, int dict option) sio" where
  "auxiliary_vector env =
     (if \<not> t_alive (se_target env) \<or> se_qemu_system env then retX None
      else bindX (getX ss_auxv) (\<lambda>cached.
        if cached \<noteq> None \<and> cached \<noteq> Some [] then retX cached
        else bindX (resX (t_exec (se_target env) ''info auxv'')) (\<lambda>out.
          if out = [] \<or> str_in ''failed'' out
          then bindX (printX (err_line (se_no_color env) ''Failed to query auxiliary variables'')) (\<lambda>_. retX None)
          else bindX (resX (auxv_lines (splitlines out) [])) (\<lambda>d.
               bindX (modX (ss_auxv_update (\<lambda>_. Some d))) (\<lambda>_. retX (Some d))))))"

definition session_os :: "sess_env \<Rightarrow> ('a session_scheme, string) sio" where
  "session_os env s =
     (case ss_os s of
        Some (c # cs) \<Rightarrow> ([], Inr (c # cs), s)
      | _ \<Rightarrow> (let os = lower (se_platform env) in ([], Inr os, s\<lparr>ss_os := Some os\<rparr>)))"

definition session_pid :: "sess_env \<Rightarrow> ('a session_scheme, int) sio" where
  "session_pid env s =
     (if ss_pid s \<noteq> None \<and> ss_pid s \<noteq> Some 0 then ([], Inr (the (ss_pid s)), s)
      else case (if \<not> ss_qemu_mode s then Inr (se_inferior_pid env)
          else (case se_thread_ptid env of Some p \<Rightarrow> Inr p | None \<Rightarrow> raise AttributeError ''no selected thread'')) of
        Inl e \<Rightarrow> ([], Inl e, s)
      | Inr p \<Rightarrow> if p = 0 then ([], raise RuntimeError ''cannot retrieve PID for target process'', s)
                else ([], Inr p, s\<lparr>ss_pid := Some p\<rparr>))"

text \<open>\<^verbatim>\<open>file\<close> of a local session\<close>
definition session_file :: "sess_env \<Rightarrow> ('a session_scheme, string option) sio" where
  "session_file env s =
     (case se_progspace env of
        None \<Rightarrow> ([], raise AssertionError [], s)
      | Some fpath \<Rightarrow>
          (case fpath of
             Some (c # cs) \<Rightarrow>
               (if ss_file s = None then (let f = se_expanduser env (path_norm (c # cs)) in ([], Inr (Some f), s\<lparr>ss_file := Some f\<rparr>))
                else ([], Inr (ss_file s), s))
           | _ \<Rightarrow> ([], Inr (ss_file s), s)))"

definition session_cwd :: "sess_env \<Rightarrow> ('a session_scheme, string option) sio" where
  "session_cwd env = bindX (session_file env) (\<lambda>f. retX (map_option path_parent f))"

definition DEFAULT_PAGE_SIZE :: int where "DEFAULT_PAGE_SIZE = 4096"

definition aux_value :: "int dict \<Rightarrow> string \<Rightarrow> int result" where
  "aux_value d k = (case map_of d k of Some v \<Rightarrow> Inr v | None \<Rightarrow> raise KeyError k)"

definition session_pagesize :: "sess_env \<Rightarrow> ('a session_scheme, int) sio" where
  "session_pagesize env =
     bindX (auxiliary_vector env) (\<lambda>a. case a of
       Some (x # xs) \<Rightarrow> bindX (resX (aux_value (x # xs) ''AT_PAGESZ'')) (\<lambda>v.
           bindX (modX (ss_pagesize_update (\<lambda>_. Some v))) (\<lambda>_. retX v))
     | _ \<Rightarrow> retX DEFAULT_PAGE_SIZE)"

definition original_canary :: "sess_env \<Rightarrow> ('a session_scheme, (int \<times> int) option) sio" where
  "original_canary env =
     bindX (auxiliary_vector env) (\<lambda>a. case a of
       Some (x # xs) \<Rightarrow> bindX (resX (aux_value (x # xs) ''AT_RANDOM'')) (\<lambda>loc.
           bindX (resX (read_integer (se_target env) loc)) (\<lambda>c. retX (Some (c AND NOT 0xFF, loc))))
     | _ \<Rightarrow> retX None)"

text \<open>The argument is \<^verbatim>\<open>canary_address\<close> of the architecture; \<^verbatim>\<open>gdb.MemoryError\<close> is a \<^verbatim>\<open>gdb.error\<close>\<close>
definition session_canary :: "sess_env \<Rightarrow> int result \<Rightarrow> ('a session_scheme, (int \<times> int) option) sio" where
  "session_canary env canary_address =
     catchX (bindX (resX canary_address) (\<lambda>loc.
         bindX (resX (read_integer (se_target env) loc)) (\<lambda>c. retX (Some (c, loc)))))
       (\<lambda>e. if exn_cls e \<in> {NotImplementedError, GdbError, GdbMemoryError} then Some (original_canary env) else None)"

definition cached_path ::
  "('a session_scheme \<Rightarrow> string option) \<Rightarrow> (string \<Rightarrow> 'a session_scheme \<Rightarrow> 'a session_scheme)
     \<Rightarrow> ('a session_scheme, string) sio \<Rightarrow> ('a session_scheme, string) sio" where
  "cached_path get put m = bindX (getX get) (\<lambda>c. case c of
     Some p \<Rightarrow> retX p | None \<Rightarrow> bindX m (\<lambda>p. bindX (modX (put p)) (\<lambda>_. retX p)))"

text \<open>\<^verbatim>\<open>maps\<close>; the first argument is that of the remote session, when there is one\<close>
definition session_maps :: "(string result) option \<Rightarrow> sess_env \<Rightarrow> ('a session_scheme, string option) sio" where
  "session_maps remote env =
     (if \<not> t_alive (se_target env) then retX None
      else bindX (cached_path ss_maps (\<lambda>p. ss_maps_update (\<lambda>_. Some p))
        (case remote of Some r \<Rightarrow> resX r
          | None \<Rightarrow> bindX (session_pid env) (\<lambda>p. retX (''/proc/'' @ decs p @ ''/maps'')))) (\<lambda>p. retX (Some p)))"

definition session_root :: "sess_env \<Rightarrow> ('a session_scheme, string option) sio" where
  "session_root env =
     (if \<not> t_alive (se_target env) then retX None
      else bindX (cached_path ss_root (\<lambda>p. ss_root_update (\<lambda>_. Some p))
        (bindX (session_pid env) (\<lambda>p. retX (''/proc/'' @ decs p @ ''/root'')))) (\<lambda>p. retX (Some p)))"

definition session_str :: "sess_env \<Rightarrow> string option \<Rightarrow> ('a session_scheme, string) sio" where
  "session_str env remote_mode =
     bindX (session_pid env) (\<lambda>p. bindX (session_os env) (\<lambda>os.
       retX (''Session(type='' @ (case remote_mode of None \<Rightarrow> ''Local'' | Some m \<Rightarrow> ''Remote/'' @ m)
         @ '', pid='' @ decs p @ '', os='' @ [CHR 0x27] @ os @ [CHR 0x27] @ '')'')))"

section \<open>Facts about the text of the auxiliary vector\<close>

lemma split_ws_aux_sep:
  "is_space c \<Longrightarrow> split_ws_aux acc (a @ c # b) = split_ws_aux acc a @ split_ws b"
  by (induction a arbitrary: acc) (auto simp: split_ws_def)

lemma split_ws_sep: "is_space c \<Longrightarrow> split_ws (a @ c # b) = split_ws a @ split_ws b"
  unfolding split_ws_def using split_ws_aux_sep [of c "[]" a b] by (simp add: split_ws_def)

lemma split_ws_spaces: "list_all is_space sp \<Longrightarrow> split_ws (a @ sp) = split_ws a"
proof (induction sp arbitrary: a)
  case (Cons c sp)
  then have "split_ws (a @ c # sp) = split_ws a @ split_ws ([] @ sp)" by (simp add: split_ws_sep)
  also have "split_ws ([] @ sp) = split_ws []" using Cons by (intro Cons.IH) simp
  finally show ?case by (simp add: split_ws_def)
qed simp

lemma split_ws_lstrip: "split_ws (dropWhile is_space s) = split_ws s"
  by (induction s) (auto simp: split_ws_def)

lemma split_ws_strip: "split_ws (strip s) = split_ws s"
proof -
  have "\<exists>sp. t = rstrip_of is_space t @ sp \<and> list_all is_space sp" for t
  proof -
    have "t = rev (dropWhile is_space (rev t)) @ rev (takeWhile is_space (rev t))"
      by (simp flip: rev_append)
    moreover have "list_all is_space (rev (takeWhile is_space (rev t)))"
      by (auto simp: list_all_iff dest: set_takeWhileD)
    ultimately show ?thesis unfolding rstrip_of_def by blast
  qed
  then obtain sp where "lstrip_of is_space s = strip s @ sp" "list_all is_space sp" unfolding strip_def by blast
  then show ?thesis using split_ws_spaces split_ws_lstrip [of s] by (metis lstrip_of_def)
qed

lemma split_ws_word:
  assumes "w \<noteq> []" "\<forall>c \<in> set w. \<not> is_space c"
  shows "split_ws w = [w]"
proof -
  have "split_ws_aux acc w = (if acc = [] \<and> w = [] then [] else [rev acc @ w])" for acc
    using assms(2) by (induction w arbitrary: acc) auto
  then show ?thesis using assms(1) by (simp add: split_ws_def)
qed

lemma split_ws_ljust: "split_ws (ljust w a @ CHR '' '' # b) = split_ws a @ split_ws b"
  using split_ws_sep [of "CHR '' ''" "ljust w a" b] split_ws_spaces [of "replicate (w - length a) (CHR '' '')" a]
  by (simp add: ljust_def is_space_def list_all_iff)

lemma split_on_hd: "d \<notin> set a \<Longrightarrow> hd (split_on d (a @ b)) = a @ hd (split_on d b)"
  by (induction a) (auto split: list.splits)

lemma nat_digits_hd: "2 \<le> b \<Longrightarrow> b \<le> 16 \<Longrightarrow> 0 < n \<Longrightarrow> hd (nat_digits b n) \<noteq> CHR ''0''"
proof (induction n rule: less_induct)
  case (less n)
  show ?case
  proof (cases "n < b")
    case True
    then have "digit_val (digit_char n) = Some n" using less by (intro digit_val_digit_char) simp
    moreover have "digit_val (CHR ''0'') = Some 0" by (simp add: digit_val_def)
    ultimately have "digit_char n \<noteq> CHR ''0''" using less by auto
    with True show ?thesis by (simp add: nat_digits.simps [of b n])
  next
    case False
    then have "hd (nat_digits b (n div b)) \<noteq> CHR ''0''" using less by (simp add: div_greater_zero_iff)
    with False show ?thesis using less by (simp add: nat_digits.simps [of b n])
  qed
qed

lemma base_prefix_None: "hd s \<noteq> CHR ''0'' \<Longrightarrow> base_prefix s = None"
  by (cases s; cases "tl s") (simp_all add: base_prefix_def)

lemma py_int_0_decs:
  assumes "0 \<le> x"
  shows "py_int 0 (decs x) = Inr x"
proof -
  let ?d = "nat_digits 10 (nat x)"
  have h: "\<forall>c \<in> set ?d. hex_digit c" by (rule hex_digit_nat_digits) simp_all
  then have st: "strip ?d = ?d" by (intro strip_id) (auto dest: hex_digit_facts(1))
  have hh: "hex_digit (hd ?d)" using h hd_in_set [OF nat_digits_not_Nil] by blast
  have sg: "\<not> startswith ?d ''-''" "\<not> startswith ?d ''+''"
    using hex_digit_facts(2,3) [OF hh] by (simp_all add: startswith_def take_Suc)
  have z: "\<not> (startswith ?d ''0'' \<and> nat x \<noteq> 0)"
    using nat_digits_hd [of 10 "nat x"] by (cases "0 < x") (auto simp: startswith_def take_Suc)
  have "base_prefix ?d = None"
  proof (cases "nat x < 10")
    case True
    then show ?thesis by (simp add: nat_digits.simps [of 10 "nat x"] base_prefix_def)
  next
    case False
    then show ?thesis by (intro base_prefix_None nat_digits_hd) simp_all
  qed
  then have "uint_text 0 ?d = Some (nat x)" using z by (simp add: uint_text_def digits_val_nat_digits)
  then show ?thesis using assms st sg by (simp add: py_int_def decs_def Let_def)
qed

text \<open>The line GDB prints for an entry: number, name, description and value in columns, the
  text of a string entry in quotes\<close>
record aux_entry =
  ax_number :: nat
  ax_name :: string
  ax_desc :: string
  ax_dec :: bool
  ax_value :: int
  ax_text :: "string option"

definition aux_text :: "aux_entry \<Rightarrow> string" where
  "aux_text e = ljust 4 (decs (int (ax_number e))) @ '' '' @ ljust 20 (ax_name e) @ '' '' @ ljust 30 (ax_desc e) @ '' ''
     @ (if ax_dec e then decs (ax_value e) else hexs (ax_value e))
     @ (case ax_text e of None \<Rightarrow> [] | Some t \<Rightarrow> CHR '' '' # CHR 0x22 # t @ [CHR 0x22])"

definition wf_aux :: "aux_entry \<Rightarrow> bool" where
  "wf_aux e \<longleftrightarrow> ax_name e \<noteq> [] \<and> (\<forall>c \<in> set (ax_name e). \<not> is_space c \<and> c \<noteq> CHR 0x22) \<and> CHR 0x22 \<notin> set (ax_desc e)
     \<and> split_ws (ax_desc e) \<noteq> [] \<and> 0 \<le> ax_value e \<and> CHR 0x0A \<notin> set (aux_text e)"

lemma digits_plain:
  assumes "2 \<le> b" "b \<le> 16"
  shows "\<forall>c \<in> set (nat_digits b n). \<not> is_space c \<and> c \<noteq> CHR 0x22"
proof
  fix c assume "c \<in> set (nat_digits b n)"
  then have "hex_digit c" using hex_digit_nat_digits [OF assms] by blast
  then show "\<not> is_space c \<and> c \<noteq> CHR 0x22" using hex_digit_facts(1) by (auto simp: hex_digit_def)
qed

lemma number_plain:
  assumes "0 \<le> x"
  shows "\<forall>c \<in> set (decs x) \<union> set (hexs x). \<not> is_space c \<and> c \<noteq> CHR 0x22" "decs x \<noteq> []" "hexs x \<noteq> []"
  using assms digits_plain [of 10 "nat x"] digits_plain [of 16 "nat x"]
  by (auto simp: decs_def hexs_def is_space_def)

lemma auxv_line_text:
  assumes "wf_aux e"
  shows "auxv_line (aux_text e) = Inr (Some (ax_name e, ax_value e))"
proof -
  define v n where "v = (if ax_dec e then decs (ax_value e) else hexs (ax_value e))" and "n = decs (int (ax_number e))"
  let ?cols = "ljust 4 n @ '' '' @ ljust 20 (ax_name e) @ '' '' @ ljust 30 (ax_desc e) @ '' '' @ v"
  have w: "ax_name e \<noteq> []" "\<forall>c \<in> set (ax_name e). \<not> is_space c \<and> c \<noteq> CHR 0x22" "CHR 0x22 \<notin> set (ax_desc e)"
    "split_ws (ax_desc e) \<noteq> []" "0 \<le> ax_value e" using assms by (auto simp: wf_aux_def)
  have v: "\<forall>c \<in> set v. \<not> is_space c \<and> c \<noteq> CHR 0x22" "v \<noteq> []" "py_int 0 v = Inr (ax_value e)"
    using number_plain [OF w(5)] w(5) by (auto simp: v_def py_int_0_decs py_int_hexs)
  have n: "\<forall>c \<in> set n. \<not> is_space c \<and> c \<noteq> CHR 0x22" "n \<noteq> []"
    using number_plain [of "int (ax_number e)"] by (auto simp: n_def)
  have "CHR 0x22 \<notin> set v" "CHR 0x22 \<notin> set n" "CHR 0x22 \<notin> set (ax_name e)" using v(1) n(1) w(2) by blast+
  then have q: "CHR 0x22 \<notin> set ?cols" using w(3) by (simp add: ljust_def)
  have "hd (split_on (CHR 0x22) (aux_text e)) = ?cols @ (if ax_text e = None then [] else '' '')"
  proof -
    let ?s = "case ax_text e of None \<Rightarrow> [] | Some t \<Rightarrow> CHR '' '' # CHR 0x22 # t @ [CHR 0x22]"
    have "aux_text e = ?cols @ ?s" by (simp add: aux_text_def v_def n_def)
    then have "hd (split_on (CHR 0x22) (aux_text e)) = ?cols @ hd (split_on (CHR 0x22) ?s)"
      using split_on_hd [OF q, of ?s] by presburger
    then show ?thesis by (simp split: option.split)
  qed
  moreover have "split_ws (?cols @ (if ax_text e = None then [] else '' '')) = split_ws ?cols"
    using split_ws_spaces [of "'' ''" ?cols] by (simp add: is_space_def)
  ultimately have s: "split_ws (strip (hd (split_on (CHR 0x22) (aux_text e)))) = split_ws ?cols"
    by (simp only: split_ws_strip)
  have c: "split_ws ?cols = [n, ax_name e] @ split_ws (ax_desc e) @ [v]"
    using w(1,2) v n by (simp add: split_ws_ljust split_ws_word)
  have "4 \<le> length (split_ws ?cols)" unfolding c using w(4) by (cases "split_ws (ax_desc e)") auto
  moreover have "last (split_ws ?cols) = v" "split_ws ?cols ! 1 = ax_name e" unfolding c by simp_all
  ultimately show ?thesis using v(3) unfolding auxv_line_def s by (simp add: Let_def)
qed

lemma auxv_lines_text:
  assumes "\<forall>e \<in> set es. wf_aux e" "distinct (map fst d @ map ax_name es)"
  shows "auxv_lines (map aux_text es) d = Inr (d @ map (\<lambda>e. (ax_name e, ax_value e)) es)"
  using assms
proof (induction es arbitrary: d)
  case (Cons e es)
  have new: "AList.update (ax_name e) (ax_value e) d = d @ [(ax_name e, ax_value e)]"
    using Cons.prems(2) by (induction d) auto
  show ?case using Cons.IH [of "d @ [(ax_name e, ax_value e)]"] Cons.prems by (simp add: auxv_line_text new)
qed simp

lemma splitlines_lines:
  "\<forall>l \<in> set ls. CHR 0x0A \<notin> set l \<Longrightarrow> splitlines (concat (map (\<lambda>l. l @ [CHR 0x0A]) ls)) = ls"
proof -
  assume a: "\<forall>l \<in> set ls. CHR 0x0A \<notin> set l"
  have "split_on (CHR 0x0A) (concat (map (\<lambda>l. l @ [CHR 0x0A]) ls)) = ls @ [[]]"
    using a by (induction ls) (simp_all add: split_on_append_sep split_on_none)
  then show ?thesis by (simp add: splitlines_def Let_def)
qed

section \<open>Facts about the caches\<close>

lemma session_reset_update [simp]:
  "session_reset (ss_auxv_update f s) = session_reset s" "session_reset (ss_os_update g s) = session_reset s"
  "session_reset (ss_pid_update h s) = session_reset s" "session_reset (ss_file_update i s) = session_reset s"
  "session_reset (ss_pagesize_update j s) = session_reset s" "session_reset (ss_maps_update i s) = session_reset s"
  "session_reset (ss_root_update i s) = session_reset s"
  by (simp_all add: session_reset_def)

lemma keepsX_reset: "keepsX (\<lambda>x. session_reset x = session_reset s) m \<Longrightarrow> session_reset (snd (snd (m s))) = session_reset s"
  by (simp add: keepsX_def)

lemma and_not_255: "(v::int) AND NOT 0xFF = push_bit 8 (drop_bit 8 v)"
proof -
  have m: "(0xFF::int) = mask 8" by (simp add: mask_eq_exp_minus_1)
  show ?thesis unfolding m by (rule bit_eqI) (auto simp: bit_simps)
qed

lemma caches_only_cells [keeps_intros]:
  "keepsX (\<lambda>s. session_reset s = r) (session_pid env)" "keepsX (\<lambda>s. session_reset s = r) (session_os env)"
  "keepsX (\<lambda>s. session_reset s = r) (session_file env)"
  by (auto simp: keepsX_def session_pid_def session_os_def session_file_def Let_def split: option.split sum.split list.split)

lemma caches_only_put [keeps_intros]:
  "keepsX (\<lambda>s. session_reset s = r) (modX (ss_auxv_update f))" "keepsX (\<lambda>s. session_reset s = r) (modX (ss_pagesize_update g))"
  "keepsX (\<lambda>s. session_reset s = r) (modX (ss_maps_update h))" "keepsX (\<lambda>s. session_reset s = r) (modX (ss_root_update h))"
  by (simp_all add: keepsX_def sio_defs)

lemma caches_only_auxv [keeps_intros]: "keepsX (\<lambda>s. session_reset s = r) (auxiliary_vector env)"
  unfolding auxiliary_vector_def by (auto intro!: keeps_intros)

lemma caches_only_canary [keeps_intros]: "keepsX (\<lambda>s. session_reset s = r) (original_canary env)"
  unfolding original_canary_def by (auto intro!: keeps_intros split: option.split list.split)

lemma caches_only_paths [keeps_intros]:
  "keepsX (\<lambda>s. session_reset s = r) (session_maps rem env)" "keepsX (\<lambda>s. session_reset s = r) (session_root env)"
  unfolding session_maps_def session_root_def cached_path_def
  by (auto intro!: keeps_intros split: option.split)

lemma caches_only_rest [keeps_intros]:
  "keepsX (\<lambda>s. session_reset s = r) (session_canary env ca)" "keepsX (\<lambda>s. session_reset s = r) (session_pagesize env)"
  "keepsX (\<lambda>s. session_reset s = r) (session_cwd env)" "keepsX (\<lambda>s. session_reset s = r) (session_str env m)"
  unfolding session_canary_def session_pagesize_def session_cwd_def session_str_def
  by (auto intro!: keeps_intros split: option.split list.split if_splits)

section \<open>Properties\<close>

text \<open>C19: reading any property of the session changes nothing but its caches, so after a reset the session
  answers as if it had never been asked.\<close>
theorem session_caches_forgotten:
  "session_reset (snd (snd (auxiliary_vector env s))) = session_reset s
    \<and> session_reset (snd (snd (session_pid env s))) = session_reset s
    \<and> session_reset (snd (snd (session_os env s))) = session_reset s
    \<and> session_reset (snd (snd (session_file env s))) = session_reset s
    \<and> session_reset (snd (snd (session_cwd env s))) = session_reset s
    \<and> session_reset (snd (snd (session_pagesize env s))) = session_reset s
    \<and> session_reset (snd (snd (session_canary env ca s))) = session_reset s
    \<and> session_reset (snd (snd (session_maps remote env s))) = session_reset s
    \<and> session_reset (snd (snd (session_root env s))) = session_reset s
    \<and> session_reset (snd (snd (session_str env mode s))) = session_reset s"
  by (intro conjI; rule keepsX_reset; rule keeps_intros)

text \<open>C20: from the auxiliary vector that GDB prints and the word stored at the address of its \<^verbatim>\<open>AT_RANDOM\<close>
  entry, an architecture without a canary location of its own gets that word with its lowest byte cleared
  as canary; the vector is cached, with exactly the printed entries.\<close>
theorem canary_from_auxv:
  assumes "t_alive (se_target env)" "\<not> se_qemu_system env" "ss_auxv s = None"
    and "t_exec (se_target env) ''info auxv'' = Inr (concat (map (\<lambda>e. aux_text e @ [CHR 0x0A]) es))"
    and "\<not> str_in ''failed'' (concat (map (\<lambda>e. aux_text e @ [CHR 0x0A]) es))"
    and "\<forall>e \<in> set es. wf_aux e" "distinct (map ax_name es)"
    and "e \<in> set es" "ax_name e = ''AT_RANDOM''" "read_integer (se_target env) (ax_value e) = Inr v"
  shows "\<exists>c. session_canary env (raise NotImplementedError m) s
      = ([], Inr (Some (c, ax_value e)), s\<lparr>ss_auxv := Some (map (\<lambda>e. (ax_name e, ax_value e)) es)\<rparr>)
    \<and> c mod 256 = 0 \<and> c \<le> v \<and> v < c + 256"
proof -
  let ?d = "map (\<lambda>e. (ax_name e, ax_value e)) es" and ?out = "concat (map (\<lambda>e. aux_text e @ [CHR 0x0A]) es)"
  have ne: "?out \<noteq> []" "?d \<noteq> []" using assms(8) by auto
  have "splitlines ?out = map aux_text es"
    using splitlines_lines [of "map aux_text es"] assms(6) by (simp add: wf_aux_def comp_def)
  moreover have "auxv_lines (map aux_text es) [] = Inr ?d" using auxv_lines_text [of es "[]"] assms(6,7) by simp
  ultimately have a: "auxiliary_vector env s = ([], Inr (Some ?d), s\<lparr>ss_auxv := Some ?d\<rparr>)"
    using assms(1-5) ne(1) by (simp add: auxiliary_vector_def sio_defs)
  have "map_of ?d ''AT_RANDOM'' = Some (ax_value e)"
    using assms(7,8,9) by (intro map_of_is_SomeI) (auto simp: comp_def image_iff intro: rev_bexI)
  then have "session_canary env (raise NotImplementedError m) s = ([], Inr (Some (v AND NOT 0xFF, ax_value e)), s\<lparr>ss_auxv := Some ?d\<rparr>)"
    using a ne(2) assms(10)
    by (auto simp: session_canary_def original_canary_def catchX_def aux_value_def sio_defs split: list.split)
  moreover have "v AND NOT 0xFF = 256 * (v div 256)"
    unfolding and_not_255 by (simp add: push_bit_eq_mult drop_bit_eq_div)
  ultimately show ?thesis by (intro exI [of _ "256 * (v div 256)"]) auto
qed

text \<open>An auxiliary vector with the page size and the address of 16 random bytes\<close>
definition demo_aux :: "aux_entry list" where
  "demo_aux = [\<lparr>ax_number = 6, ax_name = ''AT_PAGESZ'', ax_desc = ''System page size'', ax_dec = True, ax_value = 4096, ax_text = None\<rparr>,
     \<lparr>ax_number = 25, ax_name = ''AT_RANDOM'', ax_desc = ''Address of 16 random bytes'', ax_dec = False, ax_value = 0x1000, ax_text = None\<rparr>]"

definition demo_aux_out :: string where
  "demo_aux_out = concat (map (\<lambda>e. aux_text e @ [CHR 0x0A]) demo_aux)"

definition demo_sess_env :: sess_env where
  "demo_sess_env = \<lparr>se_target = demo_target\<lparr>t_exec := (\<lambda>_. Inr demo_aux_out)\<rparr>, se_no_color = True,
     se_qemu_system = False, se_inferior_pid = 42, se_thread_ptid = None, se_progspace = Some (Some ''/bin/a''),
     se_expanduser = (\<lambda>p. p), se_platform = ''Linux'', se_path_dirs = [''/bin''], se_executable = (\<lambda>_. True)\<rparr>"

definition demo_session :: session where
  "demo_session = \<lparr>ss_auxv = None, ss_pagesize = None, ss_os = None, ss_pid = None, ss_file = None, ss_maps = None, ss_root = None,
     ss_qemu_mode = False, ss_convenience_vars_index = 0, ss_heap_allocated_chunks = [],
     ss_heap_freed_chunks = [], ss_pie_counter = 1, ss_modules = [], ss_constants = []\<rparr>"

theorem canary_from_auxv_witness:
  "\<exists>c. session_canary demo_sess_env (raise NotImplementedError []) demo_session
      = ([], Inr (Some (c, 0x1000)), demo_session\<lparr>ss_auxv := Some [(''AT_PAGESZ'', 4096), (''AT_RANDOM'', 0x1000)]\<rparr>)
    \<and> c mod 256 = 0 \<and> c \<le> 0 \<and> 0 < c + 256"
proof -
  let ?e = "demo_aux ! 1"
  have e: "demo_aux ! 1 = last demo_aux" "ax_name ?e = ''AT_RANDOM''" "ax_value ?e = 0x1000"
    "map (\<lambda>e. (ax_name e, ax_value e)) demo_aux = [(''AT_PAGESZ'', 4096), (''AT_RANDOM'', 0x1000)]"
    by (simp_all add: demo_aux_def)
  have d: "decs 6 = ''6''" "decs 25 = ''25''" "decs 4096 = ''4096''" "hexs 4096 = ''0x1000''"
    by (simp add: decs_def hexs_def nat_digits.simps digit_char_def, code_simp)+
  have l: "ljust 4 ''6'' = ''6   ''" "ljust 4 ''25'' = ''25  ''" "ljust 20 ''AT_PAGESZ'' = ''AT_PAGESZ           ''"
    "ljust 20 ''AT_RANDOM'' = ''AT_RANDOM           ''" "ljust 30 ''System page size'' = ''System page size              ''"
    "ljust 30 ''Address of 16 random bytes'' = ''Address of 16 random bytes    ''" by code_simp+
  have t: "map aux_text demo_aux = [''6    AT_PAGESZ            System page size               4096'',
      ''25   AT_RANDOM            Address of 16 random bytes     0x1000'']"
    by (simp add: demo_aux_def aux_text_def d l)
  then have "wf_aux (hd demo_aux)" "wf_aux (last demo_aux)"
    unfolding wf_aux_def by (simp_all add: demo_aux_def is_space_def split_ws_def)
  then have wf: "\<forall>e \<in> set demo_aux. wf_aux e" by (simp add: demo_aux_def)
  have o1: "demo_aux_out = concat (map (\<lambda>l. l @ [CHR 0x0A]) (map aux_text demo_aux))" by (simp add: demo_aux_out_def comp_def)
  have f: "\<not> str_in ''failed'' demo_aux_out" unfolding o1 t by (simp add: startswith_def)
  have r: "read_integer (se_target demo_sess_env) 0x1000 = Inr 0"
    by (simp add: demo_sess_env_def demo_target_def read_integer_def mem_read_def u64_def struct_unpack_def
        numeral_eq_Suc endian_or_def order_def)
  show ?thesis
    using canary_from_auxv [of demo_sess_env demo_session demo_aux ?e 0 "[]"] e wf f r
    by (simp add: demo_sess_env_def demo_session_def demo_aux_out_def demo_target_def) (simp add: demo_aux_def)
qed

end
