(* ===== verification/Remote.thy ===== *)
theory Remote
  imports Session Elf
begin

text \<open>
  Remote sessions of \<^verbatim>\<open>scripts/gef.py\<close>: \<^verbatim>\<open>GefRemoteSessionManager\<close>, the \<^verbatim>\<open>gef-remote\<close> command, the
  hook of \<^verbatim>\<open>target remote\<close>, and the handlers of the events of GDB that change the session.  The local file
  system is part of the state; what GDB does with a command is a parameter, which may change the state.
\<close>

section \<open>State\<close>

datatype remote_mode = GDBSERVER | QEMU | RR

record remote = session +
  rs_host :: string
  rs_port :: int
  rs_tmp :: string
  rs_root :: string
  rs_mode :: remote_mode
  rs_qemu :: "string option"

text \<open>The functions connected to the event \<^verbatim>\<open>new_objfile\<close>: the default one, or that of the remote session
  with the given temporary directory\<close>
datatype handler = DefaultHandler | RemoteHandler string

record world =
  w_session :: session
  w_remote :: "remote option"
  w_initializing :: bool
  w_hidden :: bool
  w_hooks :: "handler list"
  w_files :: "(string \<times> byte list) list"
  w_dirs :: "string list"
  w_binary :: "elf option"

record remote_env =
  re_sess :: sess_env
  re_debug :: bool
  re_under_rr :: bool
  re_tmp :: string
  re_32bit :: bool
  re_endian :: endianness
  re_execute :: "string \<Rightarrow> (world, unit) sio"
  re_reset_arch :: "elf \<Rightarrow> unit result"

text \<open>A method of a remote session sees the whole state and the session's own fields\<close>
type_synonym 'a rop = "(world \<times> remote, 'a) sio"

definition onW :: "(world, 'a) sio \<Rightarrow> 'a rop" where
  "onW m = (\<lambda>(w, r). case m w of (es, x, w') \<Rightarrow> (es, x, (w', r)))"

definition onR :: "(remote, 'a) sio \<Rightarrow> 'a rop" where
  "onR m = (\<lambda>(w, r). case m r of (es, x, r') \<Rightarrow> (es, x, (w, r')))"

abbreviation re_nc :: "remote_env \<Rightarrow> bool" where "re_nc e \<equiv> se_no_color (re_sess e)"

definition dbgX :: "remote_env \<Rightarrow> string \<Rightarrow> ('s, unit) sio" where
  "dbgX e m = eachX printX (dbg_lines (re_nc e) (re_debug e) m)"

section \<open>Files and hooks\<close>

definition is_dir :: "world \<Rightarrow> string \<Rightarrow> bool" where
  "is_dir w p = list_ex (\<lambda>d. d = p \<or> startswith d (p @ ''/'')) (w_dirs w)"

definition path_exists :: "world \<Rightarrow> string \<Rightarrow> bool" where
  "path_exists w p \<longleftrightarrow> p \<in> fst ` set (w_files w) \<or> is_dir w p"

text \<open>\<^verbatim>\<open>mkdir(parents=True, exist_ok=...)\<close>\<close>
definition mkdirX :: "bool \<Rightarrow> string \<Rightarrow> (world, unit) sio" where
  "mkdirX exist_ok p w =
     (if p \<in> fst ` set (w_files w) \<or> (is_dir w p \<and> \<not> exist_ok) then ([], raise OSError ''File exists'', w)
      else ([MakeDir p], Inr (), w\<lparr>w_dirs := p # w_dirs w\<rparr>))"

definition write_fileX :: "string \<Rightarrow> string \<Rightarrow> (world, unit) sio" where
  "write_fileX p txt w =
     ([WriteFile p txt], Inr (), w\<lparr>w_files := AList.update p (map (\<lambda>c. of_nat (of_char c)) txt) (w_files w)\<rparr>)"

definition copy2X :: "string \<Rightarrow> string \<Rightarrow> (world, unit) sio" where
  "copy2X src dstdir w =
     (case map_of (w_files w) src of
        None \<Rightarrow> ([], raise FileNotFoundError src, w)
      | Some bs \<Rightarrow> ([], Inr (), w\<lparr>w_files := AList.update (path_join dstdir (last (split_on (CHR ''/'') src))) bs (w_files w)\<rparr>))"

definition hook_new :: "handler \<Rightarrow> (world, unit) sio" where
  "hook_new h = modX (\<lambda>w. w\<lparr>w_hooks := w_hooks w @ [h]\<rparr>)"

definition unhook_new :: "handler \<Rightarrow> (world, unit) sio" where
  "unhook_new h w =
     (if h \<in> set (w_hooks w) then ([], Inr (), w\<lparr>w_hooks := remove1 h (w_hooks w)\<rparr>)
      else ([], raise SystemError ''unable to disconnect'', w))"

section \<open>The remote session\<close>

fun mode_name :: "remote_mode \<Rightarrow> string" where
  "mode_name GDBSERVER = ''GDBSERVER''"
| "mode_name QEMU = ''QEMU''"
| "mode_name RR = ''RR''"

fun mode_int :: "remote_mode \<Rightarrow> int" where
  "mode_int GDBSERVER = 0"
| "mode_int QEMU = 1"
| "mode_int RR = 2"

definition mode_repr :: "remote_mode \<Rightarrow> string" where
  "mode_repr m = ''RemoteMode = '' @ mode_name m @ '' ('' @ decs (mode_int m) @ '')''"

definition prompt_string :: "bool \<Rightarrow> remote_mode \<Rightarrow> string" where
  "prompt_string nc m = boldify nc (case m of QEMU \<Rightarrow> ''(qemu) '' | RR \<Rightarrow> ''(rr) '' | GDBSERVER \<Rightarrow> ''(remote) '')"

definition remote_init :: "remote_env \<Rightarrow> string \<Rightarrow> int \<Rightarrow> string option \<Rightarrow> remote result" where
  "remote_init e host port qemu =
     bindE (session_init (re_sess e)) (\<lambda>s.
       Inr (session.extend s (remote.fields host port (re_tmp e) (re_tmp e)
         (if qemu \<noteq> None then QEMU else if re_under_rr e then RR else GDBSERVER) qemu)))"

definition remote_target :: "remote \<Rightarrow> string" where
  "remote_target r = rs_host r @ '':'' @ decs (rs_port r)"

definition remote_file :: "remote_env \<Rightarrow> (remote, string) sio" where
  "remote_file e r =
     (case ss_file r of
        Some f \<Rightarrow> ([], Inr f, r)
      | None \<Rightarrow>
          (case se_progspace (re_sess e) of
             Some (Some (c # cs)) \<Rightarrow>
               (let name = c # cs; f = path_norm (if startswith name ''target:'' then drop 7 name else name) in
                ([], Inr f, r\<lparr>ss_file := Some f\<rparr>))
           | _ \<Rightarrow> ([], raise RuntimeError ''No session started'', r)))"

definition remote_lfile :: "remote_env \<Rightarrow> (remote, string) sio" where
  "remote_lfile e = bindX (remote_file e) (\<lambda>f. getX (\<lambda>r. path_join (rs_root r) (lstrip_of (\<lambda>c. c = CHR ''/'') f)))"

definition remote_maps :: "remote_env \<Rightarrow> (remote, string) sio" where
  "remote_maps e = cached_path ss_maps (\<lambda>p. ss_maps_update (\<lambda>_. Some p))
     (bindX (session_pid (re_sess e)) (\<lambda>p. getX (\<lambda>r. path_join (rs_root r) (''proc/'' @ decs p @ ''/maps''))))"

definition sync :: "remote_env \<Rightarrow> string \<Rightarrow> string option \<Rightarrow> bool rop" where
  "sync e src dst =
     bindX (getX (\<lambda>(w, r). path_join (rs_root r)
         (lstrip_of (\<lambda>c. c = CHR ''/'') (case dst of Some (c # cs) \<Rightarrow> c # cs | _ \<Rightarrow> src)))) (\<lambda>tgt.
     bindX (getX (\<lambda>(w, r). path_exists w tgt)) (\<lambda>there.
     if there then retX True
     else let q = [CHR 0x27] in
       bindX (onW (mkdirX True (path_parent tgt))) (\<lambda>_.
       bindX (dbgX e (''[remote] downloading '' @ q @ src @ q @ '' -> '' @ q @ tgt @ q)) (\<lambda>_.
       bindX (onW (re_execute e (''remote get '' @ q @ src @ q @ '' '' @ q @ tgt @ q))) (\<lambda>_.
       getX (\<lambda>(w, r). path_exists w tgt))))))"

definition connect :: "remote_env \<Rightarrow> int \<Rightarrow> bool rop" where
  "connect e pid =
     bindX (dbgX e ''[remote] Installing new objfile handlers'') (\<lambda>_.
     bindX (catchX (onW (unhook_new DefaultHandler)) (\<lambda>x. if exn_cls x = SystemError then Some (retX ()) else None)) (\<lambda>_.
     bindX (\<lambda>(w, r). onW (hook_new (RemoteHandler (rs_tmp r))) (w, r)) (\<lambda>_.
     let extended = pid > - 1 in
     bindX (dbgX e (''[remote] Enabling extended remote: '' @ (if extended then ''True'' else ''False''))) (\<lambda>_.
     bindX (getX (\<lambda>(w, r). remote_target r)) (\<lambda>target.
     let cmd = ''target '' @ (if extended then ''extended-'' else []) @ ''remote '' @ target;
         body = bindX (dbgX e (''[remote] Executing '' @ [CHR 0x27] @ cmd @ [CHR 0x27])) (\<lambda>_.
           bindX (onW (re_execute e cmd)) (\<lambda>_.
           if extended then onW (re_execute e (''attach '' @ decs pid)) else retX ()));
         unhide = onW (modX (w_hidden_update (\<lambda>_. False)))
     in catchX (bindX (onW (modX (w_hidden_update (\<lambda>_. True)))) (\<lambda>_.
          bindX (catchX body (\<lambda>x. Some (bindX unhide (\<lambda>_. resX (Inl x))))) (\<lambda>_. bindX unhide (\<lambda>_. retX True))))
        (\<lambda>x. Some (bindX (printX (err_line (re_nc e) (''Failed to connect to '' @ target @ '': '' @ exn_msg x)))
           (\<lambda>_. retX False))))))))"

text \<open>The line of the pseudo map of an emulated process\<close>
definition qemu_maps_line :: "bool \<Rightarrow> string \<Rightarrow> string" where
  "qemu_maps_line b32 fname = (if b32 then ''00000000-ffffffff'' else ''0000000000000000-ffffffffffffffff'')
     @ '' rwxp 00000000 00:00 0                    '' @ fname"

definition write_new :: "string \<Rightarrow> string \<Rightarrow> (world, unit) sio" where
  "write_new p txt = bindX (getX (\<lambda>w. path_exists w p)) (\<lambda>b. if b then retX () else write_fileX p txt)"

definition setup_qemu :: "remote_env \<Rightarrow> bool rop" where
  "setup_qemu e =
     bindX (getX (\<lambda>(w, r). (rs_qemu r, rs_root r))) (\<lambda>(qemu, root). case qemu of
       None \<Rightarrow> raiseX AssertionError []
     | Some q \<Rightarrow>
         let tgt = path_join root (lstrip_of (\<lambda>c. c = CHR ''/'') (path_parent q)) in
         bindX (onW (mkdirX False tgt)) (\<lambda>_.
         bindX (onW (copy2X q tgt)) (\<lambda>_.
         bindX (onR (modX (ss_file_update (\<lambda>_. Some q)))) (\<lambda>_.
         bindX (onR (remote_lfile e)) (\<lambda>lf.
         bindX (getX (\<lambda>(w, r). path_exists w lf)) (\<lambda>ok.
         if \<not> ok then raiseX AssertionError []
         else bindX (onR (session_pid (re_sess e))) (\<lambda>pid.
           let procfs = path_join root (''proc/'' @ decs pid @ ''/'') in
           bindX (onW (mkdirX True procfs)) (\<lambda>_.
           bindX (onW (write_new (path_join procfs ''cmdline'') [])) (\<lambda>_.
           bindX (onW (write_new (path_join procfs ''environ'') (''PATH=/bin'' @ [CHR 0x00] @ ''HOME=/tmp'' @ [CHR 0x00]))) (\<lambda>_.
           bindX (onW (write_new (path_join procfs ''maps'') (qemu_maps_line (re_32bit e) q @ [CHR 0x0A]))) (\<lambda>_.
           retX True)))))))))))"

fun sync_procfs :: "remote_env \<Rightarrow> int \<Rightarrow> string list \<Rightarrow> bool rop" where
  "sync_procfs e pid [] = retX True"
| "sync_procfs e pid (f # fs) =
     (let fpath = ''/proc/'' @ decs pid @ ''/'' @ f in
      bindX (sync e fpath None) (\<lambda>ok.
        if ok then sync_procfs e pid fs
        else bindX (printX (err_line (re_nc e) ([CHR 0x27] @ fpath @ [CHR 0x27] @ '' could not be fetched on the remote system.'')))
               (\<lambda>_. retX False)))"

definition setup_remote :: "remote_env \<Rightarrow> bool rop" where
  "setup_remote e =
     bindX (onR (session_pid (re_sess e))) (\<lambda>pid.
     bindX (onR (remote_file e)) (\<lambda>f.
       let fpath = ''/proc/'' @ decs pid @ ''/exe'' in
       bindX (sync e fpath (Some f)) (\<lambda>ok.
       if ok then sync_procfs e pid [''maps'', ''environ'', ''cmdline'']
       else bindX (printX (err_line (re_nc e) ([CHR 0x27] @ fpath @ [CHR 0x27] @ '' could not be fetched on the remote system.'')))
              (\<lambda>_. retX False))))"

definition setup_rr :: "bool rop" where
  "setup_rr = bindX (onR (modX (rs_root_update (\<lambda>_. ''/'')))) (\<lambda>_. retX True)"

definition reset_world :: "world \<Rightarrow> world" where
  "reset_world w = w\<lparr>w_session := session_reset (w_session w)\<rparr>"

definition load_binary :: "remote_env \<Rightarrow> string \<Rightarrow> (world, unit) sio" where
  "load_binary e fpath =
     bindX (\<lambda>w. ([], elf_init (map_of (w_files w) fpath) (re_endian e), w)) (\<lambda>(h, ps, ss).
     bindX (modX (w_binary_update (\<lambda>_. Some h))) (\<lambda>_. resX (re_reset_arch e h)))"

text \<open>What the three setups answer is not looked at\<close>
definition remote_setup :: "remote_env \<Rightarrow> bool rop" where
  "remote_setup e =
     bindX (getX (\<lambda>(w, r). (rs_mode r, rs_qemu r))) (\<lambda>(mode, qemu).
     bindX (case mode of
         QEMU \<Rightarrow> bindX (dbgX e (''Setting up as qemu session, target='' @ (case qemu of None \<Rightarrow> ''None'' | Some q \<Rightarrow> q)))
                   (\<lambda>_. setup_qemu e)
       | RR \<Rightarrow> bindX (dbgX e ''Setting up as rr session'') (\<lambda>_. setup_rr)
       | GDBSERVER \<Rightarrow> bindX (dbgX e ''Setting up as remote session'') (\<lambda>_. setup_remote e)) (\<lambda>_.
     bindX (onW (modX reset_world)) (\<lambda>_.
     bindX (onR (remote_lfile e)) (\<lambda>lf.
     bindX (onW (load_binary e lf)) (\<lambda>_. retX True)))))"

definition close :: "remote_env \<Rightarrow> unit rop" where
  "close e =
     bindX (\<lambda>(w, r). ([RemoveDir (rs_tmp r)], Inr (), (w\<lparr>
         w_files := filter (\<lambda>(p, _). \<not> startswith p (rs_tmp r @ ''/'')) (w_files w),
         w_dirs := filter (\<lambda>d. d \<noteq> rs_tmp r \<and> \<not> startswith d (rs_tmp r @ ''/'')) (w_dirs w)\<rparr>, r))) (\<lambda>_.
     catchX (bindX (\<lambda>(w, r). onW (unhook_new (RemoteHandler (rs_tmp r))) (w, r)) (\<lambda>_. onW (hook_new DefaultHandler)))
       (\<lambda>x. Some (printX (warn_line (re_nc e) (''Exception while restoring local context: '' @ exn_msg x)))))"

text \<open>The argument is the name of the new object file, when there is one\<close>
definition remote_objfile_event_handler :: "remote_env \<Rightarrow> string option \<Rightarrow> unit rop" where
  "remote_objfile_event_handler e evt =
     bindX (dbgX e (''[remote] in remote_objfile_handler('' @ (case evt of None \<Rightarrow> ''None'' | Some f \<Rightarrow> f) @ ''))'')) (\<lambda>_.
     case evt of
       Some (c # cs) \<Rightarrow>
         (let name = c # cs; q = [CHR 0x27] in
          if startswith name ''target:'' then
            (let src = drop 7 name in
             bindX (sync e src None) (\<lambda>ok. if ok then retX () else raiseX FileNotFoundError (''Failed to sync '' @ q @ src @ q)))
          else if startswith name ''/'' then retX ()
          else printX (warn_line (re_nc e) (''[remote] skipping '' @ q @ name @ q)))
     | _ \<Rightarrow> retX ())"

section \<open>The command and the hook of target remote\<close>

text \<open>A method of a session object that is not (yet) \<^verbatim>\<open>gef.session.remote\<close>\<close>
definition with_remote :: "remote \<Rightarrow> 'a rop \<Rightarrow> (world, 'a \<times> remote) sio" where
  "with_remote r m = (\<lambda>w. case m (w, r) of
     (es, Inl x, (w', r')) \<Rightarrow> (es, Inl x, w')
   | (es, Inr v, (w', r')) \<Rightarrow> (es, Inr (v, r'), w'))"

record remote_args =
  ra_host :: string
  ra_port :: int
  ra_pid :: int
  ra_qemu_user :: bool
  ra_qemu_binary :: string

text \<open>\<^verbatim>\<open>absolute\<close> is \<^verbatim>\<open>expanduser().absolute()\<close>\<close>
definition qemu_path :: "remote_env \<Rightarrow> (string \<Rightarrow> string) \<Rightarrow> remote_args \<Rightarrow> (world, string option) sio" where
  "qemu_path e absolute a w =
     (if \<not> ra_qemu_user a then ([], Inr None, w)
      else case (if ra_qemu_binary a \<noteq> [] then ([], Inr (Some (absolute (path_norm (ra_qemu_binary a)))), w_session w)
                 else session_file (re_sess e) (w_session w)) of
        (es, Inl x, s') \<Rightarrow> (es, Inl x, w\<lparr>w_session := s'\<rparr>)
      | (es, Inr None, s') \<Rightarrow> (es, raise FileNotFoundError ''None does not exist'', w\<lparr>w_session := s'\<rparr>)
      | (es, Inr (Some p), s') \<Rightarrow> (es, if path_exists w p then Inr (Some p)
            else raise FileNotFoundError (p @ '' does not exist''), w\<lparr>w_session := s'\<rparr>))"

definition set_remote :: "bool \<Rightarrow> remote option \<Rightarrow> world \<Rightarrow> world" where
  "set_remote initializing r w = w\<lparr>w_initializing := initializing, w_remote := r\<rparr>"

definition remote_cmd :: "remote_env \<Rightarrow> (string \<Rightarrow> string) \<Rightarrow> remote_args \<Rightarrow> (world, unit) sio" where
  "remote_cmd e absolute a =
     bindX (getX w_remote) (\<lambda>cur.
     if cur \<noteq> None then printX (err_line (re_nc e) ''You already are in remote session. Close it first before opening a new one...'')
     else if ra_host a = [] \<or> ra_port a = 0 then printX (err_line (re_nc e) ''Missing parameters'')
     else bindX (catchX (bindX (qemu_path e absolute a) (\<lambda>q. retX (Some q)))
         (\<lambda>x. Some (bindX (printX (err_line (re_nc e) (''Failed to initialize qemu-user mode, reason: '' @ exn_msg x)))
                 (\<lambda>_. retX None)))) (\<lambda>qemu. case qemu of
       None \<Rightarrow> retX ()
     | Some q \<Rightarrow>
       bindX (modX (w_initializing_update (\<lambda>_. True))) (\<lambda>_.
       bindX (resX (remote_init e (ra_host a) (ra_port a) q)) (\<lambda>r0.
       bindX (modX (w_dirs_update (\<lambda>ds. re_tmp e # ds))) (\<lambda>_.
       bindX (dbgX e (''[remote] initializing remote session with '' @ remote_target r0 @ '' under '' @ rs_root r0)) (\<lambda>_.
       bindX (with_remote r0 (bindX (connect e (ra_pid a)) (\<lambda>ok. if ok then remote_setup e else retX False))) (\<lambda>(ok, r).
       if \<not> ok then bindX (modX (set_remote False None)) (\<lambda>_. raiseX OSError ''Failed to setup remote target'')
       else bindX (modX (set_remote False (Some r))) (\<lambda>_.
            bindX (modX reset_world) (\<lambda>_. re_execute e ''context''))))))))) "

text \<open>The session is installed before it is set up\<close>
definition target_remote_posthook :: "remote_env \<Rightarrow> (world, unit) sio" where
  "target_remote_posthook e =
     bindX (getX w_initializing) (\<lambda>initializing.
     if initializing then retX ()
     else bindX (resX (remote_init e [] 0 None)) (\<lambda>r0.
          bindX (modX (\<lambda>w. w\<lparr>w_remote := Some r0, w_dirs := re_tmp e # w_dirs w\<rparr>)) (\<lambda>_.
          bindX (\<lambda>w. case remote_setup e (w, r0) of (es, x, (w', r)) \<Rightarrow> (es, x, w'\<lparr>w_remote := Some r\<rparr>)) (\<lambda>ok.
            if ok then retX ()
            else raiseX OSError ''Failed to create a proper environment''))))"

definition is_remote_debug :: "world \<Rightarrow> bool" where
  "is_remote_debug w \<longleftrightarrow> w_initializing w \<or> w_remote w \<noteq> None"

definition is_qemu :: "(string \<Rightarrow> string result) \<Rightarrow> bool \<Rightarrow> bool result" where
  "is_qemu exec remote =
     (if \<not> remote then Inr False
      else bindE (exec ''maintenance packet Qqemu.sstepbits'') (\<lambda>r. Inr (str_in ''ENABLE='' r)))"

definition is_qemu_usermode :: "(string \<Rightarrow> string result) \<Rightarrow> bool \<Rightarrow> bool result" where
  "is_qemu_usermode exec remote =
     bindE (is_qemu exec remote) (\<lambda>q. if \<not> q then Inr False
       else bindE (exec ''maintenance packet qOffsets'') (\<lambda>r. Inr (str_in ''Text='' r)))"

definition is_qemu_system :: "(string \<Rightarrow> string result) \<Rightarrow> bool \<Rightarrow> bool result" where
  "is_qemu_system exec remote =
     bindE (is_qemu exec remote) (\<lambda>q. if \<not> q then Inr False
       else bindE (exec ''maintenance packet qOffsets'') (\<lambda>r. Inr (str_in (''received: '' @ [CHR 0x22, CHR 0x22]) r)))"

text \<open>\<^verbatim>\<open>get_filepath\<close>; \<^verbatim>\<open>absolute\<close> is \<^verbatim>\<open>Path.absolute\<close>\<close>
definition get_filepath :: "remote_env \<Rightarrow> (string \<Rightarrow> string) \<Rightarrow> (world, string option) sio" where
  "get_filepath e absolute w =
     (case w_remote w of
        Some r \<Rightarrow> (case remote_lfile e r of (es, x, r') \<Rightarrow>
            (es, bindE x (\<lambda>p. Inr (Some (absolute p))), w\<lparr>w_remote := Some r'\<rparr>))
      | None \<Rightarrow> (case session_file (re_sess e) (w_session w) of (es, x, s') \<Rightarrow>
            (es, bindE x (\<lambda>f. Inr (map_option absolute f)), w\<lparr>w_session := s'\<rparr>)))"

definition GEF_PROMPT :: string where "GEF_PROMPT = ''gef'' @ [CHR 0xE2, CHR 0x9E, CHR 0xA4] @ ''  ''"

definition prompt_color :: "string \<Rightarrow> string" where
  "prompt_color n = [CHR 0x01, ESC] @ ''[1;'' @ n @ ''m'' @ [CHR 0x02] @ GEF_PROMPT @ [CHR 0x01, ESC] @ ''[0m'' @ [CHR 0x02]"

definition gef_prompt :: "bool \<Rightarrow> bool \<Rightarrow> bool \<Rightarrow> world \<Rightarrow> string" where
  "gef_prompt readline_compat nc alive w =
     (if readline_compat \<or> nc then GEF_PROMPT
      else (case w_remote w of None \<Rightarrow> [] | Some r \<Rightarrow> prompt_string nc (rs_mode r))
        @ (if alive then prompt_color ''32'' else prompt_color ''31''))"

section \<open>Events of GDB\<close>

definition hook_stop_handler :: "remote_env \<Rightarrow> (world, unit) sio" where
  "hook_stop_handler e = bindX (modX reset_world) (\<lambda>_. re_execute e ''context'')"

definition memchanged_handler :: "(world, unit) sio" where "memchanged_handler = modX reset_world"
definition regchanged_handler :: "(world, unit) sio" where "regchanged_handler = modX reset_world"
definition continue_handler :: "(world, unit) sio" where "continue_handler = retX ()"

definition objfile_error :: "remote_env \<Rightarrow> string \<Rightarrow> py_exn \<Rightarrow> (world, unit) sio option" where
  "objfile_error e fpath x =
     (if exn_cls x = FileNotFoundError then Some
        (if str_in ''system-supplied DSO'' fpath then retX ()
         else printX (warn_line (re_nc e) (''Failed to find objfile or not a valid file format: '' @ exn_msg x)))
      else if exn_cls x = RuntimeError then Some (printX (warn_line (re_nc e) (''Not a valid file format: '' @ exn_msg x)))
      else None)"

text \<open>\<^verbatim>\<open>is_valid\<close> of the only registered format opens the file, so a missing one ends the guess\<close>
definition guess_and_load :: "remote_env \<Rightarrow> string \<Rightarrow> (world, unit) sio" where
  "guess_and_load e fpath =
     bindX (getX (\<lambda>w. map_of (w_files w) (path_norm fpath))) (\<lambda>file.
     bindX (resX (case file of None \<Rightarrow> raise FileNotFoundError fpath | Some bs \<Rightarrow> elf_is_valid bs)) (\<lambda>_.
     bindX (resX (elf_init file (re_endian e))) (\<lambda>(h, ps, ss).
     bindX (getX w_binary) (\<lambda>b.
       if b = None then bindX (modX (w_binary_update (\<lambda>_. Some h))) (\<lambda>_. resX (re_reset_arch e h))
       else modX (\<lambda>w. w\<lparr>w_session := (w_session w)\<lparr>ss_modules := ss_modules (w_session w) @ [path_norm fpath]\<rparr>\<rparr>)))))"

text \<open>The argument is the object file of the event, with its name, or no event\<close>
definition local_path :: "string option \<Rightarrow> string option \<Rightarrow> string result" where
  "local_path root fpath =
     (case (root, fpath) of
        (Some r, None) \<Rightarrow> raise AttributeError ''NoneType''
      | (None, None) \<Rightarrow> raise TypeError ''NoneType''
      | (Some r, Some p) \<Rightarrow> Inr (if startswith p ''target:'' then r @ drop 7 p else p)
      | (None, Some p) \<Rightarrow> Inr p)"

definition new_objfile_handler :: "remote_env \<Rightarrow> string option option \<Rightarrow> (world, unit) sio" where
  "new_objfile_handler e evt =
     bindX (modX reset_world) (\<lambda>_.
     bindX (case evt of
         Some name \<Rightarrow> retX (Some (case name of None \<Rightarrow> [] | Some n \<Rightarrow> n))
       | None \<Rightarrow> (case se_progspace (re_sess e) of
             Some f \<Rightarrow> retX f
           | None \<Rightarrow> raiseX RuntimeError ''Cannot determine file fpath'')) (\<lambda>fpath.
     catchX
       (bindX (\<lambda>w. case session_root (re_sess e) (w_session w) of (es, x, s') \<Rightarrow> (es, x, w\<lparr>w_session := s'\<rparr>)) (\<lambda>root.
        bindX (resX (local_path root fpath)) (\<lambda>l. catchX (guess_and_load e l) (objfile_error e l))))
       (objfile_error e (case fpath of None \<Rightarrow> [] | Some p \<Rightarrow> p))))"

text \<open>A breakpoint as \<^verbatim>\<open>gdb.breakpoints\<close> gives it; an invalid one raises when asked\<close>
record saved_breakpoint =
  sb_enabled :: "bool result"
  sb_temporary :: bool
  sb_location :: "string option"

fun breakpoint_lines :: "saved_breakpoint list \<Rightarrow> string \<times> py_exn option" where
  "breakpoint_lines [] = ([], None)"
| "breakpoint_lines (b # bs) =
     (case sb_enabled b of
        Inl x \<Rightarrow> ([], Some x)
      | Inr False \<Rightarrow> breakpoint_lines bs
      | Inr True \<Rightarrow> (case breakpoint_lines bs of (txt, x) \<Rightarrow>
          ((if sb_temporary b then ''t'' else []) @ ''break ''
             @ (case sb_location b of None \<Rightarrow> ''None'' | Some l \<Rightarrow> l) @ [CHR 0x0A] @ txt, x)))"

definition save_breakpoints :: "remote_env \<Rightarrow> string \<Rightarrow> saved_breakpoint list \<Rightarrow> (world, unit) sio" where
  "save_breakpoints e fpath bps =
     bindX (getX (\<lambda>w. path_exists w fpath)) (\<lambda>there.
     bindX (if there then printX (warn_line (re_nc e) (fpath @ '' exists, content will be overwritten'')) else retX ()) (\<lambda>_.
     case breakpoint_lines bps of (txt, x) \<Rightarrow>
       bindX (write_fileX fpath txt) (\<lambda>_. case x of None \<Rightarrow> retX () | Some y \<Rightarrow> resX (Inl y))))"

definition exit_handler :: "remote_env \<Rightarrow> (string \<Rightarrow> string) \<Rightarrow> string \<Rightarrow> saved_breakpoint list \<Rightarrow> (world, unit) sio" where
  "exit_handler e absolute setting bps =
     bindX (modX reset_world) (\<lambda>_.
     bindX (modX (\<lambda>w. w\<lparr>w_session := (w_session w)\<lparr>ss_qemu_mode := False\<rparr>\<rparr>)) (\<lambda>_.
     bindX (getX w_remote) (\<lambda>r.
     bindX (case r of None \<Rightarrow> retX ()
       | Some r0 \<Rightarrow> bindX (with_remote r0 (close e)) (\<lambda>_. modX (set_remote False None))) (\<lambda>_.
       let s = strip setting in
       if s = [] then retX () else save_breakpoints e (absolute (path_norm s)) bps))))"

section \<open>Facts\<close>

text \<open>A computation that raises nothing and keeps a property\<close>
definition totalX :: "('s \<Rightarrow> bool) \<Rightarrow> ('s, 'a) sio \<Rightarrow> bool" where
  "totalX P m \<longleftrightarrow> (\<forall>s. P s \<longrightarrow> (\<exists>es v s'. m s = (es, Inr v, s') \<and> P s'))"

named_theorems total_intros \<open>computations that raise nothing\<close>

lemma totalX_bind [total_intros]: "totalX P m \<Longrightarrow> (\<And>v. totalX P (f v)) \<Longrightarrow> totalX P (bindX m f)"
  unfolding totalX_def
proof (intro allI impI)
  fix s
  assume m: "\<forall>s. P s \<longrightarrow> (\<exists>es v s'. m s = (es, Inr v, s') \<and> P s')" and f: "\<And>v. \<forall>s. P s \<longrightarrow> (\<exists>es w s'. f v s = (es, Inr w, s') \<and> P s')"
    and "P s"
  obtain es v s' where ms: "m s = (es, Inr v, s')" "P s'" using m \<open>P s\<close> by blast
  obtain fs w s'' where "f v s' = (fs, Inr w, s'')" "P s''" using f ms(2) by blast
  with ms show "\<exists>es v s'. bindX m f s = (es, Inr v, s') \<and> P s'" by (simp add: bindX_def)
qed

lemma totalX_pure [total_intros]: "totalX P (retX v)" "totalX P (getX f)" "totalX P (emitX ev)" "totalX P (printX l)"
  by (simp_all add: totalX_def sio_defs)

lemma totalX_each [total_intros]: "(\<And>x. totalX P (f x)) \<Longrightarrow> totalX P (eachX f xs)"
  by (induction xs) (auto intro: total_intros)

lemma dbgX_eval: "dbgX e m s = (map Print (dbg_lines (re_nc e) (re_debug e) m), Inr (), s)"
proof -
  have "eachX printX ls s = (map Print ls, Inr (), s)" for ls
    by (induction ls) (simp_all add: sio_defs)
  then show ?thesis by (simp add: dbgX_def)
qed

lemma totalX_dbg [total_intros]: "totalX P (dbgX e m)"
  by (simp add: dbgX_def total_intros)

lemma totalX_D: "totalX P m \<Longrightarrow> P s \<Longrightarrow> \<exists>es v s'. m s = (es, Inr v, s') \<and> P s'"
  by (simp add: totalX_def)

text \<open>GDB takes every command and changes nothing; no file was copied; the process and its file are known\<close>
definition deaf :: "remote_env \<Rightarrow> bool" where
  "deaf e \<longleftrightarrow> (\<forall>cmd w. \<exists>es. re_execute e cmd w = (es, Inr (), w)) \<and> se_inferior_pid (re_sess e) \<noteq> 0
     \<and> (\<exists>c cs. se_progspace (re_sess e) = Some (Some (c # cs)))"

definition nothing_local :: "bool \<Rightarrow> world \<times> remote \<Rightarrow> bool" where
  "nothing_local b s \<longleftrightarrow> w_remote (fst s) = None \<and> w_files (fst s) = [] \<and> w_initializing (fst s) = b \<and> \<not> ss_qemu_mode (snd s) \<and> rs_mode (snd s) = GDBSERVER"

lemma totalX_deaf [total_intros]:
  assumes "deaf e"
  shows "totalX (nothing_local b) (onW (re_execute e cmd))" "totalX (nothing_local b) (onW (mkdirX True d))"
    "totalX (nothing_local b) (onR (session_pid (re_sess e)))" "totalX (nothing_local b) (onR (remote_file e))"
    "totalX (nothing_local b) (onR (remote_lfile e))" "totalX (nothing_local b) (onW (modX reset_world))"
proof -
  show "totalX (nothing_local b) (onW (re_execute e cmd))"
    unfolding totalX_def
  proof (intro allI impI)
    fix s assume "nothing_local b s"
    moreover obtain es where "re_execute e cmd (fst s) = (es, Inr (), fst s)" using assms by (auto simp: deaf_def)
    ultimately show "\<exists>es v s'. onW (re_execute e cmd) s = (es, Inr v, s') \<and> nothing_local b s'"
      by (cases s) (simp add: onW_def)
  qed
qed (use assms in \<open>auto simp: totalX_def deaf_def nothing_local_def onW_def onR_def mkdirX_def session_pid_def remote_file_def
    remote_lfile_def sio_defs reset_world_def Let_def split: option.split\<close>)

lemma totalX_sync [total_intros]: "deaf e \<Longrightarrow> totalX (nothing_local b) (sync e src dst)"
  unfolding sync_def Let_def by (intro total_intros conjI impI allI | simp split: if_split)+

lemma totalX_catch [total_intros]: "totalX P m \<Longrightarrow> totalX P (catchX m h)"
  unfolding totalX_def catchX_def by fastforce

lemma totalX_hooks [total_intros]:
  "totalX (nothing_local b) (catchX (onW (unhook_new DefaultHandler)) (\<lambda>x. if exn_cls x = SystemError then Some (retX ()) else None))"
  "totalX (nothing_local b) (\<lambda>(w, r). onW (hook_new (RemoteHandler (rs_tmp r))) (w, r))"
  "totalX (nothing_local b) (onW (modX (w_hidden_update g)))"
  by (auto simp: totalX_def catchX_def onW_def unhook_new_def hook_new_def nothing_local_def sio_defs)

text \<open>\<dots> and answers a value with a property\<close>
definition totalV :: "('s \<Rightarrow> bool) \<Rightarrow> ('s, 'a) sio \<Rightarrow> ('a \<Rightarrow> bool) \<Rightarrow> bool" where
  "totalV P m Q \<longleftrightarrow> (\<forall>s. P s \<longrightarrow> (\<exists>es v s'. m s = (es, Inr v, s') \<and> P s' \<and> Q v))"

lemma totalV_bind:
  assumes "totalX P m" "\<And>v. totalV P (f v) Q"
  shows "totalV P (bindX m f) Q"
  unfolding totalV_def
proof (intro allI impI)
  fix s assume "P s"
  then obtain es v s' where ms: "m s = (es, Inr v, s')" "P s'" using totalX_D [OF assms(1)] by blast
  then obtain fs w s'' where "f v s' = (fs, Inr w, s'')" "P s''" "Q w" using assms(2) [of v] by (auto simp: totalV_def)
  with ms show "\<exists>es v s'. bindX m f s = (es, Inr v, s') \<and> P s' \<and> Q v" by (simp add: bindX_def)
qed

lemma totalV_ret: "Q v \<Longrightarrow> totalV P (retX v) Q"
  by (simp add: totalV_def retX_def)

lemma totalV_catch: "totalV P m Q \<Longrightarrow> totalV P (catchX m h) Q"
  unfolding totalV_def catchX_def by fastforce

lemma connect_deaf: "deaf e \<Longrightarrow> totalV (nothing_local b) (connect e pid) (\<lambda>ok. ok)"
  unfolding connect_def Let_def
  by (intro totalV_bind totalV_catch totalV_ret total_intros conjI impI | simp split: if_split)+

lemma sync_procfs_deaf [total_intros]: "deaf e \<Longrightarrow> totalX (nothing_local b) (sync_procfs e pid fs)"
  by (induction fs) (simp_all add: Let_def total_intros)

lemma setup_remote_deaf [total_intros]: "deaf e \<Longrightarrow> totalX (nothing_local b) (setup_remote e)"
  unfolding setup_remote_def Let_def by (intro total_intros conjI impI | simp split: if_split del: sync_procfs.simps)+

lemma setup_deaf:
  assumes "deaf e" "nothing_local b s"
  shows "\<exists>es m s'. remote_setup e s = (es, raise FileNotFoundError m, s') \<and> nothing_local b s'"
proof -
  have m: "rs_mode (snd s) = GDBSERVER" using assms(2) by (simp add: nothing_local_def)
  have "totalX (nothing_local b) (bindX (dbgX e ''Setting up as remote session'') (\<lambda>_. setup_remote e))"
    by (intro total_intros assms(1))
  from totalX_D [OF this assms(2)] obtain es1 v1 s1 where
    s1: "bindX (dbgX e ''Setting up as remote session'') (\<lambda>_. setup_remote e) s = (es1, Inr v1, s1)" "nothing_local b s1" by blast
  obtain s2 where s2: "onW (modX reset_world) s1 = ([], Inr (), s2)" "nothing_local b s2"
    using s1(2) by (cases s1) (auto simp: onW_def modX_def nothing_local_def reset_world_def)
  obtain es3 lf s3 where s3: "onR (remote_lfile e) s2 = (es3, Inr lf, s3)" "nothing_local b s3"
    using totalX_D [OF totalX_deaf(5) [OF assms(1)] s2(2)] by blast
  have "\<exists>m. onW (load_binary e lf) s3 = ([], raise FileNotFoundError m, s3)"
    using s3(2) by (cases s3) (simp add: onW_def load_binary_def nothing_local_def elf_init_def sio_defs)
  moreover obtain w3 r3 where "s3 = (w3, r3)" by (cases s3)
  ultimately show ?thesis using s1 s2 s3 m
    by (auto simp: remote_setup_def bindX_def [of "getX _"] getX_def split_beta)
       (auto simp: bindX_def)
qed

lemma maps_numbers:
  "fmt_x0 8 0 = ''00000000''" "fmt_x0 16 0 = ''0000000000000000''"
  "fmt_x0 8 0xffffffff = ''ffffffff''" "fmt_x0 16 0xffffffffffffffff = ''ffffffffffffffff''"
  "perm_str PALL = ''rwx''" "decs 0 = ''0''"
  by (simp_all add: fmt_x0_def zfill_def nat_digits.simps digit_char_def perm_str_def PALL_def decs_def) code_simp+

lemma starts_append: "startswith s p \<longleftrightarrow> (\<exists>t. s = p @ t)"
  unfolding startswith_def by (metis append_eq_conv_conj append_take_drop_id)

section \<open>Properties\<close>

text \<open>C21: the pseudo memory map written for an emulated process is read back by the parser of the memory map
  as one section that covers the whole address space, with every permission and the emulated file's name.\<close>
theorem qemu_maps_parse:
  assumes "startswith f ''/''" "\<not> is_space (last f)"
  shows "parse_procfs_line (qemu_maps_line b32 f @ [CHR 0x0A])
    = Inr \<lparr>page_start = 0, page_end = (if b32 then 0xffffffff else 0xffffffffffffffff), offset = 0,
        permission = PALL, inode = 0, path = f\<rparr>"
proof -
  define w x where "w = (if b32 then 8 else (16::nat))" and "x = (if b32 then 0xffffffff else (0xffffffffffffffff::int))"
  let ?range = "fmt_x0 w 0 @ CHR ''-'' # fmt_x0 w x" and ?rest = "''0'' @ CHR '' '' # replicate 19 (CHR '' '') @ f"
  have range: "(if b32 then ''00000000-ffffffff'' else ''0000000000000000-ffffffffffffffff'') = ?range"
    by (cases b32) (simp_all add: w_def x_def maps_numbers)
  have x: "0 \<le> x" by (simp add: x_def)
  have f: "f \<noteq> []" "\<not> is_space (hd f)" using assms(1) by (cases f; simp add: startswith_def is_space_def)+
  have line: "qemu_maps_line b32 f
      = ?range @ CHR '' '' # ''rwxp'' @ CHR '' '' # ''00000000'' @ CHR '' '' # ''00:00'' @ CHR '' '' # ?rest"
    unfolding qemu_maps_line_def range by (simp add: eval_nat_numeral)
  have "hd ?range = hd (fmt_x0 w 0)" using fmt_x0_nonempty by (simp add: hd_append)
  moreover have "hex_digit (hd (fmt_x0 w 0))" using hex_digits_fmt_x0 [of 0 w] fmt_x0_nonempty hd_in_set by blast
  ultimately have "strip (qemu_maps_line b32 f @ [CHR 0x0A]) = qemu_maps_line b32 f"
    using assms(2) f(1) hex_digit_facts(1) unfolding line by (intro strip_newline) (auto simp: hd_append)
  moreover have "split_max (CHR '' '') 4 (qemu_maps_line b32 f) = [?range, ''rwxp'', ''00000000'', ''00:00'', ?rest]"
    unfolding line using x by (intro split_max_4) (auto simp: fmt_x0_no_sep)
  moreover have "split_max (CHR '' '') (Suc 0) ?rest = [''0'', replicate 19 (CHR '' '') @ f]" by simp
  moreover have "parse_string_range ?range = Inr [0, x]" using x by (simp add: parse_range_text)
  moreover have "from_process_maps ''rwxp'' = Inr PALL"
    using perm_str_parse [of PALL "''p''"] by (simp add: maps_numbers) (simp add: PALL_def)
  moreover have "py_int 16 ''00000000'' = Inr 0" "py_int 10 ''0'' = Inr 0"
    using py_int_fmt_x0 [of 0 8] py_int_decs [of 0] by (simp_all add: maps_numbers)
  moreover have "lstrip_of is_space (replicate 19 (CHR '' '') @ f) = f" using f by (rule lstrip_pad)
  ultimately show ?thesis by (simp add: parse_procfs_line_def two_of_def Let_def x_def)
qed

theorem qemu_maps_parse_witness:
  "parse_procfs_line (qemu_maps_line True ''/bin/a'' @ [CHR 0x0A])
    = Inr \<lparr>page_start = 0, page_end = 0xffffffff, offset = 0, permission = PALL, inode = 0, path = ''/bin/a''\<rparr>"
  using qemu_maps_parse [of "''/bin/a''" True] by (simp add: startswith_def is_space_def)

definition demo_remote_env :: "(string \<Rightarrow> (world, unit) sio) \<Rightarrow> remote_env" where
  "demo_remote_env gdb = \<lparr>re_sess = demo_sess_env, re_debug = False, re_under_rr = False, re_tmp = ''/tmp/x'', re_32bit = False,
     re_endian = LITTLE_ENDIAN, re_execute = gdb, re_reset_arch = (\<lambda>_. Inr ())\<rparr>"

definition demo_world :: world where
  "demo_world = \<lparr>w_session = demo_session, w_remote = None, w_initializing = False, w_hidden = False,
     w_hooks = [DefaultHandler], w_files = [], w_dirs = [], w_binary = None\<rparr>"

definition demo_args :: remote_args where
  "demo_args = \<lparr>ra_host = ''localhost'', ra_port = 4444, ra_pid = - 1, ra_qemu_user = False, ra_qemu_binary = []\<rparr>"

lemma demo_remote_init: "\<exists>r0. remote_init (demo_remote_env gdb) (ra_host demo_args) (ra_port demo_args) None = Inr r0"
proof -
  have "which demo_sess_env c = Inr (path_join (path_norm ''/bin'') c)" for c
    by (simp add: which_def demo_sess_env_def)
  then show ?thesis by (simp add: remote_init_def session_init_def demo_remote_env_def)
qed

text \<open>Fact: when GDB accepts the connection but the executable is not copied, \<^verbatim>\<open>gef-remote\<close> does not answer the
  failure of the setup: it ends with the exception of the ELF reader, no remote session is installed, and
  the state still counts as a remote debugging session.\<close>
theorem unfetched_executable_stays_remote:
  assumes "deaf e" "w_files w = []" "w_remote w = None" "ra_host a \<noteq> []" "ra_port a \<noteq> 0" "\<not> ra_qemu_user a"
    and "remote_init e (ra_host a) (ra_port a) None = Inr r0" "\<not> re_under_rr e"
  shows "\<exists>es m w'. remote_cmd e absolute a w = (es, raise FileNotFoundError m, w')
    \<and> w_remote w' = None \<and> is_remote_debug w'"
proof -
  let ?w = "w_dirs_update ((#) (re_tmp e)) (w\<lparr>w_initializing := True\<rparr>)"
  have r: "\<not> ss_qemu_mode r0" "rs_mode r0 = GDBSERVER"
    using assms(7,8) by (auto simp: remote_init_def session_init_def result_simps session.defs remote.defs)
  then have n: "nothing_local True (?w, r0)" using assms(2,3) by (simp add: nothing_local_def)
  obtain es1 s1 where c: "connect e (ra_pid a) (?w, r0) = (es1, Inr True, s1)" "nothing_local True s1"
    using connect_deaf [OF assms(1), of True "ra_pid a"] n unfolding totalV_def by metis
  obtain es2 m w2 r2 where s: "remote_setup e s1 = (es2, raise FileNotFoundError m, (w2, r2))" "nothing_local True (w2, r2)"
    using setup_deaf [OF assms(1) c(2)] by (metis prod.exhaust)
  have wr: "with_remote r0 (bindX (connect e (ra_pid a)) (\<lambda>ok. if ok then remote_setup e else retX False)) ?w
      = (es1 @ es2, raise FileNotFoundError m, w2)"
    using c(1) s(1) by (simp add: with_remote_def bindX_def)
  have "w_remote w2 = None" "is_remote_debug w2" using s(2) by (simp_all add: nothing_local_def is_remote_debug_def)
  moreover have "\<exists>es. remote_cmd e absolute a w = (es, raise FileNotFoundError m, w2)"
    using assms(3-7) wr
    by (simp add: remote_cmd_def qemu_path_def catchX_def bindX_def [of "getX _"] bindX_def [of "modX _"] bindX_def [of "resX _"]
        bindX_def [of "dbgX _ _"] bindX_def [of "qemu_path _ _ _"] bindX_def [of "catchX _ _"] bindX_def [of "with_remote _ _"] sio_defs(2-6) dbgX_eval)
  ultimately show ?thesis by blast
qed

theorem unfetched_executable_stays_remote_witness:
  "\<exists>es m w'. remote_cmd (demo_remote_env (\<lambda>cmd w. ([Exec cmd], Inr (), w))) (\<lambda>p. p) demo_args demo_world
      = (es, raise FileNotFoundError m, w') \<and> w_remote w' = None \<and> is_remote_debug w'"
proof -
  let ?e = "demo_remote_env (\<lambda>cmd w. ([Exec cmd], Inr (), w))"
  have "deaf ?e" by (simp add: deaf_def demo_remote_env_def demo_sess_env_def)
  moreover obtain r0 where "remote_init ?e (ra_host demo_args) (ra_port demo_args) None = Inr r0" using demo_remote_init by blast
  ultimately show ?thesis
    using unfetched_executable_stays_remote [of ?e demo_world demo_args r0 "\<lambda>p. p"]
    by (simp add: demo_world_def demo_args_def demo_remote_env_def)
qed

text \<open>Fact: a refused connection ends \<^verbatim>\<open>gef-remote\<close> with its error and without a session, but the handler of new
  object files stays that of the session that failed: the default one is gone.\<close>
theorem refused_connection_keeps_handler:
  assumes "w_remote w = None" "ra_host a \<noteq> []" "ra_port a \<noteq> 0" "\<not> ra_qemu_user a" "ra_pid a \<le> - 1"
    and "remote_init e (ra_host a) (ra_port a) None = Inr r0" "w_hooks w = [DefaultHandler]"
    and "\<And>w. re_execute e (''target remote '' @ ra_host a @ '':'' @ decs (ra_port a)) w = ([], raise GdbError m, w)"
  shows "\<exists>es w'. remote_cmd e absolute a w = (es, raise OSError ''Failed to setup remote target'', w')
    \<and> \<not> is_remote_debug w' \<and> w_hooks w' = [RemoteHandler (re_tmp e)]
    \<and> Print (err_line (re_nc e) (''Failed to connect to '' @ ra_host a @ '':'' @ decs (ra_port a) @ '': '' @ m)) \<in> set es"
proof -
  let ?w = "w_dirs_update ((#) (re_tmp e)) (w\<lparr>w_initializing := True\<rparr>)"
  have r: "rs_host r0 = ra_host a" "rs_port r0 = ra_port a" "rs_tmp r0 = re_tmp e" "rs_root r0 = re_tmp e"
    using assms(6) by (auto simp: remote_init_def session_init_def result_simps session.defs remote.defs)
  then have t: "remote_target r0 = ra_host a @ '':'' @ decs (ra_port a)" by (simp add: remote_target_def)
  obtain es s where c: "connect e (ra_pid a) (?w, r0) = (es, Inr False, s)" "w_hooks (fst s) = [RemoteHandler (re_tmp e)]"
    "Print (err_line (re_nc e) (''Failed to connect to '' @ ra_host a @ '':'' @ decs (ra_port a) @ '': '' @ m)) \<in> set es"
    using assms(5,7,8) r t
    by (simp add: connect_def Let_def catchX_def sio_defs dbgX_eval onW_def unhook_new_def hook_new_def)
  obtain w2 r2 where s: "s = (w2, r2)" by (cases s)
  have wr: "with_remote r0 (bindX (connect e (ra_pid a)) (\<lambda>ok. if ok then remote_setup e else retX False)) ?w
      = (es, Inr (False, r2), w2)"
    using c(1) s by (simp add: with_remote_def bindX_def retX_def)
  have "\<exists>fs. remote_cmd e absolute a w = (fs @ es, raise OSError ''Failed to setup remote target'', set_remote False None w2)"
    using assms(1-4,6) wr
    by (simp add: remote_cmd_def qemu_path_def catchX_def bindX_def [of "getX _"] bindX_def [of "modX _"] bindX_def [of "resX _"]
        bindX_def [of "dbgX _ _"] bindX_def [of "qemu_path _ _ _"] bindX_def [of "catchX _ _"] bindX_def [of "with_remote _ _"]
        sio_defs(2-6) dbgX_eval)
  then show ?thesis using c(2,3) s by (auto simp: set_remote_def is_remote_debug_def)
qed

theorem refused_connection_keeps_handler_witness:
  "\<exists>es w'. remote_cmd (demo_remote_env (\<lambda>_ w. ([], raise GdbError ''refused'', w))) (\<lambda>p. p) demo_args demo_world
      = (es, raise OSError ''Failed to setup remote target'', w') \<and> w_hooks w' = [RemoteHandler ''/tmp/x'']"
proof -
  let ?e = "demo_remote_env (\<lambda>_ w. ([], raise GdbError ''refused'', w))"
  obtain r0 where r: "remote_init ?e (ra_host demo_args) (ra_port demo_args) None = Inr r0" using demo_remote_init by blast
  have "w_remote demo_world = None" "ra_host demo_args \<noteq> []" "ra_port demo_args \<noteq> 0" "\<not> ra_qemu_user demo_args"
    "ra_pid demo_args \<le> - 1" "w_hooks demo_world = [DefaultHandler]" "re_tmp ?e = ''/tmp/x''"
    "\<And>w cmd. re_execute ?e cmd w = ([], raise GdbError ''refused'', w)"
    by (simp_all add: demo_world_def demo_args_def demo_remote_env_def)
  then show ?thesis using refused_connection_keeps_handler [of demo_world demo_args ?e r0 "''refused''" "\<lambda>p. p"] r by auto
qed

text \<open>C22: the end of the process closes a remote session: the default handler of new object files takes the place
  of the session's, nothing of its temporary directory is left, and the state counts as local again.\<close>
theorem exit_restores_local_session:
  assumes "w_remote w = Some r" "w_hooks w = hs @ [RemoteHandler (rs_tmp r)]" "RemoteHandler (rs_tmp r) \<notin> set hs"
    and "strip setting = []"
  shows "\<exists>w'. exit_handler e absolute setting bps w = ([RemoveDir (rs_tmp r)], Inr (), w')
    \<and> w_hooks w' = hs @ [DefaultHandler] \<and> \<not> is_remote_debug w' \<and> \<not> ss_qemu_mode (w_session w')
    \<and> (\<forall>p. startswith p (rs_tmp r @ ''/'') \<longrightarrow> \<not> path_exists w' p)"
proof -
  let ?c = "w\<lparr>w_session := (w_session (reset_world w))\<lparr>ss_qemu_mode := False\<rparr>,
       w_files := filter (\<lambda>(p, _). \<not> startswith p (rs_tmp r @ ''/'')) (w_files w),
       w_dirs := filter (\<lambda>d. d \<noteq> rs_tmp r \<and> \<not> startswith d (rs_tmp r @ ''/'')) (w_dirs w),
       w_hooks := hs @ [DefaultHandler]\<rparr>"
  have "exit_handler e absolute setting bps w = ([RemoveDir (rs_tmp r)], Inr (), set_remote False None ?c)"
    using assms by (simp add: exit_handler_def close_def with_remote_def onW_def unhook_new_def hook_new_def catchX_def
        sio_defs reset_world_def remove1_append)
  moreover have "\<not> path_exists ?c p" if "startswith p (rs_tmp r @ ''/'')" for p
  proof -
    have "startswith d (rs_tmp r @ ''/'')" if "d = p \<or> startswith d (p @ ''/'')" for d
      using that \<open>startswith p _\<close> by (auto simp: starts_append)
    then show ?thesis using that by (auto simp: path_exists_def is_dir_def list_ex_iff)
  qed
  ultimately show ?thesis
    by (auto simp: set_remote_def is_remote_debug_def path_exists_def is_dir_def)
qed

theorem exit_restores_local_session_witness:
  "\<exists>w'. exit_handler (demo_remote_env (\<lambda>_ w. ([], Inr (), w))) (\<lambda>p. p) [] []
      (demo_world\<lparr>w_remote := Some (session.extend demo_session (remote.fields ''h'' 1 ''/tmp/x'' ''/tmp/x'' GDBSERVER None)),
         w_hooks := [RemoteHandler ''/tmp/x'']\<rparr>) = ([RemoveDir ''/tmp/x''], Inr (), w')
    \<and> w_hooks w' = [DefaultHandler] \<and> \<not> is_remote_debug w'"
proof -
  let ?r = "session.extend demo_session (remote.fields ''h'' 1 ''/tmp/x'' ''/tmp/x'' GDBSERVER None)"
  have "rs_tmp ?r = ''/tmp/x''" by (simp add: session.defs remote.defs)
  then show ?thesis
    using exit_restores_local_session [of "demo_world\<lparr>w_remote := Some ?r, w_hooks := [RemoteHandler ''/tmp/x'']\<rparr>" ?r "[]" "[]"
        "demo_remote_env (\<lambda>_ w. ([], Inr (), w))" "\<lambda>p. p" "[]"]
    by (auto simp: strip_def lstrip_of_def rstrip_of_def)
qed

end
