(* ===== verification/Highlight.thy ===== *)
theory Highlight
  imports MemCmds "HOL-Library.List_Lexorder" "HOL-Library.Char_ord"
begin

text \<open>
  Highlighting of the output of \<^verbatim>\<open>scripts/gef.py\<close>: \<^verbatim>\<open>highlight_text\<close> and the \<^verbatim>\<open>highlight\<close>
  commands over the session's table of matches and colours.  Regular expressions given by the user are
  handed to a parameter; the one the code itself uses, for the escape sequences of colours, is written out.
\<close>

type_synonym highlights = "string dict"

section \<open>Splitting at colour codes\<close>

definition code_char :: "char \<Rightarrow> bool" where
  "code_char c = (c = CHR '';'' \<or> (48 \<le> (of_char c :: nat) \<and> (of_char c :: nat) \<le> 57))"

text \<open>A match of \<^verbatim>\<open>\033\[[\d;]*m\<close> at the start of a text, and what follows it\<close>
definition ansi_code :: "string \<Rightarrow> (string \<times> string) option" where
  "ansi_code s =
     (case s of c # d # t \<Rightarrow>
        if c = ESC \<and> d = CHR ''['' then
          (case dropWhile code_char t of
             e # r \<Rightarrow> if e = CHR ''m'' then Some (ESC # CHR ''['' # takeWhile code_char t @ ''m'', r) else None
           | [] \<Rightarrow> None)
        else None
      | _ \<Rightarrow> None)"

lemma ansi_code_parts: "ansi_code s = Some (k, r) \<Longrightarrow> s = k @ r \<and> k \<noteq> []"
  by (auto simp: ansi_code_def split: list.splits if_splits) (metis append.assoc append_Cons append_Nil takeWhile_dropWhile_id)

lemma ansi_code_shorter: "ansi_code s = Some (k, r) \<Longrightarrow> length r < length s"
  by (drule ansi_code_parts) auto

text \<open>\<^verbatim>\<open>re.split\<close> with a group: texts and codes in turn, beginning and ending with a text\<close>
function ansi_split :: "string \<Rightarrow> string \<Rightarrow> string list" where
  "ansi_split acc [] = [rev acc]"
| "ansi_split acc (c # cs) =
     (case ansi_code (c # cs) of
        Some (k, r) \<Rightarrow> rev acc # k # ansi_split [] r
      | None \<Rightarrow> ansi_split (c # acc) cs)"
  by pat_completeness auto
termination by (relation "measure (\<lambda>(acc, s). length s)") (auto dest!: ansi_code_shorter)

section \<open>Highlighting\<close>

text \<open>\<^verbatim>\<open>s.replace(a, b)\<close>, an empty \<^verbatim>\<open>a\<close> included\<close>
definition py_replace :: "string \<Rightarrow> string \<Rightarrow> string \<Rightarrow> string" where
  "py_replace a b s = (if a = [] then b @ concat (map (\<lambda>c. c # b) s) else str_replace a b s)"

text \<open>Only the first piece that contains the match is changed\<close>
fun highlight_pieces :: "string \<Rightarrow> string \<Rightarrow> string list \<Rightarrow> string list" where
  "highlight_pieces m r [] = []"
| "highlight_pieces m r (v # vs) = (if str_in m v then py_replace m r v # vs else v # highlight_pieces m r vs)"

definition highlight_one :: "bool \<Rightarrow> string \<times> string \<Rightarrow> string \<Rightarrow> string" where
  "highlight_one nc = (\<lambda>(m, color) txt. concat (highlight_pieces m (colorify nc m color) (ansi_split [] txt)))"

fun highlight_regex :: "(string \<Rightarrow> string \<Rightarrow> string \<Rightarrow> string result) \<Rightarrow> bool \<Rightarrow> highlights \<Rightarrow> string \<Rightarrow> string result" where
  "highlight_regex re_sub nc [] txt = Inr txt"
| "highlight_regex re_sub nc ((m, color) # hs) txt =
     bindE (re_sub (''('' @ m @ '')'') (colorify nc [CHR 0x5C, CHR ''1''] color) txt) (highlight_regex re_sub nc hs)"

definition highlight_text ::
  "(string \<Rightarrow> string \<Rightarrow> string \<Rightarrow> string result) \<Rightarrow> bool \<Rightarrow> bool \<Rightarrow> highlights \<Rightarrow> string \<Rightarrow> string result" where
  "highlight_text re_sub regex nc table txt =
     (if table = [] then Inr txt
      else if regex then highlight_regex re_sub nc table txt
      else Inr (fold (highlight_one nc) table txt))"

section \<open>The commands\<close>

definition hl_syntax :: "bool \<Rightarrow> string \<Rightarrow> string" where
  "hl_syntax nc usage = err_line nc (''Syntax'' @ [CHR 0x0A] @ usage)"

definition highlight_list :: "bool \<Rightarrow> highlights \<Rightarrow> string list" where
  "highlight_list nc table =
     (if table = [] then [err_line nc ''no matches found'']
      else let left_pad = foldr max (map (\<lambda>(m, _). length m) table) 0 in
        map (\<lambda>(m, color). colorify nc (ljust left_pad m) color @ '' '' @ VERTICAL_LINE @ '' '' @ colorify nc color color)
          (sort_key fst table))"

definition highlight_clear :: "highlights \<Rightarrow> highlights" where "highlight_clear table = []"

definition highlight_add :: "bool \<Rightarrow> string \<Rightarrow> string list \<Rightarrow> highlights \<Rightarrow> (string list result \<times> highlights)" where
  "highlight_add nc usage argv table =
     (case argv of
        [] \<Rightarrow> (Inr [hl_syntax nc usage], table)
      | [_] \<Rightarrow> (Inr [hl_syntax nc usage], table)
      | [m, color] \<Rightarrow> (Inr [], AList.update m color table)
      | _ \<Rightarrow> (raise ValueError ''too many values to unpack (expected 2)'', table))"

definition highlight_remove :: "bool \<Rightarrow> string \<Rightarrow> string list \<Rightarrow> highlights \<Rightarrow> string list \<times> highlights" where
  "highlight_remove nc usage argv table =
     (case argv of [] \<Rightarrow> ([hl_syntax nc usage], table) | m # _ \<Rightarrow> ([], AList.delete m table))"

section \<open>Facts\<close>

text \<open>A text whose escape characters all begin a colour code, and what is seen of it\<close>
definition is_code :: "string \<Rightarrow> bool" where
  "is_code k \<longleftrightarrow> (\<exists>b. k = ESC # CHR ''['' # b @ ''m'' \<and> list_all code_char b)"

inductive clean :: "string \<Rightarrow> string \<Rightarrow> bool" where
  clean_Nil: "clean [] []"
| clean_Cons: "c \<noteq> ESC \<Longrightarrow> clean s v \<Longrightarrow> clean (c # s) (c # v)"
| clean_code: "is_code k \<Longrightarrow> clean s v \<Longrightarrow> clean (k @ s) v"

lemma clean_append: "clean a v \<Longrightarrow> clean b w \<Longrightarrow> clean (a @ b) (v @ w)"
  by (induction rule: clean.induct) (auto intro: clean.intros)

lemma clean_plain: "ESC \<notin> set s \<Longrightarrow> clean s s"
  by (induction s) (auto intro: clean.intros)

lemma clean_codes: "is_code k \<Longrightarrow> clean k []"
  using clean_code [OF _ clean_Nil, of k] by simp

lemma code_char_m: "\<not> code_char (CHR ''m'')" by (simp add: code_char_def)

lemma ansi_code_code: "is_code k \<Longrightarrow> ansi_code (k @ s) = Some (k, s)"
  unfolding is_code_def ansi_code_def
  by (auto simp: takeWhile_append dropWhile_append list_all_iff code_char_m)

lemma ansi_code_is_code: "ansi_code s = Some (k, r) \<Longrightarrow> is_code k"
  by (auto simp: ansi_code_def is_code_def list_all_iff split: list.splits if_splits dest: set_takeWhileD)

definition vis :: "string \<Rightarrow> string" where "vis p = (if is_code p then [] else p)"

text \<open>What is seen of a text: its pieces without the colour codes\<close>
definition visible :: "string \<Rightarrow> string" where "visible s = concat (map vis (ansi_split [] s))"

abbreviation piece :: "string \<Rightarrow> bool" where "piece p \<equiv> ESC \<notin> set p \<or> is_code p"

lemma plain_not_code: "ESC \<notin> set p \<Longrightarrow> \<not> is_code p"
  by (auto simp: is_code_def)

lemma ansi_split_clean:
  assumes "clean s v" "ESC \<notin> set acc"
  shows "(\<forall>p \<in> set (ansi_split acc s). piece p) \<and> concat (map vis (ansi_split acc s)) = rev acc @ v
    \<and> concat (ansi_split acc s) = rev acc @ s"
  using assms
proof (induction arbitrary: acc rule: clean.induct)
  case clean_Nil
  then show ?case by (simp add: vis_def plain_not_code)
next
  case (clean_Cons c s v)
  then have "ansi_code (c # s) = None" by (auto simp: ansi_code_def split: list.splits)
  then show ?case using clean_Cons.IH [of "c # acc"] clean_Cons by simp
next
  case (clean_code k s v)
  then obtain c cs where k: "k = c # cs" by (auto simp: is_code_def)
  have "ansi_split acc (k @ s) = rev acc # k # ansi_split [] s"
    using ansi_code_code [OF clean_code(1), of s] k by simp
  then show ?case using clean_code.IH [of "[]"] clean_code by (simp add: vis_def plain_not_code)
qed

lemma visible_clean: "clean s v \<Longrightarrow> visible s = v"
  using ansi_split_clean [of s v "[]"] by (simp add: visible_def)

lemma piece_clean: "piece p \<Longrightarrow> clean p (vis p)"
  using clean_codes clean_plain plain_not_code by (auto simp: vis_def)

lemma pieces_clean: "\<forall>p \<in> set ps. piece p \<Longrightarrow> clean (concat ps) (concat (map vis ps))"
  by (induction ps) (simp_all add: clean_Nil clean_append piece_clean)

lemma clean_str_replace: "clean r m \<Longrightarrow> ESC \<notin> set v \<Longrightarrow> clean (str_replace m r v) v"
proof (induction m r v rule: str_replace.induct)
  case (2 a b c cs)
  show ?case
  proof (cases "a \<noteq> [] \<and> startswith (c # cs) a")
    case True
    then have v: "c # cs = a @ drop (length a) (c # cs)" unfolding startswith_def by (metis append_take_drop_id)
    then have "ESC \<notin> set (drop (length a) (c # cs))" using 2(4) by (metis in_set_dropD)
    then have "clean (b @ str_replace a b (drop (length a) (c # cs))) (a @ drop (length a) (c # cs))"
      using 2 True by (intro clean_append) auto
    then have "clean (b @ str_replace a b (drop (length a) (c # cs))) (c # cs)" using v by metis
    then show ?thesis using True by simp
  next
    case False
    then show ?thesis using 2 by (auto intro: clean_Cons)
  qed
qed (simp add: clean_Nil)

lemma str_in_set: "str_in m v \<Longrightarrow> set m \<subseteq> set v"
proof (induction v)
  case (Cons c cs)
  have "set m \<subseteq> set (c # cs)" if "startswith (c # cs) m"
    using that set_take_subset [of "length m" "c # cs"] by (simp add: startswith_def)
  with Cons show ?case by auto
qed simp

lemma code_chars: "is_code k \<Longrightarrow> x \<in> set k \<Longrightarrow> code_char x \<or> x \<in> {ESC, CHR ''['', CHR ''m''}"
  by (auto simp: is_code_def list_all_iff)

lemma highlight_pieces_clean:
  assumes "clean r m" "m \<noteq> []" "x \<in> set m" "\<not> code_char x" "x \<notin> {ESC, CHR ''['', CHR ''m''}"
    and "\<forall>p \<in> set ps. piece p"
  shows "clean (concat (highlight_pieces m r ps)) (concat (map vis ps))"
  using assms(6)
proof (induction ps)
  case (Cons p ps)
  show ?case
  proof (cases "str_in m p")
    case True
    then have "\<not> is_code p" using code_chars [of p x] str_in_set [OF True] assms(3-5) by blast
    then have p: "\<not> is_code p" "ESC \<notin> set p" using Cons.prems by auto
    have "clean (str_replace m r p) p" by (rule clean_str_replace [OF assms(1) p(2)])
    moreover have "vis p = p" using p(1) by (simp add: vis_def)
    ultimately show ?thesis using True Cons.prems assms(2) pieces_clean [of ps] by (simp add: py_replace_def clean_append)
  next
    case False
    have "clean p (vis p)" using Cons.prems by (simp add: piece_clean)
    then show ?thesis using False Cons by (auto intro: clean_append)
  qed
qed (simp add: clean_Nil)

lemma concat_codes_clean: "\<forall>k \<in> set ks. is_code k \<Longrightarrow> clean (concat ks) []"
  by (induction ks) (auto intro: clean_Nil clean_code)

lemma color_codes: "n \<in> set (map fst color_table) \<Longrightarrow> is_code (color_of n)"
proof -
  assume n: "n \<in> set (map fst color_table)"
  have "list_all (\<lambda>n. ansi_code (color_of n) = Some (color_of n, [])) (map fst color_table)" by code_simp
  with n have "ansi_code (color_of n) = Some (color_of n, [])" by (simp only: list_all_iff)
  then show ?thesis by (rule ansi_code_is_code)
qed

lemma colorify_clean:
  assumes "ESC \<notin> set m"
  shows "clean (colorify nc m color) m"
proof (cases nc)
  case False
  let ?ks = "map color_of (filter (\<lambda>a. a \<in> set (map fst color_table)) (split_ws color))"
  have off: "is_code (color_of ''highlight_off'')" "is_code (color_of ''underline_off'')" "is_code (color_of ''blink_off'')"
    "is_code (color_of ''normal'')" by (simp_all add: color_codes color_table_def)
  define after where "after xs \<longleftrightarrow> (\<exists>es. xs = ?ks @ m # es \<and> (\<forall>k \<in> set es. is_code k))" for xs
  have step: "after (if b then xs @ [k] else xs)" if "after xs" "is_code k" for b xs k
    using that unfolding after_def by (cases b) (auto simp: append_assoc)
  let ?m0 = "?ks @ [m]"
  let ?m1 = "if color_of ''highlight'' \<in> set ?m0 then ?m0 @ [color_of ''highlight_off''] else ?m0"
  let ?m2 = "if color_of ''underline'' \<in> set ?m1 then ?m1 @ [color_of ''underline_off''] else ?m1"
  let ?m3 = "if color_of ''blink'' \<in> set ?m2 then ?m2 @ [color_of ''blink_off''] else ?m2"
  have "after ?m0" by (simp add: after_def)
  from step [OF step [OF step [OF this off(1)] off(2)] off(3)] have m3: "after ?m3" .
  have "colorify nc m color = concat (?m3 @ [color_of ''normal''])" by (simp only: colorify_def False if_False Let_def)
  moreover have "after (?m3 @ [color_of ''normal''])" using step [OF m3 off(4), of True] by (simp only: if_True)
  ultimately have "\<exists>xs. after xs \<and> colorify nc m color = concat xs" by blast
  then obtain es where es: "colorify nc m color = concat (?ks @ m # es)" "\<forall>k \<in> set es. is_code k" by (auto simp: after_def)
  have ks: "clean (concat ?ks) []" using color_codes by (intro concat_codes_clean) auto
  show ?thesis using clean_append [OF ks clean_append [OF clean_plain [OF assms] concat_codes_clean [OF es(2)]]] es(1) by simp
qed (simp add: colorify_def clean_plain assms)

section \<open>Properties\<close>

text \<open>A match that cannot occur in a colour code and brings no escape character\<close>
definition plain_match :: "string \<Rightarrow> bool" where
  "plain_match m \<longleftrightarrow> ESC \<notin> set m \<and> list_ex (\<lambda>x. \<not> code_char x \<and> x \<notin> {ESC, CHR ''['', CHR ''m''}) m"

text \<open>C23: highlighting changes the colours of a text and never what is seen of it: on a text whose escape
  characters all begin colour codes, highlighting the matches of a table that cannot occur in a code gives
  a text of the same kind with the same visible characters.\<close>
theorem highlight_keeps_visible:
  assumes "clean tx v" "\<forall>(m, c) \<in> set table. plain_match m"
  shows "\<exists>t. highlight_text re_sub False nc table tx = Inr t \<and> clean t v \<and> visible t = visible tx"
proof -
  have one: "clean (highlight_one nc (m, c) t) v" if cl: "clean t v" and pm: "plain_match m" for m c t
  proof -
    obtain x where x: "x \<in> set m" "\<not> code_char x" "x \<notin> {ESC, CHR ''['', CHR ''m''}" "ESC \<notin> set m"
      using pm by (auto simp: plain_match_def list_ex_iff)
    note sp = ansi_split_clean [OF cl, of "[]", simplified]
    have "m \<noteq> []" using x(1) by auto
    then have "clean (concat (highlight_pieces m (colorify nc m c) (ansi_split [] t))) (concat (map vis (ansi_split [] t)))"
      using sp by (intro highlight_pieces_clean [OF colorify_clean [OF x(4)] _ x(1-3)]) blast+
    then show ?thesis using sp by (simp add: highlight_one_def)
  qed
  have "clean (fold (highlight_one nc) table tx) v"
    using assms
  proof (induction table arbitrary: tx)
    case (Cons h table)
    then show ?case using one by (cases h) simp
  qed simp
  then show ?thesis using assms(1) visible_clean by (auto simp: highlight_text_def)
qed

theorem highlight_keeps_visible_witness:
  "\<exists>t. highlight_text (\<lambda>_ _ x. Inr x) False False [(''0x'', ''red''), (''rax'', ''bold green'')] (ESC # ''[32mrax'' @ ESC # ''[0m 0x1'')
     = Inr t \<and> visible t = ''rax 0x1''"
proof -
  have "is_code (ESC # ''[32m'')" "is_code (ESC # ''[0m'')"
    using ansi_code_is_code [of "ESC # ''[32m''" _ "[]"] ansi_code_is_code [of "ESC # ''[0m''" _ "[]"]
    by (simp_all add: ansi_code_def code_char_def)
  then have "clean ((ESC # ''[32m'') @ ''rax'' @ (ESC # ''[0m'') @ '' 0x1'') (''rax'' @ '' 0x1'')"
    by (intro clean_code clean_append [OF clean_plain]) (auto intro: clean_plain)
  then have c: "clean ((ESC # ''[32m'') @ ''rax'' @ (ESC # ''[0m'') @ '' 0x1'') ''rax 0x1''" by simp
  show ?thesis
    using highlight_keeps_visible [OF c, of "[(''0x'', ''red''), (''rax'', ''bold green'')]" "\<lambda>_ _ x. Inr x" False] visible_clean [OF c]
    by (auto simp: plain_match_def code_char_def)
qed

end
