(* ===== verification/ElfCmds.thy ===== *)
theory ElfCmds
  imports Context Elf MapCmds
begin

text \<open>
  The commands of \<^verbatim>\<open>scripts/gef.py\<close> over ELF files: \<^verbatim>\<open>checksec\<close>, \<^verbatim>\<open>got\<close>, \<^verbatim>\<open>canary\<close>, \<^verbatim>\<open>elf-info\<close>
  and \<^verbatim>\<open>entry-break\<close>.  An ELF file is given by what the reader (theory Elf) makes of it, the output of
  readelf by its lines.
\<close>

section \<open>checksec\<close>

definition yes_mark :: "bool \<Rightarrow> string" where "yes_mark nc = greenify nc (boldify nc TICK)"
definition no_mark :: "bool \<Rightarrow> string" where "no_mark nc = redify nc (boldify nc CROSS)"

text \<open>The canary is asked for twice; the pair is what the session answers\<close>
definition checksec_line :: "bool \<Rightarrow> bool \<Rightarrow> (int \<times> int) option result \<Rightarrow> string \<times> bool \<Rightarrow> string io" where
  "checksec_line nc alive canary = (\<lambda>(prop, val).
     bindI (if val \<and> prop = ''Canary'' \<and> alive
       then bindI (resI canary) (\<lambda>c. retI (''(value: '' @ hexs (case c of None \<Rightarrow> 0 | Some (v, _) \<Rightarrow> v) @ '')''))
       else retI []) (\<lambda>extra. retI (ljust 30 prop @ '': '' @ (if val then yes_mark nc else no_mark nc) @ extra)))"

definition relro_text :: "bool \<Rightarrow> bool dict \<Rightarrow> string io" where
  "relro_text nc sec =
     (case map_of sec ''Full RelRO'' of
        None \<Rightarrow> raiseI KeyError ''Full RelRO''
      | Some True \<Rightarrow> retI (greenify nc ''Full'')
      | Some False \<Rightarrow>
          (case map_of sec ''Partial RelRO'' of
             None \<Rightarrow> raiseI KeyError ''Partial RelRO''
           | Some True \<Rightarrow> retI (colorify nc ''Partial'' ''yellow'')
           | Some False \<Rightarrow> retI (no_mark nc)))"

definition print_security_properties ::
  "bool \<Rightarrow> bool \<Rightarrow> (int \<times> int) option result \<Rightarrow> bool dict \<Rightarrow> unit io" where
  "print_security_properties nc alive canary sec =
     bindI (eachI (\<lambda>p. bindI (checksec_line nc alive canary p) printI)
       (filter (\<lambda>(prop, _). prop \<noteq> ''Partial RelRO'' \<and> prop \<noteq> ''Full RelRO'') sec)) (\<lambda>_.
     bindI (relro_text nc sec) (\<lambda>t. printI (ljust 30 ''RelRO'' @ '': '' @ t)))"

record checksec_env =
  ck_filepath :: "string option"
  ck_realpath :: "string \<Rightarrow> string"
  ck_readable :: "string \<Rightarrow> bool"
  ck_status :: "string \<Rightarrow> bool dict result"
  ck_canary :: "(int \<times> int) option result"

definition checksec_file :: "bool \<Rightarrow> bool \<Rightarrow> checksec_env \<Rightarrow> string \<Rightarrow> unit io" where
  "checksec_file nc alive e filename =
     bindI (printI (info_line nc (''checksec for '' @ [CHR 0x27] @ filename @ [CHR 0x27]))) (\<lambda>_.
     bindI (resI (ck_status e filename)) (print_security_properties nc alive (ck_canary e)))"

definition checksec_cmd :: "bool \<Rightarrow> bool \<Rightarrow> string \<Rightarrow> checksec_env \<Rightarrow> string list \<Rightarrow> unit io" where
  "checksec_cmd nc alive usage e argv =
     (case argv of
        [] \<Rightarrow> (case ck_filepath e of None \<Rightarrow> printI (warn_line nc ''No executable/library specified'')
               | Some f \<Rightarrow> checksec_file nc alive e f)
      | [a] \<Rightarrow> (let f = ck_realpath e a in
               if ck_readable e f then checksec_file nc alive e f else printI (err_line nc ''Invalid filename''))
      | _ \<Rightarrow> printI (syntax_line nc usage))"

section \<open>canary\<close>

definition canary_cmd :: "bool \<Rightarrow> bool \<Rightarrow> checksec_env \<Rightarrow> int result \<Rightarrow> unit io" where
  "canary_cmd nc alive e pid =
     (if \<not> alive then printI (warn_line nc ''No debugging session active'')
      else case ck_filepath e of None \<Rightarrow> raiseI AssertionError []
      | Some f \<Rightarrow> if f = [] then raiseI AssertionError []
          else bindI (resI (ck_status e f)) (\<lambda>sec. case map_of sec ''Canary'' of
            None \<Rightarrow> raiseI KeyError ''Canary''
          | Some False \<Rightarrow> printI (warn_line nc ''This binary was not compiled with SSP.'')
          | Some True \<Rightarrow> bindI (resI (ck_canary e)) (\<lambda>c. case c of
              None \<Rightarrow> printI (err_line nc ''Failed to get the canary'')
            | Some (v, loc) \<Rightarrow> bindI (resI pid) (\<lambda>p. printI (info_line nc
                (''The canary of process '' @ decs p @ '' is at '' @ hexs loc @ '', value is '' @ hexs v))))))"

section \<open>got\<close>

record got_env =
  gt_deref :: deref_env
  gt_remote :: bool
  gt_realpath :: "string \<Rightarrow> string"
  gt_status :: "string \<Rightarrow> bool dict result"
  gt_relocs :: "string \<Rightarrow> string list result"
  gt_resolved :: string
  gt_not_resolved :: string

definition file_bounds :: "sect list \<Rightarrow> string \<Rightarrow> int \<times> int" where
  "file_bounds ss p =
     (let own = filter (\<lambda>s. path s = p) ss in
      (if own = [] then - 1 else Min (set (map page_start own)), if own = [] then - 1 else Max (set (map page_end own))))"

definition status_of :: "bool dict \<Rightarrow> string \<Rightarrow> bool result" where
  "status_of sec k = (case map_of sec k of Some b \<Rightarrow> Inr b | None \<Rightarrow> raise KeyError k)"

text \<open>One relocation: None when the filter does not ask for its name\<close>
definition got_line :: "got_env \<Rightarrow> string list \<Rightarrow> bool \<Rightarrow> int \<Rightarrow> int \<Rightarrow> string \<Rightarrow> string option result" where
  "got_line e wanted pie base_address end_address line =
     (case take 5 (split_ws line) of
        [a, _, _, _, name] \<Rightarrow>
          (if wanted \<noteq> [] \<and> \<not> list_ex (\<lambda>x. str_in x name) wanted then Inr None
           else bindE (py_int 16 a) (\<lambda>v.
             let addr = (if pie \<or> gt_remote e then base_address + v else v) in
             bindE (read_integer (dv_target (gt_deref e)) addr) (\<lambda>got.
               Inr (Some (''['' @ hexs addr @ ''] '' @ colorify (dv_no_color (gt_deref e)) (name @ '' '' @ RIGHT_ARROW @ '' '' @ hexs got)
                 (if base_address < got \<and> got < end_address then gt_not_resolved e else gt_resolved e))))))
      | _ \<Rightarrow> raise ValueError ''not enough values to unpack'')"

fun got_lines :: "got_env \<Rightarrow> string list \<Rightarrow> bool \<Rightarrow> int \<Rightarrow> int \<Rightarrow> string list \<Rightarrow> string list result" where
  "got_lines e wanted pie b n [] = Inr []"
| "got_lines e wanted pie b n (l # ls) =
     bindE (got_line e wanted pie b n l) (\<lambda>x.
     bindE (got_lines e wanted pie b n ls) (\<lambda>xs. Inr (case x of None \<Rightarrow> xs | Some t \<Rightarrow> t # xs)))"

text \<open>An exception of the ELF reader or of readelf is caught for the file; later ones are not\<close>
definition got_file :: "got_env \<Rightarrow> string list \<Rightarrow> string \<Rightarrow> unit io" where
  "got_file e wanted f =
     (let (b, n) = file_bounds (dv_maps (gt_deref e)) (gt_realpath e f) in
      if b = - 1 \<or> n = - 1 then retI ()
      else case gt_status e f of
        Inl _ \<Rightarrow> printI (''File:'' @ f @ '' is not an ELF.'')
      | Inr sec \<Rightarrow>
          bindI (resI (status_of sec ''Full RelRO'')) (\<lambda>full.
          bindI (resI (status_of sec ''PIE'')) (\<lambda>pie.
          bindI (if full then retI ''Full RelRO''
            else bindI (resI (status_of sec ''Partial RelRO'')) (\<lambda>p. retI (if p then ''Partial RelRO'' else ''No RelRO''))) (\<lambda>relro.
          bindI (resI (gt_relocs e f)) (\<lambda>out.
            let slots = filter (str_in ''JUMP'') out in
            bindI (resI (got_lines e wanted pie b n slots)) (\<lambda>ls.
              if ls = [] then retI ()
              else print_all (([CHR 0x0A] @ ''File:'' @ f @ [CHR 0x0A] @ ''GOT protection: '' @ relro
                     @ '' | GOT functions: '' @ decs (int (length slots))) # ls)))))))"

text \<open>The files in the order in which the set of the paths is enumerated\<close>
definition got_cmd :: "got_env \<Rightarrow> string list \<Rightarrow> string list \<Rightarrow> unit io" where
  "got_cmd e files argv =
     (if \<not> t_alive (dv_target (gt_deref e)) then printI (no_session (gt_deref e))
      else eachI (got_file e argv) (filter (\<lambda>p. p \<noteq> []) files))"

section \<open>elf-info\<close>

definition hexw :: "nat \<Rightarrow> int \<Rightarrow> string" where "hexw w x = rjust w (hexs x)"

definition elf_data :: "ctx_env \<Rightarrow> bool \<Rightarrow> elf \<Rightarrow> (string \<times> string) list result" where
  "elf_data c highlight_regex h =
     (let t = cx_target c; hdec = (\<lambda>x. hexs x @ '' - '') in
      bindE (struct_pack BIG_ENDIAN False 4 (e_magic h)) (\<lambda>magic.
      bindE (hexdump_lines (dv_dis (cx_deref c)) (cx_nc c) highlight_regex 16 (CHR ''.'') True True 0 0 magic) (\<lambda>dump.
        Inr [(''Magic'', join [CHR 0x0A] dump),
          (''Class'', hdec (e_class h) @ enum_name elf_classes (e_class h)),
          (''Endianness'', hdec (endianness_int (e_endianness h)) @ endianness_repr (e_endianness h)),
          (''Version'', hexs (e_eiversion h)),
          (''OS ABI'', hdec (e_osabi h) @ enum_name elf_osabis (e_osabi h)),
          (''ABI Version'', hexs (e_abiversion h)),
          (''Type'', hdec (e_type h) @ enum_name elf_types (e_type h)),
          (''Machine'', hdec (e_machine h) @ enum_name elf_abis (e_machine h)),
          (''Program Header Table'', format_address t (e_phoff h)),
          (''Section Header Table'', format_address t (e_shoff h)),
          (''Header Table'', format_address t (e_phoff h)),
          (''ELF Version'', hexs (e_version h)),
          (''Header size'', decs (e_ehsize h) @ '' ('' @ hexs (e_ehsize h) @ '')''),
          (''Entry point'', format_address t (e_entry h))])))"

text \<open>The texts Python gives to a combination of flags are parameters; a member with value 0 is falsy\<close>
definition phdr_line :: "(int \<Rightarrow> string) \<Rightarrow> nat \<times> phdr \<Rightarrow> string" where
  "phdr_line pf_name = (\<lambda>(i, p).
     let ty = (if p_type p = 0 then [] else enum_name phdr_types (p_type p));
         flags = (if p_flags p = 0 then ''???'' else lstrip_of (\<lambda>c. c \<in> set ''Flag.'') (pf_name (p_flags p)))
     in ''  ['' @ rjust 2 (decs (int i)) @ ''] '' @ ljust 12 ty @ '' '' @ hexw 8 (p_offset p) @ '' '' @ hexw 10 (p_vaddr p)
        @ '' '' @ hexw 10 (p_paddr p) @ '' '' @ hexw 8 (p_filesz p) @ '' '' @ hexw 8 (p_memsz p) @ '' ''
        @ ljust 5 flags @ '' '' @ hexw 8 (p_align p))"

definition shdr_line :: "(int \<Rightarrow> string) \<Rightarrow> nat \<times> shdr \<Rightarrow> string" where
  "shdr_line sf_str = (\<lambda>(i, s).
     let ty = (if sh_type s = 0 then ''UNKN'' else enum_name shdr_types (sh_type s));
         flags = (if sh_flags s = 0 then ''UNKN'' else lstrip_of (\<lambda>c. c \<in> set ''Flags.'') (sf_str (sh_flags s)))
     in ''  ['' @ rjust 2 (decs (int i)) @ ''] '' @ ljust 20 (sh_name_text s) @ '' '' @ rjust 15 ty @ '' '' @ hexw 10 (sh_addr s)
        @ '' '' @ hexw 8 (sh_offset s) @ '' '' @ hexw 8 (sh_size s) @ '' '' @ hexw 8 (sh_entsize s) @ '' ''
        @ ljust 5 flags @ '' '' @ hexw 4 (sh_link s) @ '' '' @ hexw 4 (sh_info s) @ '' '' @ hexw 8 (sh_addralign s))"

definition phdr_heading :: string where
  "phdr_heading = ''  ['' @ rjust 2 ''#'' @ ''] '' @ ljust 12 ''Type'' @ '' '' @ rjust 8 ''Offset'' @ '' '' @ rjust 10 ''Virtaddr''
     @ '' '' @ rjust 10 ''Physaddr'' @ '' '' @ rjust 8 ''FileSiz'' @ '' '' @ rjust 8 ''MemSiz'' @ '' '' @ ljust 5 ''Flags''
     @ '' '' @ rjust 8 ''Align''"

definition shdr_heading :: string where
  "shdr_heading = ''  ['' @ rjust 2 ''#'' @ ''] '' @ ljust 20 ''Name'' @ '' '' @ rjust 15 ''Type'' @ '' '' @ rjust 10 ''Address''
     @ '' '' @ rjust 8 ''Offset'' @ '' '' @ rjust 8 ''Size'' @ '' '' @ rjust 8 ''EntSiz'' @ '' '' @ ljust 5 ''Flags''
     @ '' '' @ ljust 4 ''Link'' @ '' '' @ ljust 4 ''Info'' @ '' '' @ rjust 8 ''Align''"

definition elf_info_cmd ::
  "ctx_env \<Rightarrow> bool \<Rightarrow> (int \<Rightarrow> string) \<Rightarrow> (int \<Rightarrow> string) \<Rightarrow> bool \<Rightarrow> string option
     \<Rightarrow> (string \<Rightarrow> (elf \<times> phdr list \<times> shdr list) result) \<Rightarrow> string \<Rightarrow> unit io" where
  "elf_info_cmd c highlight_regex pf_name sf_str qemu_system fpath read filename_arg =
     (let nc = cx_nc c; title = (\<lambda>t. titlify nc (cx_theme c) (cx_cols c) t None None) in
      if qemu_system then printI (err_line nc ''Unsupported'')
      else case (if filename_arg \<noteq> [] then Some filename_arg else fpath) of
        None \<Rightarrow> retI ()
      | Some filename \<Rightarrow>
          (case read filename of
             Inl x \<Rightarrow> if exn_cls x \<in> {ValueError, UnicodeError}
               then printI (err_line nc (''`'' @ filename @ ''` is an invalid value for ELF file'')) else resI (Inl x)
           | Inr (h, ps, ss) \<Rightarrow>
               bindI (resI (elf_data c highlight_regex h)) (\<lambda>data.
                 print_all (map (\<lambda>(t, x). boldify nc (ljust 22 t) @ '': '' @ x) data
                   @ [[], title ''Program Header'', phdr_heading] @ map (phdr_line pf_name) (enumerate 0 ps)
                   @ [[], title ''Section Header'', shdr_heading] @ map (shdr_line sf_str) (enumerate 0 ss)))))"

section \<open>entry-break\<close>

record entry_env =
  en_filepath :: "string option"
  en_executable :: "string \<Rightarrow> bool"
  en_alive :: bool
  en_qemu_mode :: bool
  en_symbols :: "string list"
  en_address :: "string \<Rightarrow> int result"
  en_gdb :: "string \<Rightarrow> unit result"
  en_entry :: int
  en_pie :: "string \<Rightarrow> bool result"
  en_maps :: "sect list result"

text \<open>The internal temporary breakpoints that are set, by their locations, newest last, and whether the
  context is hidden\<close>
record entry_state =
  et_breaks :: "string list"
  et_hidden :: bool

type_synonym 'a brk = "(entry_state, 'a) sio"

definition set_entry_break :: "string \<Rightarrow> unit brk" where
  "set_entry_break loc = modX (et_breaks_update (\<lambda>bs. bs @ [loc]))"

definition execB :: "entry_env \<Rightarrow> string \<Rightarrow> unit brk" where
  "execB e cmd bs = ([Exec cmd], en_gdb e cmd, bs)"

definition run_cmd :: "string list \<Rightarrow> string" where "run_cmd argv = ''run '' @ join '' '' argv"

text \<open>The attempts with the symbols: whether the command is done, and whether a breakpoint was set\<close>
fun entry_loop :: "bool \<Rightarrow> entry_env \<Rightarrow> string list \<Rightarrow> string list \<Rightarrow> bool \<Rightarrow> (bool \<times> bool) brk" where
  "entry_loop nc e argv [] bp = retX (False, bp)"
| "entry_loop nc e argv (sm # syms) bp =
     (let handle = (\<lambda>bp' x. if exn_cls x \<notin> {GdbError, GdbMemoryError} then resX (Inl x)
            else if str_in (''The '' @ [CHR 0x22] @ ''remote'' @ [CHR 0x22] @ '' target does not support '' @ [CHR 0x22]
                 @ ''run'' @ [CHR 0x22] @ ''.'') (exn_msg x)
            then bindX (execB e ''continue'') (\<lambda>_. retX (True, bp'))
            else entry_loop nc e argv syms bp') in
      case en_address e sm of
        Inl x \<Rightarrow> handle bp x
      | Inr v \<Rightarrow>
          bindX (printX (info_line nc (''Breaking at '' @ [CHR 0x27] @ hexs v @ [CHR 0x27]))) (\<lambda>_.
          bindX (set_entry_break sm) (\<lambda>_.
          catchX (bindX (execB e (run_cmd argv)) (\<lambda>_. retX (True, True))) (\<lambda>x. Some (handle True x)))))"

definition set_init_tbreak :: "bool \<Rightarrow> int \<Rightarrow> unit brk" where
  "set_init_tbreak nc addr =
     bindX (printX (info_line nc (''Breaking at entry-point: '' @ hexs addr))) (\<lambda>_. set_entry_break (CHR ''*'' # hexs addr))"

text \<open>The base is the first section of the map whose path is the file\<close>
definition set_init_tbreak_pie :: "bool \<Rightarrow> entry_env \<Rightarrow> string \<Rightarrow> string list \<Rightarrow> unit brk" where
  "set_init_tbreak_pie nc e fpath argv =
     bindX (printX (warn_line nc ''PIC binary detected, retrieving text base address'')) (\<lambda>_.
     bindX (execB e ''set stop-on-solib-events 1'') (\<lambda>_.
     bindX (modX (et_hidden_update (\<lambda>_. True))) (\<lambda>_.
     bindX (execB e (run_cmd argv)) (\<lambda>_.
     bindX (modX (et_hidden_update (\<lambda>_. False))) (\<lambda>_.
     bindX (execB e ''set stop-on-solib-events 0'') (\<lambda>_.
     bindX (resX (en_maps e)) (\<lambda>ss.
       case find (\<lambda>s. path s = fpath) ss of
         None \<Rightarrow> raiseX IndexError ''list index out of range''
       | Some s \<Rightarrow> set_init_tbreak nc (page_start s + en_entry e))))))))"

definition entry_break_cmd :: "bool \<Rightarrow> entry_env \<Rightarrow> string list \<Rightarrow> unit brk" where
  "entry_break_cmd nc e argv =
     (case en_filepath e of
        None \<Rightarrow> printX (warn_line nc ''No executable to debug, use `file` to load a binary'')
      | Some fpath \<Rightarrow>
          if \<not> en_executable e fpath then printX (warn_line nc (''The file '' @ [CHR 0x27] @ fpath @ [CHR 0x27] @ '' is not executable.''))
          else if en_alive e \<and> \<not> en_qemu_mode e then printX (warn_line nc ''gdb is already running'')
          else bindX (entry_loop nc e argv (en_symbols e) False) (\<lambda>(finished, bp).
            if finished then retX ()
            else bindX (if bp then modX (et_breaks_update butlast) else retX ()) (\<lambda>_.
              bindX (resX (en_pie e fpath)) (\<lambda>pie.
                if pie then bindX (set_init_tbreak_pie nc e fpath argv) (\<lambda>_. execB e ''continue'')
                else bindX (set_init_tbreak nc (en_entry e)) (\<lambda>_. execB e (run_cmd argv))))))"

section \<open>Facts\<close>

lemma checksec_run_dict:
  assumes "checksec check [] = (Inr sec, d)"
  shows "\<exists>ca nx pie fo pa fu. sec = [(''Canary'', ca), (''NX'', nx), (''PIE'', pie), (''Fortify'', fo),
      (''Partial RelRO'', pa), (''Full RelRO'', fu)] \<and> check ''-rs'' ''__stack_chk_fail'' = Inr ca
    \<and> check ''-l'' ''GNU_RELRO'' = Inr pa \<and> (fu \<longrightarrow> pa \<and> check ''-d'' ''BIND_NOW'' = Inr True)"
  using assms
  by (auto simp: checksec_def checksec_step_def bindS_def retS_def split: sum.splits if_splits prod.splits)

lemma got_lines_parts:
  "(\<And>l. l \<in> set ls \<Longrightarrow> got_line e w pie b n l = Inr (f l)) \<Longrightarrow>
     got_lines e w pie b n ls = Inr (concat (map (\<lambda>l. case f l of None \<Rightarrow> [] | Some t \<Rightarrow> [t]) ls))"
  by (induction ls) (auto split: option.splits)

text \<open>An answer of GDB after which the next symbol is tried\<close>
definition try_next :: "py_exn \<Rightarrow> bool" where
  "try_next x \<longleftrightarrow> exn_cls x \<in> {GdbError, GdbMemoryError} \<and>
     \<not> str_in (''The '' @ [CHR 0x22] @ ''remote'' @ [CHR 0x22] @ '' target does not support '' @ [CHR 0x22]
                 @ ''run'' @ [CHR 0x22] @ ''.'') (exn_msg x)"

lemma entry_loop_skip:
  assumes "\<forall>u \<in> set us. \<exists>x. en_address e u = Inl x \<and> try_next x"
  shows "entry_loop nc e argv (us @ syms) bp = entry_loop nc e argv syms bp"
  using assms by (induction us) (auto simp: try_next_def Let_def)

lemma et_append: "et_breaks_update (\<lambda>bs. bs @ xs) s = s\<lparr>et_breaks := et_breaks s @ xs\<rparr>"
  by (cases s) simp

lemma entry_loop_refused:
  assumes "en_gdb e (run_cmd argv) = Inl x" "try_next x" "\<forall>u \<in> set us. \<exists>v. en_address e u = Inr v"
  shows "\<exists>es. entry_loop nc e argv us bp s = (es, Inr (False, bp \<or> us \<noteq> []), s\<lparr>et_breaks := et_breaks s @ us\<rparr>)"
  using assms(3)
proof (induction us arbitrary: bp s)
  case (Cons u us)
  then obtain v where v: "en_address e u = Inr v" by auto
  obtain es where "entry_loop nc e argv us True (s\<lparr>et_breaks := et_breaks s @ [u]\<rparr>)
      = (es, Inr (False, True), s\<lparr>et_breaks := et_breaks s @ u # us\<rparr>)"
    using Cons.IH [of True "s\<lparr>et_breaks := et_breaks s @ [u]\<rparr>"] Cons.prems by auto
  then show ?case using v assms(1,2)
    by (simp add: Let_def sio_defs set_entry_break_def execB_def catchX_def try_next_def et_append)
qed (simp add: retX_def)

section \<open>Properties\<close>

text \<open>Fact: of the properties the ELF reader computes for a file, \<^verbatim>\<open>checksec\<close> prints each with its mark, and RelRO as
  full only when the file has the segment and binds at once, as partial when it has only the segment.\<close>
theorem checksec_prints_properties:
  assumes "checksec check [] = (Inr sec, d)" "\<not> alive"
  shows "\<exists>relro. print_security_properties nc alive canary sec = (map Print
      (map (\<lambda>p. ljust 30 p @ '': '' @ (if map_of sec p = Some True then yes_mark nc else no_mark nc))
        [''Canary'', ''NX'', ''PIE'', ''Fortify''] @ [ljust 30 ''RelRO'' @ '': '' @ relro]), Inr ())
    \<and> relro = (if map_of sec ''Full RelRO'' = Some True then greenify nc ''Full''
        else if map_of sec ''Partial RelRO'' = Some True then colorify nc ''Partial'' ''yellow'' else no_mark nc)
    \<and> (map_of sec ''Full RelRO'' = Some True \<longrightarrow>
        check ''-l'' ''GNU_RELRO'' = Inr True \<and> check ''-d'' ''BIND_NOW'' = Inr True)"
proof -
  obtain ca nx pie fo pa fu where d: "sec = [(''Canary'', ca), (''NX'', nx), (''PIE'', pie), (''Fortify'', fo),
      (''Partial RelRO'', pa), (''Full RelRO'', fu)]" "check ''-l'' ''GNU_RELRO'' = Inr pa"
    "fu \<longrightarrow> pa \<and> check ''-d'' ''BIND_NOW'' = Inr True"
    using checksec_run_dict [OF assms(1)] by blast
  then show ?thesis using assms(2)
    by (cases fu; cases pa) (simp_all add: print_security_properties_def checksec_line_def relro_text_def io_defs)
qed

theorem checksec_prints_properties_witness:
  "\<exists>relro. print_security_properties True False (Inr None)
     [(''Canary'', True), (''NX'', True), (''PIE'', True), (''Fortify'', True), (''Partial RelRO'', True), (''Full RelRO'', True)]
   = (map Print [ljust 30 ''Canary'' @ '': '' @ yes_mark True, ljust 30 ''NX'' @ '': '' @ yes_mark True,
       ljust 30 ''PIE'' @ '': '' @ yes_mark True, ljust 30 ''Fortify'' @ '': '' @ yes_mark True,
       ljust 30 ''RelRO'' @ '': '' @ relro], Inr ()) \<and> relro = greenify True ''Full''"
proof -
  define check :: "string \<Rightarrow> string \<Rightarrow> bool result" where
    "check = (\<lambda>_ p. Inr (p \<noteq> ''GNU_STACK.*RWE'' \<and> p \<noteq> '':.*EXEC''))"
  have "\<exists>d. checksec check [] = (Inr [(''Canary'', True), (''NX'', True), (''PIE'', True), (''Fortify'', True),
      (''Partial RelRO'', True), (''Full RelRO'', True)], d)"
    by (simp add: checksec_def checksec_step_def check_def bindS_def retS_def)
  then show ?thesis using checksec_prints_properties [of check _ _ False True "Inr None"] by fastforce
qed

text \<open>Fact: when GDB knows several of the entry symbols and refuses to run the program, \<^verbatim>\<open>entry-break\<close> goes on to the
  next symbol each time and in the end removes only the last breakpoint it set: those of the other
  symbols stay, beside the one at the entry point.\<close>
theorem entry_break_leaves_breakpoints:
  assumes "en_filepath e = Some f" "en_executable e f" "\<not> en_alive e" "en_pie e f = Inr False"
    and "en_symbols e = us @ [u]" "\<forall>w \<in> set (us @ [u]). \<exists>v. en_address e w = Inr v"
    and "en_gdb e (run_cmd argv) = Inl x" "try_next x"
  shows "\<exists>es. entry_break_cmd nc e argv s
    = (es, Inl x, s\<lparr>et_breaks := et_breaks s @ us @ [CHR ''*'' # hexs (en_entry e)]\<rparr>)"
proof -
  obtain es where "entry_loop nc e argv (us @ [u]) False s = (es, Inr (False, True), s\<lparr>et_breaks := et_breaks s @ us @ [u]\<rparr>)"
    using entry_loop_refused [OF assms(7,8,6), of nc False s] by auto
  then show ?thesis using assms
    by (simp add: entry_break_cmd_def sio_defs set_init_tbreak_def set_entry_break_def execB_def butlast_append et_append)
qed

theorem entry_break_leaves_breakpoints_witness:
  "\<exists>es. entry_break_cmd True \<lparr>en_filepath = Some ''/bin/a'', en_executable = (\<lambda>_. True), en_alive = False, en_qemu_mode = False,
      en_symbols = [''main'', ''_start''], en_address = (\<lambda>_. Inr 0x1000), en_gdb = (\<lambda>_. raise GdbError ''no''), en_entry = 0x1040,
      en_pie = (\<lambda>_. Inr False), en_maps = Inr []\<rparr> [] \<lparr>et_breaks = [], et_hidden = False\<rparr>
    = (es, raise GdbError ''no'', \<lparr>et_breaks = [''main'', CHR ''*'' # hexs 0x1040], et_hidden = False\<rparr>)"
  using entry_break_leaves_breakpoints [of "\<lparr>en_filepath = Some ''/bin/a'', en_executable = (\<lambda>_. True), en_alive = False, en_qemu_mode = False,
      en_symbols = [''main'', ''_start''], en_address = (\<lambda>_. Inr 0x1000), en_gdb = (\<lambda>_. raise GdbError ''no''), en_entry = 0x1040,
      en_pie = (\<lambda>_. Inr False), en_maps = Inr []\<rparr>" "''/bin/a''" "[''main'']" "''_start''" "[]" "Exn GdbError ''no''" True
      "\<lparr>et_breaks = [], et_hidden = False\<rparr>"]
  by (simp add: try_next_def startswith_def)

text \<open>Fact: when GDB runs the program, one breakpoint is set, at the first entry symbol it knows.\<close>
theorem entry_break_first_symbol:
  assumes "en_filepath e = Some f" "en_executable e f" "\<not> en_alive e" "en_gdb e (run_cmd argv) = Inr ()"
    and "en_symbols e = us @ u # ws" "\<forall>w \<in> set us. \<exists>x. en_address e w = Inl x \<and> try_next x" "en_address e u = Inr v"
  shows "entry_break_cmd nc e argv s = ([Print (info_line nc (''Breaking at '' @ [CHR 0x27] @ hexs v @ [CHR 0x27])),
      Exec (run_cmd argv)], Inr (), s\<lparr>et_breaks := et_breaks s @ [u]\<rparr>)"
  using assms entry_loop_skip [OF assms(6), of nc argv "u # ws" False]
  by (simp add: entry_break_cmd_def sio_defs set_entry_break_def execB_def catchX_def Let_def et_append)

end
