(* ===== verification/Process.thy ===== *)
theory Process
  imports Session MapCmds
begin

text \<open>
  The commands of \<^verbatim>\<open>scripts/gef.py\<close> about processes: \<^verbatim>\<open>process-status\<close> over the files of \<^verbatim>\<open>/proc\<close>,
  \<^verbatim>\<open>process-search\<close> over the output of \<^verbatim>\<open>ps\<close>, and \<^verbatim>\<open>hijack-fd\<close>, which makes the inferior call
  functions of its C library.  The files of \<^verbatim>\<open>/proc\<close>, their links and directories, the output of \<^verbatim>\<open>ps\<close>
  and the answers of GDB are parameters.
\<close>

section \<open>process-status\<close>

record proc_env =
  pr_nc :: bool
  pr_pid :: "int result"
  pr_read :: "string \<Rightarrow> string result"
  pr_islink :: "string \<Rightarrow> bool"
  pr_readlink :: "string \<Rightarrow> string result"
  pr_listdir :: "string \<Rightarrow> string list result"
  pr_ps :: "string list \<Rightarrow> string list result"
  pr_ps_path :: string

definition LF :: string where "LF = [CHR 0x0A]"
definition quote :: "string \<Rightarrow> string" where "quote s = [CHR 0x27] @ s @ [CHR 0x27]"

text \<open>\<^verbatim>\<open>open(path).readlines()\<close>; the line feed each line keeps is stripped by every use\<close>
definition read_lines :: "proc_env \<Rightarrow> string \<Rightarrow> string list result" where
  "read_lines e p = bindE (pr_read e p) (\<lambda>t. Inr (splitlines t))"

definition proc_path :: "int \<Rightarrow> string \<Rightarrow> string" where
  "proc_path pid name = ''/proc/'' @ decs pid @ ''/'' @ name"

fun state_lines :: "string list \<Rightarrow> string dict \<Rightarrow> string dict result" where
  "state_lines [] d = Inr d"
| "state_lines (l # ls) d =
     (case split_max (CHR '':'') 1 l of
        [key, val] \<Rightarrow> state_lines ls (AList.update (strip key) (strip val) d)
      | _ \<Rightarrow> raise ValueError ''not enough values to unpack (expected 2, got 1)'')"

definition get_state_of :: "proc_env \<Rightarrow> int \<Rightarrow> string dict result" where
  "get_state_of e pid = bindE (read_lines e (proc_path pid ''status'')) (\<lambda>ls. state_lines ls [])"

definition get_cmdline_of :: "proc_env \<Rightarrow> int \<Rightarrow> string result" where
  "get_cmdline_of e pid =
     bindE (pr_read e (proc_path pid ''cmdline'')) (\<lambda>t. Inr (strip (str_replace [CHR 0x00] '' '' t)))"

definition get_process_path_of :: "proc_env \<Rightarrow> int \<Rightarrow> string result" where
  "get_process_path_of e pid = pr_readlink e (proc_path pid ''exe'')"

definition get_children_pids :: "proc_env \<Rightarrow> int \<Rightarrow> int list" where
  "get_children_pids e pid =
     or_default (bindE (pr_ps e [pr_ps_path e, ''-o'', ''pid'', ''--ppid'', decs pid, ''--noheaders'']) (mapE (py_int 10))) []"

definition key_of :: "'v dict \<Rightarrow> string \<Rightarrow> 'v result" where
  "key_of d k = (case map_of d k of None \<Rightarrow> raise KeyError (quote k) | Some v \<Rightarrow> Inr v)"

definition show_info_proc :: "proc_env \<Rightarrow> unit io" where
  "show_info_proc e =
     bindI (printI (info_line (pr_nc e) ''Process Information'')) (\<lambda>_.
     bindI (resI (pr_pid e)) (\<lambda>pid.
     bindI (resI (get_cmdline_of e pid)) (\<lambda>cmdline.
     bindI (resI (get_process_path_of e pid)) (\<lambda>exe.
     printI (join LF
       [CHR 0x09 # ''PID '' @ RIGHT_ARROW @ '' '' @ decs pid,
        CHR 0x09 # ''Executable '' @ RIGHT_ARROW @ '' '' @ exe,
        CHR 0x09 # ''Command line '' @ RIGHT_ARROW @ '' '' @ quote cmdline])))))"

definition show_ancestor :: "proc_env \<Rightarrow> unit io" where
  "show_ancestor e =
     bindI (printI (info_line (pr_nc e) ''Parent Process Information'')) (\<lambda>_.
     bindI (resI (bindE (pr_pid e) (get_state_of e))) (\<lambda>own.
     bindI (resI (bindE (key_of own ''PPid'') (py_int 10))) (\<lambda>ppid.
     bindI (resI (get_state_of e ppid)) (\<lambda>state.
     bindI (resI (get_cmdline_of e ppid)) (\<lambda>cmdline.
     bindI (resI (key_of state ''Pid'')) (\<lambda>pid.
     printI (join LF
       [CHR 0x09 # ''Parent PID '' @ RIGHT_ARROW @ '' '' @ pid,
        CHR 0x09 # ''Command line '' @ RIGHT_ARROW @ '' '' @ quote cmdline])))))))"

text \<open>The loop over the children returns in its first iteration\<close>
definition show_descendants :: "proc_env \<Rightarrow> unit io" where
  "show_descendants e =
     bindI (printI (info_line (pr_nc e) ''Children Process Information'')) (\<lambda>_.
     bindI (resI (pr_pid e)) (\<lambda>own.
     case get_children_pids e own of
       [] \<Rightarrow> printI (CHR 0x09 # ''No child process'')
     | child_pid # _ \<Rightarrow>
         bindI (resI (get_state_of e child_pid)) (\<lambda>state.
         bindI (resI (bindE (key_of state ''Pid'') (py_int 10))) (\<lambda>pid.
         bindI (resI (get_process_path_of e pid)) (\<lambda>exe.
         bindI (resI (get_cmdline_of e pid)) (\<lambda>cmdline.
         printI (CHR 0x09 # ''PID '' @ RIGHT_ARROW @ '' '' @ decs pid @ '' (Name: '' @ quote exe
           @ '', CmdLine: '' @ quote cmdline @ '')'')))))))"

definition show_fds :: "proc_env \<Rightarrow> unit io" where
  "show_fds e =
     bindI (resI (pr_pid e)) (\<lambda>pid. let dir = proc_path pid ''fd'' in
     bindI (printI (info_line (pr_nc e) ''File Descriptors:'')) (\<lambda>_.
     bindI (resI (pr_listdir e dir)) (\<lambda>items.
     if items = [] then printI (CHR 0x09 # ''No FD opened'')
     else eachI (\<lambda>fname. let fullpath = dir @ ''/'' @ fname in
            if pr_islink e fullpath
            then bindI (resI (pr_readlink e fullpath)) (\<lambda>tgt.
              printI (CHR 0x09 # fullpath @ '' '' @ RIGHT_ARROW @ '' '' @ tgt))
            else retI ()) items)))"

text \<open>The link is read twice; it is taken not to change in between\<close>
fun sockets_of :: "proc_env \<Rightarrow> string \<Rightarrow> string list \<Rightarrow> int list result" where
  "sockets_of e dir [] = Inr []"
| "sockets_of e dir (fname # items) =
     (let fullpath = dir @ ''/'' @ fname in
      bindE (if pr_islink e fullpath
             then bindE (pr_readlink e fullpath) (\<lambda>l.
               if startswith l ''socket:''
               then bindE (py_int 10 (butlast (drop 1 (str_replace ''socket:'' [] l)))) (\<lambda>i. Inr [i])
               else Inr [])
             else Inr []) (\<lambda>xs. bindE (sockets_of e dir items) (\<lambda>ys. Inr (xs @ ys))))"

definition list_sockets :: "proc_env \<Rightarrow> int \<Rightarrow> int list result" where
  "list_sockets e pid = (let dir = proc_path pid ''fd'' in bindE (pr_listdir e dir) (sockets_of e dir))"

definition inet_ntoa :: "byte list \<Rightarrow> string" where
  "inet_ntoa bs = join ''.'' (map (\<lambda>b. decs (uint b)) bs)"

definition parse_ip_port :: "string \<Rightarrow> (string \<times> int) result" where
  "parse_ip_port addr =
     (case split_on (CHR '':'') addr of
        [ip, port] \<Rightarrow>
          bindE (py_int 16 ip) (\<lambda>i. bindE (struct_pack LITTLE_ENDIAN False 4 i) (\<lambda>bs.
          bindE (py_int 16 port) (\<lambda>p. Inr (inet_ntoa bs, p))))
      | _ \<Rightarrow> raise ValueError ''too many values to unpack (expected 2)'')"

definition tcp_states_str :: "(int \<times> string) list" where
  "tcp_states_str =
     [(0x01, ''TCP_ESTABLISHED''), (0x02, ''TCP_SYN_SENT''), (0x03, ''TCP_SYN_RECV''), (0x04, ''TCP_FIN_WAIT1''),
      (0x05, ''TCP_FIN_WAIT2''), (0x06, ''TCP_TIME_WAIT''), (0x07, ''TCP_CLOSE''), (0x08, ''TCP_CLOSE_WAIT''),
      (0x09, ''TCP_LAST_ACK''), (0x0A, ''TCP_LISTEN''), (0x0B, ''TCP_CLOSING''), (0x0C, ''TCP_NEW_SYN_RECV'')]"

definition udp_states_str :: "(int \<times> string) list" where
  "udp_states_str = [(0x07, ''UDP_LISTEN'')]"

definition connection_line :: "string \<times> int \<Rightarrow> string \<times> int \<Rightarrow> string \<Rightarrow> string" where
  "connection_line l r st =
     CHR 0x09 # fst l @ '':'' @ decs (snd l) @ '' '' @ RIGHT_ARROW @ '' '' @ fst r @ '':'' @ decs (snd r) @ '' ('' @ st @ '')''"

definition show_entry :: "(int \<times> string) list \<Rightarrow> int list \<Rightarrow> string list \<Rightarrow> unit io" where
  "show_entry states sockets entry =
     (case take 3 (drop 1 entry) of
        [lcl, rem, st] \<Rightarrow>
          if length entry \<le> 9 then raiseI IndexError ''list index out of range''
          else bindI (resI (py_int 10 (entry ! 9))) (\<lambda>ino.
            if ino \<in> set sockets then
              bindI (resI (parse_ip_port lcl)) (\<lambda>l.
              bindI (resI (parse_ip_port rem)) (\<lambda>r.
              bindI (resI (py_int 16 st)) (\<lambda>s.
              case map_of states s of
                None \<Rightarrow> raiseI KeyError (decs s)
              | Some name \<Rightarrow> printI (connection_line l r name))))
            else retI ())
      | _ \<Rightarrow> raiseI ValueError ''not enough values to unpack'')"

definition table_of :: "proc_env \<Rightarrow> string \<Rightarrow> string list list result" where
  "table_of e p = bindE (read_lines e p) (\<lambda>ls. Inr (map split_ws (drop 1 ls)))"

definition show_connections :: "proc_env \<Rightarrow> unit io" where
  "show_connections e =
     bindI (printI (info_line (pr_nc e) ''Network Connections'')) (\<lambda>_.
     bindI (resI (pr_pid e)) (\<lambda>pid.
     bindI (resI (list_sockets e pid)) (\<lambda>sockets.
     if sockets = [] then printI (CHR 0x09 # ''No open connections'')
     else bindI (resI (table_of e (proc_path pid ''net/tcp''))) (\<lambda>tcp.
       bindI (resI (table_of e (proc_path pid ''net/udp''))) (\<lambda>udp.
       bindI (eachI (show_entry tcp_states_str sockets) tcp) (\<lambda>_.
       eachI (show_entry udp_states_str sockets) udp))))))"

definition status_cmd :: "bool \<Rightarrow> bool \<Rightarrow> proc_env \<Rightarrow> unit io" where
  "status_cmd alive remote_debug e =
     (if \<not> alive then printI (warn_line (pr_nc e) ''No debugging session active'')
      else if remote_debug then printI (warn_line (pr_nc e) ''This command cannot work for remote sessions.'')
      else bindI (show_info_proc e) (\<lambda>_. bindI (show_ancestor e) (\<lambda>_. bindI (show_descendants e) (\<lambda>_.
           bindI (show_fds e) (\<lambda>_. show_connections e)))))"

section \<open>process-search\<close>

text \<open>The fields of one line under the column names; the last column takes the rest of the line\<close>
fun ps_fields :: "string list \<Rightarrow> string list \<Rightarrow> string dict \<Rightarrow> string dict result" where
  "ps_fields [] ws d = Inr d"
| "ps_fields [name] ws d = Inr (AList.update name (join '' '' ws) d)"
| "ps_fields (name # names) ws d =
     (case ws of
        [] \<Rightarrow> raise IndexError ''list index out of range''
      | f # fs \<Rightarrow> ps_fields names fs (AList.update name f d))"

definition ps_names :: "string \<Rightarrow> string list" where
  "ps_names header = map (\<lambda>x. str_replace ''%'' [] (lower x)) (split_ws header)"

definition skipped :: "string \<Rightarrow> bool" where
  "skipped command =
     (startswith command ''['' \<and> endswith command '']'' \<or> startswith command ''socat ''
      \<or> startswith command ''grep '' \<or> startswith command ''gdb '')"

record ps_args =
  sa_attach :: bool
  sa_smart :: bool

text \<open>One line of the output; the answer tells whether the command ends here\<close>
definition ps_process ::
  "bool \<Rightarrow> (string \<Rightarrow> unit result) \<Rightarrow> (string \<Rightarrow> bool) \<Rightarrow> ps_args \<Rightarrow> string dict \<Rightarrow> bool io" where
  "ps_process nc gdb matches a process =
     bindI (resI (bindE (key_of process ''pid'') (py_int 10))) (\<lambda>pid.
     bindI (resI (key_of process ''command'')) (\<lambda>command.
     if \<not> matches command then retI False
     else if sa_smart a \<and> skipped command then retI False
     else if sa_attach a then
       bindI (printI (ok_line nc (''Attaching to process='' @ quote command @ '' pid='' @ decs pid))) (\<lambda>_.
       bindI (execI gdb (''attach '' @ decs pid)) (\<lambda>_. retI True))
     else bindI (resI (mapE (key_of process) [''pid'', ''user'', ''cpu'', ''mem'', ''tty'', ''command''])) (\<lambda>line.
       bindI (printI (join [CHR 0x09, CHR 0x09] line)) (\<lambda>_. retI False))))"

fun ps_loop ::
  "bool \<Rightarrow> (string \<Rightarrow> unit result) \<Rightarrow> (string \<Rightarrow> bool) \<Rightarrow> ps_args \<Rightarrow> string list \<Rightarrow> string list \<Rightarrow> unit io" where
  "ps_loop nc gdb matches a names [] = retI ()"
| "ps_loop nc gdb matches a names (l # ls) =
     bindI (resI (ps_fields names (split_ws l) [])) (\<lambda>process.
     bindI (ps_process nc gdb matches a process) (\<lambda>stop.
     if stop then retI () else ps_loop nc gdb matches a names ls))"

text \<open>The pattern compiles to a search, or raises\<close>
definition ps_cmd ::
  "bool \<Rightarrow> (string \<Rightarrow> unit result) \<Rightarrow> (string \<Rightarrow> (string \<Rightarrow> bool) result) \<Rightarrow> (string list \<Rightarrow> string list result)
    \<Rightarrow> string \<Rightarrow> ps_args \<Rightarrow> string \<Rightarrow> unit io" where
  "ps_cmd nc gdb compile external ps_command a pattern =
     bindI (resI (compile pattern)) (\<lambda>matches.
     bindI (resI (external (split_ws ps_command))) (\<lambda>out.
     case out of
       [] \<Rightarrow> raiseI IndexError ''list index out of range''
     | header # ls \<Rightarrow> ps_loop nc gdb matches a (ps_names header) ls))"

section \<open>hijack-fd\<close>

text \<open>GDB's answer to a command and the inferior after it; the answer is None when there is none\<close>
record hijack_env =
  hj_nc :: bool
  hj_gdb :: "string \<Rightarrow> target \<Rightarrow> string option result \<times> target"
  hj_access :: "string \<Rightarrow> bool"
  hj_pid :: "int result"
  hj_resolve :: "string \<Rightarrow> byte list result"
  hj_little :: bool
  hj_maps :: "sect list result"

type_synonym 'a inf = "(target, 'a) sio"

definition gdbX :: "hijack_env \<Rightarrow> string \<Rightarrow> string option inf" where
  "gdbX e cmd t = (case hj_gdb e cmd t of (r, t') \<Rightarrow> ([Exec cmd], r, t'))"

definition writeX :: "int \<Rightarrow> byte list \<Rightarrow> nat \<Rightarrow> unit inf" where
  "writeX a bs n t = (case mem_write t a bs (Some n) of Inl x \<Rightarrow> ([], Inl x, t) | Inr t' \<Rightarrow> ([], Inr (), t'))"

definition sayX :: "hijack_env \<Rightarrow> string \<Rightarrow> unit inf" where
  "sayX e msg = printX (info_line (hj_nc e) msg)"

text \<open>The number in the third word of an answer as \<^verbatim>\<open>$1 = 3\<close>\<close>
definition third_int :: "string \<Rightarrow> int result" where
  "third_int s = (let ws = split_ws s in
     if length ws \<le> 2 then raise IndexError ''list index out of range'' else py_int 0 (ws ! 2))"

definition get_fd_from_result :: "hijack_env \<Rightarrow> string \<Rightarrow> int inf" where
  "get_fd_from_result e res =
     bindX (resX (third_int res)) (\<lambda>n.
     bindX (gdbX e (''p/d '' @ decs n)) (\<lambda>r.
     resX (third_int (case r of None \<Rightarrow> [] | Some s \<Rightarrow> s))))"

text \<open>\<^verbatim>\<open>socket.htons\<close> on the host, and its little-endian bytes\<close>
definition htons :: "bool \<Rightarrow> int \<Rightarrow> int result" where
  "htons little p =
     (if p < 0 \<or> 0xFFFF < p then raise OverflowError ''htons: Python int too large to convert to C 16-bit unsigned integer''
      else Inr (if little then (p mod 256) * 256 + p div 256 else p))"

text \<open>The connection to \<^verbatim>\<open>host:port\<close>: the answer is the new descriptor, None after a failure that was reported\<close>
definition hijack_connect :: "hijack_env \<Rightarrow> string \<Rightarrow> int option inf" where
  "hijack_connect e new_output =
     bindX (resX (hj_resolve e (hd (split_on (CHR '':'') new_output)))) (\<lambda>address.
     bindX (resX (py_int 10 (split_on (CHR '':'') new_output ! 1))) (\<lambda>port.
     bindX (gdbX e ''call (int)socket(2, 1, 0)'') (\<lambda>res.
     bindX (get_fd_from_result e (case res of None \<Rightarrow> [] | Some s \<Rightarrow> s)) (\<lambda>new_fd.
     bindX (resX (hj_maps e)) (\<lambda>vmmap.
     case filter (\<lambda>s. path s = ''[stack]'') vmmap of
       [] \<Rightarrow> raiseX IndexError ''list index out of range''
     | s # _ \<Rightarrow> (let stack_addr = page_start s in
         bindX (\<lambda>t. resX (mem_read t stack_addr 8) t) (\<lambda>original_contents.
         bindX (writeX stack_addr [2, 0] 2) (\<lambda>_.
         bindX (resX (bindE (htons (hj_little e) port) (struct_pack LITTLE_ENDIAN False 2))) (\<lambda>p.
         bindX (writeX (stack_addr + 2) p 2) (\<lambda>_.
         bindX (writeX (stack_addr + 4) address 4) (\<lambda>_.
         bindX (sayX e (''Trying to connect to '' @ new_output)) (\<lambda>_.
         bindX (gdbX e (''call (int)connect('' @ decs new_fd @ '', '' @ decs stack_addr @ '', 16)'')) (\<lambda>res.
         case res of
           None \<Rightarrow> bindX (printX (err_line (hj_nc e) (''Call to `connect` failed''))) (\<lambda>_. retX None)
         | Some r \<Rightarrow>
             bindX (writeX stack_addr original_contents 8) (\<lambda>_.
             bindX (get_fd_from_result e r) (\<lambda>res.
             if res = - 1
             then bindX (printX (err_line (hj_nc e) (''Failed to connect to '' @ inet_ntoa address @ '':'' @ decs port)))
                    (\<lambda>_. retX None)
             else bindX (sayX e (''Connected to '' @ new_output)) (\<lambda>_. retX (Some new_fd)))))))))))))))))"

definition hijack_open :: "hijack_env \<Rightarrow> string \<Rightarrow> int option inf" where
  "hijack_open e new_output =
     bindX (gdbX e (''call (int)open('' @ [CHR 0x22] @ new_output @ [CHR 0x22] @ '', 66, 0666)'')) (\<lambda>res.
     case res of
       None \<Rightarrow> bindX (printX (err_line (hj_nc e) ''Call to `open` failed'')) (\<lambda>_. retX None)
     | Some r \<Rightarrow> bindX (get_fd_from_result e r) (\<lambda>fd. retX (Some fd)))"

definition hijack_cmd :: "bool \<Rightarrow> string \<Rightarrow> hijack_env \<Rightarrow> string list \<Rightarrow> unit inf" where
  "hijack_cmd remote_debug usage e argv =
     bindX (getX t_alive) (\<lambda>alive.
     if \<not> alive then printX (warn_line (hj_nc e) ''No debugging session active'')
     else if remote_debug then printX (warn_line (hj_nc e) ''This command cannot work for remote sessions.'')
     else case argv of
       [fd, new_output] \<Rightarrow>
         bindX (resX (hj_pid e)) (\<lambda>pid.
         if \<not> hj_access e (proc_path pid (''fd/'' @ fd)) then printX (syntax_line (hj_nc e) usage)
         else bindX (resX (py_int 10 fd)) (\<lambda>old_fd.
           bindX (if CHR '':'' \<in> set new_output then hijack_connect e new_output else hijack_open e new_output) (\<lambda>r.
           case r of
             None \<Rightarrow> retX ()
           | Some new_fd \<Rightarrow>
               bindX (sayX e (''Opened '' @ quote new_output @ '' as fd #'' @ decs new_fd)) (\<lambda>_.
               bindX (gdbX e (''call (int)dup2('' @ decs new_fd @ '', '' @ decs old_fd @ '')'')) (\<lambda>_.
               bindX (sayX e (''Duplicated fd #'' @ decs new_fd @ RIGHT_ARROW @ ''#'' @ decs old_fd)) (\<lambda>_.
               bindX (gdbX e (''call (int)close('' @ decs new_fd @ '')'')) (\<lambda>_.
               bindX (sayX e (''Closed extra fd #'' @ decs new_fd)) (\<lambda>_.
               printX (ok_line (hj_nc e) ''Success'')))))))))
     | _ \<Rightarrow> printX (syntax_line (hj_nc e) usage))"

section \<open>Facts about the tables of the kernel\<close>

text \<open>A line of \<^verbatim>\<open>/proc/pid/net/tcp\<close> as the kernel prints it: slot, the two socket addresses, state, five
  words (queues, timer, retransmissions, user, timeout), inode, and more words\<close>
record conn =
  cn_slot :: int
  cn_local :: "byte list \<times> int"
  cn_remote :: "byte list \<times> int"
  cn_state :: int
  cn_mid :: "string list"
  cn_inode :: int
  cn_rest :: string

definition sock_addr :: "byte list \<times> int \<Rightarrow> string" where
  "sock_addr = (\<lambda>(ip, port). upper (fmt_x0 8 (le_val ip)) @ '':'' @ upper (fmt_x0 4 port))"

definition conn_text :: "conn \<Rightarrow> string" where
  "conn_text c = join '' '' ([rjust 5 (decs (cn_slot c) @ '':''), sock_addr (cn_local c), sock_addr (cn_remote c),
     upper (fmt_x0 2 (cn_state c))] @ cn_mid c @ [rjust 8 (decs (cn_inode c)), cn_rest c])"

definition wf_conn :: "conn \<Rightarrow> bool" where
  "wf_conn c \<longleftrightarrow> 0 \<le> cn_slot c \<and> length (fst (cn_local c)) = 4 \<and> length (fst (cn_remote c)) = 4
     \<and> 0 \<le> snd (cn_local c) \<and> 0 \<le> snd (cn_remote c) \<and> 0 \<le> cn_state c \<and> 0 \<le> cn_inode c
     \<and> length (cn_mid c) = 5 \<and> (\<forall>m \<in> set (cn_mid c). length (split_ws m) = 1 \<and> CHR 0x0A \<notin> set m)
     \<and> CHR 0x0A \<notin> set (cn_rest c)"

lemma split_ws_join: "ws \<noteq> [] \<Longrightarrow> split_ws (join '' '' ws) = concat (map split_ws ws)"
proof (induction ws rule: induct_list012)
  case (3 x y zs)
  then show ?case using split_ws_sep [of "CHR '' ''" x "join '' '' (y # zs)"] by (simp add: is_space_def)
qed simp_all

lemma split_ws_rjust: "split_ws (rjust w a) = split_ws a"
proof -
  have "split_ws (replicate k (CHR '' '') @ a) = split_ws a" for k
    by (induction k) (auto simp: split_ws_def is_space_def)
  then show ?thesis by (simp add: rjust_def)
qed

lemma upper_fmt_chars: "0 \<le> x \<Longrightarrow> c \<in> set (upper (fmt_x0 w x)) \<Longrightarrow> \<not> is_space c \<and> c \<noteq> CHR '':''"
  using upper_hex_chars [of w "nat x"] digit_not_special(1,6) by (simp add: fmt_x0_def) blast

lemma split_ws_upper_fmt: "0 \<le> x \<Longrightarrow> split_ws (upper (fmt_x0 w x)) = [upper (fmt_x0 w x)]"
  using upper_fmt_chars by (intro split_ws_word) (auto simp: upper_def fmt_x0_def zfill_def)

lemma decs_chars: "0 \<le> x \<Longrightarrow> c \<in> set (decs x) \<Longrightarrow> \<not> is_space c"
  using hex_digits_decs [of x] hex_digit_facts(1) by blast

lemma ip_port_roundtrip:
  assumes "length ip = 4" "0 \<le> port"
  shows "parse_ip_port (sock_addr (ip, port)) = Inr (inet_ntoa ip, port)"
proof -
  have v: "0 \<le> le_val ip" "le_val ip < 256 ^ 4" using le_val_bounds [of ip] assms(1) by auto
  have "CHR '':'' \<notin> set (upper (fmt_x0 w x))" if "0 \<le> x" for w x
    using upper_fmt_chars that by blast
  then have "split_on (CHR '':'') (sock_addr (ip, port)) = [upper (fmt_x0 8 (le_val ip)), upper (fmt_x0 4 port)]"
    using v assms(2) by (simp add: sock_addr_def split_on_append_sep split_on_none)
  moreover have "struct_pack LITTLE_ENDIAN False 4 (le_val ip) = Inr ip"
    using v le_bytes_le_val [of ip] assms(1) by (simp add: struct_pack_def in_range_def order_def endianness_str_def)
  ultimately show ?thesis using v assms(2) by (simp add: parse_ip_port_def py_int_upper)
qed

lemma set_join: "set (join sep ws) \<subseteq> set sep \<union> \<Union> (set ` set ws)"
  by (induction ws rule: induct_list012) auto

lemma conn_text_line: "wf_conn c \<Longrightarrow> CHR 0x0A \<notin> set (conn_text c)"
proof -
  assume w: "wf_conn c"
  have lf: "is_space (CHR 0x0A)" by (simp add: is_space_def)
  have d: "CHR 0x0A \<notin> set (decs x)" if "0 \<le> x" for x using decs_chars [OF that] lf by blast
  have u: "CHR 0x0A \<notin> set (upper (fmt_x0 k x))" if "0 \<le> x" for k x using upper_fmt_chars [OF that] lf by blast
  have a: "CHR 0x0A \<notin> set (sock_addr (ip, port))" if "0 \<le> port" for ip port
    using u that le_val_bounds [of ip] by (simp add: sock_addr_def)
  have "CHR 0x0A \<notin> set (sock_addr (cn_local c))" "CHR 0x0A \<notin> set (sock_addr (cn_remote c))"
    using a w by (metis prod.collapse wf_conn_def)+
  then show ?thesis using w d u
    unfolding conn_text_def by (intro contra_subsetD [OF set_join]) (auto simp: rjust_def wf_conn_def)
qed

lemma entry_words:
  assumes "wf_conn c"
  shows "\<exists>slot mid rest. split_ws (conn_text c) = [slot, sock_addr (cn_local c), sock_addr (cn_remote c),
     upper (fmt_x0 2 (cn_state c))] @ mid @ [decs (cn_inode c)] @ rest \<and> length mid = 5"
proof -
  have mids: "length (concat (map split_ws ms)) = length ms" if "\<forall>m \<in> set ms. length (split_ws m) = 1" for ms
    using that by (induction ms) auto
  have "split_ws (sock_addr (ip, port)) = [sock_addr (ip, port)]" if "0 \<le> port" for ip port
    using upper_fmt_chars that le_val_bounds [of ip] by (intro split_ws_word) (auto simp: sock_addr_def is_space_def)
  then have a: "split_ws (sock_addr (cn_local c)) = [sock_addr (cn_local c)]" "split_ws (sock_addr (cn_remote c)) = [sock_addr (cn_remote c)]"
    using assms by (metis prod.collapse wf_conn_def)+
  have d: "split_ws (decs x) = [decs x]" "split_ws (decs x @ '':'') = [decs x @ '':'']" if "0 \<le> x" for x
    using decs_chars [OF that] by (intro split_ws_word; auto simp: decs_def is_space_def)+
  define ws where "ws = [rjust 5 (decs (cn_slot c) @ '':''), sock_addr (cn_local c), sock_addr (cn_remote c),
     upper (fmt_x0 2 (cn_state c))] @ cn_mid c @ [rjust 8 (decs (cn_inode c)), cn_rest c]"
  have "split_ws (conn_text c) = concat (map split_ws ws)"
    unfolding conn_text_def ws_def by (rule split_ws_join) simp
  also have "\<dots> = [decs (cn_slot c) @ '':'', sock_addr (cn_local c), sock_addr (cn_remote c),
     upper (fmt_x0 2 (cn_state c))] @ concat (map split_ws (cn_mid c)) @ [decs (cn_inode c)] @ split_ws (cn_rest c)"
    using assms a d by (simp add: ws_def split_ws_rjust split_ws_upper_fmt wf_conn_def)
  finally show ?thesis using assms mids [of "cn_mid c"] unfolding wf_conn_def by fastforce
qed

definition conn_line :: "(int \<times> string) list \<Rightarrow> conn \<Rightarrow> string" where
  "conn_line states c = connection_line (inet_ntoa (fst (cn_local c)), snd (cn_local c))
     (inet_ntoa (fst (cn_remote c)), snd (cn_remote c)) (the (map_of states (cn_state c)))"

text \<open>The parts of an entry that \<^verbatim>\<open>show_connections\<close> uses\<close>
lemma entry_split:
  assumes "wf_conn c"
  shows "split_ws (conn_text c) ! 9 = decs (cn_inode c)" "\<not> length (split_ws (conn_text c)) \<le> 9"
    "take 3 (drop 1 (split_ws (conn_text c))) = [sock_addr (cn_local c), sock_addr (cn_remote c), upper (fmt_x0 2 (cn_state c))]"
    "parse_ip_port (sock_addr (cn_local c)) = Inr (inet_ntoa (fst (cn_local c)), snd (cn_local c))"
    "parse_ip_port (sock_addr (cn_remote c)) = Inr (inet_ntoa (fst (cn_remote c)), snd (cn_remote c))"
    "py_int 16 (upper (fmt_x0 2 (cn_state c))) = Inr (cn_state c)"
proof -
  obtain slot mid rest where w: "split_ws (conn_text c) = [slot, sock_addr (cn_local c), sock_addr (cn_remote c),
     upper (fmt_x0 2 (cn_state c))] @ mid @ [decs (cn_inode c)] @ rest" "length mid = 5"
    using entry_words [OF assms(1)] by blast
  show "split_ws (conn_text c) ! 9 = decs (cn_inode c)" "\<not> length (split_ws (conn_text c)) \<le> 9"
    "take 3 (drop 1 (split_ws (conn_text c))) = [sock_addr (cn_local c), sock_addr (cn_remote c), upper (fmt_x0 2 (cn_state c))]"
    using w(2) by (simp_all add: w(1) nth_append eval_nat_numeral)
  show "parse_ip_port (sock_addr (cn_local c)) = Inr (inet_ntoa (fst (cn_local c)), snd (cn_local c))"
    "parse_ip_port (sock_addr (cn_remote c)) = Inr (inet_ntoa (fst (cn_remote c)), snd (cn_remote c))"
    using ip_port_roundtrip [of "fst (cn_local c)" "snd (cn_local c)"] ip_port_roundtrip [of "fst (cn_remote c)" "snd (cn_remote c)"]
      assms(1) by (simp_all add: wf_conn_def)
  show "py_int 16 (upper (fmt_x0 2 (cn_state c))) = Inr (cn_state c)" using assms(1) by (simp add: py_int_upper wf_conn_def)
qed

lemma show_entry_text:
  assumes "wf_conn c" "cn_inode c \<in> set sockets \<Longrightarrow> map_of states (cn_state c) \<noteq> None"
  shows "show_entry states sockets (split_ws (conn_text c))
    = (if cn_inode c \<in> set sockets then [Print (conn_line states c)] else [], Inr ())"
  using assms(2) entry_split [OF assms(1)] by (auto simp: show_entry_def py_int_decs io_defs conn_line_def)

lemma table_of_text:
  assumes "pr_read e p = Inr (concat (map (\<lambda>l. l @ LF) (header # map conn_text cs)))"
    and "CHR 0x0A \<notin> set header" "\<forall>c \<in> set cs. wf_conn c"
  shows "table_of e p = Inr (map (\<lambda>c. split_ws (conn_text c)) cs)"
  using splitlines_lines [of "header # map conn_text cs"] assms
  by (simp add: table_of_def read_lines_def LF_def conn_text_line comp_def)


text \<open>Fact: a connected UDP socket of the process ends the listing with a KeyError: the table of UDP states
  knows only the listening one.\<close>
theorem udp_connected_raises:
  assumes "wf_conn c" "cn_inode c \<in> set socks" "cn_state c = 1"
  shows "eachI (show_entry udp_states_str socks) (split_ws (conn_text c) # rest) = ([], raise KeyError ''1'')"
proof -
  have "decs 1 = ''1''" by (simp add: decs_def nat_digits.simps digit_char_def, code_simp)
  then show ?thesis
    using assms entry_split [OF assms(1)] by (simp add: show_entry_def io_defs py_int_decs udp_states_str_def)
qed

section \<open>Facts about process-search\<close>

definition ps_header :: string where
  "ps_header = ''USER         PID %CPU %MEM    VSZ   RSS TTY      STAT START   TIME COMMAND''"

definition ps_command :: "string \<Rightarrow> string" where
  "ps_command l = join '' '' (drop 10 (split_ws l))"

definition ps_row :: "string \<Rightarrow> string" where
  "ps_row l = join [CHR 0x09, CHR 0x09] (map ((!) (split_ws l)) [1, 0, 2, 3, 6] @ [ps_command l])"

lemma ps_names_header:
  "ps_names ps_header = [''user'', ''pid'', ''cpu'', ''mem'', ''vsz'', ''rss'', ''tty'', ''stat'', ''start'', ''time'', ''command'']"
  by code_simp

lemma ps_fields_line:
  assumes "10 \<le> length ws"
  shows "\<exists>d. ps_fields (ps_names ps_header) ws [] = Inr d \<and> map_of d ''pid'' = Some (ws ! 1)
    \<and> map_of d ''command'' = Some (join '' '' (drop 10 ws)) \<and> map_of d ''user'' = Some (ws ! 0)
    \<and> map_of d ''cpu'' = Some (ws ! 2) \<and> map_of d ''mem'' = Some (ws ! 3) \<and> map_of d ''tty'' = Some (ws ! 6)"
proof -
  obtain a b c d e f g h i j k where "ws = [a, b, c, d, e, f, g, h, i, j] @ k"
    using assms by (auto simp: numeral_eq_Suc Suc_le_length_iff)
  then show ?thesis by (simp add: ps_names_header update_conv')
qed

text \<open>Fact: process-search prints, in order, exactly the processes whose command matches and, on a smart scan,
  is not one of the skipped ones.\<close>
theorem processes_listed:
  assumes "compile pattern = Inr matches" "external (split_ws ps) = Inr (ps_header # ls)" "\<not> sa_attach a"
    and "\<forall>l \<in> set ls. 10 \<le> length (split_ws l) \<and> is_ok (py_int 10 (split_ws l ! 1))"
  shows "ps_cmd nc gdb compile external ps a pattern = (map Print (map ps_row
    (filter (\<lambda>l. matches (ps_command l) \<and> \<not> (sa_smart a \<and> skipped (ps_command l))) ls)), Inr ())"
proof -
  have "ps_loop nc gdb matches a (ps_names ps_header) ls = (map Print (map ps_row
    (filter (\<lambda>l. matches (ps_command l) \<and> \<not> (sa_smart a \<and> skipped (ps_command l))) ls)), Inr ())"
    using assms(4)
  proof (induction ls)
    case (Cons l ls)
    obtain d where d: "ps_fields (ps_names ps_header) (split_ws l) [] = Inr d" "map_of d ''pid'' = Some (split_ws l ! 1)"
      "map_of d ''command'' = Some (ps_command l)" "map_of d ''user'' = Some (split_ws l ! 0)"
      "map_of d ''cpu'' = Some (split_ws l ! 2)" "map_of d ''mem'' = Some (split_ws l ! 3)" "map_of d ''tty'' = Some (split_ws l ! 6)"
      using ps_fields_line [of "split_ws l"] Cons.prems by (auto simp: ps_command_def)
    obtain pid where p: "py_int 10 (split_ws l ! 1) = Inr pid" using Cons.prems by (auto simp: is_ok_iff)
    have "ps_process nc gdb matches a d = (if matches (ps_command l) \<and> \<not> (sa_smart a \<and> skipped (ps_command l))
        then [Print (ps_row l)] else [], Inr False)"
      using assms(3) d p by (simp add: ps_process_def key_of_def io_defs ps_row_def)
    then show ?case using Cons d(1) by (simp add: io_defs)
  qed (simp add: io_defs)
  then show ?thesis using assms(1,2) by (simp add: ps_cmd_def io_defs)
qed

section \<open>Facts about hijack-fd\<close>

lemma read_bytes_mapped: "read_bytes m a n \<noteq> None \<longleftrightarrow> (\<forall>i < n. m (a + int i) \<noteq> None)"
proof (induction n arbitrary: a)
  case (Suc n)
  have "(\<forall>i < Suc n. m (a + int i) \<noteq> None) \<longleftrightarrow> m a \<noteq> None \<and> (\<forall>i < n. m (a + 1 + int i) \<noteq> None)"
    by (simp add: All_less_Suc2 add.assoc)
  then show ?case using Suc [of "a + 1"] by (auto split: option.splits)
qed simp

lemma write_bytes_keeps_mapped: "m x \<noteq> None \<Longrightarrow> write_bytes m a bs x \<noteq> None"
  by (simp add: write_bytes_at)

lemma writeX_mapped:
  assumes "\<forall>i < n. t_mem t (a + int i) \<noteq> None" "length bs = n" "0 < n"
  shows "writeX a bs n t = ([], Inr (), t\<lparr>t_mem := write_bytes (t_mem t) a bs\<rparr>)"
  using assms read_bytes_mapped [of "t_mem t" a n] by (simp add: writeX_def mem_write_def)

lemma write_bytes_append: "write_bytes (write_bytes m a bs) (a + int (length bs)) cs = write_bytes m a (bs @ cs)"
  by (induction m a bs rule: write_bytes.induct) (simp_all add: add.assoc fun_upd_def)

lemma htons_bytes:
  assumes "0 \<le> port" "port \<le> 0xFFFF"
  shows "bindE (htons True port) (struct_pack LITTLE_ENDIAN False 2) = Inr [word_of_int (port div 256), word_of_int port]"
proof -
  let ?x = "(port mod 256) * 256 + port div 256"
  have x: "?x mod 256 = port div 256" "?x div 256 = port mod 256" "?x \<le> 0xFFFF" "0 \<le> ?x" using assms by auto
  have "le_bytes 2 ?x = [word_of_int (port div 256), word_of_int port]"
    using byte_cong [of ?x "port div 256"] byte_cong [of "?x div 256" port] x assms
    by (simp add: eval_nat_numeral)
  then show ?thesis using assms x by (simp add: htons_def struct_pack_def in_range_def order_def endianness_str_def)
qed


text \<open>A write that continues the earlier one inside a mapped range\<close>
lemma writeX_next:
  assumes "\<forall>i < k. m (a + int i) \<noteq> None" "length bs + length cs \<le> k" "cs \<noteq> []"
  shows "writeX (a + int (length bs)) cs (length cs) (t\<lparr>t_mem := write_bytes m a bs\<rparr>)
    = ([], Inr (), t\<lparr>t_mem := write_bytes m a (bs @ cs)\<rparr>)"
proof -
  have "write_bytes m a bs (a + int (length bs) + int i) \<noteq> None" if "i < length cs" for i
  proof -
    have "length bs + i < k" using assms(2) that by simp
    then have "m (a + int (length bs + i)) \<noteq> None" using assms(1) by blast
    then show ?thesis using write_bytes_keeps_mapped by (metis add.assoc of_nat_add)
  qed
  then show ?thesis using assms(3) by (subst writeX_mapped) (auto simp: write_bytes_append)
qed

text \<open>What the code puts on the stack for \<^verbatim>\<open>connect\<close>: family, port and address\<close>
definition sockaddr_in :: "int \<Rightarrow> byte list \<Rightarrow> byte list" where
  "sockaddr_in port ip = [2, 0, word_of_int (port div 256), word_of_int port] @ ip"





text \<open>Fact: the port is converted after the first bytes are written: one out of range raises OverflowError
  and leaves the stack page changed.\<close>
theorem hijack_bad_port_leaves_stack:
  assumes "\<And>cmd t. hj_gdb e cmd t = (Inr (Some (ans cmd t)), t)"
    and "hj_resolve e host = Inr ip" "CHR '':'' \<notin> set host" "0xFFFF < port"
    and "hj_maps e = Inr maps" "filter (\<lambda>s. path s = ''[stack]'') maps = s # ss"
    and "read_bytes (t_mem t) (page_start s) 8 \<noteq> None"
    and "third_int (ans ''call (int)socket(2, 1, 0)'' t) = Inr n" "third_int (ans (''p/d '' @ decs n) t) = Inr fd"
  shows "\<exists>es m. hijack_connect e (host @ CHR '':'' # decs port) t
    = (es, raise OverflowError m, t\<lparr>t_mem := write_bytes (t_mem t) (page_start s) [2, 0]\<rparr>)"
proof -
  let ?a = "page_start s"
  have mapped: "\<forall>i < 8. t_mem t (?a + int i) \<noteq> None" using assms(7) unfolding read_bytes_mapped .
  obtain orig where "read_bytes (t_mem t) ?a 8 = Some orig" using assms(7) by blast
  then have m4: "mem_read t ?a 8 = Inr orig" by (simp add: mem_read_def)
  have c: "CHR '':'' \<notin> set (decs port)" using hex_digits_decs [of port] hex_digit_facts(7) assms(4) by fastforce
  have p: "split_on (CHR '':'') (host @ CHR '':'' # decs port) = [host, decs port]"
    using assms(3) c by (simp add: split_on_append_sep split_on_none)
  have w1: "writeX ?a [2, 0] 2 t = ([], Inr (), t\<lparr>t_mem := write_bytes (t_mem t) ?a [2, 0]\<rparr>)"
    using writeX_next [OF mapped, where t = t, of "[]" "[2, 0]"] by (simp add: numeral_2_eq_2)
  show ?thesis
    using assms p w1 m4 py_int_decs [of port]
    by (simp add: hijack_connect_def get_fd_from_result_def gdbX_def sio_defs sayX_def Let_def htons_def)
qed

definition demo_conn :: conn where
  "demo_conn = \<lparr>cn_slot = 0, cn_local = ([127, 0, 0, 1], 8080), cn_remote = ([10, 0, 0, 2], 443), cn_state = 1,
     cn_mid = [''0:0'', ''0:0'', ''0'', ''1000'', ''0''], cn_inode = 77, cn_rest = ''1''\<rparr>"

definition demo_proc :: proc_env where
  "demo_proc = \<lparr>pr_nc = True, pr_pid = Inr 7, pr_read = (\<lambda>p. if p = proc_path 7 ''net/tcp''
       then Inr (concat (map (\<lambda>l. l @ LF) (''sl'' # map conn_text [demo_conn, demo_conn\<lparr>cn_inode := 78\<rparr>])))
       else Inr (concat (map (\<lambda>l. l @ LF) (''sl'' # map conn_text [])))),
     pr_islink = (\<lambda>_. True), pr_readlink = (\<lambda>_. Inr ''socket:[77]''), pr_listdir = (\<lambda>_. Inr [''3'']),
     pr_ps = (\<lambda>_. Inr []), pr_ps_path = ''/bin/ps''\<rparr>"

lemma demo_conn_wf: "wf_conn demo_conn" "wf_conn (demo_conn\<lparr>cn_inode := 78\<rparr>)"
  by (simp_all add: wf_conn_def demo_conn_def split_ws_def is_space_def)


end
