(* ===== verification/Printing.thy ===== *)
theory Printing
  imports Context Cyclic MapCmds Settings
begin

text \<open>
  The commands of \<^verbatim>\<open>scripts/gef.py\<close> that print values: \<^verbatim>\<open>print-format\<close>, the evaluation command \<^verbatim>\<open>$\<close>,
  \<^verbatim>\<open>registers\<close>, \<^verbatim>\<open>theme\<close> and \<^verbatim>\<open>aslr\<close>.  The clipboard program, Python's \<^verbatim>\<open>eval\<close> and GDB are parameters.
\<close>

section \<open>print-format\<close>

text \<open>Where the data goes: the platform, the search path, and the clipboard program with its input\<close>
record clipboard =
  cl_platform :: string
  cl_which :: "string \<Rightarrow> string result"
  cl_popen :: "string list \<Rightarrow> byte list \<Rightarrow> unit result"

text \<open>The answer is Python's \<^verbatim>\<open>None\<close>, which is not true\<close>
definition copy_to_clipboard :: "clipboard \<Rightarrow> byte list \<Rightarrow> unit result" where
  "copy_to_clipboard c data =
     bindE (if cl_platform c = ''linux''
            then bindE (cl_which c ''xclip'') (\<lambda>x. Inr [x, ''-selection'', ''clipboard'', ''-i''])
            else if cl_platform c = ''darwin'' then bindE (cl_which c ''pbcopy'') (\<lambda>x. Inr [x])
            else raise NotImplementedError ''copy: Unsupported OS'')
       (\<lambda>prog. cl_popen c prog data)"

definition truthy_none :: "unit \<Rightarrow> bool" where "truthy_none _ = False"

definition valid_formats :: "string list" where
  "valid_formats = [''py'', ''c'', ''js'', ''asm'', ''hex'', ''bytearray'']"

text \<open>The width of an item in bits: its size, its C type and its assembler directive\<close>
definition format_matrix :: "(int \<times> nat \<times> string \<times> string) list" where
  "format_matrix = [(8, 1, ''char'', ''db''), (16, 2, ''short'', ''dw''), (32, 4, ''int'', ''dd''), (64, 8, ''long long'', ''dq'')]"

record pf_args =
  pf_location :: string
  pf_length :: int
  pf_bitlen :: int
  pf_lang :: string
  pf_clip :: bool

record pf_env =
  pf_target :: target
  pf_nc :: bool
  pf_max_preview :: int
  pf_clipboard :: clipboard
  pf_gdb :: "string \<Rightarrow> unit result"

text \<open>\<^verbatim>\<open>gef_convenience\<close> of bytes; the state is the index of the next convenience variable\<close>
definition gef_convenience_bytes :: "pf_env \<Rightarrow> byte list \<Rightarrow> (int, string) sio" where
  "gef_convenience_bytes e bs =
     bindX (getX (\<lambda>i. i)) (\<lambda>i. let var_name = ''$_gef'' @ decs i;
        cmd = ''set '' @ var_name @ '' = {'' @ join '', '' (map (\<lambda>b. ''0x'' @ fmt_x0 2 (uint b)) bs) @ ''} '' in
     bindX (modX (\<lambda>i. i + 1)) (\<lambda>_.
     bindX (emitX (Exec cmd)) (\<lambda>_. bindX (resX (pf_gdb e cmd)) (\<lambda>_. retX var_name))))"

definition read_items :: "target \<Rightarrow> nat \<Rightarrow> int list \<Rightarrow> int list result" where
  "read_items t k addrs = mapE (\<lambda>addr. bindE (mem_read t addr (int k)) (struct_unpack (t_endian t) False k)) addrs"

definition pf_text :: "string \<Rightarrow> int \<Rightarrow> string \<Rightarrow> string \<Rightarrow> string \<Rightarrow> string" where
  "pf_text lang len c_type asm_type sdata =
     (if lang = ''py'' then ''buf = ['' @ sdata @ '']''
      else if lang = ''c'' then ''unsigned '' @ c_type @ '' buf['' @ decs len @ ''] = {'' @ sdata @ ''};''
      else if lang = ''js'' then ''var buf = ['' @ sdata @ '']''
      else ''buf '' @ asm_type @ '' '' @ sdata)"

definition pf_out :: "pf_env \<Rightarrow> pf_args \<Rightarrow> nat \<Rightarrow> string \<Rightarrow> string \<Rightarrow> int \<Rightarrow> (int, string) sio" where
  "pf_out e a k c_type asm_type start_addr =
     (let t = pf_target e; end_addr = start_addr + pf_length a * int k in
      bindX (resX (if pf_lang a \<noteq> ''bytearray'' then bindE (py_range start_addr end_addr (int k)) (read_items t k) else Inr []))
      (\<lambda>items.
      if pf_lang a = ''bytearray'' then
        bindX (resX (mem_read t start_addr (pf_length a))) (\<lambda>bs.
        bindX (gef_convenience_bytes e bs) (\<lambda>name.
          retX (''Saved data '' @ bytes_repr (slice_to (pf_max_preview e) bs) @ ''... in '' @ [CHR 0x27] @ name @ [CHR 0x27])))
      else if pf_lang a = ''hex'' then
        bindX (resX (mem_read t start_addr (end_addr - start_addr))) (\<lambda>bs. retX (bytes_hex bs))
      else retX (pf_text (pf_lang a) (pf_length a) c_type asm_type (join '', '' (map hexs items)))))"

definition print_format :: "pf_env \<Rightarrow> pf_args \<Rightarrow> (int, unit) sio" where
  "print_format e a =
     (let t = pf_target e; nc = pf_nc e;
          bitlen = (if pf_bitlen a \<noteq> 0 then pf_bitlen a else int (t_ptrsize t) * 2) in
      if \<not> t_alive t then printX (warn_line nc ''No debugging session active'')
      else case map_of format_matrix bitlen of
        None \<Rightarrow> printX (err_line nc ''Size of bit must be in: dict_keys([8, 16, 32, 64])'')
      | Some (k, c_type, asm_type) \<Rightarrow>
          if pf_lang a \<notin> set valid_formats
          then printX (err_line nc (''Language must be in: '' @ py_repr (VTuple (map VStr valid_formats))))
          else bindX (resX (parse_address t (pf_location a))) (\<lambda>start_addr.
            bindX (pf_out e a k c_type asm_type start_addr) (\<lambda>out.
            bindX (if pf_clip a
              then bindX (resX (copy_to_clipboard (pf_clipboard e) (gef_pybytes out))) (\<lambda>r.
                if truthy_none r then printX (info_line nc ''Copied to clipboard'')
                else printX (warn_line nc (''There'' @ [CHR 0x27] @ ''s a problem while copying'')))
              else retX ()) (\<lambda>_. printX out))))"

section \<open>The evaluation command\<close>

text \<open>What Python's \<^verbatim>\<open>eval\<close> makes of a text, and what GDB makes of an expression: an integer, a value that
  has none (with its text), or an error\<close>
datatype eval_answer = EvInt int | EvOther string | EvSyntaxError | EvRaise py_exn
datatype gdb_answer = GvInt int | GvText string | GvGdbError | GvRaise py_exn

definition bins :: "int \<Rightarrow> string" where "bins x = nat_digits 2 (nat x)"

definition show_as_int :: "target \<Rightarrow> int \<Rightarrow> string list" where
  "show_as_int t res =
     (let off = t_ptrsize t * 8; comp2 = (res + 2 ^ off) mod 2 ^ off;
          s_i = fmt_x comp2; s_even = (if odd (length s_i) then CHR ''0'' # s_i else s_i) in
      [decs res, ''0x'' @ s_i, ''0b'' @ bins comp2]
      @ (case unhexlify s_even of Inl _ \<Rightarrow> [] | Inr bs \<Rightarrow> [bytes_repr bs, bytes_repr (rev bs)]))"

definition parsed_expr :: "(string \<Rightarrow> gdb_answer) \<Rightarrow> string \<Rightarrow> string result" where
  "parsed_expr gdb xp =
     (case gdb xp of GvInt i \<Rightarrow> Inr (decs i) | GvText s \<Rightarrow> Inr s | GvGdbError \<Rightarrow> Inr xp | GvRaise x \<Rightarrow> Inl x)"

definition smart_eval :: "target \<Rightarrow> (string \<Rightarrow> gdb_answer) \<Rightarrow> (string \<Rightarrow> eval_answer) \<Rightarrow> string list \<Rightarrow> unit io" where
  "smart_eval t gdb eval expr =
     bindI (resI (mapE (parsed_expr gdb) expr)) (\<lambda>ps. let txt = join '' '' ps in
       case eval txt of
         EvInt i \<Rightarrow> print_all (show_as_int t i)
       | EvOther s \<Rightarrow> printI s
       | EvSyntaxError \<Rightarrow> printI txt
       | EvRaise x \<Rightarrow> resI (Inl x))"

definition read_number :: "string \<Rightarrow> int result" where
  "read_number s = (if is_hex s then py_int 16 s else py_int 10 s)"

definition distance :: "bool \<Rightarrow> string list \<Rightarrow> unit io" where
  "distance nc ws =
     (case bindE (read_number (ws ! 0)) (\<lambda>x. bindE (read_number (ws ! 1)) (\<lambda>y. Inr \<bar>x - y\<bar>)) of
        Inr d \<Rightarrow> printI (decs d)
      | Inl _ \<Rightarrow> printI (warn_line nc ''Distance requires 2 numbers: $ 0 0xffff''))"

definition eval_cmd :: "bool \<Rightarrow> target \<Rightarrow> (string \<Rightarrow> gdb_answer) \<Rightarrow> (string \<Rightarrow> eval_answer) \<Rightarrow> string list \<Rightarrow> unit io" where
  "eval_cmd nc t gdb eval argv =
     (if length argv = 1 then smart_eval t gdb eval argv else if length argv = 2 then distance nc argv else retI ())"

section \<open>registers\<close>

datatype reg_read = RrVoid | RrUnavailable | RrInt int | RrRaise py_exn

record regs_env =
  rs_read :: "string \<Rightarrow> reg_read"
  rs_register :: "string \<Rightarrow> int result"
  rs_old :: "(string \<times> int option) list"
  rs_flags :: "string result"

definition reg_color :: "ctx_env \<Rightarrow> regs_env \<Rightarrow> string \<Rightarrow> int \<Rightarrow> string \<Rightarrow> string" where
  "reg_color c e regname v txt =
     cx_paint c (if (case map_of (rs_old e) regname of None \<Rightarrow> Some 0 | Some o1 \<Rightarrow> o1) = Some v
       then ''theme.registers_register_name'' else ''theme.registers_value_changed'') txt"

text \<open>The text after an address that spells printable characters\<close>
definition ascii_hint :: "ctx_env \<Rightarrow> string \<Rightarrow> string result" where
  "ascii_hint c last_addr =
     (let t = cx_target c in
      case py_int 16 last_addr of
        Inl _ \<Rightarrow> Inr []
      | Inr a \<Rightarrow> bindE (struct_pack (t_endian t) False (if t_ptrsize t = 4 then 4 else 8) a) (\<lambda>bs.
          let val = gef_pystring bs in
          Inr (if list_all printable val
               then '' ('' @ [CHR 0x22] @ cx_paint c ''theme.dereference_string'' val @ [CHR 0x22] @ ''?)'' else [])))"

text \<open>The line of an ordinary register\<close>
definition reg_line :: "ctx_env \<Rightarrow> regs_env \<Rightarrow> arch_desc \<Rightarrow> string \<Rightarrow> int \<Rightarrow> string result" where
  "reg_line c e d regname v =
     (let t = cx_target c; env = cx_deref c; addr = dv_lookup env (align_address t v);
          head = reg_color c e regname v (ljust (widest (d_registers d)) regname) @ '': '' in
      if d_flag d = Some regname then bindE (rs_flags e) (\<lambda>h. Inr (head @ h))
      else bindE (dereference_from env v) (\<lambda>addrs.
        let sep = '' '' @ RIGHT_ARROW @ '' '';
            line = head @ (if addr_valid (dv_maps env) (value_of addr) then dv_str env addr else format_address_spaces t True v)
              @ (if length addrs > 1 then sep @ join sep (tl addrs) else []) in
        bindE (ascii_hint c (last addrs)) (\<lambda>hint. Inr (line @ hint))))"

text \<open>The loop, with the line of the special registers so far\<close>
fun regs_show :: "ctx_env \<Rightarrow> regs_env \<Rightarrow> arch_desc \<Rightarrow> string \<Rightarrow> string list \<Rightarrow> unit io" where
  "regs_show c e d special [] = (if special \<noteq> [] then printI special else retI ())"
| "regs_show c e d special (regname # regs) =
     (case rs_read e regname of
        RrVoid \<Rightarrow> regs_show c e d special regs
      | RrUnavailable \<Rightarrow>
          bindI (printI (cx_paint c ''theme.registers_register_name'' (ljust (widest (d_registers d)) regname) @ '': ''
            @ colorify (cx_nc c) ''no value'' ''yellow underline'')) (\<lambda>_. regs_show c e d special regs)
      | RrRaise x \<Rightarrow> resI (Inl x)
      | RrInt i \<Rightarrow>
          (let v = align_address (cx_target c) i in
           if regname \<in> set (d_special d) then
             bindI (resI (rs_register e regname)) (\<lambda>r.
               regs_show c e d (special @ reg_color c e regname v regname @ '': '' @ hexs0 4 r @ '' '') regs)
           else bindI (resI (reg_line c e d regname v)) (\<lambda>l.
             bindI (printI l) (\<lambda>_. regs_show c e d special regs))))"

definition registers_cmd :: "ctx_env \<Rightarrow> regs_env \<Rightarrow> arch_desc \<Rightarrow> string list \<Rightarrow> unit io" where
  "registers_cmd c e d names =
     (if \<not> t_alive (cx_target c) then printI (warn_line (cx_nc c) ''No debugging session active'')
      else let chosen = (names \<noteq> [] \<and> hd names \<noteq> []);
               regs = (if chosen then filter (\<lambda>r. r \<in> set (d_registers d)) names else d_registers d);
               invalid = (if chosen then filter (\<lambda>r. r \<notin> set (d_registers d)) names else []) in
        bindI (if invalid \<noteq> [] then printI (err_line (cx_nc c) (''invalid registers for architecture: '' @ join '', '' invalid))
               else retI ()) (\<lambda>_.
        if d_registers d = [] then raiseI ValueError ''max() arg is an empty sequence'' else regs_show c e d [] regs))"

section \<open>theme and aslr\<close>

definition theme_line :: "bool \<Rightarrow> string \<Rightarrow> string \<Rightarrow> string" where
  "theme_line nc key val = ljust 40 key @ '': '' @ colorify nc val val"

definition theme_cmd :: "hook_env \<Rightarrow> bool \<Rightarrow> string list \<Rightarrow> (config, unit) sio" where
  "theme_cmd env nc argv =
     bindX (getX (\<lambda>cfg. cfg)) (\<lambda>cfg.
     case argv of
       [] \<Rightarrow> eachX (\<lambda>key. bindX (resX (gc_getitem env ''theme'' cfg key)) (\<lambda>v. printX (theme_line nc key (py_str v))))
               (gc_settings ''theme'' cfg)
     | setting_name # rest \<Rightarrow>
         if \<not> gc_contains ''theme'' cfg setting_name then printX (err_line nc ''Invalid key'')
         else if rest = [] then
           bindX (resX (gc_getitem env ''theme'' cfg setting_name)) (\<lambda>v. printX (theme_line nc setting_name (py_str v)))
         else (\<lambda>s. case gc_setitem env True ''theme'' setting_name
              (VStr (join '' '' (filter (\<lambda>c. c \<in> set (map fst color_table)) rest))) s of (r, s') \<Rightarrow> ([], r, s')))"

text \<open>The defaults the constructor registers\<close>
definition theme_defaults :: "(string \<times> string) list" where
  "theme_defaults =
     [(''context_title_line'', ''gray''), (''context_title_message'', ''cyan''), (''default_title_line'', ''gray''),
      (''default_title_message'', ''cyan''), (''table_heading'', ''blue''), (''old_context'', ''gray''),
      (''disassemble_current_instruction'', ''green''), (''dereference_string'', ''yellow''), (''dereference_code'', ''gray''),
      (''dereference_base_address'', ''cyan''), (''dereference_register_value'', ''bold blue''),
      (''registers_register_name'', ''blue''), (''registers_value_changed'', ''bold red''), (''address_stack'', ''pink''),
      (''address_heap'', ''green''), (''address_code'', ''red''), (''source_current_line'', ''green'')]"

definition aslr_cmd :: "bool \<Rightarrow> string \<Rightarrow> (string \<Rightarrow> string result) \<Rightarrow> string list \<Rightarrow> unit io" where
  "aslr_cmd nc usage gdb argv =
     (let set_to = (\<lambda>msg cmd. bindI (printI (info_line nc msg)) (\<lambda>_. bindI (emit (Exec cmd)) (\<lambda>_.
            bindI (resI (gdb cmd)) (\<lambda>_. retI ())))) in
      case argv of
        [] \<Rightarrow> bindI (emit (Exec ''show disable-randomization'')) (\<lambda>_.
              bindI (resI (gdb ''show disable-randomization'')) (\<lambda>ret.
              case str_find ''virtual address space is '' ret of
                None \<Rightarrow> retI ()
              | Some i \<Rightarrow> printI (''ASLR is currently ''
                  @ (if strip (drop (i + 25) ret) = ''on.'' then redify nc ''disabled'' else greenify nc ''enabled''))))
      | [a] \<Rightarrow>
          if a = ''on'' then set_to ''Enabling ASLR'' ''set disable-randomization off''
          else if a = ''off'' then set_to ''Disabling ASLR'' ''set disable-randomization on''
          else bindI (printI (warn_line nc ''Invalid command'')) (\<lambda>_. printI (syntax_line nc usage))
      | _ \<Rightarrow> printI (syntax_line nc usage))"

section \<open>Facts about print-format\<close>

lemma read_items_cons:
  "read_items t k (addr # addrs) = bindE (bindE (mem_read t addr (int k)) (struct_unpack (t_endian t) False k))
     (\<lambda>v. bindE (read_items t k addrs) (\<lambda>vs. Inr (v # vs)))"
  by (simp add: read_items_def)

lemma read_items_mem:
  assumes "0 < k" "read_bytes (t_mem t) a (n * k) = Some bs"
  shows "\<exists>vs chunks. read_items t k (map (\<lambda>j. a + int j * int k) [0..<n]) = Inr vs \<and> length vs = n
    \<and> mapE (struct_pack (t_endian t) False k) vs = Inr chunks \<and> concat chunks = bs"
  using assms(2)
proof (induction n arbitrary: a bs)
  case (Suc n)
  have "read_bytes (t_mem t) a (k + n * k) = Some bs" using Suc.prems by simp
  then have sp: "read_bytes (t_mem t) a k = Some (take k bs)" "read_bytes (t_mem t) (a + int k) (n * k) = Some (drop k bs)"
    using read_bytes_split [of "t_mem t" a "k + n * k" bs k] by auto
  have m: "mem_read t a (int k) = Inr (take k bs)" using sp(1) by (simp add: mem_read_def)
  have l: "length (take k bs) = k" using read_bytes_length [OF sp(1)] .
  then obtain v where v: "struct_unpack (t_endian t) False k (take k bs) = Inr v" by (simp add: struct_unpack_def)
  have p: "struct_pack (t_endian t) False k v = Inr (take k bs)" using struct_pack_unpack [OF assms(1) v] .
  obtain vs chunks where r: "read_items t k (map (\<lambda>j. a + int k + int j * int k) [0..<n]) = Inr vs" "length vs = n"
    "mapE (struct_pack (t_endian t) False k) vs = Inr chunks" "concat chunks = drop k bs"
    using Suc.IH [OF sp(2)] by blast
  have "map (\<lambda>j. a + int j * int k) [0..<Suc n] = a # map (\<lambda>j. a + int k + int j * int k) [0..<n]"
    by (simp add: upt_conv_Cons map_Suc_upt [symmetric] comp_def algebra_simps del: upt_Suc map_Suc_upt)
  then show ?case using m v p r by (auto simp: read_items_cons)
qed (simp add: read_items_def)

lemma py_range_items: "0 < k \<Longrightarrow> py_range a (a + int n * int k) (int k) = Inr (map (\<lambda>j. a + int j * int k) [0..<n])"
proof -
  assume "0 < k"
  moreover have "(int n * int k + int k - 1) div int k = int n" using calculation
    by (intro int_div_pos_eq [where r = "int k - 1"]) simp_all
  ultimately show ?thesis by (simp add: py_range_def)
qed

text \<open>Fact: for a program text print-format prints one number per item, and packing these numbers with the item's
  width in the byte order of the inferior gives back exactly the memory it was asked for.\<close>
theorem printed_items_are_memory:
  assumes "t_alive (pf_target e)" "map_of format_matrix (pf_bitlen a) = Some (k, c_type, asm_type)"
    and "pf_lang a \<in> {''py'', ''c'', ''js'', ''asm''}" "\<not> pf_clip a" "pf_length a = int n"
    and "parse_address (pf_target e) (pf_location a) = Inr addr" "read_bytes (t_mem (pf_target e)) addr (n * k) = Some bs"
  shows "\<exists>vs chunks. print_format e a i
      = ([Print (pf_text (pf_lang a) (int n) c_type asm_type (join '', '' (map hexs vs)))], Inr (), i)
    \<and> length vs = n \<and> mapE (struct_pack (t_endian (pf_target e)) False k) vs = Inr chunks \<and> concat chunks = bs"
proof -
  have k: "0 < k" "pf_bitlen a \<noteq> 0" using assms(2) by (auto simp: format_matrix_def split: if_splits)
  obtain vs chunks where v: "read_items (pf_target e) k (map (\<lambda>j. addr + int j * int k) [0..<n]) = Inr vs" "length vs = n"
    "mapE (struct_pack (t_endian (pf_target e)) False k) vs = Inr chunks" "concat chunks = bs"
    using read_items_mem [OF k(1) assms(7)] by blast
  have l: "pf_lang a \<in> set valid_formats" "pf_lang a \<noteq> ''bytearray''" "pf_lang a \<noteq> ''hex''" using assms(3) by (auto simp: valid_formats_def)
  have "pf_out e a k c_type asm_type addr i = ([], Inr (pf_text (pf_lang a) (int n) c_type asm_type (join '', '' (map hexs vs))), i)"
    using l(2,3) v(1) py_range_items [OF k(1), of addr n] assms(5) by (simp add: pf_out_def sio_defs)
  then have "print_format e a i = ([Print (pf_text (pf_lang a) (int n) c_type asm_type (join '', '' (map hexs vs)))], Inr (), i)"
    using assms l(1) k(2) by (simp add: print_format_def sio_defs)
  then show ?thesis using v(2-4) by blast
qed

definition demo_pf :: pf_env where
  "demo_pf = \<lparr>pf_target = demo_target\<lparr>t_mem := (\<lambda>_. Some 0)\<rparr>, pf_nc = True, pf_max_preview = 10,
     pf_clipboard = \<lparr>cl_platform = ''linux'', cl_which = (\<lambda>_. Inr ''/usr/bin/xclip''), cl_popen = (\<lambda>_ _. Inr ())\<rparr>,
     pf_gdb = (\<lambda>_. Inr ())\<rparr>"

theorem printed_items_are_memory_witness:
  "\<exists>vs chunks. print_format demo_pf \<lparr>pf_location = ''0x0102'', pf_length = 2, pf_bitlen = 32, pf_lang = ''c'', pf_clip = False\<rparr> 0
      = ([Print (pf_text ''c'' 2 ''int'' ''dd'' (join '', '' (map hexs vs)))], Inr (), 0)
    \<and> length vs = 2 \<and> mapE (struct_pack LITTLE_ENDIAN False 4) vs = Inr chunks \<and> concat chunks = replicate 8 0"
proof -
  have p: "parse_address (demo_target\<lparr>t_mem := (\<lambda>_. Some 0)\<rparr>) ''0x0102'' = Inr 0x102"
    by (simp add: parse_address_def is_hex_def lower_def lower_char_def hex_digit_def py_eval)
  have r: "read_bytes (\<lambda>_. Some 0) 0x102 8 = Some (replicate 8 (0::byte))" by (simp add: numeral_eq_Suc)
  show ?thesis
    using printed_items_are_memory [of demo_pf "\<lparr>pf_location = ''0x0102'', pf_length = 2, pf_bitlen = 32, pf_lang = ''c'', pf_clip = False\<rparr>"
        4 "''int''" "''dd''" 2 "0x102" "replicate 8 0" 0] p r
    by (simp add: demo_pf_def format_matrix_def) (simp add: demo_target_def)
qed

text \<open>Fact: a text that was copied to the clipboard is announced as a failure, because the helper returns
  nothing.\<close>
theorem copied_text_is_reported_as_failure:
  assumes "t_alive (pf_target e)" "map_of format_matrix (pf_bitlen a) = Some (k, c_type, asm_type)" "pf_lang a \<in> set valid_formats"
    and "parse_address (pf_target e) (pf_location a) = Inr addr" "pf_out e a k c_type asm_type addr i = (es, Inr out, j)"
    and "pf_clip a" "copy_to_clipboard (pf_clipboard e) (gef_pybytes out) = Inr ()"
  shows "print_format e a i
    = (es @ [Print (warn_line (pf_nc e) (''There'' @ [CHR 0x27] @ ''s a problem while copying'')), Print out], Inr (), j)"
proof -
  have "pf_bitlen a \<noteq> 0" using assms(2) by (auto simp: format_matrix_def split: if_splits)
  then show ?thesis using assms by (simp add: print_format_def sio_defs truthy_none_def)
qed

section \<open>Facts about evaluation\<close>

lemma le_val_append: "le_val (xs @ ys) = le_val xs + 256 ^ length xs * le_val ys"
  by (induction xs) (simp_all add: algebra_simps)

lemma unhex_value:
  assumes "unhex_pairs s = Inr bs" "even (length s)" "digits_val 16 p acc s = Some v" "CHR ''_'' \<notin> set s"
  shows "int v = int acc * 256 ^ length bs + le_val (rev bs)"
  using assms
proof (induction s arbitrary: acc bs p rule: unhex_pairs.induct)
  case (1 a b cs)
  obtain x y bs' where h: "digit_val a = Some x" "x < 16" "digit_val b = Some y" "y < 16" "unhex_pairs cs = Inr bs'"
    "bs = word_of_int (int (16 * x + y)) # bs'"
    using 1(2) by (auto simp: hex_val_def result_simps split: option.splits if_splits)
  have "digits_val 16 True (acc * 256 + (16 * x + y)) cs = Some v"
  proof -
    have "digits_val 16 True ((acc * 16 + x) * 16 + y) cs = Some v" using 1(4,5) h by auto
    then show ?thesis by (simp add: algebra_simps)
  qed
  moreover have hv: "hex_val a = Some x" "hex_val b = Some y" using h by (simp_all add: hex_val_def)
  ultimately have "int v = int (acc * 256 + (16 * x + y)) * 256 ^ length bs' + le_val (rev bs')"
    using 1(1) [of "Some x" "Some y" x y bs'] 1(3,5) h(5) by simp
  moreover have "uint (word_of_int (int (16 * x + y)) :: byte) = int (16 * x + y)"
    unfolding uint_word_of_int using h(2,4) by simp
  ultimately show ?case using h(6) by (simp add: le_val_append algebra_simps)
qed (auto split: if_splits)

lemma unhex_ok: "\<forall>c \<in> set s. hex_digit c \<Longrightarrow> \<exists>bs. unhex_pairs s = Inr bs"
proof (induction s rule: unhex_pairs.induct)
  case (1 a b cs)
  obtain x y where "digit_val a = Some x" "x < 16" "digit_val b = Some y" "y < 16"
    using hex_digit_val [of a] hex_digit_val [of b] 1(2) by auto
  moreover have "\<exists>bs. unhex_pairs cs = Inr bs" using 1 calculation by (auto simp: hex_val_def)
  ultimately show ?case by (auto simp: hex_val_def)
qed simp_all

text \<open>Fact: for an integer of any sign and size the evaluation command prints its decimal text and the hexadecimal
  and binary texts of its two's complement at the pointer's width, and the bytes it prints, read in
  little-endian order from the second line, are that value.\<close>
theorem eval_shows_twos_complement:
  "\<exists>bs. show_as_int t i = [decs i, hexs (i mod 2 ^ (8 * t_ptrsize t)), ''0b'' @ nat_digits 2 (nat (i mod 2 ^ (8 * t_ptrsize t))),
      bytes_repr bs, bytes_repr (rev bs)]
    \<and> le_val (rev bs) = i mod 2 ^ (8 * t_ptrsize t)"
proof -
  let ?off = "8 * t_ptrsize t" let ?v = "i mod 2 ^ ?off" let ?n = "nat ?v"
  have v: "(i + 2 ^ ?off) mod 2 ^ ?off = ?v" "0 \<le> ?v" by simp_all
  let ?s = "nat_digits 16 ?n"
  define s where "s = (if odd (length ?s) then CHR ''0'' # ?s else ?s)"
  have hx: "\<forall>c \<in> set s. hex_digit c" using hex_digit_nat_digits [of 16 ?n] by (auto simp: s_def hex_digit_def)
  have ev: "even (length s)" by (simp add: s_def)
  obtain bs where bs: "unhex_pairs s = Inr bs" using unhex_ok [OF hx] by blast
  have "\<exists>p. digits_val 16 p 0 s = Some ?n"
  proof -
    have "digits_val 16 False 0 (CHR ''0'' # ?s) = Some ?n"
      using digits_val_zfill [of 16 "Suc (length ?s)" ?n] by (simp add: zfill_def)
    then show ?thesis using digits_val_nat_digits [of 16 ?n] by (auto simp: s_def)
  qed
  then have "le_val (rev bs) = ?v" using unhex_value [OF bs ev, of _ 0] hx hex_digit_facts(6) v(2) by fastforce
  moreover have "unhexlify s = Inr bs" using ev bs by (simp add: unhexlify_def)
  moreover have f: "fmt_x ?v = ?s" "hexs ?v = ''0x'' @ ?s" using v(2) leD [OF v(2)] by (simp_all add: fmt_x_def hexs_def)
  ultimately show ?thesis using v
    by (intro exI [of _ bs], simp add: show_as_int_def Let_def f bins_def mult.commute [of "t_ptrsize t"] s_def split: if_split_asm)
qed

end
