(* ===== verification/Structures.thy ===== *)
theory Structures
  imports Context MapCmds
begin

text \<open>
  The user defined structures of \<^verbatim>\<open>scripts/gef.py\<close>: \<^verbatim>\<open>ExternalStructureManager\<close> and the commands
  \<^verbatim>\<open>pcustom\<close>, \<^verbatim>\<open>pcustom list\<close>, \<^verbatim>\<open>pcustom show\<close> and \<^verbatim>\<open>pcustom edit\<close>.  A ctypes class is given by its
  fields with their types, offsets and decoders; loading a Python module is a parameter, given by the
  attributes the loaded module has.
\<close>

section \<open>Structures and modules\<close>

text \<open>The types the code distinguishes by identity or by class; every type has its name and size\<close>
datatype ct_kind = KUInt32 | KUInt64 | KVoidP | KStructure | KOther

record ctype =
  ty_name :: string
  ty_kind :: ct_kind
  ty_size :: nat

datatype field_value = FInt int | FText string | FNone

text \<open>The entries of \<^verbatim>\<open>_values_\<close>: a function of the value, or pairs of a value and its description, perhaps
  with an entry that cannot be unpacked after them\<close>
datatype value_table = Fun "field_value \<Rightarrow> string result" | Pairs "(field_value \<times> string) list" "py_exn option"

record field =
  fd_name :: string
  fd_type :: ctype
  fd_offset :: int
  fd_decode :: "byte list \<Rightarrow> field_value"

record cstruct =
  st_name :: string
  st_size :: nat
  st_fields :: "field list"
  st_values :: "(string \<times> value_table) list option"

record module =
  md_name :: string
  md_path :: string
  md_structs :: "(string \<times> cstruct) list"

text \<open>An attribute of a loaded module, as \<^verbatim>\<open>Module.__iter__\<close> looks at it\<close>
record attribute =
  at_name :: string
  at_structure :: bool
  at_callable :: bool
  at_module :: string

definition module_entries :: "string \<Rightarrow> attribute list \<Rightarrow> string list" where
  "module_entries name attrs = map at_name (filter (\<lambda>a.
     at_name a \<notin> {''BigEndianStructure'', ''LittleEndianStructure'', ''Structure''}
     \<and> (at_structure a \<or> (at_callable a \<and> at_module a = name \<and> endswith (at_name a) ''_t''))) attrs)"

text \<open>\<^verbatim>\<open>Module.__init__\<close>: the structure of every entry, under its name\<close>
definition module_init :: "string \<Rightarrow> string \<Rightarrow> attribute list \<Rightarrow> (string \<Rightarrow> cstruct result) \<Rightarrow> module result" where
  "module_init name fpath attrs get_class =
     bindE (mapE (\<lambda>x. bindE (get_class x) (\<lambda>s. Inr (x, s))) (module_entries name attrs)) (\<lambda>ss.
       Inr \<lparr>md_name = name, md_path = fpath, md_structs = foldl (\<lambda>d (k, v). AList.update k v d) [] ss\<rparr>)"

text \<open>An entry of the directory of structures\<close>
record dir_entry =
  en_name :: string
  en_stem :: string
  en_suffix :: string
  en_is_file :: bool

definition module_files :: "dir_entry list \<Rightarrow> dir_entry list" where
  "module_files = filter (\<lambda>x. en_is_file x \<and> en_suffix x = ''.py'' \<and> en_name x \<noteq> ''__init__.py'')"

definition modules_init :: "(dir_entry \<Rightarrow> module result) \<Rightarrow> dir_entry list \<Rightarrow> (string \<times> module) list result" where
  "modules_init load entries =
     bindE (mapE load (module_files entries)) (\<lambda>ms. Inr (foldl (\<lambda>d m. AList.update (md_name m) m d) [] ms))"

definition modules_contains :: "(string \<times> module) list \<Rightarrow> string \<Rightarrow> bool" where
  "modules_contains ms name = list_ex (\<lambda>(_, m). name \<in> set (map fst (md_structs m))) ms"

definition structures :: "(string \<times> module) list \<Rightarrow> (module \<times> cstruct) list" where
  "structures ms = concat (map (\<lambda>(_, m). map (\<lambda>(_, s). (m, s)) (md_structs m)) ms)"

fun find_structure :: "(string \<times> module) list \<Rightarrow> string \<Rightarrow> (module \<times> cstruct) option" where
  "find_structure [] name = None"
| "find_structure ((_, m) # ms) name =
     (case map_of (md_structs m) name of Some s \<Rightarrow> Some (m, s) | None \<Rightarrow> find_structure ms name)"

section \<open>Applying a structure to memory\<close>

record struct_env =
  sv_deref :: deref_env
  sv_modules :: "(string \<times> module) list"
  sv_host_pointer :: nat
  sv_color :: "string \<Rightarrow> string"

abbreviation sv_target :: "struct_env \<Rightarrow> target" where "sv_target e \<equiv> dv_target (sv_deref e)"
abbreviation sv_nc :: "struct_env \<Rightarrow> bool" where "sv_nc e \<equiv> dv_no_color (sv_deref e)"

fun value_str :: "field_value \<Rightarrow> string" where
  "value_str (FInt i) = decs i"
| "value_str (FText s) = s"
| "value_str FNone = ''None''"

text \<open>\<^verbatim>\<open>__get_ctypes_value\<close>: the messages of tables that fail, and the description\<close>
fun lookup_pairs :: "field_value \<Rightarrow> (field_value \<times> string) list \<Rightarrow> string \<Rightarrow> string option \<times> string" where
  "lookup_pairs v [] dflt = (None, dflt)"
| "lookup_pairs v ((val, desc) # ps) dflt =
     (if v = val then (Some desc, dflt) else lookup_pairs v ps (if val = FNone then desc else dflt))"

fun values_loop :: "bool \<Rightarrow> string \<Rightarrow> field_value \<Rightarrow> (string \<times> value_table) list \<Rightarrow> string \<Rightarrow> string io" where
  "values_loop nc item v [] dflt = retI dflt"
| "values_loop nc item v ((name, t) # ts) dflt =
     (if name \<noteq> item then values_loop nc item v ts dflt
      else case t of
        Fun f \<Rightarrow> resI (f v)
      | Pairs ps bad \<Rightarrow>
          (case lookup_pairs v ps dflt of
             (Some desc, _) \<Rightarrow> retI desc
           | (None, d) \<Rightarrow>
               (case bad of None \<Rightarrow> values_loop nc item v ts d
                | Some x \<Rightarrow> bindI (printI (err_line nc (''Error parsing '' @ [CHR 0x27] @ name @ [CHR 0x27] @ '': '' @ exn_msg x)))
                    (\<lambda>_. values_loop nc item v ts d))))"

definition get_ctypes_value :: "bool \<Rightarrow> cstruct \<Rightarrow> string \<Rightarrow> field_value \<Rightarrow> string io" where
  "get_ctypes_value nc s item v = (case st_values s of None \<Rightarrow> retI [] | Some vs \<Rightarrow> values_loop nc item v vs [])"

definition is_pointer :: "struct_env \<Rightarrow> ctype \<Rightarrow> bool" where
  "is_pointer e ty \<longleftrightarrow> t_ptrsize (sv_target e) = 4 \<and> ty_kind ty = KUInt32 \<or> t_ptrsize (sv_target e) = 8 \<and> ty_kind ty = KUInt64
     \<or> t_ptrsize (sv_target e) = sv_host_pointer e \<and> ty_kind ty = KVoidP"

text \<open>The value as it is shown: a pointer is followed\<close>
definition shown_value :: "struct_env \<Rightarrow> field \<Rightarrow> byte list \<Rightarrow> field_value result" where
  "shown_value e f data =
     (let v = fd_decode f data in
      if is_pointer e (fd_type f) then
        (case v of FInt i \<Rightarrow> bindE (dereference_from (sv_deref e) i) (\<lambda>ss. Inr (FText (join RIGHT_ARROW ss)))
         | _ \<Rightarrow> raise TypeError ''unsupported operand type'')
      else Inr v)"

definition field_head :: "nat \<Rightarrow> int \<Rightarrow> field \<Rightarrow> field_value \<Rightarrow> string" where
  "field_head depth address f v =
     concat (replicate depth ''  '') @ ljust 40 (hexs address @ ''+'' @ hexs0 4 (fd_offset f) @ '' '' @ fd_name f @ '' : '')
     @ value_str v @ '' ('' @ ty_name (fd_type f) @ '')''"

definition field_line :: "struct_env \<Rightarrow> cstruct \<Rightarrow> nat \<Rightarrow> int \<Rightarrow> byte list \<Rightarrow> field \<Rightarrow> unit io" where
  "field_line e s depth address data f =
     bindI (resI (shown_value e f data)) (\<lambda>v.
     bindI (get_ctypes_value (sv_nc e) s (fd_name f) v) (\<lambda>parsed.
     printI (field_head depth address f v @ (if parsed \<noteq> [] then RIGHT_ARROW @ '' '' @ parsed else []))))"

text \<open>\<^verbatim>\<open>_type.__name__.lstrip("LP_")\<close> removes every leading L, P and underscore\<close>
definition pointed_name :: "string \<Rightarrow> string" where
  "pointed_name n = lstrip_of (\<lambda>c. c \<in> {CHR ''L'', CHR ''P'', CHR ''_''}) n"

definition read_pointer :: "target \<Rightarrow> int \<Rightarrow> int result" where
  "read_pointer t a = bindE (mem_read t a (int (t_ptrsize t))) (\<lambda>bs.
     if t_ptrsize t = 4 then u32 (t_endian t) False None bs else u64 (t_endian t) False None bs)"

text \<open>\<^verbatim>\<open>n\<close> is \<^verbatim>\<open>max_depth - depth\<close>.  A field whose type is a structure applies the structure it is in.\<close>
fun apply_at :: "struct_env \<Rightarrow> nat \<Rightarrow> nat \<Rightarrow> cstruct \<Rightarrow> int \<Rightarrow> unit io"
and apply_fields :: "struct_env \<Rightarrow> nat \<Rightarrow> nat \<Rightarrow> cstruct \<Rightarrow> int \<Rightarrow> byte list \<Rightarrow> field list \<Rightarrow> unit io" where
  "apply_at e 0 depth s address = printI (warn_line (sv_nc e) ''maximum recursion level reached'')"
| "apply_at e (Suc n) depth s address =
     (case mem_read (sv_target e) address (int (st_size s)) of
        Inl x \<Rightarrow> if exn_cls x = GdbMemoryError
          then printI (err_line (sv_nc e) (replicate depth (CHR '' '') @ ''Cannot read memory '' @ hexs address))
          else resI (Inl x)
      | Inr data \<Rightarrow> apply_fields e n depth s address data (st_fields s))"
| "apply_fields e n depth s address data [] = retI ()"
| "apply_fields e n depth s address data (f # fs) =
     bindI (field_line e s depth address data f) (\<lambda>_.
     bindI (if ty_kind (fd_type f) = KStructure then apply_at e n (depth + 1) s (address + fd_offset f)
            else if startswith (ty_name (fd_type f)) ''LP_'' then
              (case find_structure (sv_modules e) (pointed_name (ty_name (fd_type f))) of
                 None \<Rightarrow> retI ()
               | Some (_, s') \<Rightarrow> bindI (resI (read_pointer (sv_target e) (address + fd_offset f))) (\<lambda>a.
                   apply_at e n (depth + 1) s' a))
            else retI ()) (\<lambda>_.
     apply_fields e n depth s address data fs))"

definition apply_structure :: "struct_env \<Rightarrow> cstruct \<Rightarrow> int \<Rightarrow> int \<Rightarrow> unit io" where
  "apply_structure e s address max_depth = apply_at e (nat max_depth) 0 s address"

definition pprint_line :: "struct_env \<Rightarrow> field \<Rightarrow> string" where
  "pprint_line e f =
     (let paint = (\<lambda>txt key. colorify (sv_nc e) txt (sv_color e key)) in
      boldify (sv_nc e) (fmt_x0 4 (fd_offset f)) @ ''   '' @ ljust 32 (paint (fd_name f) ''pcustom.structure_name'') @ ''   ''
      @ ljust 16 (paint (ty_name (fd_type f)) ''pcustom.structure_type'') @ ''  /* size=''
      @ paint (hexs (int (ty_size (fd_type f)))) ''pcustom.structure_size'' @ '' */'')"

definition structure_pprint :: "struct_env \<Rightarrow> cstruct \<Rightarrow> unit io" where
  "structure_pprint e s = printI (join [CHR 0x0A] (map (pprint_line e) (st_fields s)))"

section \<open>The commands\<close>

definition explode_type :: "string \<Rightarrow> string \<times> string" where
  "explode_type arg =
     (let (modname, structname) = (if CHR '':'' \<in> set arg
            then (takeWhile (\<lambda>c. c \<noteq> CHR '':'') arg, tl (dropWhile (\<lambda>c. c \<noteq> CHR '':'') arg)) else (arg, arg))
      in (modname, takeWhile (\<lambda>c. c \<noteq> CHR ''.'') structname))"

definition no_structure :: "struct_env \<Rightarrow> string \<Rightarrow> unit io" where
  "no_structure e name = printI (err_line (sv_nc e) (''No structure named '' @ [CHR 0x27] @ name @ [CHR 0x27] @ '' found''))"

definition pcustom_cmd :: "struct_env \<Rightarrow> (string \<Rightarrow> unit result) \<Rightarrow> int \<Rightarrow> string \<Rightarrow> string \<Rightarrow> unit io" where
  "pcustom_cmd e gdb max_depth ty address =
     (if ty = [] then execI gdb ''pcustom list''
      else let structname = snd (explode_type ty) in
        if address = [] then execI gdb (''pcustom show '' @ structname)
        else if \<not> t_alive (sv_target e) then printI (err_line (sv_nc e) ''Session is not active'')
        else bindI (resI (parse_address (sv_target e) address)) (\<lambda>a.
          case find_structure (sv_modules e) structname of
            None \<Rightarrow> no_structure e structname
          | Some (_, s) \<Rightarrow> apply_structure e s a max_depth))"

definition pcustom_list :: "struct_env \<Rightarrow> string \<Rightarrow> unit io" where
  "pcustom_list e manager_path =
     (let paint = (\<lambda>txt key. colorify (sv_nc e) txt (sv_color e key)) in
      bindI (printI (info_line (sv_nc e) (''Listing custom structures from '' @ [CHR 0x27] @ manager_path @ [CHR 0x27]))) (\<lambda>_.
      eachI (\<lambda>(_, m). printI (RIGHT_ARROW @ '' '' @ paint (md_path m) ''pcustom.structure_name'' @ '' (''
        @ join '', '' (map (\<lambda>(_, s). paint (st_name s) ''pcustom.structure_type'') (md_structs m)) @ '')'')) (sv_modules e)))"

definition pcustom_show :: "struct_env \<Rightarrow> string \<Rightarrow> string list \<Rightarrow> unit io" where
  "pcustom_show e usage argv =
     (if argv = [] then printI (syntax_line (sv_nc e) usage)
      else let structname = snd (explode_type (hd argv)) in
        case find_structure (sv_modules e) structname of
          Some (_, s) \<Rightarrow> structure_pprint e s
        | None \<Rightarrow> no_structure e structname)"

definition template :: "string \<Rightarrow> string" where
  "template structname = ''from ctypes import *'' @ [CHR 0x0A, CHR 0x0A] @ ''class '' @ structname @ ''(Structure):'' @ [CHR 0x0A]
     @ ''    _fields_ = []'' @ [CHR 0x0A, CHR 0x0A] @ ''    _values_ = []'' @ [CHR 0x0A]"

text \<open>The answer is the command line of the editor, when one is started\<close>
definition pcustom_edit ::
  "bool \<Rightarrow> string \<Rightarrow> string \<Rightarrow> (string \<Rightarrow> bool) \<Rightarrow> string option \<Rightarrow> (string \<Rightarrow> string) \<Rightarrow> string list \<Rightarrow> string list option io" where
  "pcustom_edit nc usage struct_path is_file editor absolute argv =
     (if argv = [] then bindI (printI (syntax_line nc usage)) (\<lambda>_. retI None)
      else let (modname, structname) = explode_type (hd argv); p = struct_path @ ''/'' @ modname @ ''.py'';
               quoted = [CHR 0x27] @ p @ [CHR 0x27] in
        bindI (if is_file p then printI (info_line nc (''Editing '' @ quoted))
               else bindI (printI (ok_line nc (''Creating '' @ quoted @ '' from template''))) (\<lambda>_. emit (WriteFile p (template structname))))
        (\<lambda>_. retI (Some (split_ws (case editor of Some ed \<Rightarrow> if ed = [] then ''nano'' else ed | None \<Rightarrow> ''nano'') @ [absolute p]))))"

section \<open>Facts\<close>

text \<open>A structure of one field that is decoded without a table\<close>
definition single :: "cstruct \<Rightarrow> field \<Rightarrow> bool" where
  "single s f \<longleftrightarrow> st_fields s = [f] \<and> st_values s = None"

lemma field_line_plain:
  assumes "single s f" "shown_value e f data = Inr v"
  shows "field_line e s depth a data f = ([Print (field_head depth a f v)], Inr ())"
  using assms by (simp add: field_line_def get_ctypes_value_def single_def io_defs)

lemma pointer_chain:
  assumes "single s f" "\<And>i. i < n \<Longrightarrow> mem_read (sv_target e) (chain i) (int (st_size s)) = Inr (data i)"
    and "\<And>i. i < n \<Longrightarrow> shown_value e f (data i) = Inr (v i)"
    and "ty_kind (fd_type f) \<noteq> KStructure" "startswith (ty_name (fd_type f)) ''LP_''"
    and "find_structure (sv_modules e) (pointed_name (ty_name (fd_type f))) = Some (m, s)"
    and "\<And>i. i < n \<Longrightarrow> read_pointer (sv_target e) (chain i + fd_offset f) = Inr (chain (Suc i))"
  shows "apply_at e n d s (chain 0) = (map Print (map (\<lambda>i. field_head (d + i) (chain i) f (v i)) [0..<n]
    @ [warn_line (sv_nc e) ''maximum recursion level reached'']), Inr ())"
  using assms(2,3,7)
proof (induction n arbitrary: d chain data v)
  case 0
  then show ?case by (simp add: io_defs)
next
  case (Suc n)
  have rec: "apply_at e n (d + 1) s (chain 1) = (map Print (map (\<lambda>i. field_head (d + 1 + i) (chain (Suc i)) f (v (Suc i))) [0..<n]
      @ [warn_line (sv_nc e) ''maximum recursion level reached'']), Inr ())"
    using Suc.IH [of "\<lambda>i. chain (Suc i)" "\<lambda>i. data (Suc i)" "\<lambda>i. v (Suc i)" "d + 1"] Suc.prems by simp
  have m: "mem_read (sv_target e) (chain 0) (int (st_size s)) = Inr (data 0)"
    and r: "read_pointer (sv_target e) (chain 0 + fd_offset f) = Inr (chain 1)" using Suc.prems by auto
  have l: "field_line e s d (chain 0) (data 0) f = ([Print (field_head d (chain 0) f (v 0))], Inr ())"
    using Suc.prems assms(1) by (intro field_line_plain) auto
  have fs: "st_fields s = [f]" using assms(1) by (simp add: single_def)
  have ix: "[0..<Suc n] = 0 # map Suc [0..<n]" by (simp add: upt_conv_Cons map_Suc_upt del: upt_Suc)
  show ?case using m r l rec fs assms(4-6) unfolding ix by (simp add: io_defs comp_def)
qed


text \<open>Fact: a field that is itself a structure is not shown with its own fields: the structure it is in is applied
  again at its address, so the same field is printed at every level up to the configured depth.\<close>
theorem nested_field_repeats_outer:
  assumes "single s f" "ty_kind (fd_type f) = KStructure"
    and "\<And>i. mem_read (sv_target e) (a + int i * fd_offset f) (int (st_size s)) = Inr (data i)"
    and "\<And>i. shown_value e f (data i) = Inr (v i)"
  shows "apply_structure e s a max_depth = (map Print (map (\<lambda>i. field_head i (a + int i * fd_offset f) f (v i)) [0..<nat max_depth]
    @ [warn_line (sv_nc e) ''maximum recursion level reached'']), Inr ())"
proof -
  have fs: "st_fields s = [f]" using assms(1) by (simp add: single_def)
  have "apply_at e n d s (a + int k * fd_offset f) = (map Print (map (\<lambda>i. field_head (d + i) (a + int (k + i) * fd_offset f) f (v (k + i))) [0..<n]
    @ [warn_line (sv_nc e) ''maximum recursion level reached'']), Inr ())" for n d k
  proof (induction n arbitrary: d k)
    case (Suc n)
    have l: "field_line e s d (a + int k * fd_offset f) (data k) f = ([Print (field_head d (a + int k * fd_offset f) f (v k))], Inr ())"
      using assms(1,4) by (rule field_line_plain)
    have ix: "[0..<Suc n] = 0 # map Suc [0..<n]" by (simp add: upt_conv_Cons map_Suc_upt del: upt_Suc)
    have nxt: "a + int k * fd_offset f + fd_offset f = a + int (Suc k) * fd_offset f" by (simp add: algebra_simps)
    note rec = Suc [of "d + 1" "Suc k", folded nxt]
    show ?case using assms(2,3) l fs rec unfolding ix by (simp add: io_defs comp_def add.left_commute [of 1])
  qed (simp add: io_defs)
  from this [of "nat max_depth" 0 0] show ?thesis by (simp add: apply_structure_def)
qed

text \<open>Fact: the name of the pointed structure loses more than the prefix of the pointer's name when it begins with
  one of its letters.\<close>
theorem pointed_name_eats_letters: "pointed_name (''LP_'' @ ''Person'') = ''erson''" "pointed_name (''LP_'' @ ''node'') = ''node''"
  by code_simp+

text \<open>Fact: the type \<^verbatim>\<open>module:structure.member\<close> names the module and the structure.\<close>
theorem explode_type_parts:
  assumes "CHR '':'' \<notin> set m" "CHR ''.'' \<notin> set s"
  shows "explode_type (m @ CHR '':'' # s @ CHR ''.'' # x) = (m, s)"
proof -
  have "takeWhile (\<lambda>c. c \<noteq> d) (w @ d # r) = w" "dropWhile (\<lambda>c. c \<noteq> d) (w @ d # r) = d # r" if "d \<notin> set w" for d w and r :: string
    using that by (induction w) auto
  then show ?thesis using assms by (simp add: explode_type_def)
qed

definition demo_node_field :: field where
  "demo_node_field = \<lparr>fd_name = ''next'', fd_type = \<lparr>ty_name = ''LP_node'', ty_kind = KOther, ty_size = 8\<rparr>,
     fd_offset = 0, fd_decode = (\<lambda>_. FText ''ptr'')\<rparr>"

definition demo_node :: cstruct where
  "demo_node = \<lparr>st_name = ''node'', st_size = 8, st_fields = [demo_node_field], st_values = None\<rparr>"

definition demo_struct_env :: struct_env where
  "demo_struct_env = \<lparr>sv_deref = demo_deref\<lparr>dv_dis := nop_env\<lparr>de_target := demo_target\<lparr>t_mem := (\<lambda>_. Some 0)\<rparr>\<rparr>\<rparr>,
     sv_modules = [(''m'', \<lparr>md_name = ''m'', md_path = ''/m.py'', md_structs = [(''node'', demo_node)]\<rparr>)],
     sv_host_pointer = 8, sv_color = (\<lambda>_. [])\<rparr>"


definition demo_outer_field :: field where
  "demo_outer_field = \<lparr>fd_name = ''inner'', fd_type = \<lparr>ty_name = ''inner_t'', ty_kind = KStructure, ty_size = 8\<rparr>,
     fd_offset = 0, fd_decode = (\<lambda>_. FText ''obj'')\<rparr>"

theorem nested_field_repeats_outer_witness:
  "apply_structure demo_struct_env (demo_node\<lparr>st_fields := [demo_outer_field]\<rparr>) 0 2
    = (map Print (map (\<lambda>i. field_head i 0 demo_outer_field (FText ''obj'')) [0..<2]
    @ [warn_line (sv_nc demo_struct_env) ''maximum recursion level reached'']), Inr ())"
proof -
  have "mem_read (sv_target demo_struct_env) 0 8 = Inr (replicate 8 0)"
    by (simp add: demo_struct_env_def mem_read_def numeral_eq_Suc)
  then show ?thesis
    using nested_field_repeats_outer [of "demo_node\<lparr>st_fields := [demo_outer_field]\<rparr>" demo_outer_field demo_struct_env 0
      "\<lambda>_. replicate 8 0" "\<lambda>_. FText ''obj''" 2]
    by (simp add: demo_node_def demo_outer_field_def single_def shown_value_def is_pointer_def)
qed

end
