(* ===== verification/Tracing.thy ===== *)
theory Tracing
  imports Context MapCmds
begin

text \<open>
  The redirection of GDB's output and the \<^verbatim>\<open>trace-run\<close> command of \<^verbatim>\<open>scripts/gef.py\<close>.  GDB and the process are
  a state of any type \<^verbatim>\<open>'g\<close> with the answers of GDB as parameters.  The tracing loop may run for ever: its
  value is then None.
\<close>

record 'g tracer =
  tw_nc :: bool
  tw_exec :: "string \<Rightarrow> 'g \<Rightarrow> unit result \<times> 'g"
  tw_pc :: "'g \<Rightarrow> int result"
  tw_frames :: "'g \<Rightarrow> int result"
  tw_target :: target
  tw_prefix :: string
  tw_alive :: bool

record 'g tworld =
  tw_gdb :: 'g
  tw_hidden :: bool

type_synonym ('g, 'a) top = "('g tworld, 'a) sio"

definition execT :: "'g tracer \<Rightarrow> string \<Rightarrow> ('g, unit) top" where
  "execT e cmd w = (case tw_exec e cmd (tw_gdb w) of (r, g) \<Rightarrow> ([Exec cmd], r, w\<lparr>tw_gdb := g\<rparr>))"

section \<open>RedirectOutputContext\<close>

definition redirect_init :: "string \<Rightarrow> ('g, string) top" where
  "redirect_init to_file =
     (if CHR '' '' \<in> set to_file then raiseX ValueError ''Target filepath cannot contain spaces'' else retX to_file)"

definition redirect_enter :: "'g tracer \<Rightarrow> string \<Rightarrow> ('g, unit) top" where
  "redirect_enter e to_file =
     eachX (execT e) [''set logging overwrite'', ''set logging file '' @ to_file, ''set logging redirect on'', ''set logging on'']"

definition redirect_exit :: "'g tracer \<Rightarrow> ('g, unit) top" where
  "redirect_exit e = eachX (execT e) [''set logging off'', ''set logging redirect off'']"

section \<open>The loop\<close>

definition is_gdb_err :: "py_exn \<Rightarrow> bool" where
  "is_gdb_err x \<longleftrightarrow> exn_cls x \<in> {GdbError, GdbMemoryError}"

text \<open>The command of one round: a step while the stack is at most \<^verbatim>\<open>depth\<close> frames deeper than at the start\<close>
definition trace_command :: "'g tracer \<Rightarrow> int \<Rightarrow> int \<Rightarrow> 'g \<Rightarrow> string result" where
  "trace_command e depth init g = bindE (tw_frames e g) (\<lambda>n. Inr (if n - init \<le> depth then ''stepi'' else ''finish''))"

text \<open>One round: the events, the pc after it or the exception, and the process after it\<close>
definition trace_round :: "'g tracer \<Rightarrow> int \<Rightarrow> int \<Rightarrow> 'g \<Rightarrow> event list \<times> int result \<times> 'g" where
  "trace_round e depth init g =
     (case trace_command e depth init g of
        Inl x \<Rightarrow> ([], Inl x, g)
      | Inr cmd \<Rightarrow>
          (case tw_exec e cmd g of
             (Inl x, g') \<Rightarrow> ([Exec cmd], Inl x, g')
           | (Inr _, g') \<Rightarrow> ([Exec cmd], tw_pc e g', g')))"

definition interrupted :: "'g tracer \<Rightarrow> int \<Rightarrow> py_exn \<Rightarrow> string" where
  "interrupted e loc_cur x = join [CHR 0x0A] [''#'', ''# Execution interrupted at address '' @ format_address (tw_target e) loc_cur,
     ''# Exception: '' @ exn_msg x, CHR ''#'' # [CHR 0x0A]]"

partial_function (option) trace_steps ::
  "'g tracer \<Rightarrow> int \<Rightarrow> int \<Rightarrow> int \<Rightarrow> int \<Rightarrow> 'g \<Rightarrow> (event list \<times> unit result \<times> 'g) option" where
  "trace_steps e loc_end depth init loc_cur g =
     (if loc_cur = loc_end then Some ([], Inr (), g)
      else case trace_round e depth init g of
        (es, Inl x, g') \<Rightarrow>
          if is_gdb_err x then Some (es @ [Print (interrupted e loc_cur x)], Inr (), g') else Some (es, Inl x, g')
      | (es, Inr loc, g') \<Rightarrow>
          Option.bind (trace_steps e loc_end depth init loc g') (\<lambda>(fs, r, h). Some (es @ fs, r, h)))"

definition trace_header :: "'g tracer \<Rightarrow> string option \<Rightarrow> int \<Rightarrow> int \<Rightarrow> int \<Rightarrow> string" where
  "trace_header e filepath loc_start loc_end depth = join [CHR 0x0A]
     [''#'', ''# Execution tracing of '' @ (case filepath of None \<Rightarrow> ''None'' | Some f \<Rightarrow> f),
      ''# Start address: '' @ format_address (tw_target e) loc_start, ''# End address: '' @ format_address (tw_target e) loc_end,
      ''# Recursion level: '' @ decs depth, ''# automatically generated by gef.py'', CHR ''#'' # [CHR 0x0A]]"

definition start_tracing ::
  "'g tracer \<Rightarrow> string option \<Rightarrow> int \<Rightarrow> int \<Rightarrow> int \<Rightarrow> 'g tworld \<Rightarrow> (event list \<times> unit result \<times> 'g tworld) option" where
  "start_tracing e filepath loc_start loc_end depth w =
     (case tw_frames e (tw_gdb w) of
        Inl x \<Rightarrow> Some ([], Inl x, w)
      | Inr init \<Rightarrow> map_option (\<lambda>(es, r, g). (Print (trace_header e filepath loc_start loc_end depth) # es, r, w\<lparr>tw_gdb := g\<rparr>))
          (trace_steps e loc_end depth init loc_start (tw_gdb w)))"

section \<open>The command\<close>

definition hideT :: "bool \<Rightarrow> ('g, unit) top" where "hideT b = modX (\<lambda>w. w\<lparr>tw_hidden := b\<rparr>)"

text \<open>Inside the redirection: an exception of the loop skips \<^verbatim>\<open>unhide_context\<close>, and \<^verbatim>\<open>__exit__\<close> runs all the same\<close>
definition trace_end :: "'g tracer \<Rightarrow> string \<Rightarrow> event list \<times> unit result \<times> 'g tworld \<Rightarrow> event list \<times> unit result \<times> 'g tworld" where
  "trace_end e logfile = (\<lambda>(es, r, w).
     (case r of
        Inl x \<Rightarrow> (case redirect_exit e w of (fs, Inl y, w') \<Rightarrow> (es @ fs, Inl y, w') | (fs, Inr _, w') \<Rightarrow> (es @ fs, Inl x, w'))
      | Inr _ \<Rightarrow>
          (case bindX (hideT False) (\<lambda>_. bindX (redirect_exit e) (\<lambda>_.
             bindX (printX (ok_line (tw_nc e) (''Done, logfile stored as '' @ [CHR 0x27] @ logfile @ [CHR 0x27]))) (\<lambda>_.
             printX (info_line (tw_nc e) (''Hint: import logfile with `ida_color_gdb_trace.py` script in IDA to visualize path''))))) w of
           (fs, s, w') \<Rightarrow> (es @ fs, s, w'))))"

definition trace_run ::
  "'g tracer \<Rightarrow> string option \<Rightarrow> int \<Rightarrow> int \<Rightarrow> int \<Rightarrow> 'g tworld \<Rightarrow> (event list \<times> unit result \<times> 'g tworld) option" where
  "trace_run e filepath loc_start loc_end depth w =
     (let logfile = tw_prefix e @ hexs loc_start @ ''-'' @ hexs loc_end @ ''.txt'';
          start = bindX (printX (info_line (tw_nc e) (''Tracing from '' @ hexs loc_start @ '' to '' @ hexs loc_end
                    @ '' (max depth='' @ decs depth @ '')''))) (\<lambda>_.
                  bindX (redirect_init logfile) (\<lambda>_. bindX (redirect_enter e logfile) (\<lambda>_. hideT True))) in
      case start w of
        (es, Inl x, w') \<Rightarrow> Some (es, Inl x, w')
      | (es, Inr _, w') \<Rightarrow> map_option (\<lambda>(fs, r, w''). (es @ fs, r, w''))
          (map_option (trace_end e logfile) (start_tracing e filepath loc_start loc_end depth w')))"

definition isdigit_str :: "string \<Rightarrow> bool" where
  "isdigit_str s \<longleftrightarrow> s \<noteq> [] \<and> list_all (\<lambda>c. c \<in> set ''0123456789'') s"

definition trace_cmd ::
  "'g tracer \<Rightarrow> string \<Rightarrow> string option \<Rightarrow> string list \<Rightarrow> 'g tworld \<Rightarrow> (event list \<times> unit result \<times> 'g tworld) option" where
  "trace_cmd e usage filepath argv w =
     (if \<not> tw_alive e then Some (printX (warn_line (tw_nc e) ''No debugging session active'') w)
      else if length argv \<notin> {1, 2} then Some (printX (syntax_line (tw_nc e) usage) w)
      else case bindE (if length argv = 2 \<and> isdigit_str (argv ! 1) then py_int 10 (argv ! 1) else Inr 1) (\<lambda>depth.
             bindE (tw_pc e (tw_gdb w)) (\<lambda>loc_start. bindE (parse_address (tw_target e) (argv ! 0)) (\<lambda>loc_end.
               Inr (depth, loc_start, loc_end)))) of
        Inl x \<Rightarrow> if is_gdb_err x then Some (printX (err_line (tw_nc e) (''Invalid location: '' @ exn_msg x)) w)
                 else Some ([], Inl x, w)
      | Inr (depth, loc_start, loc_end) \<Rightarrow> trace_run e filepath loc_start loc_end depth w)"

section \<open>Facts\<close>

text \<open>A sequence of \<^verbatim>\<open>n\<close> rounds without an error\<close>
definition rounds :: "'g tracer \<Rightarrow> int \<Rightarrow> int \<Rightarrow> nat \<Rightarrow> (nat \<Rightarrow> string) \<Rightarrow> (nat \<Rightarrow> int) \<Rightarrow> (nat \<Rightarrow> 'g) \<Rightarrow> bool" where
  "rounds e depth init n cmd loc g \<longleftrightarrow> (\<forall>i < n. trace_round e depth init (g i) = ([Exec (cmd i)], Inr (loc (Suc i)), g (Suc i)))"

lemma trace_steps_round:
  assumes "loc_cur \<noteq> loc_end" "trace_round e depth init g = (es, Inr loc, g')"
  shows "trace_steps e loc_end depth init loc_cur g
    = Option.bind (trace_steps e loc_end depth init loc g') (\<lambda>(fs, r, h). Some (es @ fs, r, h))"
  using assms by (subst trace_steps.simps) simp

lemma trace_steps_rounds:
  assumes "rounds e depth init n cmd loc g" "\<forall>i < n. loc i \<noteq> loc_end"
  shows "trace_steps e loc_end depth init (loc 0) (g 0)
    = Option.bind (trace_steps e loc_end depth init (loc n) (g n)) (\<lambda>(fs, r, h). Some (map (Exec \<circ> cmd) [0..<n] @ fs, r, h))"
  using assms
proof (induction n)
  case (Suc n)
  have "rounds e depth init n cmd loc g" using Suc.prems(1) by (simp add: rounds_def)
  then have "trace_steps e loc_end depth init (loc 0) (g 0)
      = Option.bind (trace_steps e loc_end depth init (loc n) (g n)) (\<lambda>(fs, r, h). Some (map (Exec \<circ> cmd) [0..<n] @ fs, r, h))"
    using Suc.prems by (intro Suc.IH) simp_all
  moreover have "trace_steps e loc_end depth init (loc n) (g n)
      = Option.bind (trace_steps e loc_end depth init (loc (Suc n)) (g (Suc n))) (\<lambda>(fs, r, h). Some ([Exec (cmd n)] @ fs, r, h))"
    using Suc.prems by (intro trace_steps_round) (auto simp: rounds_def)
  ultimately show ?case
    by (cases "trace_steps e loc_end depth init (loc (Suc n)) (g (Suc n))") auto
qed (simp split: prod.split option.split add: case_prod_beta)

text \<open>C33: when the process, executing \<^verbatim>\<open>stepi\<close> in frames at most \<^verbatim>\<open>depth\<close> deeper than the first one and
  \<^verbatim>\<open>finish\<close> in deeper ones, brings its pc to the end location after \<^verbatim>\<open>n\<close> commands, the trace prints its header,
  executes exactly these commands and leaves the process there.\<close>
theorem trace_reaches_end:
  assumes "tw_frames e (g 0) = Inr (frames 0)" "loc n = loc_end" "\<forall>i < n. loc i \<noteq> loc_end"
    and "\<forall>i < n. tw_frames e (g i) = Inr (frames i) \<and> tw_exec e (cmd i) (g i) = (Inr (), g (Suc i)) \<and> tw_pc e (g (Suc i)) = Inr (loc (Suc i))"
    and "\<forall>i < n. cmd i = (if frames i \<le> frames 0 + depth then ''stepi'' else ''finish'')"
  shows "start_tracing e filepath (loc 0) loc_end depth \<lparr>tw_gdb = g 0, tw_hidden = h\<rparr>
    = Some (Print (trace_header e filepath (loc 0) loc_end depth) # map (Exec \<circ> cmd) [0..<n], Inr (), \<lparr>tw_gdb = g n, tw_hidden = h\<rparr>)"
proof -
  have r: "rounds e depth (frames 0) n cmd loc g"
    using assms(4,5) by (auto simp: rounds_def trace_round_def trace_command_def)
  have "trace_steps e loc_end depth (frames 0) (loc 0) (g 0) = Some (map (Exec \<circ> cmd) [0..<n], Inr (), g n)"
    using trace_steps_rounds [OF r assms(3)] assms(2) by (simp add: trace_steps.simps [of e loc_end depth "frames 0" loc_end])
  then show ?thesis using assms(1) by (simp add: start_tracing_def)
qed

text \<open>Every trace that ends has reached the end location or an error after finitely many rounds\<close>
lemma trace_ends_after_rounds:
  "trace_steps e loc_end depth init loc_cur g0 = Some r \<Longrightarrow>
    \<exists>n cmd loc g. loc 0 = loc_cur \<and> g 0 = g0 \<and> rounds e depth init n cmd loc g \<and> (\<forall>i < n. loc i \<noteq> loc_end)
    \<and> (loc n = loc_end \<or> loc n \<noteq> loc_end \<and> (\<exists>es x g'. trace_round e depth init (g n) = (es, Inl x, g')))"
proof (erule trace_steps.raw_induct [rotated])
  fix f and e :: "'a tracer" and loc_end depth init loc_cur g0 r
  let ?Q = "\<lambda>e loc_end depth init loc_cur g0. \<exists>n cmd loc g. loc 0 = loc_cur \<and> g 0 = g0 \<and> rounds e depth init n cmd loc g
    \<and> (\<forall>i < n. loc i \<noteq> loc_end) \<and> (loc n = loc_end \<or> loc n \<noteq> loc_end \<and> (\<exists>es x g'. trace_round e depth init (g n) = (es, Inl x, g')))"
  assume IH: "\<And>e loc_end depth init loc_cur g0 y. f e loc_end depth init loc_cur g0 = Some y \<Longrightarrow> ?Q e loc_end depth init loc_cur g0"
    and run: "(if loc_cur = loc_end then Some ([], Inr (), g0)
      else case trace_round e depth init g0 of
        (es, Inl x, g') \<Rightarrow>
          if is_gdb_err x then Some (es @ [Print (interrupted e loc_cur x)], Inr (), g') else Some (es, Inl x, g')
      | (es, Inr loc, g') \<Rightarrow>
          Option.bind (f e loc_end depth init loc g') (\<lambda>(fs, r, h). Some (es @ fs, r, h))) = Some r"
  obtain es res g' where rd: "trace_round e depth init g0 = (es, res, g')" by (cases "trace_round e depth init g0") auto
  show "?Q e loc_end depth init loc_cur g0"
  proof (cases "loc_cur = loc_end")
    case True
    then show ?thesis by (intro exI [of _ 0] exI [of _ "\<lambda>_. []"] exI [of _ "\<lambda>_. loc_cur"] exI [of _ "\<lambda>_. g0"]) (simp add: rounds_def)
  next
    case False
    show ?thesis
    proof (cases res)
      case (Inl x)
      then show ?thesis using False rd
        by (intro exI [of _ 0] exI [of _ "\<lambda>_. []"] exI [of _ "\<lambda>_. loc_cur"] exI [of _ "\<lambda>_. g0"]) (simp add: rounds_def)
    next
      case (Inr l)
      obtain q where q: "f e loc_end depth init l g' = Some q" using run False rd Inr by (auto split: bind_splits)
      obtain n cmd loc g where ih: "loc 0 = l" "g 0 = g'" "rounds e depth init n cmd loc g" "\<forall>i < n. loc i \<noteq> loc_end"
        "loc n = loc_end \<or> loc n \<noteq> loc_end \<and> (\<exists>es x g'. trace_round e depth init (g n) = (es, Inl x, g'))"
        using IH [OF q] by blast
      obtain c where c: "es = [Exec c]" using rd Inr by (auto simp: trace_round_def split: sum.splits prod.splits)
      have "rounds e depth init (Suc n) (case_nat c cmd) (case_nat loc_cur loc) (case_nat g0 g)"
        using ih(1,2,3) rd Inr c by (auto simp: rounds_def less_Suc_eq_0_disj split: nat.split)
      moreover have "\<forall>i < Suc n. case_nat loc_cur loc i \<noteq> loc_end" using ih(4) False by (auto simp: less_Suc_eq_0_disj)
      ultimately show ?thesis using ih(5)
        by (intro exI [of _ "Suc n"] exI [of _ "case_nat c cmd"] exI [of _ "case_nat loc_cur loc"] exI [of _ "case_nat g0 g"]) simp
    qed
  qed
qed


definition demo_tracer :: "nat tracer" where
  "demo_tracer = \<lparr>tw_nc = True, tw_exec = (\<lambda>_ g. (Inr (), Suc g)), tw_pc = (\<lambda>g. Inr (int g)), tw_frames = (\<lambda>_. Inr 1),
     tw_target = demo_target, tw_prefix = ''./gef-trace-'', tw_alive = True\<rparr>"

lemma demo_rounds: "rounds demo_tracer 1 1 n (\<lambda>_. ''stepi'') int (\<lambda>i. i)"
  by (simp add: rounds_def trace_round_def trace_command_def demo_tracer_def)

theorem trace_reaches_end_witness:
  "start_tracing demo_tracer None 0 3 1 \<lparr>tw_gdb = 0, tw_hidden = True\<rparr>
    = Some (Print (trace_header demo_tracer None 0 3 1) # [Exec ''stepi'', Exec ''stepi'', Exec ''stepi''], Inr (), \<lparr>tw_gdb = 3, tw_hidden = True\<rparr>)"
  using trace_reaches_end [of demo_tracer "\<lambda>i. i" "\<lambda>_. 1" int 3 3 "\<lambda>_. ''stepi''" 1 None True]
  by (simp add: demo_tracer_def upt_rec)


text \<open>Fact: an exception of the loop that is not an error of GDB leaves the context hidden.\<close>
theorem trace_error_keeps_context_hidden:
  assumes "start_tracing e f a b depth w = Some (es, Inl x, w')" "tw_hidden w'"
  shows "\<exists>fs y w''. map_option (trace_end e logfile) (start_tracing e f a b depth w) = Some (fs, Inl y, w'') \<and> tw_hidden w''"
proof -
  have hid: "tw_hidden (snd (snd (redirect_exit e w'))) = tw_hidden w'"
    by (auto simp: redirect_exit_def execT_def sio_defs split: prod.splits sum.splits)
  then show ?thesis using assms by (auto simp: trace_end_def split: prod.splits sum.splits)
qed

end
