(* ===== verification/Libc.thy ===== *)
theory Libc
  imports Session MemMaps
begin

text \<open>
  \<^verbatim>\<open>GefLibcManager\<close> of \<^verbatim>\<open>scripts/gef.py\<close>: the version of the C library from the name of its file or from its
  memory.  The two regular expressions of the source are written out as matchers.
\<close>

section \<open>The two patterns\<close>

definition is_dec :: "char \<Rightarrow> bool" where
  "is_dec c \<longleftrightarrow> c \<in> set ''0123456789''"

text \<open>\<^verbatim>\<open>(\d+)\.(\d+)\<close> at the start: the two numbers and the rest\<close>
definition match_version :: "string \<Rightarrow> (string \<times> string \<times> string) option" where
  "match_version s =
     (let major = takeWhile is_dec s; r = dropWhile is_dec s in
      if major = [] then None
      else case r of
        c # r' \<Rightarrow> (let minor = takeWhile is_dec r' in
          if c \<noteq> CHR ''.'' \<or> minor = [] then None else Some (major, minor, dropWhile is_dec r'))
      | [] \<Rightarrow> None)"

text \<open>\<^verbatim>\<open>libc6?[-_](\d+)\.(\d+)\.so\<close> at the start\<close>
definition match_filename :: "string \<Rightarrow> (string \<times> string) option" where
  "match_filename s =
     (if \<not> startswith s ''libc'' then None
      else let r = drop 4 s; r = (if startswith r ''6'' then drop 1 r else r) in
        case r of
          c # r' \<Rightarrow>
            (if c \<notin> {CHR ''-'', CHR ''_''} then None
             else case match_version r' of
               Some (a, b, rest) \<Rightarrow> if startswith rest ''.so'' then Some (a, b) else None
             | None \<Rightarrow> None)
        | [] \<Rightarrow> None)"

text \<open>\<^verbatim>\<open>glibc (\d+)\.(\d+)\<close> at the start\<close>
definition match_memory :: "string \<Rightarrow> (string \<times> string) option" where
  "match_memory s =
     (if startswith s ''glibc '' then map_option (\<lambda>(a, b, _). (a, b)) (match_version (drop 6 s)) else None)"

text \<open>\<^verbatim>\<open>re.search\<close>: the leftmost place where it matches\<close>
fun search_first :: "(string \<Rightarrow> 'a option) \<Rightarrow> string \<Rightarrow> 'a option" where
  "search_first p [] = p []"
| "search_first p (c # cs) = (case p (c # cs) of Some x \<Rightarrow> Some x | None \<Rightarrow> search_first p cs)"

definition version_ints :: "string \<times> string \<Rightarrow> (int \<times> int) result" where
  "version_ints = (\<lambda>(a, b). bindE (py_int 10 a) (\<lambda>x. bindE (py_int 10 b) (\<lambda>y. Inr (x, y))))"

section \<open>The version\<close>

fun libc_version :: "target \<Rightarrow> sect list \<Rightarrow> (int \<times> int) result" where
  "libc_version t [] = Inr (0, 0)"
| "libc_version t (s # ss) =
     (case search_first match_filename (path s) of
        Some m \<Rightarrow> version_ints m
      | None \<Rightarrow>
          (case mem_read t (page_start s) (sect_size s) of
             Inl x \<Rightarrow> if exn_cls x = GdbMemoryError then libc_version t ss else Inl x
           | Inr mem \<Rightarrow>
               (case search_first match_memory (latin1 mem) of
                  Some m \<Rightarrow> version_ints m
                | None \<Rightarrow> libc_version t ss)))"

definition find_libc_version :: "target \<Rightarrow> sect list result \<Rightarrow> (int \<times> int) result" where
  "find_libc_version t maps = bindE maps (\<lambda>ms.
     libc_version t (filter (\<lambda>m. str_in ''libc'' (path m) \<and> permission m = PREAD) ms))"

text \<open>The property \<^verbatim>\<open>version\<close> over the manager's cache; the setting is used when the detection failed\<close>
definition user_version :: "string \<Rightarrow> (int \<times> int) result" where
  "user_version setting =
     (case split_max (CHR ''.'') 1 setting of
        [a, b] \<Rightarrow> version_ints (a, b)
      | [a] \<Rightarrow> bindE (py_int 10 a) (\<lambda>_. raise AssertionError [])
      | _ \<Rightarrow> raise AssertionError [])"

definition libc_version_prop ::
  "target \<Rightarrow> sect list result \<Rightarrow> string \<Rightarrow> ((int \<times> int) option, (int \<times> int) option) stm" where
  "libc_version_prop t maps setting cache =
     (if \<not> t_alive t then (Inr None, cache)
      else case (case cache of Some v \<Rightarrow> Inr v | None \<Rightarrow> find_libc_version t maps) of
        Inl x \<Rightarrow> (Inl x, cache)
      | Inr v \<Rightarrow>
          if v = (0, 0) \<and> setting \<noteq> []
          then (case user_version setting of Inl x \<Rightarrow> (Inl x, Some v) | Inr u \<Rightarrow> (Inr (Some u), Some u))
          else (Inr (Some v), Some v))"

definition libc_str :: "(int \<times> int) option \<Rightarrow> string" where
  "libc_str v = ''Libc(version='' @ [CHR 0x27]
     @ (case v of None \<Rightarrow> ''None'' | Some (a, b) \<Rightarrow> ''('' @ decs a @ '', '' @ decs b @ '')'') @ [CHR 0x27] @ '')''"

text \<open>\<^verbatim>\<open>Gef.reset_caches\<close> and \<^verbatim>\<open>Gef.reinitialize_managers\<close>: the libc manager is in neither\<close>
record 'a gef_caches =
  gc_session :: "'a session_scheme"
  gc_maps :: mm
  gc_libc :: "(int \<times> int) option"

definition gef_reset_caches :: "'a gef_caches \<Rightarrow> 'a gef_caches" where
  "gef_reset_caches g = g\<lparr>gc_session := session_reset (gc_session g), gc_maps := mm_reset (gc_maps g)\<rparr>"

definition reinitialize_managers :: "'a session_scheme \<Rightarrow> mm \<Rightarrow> 'a gef_caches \<Rightarrow> 'a gef_caches" where
  "reinitialize_managers new_session new_maps g = g\<lparr>gc_session := new_session, gc_maps := new_maps\<rparr>"

section \<open>Facts\<close>

lemma is_dec_digits: "\<forall>c \<in> set (nat_digits 10 n). is_dec c"
proof (induction n rule: less_induct)
  case (less n)
  have "list_all (\<lambda>k. is_dec (digit_char k)) [0..<10]" by code_simp
  then have d: "is_dec (digit_char k)" if "k < 10" for k using that by (simp add: list_all_iff)
  show ?case
  proof (cases "n < 10")
    case True
    then show ?thesis using d by (simp add: nat_digits.simps)
  next
    case False
    then show ?thesis using d [of "n mod 10"] less [of "n div 10"] by (subst nat_digits.simps) auto
  qed
qed

lemma is_dec_decs: "0 \<le> x \<Longrightarrow> c \<in> set (decs x) \<Longrightarrow> is_dec c"
  using is_dec_digits by (simp add: decs_def)

lemma takeWhile_decs:
  assumes "0 \<le> x" "r = [] \<or> \<not> is_dec (hd r)"
  shows "takeWhile is_dec (decs x @ r) = decs x" "dropWhile is_dec (decs x @ r) = r"
proof -
  have "dropWhile is_dec r = r" "takeWhile is_dec r = []" using assms(2) by (cases r; auto)+
  then show "takeWhile is_dec (decs x @ r) = decs x" "dropWhile is_dec (decs x @ r) = r"
    using is_dec_decs [OF assms(1)] by (simp_all add: takeWhile_append dropWhile_append)
qed

lemma match_version_text:
  assumes "0 \<le> a" "0 \<le> b" "r = [] \<or> \<not> is_dec (hd r)"
  shows "match_version (decs a @ CHR ''.'' # decs b @ r) = Some (decs a, decs b, r)"
  using takeWhile_decs [OF assms(1), of "CHR ''.'' # decs b @ r"] takeWhile_decs [OF assms(2,3)]
  by (simp add: match_version_def is_dec_def decs_def)

lemma str_in_drop: "j \<le> length s \<Longrightarrow> startswith (drop j s) p \<Longrightarrow> str_in p s"
proof (induction s arbitrary: j)
  case (Cons c s)
  then show ?case by (cases j) auto
qed (simp add: startswith_def)

lemma search_first_skip: "\<forall>j < length d. p (drop j (d @ s)) = None \<Longrightarrow> search_first p (d @ s) = search_first p s"
proof (induction d)
  case (Cons c d)
  have "p (c # d @ s) = None" using Cons.prems by (auto dest: spec [of _ 0])
  moreover have "\<forall>j < length d. p (drop j (d @ s)) = None" using Cons.prems by (auto dest: spec [of _ "Suc _"])
  ultimately show ?case using Cons.IH by simp
qed simp

text \<open>Fact: the name of a versioned file of the C library tells its version, whatever directory it is in, without
  reading its memory.\<close>
theorem version_from_filename:
  assumes "0 \<le> a" "0 \<le> b" "six = [] \<or> six = ''6''" "sep = CHR ''-'' \<or> sep = CHR ''_''" "\<not> str_in ''libc'' (dir @ ''lib'')"
    and "path s = dir @ ''libc'' @ six @ sep # decs a @ CHR ''.'' # decs b @ ''.so'' @ rest"
  shows "libc_version t (s # ss) = Inr (a, b)"
proof -
  let ?f = "''libc'' @ six @ sep # decs a @ CHR ''.'' # decs b @ ''.so'' @ rest"
  have "match_filename ?f = Some (decs a, decs b)"
    using assms(3,4) match_version_text [OF assms(1,2), of "''.so'' @ rest"]
    by (auto simp: match_filename_def startswith_def is_dec_def Let_def)
  moreover have l: "length ''libc'' = 4" by simp
  moreover have "match_filename (drop j (dir @ ?f)) = None" if j: "j < length dir" for j
  proof -
    have "take 4 (drop j (dir @ ?f)) = take 4 (drop j (dir @ ''lib''))" using j by (auto simp: take_Cons' )
    then have "\<not> startswith (drop j (dir @ ?f)) ''libc''"
      using assms(5) str_in_drop [of j "dir @ ''lib''" "''libc''"] j unfolding startswith_def l by auto
    then show ?thesis by (simp add: match_filename_def)
  qed
  ultimately have "search_first match_filename (path s) = Some (decs a, decs b)"
    using search_first_skip [of dir match_filename ?f] assms(6) by simp
  then show ?thesis by (simp add: version_ints_def py_int_decs)
qed

text \<open>Fact: a detected version stays through a reset of the caches and a new session, whatever library the new
  process loads.\<close>
theorem libc_version_sticky:
  assumes "gc_libc g = Some v" "v \<noteq> (0, 0)" "t_alive t"
  shows "fst (libc_version_prop t maps setting (gc_libc (reinitialize_managers ns nm (gef_reset_caches g)))) = Inr (Some v)"
  using assms by (simp add: reinitialize_managers_def gef_reset_caches_def libc_version_prop_def)

theorem version_from_filename_witness:
  "libc_version demo_target [\<lparr>page_start = 0, page_end = 1, offset = 0, permission = PREAD, inode = 0,
     path = ''/lib/'' @ ''libc'' @ [] @ CHR ''-'' # decs 2 @ CHR ''.'' # decs 31 @ ''.so'' @ []\<rparr>] = Inr (2, 31)"
  by (rule version_from_filename [of 2 31 "[]" "CHR ''-''" "''/lib/''" _ "[]"]) (simp_all add: startswith_def)

end
