(* ===== verification/Breakpoints.thy ===== *)
theory Breakpoints
  imports Tracing Session
begin

text \<open>
  Breakpoints of \<^verbatim>\<open>scripts/gef.py\<close> that act when they are hit: the format string helper, stubs, the
  breakpoint that restores patched code, and named breakpoints, with the commands that set them.  A
  breakpoint's \<^verbatim>\<open>stop\<close> answers whether the execution stops; the messages for the context are a state.
\<close>

section \<open>Format strings\<close>

record fmt_env =
  fm_target :: target
  fm_nc :: bool
  fm_maps :: "sect list"
  fm_infos :: "zone list"
  fm_decode :: "byte list \<Rightarrow> string option"
  fm_param :: "nat \<Rightarrow> (string \<times> int) result"

definition fmt_messages :: "fmt_env \<Rightarrow> string \<Rightarrow> nat \<Rightarrow> string \<Rightarrow> address \<Rightarrow> sect \<Rightarrow> string \<Rightarrow> string list" where
  "fmt_messages e loc num_args ptr addr s content =
     (let q = [CHR 0x27]; name = (case a_info addr of Some z \<Rightarrow> z_name z | None \<Rightarrow> path s) in
      [colorify (fm_nc e) ''Format string helper'' ''yellow bold'',
       ''Possible insecure format string: '' @ loc @ ''('' @ q @ ptr @ q @ '' '' @ RIGHT_ARROW @ '' '' @ hexs (value_of addr)
         @ '': '' @ q @ content @ q @ '')'',
       ''Reason: Call to '' @ q @ loc @ ''()'' @ q @ '' with format string argument in position #'' @ decs (int num_args)
         @ '' is in page '' @ hexs (page_start s) @ '' ('' @ name @ '') that has write permission''])"

text \<open>The state is the list of messages for the context\<close>
definition fmt_stop :: "fmt_env \<Rightarrow> string \<Rightarrow> nat \<Rightarrow> (messages, bool) sio" where
  "fmt_stop e loc num_args =
     bindX (resX (fm_param e num_args)) (\<lambda>(ptr, a).
       let addr = lookup_address (fm_target e) (fm_maps e) (fm_infos e) a in
       if \<not> addr_valid (fm_maps e) (value_of addr) then retX False
       else case a_section addr of
         None \<Rightarrow> raiseX AttributeError ''NoneType object has no attribute is_writable''
       | Some s \<Rightarrow>
           if is_writable s then
             bindX (resX (read_cstring (fm_decode e) (fm_target e) (value_of addr) 50)) (\<lambda>(errs, content).
             bindX (eachX (\<lambda>l. printX (err_line (fm_nc e) l)) errs) (\<lambda>_.
             bindX (\<lambda>ms. case push_context_message (fm_nc e) ''warn''
                 (join [CHR 0x0A] (fmt_messages e loc num_args ptr addr s content)) ms of
                 (ls, ms') \<Rightarrow> (map Print ls, Inr (), ms')) (\<lambda>_. retX True)))
           else retX False)"

definition dangerous_functions :: "(string \<times> nat) list" where
  "dangerous_functions = [(''printf'', 0), (''sprintf'', 1), (''fprintf'', 1), (''snprintf'', 2), (''vsnprintf'', 2)]"

text \<open>The command sets one breakpoint per function, with the output redirected; \<^verbatim>\<open>set_bp\<close> is GDB's answer\<close>
definition fmtstr_cmd :: "'g tracer \<Rightarrow> (string \<Rightarrow> unit result) \<Rightarrow> ('g, unit) top" where
  "fmtstr_cmd e set_bp =
     bindX (redirect_enter e ''/dev/null'') (\<lambda>_.
     (\<lambda>w. case eachX (\<lambda>(f, n). resX (set_bp f)) dangerous_functions w of
        (es, Inl x, w') \<Rightarrow> (case redirect_exit e w' of (fs, Inl y, w'') \<Rightarrow> (es @ fs, Inl y, w'') | (fs, Inr _, w'') \<Rightarrow> (es @ fs, Inl x, w''))
      | (es, Inr _, w') \<Rightarrow> (case bindX (redirect_exit e) (\<lambda>_. printX (ok_line (tw_nc e) (''Enabled '' @ decs (int (length dangerous_functions))
            @ '' FormatString breakpoint'' @ (if length dangerous_functions > 1 then ''s'' else [])))) w' of
          (fs, r, w'') \<Rightarrow> (es @ fs, r, w''))))"

section \<open>Stubs\<close>

definition stub_init :: "bool \<Rightarrow> string \<Rightarrow> int option \<Rightarrow> string" where
  "stub_init nc func retval = info_line nc (''All calls to '' @ [CHR 0x27] @ func @ [CHR 0x27] @ '' will be skipped''
     @ (case retval of None \<Rightarrow> [] | Some v \<Rightarrow> '' (with return value set to '' @ hexs v @ '')''))"

definition stub_stop :: "bool \<Rightarrow> (string \<Rightarrow> unit result) \<Rightarrow> nat \<Rightarrow> string \<Rightarrow> int option \<Rightarrow> bool io" where
  "stub_stop nc gdb ptrsize func retval =
     (let sz = (if ptrsize = 8 then ''long'' else ''int'') in
      case retval of
        None \<Rightarrow> raiseI TypeError ''unsupported format string passed to NoneType.__format__''
      | Some v \<Rightarrow>
          bindI (execI gdb (''return (unsigned '' @ sz @ '')'' @ hexs v)) (\<lambda>_.
          bindI (printI (ok_line nc (''Ignoring call to '' @ [CHR 0x27] @ func @ [CHR 0x27] @ '' (setting return value to '' @ hexs v @ '')'')))
            (\<lambda>_. retI False)))"

text \<open>The location the stub is set at; \<^verbatim>\<open>set_bp\<close> is GDB's answer to setting it\<close>
definition stub_cmd :: "bool \<Rightarrow> bool \<Rightarrow> (string \<Rightarrow> unit result) \<Rightarrow> int result \<Rightarrow> string \<Rightarrow> int \<Rightarrow> unit io" where
  "stub_cmd nc alive set_bp pc address retval =
     (if \<not> alive then printI (warn_line nc ''No debugging session active'')
      else bindI (if address \<noteq> [] then retI address else bindI (resI pc) (\<lambda>p. retI (CHR ''*'' # hexs p))) (\<lambda>loc.
        bindI (resI (set_bp loc)) (\<lambda>_. printI (stub_init nc loc (Some retval)))))"

section \<open>Restoring patched code\<close>

text \<open>The state is the inferior and its pc\<close>
definition chperm_stop :: "bool \<Rightarrow> (string \<Rightarrow> unit result) \<Rightarrow> byte list \<Rightarrow> int \<Rightarrow> (target \<times> int, bool) sio" where
  "chperm_stop nc gdb code pc =
     bindX (printX (info_line nc ''Restoring original context'')) (\<lambda>_.
     bindX (\<lambda>(t, p). case mem_write t pc code (Some (length code)) of Inl x \<Rightarrow> ([], Inl x, (t, p)) | Inr t' \<Rightarrow> ([], Inr (), (t', p))) (\<lambda>_.
     bindX (printX (info_line nc ''Restoring $pc'')) (\<lambda>_.
     (\<lambda>(t, p). case gdb (''set $pc = '' @ hexs pc) of
        Inl x \<Rightarrow> ([Exec (''set $pc = '' @ hexs pc)], Inl x, (t, p))
      | Inr _ \<Rightarrow> ([Exec (''set $pc = '' @ hexs pc)], Inr True, (t, pc))))))"

section \<open>Named breakpoints\<close>

definition named_stop :: "bool \<Rightarrow> string \<Rightarrow> string \<Rightarrow> (messages, bool) sio" where
  "named_stop nc loc name =
     bindX (\<lambda>ms. case push_context_message nc ''info'' (''Hit breakpoint '' @ loc @ '' ('' @ colorify nc name ''red bold'' @ '')'') ms of
       (ls, ms') \<Rightarrow> (map Print ls, Inr (), ms')) (\<lambda>_. retX True)"

definition name_break_cmd :: "bool \<Rightarrow> string \<Rightarrow> (string \<Rightarrow> unit result) \<Rightarrow> string \<Rightarrow> string \<Rightarrow> unit io" where
  "name_break_cmd nc usage set_bp name address =
     (if name = [] then bindI (printI (err_line nc ''Missing name for breakpoint'')) (\<lambda>_. printI (syntax_line nc usage))
      else resI (set_bp address))"

section \<open>Facts\<close>

text \<open>Fact: restoring puts back the code that was there before a patch of the same length, and the pc.\<close>
theorem chperm_restores:
  assumes "read_bytes (t_mem t) pc (length code) = Some code" "length new = length code"
    and "mem_write t pc new (Some (length new)) = Inr t'" "gdb (''set $pc = '' @ hexs pc) = Inr ()" "code \<noteq> []"
  shows "\<exists>es. chperm_stop nc gdb code pc (t', p) = (es, Inr True, (t, pc))"
proof -
  have t': "t' = t\<lparr>t_mem := write_bytes (t_mem t) pc new\<rparr>" using mem_write_Some [OF assms(3)] by simp
  have "read_bytes (t_mem t') pc (length code) = Some new" using read_write_bytes [of "t_mem t" pc new] assms(2) t' by simp
  then have "mem_write t' pc code (Some (length code)) = Inr t"
    using write_back [OF assms(1,2)] assms(5) t' by (simp add: mem_write_def)
  then show ?thesis using assms(4) by (simp add: chperm_stop_def sio_defs)
qed

text \<open>Fact: the helper stops at every call whose format string lies in a mapped section, also one that is not
  writable: the message says that the page has write permission whatever its permissions are.\<close>
theorem fmt_stops_at_any_mapped_string:
  assumes "fm_param e n = Inr (ptr, a)" "process_lookup_address (fm_target e) (fm_maps e) a = Some s"
    and "read_cstring (fm_decode e) (fm_target e) a 50 = Inr ([], content)"
  shows "fmt_stop e loc n ms = ([], Inr True, ms @ [(''warn'', join [CHR 0x0A]
      (fmt_messages e loc n ptr (lookup_address (fm_target e) (fm_maps e) (fm_infos e) a) s content))])"
proof -
  have "s \<in> set (fm_maps e)" "page_start s \<le> a" "a < page_end s"
    using assms(2) by (auto simp: process_lookup_address_def split: if_splits dest: find_sect_Some)
  then have "addr_valid (fm_maps e) a" by (auto simp: addr_valid_def list_ex_iff)
  moreover have "is_writable s" by (simp add: is_writable_def perm_ne_int_def)
  ultimately show ?thesis using assms
    by (simp add: fmt_stop_def sio_defs lookup_address_def push_context_message_def)
qed

definition demo_rodata :: sect where
  "demo_rodata = \<lparr>page_start = 0x1000, page_end = 0x2000, offset = 0, permission = PREAD, inode = 0, path = ''/bin/a''\<rparr>"

definition demo_fmt :: fmt_env where
  "demo_fmt = \<lparr>fm_target = demo_target\<lparr>t_mem := (\<lambda>_. Some 0), t_x86 := False\<rparr>, fm_nc = True, fm_maps = [demo_rodata], fm_infos = [],
     fm_decode = (\<lambda>_. Some ''%s''), fm_param = (\<lambda>_. Inr (''$rdi'', 0x1800))\<rparr>"

lemma read_bytes_total: "\<exists>bs. read_bytes (\<lambda>_. Some b) a n = Some bs"
proof (induction n arbitrary: a)
  case (Suc n)
  obtain bs where "read_bytes (\<lambda>_. Some b) (a + 1) n = Some bs" using Suc by blast
  then show ?case by simp
qed simp

theorem fmt_stops_at_any_mapped_string_witness:
  "fmt_stop demo_fmt ''printf'' 0 [] = ([], Inr True, [(''warn'', join [CHR 0x0A] (fmt_messages demo_fmt ''printf'' 0 ''$rdi''
     (lookup_address (fm_target demo_fmt) [demo_rodata] [] 0x1800) demo_rodata ''%s''))])"
proof -
  have l: "process_lookup_address (fm_target demo_fmt) (fm_maps demo_fmt) 0x1800 = Some demo_rodata"
    by (simp add: demo_fmt_def demo_rodata_def demo_target_def process_lookup_address_def)
  obtain bs where "read_bytes (\<lambda>_. Some 0) 0x1800 51 = Some bs" using read_bytes_total [of 0 "0x1800" 51] by blast
  then have c: "read_cstring (fm_decode demo_fmt) (fm_target demo_fmt) 0x1800 50 = Inr ([], ''%s'')"
    by (simp add: demo_fmt_def read_cstring_def mem_read_def cstring_length_def escape_ctl_def)
  show ?thesis using fmt_stops_at_any_mapped_string [of demo_fmt 0 "''$rdi''" "0x1800" demo_rodata "''%s''" "''printf''" "[]"] l c
    by (simp add: demo_fmt_def)
qed

end
