(* ===== verification/Functions.thy ===== *)
theory Functions
  imports Tracing Libc HeapManager ContextCode
begin

text \<open>
  The convenience functions of \<^verbatim>\<open>scripts/gef.py\<close> and their listing, \<^verbatim>\<open>gef set\<close> and \<^verbatim>\<open>gef run\<close>, the
  decorator of deprecated functions, the deprecated queries of the architecture and of the pointer size,
  the terminal size, scripts executed by GDB, the version and the report of an exception.
\<close>

section \<open>Convenience functions\<close>

text \<open>A \<^verbatim>\<open>gdb.Value\<close> as an argument: its integer, the integer of its address when it has one, the string it
  points to and how it prints\<close>
record gdb_value =
  gv_int :: "int result"
  gv_address :: "int option"
  gv_string :: "string result"
  gv_text :: string

definition arg_to_long :: "gdb_value list \<Rightarrow> nat \<Rightarrow> int \<Rightarrow> int result" where
  "arg_to_long args i dflt =
     (if i < length args then (case gv_address (args ! i) of None \<Rightarrow> gv_int (args ! i) | Some a \<Rightarrow> Inr a) else Inr dflt)"

definition function_invoke :: "bool \<Rightarrow> (gdb_value list \<Rightarrow> int io) \<Rightarrow> gdb_value list \<Rightarrow> int io" where
  "function_invoke alive f args = (if \<not> alive then raiseI RuntimeError ''No debugging session active'' else f args)"

definition some_base :: "int option \<Rightarrow> int option" where
  "some_base b = (if b = Some 0 then None else b)"

text \<open>An offset added to a base; the errors are \<^verbatim>\<open>gdb.GdbError\<close>\<close>
definition base_plus :: "int option \<Rightarrow> string \<Rightarrow> gdb_value list \<Rightarrow> int io" where
  "base_plus base missing args =
     (case some_base base of
        None \<Rightarrow> raiseI RuntimeError missing
      | Some b \<Rightarrow> bindI (resI (arg_to_long args 0 0)) (\<lambda>off. retI (off + b)))"

definition stack_function :: "target \<Rightarrow> sect list \<Rightarrow> gdb_value list \<Rightarrow> int io" where
  "stack_function t maps = base_plus (get_section_base_address t maps ''[stack]'') ''Stack not found''"

definition heap_function :: "target \<Rightarrow> sect list \<Rightarrow> int option result \<Rightarrow> gdb_value list \<Rightarrow> int io" where
  "heap_function t maps hbase args =
     bindI (resI hbase) (\<lambda>base.
       base_plus (if some_base base = None then get_section_base_address t maps ''[heap]'' else base) ''Heap not found'' args)"

definition section_base_function :: "bool \<Rightarrow> target \<Rightarrow> sect list \<Rightarrow> string option \<Rightarrow> gdb_value list \<Rightarrow> int io" where
  "section_base_function nc t maps file_name args =
     (case args of
        [] \<Rightarrow> (case file_name of
                 None \<Rightarrow> raiseI AssertionError []
               | Some n \<Rightarrow> retI (case get_section_base_address t maps n of Some b \<Rightarrow> b | None \<Rightarrow> 0))
      | a # _ \<Rightarrow>
          (case gv_string a of
             Inl x \<Rightarrow> if is_gdb_err x
               then bindI (printI (err_line nc (''Invalid arg: '' @ gv_text a))) (\<lambda>_. retI 0)
               else resI (Inl x)
           | Inr n \<Rightarrow> retI (case get_section_base_address t maps n of Some b \<Rightarrow> b | None \<Rightarrow> 0)))"

definition bss_function :: "zone list \<Rightarrow> string \<Rightarrow> gdb_value list \<Rightarrow> int io" where
  "bss_function infos filepath = base_plus (get_zone_base_address infos ''.bss'' filepath) ''BSS not found''"

definition got_function :: "zone list \<Rightarrow> string \<Rightarrow> gdb_value list \<Rightarrow> int io" where
  "got_function infos filepath = base_plus (get_zone_base_address infos ''.got'' filepath) ''GOT not found''"

section \<open>The listing of the functions\<close>

record function_doc =
  fn_doc :: string
  fn_syntax :: string
  fn_example :: string

record functions_state =
  fs_docs :: "string list"
  fs_refresh :: bool
  fs_text :: string

definition function_entry :: "bool \<Rightarrow> function_doc \<Rightarrow> string" where
  "function_entry nc f = colorify nc (lstrip_of is_space (fn_syntax f)) ''bold cyan'' @ [CHR 0x0A, CHR '' ''] @ lstrip_of is_space (fn_doc f)
     @ (let example = strip (fn_example f) in
        if example = [] then [] else [CHR 0x0A, CHR '' ''] @ colorify nc ''Example:'' ''yellow'' @ '' '' @ example)"

definition functions_rebuild :: "bool \<Rightarrow> nat \<Rightarrow> function_doc list \<Rightarrow> functions_state \<Rightarrow> functions_state" where
  "functions_rebuild nc cols fs s =
     (let docs = fs_docs s @ map (function_entry nc) fs in
      \<lparr>fs_docs = docs, fs_refresh = False,
       fs_text = join (CHR 0x0A # rep_str HORIZONTAL_LINE (int cols) @ [CHR 0x0A]) (sort docs)\<rparr>)"

definition functions_str :: "bool \<Rightarrow> nat \<Rightarrow> function_doc list \<Rightarrow> functions_state \<Rightarrow> string \<times> functions_state" where
  "functions_str nc cols fs s = (let s' = (if fs_refresh s then functions_rebuild nc cols fs s else s) in (fs_text s', s'))"

definition functions_cmd :: "ctx_env \<Rightarrow> function_doc list \<Rightarrow> (functions_state, unit) sio" where
  "functions_cmd c fs =
     bindX (printX (titlify (cx_nc c) (cx_theme c) (cx_cols c) ''GEF - Convenience Functions'' None None)) (\<lambda>_.
     bindX (printX (''These functions can be used as arguments to other commands to dynamically calculate values'' @ [CHR 0x0A])) (\<lambda>_.
     bindX (\<lambda>s. case functions_str (cx_nc c) (nat (cx_cols c)) fs s of (txt, s') \<Rightarrow> ([], Inr txt, s')) printX))"

section \<open>gef set and gef run\<close>

fun set_args :: "(string \<Rightarrow> string result) \<Rightarrow> string list \<Rightarrow> string list result" where
  "set_args eval_string [] = Inr []"
| "set_args eval_string (p # ps) =
     bindE (if startswith p ''$_gef'' then eval_string p else Inr p) (\<lambda>x. bindE (set_args eval_string ps) (\<lambda>xs. Inr (x # xs)))"

definition gef_set :: "(string \<Rightarrow> unit result) \<Rightarrow> (string \<Rightarrow> string result) \<Rightarrow> string \<Rightarrow> unit io" where
  "gef_set gdb eval_string txt =
     (case split_ws txt of
        [] \<Rightarrow> raiseI IndexError ''list index out of range''
      | a # ps \<Rightarrow> bindI (resI (set_args eval_string ps)) (\<lambda>xs. execI gdb (join '' '' (''set'' # a # xs))))"

definition gef_run :: "bool \<Rightarrow> (string \<Rightarrow> unit result) \<Rightarrow> string \<Rightarrow> unit io" where
  "gef_run alive gdb txt =
     (if alive then execI gdb ''continue''
      else bindI (execI gdb (''gef set args '' @ join '' '' (split_ws txt))) (\<lambda>_. execI gdb ''run''))"

section \<open>Deprecated functions\<close>

text \<open>The wrapper: the caller's file and line, the name of the function and what to use instead; before the
  global \<^verbatim>\<open>gef\<close> exists the message is printed plainly\<close>
definition deprecated :: "bool \<Rightarrow> bool \<Rightarrow> bool \<Rightarrow> string \<Rightarrow> int \<Rightarrow> string \<Rightarrow> string \<Rightarrow> 'a io \<Rightarrow> 'a io" where
  "deprecated nc has_gef show_warnings caller loc name solution f =
     (let msg = caller @ '':L'' @ decs loc @ '' '' @ [CHR 0x27] @ name @ [CHR 0x27]
            @ '' is deprecated and will be removed in a feature release. '' in
      bindI (if \<not> has_gef then printI msg else if show_warnings then printI (warn_line nc (msg @ solution)) else retI ()) (\<lambda>_. f))"

text \<open>A quoted text after a prefix, as \<^verbatim>\<open>re.findall\<close> of \<^verbatim>\<open>prefix"(.+)"\<close> gives it first: up to the last quote of the line\<close>
definition up_to_last_quote :: "string \<Rightarrow> string option" where
  "up_to_last_quote r =
     (let line = takeWhile (\<lambda>c. c \<noteq> CHR 0x0A) r;
          w = rev (dropWhile (\<lambda>c. c \<noteq> CHR 0x22) (rev line))
      in if length w \<le> 1 then None else Some (butlast w))"

definition quoted_after :: "string \<Rightarrow> string \<Rightarrow> string option" where
  "quoted_after prefix = search_first (\<lambda>s. if startswith s prefix then up_to_last_quote (drop (length prefix) s) else None)"

definition get_arch :: "string option \<Rightarrow> string result \<Rightarrow> string result" where
  "get_arch selected_arch show_architecture =
     (case selected_arch of
        Some a \<Rightarrow> Inr a
      | None \<Rightarrow> bindE show_architecture (\<lambda>out.
          let arch_str = strip out;
              p1 = ''The target architecture is set automatically (currently '';
              p2 = ''The target architecture is assumed to be '';
              p3 = ''The target architecture is set to '';
              first = (\<lambda>m. case m of Some x \<Rightarrow> Inr x | None \<Rightarrow> raise IndexError ''list index out of range'') in
          if startswith arch_str p1 then Inr (rstrip_of (\<lambda>c. c = CHR '')'') (drop (length p1) arch_str))
          else if startswith arch_str p2 then Inr (drop (length p2) arch_str)
          else if startswith arch_str p3 then
            first (if str_in [CHR 0x22, CHR ''a'', CHR ''u'', CHR ''t'', CHR ''o'', CHR 0x22] arch_str
                   then quoted_after (''currently '' @ [CHR 0x22]) arch_str else quoted_after [CHR 0x22] arch_str)
          else raise RuntimeError (''Unknown architecture: '' @ arch_str)))"

text \<open>The sizes of \<^verbatim>\<open>size_t\<close> and of \<^verbatim>\<open>$pc\<close>, when GDB knows them\<close>
definition get_memory_alignment :: "int option \<Rightarrow> int result \<Rightarrow> bool \<Rightarrow> int result" where
  "get_memory_alignment size_t pc_size in_bits =
     (case size_t of
        Some n \<Rightarrow> Inr (if \<not> in_bits then n else n * 8)
      | None \<Rightarrow> (case pc_size of Inr n \<Rightarrow> Inr n | Inl _ \<Rightarrow> raise OSError ''GEF is running under an unsupported mode''))"

fun exe_of_lines :: "string list \<Rightarrow> string option result" where
  "exe_of_lines [] = Inr None"
| "exe_of_lines (x # xs) =
     (if startswith x ''exe = '' then Inr (Some (str_replace [CHR 0x27] [] (split_sub '' = '' x ! 1))) else exe_of_lines xs)"

definition get_path_from_info_proc :: "string result \<Rightarrow> string option result" where
  "get_path_from_info_proc info_proc = bindE info_proc (\<lambda>out. exe_of_lines (splitlines out))"

section \<open>The terminal, scripts, the version\<close>

text \<open>The answer of the terminal on each platform; None when there is none\<close>
definition get_terminal_size :: "bool \<Rightarrow> string \<Rightarrow> (int \<times> int \<times> int \<times> int) option \<Rightarrow> (int \<times> int) option \<Rightarrow> int \<times> int" where
  "get_terminal_size debug platform console winsize =
     (if debug then (600, 100)
      else if platform = ''Windows'' then
        (case console of Some (left, tp, right, bottom) \<Rightarrow> (bottom - tp + 1, right - left + 1) | None \<Rightarrow> (600, 100))
      else case winsize of Some (rows, cols) \<Rightarrow> (rows, cols) | None \<Rightarrow> (600, 100))"

text \<open>The temporary file is deleted only when GDB executed it without an error; \<^verbatim>\<open>ok\<close> tells that it can be read\<close>
definition gef_execute_gdb_script :: "(string \<Rightarrow> unit result) \<Rightarrow> (string \<Rightarrow> bool) \<Rightarrow> string \<Rightarrow> string \<Rightarrow> ((string \<times> string) list, unit) sio" where
  "gef_execute_gdb_script gdb ok fname commands =
     bindX (emitX (WriteFile fname commands)) (\<lambda>_.
     bindX (modX (AList.update fname commands)) (\<lambda>_.
     if \<not> ok fname then retX ()
     else bindX (emitX (Exec (''source '' @ fname))) (\<lambda>_.
          bindX (resX (gdb (''source '' @ fname))) (\<lambda>_. modX (AList.delete fname)))))"

record version_env =
  ve_path :: string
  ve_sha256 :: string
  ve_git :: bool
  ve_output :: "string \<Rightarrow> string result"
  ve_gdb :: string
  ve_python :: "int \<times> int"
  ve_commands :: "string list"

definition version_cmd :: "version_env \<Rightarrow> string list \<Rightarrow> unit io" where
  "version_cmd e argv =
     bindI (if ve_git e
       then bindI (resI (ve_output e (''git log --format='' @ [CHR 0x27] @ ''%H'' @ [CHR 0x27] @ '' -n 1 HEAD''))) (\<lambda>ver.
            bindI (resI (ve_output e ''git ls-files -m'')) (\<lambda>modified.
              printI (''GEF: rev:'' @ strip ver @ '' (Git - '' @ (if strip modified \<noteq> [] then ''dirty'' else ''clean'') @ '')'')))
       else bindI (resI (ve_output e (''git hash-object '' @ ve_path e))) (\<lambda>h.
            bindI (printI ''GEF: (Standalone)'') (\<lambda>_. printI (''Blob Hash('' @ ve_path e @ ''): '' @ strip h)))) (\<lambda>_.
     print_all ([''SHA256('' @ ve_path e @ ''): '' @ ve_sha256 e, ''GDB: '' @ ve_gdb e,
       ''GDB-Python: '' @ decs (fst (ve_python e)) @ ''.'' @ decs (snd (ve_python e))]
       @ (if ''full'' \<in> set argv then [''Loaded commands: '' @ join '', '' (ve_commands e)] else [])))"

section \<open>The report of an exception\<close>

record stack_entry =
  sk_file :: string
  sk_line :: int
  sk_method :: string
  sk_code :: string

text \<open>\<^verbatim>\<open>s.center(80, line)\<close>: the odd character of padding goes to the left when the width is odd too\<close>
definition center :: "nat \<Rightarrow> string \<Rightarrow> string \<Rightarrow> string" where
  "center w fill s =
     (let pad = w - length s; left = pad div 2 + (if odd pad \<and> odd w then 1 else 0) in
      concat (replicate left fill) @ s @ concat (replicate (pad - left) fill))"

text \<open>The line of a file, with what stands before the last one only\<close>
definition show_code_line :: "string list \<Rightarrow> int \<Rightarrow> string" where
  "show_code_line ls idx = (if 0 < idx \<and> idx < int (length ls) then ls ! nat (idx - 1) else [])"

record report_env =
  rp_nc :: bool
  rp_read :: "string \<Rightarrow> string list result"
  rp_gdb :: "string \<Rightarrow> unit result"
  rp_which :: "string \<Rightarrow> string result"
  rp_versions :: "string list"

definition stack_lines :: "report_env \<Rightarrow> stack_entry \<Rightarrow> unit io" where
  "stack_lines e k =
     bindI (if strip (sk_code k) = [] then bindI (resI (rp_read e (sk_file k))) (\<lambda>ls. retI (show_code_line ls (sk_line k)))
            else retI (sk_code k)) (\<lambda>code.
     print_all [DOWN_ARROW @ '' File '' @ [CHR 0x22] @ colorify (rp_nc e) (sk_file k) ''yellow'' @ [CHR 0x22] @ '', line ''
         @ decs (sk_line k) @ '', in '' @ greenify (rp_nc e) (sk_method k) @ ''()'',
       ''   '' @ RIGHT_ARROW @ ''    '' @ code])"

definition show_last_exception :: "report_env \<Rightarrow> string \<Rightarrow> string \<Rightarrow> stack_entry list \<Rightarrow> unit io" where
  "show_last_exception e cls message stack =
     (let head = (\<lambda>s. printI (center 80 HORIZONTAL_LINE s)); andThen = (\<lambda>m k. bindI m (\<lambda>_. k)) in
      andThen (printI []) (andThen (head '' Exception raised '')
      (andThen (printI (colorify (rp_nc e) cls ''bold underline red'' @ '': '' @ message))
      (andThen (head '' Detailed stacktrace '') (andThen (eachI (stack_lines e) (rev stack))
      (andThen (head '' Version '') (andThen (execI (rp_gdb e) ''version full'')
      (andThen (head '' Last 10 GDB commands '') (andThen (execI (rp_gdb e) ''show commands'')
      (andThen (head '' Runtime environment '') (andThen (print_all (rp_versions e))
      (andThen (catchI (bindI (resI (rp_which e ''lsb_release'')) (\<lambda>p. execI (rp_gdb e) (''!'' @ [CHR 0x27] @ p @ [CHR 0x27] @ '' -a'')))
         (\<lambda>x. if exn_cls x = FileNotFoundError
               then Some (printI ''lsb_release is missing, cannot collect additional debug information'') else None))
      (andThen (printI (concat (replicate 80 HORIZONTAL_LINE))) (printI []))))))))))))))"

section \<open>Facts\<close>

lemma up_to_last_quote_app:
  assumes "a \<noteq> []" "\<forall>c \<in> set a. c \<noteq> CHR 0x0A" "\<forall>c \<in> set r. c \<noteq> CHR 0x22 \<and> c \<noteq> CHR 0x0A"
  shows "up_to_last_quote (a @ CHR 0x22 # r) = Some a"
proof -
  have "takeWhile (\<lambda>c. c \<noteq> CHR 0x0A) (a @ CHR 0x22 # r) = a @ CHR 0x22 # r"
    using assms(2,3) by (intro takeWhile_eq_all_conv [THEN iffD2]) auto
  moreover have "dropWhile (\<lambda>c. c \<noteq> CHR 0x22) (rev (a @ CHR 0x22 # r)) = rev (a @ [CHR 0x22])"
    using assms(3) by (simp add: dropWhile_append)
  ultimately show ?thesis using assms(1) unfolding up_to_last_quote_def by (simp only: Let_def) simp
qed

lemma str_in_no_head: "c \<notin> set a \<Longrightarrow> str_in (c # p) (a @ s) = str_in (c # p) s"
  by (induction a) (auto simp: startswith_def)

lemma not_auto_quoted:
  assumes q: "CHR 0x22 \<notin> set a" and "a \<noteq> ''auto''"
  shows "\<not> startswith (CHR 0x22 # a @ CHR 0x22 # ''.'') [CHR 0x22, CHR ''a'', CHR ''u'', CHR ''t'', CHR ''o'', CHR 0x22]"
proof
  assume "startswith (CHR 0x22 # a @ CHR 0x22 # ''.'') [CHR 0x22, CHR ''a'', CHR ''u'', CHR ''t'', CHR ''o'', CHR 0x22]"
  then have t: "take 5 (a @ CHR 0x22 # ''.'') = ''auto'' @ [CHR 0x22]" by (simp add: startswith_def numeral_eq_Suc)
  consider "length a < 4" | "4 < length a" | "length a = 4" by linarith
  then show False
  proof cases
    case 1
    then have "(''auto'' @ [CHR 0x22]) ! length a = CHR 0x22" using arg_cong [OF t, of "\<lambda>s. s ! length a"] by simp
    moreover have "length a = 0 \<or> length a = 1 \<or> length a = 2 \<or> length a = 3" using 1 by linarith
    ultimately show False by auto
  next
    case 2
    then have "a ! 4 = CHR 0x22" using arg_cong [OF t, of "\<lambda>s. s ! 4"] by (simp add: nth_append)
    then show False using q nth_mem [OF 2] by simp
  next
    case 3
    then show False using t assms(2) by simp
  qed
qed

text \<open>Fact: without a process the architecture is the name in GDB's answer, in each of the forms that the answer has
  had: set automatically, assumed, and set to a name or to auto in the newer versions.\<close>
theorem get_arch_parses:
  assumes "a \<noteq> []" "\<forall>c \<in> set a. \<not> is_space c \<and> c \<noteq> CHR 0x22 \<and> c \<noteq> CHR '')''"
    and "msg \<in> {''The target architecture is set automatically (currently '' @ a @ '')'',
      ''The target architecture is assumed to be '' @ a,
      ''The target architecture is set to '' @ [CHR 0x22] @ ''auto'' @ [CHR 0x22] @ '' (currently '' @ [CHR 0x22] @ a @ [CHR 0x22] @ '').'',
      ''The target architecture is set to '' @ [CHR 0x22] @ a @ [CHR 0x22] @ ''.''}" "a \<noteq> ''auto''"
  shows "get_arch None (Inr (msg @ [CHR 0x0A])) = Inr a"
proof -
  have l: "\<not> is_space (last a)" "last a \<noteq> CHR '')''" "last a \<noteq> CHR 0x22"
    using bspec [OF assms(2) last_in_set [OF assms(1)]] by simp_all
  have q: "CHR 0x22 \<notin> set a" by (rule notI) (use bspec [OF assms(2), of "CHR 0x22"] in simp)
  have n: "\<forall>c \<in> set a. c \<noteq> CHR 0x0A"
  proof (rule ballI, rule notI)
    fix c assume "c \<in> set a" "c = CHR 0x0A"
    then show False using bspec [OF assms(2), of c] by (simp add: is_space_def)
  qed
  consider "msg = ''The target architecture is set automatically (currently '' @ a @ '')''"
    | "msg = ''The target architecture is assumed to be '' @ a"
    | "msg = ''The target architecture is set to '' @ [CHR 0x22] @ ''auto'' @ [CHR 0x22] @ '' (currently '' @ [CHR 0x22] @ a @ [CHR 0x22] @ '').''"
    | "msg = ''The target architecture is set to '' @ [CHR 0x22] @ a @ [CHR 0x22] @ ''.''" using assms(3) by blast
  then show ?thesis
  proof cases
    case 1
    have "strip (msg @ [CHR 0x0A]) = msg" by (rule strip_newline) (simp_all add: 1 is_space_def)
    moreover have "rstrip_of (\<lambda>c. c = CHR '')'') (a @ '')'') = a"
      using assms(1) l(2) by (cases a rule: rev_cases) (auto simp: rstrip_of_def)
    ultimately show ?thesis by (simp add: get_arch_def 1 startswith_def)
  next
    case 2
    have "strip (msg @ [CHR 0x0A]) = msg" by (rule strip_newline) (use assms(1) l in \<open>simp_all add: 2 is_space_def\<close>)
    then show ?thesis by (simp add: get_arch_def 2 startswith_def)
  next
    case 3
    have "strip (msg @ [CHR 0x0A]) = msg" by (rule strip_newline) (simp_all add: 3 is_space_def)
    moreover have "str_in [CHR 0x22, CHR ''a'', CHR ''u'', CHR ''t'', CHR ''o'', CHR 0x22] msg"
      by (simp add: 3 startswith_def)
    moreover have "quoted_after (''currently '' @ [CHR 0x22]) msg = Some a"
      using up_to_last_quote_app [OF assms(1) n, of "'').''"] by (simp add: quoted_after_def 3 startswith_def)
    ultimately show ?thesis by (simp add: get_arch_def 3 startswith_def)
  next
    case 4
    have "strip (msg @ [CHR 0x0A]) = msg" by (rule strip_newline) (simp_all add: 4 is_space_def)
    moreover note not_auto_quoted [OF q assms(4)]
    then have "\<not> str_in [CHR 0x22, CHR ''a'', CHR ''u'', CHR ''t'', CHR ''o'', CHR 0x22] msg"
      using str_in_no_head [OF q, of "[CHR ''a'', CHR ''u'', CHR ''t'', CHR ''o'', CHR 0x22]" "CHR 0x22 # ''.''"]
      by (simp add: 4 startswith_def)
    moreover have "quoted_after [CHR 0x22] msg = Some a"
      using up_to_last_quote_app [OF assms(1) n, of "''.''"] by (simp add: quoted_after_def 4 startswith_def)
    ultimately show ?thesis by (simp add: get_arch_def 4 startswith_def)
  qed
qed

theorem get_arch_parses_witness:
  "get_arch None (Inr ((''The target architecture is set to '' @ [CHR 0x22] @ ''auto'' @ [CHR 0x22] @ '' (currently ''
     @ [CHR 0x22] @ ''riscv:rv64'' @ [CHR 0x22] @ '').'') @ [CHR 0x0A])) = Inr ''riscv:rv64''"
  by (rule get_arch_parses) (simp_all add: is_space_def)

text \<open>Fact: the report of an exception shows no code for the last line of a file.\<close>
theorem last_line_not_shown: "show_code_line ls (int (length ls)) = []"
  by (simp add: show_code_line_def)

text \<open>Fact: when GDB fails in a script its temporary file stays.\<close>
theorem failed_script_file_stays:
  assumes "gdb (''source '' @ f) = Inl x" "ok f"
  shows "gef_execute_gdb_script gdb ok f cmds files = ([WriteFile f cmds, Exec (''source '' @ f)], Inl x, AList.update f cmds files)"
  using assms by (simp add: gef_execute_gdb_script_def sio_defs)

end
