(* ===== verification/Arguments.thy ===== *)
theory Arguments
  imports Prelude
begin

text \<open>
  The decorator \<^verbatim>\<open>parse_arguments\<close> of \<^verbatim>\<open>scripts/gef.py\<close> and, of the standard library's \<^verbatim>\<open>argparse\<close>, what
  it relies on: options with no or one argument, positional arguments with \<^verbatim>\<open>nargs\<close> of \<^verbatim>\<open>?\<close> and \<^verbatim>\<open>*\<close>, options
  abbreviated, joined to their value or to each other, and negative numbers, as in the Python versions 3.6 to
  3.11.  Every error of the parser and its help end in \<^verbatim>\<open>sys.exit\<close>, which the program replaces by a function
  that raises \<^verbatim>\<open>RuntimeWarning\<close>; what is printed on the error output is left out.
\<close>

section \<open>The actions of a parser\<close>

text \<open>A default value, with the type it stands for; the values of an argument\<close>
datatype arg_value = AStr string | AInt int | ABool bool | AList "arg_value list"

text \<open>What converts the text of an argument: \<^verbatim>\<open>int_wrapper\<close> is the function local to the decorator\<close>
datatype arg_type = StrT | IntT | IntWrapper | BoolT | ListT

datatype nargs = HelpArgs | ZeroArgs arg_value | OneArg | OptionalArg | ManyArgs

record action =
  ac_strings :: "string list"
  ac_dest :: string
  ac_type :: arg_type
  ac_nargs :: nargs
  ac_default :: arg_value
  ac_required :: bool

record parser =
  pa_optionals :: "action list"
  pa_positionals :: "action list"

definition fake_exit :: "'a result" where
  "fake_exit = raise RuntimeWarning []"

fun type_of :: "arg_value \<Rightarrow> arg_type" where
  "type_of (AStr _) = StrT"
| "type_of (AInt _) = IntT"
| "type_of (ABool _) = BoolT"
| "type_of (AList _) = ListT"

definition wrapped :: "arg_type \<Rightarrow> arg_type" where
  "wrapped t = (if t = IntT then IntWrapper else t)"

fun convert :: "arg_type \<Rightarrow> string \<Rightarrow> arg_value result" where
  "convert StrT s = Inr (AStr s)"
| "convert IntT s = bindE (py_int 10 s) (\<lambda>i. Inr (AInt i))"
| "convert IntWrapper s = bindE (py_int 0 s) (\<lambda>i. Inr (AInt i))"
| "convert BoolT s = Inr (ABool (s \<noteq> []))"
| "convert ListT s = Inr (AList (map (\<lambda>c. AStr [c]) s))"

definition is_long :: "string \<Rightarrow> bool" where
  "is_long s \<longleftrightarrow> 1 < length s \<and> s ! 1 = CHR ''-''"

definition dest_of :: "string list \<Rightarrow> string" where
  "dest_of ss = (let d = (case filter is_long ss of l # _ \<Rightarrow> l | [] \<Rightarrow> hd ss) in
     map (\<lambda>c. if c = CHR ''-'' then CHR ''_'' else c) (lstrip_of (\<lambda>c. c = CHR ''-'') d))"

definition help_action :: action where
  "help_action = \<lparr>ac_strings = [''-h'', ''--help''], ac_dest = ''help'', ac_type = StrT, ac_nargs = HelpArgs,
     ac_default = AStr [], ac_required = False\<rparr>"

definition new_parser :: parser where
  "new_parser = \<lparr>pa_optionals = [help_action], pa_positionals = []\<rparr>"

text \<open>\<^verbatim>\<open>add_argument\<close>: an option string may be taken only once\<close>
definition add_option :: "action \<Rightarrow> parser \<Rightarrow> parser result" where
  "add_option a p =
     (if set (ac_strings a) \<inter> set (concat (map ac_strings (pa_optionals p))) = {}
      then Inr (p\<lparr>pa_optionals := pa_optionals p @ [a]\<rparr>)
      else raise PlainException ''conflicting option string'')"

definition option_of :: "string list \<Rightarrow> arg_type \<Rightarrow> nargs \<Rightarrow> arg_value \<Rightarrow> bool \<Rightarrow> action" where
  "option_of ss t n d r = \<lparr>ac_strings = ss, ac_dest = dest_of ss, ac_type = t, ac_nargs = n, ac_default = d, ac_required = r\<rparr>"

definition positional_of :: "string \<Rightarrow> arg_type \<Rightarrow> nargs \<Rightarrow> arg_value \<Rightarrow> action" where
  "positional_of name t n d = \<lparr>ac_strings = [], ac_dest = name, ac_type = t, ac_nargs = n, ac_default = d, ac_required = False\<rparr>"

definition add_positional :: "action \<Rightarrow> parser \<Rightarrow> parser" where
  "add_positional a p = p\<lparr>pa_positionals := pa_positionals p @ [a]\<rparr>"

text \<open>\<^verbatim>\<open>store_true\<close> and \<^verbatim>\<open>store_false\<close>, with the default that they imply\<close>
definition store :: "string list \<Rightarrow> bool \<Rightarrow> action" where
  "store ss b = option_of ss BoolT (ZeroArgs (ABool b)) (ABool (\<not> b)) False"

section \<open>The decorator\<close>

text \<open>One required argument: a name is a text or a pair of texts, which the assertion refuses\<close>
definition add_required :: "string list \<times> arg_value \<Rightarrow> parser \<Rightarrow> parser result" where
  "add_required = (\<lambda>(names, v) p.
     case names of
       [name] \<Rightarrow>
         if startswith name ''-'' then
           (case v of
              ABool b \<Rightarrow> add_option (store [name] b) p
            | _ \<Rightarrow> add_option (option_of [name] (wrapped (type_of v)) OneArg v True) p)
         else (case v of
              AList [] \<Rightarrow> raise IndexError ''list index out of range''
            | AList (x # _) \<Rightarrow> Inr (add_positional (positional_of name (type_of x) ManyArgs v) p)
            | _ \<Rightarrow> Inr (add_positional (positional_of name (wrapped (type_of v)) OptionalArg v) p))
     | _ \<Rightarrow> raise AssertionError [])"

definition add_optional :: "string list \<times> arg_value \<Rightarrow> parser \<Rightarrow> parser result" where
  "add_optional = (\<lambda>(names, v) p.
     if length names = 1 \<and> \<not> startswith (hd names) ''-'' then Inr p
     else case v of
         ABool b \<Rightarrow> add_option (store names (\<not> b)) p
       | _ \<Rightarrow> add_option (option_of names (wrapped (type_of v)) OneArg v False) p)"

fun add_all :: "('x \<Rightarrow> parser \<Rightarrow> parser result) \<Rightarrow> 'x list \<Rightarrow> parser \<Rightarrow> parser result" where
  "add_all f [] p = Inr p"
| "add_all f (x # xs) p = bindE (f x p) (add_all f xs)"

definition build_parser :: "(string list \<times> arg_value) list \<Rightarrow> (string list \<times> arg_value) list \<Rightarrow> parser result" where
  "build_parser required optional = bindE (add_all add_required required new_parser) (add_all add_optional optional)"

section \<open>Classifying the arguments\<close>

datatype mark = MArg | MDash | MOpt "action option" string "string option"

type_synonym tokens = "(string \<times> mark) list"

definition option_action :: "action list \<Rightarrow> string \<Rightarrow> action option" where
  "option_action acts s = find (\<lambda>a. s \<in> set (ac_strings a)) acts"

text \<open>The options that a text abbreviates or, with one dash, is joined to\<close>
definition option_tuples :: "action list \<Rightarrow> string \<Rightarrow> (action \<times> string \<times> string option) list" where
  "option_tuples acts s =
     (let all = concat (map (\<lambda>a. map (\<lambda>o'. (a, o')) (ac_strings a)) acts) in
      if is_long s then
        (let (prefix, ex) = (case split_max (CHR ''='') 1 s of [p, e] \<Rightarrow> (p, Some e) | _ \<Rightarrow> (s, None)) in
         map (\<lambda>(a, o'). (a, o', ex)) (filter (\<lambda>(a, o'). startswith o' prefix) all))
      else concat (map (\<lambda>(a, o'). if o' = take 2 s then [(a, o', Some (drop 2 s))]
             else if startswith o' s then [(a, o', None)] else []) all))"

definition all_digits :: "string \<Rightarrow> bool" where
  "all_digits s \<longleftrightarrow> list_all (\<lambda>c. c \<in> set ''0123456789'') s"

text \<open>\<^verbatim>\<open>^-\d+$|^-\d*\.\d+$\<close>\<close>
definition negative_number :: "string \<Rightarrow> bool" where
  "negative_number s \<longleftrightarrow>
     (case s of [] \<Rightarrow> False
      | c # r0 \<Rightarrow> (let r = (if r0 \<noteq> [] \<and> last r0 = CHR 0x0A then butlast r0 else r0) in
          c = CHR ''-'' \<and> (r \<noteq> [] \<and> all_digits r \<or>
            (case split_max (CHR ''.'') 1 r of [a, b] \<Rightarrow> all_digits a \<and> b \<noteq> [] \<and> all_digits b | _ \<Rightarrow> False))))"

definition mark_of :: "action list \<Rightarrow> string \<Rightarrow> mark result" where
  "mark_of acts s =
     (if s = [] \<or> hd s \<noteq> CHR ''-'' then Inr MArg
      else case option_action acts s of
        Some a \<Rightarrow> Inr (MOpt (Some a) s None)
      | None \<Rightarrow>
          if length s = 1 then Inr MArg
          else case (case split_max (CHR ''='') 1 s of
                  [o', e] \<Rightarrow> map_option (\<lambda>a. (a, o', e)) (option_action acts o') | _ \<Rightarrow> None) of
            Some (a, o', e) \<Rightarrow> Inr (MOpt (Some a) o' (Some e))
          | None \<Rightarrow>
              (case option_tuples acts s of
                 [(a, o', ex)] \<Rightarrow> Inr (MOpt (Some a) o' ex)
               | _ # _ # _ \<Rightarrow> fake_exit
               | [] \<Rightarrow>
                   if negative_number s \<and> \<not> list_ex (\<lambda>a. list_ex negative_number (ac_strings a)) acts then Inr MArg
                   else if CHR '' '' \<in> set s then Inr MArg
                   else Inr (MOpt None s None)))"

fun classify :: "action list \<Rightarrow> string list \<Rightarrow> tokens result" where
  "classify acts [] = Inr []"
| "classify acts (s # ss) =
     (if s = ''--'' then Inr ((s, MDash) # map (\<lambda>x. (x, MArg)) ss)
      else bindE (mark_of acts s) (\<lambda>m. bindE (classify acts ss) (\<lambda>ts. Inr ((s, m) # ts))))"

section \<open>Consuming the arguments\<close>

type_synonym namespace = "arg_value dict"

record pstate =
  ps_names :: namespace
  ps_seen :: "string list"
  ps_extras :: "string list"
  ps_rest :: "action list"

definition usage_error :: "'a result \<Rightarrow> 'a result" where
  "usage_error r = (case r of Inl _ \<Rightarrow> fake_exit | Inr x \<Rightarrow> Inr x)"

text \<open>The value of an action: a first \<^verbatim>\<open>--\<close> among its texts is removed.  A default that is a text has the
  argument's own type, so its conversion does not change it.\<close>
definition get_values :: "action \<Rightarrow> string list \<Rightarrow> arg_value result" where
  "get_values a args0 =
     (let args = remove1 ''--'' args0 in
      case ac_nargs a of
        HelpArgs \<Rightarrow> fake_exit
      | ZeroArgs v \<Rightarrow> Inr v
      | OneArg \<Rightarrow> (case args of [x] \<Rightarrow> usage_error (convert (ac_type a) x) | _ \<Rightarrow> raise ValueError ''not enough values to unpack'')
      | OptionalArg \<Rightarrow> (case args of x # _ \<Rightarrow> usage_error (convert (ac_type a) x) | [] \<Rightarrow> Inr (ac_default a))
      | ManyArgs \<Rightarrow> if args = [] then Inr (ac_default a)
          else usage_error (bindE (mapE (convert (ac_type a)) args) (\<lambda>vs. Inr (AList vs))))"

definition take_action :: "action \<times> string list \<Rightarrow> pstate \<Rightarrow> pstate result" where
  "take_action = (\<lambda>(a, args) st. bindE (get_values a args) (\<lambda>v.
     Inr (st\<lparr>ps_names := AList.update (ac_dest a) v (ps_names st), ps_seen := ac_dest a # ps_seen st\<rparr>)))"

fun take_actions :: "(action \<times> string list) list \<Rightarrow> pstate \<Rightarrow> pstate result" where
  "take_actions [] st = Inr st"
| "take_actions (x # xs) st = bindE (take_action x st) (take_actions xs)"

definition no_argument :: "action \<Rightarrow> bool" where
  "no_argument a \<longleftrightarrow> (case ac_nargs a of HelpArgs \<Rightarrow> True | ZeroArgs _ \<Rightarrow> True | _ \<Rightarrow> False)"

text \<open>An option without a joined value takes the next text when it needs one\<close>
definition plain_option :: "action \<Rightarrow> tokens \<Rightarrow> ((action \<times> string list) list \<times> tokens) result" where
  "plain_option a ts =
     (if no_argument a then Inr ([(a, [])], ts)
      else case ts of (v, MArg) # r \<Rightarrow> Inr ([(a, [v])], r) | _ \<Rightarrow> fake_exit)"

text \<open>A joined value: of an option with one dash and no argument it is the letters of further options\<close>
fun joined_option :: "action list \<Rightarrow> action \<Rightarrow> string \<Rightarrow> string \<Rightarrow> tokens \<Rightarrow> ((action \<times> string list) list \<times> tokens) result" where
  "joined_option acts a o' e ts =
     (if \<not> no_argument a then Inr ([(a, [e])], ts)
      else if is_long o' then fake_exit
      else case e of
        [] \<Rightarrow> raise IndexError ''string index out of range''
      | c # cs \<Rightarrow>
          (case option_action acts [CHR ''-'', c] of
             None \<Rightarrow> fake_exit
           | Some b \<Rightarrow> bindE (if cs = [] then plain_option b ts else joined_option acts b [CHR ''-'', c] cs ts)
               (\<lambda>(xs, r). Inr ((a, []) # xs, r))))"

declare joined_option.simps [simp del]

definition consume_optional :: "action list \<Rightarrow> string \<Rightarrow> action option \<Rightarrow> string \<Rightarrow> string option \<Rightarrow> tokens \<Rightarrow> pstate \<Rightarrow> (pstate \<times> tokens) result" where
  "consume_optional acts s a o' ex ts st =
     (case a of
        None \<Rightarrow> Inr (st\<lparr>ps_extras := ps_extras st @ [s]\<rparr>, ts)
      | Some b \<Rightarrow>
          bindE (case ex of None \<Rightarrow> plain_option b ts | Some e \<Rightarrow> joined_option acts b o' e ts) (\<lambda>(xs, r).
          bindE (take_actions xs st) (\<lambda>st'. Inr (st', r))))"

text \<open>The texts a positional argument takes, by the patterns \<^verbatim>\<open>-*A?-*\<close> and \<^verbatim>\<open>-*[A-]*\<close>\<close>
definition take_positional :: "nargs \<Rightarrow> tokens \<Rightarrow> string list \<times> tokens" where
  "take_positional n ts =
     (let dash = (\<lambda>t. snd t = MDash); free = (\<lambda>t. snd t = MArg \<or> snd t = MDash) in
      if n = ManyArgs then (map fst (takeWhile free ts), dropWhile free ts)
      else let d = takeWhile dash ts; r = dropWhile dash ts in
        case r of
          (v, MArg) # r' \<Rightarrow> (map fst d @ v # map fst (takeWhile dash r'), dropWhile dash r')
        | _ \<Rightarrow> (map fst d, r))"

fun positional_groups :: "action list \<Rightarrow> tokens \<Rightarrow> (action \<times> string list) list \<times> tokens" where
  "positional_groups [] ts = ([], ts)"
| "positional_groups (a # as) ts =
     (case take_positional (ac_nargs a) ts of (args, r) \<Rightarrow>
      case positional_groups as r of (xs, r') \<Rightarrow> ((a, args) # xs, r'))"

text \<open>Each of the patterns matches no text as well, so the first run of texts is given to all of the positional
  arguments and none is left for a later run\<close>
definition consume_positionals :: "tokens \<Rightarrow> pstate \<Rightarrow> (pstate \<times> tokens) result" where
  "consume_positionals ts st =
     (case positional_groups (ps_rest st) ts of (xs, r) \<Rightarrow>
      bindE (take_actions xs st) (\<lambda>st'. Inr (st'\<lparr>ps_rest := []\<rparr>, r)))"

fun opt_part :: "mark \<Rightarrow> (action option \<times> string \<times> string option) option" where
  "opt_part (MOpt a o' ex) = Some (a, o', ex)"
| "opt_part MArg = None"
| "opt_part MDash = None"

definition is_opt :: "string \<times> mark \<Rightarrow> bool" where
  "is_opt t \<longleftrightarrow> opt_part (snd t) \<noteq> None"

lemma joined_option_rest: "joined_option acts a o' e ts = Inr (xs, r) \<Longrightarrow> length r \<le> length ts"
proof (induction acts a o' e ts arbitrary: xs r rule: joined_option.induct)
  case (1 acts a o' e ts)
  show ?case using "1.prems"
    by (subst (asm) joined_option.simps)
       (auto simp: fake_exit_def plain_option_def result_simps split: if_splits list.splits option.splits mark.splits prod.splits
          intro: "1.IH")
qed

lemma consume_optional_rest: "consume_optional acts s a o' ex ts st = Inr (st', r) \<Longrightarrow> length r \<le> length ts"
  by (auto simp: consume_optional_def plain_option_def fake_exit_def result_simps dest: joined_option_rest
      split: option.splits if_splits list.splits mark.splits prod.splits)

lemma take_positional_suffix: "take_positional n ts = (args, r) \<Longrightarrow> \<exists>ts1. ts = ts1 @ r"
proof -
  have "\<exists>ts1. ts = ts1 @ dropWhile P ts" for P :: "string \<times> mark \<Rightarrow> bool" and ts
    by (rule exI [of _ "takeWhile P ts"]) simp
  moreover have "\<exists>ts1. ts = ts1 @ dropWhile P r'" if "dropWhile P ts = x # r'" for P :: "string \<times> mark \<Rightarrow> bool" and ts x r'
    by (rule exI [of _ "takeWhile P ts @ x # takeWhile P r'"]) (use that in \<open>metis append.assoc append_Cons takeWhile_dropWhile_id\<close>)
  ultimately show "take_positional n ts = (args, r) \<Longrightarrow> ?thesis"
    by (auto simp: take_positional_def Let_def split: if_splits list.splits prod.splits mark.splits)
qed

lemma positional_groups_suffix: "positional_groups as ts = (xs, r) \<Longrightarrow> \<exists>ts1. ts = ts1 @ r"
proof (induction as arbitrary: ts xs)
  case (Cons a as)
  obtain args q ys where "take_positional (ac_nargs a) ts = (args, q)" "positional_groups as q = (ys, r)"
    using Cons.prems by (auto split: prod.splits)
  then show ?case using take_positional_suffix Cons.IH by (metis append.assoc)
qed simp

lemma consume_positionals_suffix: "consume_positionals ts st = Inr (st', r) \<Longrightarrow> \<exists>ts1. ts = ts1 @ r"
  by (auto simp: consume_positionals_def result_simps split: prod.splits dest: positional_groups_suffix)

text \<open>The loop over the options, with the texts before each of them\<close>
function consume :: "action list \<Rightarrow> tokens \<Rightarrow> pstate \<Rightarrow> pstate result" where
  "consume acts ts st =
     (if \<not> list_ex is_opt ts then
        bindE (consume_positionals ts st) (\<lambda>(st', r). Inr (st'\<lparr>ps_extras := ps_extras st' @ map fst r\<rparr>))
      else case opt_part (snd (hd ts)) of
        Some (a, o', ex) \<Rightarrow> (case consume_optional acts (fst (hd ts)) a o' ex (tl ts) st of
             Inl x \<Rightarrow> Inl x | Inr (st', r) \<Rightarrow> consume acts r st')
      | None \<Rightarrow> (case consume_positionals ts st of
             Inl x \<Rightarrow> Inl x
           | Inr (st', r) \<Rightarrow>
               if length r < length ts then consume acts r st'
               else consume acts (dropWhile (\<lambda>t. \<not> is_opt t) r) (st'\<lparr>ps_extras := ps_extras st' @ map fst (takeWhile (\<lambda>t. \<not> is_opt t) r)\<rparr>)))"
  by pat_completeness auto
termination
proof (relation "measure (\<lambda>(_, ts, _). length ts)", goal_cases)
  case (3 acts ts st b st' r)
  then have "r = ts" using consume_positionals_suffix by fastforce
  moreover have "\<not> is_opt (hd ts)" "ts \<noteq> []" using 3(1,2) by (auto simp: is_opt_def)
  ultimately show ?case using length_dropWhile_le [of "\<lambda>t. \<not> is_opt t" "tl ts"] by (cases ts) auto
next
  case (4 acts ts st opt a y o' ex b st' r)
  then have "length r \<le> length (tl ts)" using consume_optional_rest by metis
  then show ?case using 4(1) by (cases ts) auto
qed auto

declare consume.simps [simp del]

text \<open>The namespace starts with the defaults of all arguments; in the end no required option may be missing and
  no text may be left over\<close>
definition start_state :: "parser \<Rightarrow> pstate" where
  "start_state p = \<lparr>ps_names = fold (\<lambda>a. AList.update (ac_dest a) (ac_default a))
       (filter (\<lambda>a. ac_nargs a \<noteq> HelpArgs) (pa_optionals p @ pa_positionals p)) [],
     ps_seen = [], ps_extras = [], ps_rest = pa_positionals p\<rparr>"

definition parse_args :: "parser \<Rightarrow> string list \<Rightarrow> namespace result" where
  "parse_args p args =
     bindE (classify (pa_optionals p) args) (\<lambda>ts.
     bindE (consume (pa_optionals p) ts (start_state p)) (\<lambda>st.
       if list_ex (\<lambda>a. ac_required a \<and> ac_dest a \<notin> set (ps_seen st)) (pa_optionals p) then fake_exit
       else if ps_extras st \<noteq> [] then fake_exit
       else Inr (ps_names st)))"

text \<open>The wrapper: the parser is built at every call, then the command gets the namespace\<close>
definition parse_arguments :: "(string list \<times> arg_value) list \<Rightarrow> (string list \<times> arg_value) list \<Rightarrow> (namespace \<Rightarrow> 'a result) \<Rightarrow> string list \<Rightarrow> 'a result" where
  "parse_arguments required optional f argv =
     bindE (build_parser required optional) (\<lambda>p. bindE (parse_args p argv) f)"

section \<open>Command lines\<close>

text \<open>An option that is written out, with or without a value\<close>
datatype item = Flag string | Valued string string

fun render :: "item \<Rightarrow> string list" where
  "render (Flag s) = [s]"
| "render (Valued s v) = [s, v]"

text \<open>A text that is no option: it does not begin with a dash\<close>
definition plain :: "string \<Rightarrow> bool" where
  "plain v \<longleftrightarrow> v = [] \<or> hd v \<noteq> CHR ''-''"

text \<open>The destination and the value that an item of the command line gives\<close>
fun item_value :: "parser \<Rightarrow> item \<Rightarrow> (string \<times> arg_value) option" where
  "item_value p (Flag s) =
     (case option_action (pa_optionals p) s of
        Some a \<Rightarrow> (case ac_nargs a of ZeroArgs v \<Rightarrow> Some (ac_dest a, v) | _ \<Rightarrow> None)
      | None \<Rightarrow> None)"
| "item_value p (Valued s v) =
     (case option_action (pa_optionals p) s of
        Some a \<Rightarrow> (case (ac_nargs a, convert (ac_type a) v) of (OneArg, Inr x) \<Rightarrow> if plain v then Some (ac_dest a, x) else None | _ \<Rightarrow> None)
      | None \<Rightarrow> None)"

fun item_name :: "item \<Rightarrow> string" where
  "item_name (Flag s) = s"
| "item_name (Valued s v) = s"

definition wf_item :: "parser \<Rightarrow> item \<Rightarrow> bool" where
  "wf_item p i \<longleftrightarrow> item_value p i \<noteq> None \<and> startswith (item_name i) ''-'' \<and> item_name i \<noteq> ''--''"

definition set_item :: "parser \<Rightarrow> item \<Rightarrow> pstate \<Rightarrow> pstate" where
  "set_item p i st = (case item_value p i of None \<Rightarrow> st
     | Some (d, v) \<Rightarrow> st\<lparr>ps_names := AList.update d v (ps_names st), ps_seen := d # ps_seen st\<rparr>)"

definition option_token :: "parser \<Rightarrow> string \<Rightarrow> string \<times> mark" where
  "option_token p s = (s, MOpt (option_action (pa_optionals p) s) s None)"

fun item_tokens :: "parser \<Rightarrow> item \<Rightarrow> tokens" where
  "item_tokens p (Flag s) = [option_token p s]"
| "item_tokens p (Valued s v) = [option_token p s, (v, MArg)]"

lemma bindE_Inr [simp]: "bindE m Inr = m"
  by (cases m) auto

lemma plain_mark: "plain v \<Longrightarrow> mark_of acts v = Inr MArg"
  by (simp add: plain_def mark_of_def)

lemma plain_not_dashes: "plain v \<Longrightarrow> v \<noteq> ''--''"
  by (auto simp: plain_def)

lemma option_mark: "startswith s ''-'' \<Longrightarrow> option_action acts s = Some a \<Longrightarrow> mark_of acts s = Inr (MOpt (Some a) s None)"
  by (cases s) (auto simp: mark_of_def startswith_def)

lemma classify_plain:
  "\<forall>v \<in> set ps. plain v \<Longrightarrow> classify acts (ps @ ss) = bindE (classify acts ss) (\<lambda>ts. Inr (map (\<lambda>v. (v, MArg)) ps @ ts))"
  by (induction ps) (auto simp: plain_mark plain_not_dashes result_simps split: sum.splits)

lemma classify_item:
  assumes "wf_item p i"
  shows "classify (pa_optionals p) (render i @ ss) = bindE (classify (pa_optionals p) ss) (\<lambda>ts. Inr (item_tokens p i @ ts))"
proof (cases i)
  case (Flag s)
  then show ?thesis using assms
    by (auto simp: wf_item_def option_token_def option_mark split: option.splits)
next
  case (Valued s v)
  then have "plain v" "option_action (pa_optionals p) s \<noteq> None" using assms
    by (auto simp: wf_item_def split: option.splits nargs.splits sum.splits if_splits)
  then show ?thesis using Valued assms
    by (auto simp: wf_item_def option_token_def option_mark plain_mark plain_not_dashes result_simps)
qed

lemma classify_items:
  "\<forall>i \<in> set xs. wf_item p i \<Longrightarrow> classify (pa_optionals p) (concat (map render xs) @ ss)
    = bindE (classify (pa_optionals p) ss) (\<lambda>ts. Inr (concat (map (item_tokens p) xs) @ ts))"
  by (induction xs) (auto simp: classify_item result_simps)

text \<open>The positional arguments in order, the ones without a text get their default\<close>
definition set_positional :: "action \<Rightarrow> arg_value \<Rightarrow> pstate \<Rightarrow> pstate" where
  "set_positional a v st = st\<lparr>ps_names := AList.update (ac_dest a) v (ps_names st), ps_seen := ac_dest a # ps_seen st\<rparr>"

fun set_positionals :: "action list \<Rightarrow> string list \<Rightarrow> pstate \<Rightarrow> pstate" where
  "set_positionals [] vs st = st"
| "set_positionals (a # as) [] st = set_positionals as [] (set_positional a (ac_default a) st)"
| "set_positionals (a # as) (v # vs) st =
     set_positionals as vs (set_positional a (case convert (ac_type a) v of Inr x \<Rightarrow> x | Inl _ \<Rightarrow> ac_default a) st)"

definition wf_positionals :: "action list \<Rightarrow> string list \<Rightarrow> bool" where
  "wf_positionals as vs \<longleftrightarrow> length vs \<le> length as \<and> list_all (\<lambda>a. ac_nargs a = OptionalArg) as
     \<and> list_all (\<lambda>(a, v). plain v \<and> is_ok (convert (ac_type a) v)) (zip as vs)"

lemma set_item_rest [simp]: "ps_rest (set_item p i st) = ps_rest st" "ps_extras (set_item p i st) = ps_extras st"
  by (simp_all add: set_item_def split: option.split)

lemma fold_set_item_rest [simp]: "ps_rest (fold (set_item p) xs st) = ps_rest st" "ps_extras (fold (set_item p) xs st) = ps_extras st"
  by (induction xs arbitrary: st) simp_all

lemma set_positionals_extras [simp]: "ps_extras (set_positionals as vs st) = ps_extras st"
  by (induction as vs st rule: set_positionals.induct) (simp_all add: set_positional_def)

lemma consume_item:
  assumes "wf_item p i"
  shows "consume (pa_optionals p) (item_tokens p i @ ts) st = consume (pa_optionals p) ts (set_item p i st)"
proof (cases i)
  case (Flag s)
  then obtain a v where "option_action (pa_optionals p) s = Some a" "ac_nargs a = ZeroArgs v" using assms
    by (auto simp: wf_item_def split: option.splits nargs.splits)
  then show ?thesis using Flag
    by (subst consume.simps) (simp add: option_token_def is_opt_def consume_optional_def plain_option_def no_argument_def
      take_action_def get_values_def set_item_def)
next
  case (Valued s v)
  then obtain a x where "option_action (pa_optionals p) s = Some a" "ac_nargs a = OneArg" "convert (ac_type a) v = Inr x" "plain v"
    using assms by (auto simp: wf_item_def split: option.splits nargs.splits sum.splits if_splits)
  then show ?thesis using Valued plain_not_dashes
    by (subst consume.simps) (auto simp: option_token_def is_opt_def consume_optional_def plain_option_def no_argument_def
      take_action_def get_values_def set_item_def usage_error_def)
qed

lemma consume_items:
  "\<forall>i \<in> set xs. wf_item p i \<Longrightarrow>
    consume (pa_optionals p) (concat (map (item_tokens p) xs) @ ts) st = consume (pa_optionals p) ts (fold (set_item p) xs st)"
  by (induction xs arbitrary: st) (simp_all add: consume_item)

lemma take_one:
  assumes "r = [] \<or> snd (hd r) \<noteq> MDash"
  shows "take_positional OptionalArg ((v, MArg) # r) = ([v], r)"
  using assms by (cases r) (simp_all add: take_positional_def)

lemma take_none:
  assumes "r = [] \<or> is_opt (hd r)"
  shows "take_positional OptionalArg r = ([], r)"
  using assms by (cases r) (auto simp: take_positional_def is_opt_def split: mark.splits elim: opt_part.elims)

lemma positional_run:
  assumes "wf_positionals as vs" "r = [] \<or> is_opt (hd r)"
  shows "\<exists>xs. positional_groups as (map (\<lambda>v. (v, MArg)) vs @ r) = (xs, r) \<and> take_actions xs st = Inr (set_positionals as vs st)"
  using assms(1)
proof (induction as arbitrary: vs st)
  case (Cons a as)
  have a: "ac_nargs a = OptionalArg" using Cons.prems by (simp add: wf_positionals_def)
  show ?case
  proof (cases vs)
    case Nil
    then have "wf_positionals as []" using Cons.prems by (simp add: wf_positionals_def)
    then show ?thesis using Cons.IH [of "[]" "set_positional a (ac_default a) st"] take_none [OF assms(2)] a Nil
      by (auto simp: take_action_def get_values_def set_positional_def)
  next
    case (Cons v ws)
    let ?t = "map (\<lambda>v. (v, MArg)) ws @ r"
    obtain x where x: "convert (ac_type a) v = Inr x" "plain v" "wf_positionals as ws"
      using Cons.prems Cons by (auto simp: wf_positionals_def is_ok_iff)
    have "?t = [] \<or> snd (hd ?t) \<noteq> MDash" using assms(2) by (cases ws) (auto simp: is_opt_def)
    from take_one [OF this] show ?thesis
      using Cons.IH [OF x(3), of "set_positional a x st"] x(1) a Cons plain_not_dashes [OF x(2)]
      by (auto simp: take_action_def get_values_def set_positional_def usage_error_def)
  qed
qed (simp add: wf_positionals_def)

text \<open>A run of positional texts between two groups of options; what follows the second group is left over\<close>
lemma consume_command_line:
  assumes "\<forall>i \<in> set xs \<union> set ys. wf_item p i" "ys \<noteq> [] \<or> us = []" "ps \<noteq> []"
    and "wf_positionals (ps_rest st) ps" "ps_extras st = []"
  shows "consume (pa_optionals p) (concat (map (item_tokens p) xs) @ map (\<lambda>v. (v, MArg)) ps
      @ concat (map (item_tokens p) ys) @ map (\<lambda>v. (v, MArg)) us) st
    = Inr (fold (set_item p) ys (set_positionals (ps_rest st) ps (fold (set_item p) xs st))\<lparr>ps_rest := [], ps_extras := us\<rparr>)"
proof -
  let ?ys = "concat (map (item_tokens p) ys) @ map (\<lambda>v. (v, MArg)) us" and ?st = "fold (set_item p) xs st"
  let ?pos = "set_positionals (ps_rest st) ps ?st\<lparr>ps_rest := []\<rparr>"
  have free: "\<not> list_ex is_opt (map (\<lambda>v. (v, MArg)) vs)" "takeWhile (\<lambda>t. \<not> is_opt t) (map (\<lambda>v. (v, MArg)) vs) = map (\<lambda>v. (v, MArg)) vs" for vs
    by (induction vs) (simp_all add: is_opt_def)
  have hd_opt: "is_opt (hd (item_tokens p i @ ts))" "item_tokens p i \<noteq> []" for i ts
    by (cases i; simp add: option_token_def is_opt_def)+
  have y: "?ys = [] \<or> is_opt (hd ?ys)" using assms(2) hd_opt by (cases ys) auto
  obtain gs where gs: "positional_groups (ps_rest st) (map (\<lambda>v. (v, MArg)) ps @ ?ys) = (gs, ?ys)"
    "take_actions gs ?st = Inr (set_positionals (ps_rest st) ps ?st)" using positional_run [OF assms(4) y] by blast
  then have run: "consume_positionals (map (\<lambda>v. (v, MArg)) ps @ ?ys) ?st = Inr (?pos, ?ys)" by (simp add: consume_positionals_def)
  have rest: "fold (set_item p) zs (s\<lparr>ps_rest := r\<rparr>) = fold (set_item p) zs s\<lparr>ps_rest := r\<rparr>" for zs s r
  proof (induction zs arbitrary: s)
    case (Cons i zs)
    have "set_item p i (s\<lparr>ps_rest := r\<rparr>) = set_item p i s\<lparr>ps_rest := r\<rparr>" by (cases s) (simp add: set_item_def split: option.split)
    then show ?case using Cons.IH by simp
  qed simp
  have tail: "consume (pa_optionals p) ?ys ?pos = Inr (fold (set_item p) ys ?pos\<lparr>ps_extras := us\<rparr>)" if "ys \<noteq> []"
    using assms(1,5) by (simp add: consume_items) (subst consume.simps, simp add: free consume_positionals_def rest comp_def)
  have "consume (pa_optionals p) (map (\<lambda>v. (v, MArg)) ps @ ?ys) ?st = Inr (fold (set_item p) ys ?pos\<lparr>ps_extras := us\<rparr>)"
  proof (cases "ys = []")
    case True
    then have "us = []" using assms(2) by simp
    with True show ?thesis using run assms(5) by (subst consume.simps) (simp add: free)
  next
    case False
    then have "list_ex is_opt ?ys" "opt_part (snd (hd (map (\<lambda>v. (v, MArg)) ps @ ?ys))) = None" "length ?ys < length (map (\<lambda>v. (v, MArg)) ps @ ?ys)"
      using y assms(3) hd_opt(2) by (cases ?ys; cases ys; cases ps; simp)+
    then show ?thesis using run tail [OF False] by (subst consume.simps) simp
  qed
  then show ?thesis using assms(1) by (simp add: consume_items rest)
qed

lemma start_state_rest [simp]: "ps_rest (start_state p) = pa_positionals p" "ps_extras (start_state p) = []" "ps_seen (start_state p) = []"
  by (simp_all add: start_state_def)

lemma classify_command_line:
  assumes "\<forall>i \<in> set xs \<union> set ys. wf_item p i" "\<forall>v \<in> set ps \<union> set us. plain v"
  shows "classify (pa_optionals p) (concat (map render xs) @ ps @ concat (map render ys) @ us)
    = Inr (concat (map (item_tokens p) xs) @ map (\<lambda>v. (v, MArg)) ps @ concat (map (item_tokens p) ys) @ map (\<lambda>v. (v, MArg)) us)"
  using assms classify_plain [of us "pa_optionals p" "[]"]
  by (simp add: classify_items classify_plain)

lemma wf_positionals_plain: "wf_positionals as ps \<Longrightarrow> \<forall>v \<in> set ps. plain v"
  by (induction as ps rule: list_induct2') (auto simp: wf_positionals_def)

lemma command_line_parsed:
  assumes "\<forall>i \<in> set xs \<union> set ys. wf_item p i" "ps \<noteq> []" "wf_positionals (pa_positionals p) ps"
    and "\<forall>a \<in> set (pa_optionals p). \<not> ac_required a"
  shows "parse_args p (concat (map render xs) @ ps @ concat (map render ys))
    = Inr (ps_names (fold (set_item p) ys (set_positionals (pa_positionals p) ps (fold (set_item p) xs (start_state p)))))"
proof -
  have "classify (pa_optionals p) (concat (map render xs) @ ps @ concat (map render ys))
      = Inr (concat (map (item_tokens p) xs) @ map (\<lambda>v. (v, MArg)) ps @ concat (map (item_tokens p) ys))"
    using classify_command_line [OF assms(1), of ps "[]"] wf_positionals_plain [OF assms(3)] by simp
  moreover have "\<not> list_ex (\<lambda>a. ac_required a \<and> f a) (pa_optionals p)" for f using assms(4) by (auto simp: list_ex_iff)
  ultimately show ?thesis using consume_command_line [OF assms(1) _ assms(2), of "[]" "start_state p"] assms(3)
    by (simp add: parse_args_def)
qed

lemma separated_refused:
  assumes "\<forall>i \<in> set xs \<union> set ys. wf_item p i" "ps \<noteq> []" "wf_positionals (pa_positionals p) ps"
    and "ys \<noteq> []" "us \<noteq> []" "\<forall>v \<in> set us. plain v"
  shows "parse_args p (concat (map render xs) @ ps @ concat (map render ys) @ us) = Inl (Exn RuntimeWarning [])"
proof -
  have "classify (pa_optionals p) (concat (map render xs) @ ps @ concat (map render ys) @ us)
      = Inr (concat (map (item_tokens p) xs) @ map (\<lambda>v. (v, MArg)) ps @ concat (map (item_tokens p) ys) @ map (\<lambda>v. (v, MArg)) us)"
    using classify_command_line [OF assms(1)] wf_positionals_plain [OF assms(3)] assms(6) by blast
  then show ?thesis using consume_command_line [OF assms(1) _ assms(2), of us "start_state p"] assms(3-5)
    by (simp add: parse_args_def fake_exit_def)
qed



text \<open>The arguments of \<^verbatim>\<open>gef-remote\<close> and of \<^verbatim>\<open>heap chunks\<close>\<close>
definition remote_required :: "(string list \<times> arg_value) list" where
  "remote_required = [([''host''], AStr []), ([''port''], AInt 0)]"

definition remote_optional :: "(string list \<times> arg_value) list" where
  "remote_optional = [([''--pid''], AInt (- 1)), ([''--qemu-user''], ABool False), ([''--qemu-binary''], AStr [])]"

definition chunks_parser :: "parser result" where
  "chunks_parser = build_parser [([''arena_address''], AStr [])]
     [([''--all'', ''-a''], ABool False), ([''--allow-unaligned''], ABool False), ([''--min-size''], AInt 0), ([''--max-size''], AInt 0),
      ([''--count'', ''-n''], AInt (- 1)), ([''--summary'', ''-s''], ABool False), ([''--resolve''], ABool False)]"

definition demo_parser :: parser where
  "demo_parser = (case build_parser remote_required remote_optional of Inr p \<Rightarrow> p | Inl _ \<Rightarrow> new_parser)"

lemma demo_items:
  "build_parser remote_required remote_optional = Inr demo_parser"
  "wf_item demo_parser (Flag ''--qemu-user'')" "wf_item demo_parser (Valued ''--qemu-binary'' ''/bin/a'')"
  "wf_positionals (pa_positionals demo_parser) [''localhost'', ''1234'']" "wf_positionals (pa_positionals demo_parser) [''localhost'']"
  "list_all (\<lambda>a. \<not> ac_required a) (pa_optionals demo_parser)" "plain ''1234''"
  by code_simp+



text \<open>Fact: the documented invocation with joined and abbreviated options: all of \<^verbatim>\<open>-an5\<close>, \<^verbatim>\<open>--count=5\<close> and
  \<^verbatim>\<open>--cou 5\<close> give the count of \<^verbatim>\<open>heap chunks\<close>, and an unknown option is refused.\<close>
theorem chunks_options:
  "bindE chunks_parser (\<lambda>p. bindE (parse_args p [''-an5'']) (\<lambda>n. Inr (map_of n ''all'', map_of n ''count''))) = Inr (Some (ABool True), Some (AInt 5))"
  "bindE chunks_parser (\<lambda>p. bindE (parse_args p [''--count=5'']) (\<lambda>n. Inr (map_of n ''count''))) = Inr (Some (AInt 5))"
  "bindE chunks_parser (\<lambda>p. bindE (parse_args p [''--cou'', ''-5'']) (\<lambda>n. Inr (map_of n ''count''))) = Inr (Some (AInt (- 5)))"
  "bindE chunks_parser (\<lambda>p. parse_args p [''--nothing'']) = Inl (Exn RuntimeWarning [])"
  "bindE chunks_parser (\<lambda>p. parse_args p [''--m'', ''1'']) = Inl (Exn RuntimeWarning [])"
  by code_simp+

end
