(* ===== verification/CommandTable.thy ===== *)
theory CommandTable
  imports Settings
begin

text \<open>
  The declarations of the registered commands of \<^verbatim>\<open>scripts/gef.py\<close>: for every class the attributes
  \<^verbatim>\<open>_cmdline_\<close>, \<^verbatim>\<open>_syntax_\<close>, \<^verbatim>\<open>_example_\<close> and \<^verbatim>\<open>_aliases_\<close>, what its constructor hands to GDB (prefix and
  completion) and the settings it registers, with their defaults and descriptions.  The last list holds them in
  the order of the file.
\<close>

datatype completion = CompleteNone | CompleteLocation | CompleteFilename | CompleteSymbol | CompleteCommand | CompleteExpression

text \<open>\<^verbatim>\<open>cd_root\<close> tells that the class derives from \<^verbatim>\<open>GenericCommand\<close> directly\<close>
record command_decl =
  cd_name :: string
  cd_syntax :: string
  cd_examples :: "string list"
  cd_aliases :: "string list"
  cd_prefix :: bool
  cd_complete :: completion
  cd_root :: bool
  cd_settings :: "(string \<times> py_val \<times> string) list"

text \<open>\<^verbatim>\<open>ps\<close> is the path of that program, which the session looks up\<close>

definition decl_VersionCommand :: "command_decl" where
  "decl_VersionCommand =
    \<lparr>cd_name = ''version'', cd_syntax = ''version'',
     cd_examples = [''version''],
     cd_aliases = [], cd_prefix = False, cd_complete = CompleteNone, cd_root = True,
     cd_settings = []\<rparr>"

definition decl_PrintFormatCommand :: "command_decl" where
  "decl_PrintFormatCommand =
    \<lparr>cd_name = ''print-format'', cd_syntax = (''print-format [--lang LANG] [--bitlen SIZE] [(--length,-l) LENGTH] [--clip] LOCATION'' @ [CHR 0x09] @ ''--lang LANG specifies the output format for programming language (available: ('' @ [CHR 0x27] @ ''py'' @ [CHR 0x27] @ '', '' @ [CHR 0x27] @ ''c'' @ [CHR 0x27] @ '', '' @ [CHR 0x27] @ ''js'' @ [CHR 0x27] @ '', '' @ [CHR 0x27] @ ''asm'' @ [CHR 0x27] @ '', '' @ [CHR 0x27] @ ''hex'' @ [CHR 0x27] @ '', '' @ [CHR 0x27] @ ''bytearray'' @ [CHR 0x27] @ ''), default '' @ [CHR 0x27] @ ''py'' @ [CHR 0x27] @ '').'' @ [CHR 0x09] @ ''--bitlen SIZE specifies size of bit (possible values: (8, 16, 32, 64), default is 8).'' @ [CHR 0x09] @ ''--length LENGTH specifies length of array (default is 256).'' @ [CHR 0x09] @ ''--clip The output data will be copied to clipboard'' @ [CHR 0x09] @ ''LOCATION specifies where the address of bytes is stored.''),
     cd_examples = [''print-format --lang py -l 16 $rsp''],
     cd_aliases = [''pf''], cd_prefix = False, cd_complete = CompleteLocation, cd_root = True,
     cd_settings = [
       (''max_size_preview'', VInt 10, ''max size preview of bytes'')]\<rparr>"

definition decl_PieCommand :: "command_decl" where
  "decl_PieCommand =
    \<lparr>cd_name = ''pie'', cd_syntax = ''pie (breakpoint|info|delete|run|attach|remote)'',
     cd_examples = [[]],
     cd_aliases = [], cd_prefix = True, cd_complete = CompleteNone, cd_root = True,
     cd_settings = []\<rparr>"

definition decl_PieBreakpointCommand :: "command_decl" where
  "decl_PieBreakpointCommand =
    \<lparr>cd_name = ''pie breakpoint'', cd_syntax = ''pie breakpoint OFFSET'',
     cd_examples = [[]],
     cd_aliases = [], cd_prefix = False, cd_complete = CompleteNone, cd_root = True,
     cd_settings = []\<rparr>"

definition decl_PieInfoCommand :: "command_decl" where
  "decl_PieInfoCommand =
    \<lparr>cd_name = ''pie info'', cd_syntax = ''pie info BREAKPOINT'',
     cd_examples = [[]],
     cd_aliases = [], cd_prefix = False, cd_complete = CompleteNone, cd_root = True,
     cd_settings = []\<rparr>"

definition decl_PieDeleteCommand :: "command_decl" where
  "decl_PieDeleteCommand =
    \<lparr>cd_name = ''pie delete'', cd_syntax = ''pie delete [BREAKPOINT]'',
     cd_examples = [[]],
     cd_aliases = [], cd_prefix = False, cd_complete = CompleteNone, cd_root = True,
     cd_settings = []\<rparr>"

definition decl_PieRunCommand :: "command_decl" where
  "decl_PieRunCommand =
    \<lparr>cd_name = ''pie run'', cd_syntax = ''pie run'',
     cd_examples = [[]],
     cd_aliases = [], cd_prefix = False, cd_complete = CompleteNone, cd_root = True,
     cd_settings = []\<rparr>"

definition decl_PieAttachCommand :: "command_decl" where
  "decl_PieAttachCommand =
    \<lparr>cd_name = ''pie attach'', cd_syntax = ''pie attach PID'',
     cd_examples = [[]],
     cd_aliases = [], cd_prefix = False, cd_complete = CompleteNone, cd_root = True,
     cd_settings = []\<rparr>"

definition decl_PieRemoteCommand :: "command_decl" where
  "decl_PieRemoteCommand =
    \<lparr>cd_name = ''pie remote'', cd_syntax = ''pie remote REMOTE'',
     cd_examples = [[]],
     cd_aliases = [], cd_prefix = False, cd_complete = CompleteNone, cd_root = True,
     cd_settings = []\<rparr>"

definition decl_SmartEvalCommand :: "command_decl" where
  "decl_SmartEvalCommand =
    \<lparr>cd_name = ''$'', cd_syntax = (''$ EXPR'' @ [CHR 0x0A] @ ''$ ADDRESS1 ADDRESS2''),
     cd_examples = [([CHR 0x0A] @ ''$ $pc+1'' @ [CHR 0x0A] @ ''$ 0x00007ffff7a10000 0x00007ffff7bce000'')],
     cd_aliases = [], cd_prefix = False, cd_complete = CompleteNone, cd_root = True,
     cd_settings = []\<rparr>"

definition decl_CanaryCommand :: "command_decl" where
  "decl_CanaryCommand =
    \<lparr>cd_name = ''canary'', cd_syntax = ''canary'',
     cd_examples = [[]],
     cd_aliases = [], cd_prefix = False, cd_complete = CompleteNone, cd_root = True,
     cd_settings = []\<rparr>"

definition decl_ProcessStatusCommand :: "command_decl" where
  "decl_ProcessStatusCommand =
    \<lparr>cd_name = ''process-status'', cd_syntax = ''process-status'',
     cd_examples = [[]],
     cd_aliases = [''status''], cd_prefix = False, cd_complete = CompleteNone, cd_root = True,
     cd_settings = []\<rparr>"

definition decl_GefThemeCommand :: "command_decl" where
  "decl_GefThemeCommand =
    \<lparr>cd_name = ''theme'', cd_syntax = ''theme [KEY [VALUE]]'',
     cd_examples = [[]],
     cd_aliases = [], cd_prefix = False, cd_complete = CompleteNone, cd_root = True,
     cd_settings = [
       (''context_title_line'', VStr ''gray'', ''Color of the borders in context window''), 
       (''context_title_message'', VStr ''cyan'', ''Color of the title in context window''), 
       (''default_title_line'', VStr ''gray'', ''Default color of borders''), 
       (''default_title_message'', VStr ''cyan'', ''Default color of title''), 
       (''table_heading'', VStr ''blue'', ''Color of the column headings to tables (e.g. vmmap)''), 
       (''old_context'', VStr ''gray'', ''Color to use to show things such as code that is not immediately relevant''), 
       (''disassemble_current_instruction'', VStr ''green'', ''Color to use to highlight the current $pc when disassembling''), 
       (''dereference_string'', VStr ''yellow'', ''Color of dereferenced string''), 
       (''dereference_code'', VStr ''gray'', ''Color of dereferenced code''), 
       (''dereference_base_address'', VStr ''cyan'', ''Color of dereferenced address''), 
       (''dereference_register_value'', VStr ''bold blue'', ''Color of dereferenced register''), 
       (''registers_register_name'', VStr ''blue'', ''Color of the register name in the register window''), 
       (''registers_value_changed'', VStr ''bold red'', ''Color of the changed register in the register window''), 
       (''address_stack'', VStr ''pink'', ''Color to use when a stack address is found''), 
       (''address_heap'', VStr ''green'', ''Color to use when a heap address is found''), 
       (''address_code'', VStr ''red'', ''Color to use when a code address is found''), 
       (''source_current_line'', VStr ''green'', ''Color to use for the current code line in the source window'')]\<rparr>"

definition decl_PCustomCommand :: "command_decl" where
  "decl_PCustomCommand =
    \<lparr>cd_name = ''pcustom'', cd_syntax = ''pcustom [list|edit <StructureName>|show <StructureName>]|<StructureName> 0xADDRESS]'',
     cd_examples = [[]],
     cd_aliases = [], cd_prefix = True, cd_complete = CompleteNone, cd_root = True,
     cd_settings = [
       (''max_depth'', VInt 4, ''Maximum level of recursion supported''), 
       (''structure_name'', VStr ''bold blue'', ''Color of the structure name''), 
       (''structure_type'', VStr ''bold red'', ''Color of the attribute type''), 
       (''structure_size'', VStr ''green'', ''Color of the attribute size'')]\<rparr>"

definition decl_PCustomListCommand :: "command_decl" where
  "decl_PCustomListCommand =
    \<lparr>cd_name = ''pcustom list'', cd_syntax = ''pcustom list'',
     cd_examples = [[]],
     cd_aliases = [], cd_prefix = True, cd_complete = CompleteNone, cd_root = False,
     cd_settings = [
       (''max_depth'', VInt 4, ''Maximum level of recursion supported''), 
       (''structure_name'', VStr ''bold blue'', ''Color of the structure name''), 
       (''structure_type'', VStr ''bold red'', ''Color of the attribute type''), 
       (''structure_size'', VStr ''green'', ''Color of the attribute size'')]\<rparr>"

definition decl_PCustomShowCommand :: "command_decl" where
  "decl_PCustomShowCommand =
    \<lparr>cd_name = ''pcustom show'', cd_syntax = ''pcustom show StructureName'',
     cd_examples = [[]],
     cd_aliases = [''pcustom create'', ''pcustom update''], cd_prefix = True, cd_complete = CompleteNone, cd_root = False,
     cd_settings = [
       (''max_depth'', VInt 4, ''Maximum level of recursion supported''), 
       (''structure_name'', VStr ''bold blue'', ''Color of the structure name''), 
       (''structure_type'', VStr ''bold red'', ''Color of the attribute type''), 
       (''structure_size'', VStr ''green'', ''Color of the attribute size'')]\<rparr>"

definition decl_PCustomEditCommand :: "command_decl" where
  "decl_PCustomEditCommand =
    \<lparr>cd_name = ''pcustom edit'', cd_syntax = ''pcustom edit StructureName'',
     cd_examples = [[]],
     cd_aliases = [], cd_prefix = True, cd_complete = CompleteNone, cd_root = False,
     cd_settings = [
       (''max_depth'', VInt 4, ''Maximum level of recursion supported''), 
       (''structure_name'', VStr ''bold blue'', ''Color of the structure name''), 
       (''structure_type'', VStr ''bold red'', ''Color of the attribute type''), 
       (''structure_size'', VStr ''green'', ''Color of the attribute size'')]\<rparr>"

definition decl_ChangeFdCommand :: "command_decl" where
  "decl_ChangeFdCommand =
    \<lparr>cd_name = ''hijack-fd'', cd_syntax = ''hijack-fd FD_NUM NEW_OUTPUT'',
     cd_examples = [''hijack-fd 2 /tmp/stderr_output.txt''],
     cd_aliases = [], cd_prefix = False, cd_complete = CompleteNone, cd_root = True,
     cd_settings = []\<rparr>"

definition decl_ScanSectionCommand :: "command_decl" where
  "decl_ScanSectionCommand =
    \<lparr>cd_name = ''scan'', cd_syntax = ''scan HAYSTACK NEEDLE'',
     cd_examples = [([CHR 0x0A] @ ''scan stack libc'')],
     cd_aliases = [''lookup''], cd_prefix = False, cd_complete = CompleteNone, cd_root = True,
     cd_settings = []\<rparr>"

definition decl_SearchPatternCommand :: "command_decl" where
  "decl_SearchPatternCommand =
    \<lparr>cd_name = ''search-pattern'', cd_syntax = ''search-pattern PATTERN [little|big] [section]'',
     cd_examples = [''search-pattern AAAAAAAA'', ''search-pattern 0x555555554000 little stack'', ''search-pattern AAAA 0x600000-0x601000'', (''search-pattern --regex 0x401000 0x401500 (['' @ [CHR 0x5C] @ [CHR 0x5C] @ ''x20-'' @ [CHR 0x5C] @ [CHR 0x5C] @ ''x7E]{2,})(?='' @ [CHR 0x5C] @ [CHR 0x5C] @ ''x00)   <-- It matchs null-end-printable(from x20-x7e) C strings (min size 2 bytes)'')],
     cd_aliases = [''grep'', ''xref''], cd_prefix = False, cd_complete = CompleteNone, cd_root = True,
     cd_settings = [
       (''max_size_preview'', VInt 10, ''max size preview of bytes''), 
       (''nr_pages_chunk'', VInt 1024, ''number of pages readed for each memory read chunk'')]\<rparr>"

definition decl_FlagsCommand :: "command_decl" where
  "decl_FlagsCommand =
    \<lparr>cd_name = ''edit-flags'', cd_syntax = ''edit-flags [(+|-|~)FLAGNAME ...]'',
     cd_examples = [([CHR 0x0A] @ ''edit-flags'' @ [CHR 0x0A] @ ''edit-flags +zero # sets ZERO flag'')],
     cd_aliases = [''flags''], cd_prefix = False, cd_complete = CompleteNone, cd_root = True,
     cd_settings = []\<rparr>"

definition decl_RemoteCommand :: "command_decl" where
  "decl_RemoteCommand =
    \<lparr>cd_name = ''gef-remote'', cd_syntax = ''gef-remote [OPTIONS] TARGET'',
     cd_examples = [''gef-remote localhost 1234'', ''gef-remote --pid 6789 localhost 1234'', ''gef-remote --qemu-user --qemu-binary /bin/debugme localhost 4444 ''],
     cd_aliases = [], cd_prefix = False, cd_complete = CompleteNone, cd_root = True,
     cd_settings = []\<rparr>"

definition decl_SkipiCommand :: "command_decl" where
  "decl_SkipiCommand =
    \<lparr>cd_name = ''skipi'', cd_syntax = (''skipi [LOCATION] [--n NUM_INSTRUCTIONS]'' @ [CHR 0x0A] @ [CHR 0x09] @ ''LOCATION'' @ [CHR 0x09] @ ''address/symbol from where to skip'' @ [CHR 0x09] @ ''--n NUM_INSTRUCTIONS'' @ [CHR 0x09] @ ''Skip the specified number of instructions instead of the default 1.''),
     cd_examples = [''skipi'', ''skipi --n 3'', ''skipi 0x69696969'', ''skipi 0x69696969 --n 6''],
     cd_aliases = [], cd_prefix = False, cd_complete = CompleteLocation, cd_root = True,
     cd_settings = []\<rparr>"

definition decl_NopCommand :: "command_decl" where
  "decl_NopCommand =
    \<lparr>cd_name = ''nop'', cd_syntax = (''nop [LOCATION] [--i ITEMS] [--f] [--n] [--b]'' @ [CHR 0x0A] @ [CHR 0x09] @ ''LOCATION'' @ [CHR 0x09] @ ''address/symbol to patch (by default this command replaces whole instructions)'' @ [CHR 0x09] @ ''--i ITEMS'' @ [CHR 0x09] @ ''number of items to insert (default 1)'' @ [CHR 0x09] @ ''--f'' @ [CHR 0x09] @ ''Force patch even when the selected settings could overwrite partial instructions'' @ [CHR 0x09] @ ''--n'' @ [CHR 0x09] @ ''Instead of replacing whole instructions, insert ITEMS nop instructions, no matter how many instructions it overwrites'' @ [CHR 0x09] @ ''--b'' @ [CHR 0x09] @ ''Instead of replacing whole instructions, fill ITEMS bytes with nops''),
     cd_examples = [''nop'', ''nop $pc+3'', ''nop --i 2 $pc+3'', ''nop --b'', ''nop --b $pc+3'', ''nop --f --b --i 2 $pc+3nop --n --i 2 $pc+3''],
     cd_aliases = [], cd_prefix = False, cd_complete = CompleteLocation, cd_root = True,
     cd_settings = []\<rparr>"

definition decl_StubCommand :: "command_decl" where
  "decl_StubCommand =
    \<lparr>cd_name = ''stub'', cd_syntax = (''stub [--retval RETVAL] [address]'' @ [CHR 0x09] @ ''address'' @ [CHR 0x09] @ ''address/symbol to stub out'' @ [CHR 0x09] @ ''--retval RETVAL'' @ [CHR 0x09] @ ''Set the return value''),
     cd_examples = [''stub --retval 0 fork''],
     cd_aliases = [], cd_prefix = False, cd_complete = CompleteLocation, cd_root = True,
     cd_settings = []\<rparr>"

definition decl_GlibcHeapCommand :: "command_decl" where
  "decl_GlibcHeapCommand =
    \<lparr>cd_name = ''heap'', cd_syntax = ''heap (chunk|chunks|bins|arenas|set-arena)'',
     cd_examples = [[]],
     cd_aliases = [], cd_prefix = True, cd_complete = CompleteNone, cd_root = True,
     cd_settings = []\<rparr>"

definition decl_GlibcHeapSetArenaCommand :: "command_decl" where
  "decl_GlibcHeapSetArenaCommand =
    \<lparr>cd_name = ''heap set-arena'', cd_syntax = ''heap set-arena [address|&symbol]'',
     cd_examples = [''heap set-arena 0x001337001337''],
     cd_aliases = [], cd_prefix = False, cd_complete = CompleteLocation, cd_root = True,
     cd_settings = []\<rparr>"

definition decl_GlibcHeapArenaCommand :: "command_decl" where
  "decl_GlibcHeapArenaCommand =
    \<lparr>cd_name = ''heap arenas'', cd_syntax = ''heap arenas'',
     cd_examples = [[]],
     cd_aliases = [], cd_prefix = False, cd_complete = CompleteNone, cd_root = True,
     cd_settings = []\<rparr>"

definition decl_GlibcHeapChunkCommand :: "command_decl" where
  "decl_GlibcHeapChunkCommand =
    \<lparr>cd_name = ''heap chunk'', cd_syntax = ''heap chunk [-h] [--allow-unaligned] [--number] address'',
     cd_examples = [[]],
     cd_aliases = [], cd_prefix = False, cd_complete = CompleteLocation, cd_root = True,
     cd_settings = []\<rparr>"

definition decl_GlibcHeapChunksCommand :: "command_decl" where
  "decl_GlibcHeapChunksCommand =
    \<lparr>cd_name = ''heap chunks'', cd_syntax = ''heap chunks [-h] [--all] [--allow-unaligned] [--summary] [--min-size MIN_SIZE] [--max-size MAX_SIZE] [--count COUNT] [--resolve] [arena_address]'',
     cd_examples = [([CHR 0x0A] @ ''heap chunks'' @ [CHR 0x0A] @ ''heap chunks 0x555555775000'')],
     cd_aliases = [], cd_prefix = False, cd_complete = CompleteLocation, cd_root = True,
     cd_settings = [
       (''peek_nb_byte'', VInt 16, ''Hexdump N first byte(s) inside the chunk data (0 to disable)'')]\<rparr>"

definition decl_GlibcHeapBinsCommand :: "command_decl" where
  "decl_GlibcHeapBinsCommand =
    \<lparr>cd_name = ''heap bins'', cd_syntax = ''heap bins [tcache|fast|unsorted|small|large]'',
     cd_examples = [[]],
     cd_aliases = [], cd_prefix = True, cd_complete = CompleteLocation, cd_root = True,
     cd_settings = []\<rparr>"

definition decl_GlibcHeapTcachebinsCommand :: "command_decl" where
  "decl_GlibcHeapTcachebinsCommand =
    \<lparr>cd_name = ''heap bins tcache'', cd_syntax = ''heap bins tcache [all] [thread_ids...]'',
     cd_examples = [[]],
     cd_aliases = [], cd_prefix = False, cd_complete = CompleteLocation, cd_root = True,
     cd_settings = []\<rparr>"

definition decl_GlibcHeapFastbinsYCommand :: "command_decl" where
  "decl_GlibcHeapFastbinsYCommand =
    \<lparr>cd_name = ''heap bins fast'', cd_syntax = ''heap bins fast [ARENA_ADDRESS]'',
     cd_examples = [[]],
     cd_aliases = [], cd_prefix = False, cd_complete = CompleteLocation, cd_root = True,
     cd_settings = []\<rparr>"

definition decl_GlibcHeapUnsortedBinsCommand :: "command_decl" where
  "decl_GlibcHeapUnsortedBinsCommand =
    \<lparr>cd_name = ''heap bins unsorted'', cd_syntax = ''heap bins unsorted [ARENA_ADDRESS]'',
     cd_examples = [[]],
     cd_aliases = [], cd_prefix = False, cd_complete = CompleteLocation, cd_root = True,
     cd_settings = []\<rparr>"

definition decl_GlibcHeapSmallBinsCommand :: "command_decl" where
  "decl_GlibcHeapSmallBinsCommand =
    \<lparr>cd_name = ''heap bins small'', cd_syntax = ''heap bins small [ARENA_ADDRESS]'',
     cd_examples = [[]],
     cd_aliases = [], cd_prefix = False, cd_complete = CompleteLocation, cd_root = True,
     cd_settings = []\<rparr>"

definition decl_GlibcHeapLargeBinsCommand :: "command_decl" where
  "decl_GlibcHeapLargeBinsCommand =
    \<lparr>cd_name = ''heap bins large'', cd_syntax = ''heap bins large [ARENA_ADDRESS]'',
     cd_examples = [[]],
     cd_aliases = [], cd_prefix = False, cd_complete = CompleteLocation, cd_root = True,
     cd_settings = []\<rparr>"

definition decl_DetailRegistersCommand :: "command_decl" where
  "decl_DetailRegistersCommand =
    \<lparr>cd_name = ''registers'', cd_syntax = ''registers [[Register1][Register2] ... [RegisterN]]'',
     cd_examples = [([CHR 0x0A] @ ''registers'' @ [CHR 0x0A] @ ''registers $eax $eip $esp'')],
     cd_aliases = [], cd_prefix = False, cd_complete = CompleteNone, cd_root = True,
     cd_settings = []\<rparr>"

definition decl_ShellcodeCommand :: "command_decl" where
  "decl_ShellcodeCommand =
    \<lparr>cd_name = ''shellcode'', cd_syntax = ''shellcode (search|get)'',
     cd_examples = [[]],
     cd_aliases = [], cd_prefix = True, cd_complete = CompleteNone, cd_root = True,
     cd_settings = []\<rparr>"

definition decl_ShellcodeSearchCommand :: "command_decl" where
  "decl_ShellcodeSearchCommand =
    \<lparr>cd_name = ''shellcode search'', cd_syntax = ''shellcode search PATTERN1 PATTERN2'',
     cd_examples = [[]],
     cd_aliases = [''sc-search''], cd_prefix = False, cd_complete = CompleteNone, cd_root = True,
     cd_settings = []\<rparr>"

definition decl_ShellcodeGetCommand :: "command_decl" where
  "decl_ShellcodeGetCommand =
    \<lparr>cd_name = ''shellcode get'', cd_syntax = ''shellcode get SHELLCODE_ID'',
     cd_examples = [[]],
     cd_aliases = [''sc-get''], cd_prefix = False, cd_complete = CompleteNone, cd_root = True,
     cd_settings = []\<rparr>"

definition decl_ProcessListingCommand :: "string \<Rightarrow> command_decl" where
  "decl_ProcessListingCommand ps =
    \<lparr>cd_name = ''process-search'', cd_syntax = ''process-search [-h] [--attach] [--smart-scan] [REGEX_PATTERN]'',
     cd_examples = [''process-search gdb.*''],
     cd_aliases = [''ps''], cd_prefix = False, cd_complete = CompleteLocation, cd_root = True,
     cd_settings = [
       (''ps_command'', VStr (ps @ '' auxww''), ([CHR 0x60] @ ''ps'' @ [CHR 0x60] @ '' command to get process information''))]\<rparr>"

definition decl_ElfInfoCommand :: "command_decl" where
  "decl_ElfInfoCommand =
    \<lparr>cd_name = ''elf-info'', cd_syntax = ''elf-info [FILE]'',
     cd_examples = [''elf-info /bin/ls''],
     cd_aliases = [], cd_prefix = False, cd_complete = CompleteLocation, cd_root = True,
     cd_settings = []\<rparr>"

definition decl_EntryPointBreakCommand :: "command_decl" where
  "decl_EntryPointBreakCommand =
    \<lparr>cd_name = ''entry-break'', cd_syntax = ''entry-break'',
     cd_examples = [[]],
     cd_aliases = [''start''], cd_prefix = False, cd_complete = CompleteNone, cd_root = True,
     cd_settings = [
       (''entrypoint_symbols'', VStr ''main _main __libc_start_main __uClibc_main start _start'', ''Possible symbols for entry points'')]\<rparr>"

definition decl_NamedBreakpointCommand :: "command_decl" where
  "decl_NamedBreakpointCommand =
    \<lparr>cd_name = ''name-break'', cd_syntax = ''name-break name [address]'',
     cd_examples = [[]],
     cd_aliases = [''nb''], cd_prefix = False, cd_complete = CompleteNone, cd_root = True,
     cd_settings = []\<rparr>"

definition decl_ContextCommand :: "command_decl" where
  "decl_ContextCommand =
    \<lparr>cd_name = ''context'', cd_syntax = ''context [legend|regs|stack|code|args|memory|source|trace|threads|extra]'',
     cd_examples = [[]],
     cd_aliases = [''ctx''], cd_prefix = False, cd_complete = CompleteNone, cd_root = True,
     cd_settings = [
       (''enable'', VBool True, ''Enable/disable printing the context when breaking''), 
       (''show_source_code_variable_values'', VBool True, ''Show extra PC context info in the source code''), 
       (''show_full_source_file_name_max_len'', VInt 30, ''Show full source path name, if less than this value''), 
       (''show_basename_source_file_name_max_len'', VInt 20, ''Show the source basename in full, if less than this value''), 
       (''show_prefix_source_path_name_len'', VInt 10, ''When truncating source path, show this many path prefix characters''), 
       (''show_stack_raw'', VBool False, ''Show the stack pane as raw hexdump (no dereference)''), 
       (''show_registers_raw'', VBool False, ''Show the registers pane with raw values (no dereference)''), 
       (''show_opcodes_size'', VInt 0, ''Number of bytes of opcodes to display next to the disassembly''), 
       (''peek_calls'', VBool True, ''Peek into calls''), 
       (''peek_ret'', VBool True, ''Peek at return address''), 
       (''nb_lines_stack'', VInt 8, ''Number of line in the stack pane''), 
       (''grow_stack_down'', VBool False, ''Order of stack downward starts at largest down to stack pointer''), 
       (''nb_lines_backtrace'', VInt 10, ''Number of line in the backtrace pane''), 
       (''nb_lines_backtrace_before'', VInt 2, ''Number of line in the backtrace pane before selected frame''), 
       (''nb_lines_threads'', VInt (- 1), ''Number of line in the threads pane''), 
       (''nb_lines_code'', VInt 6, ''Number of instruction after $pc''), 
       (''nb_lines_code_prev'', VInt 3, ''Number of instruction before $pc''), 
       (''ignore_registers'', VStr [], (''Space-separated list of registers not to display (e.g. '' @ [CHR 0x27] @ ''$cs $ds $gs'' @ [CHR 0x27] @ '')'')), 
       (''clear_screen'', VBool True, ''Clear the screen before printing the context''), 
       (''layout'', VStr ''legend regs stack code args source memory threads trace extra'', ''Change the order/presence of the context sections''), 
       (''redirect'', VStr [], ''Redirect the context information to another TTY''), 
       (''libc_args'', VBool False, ''[DEPRECATED - Unused] Show libc function call args description''), 
       (''libc_args_path'', VStr [], ''[DEPRECATED - Unused] Path to libc function call args json files, provided via gef-extras'')]\<rparr>"

definition decl_MemoryCommand :: "command_decl" where
  "decl_MemoryCommand =
    \<lparr>cd_name = ''memory'', cd_syntax = ''memory (watch|unwatch|reset|list)'',
     cd_examples = [[]],
     cd_aliases = [], cd_prefix = True, cd_complete = CompleteNone, cd_root = True,
     cd_settings = []\<rparr>"

definition decl_MemoryWatchCommand :: "command_decl" where
  "decl_MemoryWatchCommand =
    \<lparr>cd_name = ''memory watch'', cd_syntax = ''memory watch ADDRESS [SIZE] [(qword|dword|word|byte|pointers)]'',
     cd_examples = [([CHR 0x0A] @ ''memory watch 0x603000 0x100 byte'' @ [CHR 0x0A] @ ''memory watch $sp'')],
     cd_aliases = [], cd_prefix = False, cd_complete = CompleteLocation, cd_root = True,
     cd_settings = []\<rparr>"

definition decl_MemoryUnwatchCommand :: "command_decl" where
  "decl_MemoryUnwatchCommand =
    \<lparr>cd_name = ''memory unwatch'', cd_syntax = ''memory unwatch ADDRESS'',
     cd_examples = [([CHR 0x0A] @ ''memory unwatch 0x603000'' @ [CHR 0x0A] @ ''memory unwatch $sp'')],
     cd_aliases = [], cd_prefix = False, cd_complete = CompleteLocation, cd_root = True,
     cd_settings = []\<rparr>"

definition decl_MemoryWatchResetCommand :: "command_decl" where
  "decl_MemoryWatchResetCommand =
    \<lparr>cd_name = ''memory reset'', cd_syntax = ''memory reset'',
     cd_examples = [[]],
     cd_aliases = [], cd_prefix = False, cd_complete = CompleteNone, cd_root = True,
     cd_settings = []\<rparr>"

definition decl_MemoryWatchListCommand :: "command_decl" where
  "decl_MemoryWatchListCommand =
    \<lparr>cd_name = ''memory list'', cd_syntax = ''memory list'',
     cd_examples = [[]],
     cd_aliases = [], cd_prefix = False, cd_complete = CompleteNone, cd_root = True,
     cd_settings = []\<rparr>"

definition decl_HexdumpCommand :: "command_decl" where
  "decl_HexdumpCommand =
    \<lparr>cd_name = ''hexdump'', cd_syntax = ''hexdump (qword|dword|word|byte) [LOCATION] [--size SIZE] [--reverse]'',
     cd_examples = [''hexdump byte $rsp --size 16 --reverse''],
     cd_aliases = [], cd_prefix = True, cd_complete = CompleteLocation, cd_root = True,
     cd_settings = [
       (''always_show_ascii'', VBool False, ''If true, hexdump will always display the ASCII dump'')]\<rparr>"

definition decl_HexdumpQwordCommand :: "command_decl" where
  "decl_HexdumpQwordCommand =
    \<lparr>cd_name = ''hexdump qword'', cd_syntax = ''hexdump qword [ADDRESS] [--size SIZE] [--reverse]'',
     cd_examples = [''hexdump qword qword $rsp -s 16 --reverse''],
     cd_aliases = [], cd_prefix = True, cd_complete = CompleteLocation, cd_root = False,
     cd_settings = [
       (''always_show_ascii'', VBool False, ''If true, hexdump will always display the ASCII dump'')]\<rparr>"

definition decl_HexdumpDwordCommand :: "command_decl" where
  "decl_HexdumpDwordCommand =
    \<lparr>cd_name = ''hexdump dword'', cd_syntax = ''hexdump dword [ADDRESS] [--size SIZE] [--reverse]'',
     cd_examples = [''hexdump dword $esp -s 16 --reverse''],
     cd_aliases = [], cd_prefix = True, cd_complete = CompleteLocation, cd_root = False,
     cd_settings = [
       (''always_show_ascii'', VBool False, ''If true, hexdump will always display the ASCII dump'')]\<rparr>"

definition decl_HexdumpWordCommand :: "command_decl" where
  "decl_HexdumpWordCommand =
    \<lparr>cd_name = ''hexdump word'', cd_syntax = ''hexdump word [ADDRESS] [--size SIZE] [--reverse]'',
     cd_examples = [''hexdump word $esp -s 16 --reverse''],
     cd_aliases = [], cd_prefix = True, cd_complete = CompleteLocation, cd_root = False,
     cd_settings = [
       (''always_show_ascii'', VBool False, ''If true, hexdump will always display the ASCII dump'')]\<rparr>"

definition decl_HexdumpByteCommand :: "command_decl" where
  "decl_HexdumpByteCommand =
    \<lparr>cd_name = ''hexdump byte'', cd_syntax = ''hexdump byte [ADDRESS] [--size SIZE] [--reverse]'',
     cd_examples = [''hexdump byte $rsp -s 16''],
     cd_aliases = [], cd_prefix = True, cd_complete = CompleteLocation, cd_root = False,
     cd_settings = [
       (''always_show_ascii'', VBool False, ''If true, hexdump will always display the ASCII dump'')]\<rparr>"

definition decl_PatchCommand :: "command_decl" where
  "decl_PatchCommand =
    \<lparr>cd_name = ''patch'', cd_syntax = (''patch (qword|dword|word|byte) LOCATION VALUES'' @ [CHR 0x0A] @ ''patch string LOCATION '' @ [CHR 0x22] @ ''double-escaped string'' @ [CHR 0x22]),
     cd_examples = [[]],
     cd_aliases = [], cd_prefix = True, cd_complete = CompleteLocation, cd_root = True,
     cd_settings = []\<rparr>"

definition decl_PatchQwordCommand :: "command_decl" where
  "decl_PatchQwordCommand =
    \<lparr>cd_name = ''patch qword'', cd_syntax = ''patch qword LOCATION QWORD1 [QWORD2 [QWORD3..]]'',
     cd_examples = [''patch qword $rip 0x4141414141414141''],
     cd_aliases = [], cd_prefix = True, cd_complete = CompleteLocation, cd_root = False,
     cd_settings = []\<rparr>"

definition decl_PatchDwordCommand :: "command_decl" where
  "decl_PatchDwordCommand =
    \<lparr>cd_name = ''patch dword'', cd_syntax = ''patch dword LOCATION DWORD1 [DWORD2 [DWORD3..]]'',
     cd_examples = [''patch dword $rip 0x41414141''],
     cd_aliases = [], cd_prefix = True, cd_complete = CompleteLocation, cd_root = False,
     cd_settings = []\<rparr>"

definition decl_PatchWordCommand :: "command_decl" where
  "decl_PatchWordCommand =
    \<lparr>cd_name = ''patch word'', cd_syntax = ''patch word LOCATION WORD1 [WORD2 [WORD3..]]'',
     cd_examples = [''patch word $rip 0x4141''],
     cd_aliases = [], cd_prefix = True, cd_complete = CompleteLocation, cd_root = False,
     cd_settings = []\<rparr>"

definition decl_PatchByteCommand :: "command_decl" where
  "decl_PatchByteCommand =
    \<lparr>cd_name = ''patch byte'', cd_syntax = ''patch byte LOCATION BYTE1 [BYTE2 [BYTE3..]]'',
     cd_examples = [''patch byte $pc 0x41 0x41 0x41 0x41 0x41''],
     cd_aliases = [], cd_prefix = True, cd_complete = CompleteLocation, cd_root = False,
     cd_settings = []\<rparr>"

definition decl_PatchStringCommand :: "command_decl" where
  "decl_PatchStringCommand =
    \<lparr>cd_name = ''patch string'', cd_syntax = (''patch string ADDRESS '' @ [CHR 0x22] @ ''double backslash-escaped string'' @ [CHR 0x22]),
     cd_examples = [(''patch string $sp '' @ [CHR 0x22] @ ''GEFROCKS'' @ [CHR 0x22]), (''patch string $sp '' @ [CHR 0x22] @ [CHR 0x5C] @ [CHR 0x5C] @ ''x41'' @ [CHR 0x5C] @ [CHR 0x5C] @ ''x41'' @ [CHR 0x5C] @ [CHR 0x5C] @ ''x41'' @ [CHR 0x5C] @ [CHR 0x5C] @ ''x41'' @ [CHR 0x22])],
     cd_aliases = [], cd_prefix = False, cd_complete = CompleteNone, cd_root = True,
     cd_settings = []\<rparr>"

definition decl_DereferenceCommand :: "command_decl" where
  "decl_DereferenceCommand =
    \<lparr>cd_name = ''dereference'', cd_syntax = ''dereference [-h] [--length LENGTH] [--reference REFERENCE] [address]'',
     cd_examples = [''dereference --length 20 --reference $sp+0x10 $sp''],
     cd_aliases = [''telescope''], cd_prefix = False, cd_complete = CompleteLocation, cd_root = True,
     cd_settings = [
       (''max_recursion'', VInt 7, ''Maximum level of pointer recursion'')]\<rparr>"

definition decl_ASLRCommand :: "command_decl" where
  "decl_ASLRCommand =
    \<lparr>cd_name = ''aslr'', cd_syntax = ''aslr [(on|off)]'',
     cd_examples = [[]],
     cd_aliases = [], cd_prefix = False, cd_complete = CompleteNone, cd_root = True,
     cd_settings = []\<rparr>"

definition decl_ResetCacheCommand :: "command_decl" where
  "decl_ResetCacheCommand =
    \<lparr>cd_name = ''reset-cache'', cd_syntax = ''reset-cache'',
     cd_examples = [[]],
     cd_aliases = [], cd_prefix = False, cd_complete = CompleteNone, cd_root = True,
     cd_settings = []\<rparr>"

definition decl_VMMapCommand :: "command_decl" where
  "decl_VMMapCommand =
    \<lparr>cd_name = ''vmmap'', cd_syntax = ''vmmap [FILTER]'',
     cd_examples = [''vmmap libc''],
     cd_aliases = [], cd_prefix = False, cd_complete = CompleteNone, cd_root = True,
     cd_settings = []\<rparr>"

definition decl_XFilesCommand :: "command_decl" where
  "decl_XFilesCommand =
    \<lparr>cd_name = ''xfiles'', cd_syntax = ''xfiles [FILE [NAME]]'',
     cd_examples = [([CHR 0x0A] @ ''xfiles libc'' @ [CHR 0x0A] @ ''xfiles libc IO_vtables'')],
     cd_aliases = [], cd_prefix = False, cd_complete = CompleteNone, cd_root = True,
     cd_settings = []\<rparr>"

definition decl_XAddressInfoCommand :: "command_decl" where
  "decl_XAddressInfoCommand =
    \<lparr>cd_name = ''xinfo'', cd_syntax = ''xinfo LOCATION'',
     cd_examples = [''xinfo $pc''],
     cd_aliases = [], cd_prefix = False, cd_complete = CompleteLocation, cd_root = True,
     cd_settings = []\<rparr>"

definition decl_XorMemoryCommand :: "command_decl" where
  "decl_XorMemoryCommand =
    \<lparr>cd_name = ''xor-memory'', cd_syntax = ''xor-memory (display|patch) ADDRESS SIZE KEY'',
     cd_examples = [[]],
     cd_aliases = [], cd_prefix = True, cd_complete = CompleteNone, cd_root = True,
     cd_settings = []\<rparr>"

definition decl_XorMemoryDisplayCommand :: "command_decl" where
  "decl_XorMemoryDisplayCommand =
    \<lparr>cd_name = ''xor-memory display'', cd_syntax = ''xor-memory display ADDRESS SIZE KEY'',
     cd_examples = [''xor-memory display $sp 16 41414141''],
     cd_aliases = [], cd_prefix = False, cd_complete = CompleteNone, cd_root = True,
     cd_settings = []\<rparr>"

definition decl_XorMemoryPatchCommand :: "command_decl" where
  "decl_XorMemoryPatchCommand =
    \<lparr>cd_name = ''xor-memory patch'', cd_syntax = ''xor-memory patch ADDRESS SIZE KEY'',
     cd_examples = [''xor-memory patch $sp 16 41414141''],
     cd_aliases = [], cd_prefix = False, cd_complete = CompleteNone, cd_root = True,
     cd_settings = []\<rparr>"

definition decl_TraceRunCommand :: "command_decl" where
  "decl_TraceRunCommand =
    \<lparr>cd_name = ''trace-run'', cd_syntax = ''trace-run LOCATION [MAX_CALL_DEPTH]'',
     cd_examples = [''trace-run 0x555555554610''],
     cd_aliases = [], cd_prefix = False, cd_complete = CompleteLocation, cd_root = True,
     cd_settings = [
       (''max_tracing_recursion'', VInt 1, ''Maximum depth of tracing''), 
       (''tracefile_prefix'', VStr ''./gef-trace-'', ''Specify the tracing output file prefix'')]\<rparr>"

definition decl_PatternCommand :: "command_decl" where
  "decl_PatternCommand =
    \<lparr>cd_name = ''pattern'', cd_syntax = ''pattern (create|search) ARGS'',
     cd_examples = [[]],
     cd_aliases = [], cd_prefix = True, cd_complete = CompleteNone, cd_root = True,
     cd_settings = [
       (''length'', VInt 1024, ''Default length of a cyclic buffer to generate'')]\<rparr>"

definition decl_PatternCreateCommand :: "command_decl" where
  "decl_PatternCreateCommand =
    \<lparr>cd_name = ''pattern create'', cd_syntax = ''pattern create [-h] [-n N] [length]'',
     cd_examples = [''pattern create 4096'', ''pattern create -n 4 128''],
     cd_aliases = [], cd_prefix = False, cd_complete = CompleteNone, cd_root = True,
     cd_settings = []\<rparr>"

definition decl_PatternSearchCommand :: "command_decl" where
  "decl_PatternSearchCommand =
    \<lparr>cd_name = ''pattern search'', cd_syntax = ''pattern search [-h] [-n N] [--max-length MAX_LENGTH] [pattern]'',
     cd_examples = [''pattern search $pc'', ''pattern search 0x61616164'', ''pattern search aaab''],
     cd_aliases = [''pattern offset''], cd_prefix = False, cd_complete = CompleteNone, cd_root = True,
     cd_settings = []\<rparr>"

definition decl_ChecksecCommand :: "command_decl" where
  "decl_ChecksecCommand =
    \<lparr>cd_name = ''checksec'', cd_syntax = ''checksec [FILENAME]'',
     cd_examples = [''checksec /bin/ls''],
     cd_aliases = [], cd_prefix = False, cd_complete = CompleteFilename, cd_root = True,
     cd_settings = []\<rparr>"

definition decl_GotCommand :: "command_decl" where
  "decl_GotCommand =
    \<lparr>cd_name = ''got'', cd_syntax = ''got [FUNCTION_NAME ...] '',
     cd_examples = [''got read printf exit''],
     cd_aliases = [], cd_prefix = False, cd_complete = CompleteNone, cd_root = True,
     cd_settings = [
       (''function_resolved'', VStr ''green'', ''Line color of the got command output for resolved function''), 
       (''function_not_resolved'', VStr ''yellow'', ''Line color of the got command output for unresolved function'')]\<rparr>"

definition decl_HighlightCommand :: "command_decl" where
  "decl_HighlightCommand =
    \<lparr>cd_name = ''highlight'', cd_syntax = ''highlight (add|remove|list|clear)'',
     cd_examples = [[]],
     cd_aliases = [''hl''], cd_prefix = True, cd_complete = CompleteNone, cd_root = True,
     cd_settings = [
       (''regex'', VBool False, ''Enable regex highlighting'')]\<rparr>"

definition decl_HighlightListCommand :: "command_decl" where
  "decl_HighlightListCommand =
    \<lparr>cd_name = ''highlight list'', cd_syntax = ''highlight list'',
     cd_examples = [[]],
     cd_aliases = [''highlight ls'', ''hll''], cd_prefix = False, cd_complete = CompleteNone, cd_root = True,
     cd_settings = []\<rparr>"

definition decl_HighlightClearCommand :: "command_decl" where
  "decl_HighlightClearCommand =
    \<lparr>cd_name = ''highlight clear'', cd_syntax = ''highlight clear'',
     cd_examples = [[]],
     cd_aliases = [''hlc''], cd_prefix = False, cd_complete = CompleteNone, cd_root = True,
     cd_settings = []\<rparr>"

definition decl_HighlightAddCommand :: "command_decl" where
  "decl_HighlightAddCommand =
    \<lparr>cd_name = ''highlight add'', cd_syntax = ''highlight add MATCH COLOR'',
     cd_examples = [''highlight add 41414141 yellow''],
     cd_aliases = [''highlight set'', ''hla''], cd_prefix = False, cd_complete = CompleteNone, cd_root = True,
     cd_settings = []\<rparr>"

definition decl_HighlightRemoveCommand :: "command_decl" where
  "decl_HighlightRemoveCommand =
    \<lparr>cd_name = ''highlight remove'', cd_syntax = ''highlight remove MATCH'',
     cd_examples = [''highlight remove remove 41414141''],
     cd_aliases = [''highlight delete'', ''highlight del'', ''highlight unset'', ''highlight rm'', ''hlr''], cd_prefix = False, cd_complete = CompleteNone, cd_root = True,
     cd_settings = []\<rparr>"

definition decl_FormatStringSearchCommand :: "command_decl" where
  "decl_FormatStringSearchCommand =
    \<lparr>cd_name = ''format-string-helper'', cd_syntax = ''format-string-helper'',
     cd_examples = [[]],
     cd_aliases = [''fmtstr-helper''], cd_prefix = False, cd_complete = CompleteNone, cd_root = True,
     cd_settings = []\<rparr>"

definition decl_HeapAnalysisCommand :: "command_decl" where
  "decl_HeapAnalysisCommand =
    \<lparr>cd_name = ''heap-analysis-helper'', cd_syntax = ''heap-analysis-helper'',
     cd_examples = [[]],
     cd_aliases = [], cd_prefix = False, cd_complete = CompleteNone, cd_root = True,
     cd_settings = [
       (''check_free_null'', VBool False, ''Break execution when a free(NULL) is encountered''), 
       (''check_double_free'', VBool True, ''Break execution when a double free is encountered''), 
       (''check_weird_free'', VBool True, ''Break execution when free() is called against a non-tracked pointer''), 
       (''check_uaf'', VBool True, ''Break execution when a possible Use-after-Free condition is found''), 
       (''check_heap_overlap'', VBool True, ''Break execution when a possible overlap in allocation is found'')]\<rparr>"

definition decl_GefFunctionsCommand :: "command_decl" where
  "decl_GefFunctionsCommand =
    \<lparr>cd_name = ''functions'', cd_syntax = ''functions'',
     cd_examples = [[]],
     cd_aliases = [], cd_prefix = False, cd_complete = CompleteNone, cd_root = True,
     cd_settings = []\<rparr>"

definition decl_AliasesCommand :: "command_decl" where
  "decl_AliasesCommand =
    \<lparr>cd_name = ''aliases'', cd_syntax = ''aliases (add|rm|ls)'',
     cd_examples = [[]],
     cd_aliases = [], cd_prefix = True, cd_complete = CompleteNone, cd_root = True,
     cd_settings = []\<rparr>"

definition decl_AliasesAddCommand :: "command_decl" where
  "decl_AliasesAddCommand =
    \<lparr>cd_name = ''aliases add'', cd_syntax = ''aliases add [ALIAS] [COMMAND]'',
     cd_examples = [''aliases add scope telescope''],
     cd_aliases = [], cd_prefix = True, cd_complete = CompleteNone, cd_root = False,
     cd_settings = []\<rparr>"

definition decl_AliasesRmCommand :: "command_decl" where
  "decl_AliasesRmCommand =
    \<lparr>cd_name = ''aliases rm'', cd_syntax = ''aliases rm [ALIAS]'',
     cd_examples = [[]],
     cd_aliases = [], cd_prefix = True, cd_complete = CompleteNone, cd_root = False,
     cd_settings = []\<rparr>"

definition decl_AliasesListCommand :: "command_decl" where
  "decl_AliasesListCommand =
    \<lparr>cd_name = ''aliases ls'', cd_syntax = ''aliases ls'',
     cd_examples = [[]],
     cd_aliases = [], cd_prefix = True, cd_complete = CompleteNone, cd_root = False,
     cd_settings = []\<rparr>"

definition all_decls :: "string \<Rightarrow> command_decl list" where
  "all_decls ps =
    [decl_VersionCommand, decl_PrintFormatCommand, decl_PieCommand, decl_PieBreakpointCommand,
     decl_PieInfoCommand, decl_PieDeleteCommand, decl_PieRunCommand, decl_PieAttachCommand,
     decl_PieRemoteCommand, decl_SmartEvalCommand, decl_CanaryCommand, decl_ProcessStatusCommand,
     decl_GefThemeCommand, decl_PCustomCommand, decl_PCustomListCommand, decl_PCustomShowCommand,
     decl_PCustomEditCommand, decl_ChangeFdCommand, decl_ScanSectionCommand, decl_SearchPatternCommand,
     decl_FlagsCommand, decl_RemoteCommand, decl_SkipiCommand, decl_NopCommand,
     decl_StubCommand, decl_GlibcHeapCommand, decl_GlibcHeapSetArenaCommand, decl_GlibcHeapArenaCommand,
     decl_GlibcHeapChunkCommand, decl_GlibcHeapChunksCommand, decl_GlibcHeapBinsCommand, decl_GlibcHeapTcachebinsCommand,
     decl_GlibcHeapFastbinsYCommand, decl_GlibcHeapUnsortedBinsCommand, decl_GlibcHeapSmallBinsCommand, decl_GlibcHeapLargeBinsCommand,
     decl_DetailRegistersCommand, decl_ShellcodeCommand, decl_ShellcodeSearchCommand, decl_ShellcodeGetCommand,
     decl_ProcessListingCommand ps, decl_ElfInfoCommand, decl_EntryPointBreakCommand, decl_NamedBreakpointCommand,
     decl_ContextCommand, decl_MemoryCommand, decl_MemoryWatchCommand, decl_MemoryUnwatchCommand,
     decl_MemoryWatchResetCommand, decl_MemoryWatchListCommand, decl_HexdumpCommand, decl_HexdumpQwordCommand,
     decl_HexdumpDwordCommand, decl_HexdumpWordCommand, decl_HexdumpByteCommand, decl_PatchCommand,
     decl_PatchQwordCommand, decl_PatchDwordCommand, decl_PatchWordCommand, decl_PatchByteCommand,
     decl_PatchStringCommand, decl_DereferenceCommand, decl_ASLRCommand, decl_ResetCacheCommand,
     decl_VMMapCommand, decl_XFilesCommand, decl_XAddressInfoCommand, decl_XorMemoryCommand,
     decl_XorMemoryDisplayCommand, decl_XorMemoryPatchCommand, decl_TraceRunCommand, decl_PatternCommand,
     decl_PatternCreateCommand, decl_PatternSearchCommand, decl_ChecksecCommand, decl_GotCommand,
     decl_HighlightCommand, decl_HighlightListCommand, decl_HighlightClearCommand, decl_HighlightAddCommand,
     decl_HighlightRemoveCommand, decl_FormatStringSearchCommand, decl_HeapAnalysisCommand, decl_GefFunctionsCommand,
     decl_AliasesCommand, decl_AliasesAddCommand, decl_AliasesRmCommand, decl_AliasesListCommand]"

end
