(* ===== verification/CommandInit.thy ===== *)
theory CommandInit
  imports CommandTable ConfigFile Commands
begin

text \<open>
  The construction of the commands of \<^verbatim>\<open>scripts/gef.py\<close>: \<^verbatim>\<open>GenericCommand.__init__\<close>, the settings that the
  root command and every registered command add to the configuration, and the registry that the whole file
  builds.  The properties are about the configuration and the commands after the start.
\<close>

section \<open>GenericCommand\<close>

text \<open>The documentation of an instance, from the one of its class\<close>
definition command_doc :: "bool \<Rightarrow> string \<Rightarrow> command_decl \<Rightarrow> string" where
  "command_doc nc doc d =
     str_replace ''    '' [] doc @ colorify nc (CHR 0x0A # ''Syntax: '') ''yellow'' @ cd_syntax d
     @ colorify nc (CHR 0x0A # ''Examples: '' @ [CHR 0x0A, CHR 0x09]) ''yellow'' @ join [CHR 0x0A, CHR 0x09] (cd_examples d)"

text \<open>A class without a name or a syntax is refused when it is defined\<close>
definition init_subclass :: "string list \<Rightarrow> unit result" where
  "init_subclass class_attributes =
     (if {''_cmdline_'', ''_syntax_''} \<subseteq> set class_attributes then Inr () else raise NotImplementedError [])"

definition command_usage :: "bool \<Rightarrow> command_decl \<Rightarrow> string" where
  "command_usage nc d = err_line nc (''Syntax'' @ [CHR 0x0A] @ cd_syntax d)"

definition init_settings :: "hook_env \<Rightarrow> command_decl \<Rightarrow> (config, unit) stm" where
  "init_settings env d =
     foldS (\<lambda>(k, v, desc). gc_setitem env (cd_root d) (cd_name d) k (VTuple [v, VStr desc])) (cd_settings d)"

text \<open>\<^verbatim>\<open>pcustom\<close> registers one more setting, below the directory for temporary files\<close>
definition path_join :: "py_val \<Rightarrow> string \<Rightarrow> py_val result" where
  "path_join v s = (case v of VPath p \<Rightarrow> Inr (VPath (path_norm (p @ ''/'' @ s))) | _ \<Rightarrow> type_error)"

definition pcustom_struct_path :: "hook_env \<Rightarrow> (config, unit) stm" where
  "pcustom_struct_path env cfg =
     (case bindE (cfg_get env cfg ''gef.tempdir'') (\<lambda>v. bindE (path_join v ''structs'') (\<lambda>p.
          setting_init p (Some TPath) ''Path to store/load the structure ctypes files'' [(''on_write'', [CreateFolderTree])])) of
        Inl e \<Rightarrow> (Inl e, cfg)
      | Inr s \<Rightarrow> cfg_set env ''pcustom.struct_path'' (SettingObj s) cfg)"

definition init_command :: "hook_env \<Rightarrow> command_decl \<Rightarrow> (config, unit) stm" where
  "init_command env d =
     bindS (init_settings env d) (\<lambda>_. if cd_name d = ''pcustom'' then pcustom_struct_path env else retS ())"

section \<open>GefCommand\<close>

text \<open>The settings of the root command: name, default, type, description and write hooks; callback 0 is
  \<^verbatim>\<open>reload_extra_plugins\<close>\<close>
definition gef_settings :: "string \<Rightarrow> (string \<times> py_val \<times> py_type \<times> string \<times> hook list) list" where
  "gef_settings tempdir =
     [(''follow_child'', VBool True, TBool, ''Automatically set GDB to follow child when forking'', []),
      (''readline_compat'', VBool False, TBool, ''Workaround for readline SOH/ETX issue (SEGV)'', []),
      (''debug'', VBool False, TBool, ''Enable debug mode for gef'', []),
      (''autosave_breakpoints_file'', VStr [], TStr, ''Automatically save and restore breakpoints'', []),
      (''disable_target_remote_overwrite'', VBool False, TBool, ''Disable the overwrite of `target remote`'', []),
      (''extra_plugins_dir'', VStr [], TStr, ''Autoload additional GEF commands from external directory'', [NoSpaces, Callback 0]),
      (''disable_color'', VBool False, TBool, ''Disable all colors in GEF'', []),
      (''tempdir'', VPath tempdir, TPath, ''Directory to use for temporary/cache content'', [NoSpaces, CreateFolderTree]),
      (''show_deprecation_warnings'', VBool True, TBool, ''Toggle the display of the `deprecated` warnings'', []),
      (''buffer'', VBool True, TBool, ''Internally buffer command output until completion'', []),
      (''bruteforce_main_arena'', VBool False, TBool, ''Allow bruteforcing main_arena symbol if everything else fails'', []),
      (''libc_version'', VStr [], TStr, ''Specify libc version when auto-detection fails'', []),
      (''main_arena_offset'', VStr [], TStr,
        ''Offset from libc base address to main_arena symbol (int or hex). Set to empty string to disable.'', []),
      (''propagate_debug_exception'', VBool False, TBool,
        ''If true, when debug mode is enabled, Python exceptions will be propagated all the way.'', [])]"

definition gef_command_init :: "hook_env \<Rightarrow> string \<Rightarrow> (config, unit) stm" where
  "gef_command_init env tempdir =
     foldS (\<lambda>(k, v, t, desc, hooks) cfg.
       case setting_init v (Some t) desc [(''on_write'', hooks)] of
         Inl e \<Rightarrow> (Inl e, cfg)
       | Inr s \<Rightarrow> cfg_set env (''gef.'' @ k) (SettingObj s) cfg) (gef_settings tempdir)"

text \<open>The commands in the order they are loaded, that of their names\<close>
definition load_order :: "string \<Rightarrow> command_decl list" where
  "load_order ps = sort_key cd_name (all_decls ps)"

definition start_config :: "hook_env \<Rightarrow> string \<Rightarrow> string \<Rightarrow> (config, unit) stm" where
  "start_config env tempdir ps =
     bindS (gef_command_init env tempdir) (\<lambda>_. foldS (init_command env) (load_order ps))"

text \<open>The registry after the file has been read: every class is given to \<^verbatim>\<open>register\<close> where it is defined\<close>
definition class_of :: "command_decl \<Rightarrow> command_class" where
  "class_of d = \<lparr>cc_cmdline = cd_name d, cc_aliases = cd_aliases d\<rparr>"

definition file_registry :: "string list \<Rightarrow> string \<Rightarrow> (registry, unit) stm" where
  "file_registry functions ps =
     bindS (foldS (\<lambda>d. register (CommandClass (class_of d))) (all_decls ps)) (\<lambda>_. foldS (\<lambda>f. register (FunctionClass f)) functions)"

definition function_names :: "string list" where
  "function_names = [''_stack'', ''_heap'', ''_base'', ''_bss'', ''_got'']"

section \<open>Adding settings\<close>

definition plain_setting :: "py_val \<Rightarrow> string \<Rightarrow> setting" where
  "plain_setting v desc = \<lparr>s_value = v, s_type = type_of v, s_desc = desc, s_on_read = [], s_on_write = []\<rparr>"

text \<open>What the settings of a command become\<close>
definition decl_entries :: "command_decl \<Rightarrow> config" where
  "decl_entries d = (if cd_root d then map (\<lambda>(k, v, desc). (gc_setting_name (cd_name d) k, plain_setting v desc)) (cd_settings d) else [])"

lemma update_fresh: "k \<notin> fst ` set xs \<Longrightarrow> AList.update k v xs = xs @ [(k, v)]"
  by (induction xs) auto

lemma gc_setitem_fresh:
  assumes "gc_setting_name c k \<notin> fst ` set cfg" "desc \<noteq> []"
  shows "gc_setitem env True c k (VTuple [v, VStr desc]) cfg = (Inr (), cfg @ [(gc_setting_name c k, plain_setting v desc)])"
proof -
  have "map_of cfg (gc_setting_name c k) = None" using assms(1) by (simp add: map_of_eq_None_iff)
  then show ?thesis using assms
    by (simp add: gc_setitem_def setting_init_def cfg_set_def plain_setting_def update_fresh Let_def)
qed

lemma set_all_fresh:
  "distinct (map fst cfg @ map (\<lambda>(k, v, desc). gc_setting_name c k) xs) \<Longrightarrow> \<forall>(k, v, desc) \<in> set xs. desc \<noteq> [] \<Longrightarrow>
    foldS (\<lambda>(k, v, desc). gc_setitem env True c k (VTuple [v, VStr desc])) xs cfg
      = (Inr (), cfg @ map (\<lambda>(k, v, desc). (gc_setting_name c k, plain_setting v desc)) xs)"
proof (induction xs arbitrary: cfg)
  case (Cons x xs)
  obtain k v desc where x: "x = (k, v, desc)" by (cases x)
  have n: "gc_setting_name c k \<notin> fst ` set cfg" "desc \<noteq> []" using Cons.prems x by (auto simp: image_def)
  show ?case using Cons.IH [of "cfg @ [(gc_setting_name c k, plain_setting v desc)]"] Cons.prems x
    by (auto simp: bindS_def gc_setitem_fresh [OF n])
qed (simp add: retS_def)

lemma set_all_child: "foldS (\<lambda>(k, v, desc). gc_setitem env False c k (VTuple [v, VStr desc])) xs cfg = (Inr (), cfg)"
  by (induction xs) (auto simp: bindS_def retS_def gc_setitem_def)

lemma decl_keys: "map fst (map (\<lambda>(k, v, desc). (gc_setting_name c k, f v desc)) xs) = map (\<lambda>(k, v, desc). gc_setting_name c k) xs"
  by (induction xs) auto

lemma init_settings_fresh:
  assumes "distinct (map fst cfg @ map fst (decl_entries d))" "\<forall>(k, v, desc) \<in> set (cd_settings d). desc \<noteq> []"
  shows "init_settings env d cfg = (Inr (), cfg @ decl_entries d)"
proof (cases "cd_root d")
  case True
  then have "distinct (map fst cfg @ map (\<lambda>(k, v, desc). gc_setting_name (cd_name d) k) (cd_settings d))"
    using assms(1) by (simp only: decl_entries_def decl_keys if_True)
  from set_all_fresh [OF this assms(2)] show ?thesis using True by (simp add: init_settings_def decl_entries_def)
qed (simp add: init_settings_def decl_entries_def set_all_child)

text \<open>Initialising a list of commands, \<^verbatim>\<open>pcustom\<close> apart\<close>
lemma init_commands_fresh:
  "distinct (map fst cfg @ map fst (concat (map decl_entries ds))) \<Longrightarrow> \<forall>d \<in> set ds. cd_name d \<noteq> ''pcustom'' \<and> (\<forall>(k, v, desc) \<in> set (cd_settings d). desc \<noteq> []) \<Longrightarrow>
    foldS (init_command env) ds cfg = (Inr (), cfg @ concat (map decl_entries ds))"
proof (induction ds arbitrary: cfg)
  case (Cons d ds)
  have "init_settings env d cfg = (Inr (), cfg @ decl_entries d)"
    using Cons.prems by (intro init_settings_fresh) auto
  then show ?case using Cons.IH [of "cfg @ decl_entries d"] Cons.prems by (simp add: init_command_def bindS_def retS_def)
qed (simp add: retS_def)

lemma foldS_append: "foldS f (xs @ ys) = bindS (foldS f xs) (\<lambda>_. foldS f ys)"
  by (induction xs) (auto simp: bindS_def retS_def fun_eq_iff split: prod.split sum.split)

text \<open>The root command's settings, when its hooks accept the defaults\<close>
definition gef_entries :: "string \<Rightarrow> config" where
  "gef_entries tempdir = map (\<lambda>(k, v, t, desc, hooks). (''gef.'' @ k,
     \<lparr>s_value = v, s_type = t, s_desc = desc, s_on_read = [], s_on_write = hooks\<rparr>)) (gef_settings tempdir)"

definition accepting :: "hook_env \<Rightarrow> string \<Rightarrow> bool" where
  "accepting env tempdir \<longleftrightarrow> \<not> str_in '' '' tempdir \<and> (\<forall>p. mkdir_tree env p = Inr ()) \<and> (\<forall>n a. callback env n a = Inr ())"

lemma gef_command_init_entries:
  assumes "accepting env tempdir"
  shows "gef_command_init env tempdir [] = (Inr (), gef_entries tempdir)"
  using assms
  by (simp add: gef_command_init_def gef_settings_def gef_entries_def setting_init_def cfg_set_def accepting_def
      no_spaces_def create_folder_tree_def add_hook_def bindS_def retS_def)

section \<open>The whole file\<close>

lemma names_distinct: "distinct (map cd_name (all_decls ps))"
  by code_simp

lemma keys_distinct: "distinct (map fst (gef_entries tempdir @ concat (map decl_entries (all_decls ps))))"
  by code_simp

lemma struct_path_key: "''pcustom.struct_path'' \<notin> set (map fst (gef_entries tempdir @ concat (map decl_entries (all_decls ps))))"
  by code_simp

lemma decls_described: "\<forall>d \<in> set (all_decls ps). (\<forall>(k, v, desc) \<in> set (cd_settings d). desc \<noteq> []) \<and> split_ws (cd_name d) \<noteq> []"
  by code_simp

lemma aliases_distinct: "distinct (concat (map cd_aliases (all_decls ps)))"
  by code_simp

lemma pcustom_decl: "decl_PCustomCommand \<in> set (all_decls ps)" "cd_name decl_PCustomCommand = ''pcustom''"
  by (simp_all add: all_decls_def decl_PCustomCommand_def)

end
