(* ===== verification/CommandStart.thy ===== *)
theory CommandStart
  imports CommandInit
begin

text \<open>
  What the construction of all commands of \<^verbatim>\<open>scripts/gef.py\<close> leaves: the configuration after the start, the
  commands and aliases after loading, and what constructing a command a second time does to its settings.
\<close>

text \<open>The commands around \<^verbatim>\<open>pcustom\<close> in the order they are loaded\<close>
lemma load_order_split:
  obtains xs ys where "load_order ps = xs @ decl_PCustomCommand # ys" "\<forall>d \<in> set (xs @ ys). cd_name d \<noteq> ''pcustom''"
proof -
  have m: "mset (load_order ps) = mset (all_decls ps)" by (simp add: load_order_def)
  then have "decl_PCustomCommand \<in> set (load_order ps)" using pcustom_decl(1) by (metis set_mset_mset)
  then obtain xs ys where s: "load_order ps = xs @ decl_PCustomCommand # ys" by (meson split_list)
  have "mset (map cd_name (load_order ps)) = mset (map cd_name (all_decls ps))" using m by simp
  then have "distinct (map cd_name (load_order ps))" using names_distinct mset_eq_imp_distinct_iff by blast
  then have n: "''pcustom'' \<notin> set (map cd_name (xs @ ys))" by (simp add: s pcustom_decl(2))
  have "\<forall>d \<in> set (xs @ ys). cd_name d \<noteq> ''pcustom''"
  proof
    fix d assume "d \<in> set (xs @ ys)"
    then have "cd_name d \<in> set (map cd_name (xs @ ys))" by (simp only: set_map imageI)
    with n show "cd_name d \<noteq> ''pcustom''" by metis
  qed
  with s show ?thesis by (rule that)
qed

definition struct_path_entry :: "string \<Rightarrow> string \<times> setting" where
  "struct_path_entry tempdir = (''pcustom.struct_path'', \<lparr>s_value = VPath (path_norm (tempdir @ ''/structs'')), s_type = TPath,
     s_desc = ''Path to store/load the structure ctypes files'', s_on_read = [], s_on_write = [CreateFolderTree]\<rparr>)"

lemma pcustom_struct_path_fresh:
  assumes "accepting env tempdir" "map_of cfg ''gef.tempdir'' = Some s" "s_value s = VPath tempdir" "s_on_read s = []"
    and "''pcustom.struct_path'' \<notin> fst ` set cfg"
  shows "pcustom_struct_path env cfg = (Inr (), cfg @ [struct_path_entry tempdir])"
proof -
  have "map_of cfg ''pcustom.struct_path'' = None" using assms(5) by (simp add: map_of_eq_None_iff)
  then show ?thesis using assms
    by (simp add: pcustom_struct_path_def cfg_get_def raw_entry_def path_join_def setting_init_def add_hook_def cfg_set_def
        create_folder_tree_def accepting_def struct_path_entry_def update_fresh)
qed

lemma entries_typed: "typed_config (decl_entries d)"
  by (auto simp: typed_config_def decl_entries_def well_typed_def plain_setting_def)

lemma gef_entries_typed: "typed_config (gef_entries tempdir)"
  by (simp add: typed_config_def gef_entries_def gef_settings_def well_typed_def)

lemma tempdir_entry: "\<exists>s. map_of (gef_entries tempdir) ''gef.tempdir'' = Some s \<and> s_value s = VPath tempdir \<and> s_on_read s = []"
  by (simp add: gef_entries_def gef_settings_def)

lemma mset_concat_map: "mset xs = mset ys \<Longrightarrow> mset (concat (map f xs)) = mset (concat (map f ys))"
  by (metis map_map mset_concat mset_map sum_mset_sum_list)

lemma fst_not_before: "distinct (map fst (as @ x # bs)) \<Longrightarrow> fst x \<notin> fst ` set as"
  by auto

lemma distinct_parts:
  assumes "distinct (map fst (as @ bs @ cs @ x # ds))"
  shows "distinct (map fst as @ map fst bs) \<and> distinct (map fst (as @ bs) @ map fst cs) \<and> distinct (map fst (as @ bs @ cs @ [x]) @ map fst ds)"
  using assms by (simp add: Int_Un_distrib Int_Un_distrib2)


definition demo_hooks :: hook_env where
  "demo_hooks = \<lparr>mkdir_tree = (\<lambda>_. Inr ()), callback = (\<lambda>_ _. Inr ())\<rparr>"


section \<open>A command constructed twice\<close>

text \<open>An existing setting gets the assigned object as it is: the pair of the default and the description\<close>
lemma gc_setitem_again:
  "map_of cfg (gc_setting_name c k) = Some s \<Longrightarrow>
    gc_setitem env True c k v cfg = (Inr (), AList.update (gc_setting_name c k) (s\<lparr>s_value := v\<rparr>) cfg)"
  by (simp add: gc_setitem_def Let_def)

lemma find_app: "find P (xs @ ys) = (case find P xs of None \<Rightarrow> find P ys | Some x \<Rightarrow> Some x)"
  by (induction xs) auto

definition again :: "(string \<times> py_val \<times> string) list \<Rightarrow> string \<Rightarrow> string \<Rightarrow> setting \<Rightarrow> setting" where
  "again xs c n s = (case find (\<lambda>x. gc_setting_name c (fst x) = n) xs of
     None \<Rightarrow> s | Some (k, v, desc) \<Rightarrow> s\<lparr>s_value := VTuple [v, VStr desc]\<rparr>)"

lemma set_name_inj: "gc_setting_name c a = gc_setting_name c b \<Longrightarrow> a = b"
  by (simp add: gc_setting_name_def)

lemma set_all_again:
  "\<forall>(k, v, desc) \<in> set xs. map_of cfg (gc_setting_name c k) \<noteq> None \<Longrightarrow> distinct (map fst xs) \<Longrightarrow>
    \<exists>cfg'. foldS (\<lambda>(k, v, desc). gc_setitem env True c k (VTuple [v, VStr desc])) xs cfg = (Inr (), cfg')
      \<and> (\<forall>n. map_of cfg' n = map_option (again xs c n) (map_of cfg n))"
proof (induction xs arbitrary: cfg)
  case Nil
  then show ?case by (auto simp: retS_def again_def map_option.identity)
next
  case (Cons x xs)
  let ?n = "gc_setting_name c"
  obtain k v desc where x: "x = (k, v, desc)" by (cases x)
  obtain s where s: "map_of cfg (?n k) = Some s" using Cons.prems x by auto
  let ?c = "AList.update (?n k) (s\<lparr>s_value := VTuple [v, VStr desc]\<rparr>) cfg"
  have "\<forall>(k, v, desc) \<in> set xs. map_of ?c (?n k) \<noteq> None" using Cons.prems(1) by (auto simp: AList.update_conv')
  from Cons.IH [OF this] Cons.prems(2) obtain cfg' where
    c: "foldS (\<lambda>(k, v, desc). gc_setitem env True c k (VTuple [v, VStr desc])) xs ?c = (Inr (), cfg')"
    "\<forall>n. map_of cfg' n = map_option (again xs c n) (map_of ?c n)" by auto
  have "find (\<lambda>x. ?n (fst x) = ?n k) xs = None"
    using Cons.prems(2) x set_name_inj by (fastforce simp: find_None_iff image_iff)
  then have "map_of cfg' n = map_option (again (x # xs) c n) (map_of cfg n)" for n
    using c(2) s x by (cases "n = ?n k"; cases "map_of cfg n") (auto simp: again_def AList.update_conv')
  then show ?case
    using c(1) s x gc_setitem_again [OF s, of env "VTuple [v, VStr desc]"] by (intro exI [of _ cfg']) (simp add: bindS_def)
qed

text \<open>C39: a command that is constructed a second time, as after a failed registration of one of its aliases, stores
  in each of its settings the pair of the default and the description in place of a value: none of them has
  its declared type any more.\<close>
theorem second_construction_stores_pairs:
  assumes "cd_root d" "distinct (map fst (cd_settings d))"
    and "\<forall>(k, v, desc) \<in> set (cd_settings d). map_of cfg (gc_setting_name (cd_name d) k) \<noteq> None"
    and "(k, v, desc) \<in> set (cd_settings d)" "map_of cfg (gc_setting_name (cd_name d) k) = Some s"
  shows "\<exists>cfg'. init_settings env d cfg = (Inr (), cfg')
    \<and> map_of cfg' (gc_setting_name (cd_name d) k) = Some (s\<lparr>s_value := VTuple [v, VStr desc]\<rparr>)"
proof -
  obtain as bs where l: "cd_settings d = as @ (k, v, desc) # bs" using assms(4) by (meson split_list)
  then have "k \<notin> fst ` set as" using assms(2) by auto
  then have "find (\<lambda>x. gc_setting_name (cd_name d) (fst x) = gc_setting_name (cd_name d) k) as = None"
    by (force simp: find_None_iff dest!: set_name_inj)
  then have "again (cd_settings d) (cd_name d) (gc_setting_name (cd_name d) k) s = s\<lparr>s_value := VTuple [v, VStr desc]\<rparr>"
    by (simp add: again_def l find_app)
  then show ?thesis using set_all_again [OF assms(3,2), of env] assms(1,5) by (auto simp: init_settings_def)
qed

lemma hexdump_settings: "decl_entries decl_HexdumpCommand = [(''hexdump.always_show_ascii'', plain_setting (VBool False)
    ''If true, hexdump will always display the ASCII dump'')]"
  by code_simp

theorem second_construction_stores_pairs_witness:
  "\<exists>cfg'. init_settings demo_hooks decl_HexdumpCommand (decl_entries decl_HexdumpCommand) = (Inr (), cfg')
    \<and> map_of cfg' (gc_setting_name (cd_name decl_HexdumpCommand) ''always_show_ascii'')
      = Some (plain_setting (VBool False) ''If true, hexdump will always display the ASCII dump''
          \<lparr>s_value := VTuple [VBool False, VStr ''If true, hexdump will always display the ASCII dump'']\<rparr>)"
proof (rule second_construction_stores_pairs)
  show "map_of (decl_entries decl_HexdumpCommand) (gc_setting_name (cd_name decl_HexdumpCommand) ''always_show_ascii'')
      = Some (plain_setting (VBool False) ''If true, hexdump will always display the ASCII dump'')"
    unfolding hexdump_settings by code_simp
  show "\<forall>(k, v, desc) \<in> set (cd_settings decl_HexdumpCommand).
      map_of (decl_entries decl_HexdumpCommand) (gc_setting_name (cd_name decl_HexdumpCommand) k) \<noteq> None"
    unfolding hexdump_settings by code_simp
qed (simp_all add: decl_HexdumpCommand_def)

section \<open>Loading\<close>

abbreviation alias_pairs :: "gef_alias list \<Rightarrow> (string \<times> string) list" where
  "alias_pairs \<equiv> map (\<lambda>a. (al_alias a, al_command a))"

lemma alias_names_pairs: "alias_names als = map fst (alias_pairs als)"
  by simp

lemma load_aliases_fresh:
  assumes "\<forall>a. le_register env a = Inr ()" "split_ws name \<noteq> []" "distinct (alias_names (g_aliases s) @ as)"
  shows "\<exists>als. load_aliases env name as s = (Inr (), s\<lparr>g_aliases := g_aliases s @ als\<rparr>) \<and> alias_pairs als = map (\<lambda>a. (a, name)) as
    \<and> (\<forall>a \<in> set als. al_completes a = (case lookup_command (g_commands s) (hd (split_ws name)) of None \<Rightarrow> False | Some (_, i) \<Rightarrow> lc_complete i))"
  using assms(3)
proof (induction as arbitrary: s)
  case (Cons a as)
  define x where "x = \<lparr>al_alias = a, al_command = name, al_doc = alias_doc (le_no_color env) (g_commands s) name,
    al_completes = (case lookup_command (g_commands s) (hd (split_ws name)) of None \<Rightarrow> False | Some (_, i) \<Rightarrow> lc_complete i)\<rparr>"
  have "\<not> list_ex (\<lambda>y. al_alias y = a) (g_aliases s)" using Cons.prems by (auto simp: list_ex_iff)
  then have x: "alias_init (le_no_color env) (le_register env) (g_commands s) a name (g_aliases s) = (Inr (), g_aliases s @ [x])"
    "al_alias x = a" "al_command x = name"
    "al_completes x = (case lookup_command (g_commands s) (hd (split_ws name)) of None \<Rightarrow> False | Some (_, i) \<Rightarrow> lc_complete i)"
    using assms(1,2) by (simp_all add: alias_init_def x_def Let_def)
  have "distinct (alias_names (g_aliases (s\<lparr>g_aliases := g_aliases s @ [x]\<rparr>)) @ as)" using Cons.prems x(2) by auto
  from Cons.IH [OF this] obtain als where
    l: "load_aliases env name as (s\<lparr>g_aliases := g_aliases s @ [x]\<rparr>) = (Inr (), s\<lparr>g_aliases := g_aliases s @ x # als\<rparr>)"
    "alias_pairs als = map (\<lambda>a. (a, name)) as"
    "\<forall>a \<in> set als. al_completes a = (case lookup_command (g_commands s) (hd (split_ws name)) of None \<Rightarrow> False | Some (_, i) \<Rightarrow> lc_complete i)"
    by auto
  show ?case by (rule exI [of _ "x # als"]) (use x l in simp)
qed simp

lemma load_command_fresh:
  assumes "le_init env (cc_cmdline c) = Inr i" "\<forall>a. le_register env a = Inr ()" "split_ws (cc_cmdline c) \<noteq> []"
    and "distinct (alias_names (g_aliases s) @ cc_aliases c)" "cc_cmdline c \<notin> fst ` set (g_commands s)"
  shows "\<exists>als. load_command env c s = s\<lparr>g_commands := g_commands s @ [(cc_cmdline c, i)], g_aliases := g_aliases s @ als\<rparr>
    \<and> alias_pairs als = map (\<lambda>a. (a, cc_cmdline c)) (cc_aliases c)"
  using load_aliases_fresh [OF assms(2-4)] assms(1,5)
  by (cases s) (auto simp: load_command_def update_fresh)

lemma load_commands_fresh:
  assumes "\<forall>n. is_ok (le_init env n)" "\<forall>a. le_register env a = Inr ()"
  shows "\<forall>c \<in> set cs. split_ws (cc_cmdline c) \<noteq> [] \<Longrightarrow> distinct (map fst (g_commands s) @ map cc_cmdline cs) \<Longrightarrow>
    distinct (alias_names (g_aliases s) @ concat (map cc_aliases cs)) \<Longrightarrow>
    \<exists>s'. fold (load_command env) cs s = s' \<and> g_missing s' = g_missing s \<and> g_functions s' = g_functions s
      \<and> map fst (g_commands s') = map fst (g_commands s) @ map cc_cmdline cs
      \<and> alias_pairs (g_aliases s') = alias_pairs (g_aliases s) @ concat (map (\<lambda>c. map (\<lambda>a. (a, cc_cmdline c)) (cc_aliases c)) cs)"
proof (induction cs arbitrary: s)
  case (Cons c cs)
  obtain i where i: "le_init env (cc_cmdline c) = Inr i" using assms(1) by (auto simp: is_ok_iff)
  obtain als where l: "load_command env c s = s\<lparr>g_commands := g_commands s @ [(cc_cmdline c, i)], g_aliases := g_aliases s @ als\<rparr>"
    "alias_pairs als = map (\<lambda>a. (a, cc_cmdline c)) (cc_aliases c)"
    using load_command_fresh [OF i assms(2), of s] Cons.prems by (auto simp: Int_Un_distrib)
  have "alias_names als = cc_aliases c" unfolding alias_names_pairs l(2) by (simp add: comp_def)
  then show ?case using Cons.IH [of "load_command env c s"] Cons.prems l by auto
qed simp

lemma map_sort_key: "map f (sort_key f xs) = sort (map f xs)"
  by (rule properties_for_sort [symmetric]) simp_all

lemma map_class_sort: "sort_key cc_cmdline (map class_of ds) = map class_of (sort_key cd_name ds)"
proof -
  have "insort_key cc_cmdline (class_of d) (map class_of ds) = map class_of (insort_key cd_name d ds)" for d ds
    by (induction ds) (simp_all add: class_of_def)
  then show ?thesis by (induction ds) (simp_all add: sort_key_def)
qed

lemma register_all:
  "distinct (reg_names reg @ map cc_cmdline cs) \<Longrightarrow>
    foldS (\<lambda>c. register (CommandClass c)) cs reg = (Inr (), reg\<lparr>reg_commands := reg_commands reg @ cs\<rparr>)"
proof (induction cs arbitrary: reg)
  case (Cons c cs)
  have "\<not> list_ex (\<lambda>x. cc_cmdline x = cc_cmdline c) (reg_commands reg)" using Cons.prems by (auto simp: list_ex_iff image_iff)
  then have r: "register (CommandClass c) reg = (Inr (), reg\<lparr>reg_commands := reg_commands reg @ [c]\<rparr>)" by (simp add: register_def)
  have "distinct (reg_names (reg\<lparr>reg_commands := reg_commands reg @ [c]\<rparr>) @ map cc_cmdline cs)" using Cons.prems by auto
  from Cons.IH [OF this] r show ?case by (simp add: bindS_def)
qed (simp add: retS_def)

lemma register_functions:
  "distinct (reg_functions reg @ fs) \<Longrightarrow>
    foldS (\<lambda>f. register (FunctionClass f)) fs reg = (Inr (), reg\<lparr>reg_functions := reg_functions reg @ fs\<rparr>)"
proof (induction fs arbitrary: reg)
  case (Cons f fs)
  have r: "register (FunctionClass f) reg = (Inr (), reg\<lparr>reg_functions := reg_functions reg @ [f]\<rparr>)" using Cons.prems by (simp add: register_def)
  have "distinct (reg_functions (reg\<lparr>reg_functions := reg_functions reg @ [f]\<rparr>) @ fs)" using Cons.prems by auto
  from Cons.IH [OF this] r show ?case by (simp add: bindS_def)
qed (simp add: retS_def)

lemma load_functions_all:
  "\<forall>f. le_function env f = Inr () \<Longrightarrow> load_functions env fs s = (Inr (), s\<lparr>g_functions := g_functions s @ fs\<rparr>)"
  by (induction fs arbitrary: s) simp_all

definition no_registry :: registry where "no_registry = \<lparr>reg_commands = [], reg_functions = []\<rparr>"
definition no_commands :: gdb_state where "no_commands = \<lparr>g_commands = [], g_functions = [], g_missing = [], g_aliases = []\<rparr>"

lemma file_registry_all:
  "file_registry function_names ps no_registry = (Inr (), \<lparr>reg_commands = map class_of (all_decls ps), reg_functions = function_names\<rparr>)"
proof -
  have f: "foldS (\<lambda>d. register (CommandClass (class_of d))) ds reg = foldS (\<lambda>c. register (CommandClass c)) (map class_of ds) reg" for ds reg
    by (induction ds arbitrary: reg) (simp_all add: bindS_def split: prod.split sum.split)
  have "distinct (reg_names no_registry @ map cc_cmdline (map class_of (all_decls ps)))"
    using names_distinct by (simp add: no_registry_def class_of_def comp_def)
  from register_all [OF this]
  have c: "foldS (\<lambda>c. register (CommandClass c)) (map class_of (all_decls ps)) no_registry = (Inr (), \<lparr>reg_commands = map class_of (all_decls ps), reg_functions = []\<rparr>)"
    by (simp add: no_registry_def)
  have "distinct function_names" by (simp add: function_names_def)
  then show ?thesis using c by (simp add: file_registry_def bindS_def f register_functions)
qed

text \<open>C36: when no constructor fails and GDB accepts every name, loading the file registers its 88 commands and 5
  functions without a clash and loads all of them: the commands in the order of their names, none missing,
  and with each its aliases, every alias for its own command.\<close>
theorem every_command_loads:
  assumes "\<forall>n. is_ok (le_init env n)" "\<forall>f. le_function env f = Inr ()" "\<forall>a. le_register env a = Inr ()"
  shows "\<exists>reg s. file_registry function_names ps no_registry = (Inr (), reg) \<and> load env reg no_commands = (Inr (), s)
    \<and> g_missing s = [] \<and> map fst (g_commands s) = sort (map cd_name (all_decls ps)) \<and> g_functions s = sort function_names
    \<and> alias_pairs (g_aliases s) = concat (map (\<lambda>d. map (\<lambda>a. (a, cd_name d)) (cd_aliases d)) (load_order ps))"
proof -
  let ?reg = "\<lparr>reg_commands = map class_of (all_decls ps), reg_functions = function_names\<rparr>"
  let ?cs = "map class_of (load_order ps)" let ?s = "no_commands\<lparr>g_functions := sort function_names\<rparr>"
  have key: "cc_cmdline (class_of d) = cd_name d" "cc_aliases (class_of d) = cd_aliases d" for d by (simp_all add: class_of_def)
  have cs: "new_commands ?reg no_commands = ?cs"
    by (simp add: new_commands_def no_commands_def load_order_def map_class_sort)
  have m: "mset (load_order ps) = mset (all_decls ps)" by (simp add: load_order_def)
  have names: "map cc_cmdline ?cs = sort (map cd_name (all_decls ps))"
    by (simp add: load_order_def key comp_def map_sort_key)
  have "split_ws (cc_cmdline c) \<noteq> []" if "c \<in> set ?cs" for c
    using that decls_described m by (auto simp: key dest!: mset_eq_setD)
  moreover have "distinct (map fst (g_commands ?s) @ map cc_cmdline ?cs)" unfolding names using names_distinct by (simp add: no_commands_def)
  moreover have "distinct (alias_names (g_aliases ?s) @ concat (map cc_aliases ?cs))"
  proof -
    have "mset (concat (map cd_aliases (load_order ps))) = mset (concat (map cd_aliases (all_decls ps)))" by (rule mset_concat_map [OF m])
    then have "distinct (concat (map cd_aliases (load_order ps)))" using aliases_distinct mset_eq_imp_distinct_iff by blast
    then show ?thesis by (simp add: no_commands_def comp_def key)
  qed
  ultimately obtain s' where s': "fold (load_command env) ?cs ?s = s'" "g_missing s' = g_missing ?s" "g_functions s' = g_functions ?s"
    "map fst (g_commands s') = map fst (g_commands ?s) @ map cc_cmdline ?cs"
    "alias_pairs (g_aliases s') = alias_pairs (g_aliases ?s) @ concat (map (\<lambda>c. map (\<lambda>a. (a, cc_cmdline c)) (cc_aliases c)) ?cs)"
    using load_commands_fresh [OF assms(1,3)] by blast
  have "load env ?reg no_commands = (Inr (), s')"
    using s'(1) cs load_functions_all [OF assms(2)] by (simp add: load_def new_functions_def no_commands_def Let_def)
  then show ?thesis using file_registry_all s'(2-5) names by (auto simp: no_commands_def key comp_def)
qed

theorem every_command_loads_witness:
  "\<exists>reg s. file_registry function_names ''/bin/ps'' no_registry = (Inr (), reg)
    \<and> load \<lparr>le_init = \<lambda>_. Inr \<lparr>lc_doc = [], lc_complete = True\<rparr>, le_function = \<lambda>_. Inr (), le_register = \<lambda>_. Inr (), le_no_color = True\<rparr>
        reg no_commands = (Inr (), s)
    \<and> g_missing s = [] \<and> map fst (g_commands s) = sort (map cd_name (all_decls ''/bin/ps'')) \<and> g_functions s = sort function_names
    \<and> alias_pairs (g_aliases s) = concat (map (\<lambda>d. map (\<lambda>a. (a, cd_name d)) (cd_aliases d)) (load_order ''/bin/ps''))"
  by (rule every_command_loads) simp_all

text \<open>Fact: the alias of a command is made before the command is among the loaded ones, so the alias of a command
  of one word never takes over its completion.\<close>
theorem new_aliases_do_not_complete:
  assumes "\<forall>a. le_register env a = Inr ()" "split_ws name = [name]" "distinct (alias_names (g_aliases s) @ as)"
    and "name \<notin> fst ` set (g_commands s)"
  shows "\<exists>als s'. load_aliases env name as s = (Inr (), s') \<and> g_aliases s' = g_aliases s @ als \<and> (\<forall>a \<in> set als. \<not> al_completes a)"
proof -
  have "lookup_command (g_commands s) name = None" using assms(4) by (auto simp: lookup_command_def find_None_iff image_iff)
  then show ?thesis using load_aliases_fresh [OF assms(1) _ assms(3), of name] assms(2) by force
qed

end
