(* ===== verification/Startup.thy ===== *)
theory Startup
  imports CommandInit Search ContextCode Libc
begin

text \<open>
  The start of \<^verbatim>\<open>scripts/gef.py\<close>: the checks of the versions, the search path of a virtual environment, GDB's
  initial settings and the hooks of the last block of the script, the entry points of the root command, the
  set-up of a terminal multiplexer, and the two commands that download a file.  GDB, the operating system and the
  network are parameters.
\<close>

section \<open>Versions\<close>

text \<open>\<^verbatim>\<open>(\d+)[^\d]+(\d+)\<close> at the start of a text\<close>
definition match_two_numbers :: "string \<Rightarrow> (string \<times> string) option" where
  "match_two_numbers s =
     (let a = takeWhile is_dec s; r = dropWhile is_dec s; sep = takeWhile (\<lambda>c. \<not> is_dec c) r;
          b = takeWhile is_dec (dropWhile (\<lambda>c. \<not> is_dec c) r)
      in if a = [] \<or> sep = [] \<or> b = [] then None else Some (a, b))"

definition gdb_version :: "string \<Rightarrow> (int \<times> int) result" where
  "gdb_version v =
     (case search_first match_two_numbers v of
        None \<Rightarrow> raise AttributeError ''NoneType object has no attribute groups''
      | Some m \<Rightarrow> version_ints m)"

definition lexless :: "int \<times> int \<Rightarrow> int \<times> int \<Rightarrow> bool" where
  "lexless a b \<longleftrightarrow> fst a < fst b \<or> fst a = fst b \<and> snd a < snd b"

definition GDB_MIN_VERSION :: "int \<times> int" where "GDB_MIN_VERSION = (8, 0)"
definition PYTHON_MIN_VERSION :: "int \<times> int" where "PYTHON_MIN_VERSION = (3, 6)"

text \<open>The two refusals at the start; \<^verbatim>\<open>exit\<close> is not the replaced \<^verbatim>\<open>sys.exit\<close>: it ends the interpreter\<close>
definition version_check :: "bool \<Rightarrow> int \<times> int \<Rightarrow> int \<times> int \<Rightarrow> string list option" where
  "version_check nc gdb python =
     (let dot = (\<lambda>(a, b). decs a @ ''.'' @ decs b) in
      if fst python = 2 then
        Some [err_line nc ''GEF has dropped Python2 support for GDB when it reached EOL on 2020/01/01.'',
              err_line nc ''If you require GEF for GDB+Python2, use https://github.com/hugsy/gef-legacy.'']
      else if lexless gdb GDB_MIN_VERSION \<or> lexless python PYTHON_MIN_VERSION then
        Some [err_line nc (''You'' @ [CHR 0x27] @ ''re using an old version of GDB. GEF will not work correctly. Consider updating to GDB ''
          @ dot GDB_MIN_VERSION @ '' or higher (with Python '' @ dot PYTHON_MIN_VERSION @ '' or higher).'')]
      else None)"

text \<open>Without GDB's module\<close>
definition import_refused :: "string list \<Rightarrow> string list" where
  "import_refused argv =
     (if 2 \<le> length argv \<and> lower (argv ! 1) \<in> {''--update'', ''--upgrade''}
      then [''[-] `update_gef` is obsolete. Use the `gef.sh` script to update gef from the command line.''] else [])
     @ [''[-] gef cannot run as standalone'']"

definition update_gef :: "string list \<Rightarrow> int" where "update_gef argv = - 1"

section \<open>The search path\<close>

text \<open>\<^verbatim>\<open>gef_pystring(out).strip("\\n")\<close>: the newline of the output has become a backslash and a letter, and
  every one of these two characters is stripped at both ends\<close>
definition python_prefix :: "byte list \<Rightarrow> string" where
  "python_prefix out = (let p = (\<lambda>c. c = CHR 0x5C \<or> c = CHR ''n'') in rstrip_of p (lstrip_of p (gef_pystring out)))"

text \<open>The outputs of the two runs of the interpreter\<close>
definition venv_path :: "byte list \<Rightarrow> string \<Rightarrow> string \<Rightarrow> string list \<Rightarrow> string list" where
  "venv_path prefix_out path_out base_dir sys_path =
     (if python_prefix prefix_out \<noteq> base_dir then sys_path @ split_ws path_out else sys_path)"

text \<open>\<^verbatim>\<open>pathlib.Path(v).stem\<close> of a name without slashes: up to the last dot that is not the first character\<close>
definition stem :: "string \<Rightarrow> string" where
  "stem v = (let r = dropWhile (\<lambda>c. c \<noteq> CHR ''.'') (rev v) in
     if length r \<le> 1 \<or> length r = length v then v else rev (tl r))"

definition pyenv_site_packages :: "string \<Rightarrow> string \<Rightarrow> string" where
  "pyenv_site_packages root version = root @ ''/versions/'' @ version @ ''/lib/python'' @ stem version @ ''/site-packages''"

section \<open>The last block of the script\<close>

definition gdb_initial_settings :: "string option \<Rightarrow> string list" where
  "gdb_initial_settings histfile =
     [''set confirm off'', ''set verbose off'', ''set pagination off'', ''set print elements 0'', ''set history save on'',
      ''set history filename '' @ (case histfile of Some f \<Rightarrow> f | None \<Rightarrow> ''~/.gdb_history''),
      ''set output-radix 0x10'', ''set print pretty on'', ''set disassembly-flavor intel'', ''handle SIGALRM print nopass'']"

text \<open>An error of GDB in one of them is ignored, any other exception is not\<close>
definition initial_settings :: "(string \<Rightarrow> unit result) \<Rightarrow> string option \<Rightarrow> unit io" where
  "initial_settings gdb histfile =
     eachI (\<lambda>cmd. catchI (execI gdb cmd) (\<lambda>x. if exn_cls x \<in> {GdbError, GdbMemoryError} then Some (retI ()) else None))
       (gdb_initial_settings histfile)"

definition dquote :: string where "dquote = [CHR 0x22]"
definition NL :: string where "NL = [CHR 0x0A]"

text \<open>The hooks on \<^verbatim>\<open>target remote\<close>: with the setting off the session is initialised after it, with the setting
  on it is refused\<close>
definition remote_hooks :: "bool \<Rightarrow> string list" where
  "remote_hooks disabled =
     (let name = ''gef.disable_target_remote_overwrite'' in
      if \<not> disabled then
        (let warnmsg = ''Using `target remote` with GEF should work in most cases, but use `gef-remote` if you can. You can disable the overwrite of the `target remote` command by toggling `''
               @ name @ ''` in the config.'';
             ind = replicate 16 (CHR '' '');
             hook = (\<lambda>t. NL @ ind @ ''define target hookpost-'' @ t @ NL @ ind @ ''pi target_remote_posthook()'' @ NL @ ind @ ''context'' @ NL @ ind
               @ ''pi if calling_function() != '' @ dquote @ ''connect'' @ dquote @ '': warn('' @ dquote @ warnmsg @ dquote @ '')'' @ NL @ ind @ ''end'' @ NL
               @ replicate 12 (CHR '' ''))
         in [hook ''remote'', hook ''extended-remote''])
      else
        (let errmsg = ''Using `target remote` does not work, use `gef-remote` instead. You can toggle `'' @ name @ ''` if this is not desired.'';
             hook = ''pi if calling_function() != '' @ dquote @ ''connect'' @ dquote @ '': err('' @ dquote @ errmsg @ dquote @ '')''
         in [''define target hook-remote'' @ NL @ hook @ NL @ ''end'', ''define target hook-extended-remote'' @ NL @ hook @ NL @ ''end'']))"

text \<open>The events in the order they are connected\<close>
datatype gdb_event = OnContinue | OnStop | OnNewObjfile | OnExit | OnMemChanged | OnRegChanged

definition connected_events :: "(gdb_event \<times> string) list" where
  "connected_events =
     [(OnContinue, ''continue_handler''), (OnStop, ''hook_stop_handler''), (OnNewObjfile, ''new_objfile_handler''),
      (OnExit, ''exit_handler''), (OnMemChanged, ''memchanged_handler''), (OnRegChanged, ''regchanged_handler'')]"

text \<open>From the hooks to the end: a process that is already there, the remote hooks, the saved breakpoints and the
  hook that loads new commands after a script\<close>
definition last_steps ::
  "(string \<Rightarrow> unit result) \<Rightarrow> int \<times> int \<Rightarrow> string option \<Rightarrow> unit io \<Rightarrow> bool \<Rightarrow> string \<Rightarrow> bool \<Rightarrow> unit io" where
  "last_steps gdb version progspace_file new_objfile disabled breakpoints_file is_file =
     bindI (case progspace_file of None \<Rightarrow> retI () | Some f \<Rightarrow> if f = [] then retI () else new_objfile) (\<lambda>_.
     bindI (if lexless (9, 0) version then eachI (execI gdb) (remote_hooks disabled) else retI ()) (\<lambda>_.
     bindI (if is_file then execI gdb (''source '' @ breakpoints_file) else retI ()) (\<lambda>_.
     execI gdb (''define hookpost-source'' @ NL @ ''pi gef.gdb.load()'' @ NL @ ''end''))))"

section \<open>The root command\<close>

definition gef_invoke :: "(string \<Rightarrow> unit result) \<Rightarrow> unit io" where
  "gef_invoke gdb = execI gdb ''gef help''"

text \<open>\<^verbatim>\<open>Gef.setup\<close>: the managers are made new, the root command loads, and GDB caches its index\<close>
definition gef_setup :: "(string \<Rightarrow> unit result) \<Rightarrow> string \<Rightarrow> unit result \<Rightarrow> unit io" where
  "gef_setup gdb tempdir command_setup =
     bindI (resI command_setup) (\<lambda>_. execI gdb (''save gdb-index '' @ [CHR 0x27] @ tempdir @ [CHR 0x27]))"

definition reload_extra_plugins :: "int result \<Rightarrow> int" where
  "reload_extra_plugins r = (case r of Inr n \<Rightarrow> n | Inl _ \<Rightarrow> - 1)"

text \<open>A new pane: its name without spaces is added to the layout and to the mapping of the panes\<close>
definition add_context_pane ::
  "hook_env \<Rightarrow> bool \<Rightarrow> string \<Rightarrow> 'p \<Rightarrow> (config \<times> (string \<times> 'p) list, unit) stm" where
  "add_context_pane env loaded pane_name pane = (\<lambda>(cfg, panes).
     if \<not> loaded then (raise KeyError ''context'', (cfg, panes))
     else let name = str_replace '' '' ''_'' pane_name in
       case cfg_get env cfg ''context.layout'' of
         Inl e \<Rightarrow> (Inl e, (cfg, panes))
       | Inr (VStr l) \<Rightarrow>
           (case cfg_set env ''context.layout'' (Val (VStr (l @ '' '' @ name))) cfg of
              (Inl e, cfg') \<Rightarrow> (Inl e, (cfg', panes))
            | (Inr _, cfg') \<Rightarrow> (Inr (), (cfg', AList.update name pane panes)))
       | Inr _ \<Rightarrow> (type_error, (cfg, panes)))"

definition register_external_context_pane ::
  "hook_env \<Rightarrow> bool \<Rightarrow> string \<Rightarrow> 'p \<Rightarrow> (config \<times> (string \<times> 'p) list, unit) stm" where
  "register_external_context_pane = add_context_pane"

text \<open>The panes of the constructor\<close>
definition layout_mapping :: "string list" where
  "layout_mapping = [''legend'', ''regs'', ''stack'', ''code'', ''args'', ''memory'', ''source'', ''trace'', ''threads'', ''extra'']"

record banner_env =
  bn_nc :: bool
  bn_os :: string
  bn_gdb :: string
  bn_time :: string
  bn_python :: "int \<times> int"

definition show_banner :: "banner_env \<Rightarrow> gdb_state \<Rightarrow> unit io" where
  "show_banner e s =
     (let nc = bn_nc e; c = colorify nc; n = length (g_missing s) in
      print_all ([greenify nc ''GEF'' @ '' for '' @ bn_os e @ '' ready, type `'' @ c ''gef'' ''underline yellow'' @ [CHR 0x27]
          @ '' to start, `'' @ c ''gef config'' ''underline pink'' @ [CHR 0x27] @ '' to configure'',
        c (decs (int (length (g_commands s)))) ''bold green'' @ '' commands loaded and '' @ c (decs (int (length (g_functions s)))) ''bold blue''
          @ '' functions added for GDB '' @ c (bn_gdb e) ''bold yellow'' @ '' in '' @ bn_time e @ ''ms using Python engine ''
          @ c (decs (fst (bn_python e)) @ ''.'' @ decs (snd (bn_python e))) ''bold red'']
        @ (if n \<noteq> 0 then [warn_line nc (c (decs (int n)) ''bold red'' @ '' command'' @ (if n > 1 then ''s'' else [])
              @ '' could not be loaded, run `'' @ c ''gef missing'' ''underline pink'' @ ''` to know why.'')] else [])))"

section \<open>Facts\<close>

lemma search_first_none: "\<forall>j < length d. p (drop j (d @ s)) = None \<Longrightarrow> search_first p (d @ s) = search_first p s"
  by (rule search_first_skip)

text \<open>Fact: the version of GDB is the first two numbers of its version text, whatever stands before and after them.\<close>
theorem gdb_version_parses:
  assumes "0 \<le> a" "0 \<le> b" "\<forall>c \<in> set pre. \<not> is_dec c" "r = [] \<or> \<not> is_dec (hd r)" "sep \<noteq> []" "\<forall>c \<in> set sep. \<not> is_dec c"
  shows "gdb_version (pre @ decs a @ sep @ decs b @ r) = Inr (a, b)"
proof -
  let ?t = "decs a @ sep @ decs b @ r"
  have ne: "decs b \<noteq> []" "is_dec (hd (decs b))" "decs a \<noteq> []" "is_dec (hd (decs a))"
    using is_dec_decs [OF assms(2), of "hd (decs b)"] is_dec_decs [OF assms(1), of "hd (decs a)"] assms(1,2) by (auto simp: decs_def)
  have sep: "takeWhile (\<lambda>c. \<not> is_dec c) (sep @ decs b @ r) = sep" "dropWhile (\<lambda>c. \<not> is_dec c) (sep @ decs b @ r) = decs b @ r"
    using assms(6) ne(1,2) by (cases "decs b"; simp add: takeWhile_append2 dropWhile_append2)+
  have hd_sep: "sep @ decs b @ r = [] \<or> \<not> is_dec (hd (sep @ decs b @ r))" using assms(5,6) by (cases sep) auto
  have "match_two_numbers ?t = Some (decs a, decs b)"
    using takeWhile_decs [OF assms(1) hd_sep] takeWhile_decs [OF assms(2,4)] sep ne assms(5) by (simp add: match_two_numbers_def Let_def)
  moreover have "search_first match_two_numbers (c # cs) = Some x" if "match_two_numbers (c # cs) = Some x" for c cs x using that by simp
  ultimately have "search_first match_two_numbers ?t = Some (decs a, decs b)" using ne(3) by (cases ?t) auto
  moreover have "match_two_numbers (drop j (pre @ ?t)) = None" if j: "j < length pre" for j
  proof -
    have "\<not> is_dec (hd (drop j (pre @ ?t)))" "drop j (pre @ ?t) \<noteq> []" using assms(3) j by (auto simp: hd_append hd_drop_conv_nth)
    then show ?thesis by (cases "drop j (pre @ ?t)") (simp_all add: match_two_numbers_def)
  qed
  ultimately show ?thesis
    using search_first_skip [of pre match_two_numbers ?t] by (simp add: gdb_version_def version_ints_def py_int_decs assms(1,2))
qed

theorem gdb_version_parses_witness: "gdb_version (''GNU gdb (GDB) '' @ decs 12 @ ''.'' @ decs 1 @ ''-debian'') = Inr (12, 1)"
  by (rule gdb_version_parses) (simp_all add: is_dec_def)

text \<open>Fact: every one of GDB's initial settings is executed, in order, also when GDB refuses some of them.\<close>
theorem initial_settings_all:
  assumes "\<And>cmd x. gdb cmd = Inl x \<Longrightarrow> exn_cls x = GdbError"
  shows "initial_settings gdb histfile = (map Exec (gdb_initial_settings histfile), Inr ())"
proof -
  have one: "catchI (execI gdb cmd) (\<lambda>x. if exn_cls x \<in> {GdbError, GdbMemoryError} then Some (retI ()) else None) = ([Exec cmd], Inr ())" for cmd
    using assms [of cmd] by (cases "gdb cmd") (auto simp: io_defs catchI_def execI_def)
  have "eachI (\<lambda>cmd. catchI (execI gdb cmd) (\<lambda>x. if exn_cls x \<in> {GdbError, GdbMemoryError} then Some (retI ()) else None)) cmds = (map Exec cmds, Inr ())" for cmds
    by (induction cmds) (simp_all only: eachI.simps one, simp_all add: io_defs)
  then show ?thesis by (simp add: initial_settings_def)
qed

theorem initial_settings_all_witness:
  "initial_settings (\<lambda>cmd. if cmd = ''set output-radix 0x10'' then raise GdbError ''no'' else Inr ()) None
    = (map Exec (gdb_initial_settings None), Inr ())"
  by (rule initial_settings_all) (simp split: if_splits, metis py_exn.sel(1))

text \<open>Fact: a pane that is added stands at the end of the layout under its name with underscores, after all panes that
  were there, and the mapping holds it.\<close>
theorem added_pane_is_last:
  assumes "map_of cfg ''context.layout'' = Some st" "s_value st = VStr l" "s_type st = TStr" "s_on_read st = []" "s_on_write st = []"
    and "str_replace '' '' ''_'' name \<noteq> []" "\<forall>c \<in> set (str_replace '' '' ''_'' name). \<not> is_space c"
  shows "\<exists>cfg' l'. add_context_pane env True name pane (cfg, panes) = (Inr (), (cfg', AList.update (str_replace '' '' ''_'' name) pane panes))
    \<and> map_of cfg' ''context.layout'' = Some (st\<lparr>s_value := VStr l'\<rparr>) \<and> split_ws l' = split_ws l @ [str_replace '' '' ''_'' name]"
proof -
  have "split_ws (l @ '' '' @ n) = split_ws l @ [n]" if "n \<noteq> []" "\<forall>c \<in> set n. \<not> is_space c" for n
    using that split_ws_sep [of "CHR '' ''" l n] split_ws_word [of n] by (simp add: is_space_def)
  then show ?thesis using assms
    by (auto simp: add_context_pane_def cfg_get_def cfg_set_def raw_entry_def Let_def AList.update_conv')
qed

text \<open>Fact: an interpreter below a directory whose name ends in n is taken for a virtual environment: the letter is
  stripped with the newline.\<close>
theorem prefix_loses_letters:
  "python_prefix (map (\<lambda>c. of_nat (of_char c)) (''/opt/python'' @ [CHR 0x0A])) = ''/opt/pytho''"
  "python_prefix (map (\<lambda>c. of_nat (of_char c)) (''/usr'' @ [CHR 0x0A])) = ''/usr''"
  by code_simp+

end
