(* ===== verification/Downloads.thy ===== *)
theory Downloads
  imports Startup Functions
begin

text \<open>
  Commands of \<^verbatim>\<open>scripts/gef.py\<close> that talk to the world outside the debugger: the download of shellcodes and
  of scripts, and the set-up of a terminal multiplexer.  The network, other programs and the file system are
  parameters; a page is its bytes, read as Latin-1 where the code works on bytes.
\<close>

section \<open>Pages\<close>

definition http_get :: "(string \<Rightarrow> (byte list \<times> int) result) \<Rightarrow> string \<Rightarrow> byte list option" where
  "http_get urlopen url = (case urlopen url of Inl _ \<Rightarrow> None | Inr (body, code) \<Rightarrow> if code = 200 then Some body else None)"

record net_env =
  nt_nc :: bool
  nt_open :: "string \<Rightarrow> (byte list \<times> int) result"
  nt_temp :: "string result"

definition api_base :: string where "api_base = ''http://shell-storm.org''"
definition TAB :: string where "TAB = [CHR 0x09]"

text \<open>A line of the answer: author, platform, description, id and link; any other is skipped\<close>
definition shown_shellcode :: "string list \<Rightarrow> string list" where
  "shown_shellcode ref = (case ref of [_, arch, cmd, sid, _] \<Rightarrow> [join TAB [sid, arch, cmd]] | _ \<Rightarrow> [])"

definition search_shellcode :: "net_env \<Rightarrow> string list \<Rightarrow> unit io" where
  "search_shellcode e options =
     (case http_get (nt_open e) (api_base @ ''/api/?s='' @ join ''*'' options) of
        None \<Rightarrow> printI (err_line (nt_nc e) ''Could not query search page'')
      | Some res \<Rightarrow>
          (let refs = map (split_sub ''::::'') (split_sub [CHR 0x5C, CHR ''n''] (gef_pystring res)) in
           bindI (printI (info_line (nt_nc e) ''Showing matching shellcodes'')) (\<lambda>_.
           bindI (printI (info_line (nt_nc e) (join TAB [''Id'', ''Platform'', ''Description'']))) (\<lambda>_.
           bindI (print_all (concat (map shown_shellcode refs))) (\<lambda>_.
           printI (info_line (nt_nc e) ''Use `shellcode get <id>` to fetch shellcode''))))))"

definition shellcode_search_cmd :: "net_env \<Rightarrow> string \<Rightarrow> string list \<Rightarrow> unit io" where
  "shellcode_search_cmd e usage argv =
     (if argv = [] then bindI (printI (err_line (nt_nc e) ''Missing pattern to search'')) (\<lambda>_. printI (syntax_line (nt_nc e) usage))
      else search_shellcode e argv)"

text \<open>The code between the first tags; the temporary file exists before the page is searched\<close>
definition shellcode_of_page :: "string \<Rightarrow> string result" where
  "shellcode_of_page page =
     (case split_sub ''<pre>'' page of
        _ # part # _ \<Rightarrow> Inr (str_replace ''&quot;'' [CHR 0x22] (hd (split_sub ''</pre>'' part)))
      | _ \<Rightarrow> raise IndexError ''list index out of range'')"

definition get_shellcode :: "net_env \<Rightarrow> int \<Rightarrow> unit io" where
  "get_shellcode e sid =
     bindI (printI (info_line (nt_nc e) (''Downloading shellcode id='' @ decs sid))) (\<lambda>_.
     case http_get (nt_open e) (api_base @ ''/shellcode/files/shellcode-'' @ decs sid @ ''.html'') of
       None \<Rightarrow> printI (err_line (nt_nc e) (''Failed to fetch shellcode #'' @ decs sid))
     | Some res \<Rightarrow>
         bindI (printI (ok_line (nt_nc e) ''Downloaded, written to disk...'')) (\<lambda>_.
         bindI (resI (nt_temp e)) (\<lambda>name.
         bindI (emit (WriteFile name [])) (\<lambda>_.
         bindI (resI (shellcode_of_page (latin1 res))) (\<lambda>code.
         bindI (emit (WriteFile name code)) (\<lambda>_.
         printI (ok_line (nt_nc e) (''Shellcode written to '' @ [CHR 0x27] @ name @ [CHR 0x27]))))))))"

definition shellcode_get_cmd :: "net_env \<Rightarrow> string \<Rightarrow> string list \<Rightarrow> unit io" where
  "shellcode_get_cmd e usage argv =
     (let wrong = (\<lambda>m. bindI (printI (err_line (nt_nc e) m)) (\<lambda>_. printI (syntax_line (nt_nc e) usage))) in
      if length argv \<noteq> 1 then wrong ''Missing ID to download''
      else if \<not> isdigit_str (hd argv) then wrong ''ID is not a number''
      else bindI (resI (py_int 10 (hd argv))) (get_shellcode e))"

definition shellcode_cmd :: "bool \<Rightarrow> string \<Rightarrow> unit io" where
  "shellcode_cmd nc usage = bindI (printI (err_line nc ''Missing sub-command (search|get)'')) (\<lambda>_. printI (syntax_line nc usage))"

section \<open>gef install\<close>

text \<open>The state is the files that exist and the names of the loaded commands; \<^verbatim>\<open>ex_source\<close> is what GDB does with
  a script\<close>
record extras_state =
  xs_files :: "(string \<times> string) list"
  xs_commands :: "string list"

record extras_env =
  ex_nc :: bool
  ex_open :: "string \<Rightarrow> (byte list \<times> int) result"
  ex_branch :: string
  ex_dir :: string
  ex_is_dir :: bool
  ex_source :: "string \<Rightarrow> string list \<Rightarrow> unit result \<times> string list"
  ex_run :: "string list \<Rightarrow> unit result"

definition fetch_extras :: "extras_env \<Rightarrow> string \<Rightarrow> string \<Rightarrow> (extras_state, bool) sio" where
  "fetch_extras e script fpath =
     bindX (getX (\<lambda>s. fpath \<in> fst ` set (xs_files s))) (\<lambda>there.
     if there then retX True
     else bindX (printX (info_line (ex_nc e) (''Searching for '' @ [CHR 0x27] @ script @ ''.py'' @ [CHR 0x27] @ '' in `gef-extras@'' @ ex_branch e @ ''`...''))) (\<lambda>_.
       case http_get (ex_open e) (''https://raw.githubusercontent.com/hugsy/gef-extras/'' @ ex_branch e @ ''/scripts/'' @ script @ ''.py'') of
         Some (d # data) \<Rightarrow>
           bindX (emitX (WriteFile fpath (latin1 (d # data)))) (\<lambda>_.
           bindX (modX (\<lambda>s. s\<lparr>xs_files := AList.update fpath (latin1 (d # data)) (xs_files s)\<rparr>)) (\<lambda>_. retX True))
       | _ \<Rightarrow> bindX (printX (warn_line (ex_nc e) ''Not found'')) (\<lambda>_. retX False)))"

text \<open>Of each new command the first character is shown\<close>
definition install_extras_script :: "extras_env \<Rightarrow> string \<Rightarrow> (extras_state, bool) sio" where
  "install_extras_script e script =
     (let fpath = ex_dir e @ ''/'' @ script @ ''.py'' in
      bindX (fetch_extras e script fpath) (\<lambda>found.
      if \<not> found then retX False
      else bindX (getX xs_commands) (\<lambda>old.
           bindX (\<lambda>s. case ex_source e fpath (xs_commands s) of (r, cs) \<Rightarrow> ([Exec (''source '' @ fpath)], r, s\<lparr>xs_commands := cs\<rparr>)) (\<lambda>_.
           bindX (getX (\<lambda>s. filter (\<lambda>c. c \<notin> set old) (xs_commands s))) (\<lambda>new.
           bindX (resX (mapE (\<lambda>c. case c of [] \<Rightarrow> raise IndexError ''string index out of range'' | x # _ \<Rightarrow> Inr (''`'' @ [x] @ ''`'')) new)) (\<lambda>shown.
           bindX (printX (ok_line (ex_nc e) (''Installed file '' @ [CHR 0x27] @ fpath @ [CHR 0x27] @ '', new command(s) available: '' @ join '', '' shown)))
             (\<lambda>_. retX True)))))))"

definition gef_install :: "extras_env \<Rightarrow> string \<Rightarrow> (extras_state, unit) sio" where
  "gef_install e argv =
     (if argv = [] then printX (err_line (ex_nc e) ''No script name provided'')
      else let args = split_ws argv in
      if ''--list'' \<in> set args \<or> ''-l'' \<in> set args
      then resX (ex_run e [''xdg-open'', ''https://github.com/hugsy/gef-extras/'' @ ex_branch e @ ''/''])
      else if \<not> ex_is_dir e then printX (err_line (ex_nc e) ([CHR 0x27] @ ''gef.tempdir'' @ [CHR 0x27] @ '' is not a valid directory''))
      else eachX (\<lambda>script. bindX (install_extras_script e (lower script)) (\<lambda>okay.
             if okay then retX ()
             else printX (warn_line (ex_nc e) (''Failed to install '' @ [CHR 0x27] @ lower script @ [CHR 0x27] @ '', skipping...'')))) args)"

section \<open>tmux and screen\<close>

record mux_env =
  mx_nc :: bool
  mx_getenv :: "string \<Rightarrow> string option"
  mx_which :: "string \<Rightarrow> string result"
  mx_gdb :: "string \<Rightarrow> unit result"
  mx_split :: "string result"
  mx_temp :: "string \<times> string"
  mx_tty :: "string result"

text \<open>The output of the split is the pane and its terminal with a dash between them\<close>
definition pane_and_tty :: "string \<Rightarrow> (string \<times> string) result" where
  "pane_and_tty out = (case split_on (CHR ''-'') (strip out) of
     [pane, pty] \<Rightarrow> Inr (pane, pty)
   | [_] \<Rightarrow> raise ValueError ''not enough values to unpack (expected 2, got 1)''
   | _ \<Rightarrow> raise ValueError ''too many values to unpack (expected 2)'')"

definition redirect_to :: "mux_env \<Rightarrow> string \<Rightarrow> unit io" where
  "redirect_to e pty =
     bindI (printI (ok_line (mx_nc e) (''Setting `context.redirect` to '' @ [CHR 0x27] @ pty @ [CHR 0x27] @ ''...''))) (\<lambda>_.
     bindI (execI (mx_gdb e) (''gef config context.redirect '' @ pty)) (\<lambda>_. printI (ok_line (mx_nc e) ''Done!'')))"

definition tmux_setup :: "mux_env \<Rightarrow> unit io" where
  "tmux_setup e =
     bindI (resI (mx_which e ''tmux'')) (\<lambda>tmux.
     bindI (printI (ok_line (mx_nc e) ''tmux session found, splitting window...'')) (\<lambda>_.
     bindI (resI (bindE (mx_split e) pane_and_tty)) (\<lambda>(pane, pty).
     bindI (execI (mx_gdb e) (''!'' @ [CHR 0x27] @ tmux @ [CHR 0x27] @ '' send-keys -t '' @ pane @ '' '' @ [CHR 0x27] @ ''clear ; cat'' @ [CHR 0x27] @ '' C-m'')) (\<lambda>_.
     bindI (execI (mx_gdb e) (''!'' @ [CHR 0x27] @ tmux @ [CHR 0x27] @ '' select-pane -L'')) (\<lambda>_.
     redirect_to e pty)))))"

definition screen_script :: "string \<Rightarrow> string" where
  "screen_script tty_path = concat (map (\<lambda>l. l @ [CHR 0x0A]) [''startup_message off'', ''split -v'', ''focus right'',
     ''screen bash -c '' @ [CHR 0x27] @ ''tty > '' @ tty_path @ ''; clear; cat'' @ [CHR 0x27], ''focus left''])"

text \<open>An unset variable is written as None\<close>
definition screen_setup :: "mux_env \<Rightarrow> unit io" where
  "screen_setup e =
     (let (script_path, tty_path) = mx_temp e; sty = (case mx_getenv e ''STY'' of Some x \<Rightarrow> x | None \<Rightarrow> ''None'') in
      bindI (resI (mx_which e ''screen'')) (\<lambda>screen.
      bindI (printI (ok_line (mx_nc e) ''screen session found, splitting window...'')) (\<lambda>_.
      bindI (emit (WriteFile script_path (screen_script tty_path))) (\<lambda>_.
      bindI (execI (mx_gdb e) (''!'' @ [CHR 0x27] @ screen @ [CHR 0x27] @ '' -r '' @ [CHR 0x27] @ sty @ [CHR 0x27] @ '' -m -d -X source '' @ script_path)) (\<lambda>_.
      bindI (resI (mx_tty e)) (\<lambda>pty. redirect_to e (strip pty)))))))"

definition tmux_cmd :: "mux_env \<Rightarrow> unit io" where
  "tmux_cmd e =
     (case mx_getenv e ''TMUX'' of
        Some (c # cs) \<Rightarrow> tmux_setup e
      | _ \<Rightarrow> if mx_getenv e ''TERM'' = Some ''screen'' then screen_setup e
             else printI (warn_line (mx_nc e) ''Not in a tmux/screen session''))"

section \<open>Facts\<close>

text \<open>Fact: a tmux session whose name has a dash cannot be set up: the output splits into too many parts.\<close>
theorem dashed_session_refused:
  "pane_and_tty (''my-session:0.1-/dev/pts/3'' @ [CHR 0x0A]) = raise ValueError ''too many values to unpack (expected 2)''"
  "pane_and_tty (''main:0.1-/dev/pts/3'' @ [CHR 0x0A]) = Inr (''main:0.1'', ''/dev/pts/3'')"
  by code_simp+

text \<open>Fact: a page without the code leaves an empty file behind.\<close>
theorem page_without_code_leaves_file:
  assumes "http_get (nt_open e) (api_base @ ''/shellcode/files/shellcode-'' @ decs sid @ ''.html'') = Some res" "nt_temp e = Inr name"
    and "shellcode_of_page (latin1 res) = Inl x"
  shows "get_shellcode e sid = ([Print (info_line (nt_nc e) (''Downloading shellcode id='' @ decs sid)),
    Print (ok_line (nt_nc e) ''Downloaded, written to disk...''), WriteFile name []], Inl x)"
  using assms by (simp add: get_shellcode_def io_defs)

text \<open>Fact: of the commands of an installed script only the first letters are shown.\<close>
theorem new_commands_cut:
  assumes "(ex_dir e @ ''/'' @ script @ ''.py'', txt) \<in> set (xs_files s)"
    and "ex_source e (ex_dir e @ ''/'' @ script @ ''.py'') (xs_commands s) = (Inr (), xs_commands s @ [c # cs])" "c # cs \<notin> set (xs_commands s)"
  shows "install_extras_script e script s = ([Exec (''source '' @ ex_dir e @ ''/'' @ script @ ''.py''),
      Print (ok_line (ex_nc e) (''Installed file '' @ [CHR 0x27] @ ex_dir e @ ''/'' @ script @ ''.py'' @ [CHR 0x27]
        @ '', new command(s) available: '' @ ''`'' @ [c] @ ''`''))], Inr True, s\<lparr>xs_commands := xs_commands s @ [c # cs]\<rparr>)"
proof -
  have "ex_dir e @ ''/'' @ script @ ''.py'' \<in> fst ` set (xs_files s)" using assms(1) by force
  then show ?thesis using assms(2,3)
    by (simp add: install_extras_script_def fetch_extras_def sio_defs Let_def)
qed

end
