(* ===== verification/Caches.thy ===== *)
theory Caches
  imports Libc Structures
begin

text \<open>
  The caches of \<^verbatim>\<open>scripts/gef.py\<close>: the functions under \<^verbatim>\<open>@lru_cache\<close>, the properties that keep their first
  answer, the registers cached by frame, and \<^verbatim>\<open>reset_all_caches\<close>.  The interface of a cache is a locale: what
  it answers is what its function answers, as long as the function stays the same since the last reset.
\<close>

section \<open>The interface\<close>

text \<open>A sequence of calls of one cached function\<close>
fun run_calls :: "(('k \<Rightarrow> 'v result) \<Rightarrow> 'k \<Rightarrow> 'c \<Rightarrow> 'v result \<times> 'c) \<Rightarrow> ('k \<Rightarrow> 'v result) \<Rightarrow> 'k list \<Rightarrow> 'c \<Rightarrow> 'v result list \<times> 'c" where
  "run_calls call f [] c = ([], c)"
| "run_calls call f (k # ks) c = (case call f k c of (r, c') \<Rightarrow> case run_calls call f ks c' of (rs, c'') \<Rightarrow> (r # rs, c''))"

text \<open>\<^verbatim>\<open>agrees f c\<close>: everything the cache \<^verbatim>\<open>c\<close> keeps is an answer of \<^verbatim>\<open>f\<close>\<close>
locale answer_cache =
  fixes call :: "('k \<Rightarrow> 'v result) \<Rightarrow> 'k \<Rightarrow> 'c \<Rightarrow> 'v result \<times> 'c"
    and clear :: "'c \<Rightarrow> 'c"
    and agrees :: "('k \<Rightarrow> 'v result) \<Rightarrow> 'c \<Rightarrow> bool"
  assumes clear_agrees: "agrees f (clear c)"
    and call_answer: "agrees f c \<Longrightarrow> fst (call f k c) = f k"
    and call_agrees: "agrees f c \<Longrightarrow> agrees f (snd (call f k c))"
begin

lemma calls_transparent: "agrees f c \<Longrightarrow> fst (run_calls call f ks c) = map f ks \<and> agrees f (snd (run_calls call f ks c))"
proof (induction ks arbitrary: c)
  case (Cons k ks)
  then show ?case using call_answer [OF Cons.prems] call_agrees [OF Cons.prems] by (auto split: prod.splits simp: prod_eq_iff)
qed simp

text \<open>After a reset no earlier answer is given, whatever function the cache was used with before\<close>
lemma calls_after_reset: "fst (run_calls call f ks (clear c)) = map f ks"
  using calls_transparent [OF clear_agrees] by blast

end

section \<open>lru_cache\<close>

lemma in_set_tlD: "x \<in> set (tl xs) \<Longrightarrow> x \<in> set xs"
  by (cases xs) simp_all

text \<open>The entries, the least recently used first\<close>
record ('k, 'v) lru =
  lru_max :: nat
  lru_entries :: "('k \<times> 'v) list"

definition lru_call :: "('k \<Rightarrow> 'v result) \<Rightarrow> 'k \<Rightarrow> ('k, 'v) lru \<Rightarrow> 'v result \<times> ('k, 'v) lru" where
  "lru_call f k c =
     (case map_of (lru_entries c) k of
        Some v \<Rightarrow> (Inr v, c\<lparr>lru_entries := AList.delete k (lru_entries c) @ [(k, v)]\<rparr>)
      | None \<Rightarrow>
          (case f k of
             Inl x \<Rightarrow> (Inl x, c)
           | Inr v \<Rightarrow> (Inr v, c\<lparr>lru_entries :=
               (if length (lru_entries c) < lru_max c then lru_entries c else tl (lru_entries c)) @ [(k, v)]\<rparr>)))"

definition lru_clear :: "('k, 'v) lru \<Rightarrow> ('k, 'v) lru" where
  "lru_clear c = c\<lparr>lru_entries := []\<rparr>"

definition new_lru :: "nat \<Rightarrow> ('k, 'v) lru" where
  "new_lru n = \<lparr>lru_max = n, lru_entries = []\<rparr>"

definition lru_agrees :: "('k \<Rightarrow> 'v result) \<Rightarrow> ('k, 'v) lru \<Rightarrow> bool" where
  "lru_agrees f c \<longleftrightarrow> (\<forall>(k, v) \<in> set (lru_entries c). f k = Inr v)"

interpretation lru: answer_cache lru_call lru_clear lru_agrees
proof
  fix f :: "'a \<Rightarrow> 'b result" and c k
  show "lru_agrees f (lru_clear c)" by (simp add: lru_agrees_def lru_clear_def)
  assume a: "lru_agrees f c"
  show "fst (lru_call f k c) = f k" using a
    by (cases "map_of (lru_entries c) k") (auto simp: lru_call_def lru_agrees_def dest!: map_of_SomeD split: sum.split)
  show "lru_agrees f (snd (lru_call f k c))" using a
    by (cases "map_of (lru_entries c) k")
      (auto simp: lru_call_def lru_agrees_def AList.delete_eq dest!: map_of_SomeD dest: in_set_tlD split: sum.split)
qed

text \<open>A property that keeps its first answer, as \<^verbatim>\<open>modules\<close> and \<^verbatim>\<open>path\<close> of the structure manager; an answer
  that counts as false is asked for again\<close>
definition kept_call :: "('v \<Rightarrow> bool) \<Rightarrow> (unit \<Rightarrow> 'v result) \<Rightarrow> unit \<Rightarrow> 'v option \<Rightarrow> 'v result \<times> 'v option" where
  "kept_call truth f u c =
     (case c of
        Some v \<Rightarrow> if truth v then (Inr v, c) else (case f () of Inl x \<Rightarrow> (Inl x, c) | Inr w \<Rightarrow> (Inr w, Some w))
      | None \<Rightarrow> (case f () of Inl x \<Rightarrow> (Inl x, c) | Inr w \<Rightarrow> (Inr w, Some w)))"

definition kept_clear :: "'v option \<Rightarrow> 'v option" where "kept_clear c = None"

definition kept_agrees :: "(unit \<Rightarrow> 'v result) \<Rightarrow> 'v option \<Rightarrow> bool" where
  "kept_agrees f c \<longleftrightarrow> (case c of Some v \<Rightarrow> f () = Inr v | None \<Rightarrow> True)"

interpretation kept: answer_cache "kept_call truth" kept_clear kept_agrees for truth
  by unfold_locales (auto simp: kept_call_def kept_clear_def kept_agrees_def split: option.splits sum.splits)

text \<open>The two properties of the structure manager and their reset\<close>
record struct_cache =
  sc_path :: "string option"
  sc_modules :: "(string \<times> module) list option"

definition clear_struct_caches :: "struct_cache \<Rightarrow> struct_cache" where
  "clear_struct_caches s = \<lparr>sc_path = None, sc_modules = None\<rparr>"

definition struct_path :: "string result \<Rightarrow> struct_cache \<Rightarrow> string result \<times> struct_cache" where
  "struct_path setting s = (case kept_call (\<lambda>_. True) (\<lambda>_. setting) () (sc_path s) of (r, c) \<Rightarrow> (r, s\<lparr>sc_path := c\<rparr>))"

definition struct_modules :: "(string \<times> module) list result \<Rightarrow> struct_cache \<Rightarrow> (string \<times> module) list result \<times> struct_cache" where
  "struct_modules loaded s = (case kept_call (\<lambda>ms. ms \<noteq> []) (\<lambda>_. loaded) () (sc_modules s) of (r, c) \<Rightarrow> (r, s\<lparr>sc_modules := c\<rparr>))"

section \<open>Registers\<close>

record frame_view =
  fv_pc :: int
  fv_sp :: int
  fv_parse :: "string \<Rightarrow> int result"
  fv_read :: "string \<Rightarrow> int result"

text \<open>The value in the selected frame: first the expression, then, when GDB refuses it, the register\<close>
definition register_of_frame :: "frame_view \<Rightarrow> string \<Rightarrow> int result" where
  "register_of_frame fr regname =
     (case fv_parse fr regname of
        Inr v \<Rightarrow> Inr v
      | Inl x \<Rightarrow> if exn_cls x \<in> {GdbError, GdbMemoryError} then fv_read fr (lstrip_of (\<lambda>c. c = CHR ''$'') regname) else Inl x)"

text \<open>The cache is keyed by the name and the exclusive or of pc and sp\<close>
definition get_register :: "frame_view \<Rightarrow> string \<Rightarrow> (string \<times> int, int) lru \<Rightarrow> int result \<times> (string \<times> int, int) lru" where
  "get_register fr regname c = lru_call (\<lambda>(r, _). register_of_frame fr r) (regname, fv_pc fr XOR fv_sp fr) c"

definition read_register :: "bool \<Rightarrow> frame_view \<Rightarrow> string \<Rightarrow> (string \<times> int, int) lru \<Rightarrow> int result \<times> (string \<times> int, int) lru" where
  "read_register alive fr regname c =
     (if \<not> alive then (raise GdbError ''No debugging session active'', c) else get_register fr regname c)"

definition arch_reset_caches :: "(string \<times> int, int) lru \<Rightarrow> (string \<times> int, int) lru" where
  "arch_reset_caches c = lru_clear c"

section \<open>Resetting everything\<close>

text \<open>The objects of the script's module, by name, that have a cache; the managers and the architecture\<close>
record ('k, 'v, 'a) all_caches =
  ac_module :: "(string \<times> ('k, 'v) lru) list"
  ac_gef :: "'a gef_caches"
  ac_registers :: "(string \<times> int, int) lru"

definition reset_all_caches :: "('k, 'v, 'a) all_caches \<Rightarrow> ('k, 'v, 'a) all_caches" where
  "reset_all_caches s = s\<lparr>ac_module := map (\<lambda>(n, c). (n, lru_clear c)) (ac_module s),
     ac_gef := gef_reset_caches (ac_gef s), ac_registers := arch_reset_caches (ac_registers s)\<rparr>"

text \<open>\<^verbatim>\<open>reset\<close>: the name is looked up among the local variables, of which \<^verbatim>\<open>arch\<close> is the only one, so the new root
  object replaces the old one without its architecture\<close>
definition reset_root :: "('g \<Rightarrow> 'a) \<Rightarrow> ('a \<Rightarrow> 'g \<Rightarrow> 'g) \<Rightarrow> 'g result \<Rightarrow> 'g \<Rightarrow> 'g result" where
  "reset_root arch_of set_arch new old =
     (let local_names = [''arch'']; arch = (if ''gef'' \<in> set local_names then Some (arch_of old) else None) in
      bindE new (\<lambda>g. Inr (case arch of None \<Rightarrow> g | Some a \<Rightarrow> set_arch a g)))"

section \<open>Properties\<close>

lemma lru_bound: "length (lru_entries c) \<le> lru_max c \<Longrightarrow> 0 < lru_max c \<Longrightarrow> length (lru_entries (snd (lru_call f k c))) \<le> lru_max c"
proof (cases "map_of (lru_entries c) k")
  case (Some v)
  then have "length (AList.delete k (lru_entries c)) < length (lru_entries c)"
    by (auto simp: AList.delete_eq intro!: length_filter_less dest: map_of_SomeD)
  moreover assume "length (lru_entries c) \<le> lru_max c"
  ultimately show ?thesis using Some by (simp add: lru_call_def)
qed (auto simp: lru_call_def split: sum.split)

lemma lru_max_call [simp]: "lru_max (snd (lru_call f k c)) = lru_max c"
  by (simp add: lru_call_def split: option.split sum.split)



text \<open>Fact: after a reset every register read in a frame is the one of this frame, for any number of reads in it,
  whatever was read in other frames before.\<close>
theorem registers_after_reset:
  "fst (get_register fr r (arch_reset_caches c)) = register_of_frame fr r"
  using lru.call_answer [OF lru.clear_agrees, of "\<lambda>(r, _). register_of_frame fr r" "(r, fv_pc fr XOR fv_sp fr)" c]
  by (simp add: get_register_def arch_reset_caches_def)

text \<open>Fact: two frames whose pc and sp have the same exclusive or share their registers: after a register is read in
  one of them the other one shows the same value until the next reset, whatever it holds there.\<close>
theorem colliding_frames_share_registers:
  assumes "fv_pc fr1 XOR fv_sp fr1 = fv_pc fr2 XOR fv_sp fr2" "register_of_frame fr1 r = Inr v"
  shows "fst (get_register fr2 r (snd (get_register fr1 r (arch_reset_caches c)))) = Inr v"
  using assms by (simp add: get_register_def arch_reset_caches_def lru_clear_def lru_call_def)

definition demo_frame :: "int \<Rightarrow> int \<Rightarrow> int \<Rightarrow> frame_view" where
  "demo_frame pc sp rax = \<lparr>fv_pc = pc, fv_sp = sp, fv_parse = (\<lambda>_. Inr rax), fv_read = (\<lambda>_. Inr rax)\<rparr>"

theorem colliding_frames_share_registers_witness:
  "fst (get_register (demo_frame 0x401010 0x7ffe0010 2) ''$rax'' (snd (get_register (demo_frame 0x401000 0x7ffe0000 1) ''$rax'' (arch_reset_caches (new_lru 128)))))
    = Inr 1"
  by (rule colliding_frames_share_registers) (simp_all add: demo_frame_def register_of_frame_def)

text \<open>Fact: a reset clears every cached function of the module and the registers, and leaves the version of the C
  library.\<close>
theorem reset_clears:
  "lru_entries (ac_registers (reset_all_caches s)) = []" "\<forall>(n, c) \<in> set (ac_module (reset_all_caches s)). lru_entries c = []"
  "gc_libc (ac_gef (reset_all_caches s)) = gc_libc (ac_gef s)"
  by (auto simp: reset_all_caches_def lru_clear_def arch_reset_caches_def gef_reset_caches_def)

text \<open>Fact: the architecture is lost with the old root object.\<close>
theorem reset_loses_architecture: "reset_root arch_of set_arch new old = new"
  by (cases new) (simp_all add: reset_root_def)

end
