(* ===== verification/HeapRun.thy ===== *)
theory HeapRun
  imports HeapTrack
begin

text \<open>
  Whole runs under \<^verbatim>\<open>heap-analysis-helper\<close> of \<^verbatim>\<open>scripts/gef.py\<close>: the breakpoint objects and how they are
  created, the handlers at the entry of the allocation functions, and calls of the program in sequence, each of
  which passes the handler at its entry and the one at its return.  The properties compare the tracking lists
  with what the program has allocated.
\<close>

section \<open>Breakpoint objects\<close>

datatype gdb_bp_kind = BreakpointKind | WatchpointKind | FinishKind

text \<open>What a constructor asks GDB for: the location, and the attributes that it sets afterwards\<close>
record gdb_bp =
  gb_spec :: string
  gb_kind :: gdb_bp_kind
  gb_internal :: bool
  gb_temporary :: bool
  gb_silent :: bool

definition internal_bp :: "string \<Rightarrow> gdb_bp" where
  "internal_bp spec = \<lparr>gb_spec = spec, gb_kind = BreakpointKind, gb_internal = True, gb_temporary = False, gb_silent = True\<rparr>"

definition finish_bp :: gdb_bp where
  "finish_bp = \<lparr>gb_spec = [], gb_kind = FinishKind, gb_internal = True, gb_temporary = True, gb_silent = True\<rparr>"

definition trace_malloc_init :: "string \<Rightarrow> gdb_bp" where "trace_malloc_init name = internal_bp name"
definition trace_realloc_init :: gdb_bp where "trace_realloc_init = internal_bp ''__libc_realloc''"
definition trace_free_init :: gdb_bp where "trace_free_init = internal_bp ''__libc_free''"

definition uaf_watchpoint_init :: "int \<Rightarrow> gdb_bp" where
  "uaf_watchpoint_init addr =
     \<lparr>gb_spec = CHR ''*'' # hexs addr, gb_kind = WatchpointKind, gb_internal = True, gb_temporary = False, gb_silent = True\<rparr>"

text \<open>The return breakpoints, with what they remember\<close>
datatype ret_bp = MallocRet int string | ReallocRet int int | FreeRet int

definition ret_bp_init :: "ret_bp \<Rightarrow> gdb_bp \<times> ret_bp" where
  "ret_bp_init r = (finish_bp, r)"

section \<open>Entry handlers\<close>

text \<open>The result is whether the execution stops, and the return breakpoint that is set.  A parameter is its place and
  its value.\<close>
definition malloc_stop :: "string \<Rightarrow> (string \<times> int) result \<Rightarrow> (bool \<times> ret_bp) result" where
  "malloc_stop name param = bindE param (\<lambda>(_, sz).
     if sz = 0 then raise AssertionError [] else Inr (False, snd (ret_bp_init (MallocRet sz name))))"

definition realloc_stop :: "(string \<times> int) result \<Rightarrow> (string \<times> int) result \<Rightarrow> (bool \<times> ret_bp) result" where
  "realloc_stop param0 param1 = bindE param0 (\<lambda>(_, ptr). bindE param1 (\<lambda>(_, sz).
     Inr (False, snd (ret_bp_init (ReallocRet ptr sz)))))"

text \<open>A call of the program: what it passes and what the C library returns; \<^verbatim>\<open>csize\<close> reads the size of a chunk at this
  time, \<^verbatim>\<open>can_watch\<close> is whether GDB sets the watchpoint\<close>
datatype heap_call =
    Alloc string int int "int \<Rightarrow> int result"
  | Resize int int int bool
  | Release int bool

definition param :: "int \<Rightarrow> (string \<times> int) result" where
  "param v = Inr (''reg'', v)"

text \<open>One call through both of its handlers\<close>
fun run_call :: "hconf \<Rightarrow> int \<Rightarrow> int \<Rightarrow> heap_call \<Rightarrow> (track, bool) stm" where
  "run_call c align pc (Alloc name sz loc csize) s =
     (case malloc_stop name (param sz) of
        Inr (False, MallocRet n f) \<Rightarrow> malloc_ret c csize align f n (Inr loc) s
      | Inr (b, _) \<Rightarrow> (Inr b, s)
      | Inl x \<Rightarrow> (Inl x, s))"
| "run_call c align pc (Resize ptr sz newloc debug) s =
     (case realloc_stop (param ptr) (param sz) of
        Inr (False, ReallocRet p n) \<Rightarrow> realloc_ret c debug p n (Inr newloc) s
      | Inr (b, _) \<Rightarrow> (Inr b, s)
      | Inl x \<Rightarrow> (Inl x, s))"
| "run_call c align pc (Release addr can_watch) s =
     (case free_stop c pc addr s of
        ((stop, False), s') \<Rightarrow> (Inr stop, s')
      | ((stop, True), s') \<Rightarrow> free_ret_stop can_watch addr s')"

text \<open>A sequence of calls: the execution goes on after a stop, and after an exception in a handler, which GDB only
  prints\<close>
fun run_calls :: "hconf \<Rightarrow> int \<Rightarrow> int \<Rightarrow> heap_call list \<Rightarrow> track \<Rightarrow> bool result list \<times> track" where
  "run_calls c align pc [] s = ([], s)"
| "run_calls c align pc (x # xs) s =
     (case run_call c align pc x s of (r, s') \<Rightarrow> case run_calls c align pc xs s' of (rs, s'') \<Rightarrow> (r # rs, s''))"

section \<open>What the program has allocated\<close>

text \<open>The blocks in use after the calls, with the sizes that were asked for\<close>
fun live_after :: "(int \<times> int) list \<Rightarrow> heap_call list \<Rightarrow> (int \<times> int) list" where
  "live_after live [] = live"
| "live_after live (Alloc name sz loc csize # xs) = live_after (live @ [(loc, sz)]) xs"
| "live_after live (Release addr w # xs) = live_after (filter (\<lambda>b. fst b \<noteq> addr) live) xs"
| "live_after live (Resize ptr sz newloc d # xs) = live_after (filter (\<lambda>b. fst b \<noteq> ptr) live @ [(newloc, sz)]) xs"

text \<open>Calls of a program and a C library that are correct: a new block is none of those in use, and lies in none of
  their chunks when the overlaps are checked; only blocks in use are released.  Calls of \<^verbatim>\<open>realloc\<close> are excluded, their
  handler is treated apart; blocks of size 0 too.\<close>
fun correct_calls :: "hconf \<Rightarrow> (int \<times> int) list \<Rightarrow> heap_call list \<Rightarrow> bool" where
  "correct_calls c live [] = True"
| "correct_calls c live (Alloc name sz loc csize # xs) \<longleftrightarrow>
     0 < sz \<and> loc \<noteq> 0 \<and> loc \<notin> set (map fst live)
     \<and> (check_overlap c \<longrightarrow> list_all (\<lambda>b. case csize (fst b) of Inr n \<Rightarrow> \<not> (fst b \<le> loc \<and> loc < fst b + n) | Inl _ \<Rightarrow> False) live)
     \<and> correct_calls c (live @ [(loc, sz)]) xs"
| "correct_calls c live (Release addr w # xs) \<longleftrightarrow>
     addr \<in> set (map fst live) \<and> (check_uaf c \<longrightarrow> w) \<and> correct_calls c (filter (\<lambda>b. fst b \<noteq> addr) live) xs"
| "correct_calls c live (Resize ptr sz newloc d # xs) \<longleftrightarrow> False"

text \<open>What holds between the calls\<close>
definition tracks :: "(int \<times> int) list \<Rightarrow> track \<Rightarrow> bool" where
  "tracks live s \<longleftrightarrow> allocated s = live \<and> distinct (map fst live) \<and> 0 \<notin> set (map fst live)
     \<and> distinct (map fst (freed s)) \<and> set (map fst (freed s)) \<inter> set (map fst live) = {}"

section \<open>One call\<close>

lemma overlap_scan_none:
  "list_all (\<lambda>b. case csize (fst b) of Inr n \<Rightarrow> \<not> (fst b \<le> loc \<and> loc < fst b + n) | Inl _ \<Rightarrow> False) live \<Longrightarrow>
    overlap_scan c csize align loc sz live = Inr None"
  by (induction live) (auto split: sum.splits)

lemma pop_distinct:
  "distinct (map fst l) \<Longrightarrow> index_of a (map fst l) = Some i \<Longrightarrow> pop_at i l = filter (\<lambda>b. fst b \<noteq> a) l"
proof (induction l arbitrary: i)
  case (Cons x l)
  show ?case
  proof (cases "fst x = a")
    case True
    then have "a \<notin> fst ` set l" using Cons.prems(1) by simp
    then have "filter (\<lambda>b. fst b \<noteq> a) l = l" by (intro filter_True) auto
    then show ?thesis using True Cons.prems(2) by (simp add: pop_at_def)
  next
    case False
    then obtain j where j: "index_of a (map fst l) = Some j" "i = Suc j" using Cons.prems(2) by auto
    then have "pop_at j l = filter (\<lambda>b. fst b \<noteq> a) l" using Cons by simp
    then show ?thesis using False j(2) by (simp add: pop_at_def)
  qed
qed simp

lemma index_of_member: "a \<in> set xs \<Longrightarrow> \<exists>i. index_of a xs = Some i"
  using index_of_None by (metis option.exhaust)

lemma run_alloc:
  assumes "tracks live s" "correct_calls c live (Alloc name sz loc csize # xs)"
  shows "\<exists>s'. run_call c align pc (Alloc name sz loc csize) s = (Inr False, s') \<and> tracks (live @ [(loc, sz)]) s' \<and> msgs s' = msgs s"
proof -
  obtain r s' where m: "malloc_ret c csize align name sz (Inr loc) s = (r, s')" by fastforce
  have l: "allocated s = live" "0 < sz" using assms by (auto simp: tracks_def)
  have "check_overlap c \<Longrightarrow> overlap_scan c csize align loc sz live = Inr None" using assms(2) overlap_scan_none by simp
  then have s': "r = Inr False" "allocated s' = live @ [(loc, sz)]" "msgs s' = msgs s"
    using m l by (auto simp: malloc_ret_def Let_def purge_uaf_def split: if_splits)
  have "freed s' = filter (\<lambda>it. fst it \<noteq> loc) (freed s)"
    using malloc_ret_freed [OF _ m] assms(1) by (simp add: tracks_def)
  then have "tracks (live @ [(loc, sz)]) s'" using assms s'(2) by (auto simp: tracks_def distinct_map_filter)
  then show ?thesis using m s'(1,3) l(2) by (simp add: malloc_stop_def param_def ret_bp_init_def)
qed

lemma run_release:
  assumes "tracks live s" "addr \<in> set (map fst live)" "check_uaf c \<longrightarrow> w"
  shows "\<exists>s'. run_call c align pc (Release addr w) s = (Inr False, s') \<and> tracks (filter (\<lambda>b. fst b \<noteq> addr) live) s' \<and> msgs s' = msgs s"
proof -
  have t: "allocated s = live" "distinct (map fst live)" "addr \<noteq> 0" "addr \<notin> set (map fst (freed s))"
    using assms(1,2) by (auto simp: tracks_def)
  obtain i where i: "index_of addr (map fst (allocated s)) = Some i" using index_of_member assms(2) t(1) by metis
  obtain s1 where f: "free_stop c pc addr s = ((False, check_uaf c), s1)" "allocated s1 = filter (\<lambda>b. fst b \<noteq> addr) live"
    "freed s1 = freed s @ [live ! i]" "msgs s1 = msgs s"
    using free_stop_tracked [OF t(3,4) i, of c pc] pop_distinct [OF _ i] t i by (simp add: free_stop_def Let_def)
  have "i < length live" "fst (live ! i) = addr" using index_of_Some [OF i] t(1) by auto
  then have "tracks (filter (\<lambda>b. fst b \<noteq> addr) live) (s1\<lparr>uaf := u, next_wp := n\<rparr>)" for u n
    using assms(1) f t(4) by (auto simp: tracks_def distinct_map_filter)
  from this [of "next_wp s1" "uaf s1"] this [of "Suc (next_wp s1)" "uaf s1 @ [\<lparr>wp_id = next_wp s1, wp_address = addr\<rparr>]"] show ?thesis
    using f assms(3) by (cases "check_uaf c") (simp_all add: free_ret_stop_def)
qed

lemma run_correct:
  "tracks live s \<Longrightarrow> correct_calls c live xs \<Longrightarrow>
    \<exists>s'. run_calls c align pc xs s = (map (\<lambda>_. Inr False) xs, s') \<and> tracks (live_after live xs) s' \<and> msgs s' = msgs s"
proof (induction xs arbitrary: live s)
  case (Cons x xs)
  have step: "\<exists>s'. run_calls c align pc (x # xs) s = (map (\<lambda>_. Inr False) (x # xs), s') \<and> tracks (live_after l1 xs) s' \<and> msgs s' = msgs s"
    if "run_call c align pc x s = (Inr False, s1)" "tracks l1 s1" "msgs s1 = msgs s" "correct_calls c l1 xs" for s1 l1
    using Cons.IH [OF that(2,4)] that(1,3) by auto
  show ?case
  proof (cases x)
    case (Alloc name sz loc csize)
    have "correct_calls c live (Alloc name sz loc csize # xs)" using Cons.prems(2) Alloc by simp
    from run_alloc [OF Cons.prems(1) this, of align pc] this show ?thesis using step Alloc by auto
  next
    case (Release addr w)
    have "correct_calls c live (Release addr w # xs)" using Cons.prems(2) Release by simp
    from run_release [OF Cons.prems(1), of addr c w align pc] this show ?thesis using step Release by auto
  qed (use Cons.prems in simp)
qed simp

lemma run_calls_append:
  "run_calls c align pc (xs @ ys) s =
     (case run_calls c align pc xs s of (rs, s') \<Rightarrow> case run_calls c align pc ys s' of (rs', s'') \<Rightarrow> (rs @ rs', s''))"
  by (induction xs arbitrary: s) (auto split: prod.splits)

lemma tracks_init: "tracks [] init_track"
  by (simp add: tracks_def init_track_def)

section \<open>Properties\<close>


definition demo_calls :: "heap_call list" where
  "demo_calls = [Alloc ''malloc'' 24 0x5010 (\<lambda>_. Inr 0x20), Alloc ''calloc'' 16 0x5030 (\<lambda>_. Inr 0x20), Release 0x5010 True,
     Alloc ''malloc'' 8 0x5010 (\<lambda>_. Inr 0x20), Release 0x5030 True]"

lemma demo_calls_correct:
  "correct_calls (conf_all\<lparr>check_overlap := b\<rparr>) [] demo_calls" "live_after [] demo_calls = [(0x5010, 8)]"
  by (simp_all add: demo_calls_def conf_all_def)


text \<open>C28: with all checks on, after any sequence of correct calls a call of free stops the program exactly when its
  address is not that of a block in use: null pointers, double frees and addresses that were never allocated are all
  reported with a message and leave the tracking lists as they are.\<close>
theorem bad_frees_reported:
  assumes "correct_calls c [] xs" "check_free_null c" "check_double_free c" "check_weird_free c" "check_uaf c \<longrightarrow> w"
    and "snd (run_calls c align pc xs init_track) = s" "run_call c align pc (Release addr w) s = (r, s')"
  shows "r = Inr (addr \<notin> set (map fst (live_after [] xs)))
    \<and> (r = Inr True \<longrightarrow> allocated s' = allocated s \<and> freed s' = freed s \<and> length (msgs s') = Suc (length (msgs s)))"
proof -
  let ?l = "live_after [] xs"
  have t: "tracks ?l s" using run_correct [OF tracks_init assms(1), of align pc] assms(6) by auto
  show ?thesis
  proof (cases "addr \<in> set (map fst ?l)")
    case True
    then show ?thesis using run_release [OF t True assms(5), of align pc] assms(7) by simp
  next
    case False
    then have "index_of addr (map fst (allocated s)) = None" using t index_of_None by (metis tracks_def)
    then show ?thesis using assms(2-4,7) False
      by (simp add: free_stop_def Let_def split: if_splits) auto
  qed
qed

theorem bad_frees_reported_witness:
  "fst (run_call conf_all 8 0x1000 (Release 0x5030 True) (snd (run_calls conf_all 8 0x1000 demo_calls init_track))) = Inr True"
proof -
  have c: "correct_calls conf_all [] demo_calls" using demo_calls_correct(1) [of False] by (simp add: conf_all_def)
  obtain r s' where r: "run_call conf_all 8 0x1000 (Release 0x5030 True) (snd (run_calls conf_all 8 0x1000 demo_calls init_track)) = (r, s')"
    by fastforce
  from bad_frees_reported [OF c _ _ _ _ refl r] have "r = Inr True" by (simp add: conf_all_def demo_calls_correct(2))
  then show ?thesis using r by simp
qed

text \<open>Fact: a call of malloc with size 0, which is allowed, ends its handler with an exception; the block is not recorded,
  so its correct release stops the program with a false warning.\<close>
theorem empty_allocation_false_alarm:
  assumes "correct_calls c [] xs" "check_weird_free c" "loc \<noteq> 0" "loc \<notin> set (map fst (live_after [] xs))"
    and "s = snd (run_calls c align pc xs init_track)" "loc \<notin> set (map fst (freed s))"
  shows "fst (run_calls c align pc [Alloc name 0 loc csize, Release loc w] s) = [raise AssertionError [], Inr True]"
proof -
  have "tracks (live_after [] xs) s" using run_correct [OF tracks_init assms(1), of align pc] assms(5) by auto
  then have "index_of loc (map fst (allocated s)) = None" using assms(4) index_of_None by (metis tracks_def)
  then show ?thesis using assms(2,3,6) by (simp add: malloc_stop_def param_def free_stop_def Let_def)
qed

section \<open>Setting up and cleaning\<close>

text \<open>The helper's four breakpoints, each with the return breakpoint it set last, the valid breakpoints of GDB, and how
  often its handler is connected to the exit of the process\<close>
record helper =
  hp_bps :: "(nat \<times> nat option) list"
  hp_valid :: "nat list"
  hp_next :: nat
  hp_hooks :: nat

definition heap_breakpoints :: "gdb_bp list" where
  "heap_breakpoints = [trace_malloc_init ''__libc_malloc'', trace_malloc_init ''__libc_calloc'', trace_free_init, trace_realloc_init]"

definition helper_setup :: "helper \<Rightarrow> helper" where
  "helper_setup h = (let new = [hp_next h..<hp_next h + length heap_breakpoints] in
     h\<lparr>hp_bps := map (\<lambda>b. (b, None)) new, hp_valid := hp_valid h @ new, hp_next := hp_next h + length heap_breakpoints,
       hp_hooks := Suc (hp_hooks h)\<rparr>)"

text \<open>A handler sets the return breakpoint of the \<^verbatim>\<open>i\<close>-th breakpoint\<close>
definition helper_entry :: "nat \<Rightarrow> helper \<Rightarrow> helper" where
  "helper_entry i h =
     h\<lparr>hp_bps := (hp_bps h)[i := (fst (hp_bps h ! i), Some (hp_next h))], hp_valid := hp_valid h @ [hp_next h], hp_next := Suc (hp_next h)\<rparr>"

text \<open>A breakpoint that was deleted before is invalid: GDB raises\<close>
definition delete_bp :: "nat \<Rightarrow> (helper, unit) stm" where
  "delete_bp b h = (if b \<in> set (hp_valid h) then (Inr (), h\<lparr>hp_valid := remove1 b (hp_valid h)\<rparr>)
     else (raise RuntimeError ''Breakpoint is invalid.'', h))"

definition delete_tracer :: "nat \<times> nat option \<Rightarrow> (helper, unit) stm" where
  "delete_tracer = (\<lambda>(b, retbp) h.
     delete_bp b (case retbp of None \<Rightarrow> h | Some r \<Rightarrow> snd (delete_bp r h)))"

definition helper_clean :: "nat list \<Rightarrow> (helper, unit) stm" where
  "helper_clean wps h =
     bindS (foldS delete_tracer (hp_bps h)) (\<lambda>_. bindS (foldS delete_bp wps) (\<lambda>_. modS (\<lambda>h'. h'\<lparr>hp_hooks := hp_hooks h' - 1\<rparr>))) h"

definition no_helper :: helper where
  "no_helper = \<lparr>hp_bps = [], hp_valid = [], hp_next = 1, hp_hooks = 0\<rparr>"

text \<open>Deleting what is valid succeeds and removes exactly that\<close>
lemma delete_bps_valid:
  "distinct bs \<Longrightarrow> distinct (hp_valid h) \<Longrightarrow> set bs \<subseteq> set (hp_valid h) \<Longrightarrow>
    foldS delete_bp bs h = (Inr (), h\<lparr>hp_valid := filter (\<lambda>b. b \<notin> set bs) (hp_valid h)\<rparr>)"
proof (induction bs arbitrary: h)
  case (Cons b bs)
  let ?h = "h\<lparr>hp_valid := remove1 b (hp_valid h)\<rparr>"
  have "filter (\<lambda>x. x \<notin> set bs) (remove1 b (hp_valid h)) = filter (\<lambda>x. x \<notin> set (b # bs)) (hp_valid h)"
    using Cons.prems(2) by (simp add: distinct_remove1_removeAll removeAll_filter_not_eq) (rule filter_cong, auto)
  then show ?case using Cons.IH [of ?h] Cons.prems by (auto simp: bindS_def delete_bp_def)
qed (simp add: retS_def)

text \<open>Fact: a helper that is set up once, with no return breakpoint pending, leaves no breakpoint of its own behind and
  keeps all others, whatever watchpoints it has set.\<close>
theorem clean_removes_helper:
  assumes "distinct (hp_valid h)" "\<forall>b \<in> set (hp_valid h). b < hp_next h" "distinct wps" "set wps \<subseteq> set (hp_valid h)"
  shows "\<exists>h'. helper_clean wps (helper_setup h) = (Inr (), h') \<and> hp_valid h' = filter (\<lambda>b. b \<notin> set wps) (hp_valid h)
    \<and> hp_hooks h' = hp_hooks h"
proof -
  let ?new = "[hp_next h..<hp_next h + length heap_breakpoints]" let ?s = "helper_setup h"
  have t: "foldS delete_tracer (map (\<lambda>b. (b, None)) bs) = foldS delete_bp bs" for bs
    by (induction bs) (simp_all add: delete_tracer_def)
  have v: "hp_valid ?s = hp_valid h @ ?new" "hp_bps ?s = map (\<lambda>b. (b, None)) ?new" "hp_hooks ?s = Suc (hp_hooks h)"
    by (simp_all add: helper_setup_def Let_def)
  have d: "distinct (hp_valid ?s)" using assms(1,2) v(1) by auto
  have f: "filter (\<lambda>b. b \<notin> set ?new) (hp_valid ?s) = hp_valid h"
    using assms(2) v(1) by (auto simp: filter_id_conv)
  let ?s1 = "?s\<lparr>hp_valid := hp_valid h\<rparr>"
  have 1: "foldS delete_tracer (hp_bps ?s) ?s = (Inr (), ?s1)"
    unfolding v(2) t using delete_bps_valid [OF _ d, of ?new] v(1) f by simp
  have "foldS delete_bp wps ?s1 = (Inr (), ?s1\<lparr>hp_valid := filter (\<lambda>b. b \<notin> set wps) (hp_valid h)\<rparr>)"
    using delete_bps_valid [OF assms(3), of ?s1] assms(1,4) by simp
  then show ?thesis using 1 v(3) by (simp add: helper_clean_def bindS_def modS_def)
qed

text \<open>Fact: set up twice, the breakpoints of the first time stay and the second of its two handlers fails on the deleted
  ones.\<close>
theorem helper_set_up_twice:
  "hp_valid (snd (helper_clean [] (helper_setup (helper_setup no_helper)))) = [1, 2, 3, 4]"
  "hp_hooks (snd (helper_clean [] (helper_setup (helper_setup no_helper)))) = 1"
  "fst (helper_clean [] (snd (helper_clean [] (helper_setup (helper_setup no_helper))))) = raise RuntimeError ''Breakpoint is invalid.''"
  by code_simp+

end
