(* ===== verification/Guards.thy ===== *)
theory Guards
  imports Functions Elf
begin

text \<open>
  What stands between GDB and the commands of \<^verbatim>\<open>scripts/gef.py\<close>: the decorators that guard a command, the
  functions that connect handlers to GDB's events, the checks of a class when it is defined, the reset of a manager's
  caches, small queries, and the deprecated functions that forward to their replacement with a warning.
\<close>

section \<open>Decorators\<close>

text \<open>The pid of the selected inferior, or the exception; an interrupt by the user is no \<^verbatim>\<open>Exception\<close>\<close>
definition is_alive :: "int result \<Rightarrow> bool result" where
  "is_alive pid =
     (case pid of
        Inr p \<Rightarrow> Inr (0 < p)
      | Inl x \<Rightarrow> if exn_cls x = KeyboardInterrupt then Inl x else Inr False)"

definition only_if_gdb_running :: "bool \<Rightarrow> int result \<Rightarrow> 'a io \<Rightarrow> 'a option io" where
  "only_if_gdb_running nc pid f =
     bindI (resI (is_alive pid)) (\<lambda>alive.
       if alive then bindI f (\<lambda>v. retI (Some v))
       else bindI (printI (warn_line nc ''No debugging session active'')) (\<lambda>_. retI None))"

definition only_if_gdb_target_local :: "bool \<Rightarrow> bool \<Rightarrow> 'a io \<Rightarrow> 'a option io" where
  "only_if_gdb_target_local nc remote f =
     (if \<not> remote then bindI f (\<lambda>v. retI (Some v))
      else bindI (printI (warn_line nc ''This command cannot work for remote sessions.'')) (\<lambda>_. retI None))"

definition experimental_feature :: "bool \<Rightarrow> 'a io \<Rightarrow> 'a io" where
  "experimental_feature nc f =
     bindI (printI (warn_line nc ''This feature is under development, expect bugs and unstability...'')) (\<lambda>_. f)"

text \<open>The names of the stack's functions, the newest last\<close>
definition calling_function :: "string list \<Rightarrow> string option" where
  "calling_function names = (if length names < 3 then None else Some (names ! (length names - 3)))"

definition deprecated_doc :: "string option \<Rightarrow> string \<Rightarrow> string \<Rightarrow> string" where
  "deprecated_doc doc name solution =
     (case doc of Some d \<Rightarrow> d | None \<Rightarrow> []) @ [CHR 0x0D, CHR 0x0A] @ ''`'' @ name @ ''` is **DEPRECATED** and will be removed in the future.''
     @ [CHR 0x0D, CHR 0x0A] @ solution"

text \<open>A property of the class: its function is called with the class\<close>
definition classproperty_get :: "('c \<Rightarrow> 'a result) option \<Rightarrow> 'c \<Rightarrow> 'a result" where
  "classproperty_get fget owner = (case fget of None \<Rightarrow> raise AssertionError [] | Some f \<Rightarrow> f owner)"

section \<open>GDB's events\<close>

text \<open>The registries that this GDB has, with the connected handlers.  A missing registry is an \<^verbatim>\<open>AttributeError\<close>: \<^verbatim>\<open>getattr\<close>
  has no default.\<close>
type_synonym 'h registries = "(string \<times> 'h list) list"

definition only_if_events_supported :: "string \<Rightarrow> ('h registries, unit) stm \<Rightarrow> ('h registries, unit) stm" where
  "only_if_events_supported event_type f regs =
     (case map_of regs event_type of
        None \<Rightarrow> (raise AttributeError (''module gdb.events has no attribute '' @ event_type), regs)
      | Some _ \<Rightarrow> f regs)"

definition connect_event :: "string \<Rightarrow> 'h \<Rightarrow> ('h registries, unit) stm" where
  "connect_event ev h regs = (case map_of regs ev of
     None \<Rightarrow> (raise AttributeError ev, regs) | Some hs \<Rightarrow> (Inr (), AList.update ev (hs @ [h]) regs))"

definition disconnect_event :: "string \<Rightarrow> 'h \<Rightarrow> ('h registries, unit) stm" where
  "disconnect_event ev h regs = (case map_of regs ev of
     None \<Rightarrow> (raise AttributeError ev, regs)
   | Some hs \<Rightarrow> if h \<in> set hs then (Inr (), AList.update ev (remove1 h hs) regs) else (raise SystemError ''unable to disconnect'', regs))"

text \<open>The functions, with their event and whether they connect\<close>
definition event_functions :: "(string \<times> string \<times> bool) list" where
  "event_functions =
     [(''gef_on_continue_hook'', ''cont'', True), (''gef_on_continue_unhook'', ''cont'', False),
      (''gef_on_stop_hook'', ''stop'', True), (''gef_on_stop_unhook'', ''stop'', False),
      (''gef_on_exit_hook'', ''exited'', True), (''gef_on_exit_unhook'', ''exited'', False),
      (''gef_on_new_hook'', ''new_objfile'', True), (''gef_on_new_unhook'', ''new_objfile'', False),
      (''gef_on_unload_objfile_hook'', ''clear_objfiles'', True), (''gef_on_unload_objfile_unhook'', ''clear_objfiles'', False),
      (''gef_on_memchanged_hook'', ''memory_changed'', True), (''gef_on_memchanged_unhook'', ''memory_changed'', False),
      (''gef_on_regchanged_hook'', ''register_changed'', True), (''gef_on_regchanged_unhook'', ''register_changed'', False)]"

definition event_function :: "string \<Rightarrow> 'h \<Rightarrow> ('h registries, unit) stm" where
  "event_function name h =
     (case map_of event_functions name of
        None \<Rightarrow> (\<lambda>regs. (raise AttributeError name, regs))
      | Some (ev, True) \<Rightarrow> only_if_events_supported ev (connect_event ev h)
      | Some (ev, False) \<Rightarrow> only_if_events_supported ev (disconnect_event ev h))"

text \<open>The context command connects two handlers to the continuation of the process\<close>
definition context_post_load :: "'h \<Rightarrow> 'h \<Rightarrow> ('h registries, unit) stm" where
  "context_post_load registers_handler messages_handler =
     bindS (event_function ''gef_on_continue_hook'' registers_handler) (\<lambda>_. event_function ''gef_on_continue_hook'' messages_handler)"

section \<open>Classes\<close>

text \<open>A file format is refused for its first missing attribute, else registered\<close>
definition format_init_subclass :: "string \<Rightarrow> string list \<Rightarrow> (string set, unit) stm" where
  "format_init_subclass cls attributes registered =
     (case find (\<lambda>a. a \<notin> set attributes) [''name'', ''entry_point'', ''is_valid'', ''checksec''] of
        Some a \<Rightarrow> (raise NotImplementedError (''File format '' @ [CHR 0x27] @ cls @ [CHR 0x27] @ '' is invalid: missing attribute ''
            @ [CHR 0x27] @ a @ [CHR 0x27]), registered)
      | None \<Rightarrow> (Inr (), insert cls registered))"

definition arch_init_subclass :: "string list \<Rightarrow> unit result" where
  "arch_init_subclass attributes =
     (if list_all (\<lambda>a. a \<in> set attributes)
           [''arch'', ''mode'', ''aliases'', ''all_registers'', ''nop_insn'', ''return_register'', ''flag_register'',
            ''instruction_length'', ''flags_table'', ''function_parameters'']
      then Inr () else raise NotImplementedError [])"

definition format_str :: "string \<Rightarrow> string \<Rightarrow> int \<Rightarrow> string" where
  "format_str name file entry = name @ ''('' @ [CHR 0x27] @ file @ [CHR 0x27] @ '', entry @ '' @ hexs entry @ '')''"

text \<open>The operations that every architecture must bring itself\<close>
definition abstract_method :: "'a result" where
  "abstract_method = raise NotImplementedError []"

section \<open>The caches of a manager\<close>

text \<open>An attribute of the object when it is read: it raises, has no cache, or has one, which may fail to clear\<close>
datatype 'c attribute = Raises py_exn | NoCache | HasCache "'c result" 'c

definition reset_attribute :: "'c attribute \<Rightarrow> 'c attribute" where
  "reset_attribute a = (case a of HasCache (Inr c) _ \<Rightarrow> HasCache (Inr c) c | _ \<Rightarrow> a)"

definition manager_reset_caches :: "(string \<times> 'c attribute) list \<Rightarrow> (string \<times> 'c attribute) list" where
  "manager_reset_caches = map (\<lambda>(n, a). (n, reset_attribute a))"

section \<open>Queries\<close>

definition is_debug :: "config \<Rightarrow> hook_env \<Rightarrow> bool result" where
  "is_debug cfg env = bindE (cfg_get env cfg ''gef.debug'') (\<lambda>v. Inr (v = VBool True))"

definition buffer_output :: "config \<Rightarrow> hook_env \<Rightarrow> bool result" where
  "buffer_output cfg env = bindE (cfg_get env cfg ''gef.buffer'') (\<lambda>v. Inr (v = VBool True))"

text \<open>A body under \<^verbatim>\<open>DisableContextOutputContext\<close>; the state holds whether the context is hidden\<close>
definition disable_context_output :: "(bool \<times> 's, 'a) stm \<Rightarrow> (bool \<times> 's, 'a) stm" where
  "disable_context_output body = (\<lambda>(_, s). case body (True, s) of (r, (_, s')) \<Rightarrow> (r, (False, s')))"

definition gdb_lookup_symbol :: "('l \<times> 's) result \<Rightarrow> 's option result" where
  "gdb_lookup_symbol decoded =
     (case decoded of
        Inr (_, res) \<Rightarrow> Inr (Some res)
      | Inl x \<Rightarrow> if is_gdb_error x then Inr None else Inl x)"

text \<open>\<^verbatim>\<open>gdb.error\<close> is a \<^verbatim>\<open>RuntimeError\<close>\<close>
definition cached_lookup_type :: "'t result \<Rightarrow> 't option result" where
  "cached_lookup_type found =
     (case found of
        Inr t \<Rightarrow> Inr (Some t)
      | Inl x \<Rightarrow> if exn_cls x = RuntimeError \<or> is_gdb_error x then Inr None else Inl x)"

definition is_64bit :: "nat \<Rightarrow> bool" where "is_64bit ptrsize \<longleftrightarrow> ptrsize = 8"
definition is_32bit :: "nat \<Rightarrow> bool" where "is_32bit ptrsize \<longleftrightarrow> ptrsize = 4"

definition is_syscall :: "arch_desc \<Rightarrow> (int \<Rightarrow> insn result) \<Rightarrow> int + insn \<Rightarrow> bool result" where
  "is_syscall d current instruction =
     bindE (case instruction of Inl a \<Rightarrow> current a | Inr i \<Rightarrow> Inr i) (\<lambda>i.
       Inr (mnemonic i @ (if operands i = [] then [] else '' '' @ join '', '' (operands i)) \<in> set (d_syscall_insns d)))"

definition first_word :: "string list \<Rightarrow> int \<Rightarrow> string result" where
  "first_word ls i =
     (if i < - int (length ls) \<or> int (length ls) \<le> i then raise IndexError ''list index out of range''
      else case split_ws (ls ! nat (if i < 0 then int (length ls) + i else i)) of
        [] \<Rightarrow> raise IndexError ''list index out of range'' | w # _ \<Rightarrow> Inr w)"

text \<open>From GDB's listing of a function: the line after the title and the one before the end\<close>
definition get_function_length :: "string result \<Rightarrow> int result" where
  "get_function_length disassembly =
     bindE disassembly (\<lambda>out. let dis = splitlines out in
     bindE (first_word dis 1) (\<lambda>s. bindE (py_int 16 s) (\<lambda>start_addr.
     bindE (first_word dis (- 2)) (\<lambda>e. bindE (py_int 16 e) (\<lambda>end_addr. Inr (end_addr - start_addr))))))"

definition gef_execute_external :: "(string list \<Rightarrow> string result) \<Rightarrow> string list \<Rightarrow> bool \<Rightarrow> (string list + string) result" where
  "gef_execute_external run command as_list =
     bindE (run command) (\<lambda>out. Inr (if as_list then Inl (splitlines out) else Inr out))"

text \<open>The directories that are made, and the absolute path\<close>
definition gef_makedirs :: "(string \<Rightarrow> bool) \<Rightarrow> (string \<Rightarrow> string) \<Rightarrow> (string \<Rightarrow> unit result) \<Rightarrow> string \<Rightarrow> string io" where
  "gef_makedirs is_dir absolute mkdir p =
     bindI (if is_dir p then retI () else ([MakeDir p], mkdir p)) (\<lambda>_. retI (absolute p))"

definition get_entry_point :: "int option \<Rightarrow> int option" where
  "get_entry_point binary = binary"

text \<open>The frames from the newest on\<close>
fun frames_size :: "'f list \<Rightarrow> nat" where
  "frames_size [] = 0"
| "frames_size (f # older) = Suc (frames_size older)"

definition empty_extra_messages :: "messages \<Rightarrow> messages" where
  "empty_extra_messages ms = []"

section \<open>Deprecated queries\<close>

text \<open>What the functions that are kept for old scripts forward to\<close>
record 'v legacy_env =
  lg_pie_breakpoint :: "int \<Rightarrow> 'v result"
  lg_endianness :: "'v result"
  lg_get_setting :: "string \<Rightarrow> 'v result"
  lg_set_setting :: "string \<Rightarrow> 'v \<Rightarrow> 'v result"
  lg_pagesize :: "'v result"
  lg_canary :: "'v result"
  lg_pid :: "'v result"
  lg_file_name :: "'v result option"
  lg_main_arena :: "'v result"
  lg_register :: "string \<Rightarrow> 'v result"
  lg_maps :: "'v result"
  lg_reset_architecture :: "string option \<Rightarrow> 'v result"

datatype 'v legacy =
    Gef_get_pie_breakpoint int | Endian_str | Get_gef_setting string | Set_gef_setting string 'v
  | Gef_getpagesize | Gef_read_canary | Get_pid | Get_filename | Get_glibc_arena | Get_register string
  | Get_process_maps | Set_arch "string option"

fun legacy_text :: "'v legacy \<Rightarrow> string \<times> string" where
  "legacy_text (Gef_get_pie_breakpoint n) = (''gef_get_pie_breakpoint'', ''Use `gef.session.pie_breakpoints[num]`'')"
| "legacy_text Endian_str = (''endian_str'', ''Use `str(gef.arch.endianness)` instead'')"
| "legacy_text (Get_gef_setting n) = (''get_gef_setting'', ''Use `gef.config[key]`'')"
| "legacy_text (Set_gef_setting n v) = (''set_gef_setting'', ''Use `gef.config[key] = value`'')"
| "legacy_text Gef_getpagesize = (''gef_getpagesize'', ''Use `gef.session.pagesize`'')"
| "legacy_text Gef_read_canary = (''gef_read_canary'', ''Use `gef.session.canary`'')"
| "legacy_text Get_pid = (''get_pid'', ''Use `gef.session.pid`'')"
| "legacy_text Get_filename = (''get_filename'', ''Use `gef.session.file.name`'')"
| "legacy_text Get_glibc_arena = (''get_glibc_arena'', ''Use `gef.heap.main_arena`'')"
| "legacy_text (Get_register r) = (''get_register'', ''Use `gef.arch.register(regname)`'')"
| "legacy_text Get_process_maps = (''get_process_maps'', ''Use `gef.memory.maps`'')"
| "legacy_text (Set_arch a) = (''set_arch'', ''Use `reset_architecture`'')"

fun legacy_answer :: "'v legacy_env \<Rightarrow> 'v legacy \<Rightarrow> 'v result" where
  "legacy_answer e (Gef_get_pie_breakpoint n) = lg_pie_breakpoint e n"
| "legacy_answer e Endian_str = lg_endianness e"
| "legacy_answer e (Get_gef_setting n) = lg_get_setting e n"
| "legacy_answer e (Set_gef_setting n v) = lg_set_setting e n v"
| "legacy_answer e Gef_getpagesize = lg_pagesize e"
| "legacy_answer e Gef_read_canary = lg_canary e"
| "legacy_answer e Get_pid = lg_pid e"
| "legacy_answer e Get_filename = (case lg_file_name e of None \<Rightarrow> raise AssertionError [] | Some n \<Rightarrow> n)"
| "legacy_answer e Get_glibc_arena = lg_main_arena e"
| "legacy_answer e (Get_register r) = lg_register e r"
| "legacy_answer e Get_process_maps = lg_maps e"
| "legacy_answer e (Set_arch a) = lg_reset_architecture e a"

definition legacy_call :: "bool \<Rightarrow> bool \<Rightarrow> bool \<Rightarrow> string \<Rightarrow> int \<Rightarrow> 'v legacy_env \<Rightarrow> 'v legacy \<Rightarrow> 'v io" where
  "legacy_call nc has_gef show_warnings caller loc e x =
     deprecated nc has_gef show_warnings caller loc (fst (legacy_text x)) (snd (legacy_text x)) (resI (legacy_answer e x))"

text \<open>The machine constants of \<^verbatim>\<open>Elf\<close>, read as properties of the class\<close>
definition elf_constants :: "string list" where
  "elf_constants = [''X86_64'', ''X86_32'', ''ARM'', ''MIPS'', ''POWERPC'', ''POWERPC64'', ''SPARC'', ''SPARC64'', ''AARCH64'', ''RISCV'']"

definition elf_constant :: "bool \<Rightarrow> bool \<Rightarrow> bool \<Rightarrow> string \<Rightarrow> int \<Rightarrow> string \<Rightarrow> int io" where
  "elf_constant nc has_gef show_warnings caller loc name =
     (if name \<notin> set elf_constants then raiseI AttributeError name
      else deprecated nc has_gef show_warnings caller loc name (''use `Elf.Abi.'' @ name @ ''`'')
        (case map_of elf_abis name of Some v \<Rightarrow> retI v | None \<Rightarrow> raiseI AttributeError name))"

text \<open>The attributes of the root command that only raise an exception now\<close>
definition obsolete_attribute :: "bool \<Rightarrow> bool \<Rightarrow> bool \<Rightarrow> string \<Rightarrow> int \<Rightarrow> string \<Rightarrow> 'a io" where
  "obsolete_attribute nc has_gef show_warnings caller loc name =
     deprecated nc has_gef show_warnings caller loc name [] (raiseI PlainException (''Obsolete '' @ name))"

section \<open>Facts\<close>

text \<open>Fact: every machine constant that is still offered is one of the known machines.\<close>
theorem elf_constants_known: "\<forall>n \<in> set elf_constants. map_of elf_abis n \<noteq> None"
  by code_simp

text \<open>Fact: connecting a handler and disconnecting it again leaves the handlers of the event as they were, unless it was
  connected already: then the earlier connection is the one that goes.\<close>
theorem hook_then_unhook:
  assumes "map_of regs ev = Some hs"
  shows "disconnect_event ev h (snd (connect_event ev h regs)) = (Inr (), AList.update ev (remove1 h (hs @ [h])) (AList.update ev (hs @ [h]) regs))"
    "h \<notin> set hs \<Longrightarrow> remove1 h (hs @ [h]) = hs"
  using assms by (simp_all add: connect_event_def disconnect_event_def AList.update_conv' remove1_append)

text \<open>Fact: where GDB lacks an event the guard raises an exception; its warning is never printed.\<close>
theorem missing_event_raises:
  assumes "map_of regs ev = None"
  shows "fst (only_if_events_supported ev f regs) = raise AttributeError (''module gdb.events has no attribute '' @ ev)"
  using assms by (simp add: only_if_events_supported_def)

text \<open>Fact: the length of a function is the distance between its first and its last instruction, so the bytes of the last
  one are not counted; when the process stands at the first one, which GDB marks, there is no answer.\<close>
theorem function_length_misses_last:
  assumes "splitlines out = title # l1 # ls @ [l2, footer]" "split_ws l1 = a # ws1" "split_ws l2 = b # ws2" "py_int 16 b = Inr y"
  shows "py_int 16 a = Inr x \<Longrightarrow> get_function_length (Inr out) = Inr (y - x)"
    "a = ''=>'' \<Longrightarrow> \<exists>m. get_function_length (Inr out) = raise ValueError m"
proof -
  have n: "first_word (splitlines out) 1 = Inr a" "first_word (splitlines out) (- 2) = Inr b"
    using assms(1-3) by (simp_all add: first_word_def nth_append nat_add_distrib)
  show "py_int 16 a = Inr x \<Longrightarrow> get_function_length (Inr out) = Inr (y - x)"
    using n assms(4) by (simp add: get_function_length_def)
  have "\<exists>m. py_int 16 ''=>'' = raise ValueError m" by (rule exI, code_simp)
  then show "a = ''=>'' \<Longrightarrow> \<exists>m. get_function_length (Inr out) = raise ValueError m"
    using n by (auto simp: get_function_length_def)
qed

end
