(* ===== verification/Spec2Isabelle.thy ===== *)
theory Spec2Isabelle
  imports Packing Sv39 LinkScripts Target Sections MemMaps Elf HeapManager HeapTrack ArchOthers ConfigFile Commands MemCmds Search Pie Cyclic HeapCmds MapCmds ContextCode Remote Highlight ElfCmds Process Printing Structures Tracing Libc Breakpoints Functions Arguments CommandStart Startup Downloads Caches HeapRun Guards
begin

text \<open>
  Verification development for the Python programs of the OS-Project-Signal repository: \<^verbatim>\<open>scripts/gef.py\<close>, the GDB
  extension with which the kernel is debugged, and the three build and debugging scripts \<^verbatim>\<open>scripts/sv39.py\<close>,
  \<^verbatim>\<open>scripts/pack.py\<close> and \<^verbatim>\<open>scripts/kernelld.py\<close>.  Everything is a shallow embedding: a Python function is a HOL
  function with the same branches, an object is a record, an exception is a value.

  \<^bold>\<open>How the code is represented.\<close>  \<^verbatim>\<open>Prelude\<close> has the exceptions (a class and its message), the result type
  (\<open>Inl\<close> an exception, \<open>Inr\<close> a value), computations over a state that keep the state changes made before an
  exception, dictionaries in insertion order, and the primitives of Python's strings and integers that the sources use
  (\<^verbatim>\<open>split\<close>, \<^verbatim>\<open>strip\<close>, \<^verbatim>\<open>join\<close>, \<^verbatim>\<open>int(s, base)\<close>, \<^verbatim>\<open>hex\<close>, formatting).  Python's integers are
  unbounded and stay \<open>int\<close>; where a width matters (packing, addresses, flags) the reduction is written out.  A text
  is a list of characters, in which the few symbols outside ASCII stand as the bytes of their UTF-8 encoding.  What a function prints is part of its result: a list of lines, or
  the events of \<^verbatim>\<open>Events\<close> where printed lines and commands given to GDB interleave.

  \<^bold>\<open>What is a parameter.\<close>  GDB itself (expressions, memory, symbols, frames, disassembly, breakpoints, the commands that
  are executed), the inferior, the file system, the network, \<^verbatim>\<open>readelf\<close>, \<^verbatim>\<open>ps\<close>, \<^verbatim>\<open>tmux\<close>, regular expressions written
  by the user and Python code that is evaluated are arguments of the definitions that use them, either as functions
  (the records \<^verbatim>\<open>genv\<close>, \<^verbatim>\<open>deref_env\<close>, \<^verbatim>\<open>hook_env\<close> and the like) or as their answers.  Laws about them appear only as hypotheses of the theorems that
  need them, and each such theorem has a witness with a concrete instance.

  \<^bold>\<open>The parts of the program and their theories.\<close>
  \<^item> Scripts: \<^verbatim>\<open>Sv39\<close> (validator, field extraction and page table entries of \<^verbatim>\<open>sv39.py\<close>), \<^verbatim>\<open>LinkScripts\<close> (the text that
    \<^verbatim>\<open>pack.py\<close> and \<^verbatim>\<open>kernelld.py\<close> write for a directory listing).
  \<^item> Helpers: \<^verbatim>\<open>Packing\<close> (\<^verbatim>\<open>p8\<close> to \<^verbatim>\<open>u64\<close>), \<^verbatim>\<open>Target\<close> (alignment, addresses, the memory of the inferior),
    \<^verbatim>\<open>Sections\<close> (\<^verbatim>\<open>Permission\<close>, \<^verbatim>\<open>Section\<close>, \<^verbatim>\<open>Zone\<close>, \<^verbatim>\<open>Address\<close>, \<^verbatim>\<open>Color\<close>), \<^verbatim>\<open>Ui\<close> (messages and output buffering),
    \<^verbatim>\<open>Highlight\<close> (\<^verbatim>\<open>highlight_text\<close> and its commands), \<^verbatim>\<open>Caches\<close> (\<^verbatim>\<open>lru_cache\<close>, registers by frame,
    \<^verbatim>\<open>reset_all_caches\<close>).
  \<^item> Managers of the session: \<^verbatim>\<open>MemMaps\<close> (\<^verbatim>\<open>GefMemoryManager\<close>), \<^verbatim>\<open>HeapManager\<close> (\<^verbatim>\<open>GefHeapManager\<close>), \<^verbatim>\<open>Session\<close>
    (\<^verbatim>\<open>GefSessionManager\<close>), \<^verbatim>\<open>Remote\<close> (\<^verbatim>\<open>GefRemoteSessionManager\<close>, the event handlers and \<^verbatim>\<open>gef-remote\<close>), \<^verbatim>\<open>Libc\<close>
    (\<^verbatim>\<open>GefLibcManager\<close>), \<^verbatim>\<open>Settings\<close> and \<^verbatim>\<open>ConfigFile\<close> (\<^verbatim>\<open>GefSetting\<close>, \<^verbatim>\<open>GefSettingsManager\<close>, \<^verbatim>\<open>gef config\<close>, \<^verbatim>\<open>save\<close>,
    \<^verbatim>\<open>restore\<close>).
  \<^item> Architectures: \<^verbatim>\<open>Architecture\<close>, \<^verbatim>\<open>ArchArm\<close>, \<^verbatim>\<open>ArchX86\<close>, \<^verbatim>\<open>ArchOthers\<close> (one decoder of branches, returns and flags per
    class of \<^verbatim>\<open>gef.py\<close>), \<^verbatim>\<open>Disasm\<close> (previous and next instructions).
  \<^item> Files and the C library: \<^verbatim>\<open>Elf\<close> (\<^verbatim>\<open>Elf\<close>, \<^verbatim>\<open>Phdr\<close>, \<^verbatim>\<open>Shdr\<close>, \<^verbatim>\<open>checksec\<close>), \<^verbatim>\<open>Glibc\<close> and \<^verbatim>\<open>Chunks\<close>
    (\<^verbatim>\<open>GlibcHeapInfo\<close>, \<^verbatim>\<open>GlibcArena\<close>, \<^verbatim>\<open>GlibcChunk\<close>).
  \<^item> Commands: \<^verbatim>\<open>MemCmds\<close> (\<^verbatim>\<open>hexdump\<close>, \<^verbatim>\<open>patch\<close>, \<^verbatim>\<open>xor-memory\<close>, \<^verbatim>\<open>nop\<close>), \<^verbatim>\<open>Search\<close>, \<^verbatim>\<open>Cyclic\<close>, \<^verbatim>\<open>Pie\<close>, \<^verbatim>\<open>Deref\<close>,
    \<^verbatim>\<open>HeapBins\<close> and \<^verbatim>\<open>HeapCmds\<close> (\<^verbatim>\<open>heap\<close>), \<^verbatim>\<open>HeapTrack\<close> and \<^verbatim>\<open>HeapRun\<close> (\<^verbatim>\<open>heap-analysis-helper\<close>), \<^verbatim>\<open>MapCmds\<close>,
    \<^verbatim>\<open>Context\<close> and \<^verbatim>\<open>ContextCode\<close> (the panes of \<^verbatim>\<open>context\<close>), \<^verbatim>\<open>ElfCmds\<close>, \<^verbatim>\<open>Process\<close>, \<^verbatim>\<open>Printing\<close>, \<^verbatim>\<open>Structures\<close>
    (\<^verbatim>\<open>pcustom\<close>), \<^verbatim>\<open>Tracing\<close> (\<^verbatim>\<open>trace-run\<close>), \<^verbatim>\<open>Breakpoints\<close>, \<^verbatim>\<open>Functions\<close>, \<^verbatim>\<open>Aliases\<close>, \<^verbatim>\<open>Downloads\<close>.
  \<^item> The frame around the commands: \<^verbatim>\<open>Guards\<close> (the decorators and GDB's event hooks), \<^verbatim>\<open>Arguments\<close>
    (\<^verbatim>\<open>parse_arguments\<close> with the part of \<^verbatim>\<open>argparse\<close> that it uses), \<^verbatim>\<open>CommandTable\<close> (name, aliases and settings of
    each registered command), \<^verbatim>\<open>CommandInit\<close> and \<^verbatim>\<open>CommandStart\<close> (their construction), \<^verbatim>\<open>Commands\<close> (registry, loading,
    help), \<^verbatim>\<open>Startup\<close> (the script's last block).
  \<^verbatim>\<open>Necklaces\<close> and \<^verbatim>\<open>DeBruijn\<close> hold no code: they are the combinatorics behind the proof about \<^verbatim>\<open>de_bruijn\<close>.

  \<^bold>\<open>How the parts work together.\<close>  \<^verbatim>\<open>Startup\<close> builds the root object; \<^verbatim>\<open>file_registry\<close> collects the classes that
  \<^verbatim>\<open>register\<close> decorates and \<^verbatim>\<open>load\<close> constructs them, whereby each adds its settings to the configuration of \<^verbatim>\<open>Settings\<close>
  and its aliases to those of \<^verbatim>\<open>Aliases\<close>; a command line passes the guards and \<^verbatim>\<open>parse_arguments\<close> before it reaches the
  command.  The commands read the inferior through \<^verbatim>\<open>Target\<close>, look addresses up through \<^verbatim>\<open>MemMaps\<close> and \<^verbatim>\<open>Sections\<close>, and
  share the chunk and arena readers of \<^verbatim>\<open>Chunks\<close> and \<^verbatim>\<open>HeapManager\<close>.  The event handlers of \<^verbatim>\<open>Remote\<close> reset the caches of
  \<^verbatim>\<open>Session\<close>, \<^verbatim>\<open>Libc\<close> and \<^verbatim>\<open>Caches\<close> when the process stops, continues or ends.

  \<^bold>\<open>Interfaces.\<close>  A locale states what one part relies on in another, and is interpreted on the code's model where it is
  provided: \<open>codec\<close> (pack and unpack of one width; \<^verbatim>\<open>Packing\<close>, four instances), \<open>byte_store\<close> (reads after writes; the
  inferior of \<^verbatim>\<open>Target\<close>), \<open>branch_decoder\<close> (the verdict on a conditional branch comes with a reason; one instance per architecture),
  \<open>necklace_listing\<close> (an increasing listing of necklaces spells every word; the generator of \<^verbatim>\<open>Cyclic\<close>),
  \<open>answer_cache\<close> (a cache is transparent; \<open>lru_cache\<close> and the kept properties of \<^verbatim>\<open>Caches\<close>).

  \<^bold>\<open>What the theorems show.\<close>  The numbered properties \<open>C1\<close>, \<open>C2\<close>, \<dots> stand at their theorems; every other proved
  statement about the code is marked as a fact.  Functional properties say what a command prints or leaves for all
  inputs (patterns, patches, searches, listings, panes, tables); round trips relate printing and parsing; invariants
  hold in every state that a sequence of operations reaches (heap tracking, breakpoints, settings, sessions,
  commands); safety properties bound what a command may write; error properties give the exception and the state after
  it.  Several theorems prove behaviour that the code's comments deny or that is clearly not meant; the manifest
  lists them as findings.

  \<^bold>\<open>Loops and bounds.\<close>  A loop whose measure is visible is a total function with its termination proof (the walks over
  the free lists with their set of seen chunks, the chains of pointers and structures up to the configured depth, the
  parser of command lines, the loops over chunks of a range).  Loops that need not end are partial functions whose
  result \<open>None\<close> means that they do not return: \<open>bin_loop\<close> (a corrupted ring of chunks) and \<open>trace_steps\<close> (a trace);
  theorems say exactly when they return.  Walks through the inferior's memory that the code does not bound take a fuel:
  the chunks of a heap, for which \<open>chunk_walk_terminates\<close> shows that the distance to the end of the map plus one is
  enough when the map lies below 2 to the 53; the instructions of \<open>nop_scan\<close>; and the rings of arenas and of heap
  infos, which are whatever the inferior holds, so the statements about them are for every fuel.  The recursion of
  \<^verbatim>\<open>db\<close> is structural in the number of positions left.

  \<^bold>\<open>Not modelled.\<close>  The kernel and its user programs under \<^verbatim>\<open>src/os\<close> are C and assembly; the development is about the Python
  code.  Of \<^verbatim>\<open>gef.py\<close> are left out: deprecated names outside \<^verbatim>\<open>Guards\<close> that only forward to their replacement or return their argument, the
  \<^verbatim>\<open>__repr__\<close> methods and plain accessors of fields, the texts of documentation strings, the constructors of GDB's
  command classes as far as they only pass constants to GDB, the completion of arguments, and real threads and timing.
  Floating point numbers are written out as roundings of rationals where the code rounds through them.
\<close>

end
